(* ===== verification/Prelude.thy ===== *)
theory Prelude
  imports Complex_Main "HOL-Library.AList" "HOL-Library.Product_Lexorder"
begin

text \<open>
  Shared ground of the development: the collections of rewrite rules the component theories
  extend, the result type of operations that may raise, time as the code counts it, and generic
  lemmas on lists, sorting and association lists.
\<close>

named_theorems table_simps \<open>rewriting of table queries and row updates\<close>
named_theorems row_simps \<open>effect of one row update on the columns of the row\<close>
named_theorems db_frame \<open>which tables an operation leaves alone\<close>

section \<open>Errors, time, identifiers\<close>

text \<open>
  A raised exception is the left injection of a result; its transaction is rolled back, so the
  caller goes on with the database it had.  The constructors are the exception classes the
  modelled code raises; the message is kept where the code builds one.
\<close>

datatype py_error =
    Value_error string
  | Type_error
  | Key_error string
  | Attribute_error
  | Os_error string
  | Assertion_error
  | Permission_error string
  | Runtime_error string
  | Sql_error string
  | Http_error nat string

type_synonym 'a result = "py_error + 'a"

fun result_bind :: "'a result \<Rightarrow> ('a \<Rightarrow> 'b result) \<Rightarrow> 'b result" where
  "result_bind (Inl e) f = Inl e"
| "result_bind (Inr x) f = f x"

fun result_map :: "('a \<Rightarrow> 'b) \<Rightarrow> 'a result \<Rightarrow> 'b result" where
  "result_map f (Inl e) = Inl e"
| "result_map f (Inr x) = Inr (f x)"

text \<open>A loop whose body may raise: the first error ends it.\<close>

fun result_fold :: "('s \<Rightarrow> 'a \<Rightarrow> 's result) \<Rightarrow> 's \<Rightarrow> 'a list \<Rightarrow> 's result" where
  "result_fold f s [] = Inr s"
| "result_fold f s (x # xs) = result_bind (f s x) (\<lambda>s'. result_fold f s' xs)"

text \<open>A comprehension whose expression may raise.\<close>

fun result_list :: "('a \<Rightarrow> 'b result) \<Rightarrow> 'a list \<Rightarrow> 'b list result" where
  "result_list f [] = Inr []"
| "result_list f (x # xs) = result_bind (f x) (\<lambda>y. result_map (\<lambda>ys. y # ys) (result_list f xs))"

lemma result_list_Inr: "(\<And>x. x \<in> set xs \<Longrightarrow> f x = Inr (g x)) \<Longrightarrow> result_list f xs = Inr (map g xs)"
  by (induction xs) auto

lemma result_bind_Inr_iff: "result_bind x f = Inr y \<longleftrightarrow> (\<exists>v. x = Inr v \<and> f v = Inr y)"
  by (cases x) auto

lemma result_map_Inr_iff: "result_map f x = Inr y \<longleftrightarrow> (\<exists>v. x = Inr v \<and> y = f v)"
  by (cases x) auto

text \<open>
  Instants are seconds since the epoch and durations are seconds, both exact rationals:
  \<open>timedelta(seconds=n)\<close> is \<open>of_int n\<close> and \<open>total_seconds\<close> is the identity.  The rounding of
  Python floats and of the database's double precision columns is not modelled.
\<close>

type_synonym datetime = rat
type_synonym seconds = rat

text \<open>A UUID is its 128-bit value; the ones the code draws come from a counter in the state.\<close>

type_synonym uuid = nat

definition days :: "int \<Rightarrow> seconds" where
  "days n = of_int (86400 * n)"

lemma days_pos: "0 < n \<Longrightarrow> 0 < days n"
  by (simp add: days_def)

section \<open>Lists and sorting\<close>

definition first_row :: "'a list \<Rightarrow> 'a option" where
  "first_row xs = (case xs of [] \<Rightarrow> None | x # _ \<Rightarrow> Some x)"

lemma first_row_Nil [simp]: "first_row [] = None"
  by (simp add: first_row_def)

lemma first_row_Cons [simp]: "first_row (x # xs) = Some x"
  by (simp add: first_row_def)

lemma first_row_in: "first_row xs = Some x \<Longrightarrow> x \<in> set xs"
  by (cases xs) auto

lemma first_row_None_iff [simp]: "first_row xs = None \<longleftrightarrow> xs = []"
  by (cases xs) auto

lemma first_row_sort_key_Min:
  assumes "first_row (sort_key f xs) = Some x"
  shows "x \<in> set xs" and "\<And>y. y \<in> set xs \<Longrightarrow> f x \<le> f y"
proof -
  from assms obtain ys where ys: "sort_key f xs = x # ys"
    by (cases "sort_key f xs") auto
  show "x \<in> set xs"
    using ys by (metis list.set_intros(1) set_sort)
  fix y assume "y \<in> set xs"
  then have "y \<in> set (x # ys)"
    using ys by (metis set_sort)
  moreover have "sorted (map f (x # ys))"
    using ys by (metis sorted_sort_key)
  ultimately show "f x \<le> f y" by auto
qed

lemma sort_key_Nil_iff [simp]: "sort_key f xs = [] \<longleftrightarrow> xs = []"
  by (metis set_empty set_sort)

text \<open>The last \<open>n\<close> entries, Python's \<open>xs[-n:]\<close> for a positive \<open>n\<close>.\<close>

definition take_last :: "nat \<Rightarrow> 'a list \<Rightarrow> 'a list" where
  "take_last n xs = drop (length xs - n) xs"

lemma length_take_last [simp]: "length (take_last n xs) = min n (length xs)"
  by (simp add: take_last_def)

lemma set_take_last: "set (take_last n xs) \<subseteq> set xs"
  by (simp add: take_last_def set_drop_subset)

lemma last_take_last: "0 < n \<Longrightarrow> xs \<noteq> [] \<Longrightarrow> last (take_last n xs) = last xs"
  by (simp add: take_last_def last_drop)

lemma distinct_map_inj: "distinct (map f xs) \<Longrightarrow> x \<in> set xs \<Longrightarrow> y \<in> set xs \<Longrightarrow> f x = f y \<Longrightarrow> x = y"
  by (simp add: distinct_map inj_on_def)

lemma sum_list_filter_split:
  "length (filter P xs) + length (filter (\<lambda>x. \<not> P x) xs) = length xs"
  by (induction xs) auto

lemma length_filter_mono:
  "(\<And>x. x \<in> set xs \<Longrightarrow> P x \<Longrightarrow> Q x) \<Longrightarrow> length (filter P xs) \<le> length (filter Q xs)"
  by (induction xs) (auto simp: le_SucI)

lemma length_filter_strict:
  assumes "\<And>x. x \<in> set xs \<Longrightarrow> P x \<Longrightarrow> Q x" and "y \<in> set xs" and "Q y" and "\<not> P y"
  shows "length (filter P xs) < length (filter Q xs)"
  using assms
proof (induction xs)
  case Nil
  then show ?case by simp
next
  case (Cons a xs)
  show ?case
  proof (cases "y = a")
    case True
    have "length (filter P xs) \<le> length (filter Q xs)"
      using Cons.prems(1) by (intro length_filter_mono) auto
    with True Cons.prems show ?thesis by simp
  next
    case False
    with Cons have "length (filter P xs) < length (filter Q xs)" by simp
    with Cons.prems(1) [of a] show ?thesis by auto
  qed
qed

section \<open>Association lists as Python dicts\<close>

lemma map_of_update [simp]: "map_of (AList.update k v d) k' = (if k' = k then Some v else map_of d k')"
  by (simp add: update_conv')

lemma distinct_keys_update: "distinct (map fst d) \<Longrightarrow> distinct (map fst (AList.update k v d))"
  by (rule distinct_update)

end
