(* ===== verification/Py_Values.thy ===== *)
theory Py_Values
  imports Prelude
begin

text \<open>
  The JSON values the platform stores and passes around, with the Python operations the code
  applies to them: truthiness, \<open>or\<close>, \<open>str\<close>, \<open>int\<close>, and the dict operations.  A dict keeps its
  insertion order, so it is an association list; \<^const>\<open>AList.update\<close> replaces in place or appends,
  as item assignment does.
\<close>

datatype pyval =
    PNone
  | PBool bool
  | PInt int
  | PFloat rat
  | PStr string
  | PList "pyval list"
  | PDict "(string \<times> pyval) list"

type_synonym pydict = "(string \<times> pyval) list"

section \<open>Truthiness and type tests\<close>

fun truthy :: "pyval \<Rightarrow> bool" where
  "truthy PNone = False"
| "truthy (PBool b) = b"
| "truthy (PInt i) = (i \<noteq> 0)"
| "truthy (PFloat q) = (q \<noteq> 0)"
| "truthy (PStr s) = (s \<noteq> [])"
| "truthy (PList vs) = (vs \<noteq> [])"
| "truthy (PDict d) = (d \<noteq> [])"

text \<open>\<open>a or b\<close>.\<close>

definition py_or :: "pyval \<Rightarrow> pyval \<Rightarrow> pyval" where
  "py_or a b = (if truthy a then a else b)"

fun is_dict :: "pyval \<Rightarrow> bool" where
  "is_dict (PDict _) = True"
| "is_dict _ = False"

fun is_list :: "pyval \<Rightarrow> bool" where
  "is_list (PList _) = True"
| "is_list _ = False"

fun is_str :: "pyval \<Rightarrow> bool" where
  "is_str (PStr _) = True"
| "is_str _ = False"

text \<open>\<open>isinstance(v, (int, float))\<close>; \<open>bool\<close> is a subclass of \<open>int\<close>.\<close>

fun is_number :: "pyval \<Rightarrow> bool" where
  "is_number (PInt _) = True"
| "is_number (PFloat _) = True"
| "is_number (PBool _) = True"
| "is_number _ = False"

text \<open>\<open>isinstance(v, int)\<close>.\<close>

fun is_int :: "pyval \<Rightarrow> bool" where
  "is_int (PInt _) = True"
| "is_int (PBool _) = True"
| "is_int _ = False"

text \<open>\<open>v if isinstance(v, dict) else {}\<close>.\<close>

fun dict_or_empty :: "pyval \<Rightarrow> pydict" where
  "dict_or_empty (PDict d) = d"
| "dict_or_empty _ = []"

text \<open>\<open>v.get(...)\<close> raises unless \<open>v\<close> is a dict.\<close>

fun as_dict :: "pyval \<Rightarrow> pydict result" where
  "as_dict (PDict d) = Inr d"
| "as_dict _ = Inl Attribute_error"

section \<open>Dicts\<close>

definition dict_get_default :: "pydict \<Rightarrow> string \<Rightarrow> pyval \<Rightarrow> pyval" where
  "dict_get_default d k v = (case map_of d k of None \<Rightarrow> v | Some w \<Rightarrow> w)"

definition dict_get :: "pydict \<Rightarrow> string \<Rightarrow> pyval" where
  "dict_get d k = dict_get_default d k PNone"

definition dict_set :: "string \<Rightarrow> pyval \<Rightarrow> pydict \<Rightarrow> pydict" where
  "dict_set k v d = AList.update k v d"

text \<open>\<open>{**a, **b}\<close> and \<open>a.update(b)\<close>.\<close>

definition dict_merge :: "pydict \<Rightarrow> pydict \<Rightarrow> pydict" where
  "dict_merge a b = foldl (\<lambda>d (k, v). dict_set k v d) a b"

definition dict_pop :: "string \<Rightarrow> pydict \<Rightarrow> pydict" where
  "dict_pop k d = AList.delete k d"

lemma dict_get_default_set [simp]:
  "dict_get_default (dict_set k v d) k' w = (if k' = k then v else dict_get_default d k' w)"
  by (simp add: dict_get_default_def dict_set_def)

lemma dict_get_set [simp]: "dict_get (dict_set k v d) k' = (if k' = k then v else dict_get d k')"
  by (simp add: dict_get_def)

lemma dict_get_default_pop [simp]:
  "dict_get_default (dict_pop k d) k' w = (if k' = k then w else dict_get_default d k' w)"
  by (simp add: dict_get_default_def dict_pop_def delete_conv')

lemma dict_get_pop [simp]: "dict_get (dict_pop k d) k' = (if k' = k then PNone else dict_get d k')"
  by (simp add: dict_get_def)

lemma dict_get_default_Nil [simp]: "dict_get_default [] k v = v"
  by (simp add: dict_get_default_def)

lemma dict_get_Nil [simp]: "dict_get [] k = PNone"
  by (simp add: dict_get_def)

lemma dict_get_default_Cons [simp]:
  "dict_get_default ((k, v) # d) k' w = (if k = k' then v else dict_get_default d k' w)"
  by (simp add: dict_get_default_def)

lemma dict_get_Cons [simp]: "dict_get ((k, v) # d) k' = (if k = k' then v else dict_get d k')"
  by (simp add: dict_get_def)

lemma dict_merge_Nil [simp]: "dict_merge a [] = a"
  by (simp add: dict_merge_def)

lemma dict_merge_Cons [simp]: "dict_merge a ((k, v) # b) = dict_merge (dict_set k v a) b"
  by (simp add: dict_merge_def)

lemma distinct_dict_set [simp]: "distinct (map fst d) \<Longrightarrow> distinct (map fst (dict_set k v d))"
  by (simp add: dict_set_def distinct_keys_update)

lemma distinct_dict_merge: "distinct (map fst a) \<Longrightarrow> distinct (map fst (dict_merge a b))"
  by (induction b arbitrary: a) auto

lemma map_of_dict_merge:
  "distinct (map fst b) \<Longrightarrow>
   map_of (dict_merge a b) k = (case map_of b k of None \<Rightarrow> map_of a k | Some v \<Rightarrow> Some v)"
proof (induction b arbitrary: a)
  case (Cons p b)
  obtain k' v where p: "p = (k', v)" by (cases p)
  have set1: "map_of (dict_set k' v a) k = (if k = k' then Some v else map_of a k)"
    by (simp add: dict_set_def)
  have none: "k = k' \<Longrightarrow> map_of b k = None"
    using Cons.prems p by (simp add: map_of_eq_None_iff)
  have "map_of (dict_merge a (p # b)) k
    = (case map_of b k of None \<Rightarrow> map_of (dict_set k' v a) k | Some w \<Rightarrow> Some w)"
    using Cons p by simp
  then show ?case
    using p set1 none by (cases "map_of b k") auto
qed simp

lemma dict_get_merge:
  "distinct (map fst b) \<Longrightarrow>
   dict_get (dict_merge a b) k = (if map_of b k = None then dict_get a k else dict_get b k)"
  by (cases "map_of b k") (simp_all only: dict_get_def dict_get_default_def map_of_dict_merge
      option.case if_True if_False option.distinct simp_thms)

text \<open>Dicts built with optional entries, as \<open>x.isoformat() if x else None\<close>.\<close>

definition opt_val :: "('a \<Rightarrow> pyval) \<Rightarrow> 'a option \<Rightarrow> pyval" where
  "opt_val f x = (case x of None \<Rightarrow> PNone | Some a \<Rightarrow> f a)"

abbreviation opt_str :: "string option \<Rightarrow> pyval" where
  "opt_str \<equiv> opt_val PStr"

section \<open>Printing: str and repr\<close>

definition digit_char :: "nat \<Rightarrow> char" where
  "digit_char d = ''0123456789'' ! d"

fun nat_str :: "nat \<Rightarrow> string" where
  "nat_str n = (if n < 10 then [digit_char n] else nat_str (n div 10) @ [digit_char (n mod 10)])"

declare nat_str.simps [simp del]

definition int_str :: "int \<Rightarrow> string" where
  "int_str i = (if i < 0 then ''-'' @ nat_str (nat (- i)) else nat_str (nat i))"

text \<open>
  A float is printed in plain decimal notation with at most 16 fractional digits.  Python's repr
  agrees for the decimals of at most 15 significant digits it prints without an exponent; other
  floats are outside the model.
\<close>

fun frac_digits :: "nat \<Rightarrow> rat \<Rightarrow> string" where
  "frac_digits 0 r = []"
| "frac_digits (Suc n) r =
     (if r = 0 then []
      else digit_char (nat \<lfloor>10 * r\<rfloor>) # frac_digits n (10 * r - of_int \<lfloor>10 * r\<rfloor>))"

definition float_str :: "rat \<Rightarrow> string" where
  "float_str q =
     (let a = \<bar>q\<bar>; ds = frac_digits 16 (a - of_int \<lfloor>a\<rfloor>)
      in (if q < 0 then ''-'' else []) @ nat_str (nat \<lfloor>a\<rfloor>) @ ''.'' @ (if ds = [] then ''0'' else ds))"

definition hex_char :: "nat \<Rightarrow> char" where
  "hex_char d = ''0123456789abcdef'' ! d"

definition char_code :: "char \<Rightarrow> nat" where
  "char_code c = of_char c"

definition repr_char :: "char \<Rightarrow> char \<Rightarrow> string" where
  "repr_char q c =
     (if c = q \<or> c = CHR 0x5C then [CHR 0x5C, c]
      else if c = CHR 0x0A then [CHR 0x5C, CHR ''n'']
      else if c = CHR 0x0D then [CHR 0x5C, CHR ''r'']
      else if c = CHR 0x09 then [CHR 0x5C, CHR ''t'']
      else if char_code c < 32 \<or> (127 \<le> char_code c \<and> char_code c \<le> 160) \<or> char_code c = 173
      then [CHR 0x5C, CHR ''x'', hex_char (char_code c div 16), hex_char (char_code c mod 16)]
      else [c])"

definition str_repr :: "string \<Rightarrow> string" where
  "str_repr s =
     (let q = (if CHR 0x27 \<in> set s \<and> CHR 0x22 \<notin> set s then CHR 0x22 else CHR 0x27)
      in q # concat (map (repr_char q) s) @ [q])"

fun join :: "string \<Rightarrow> string list \<Rightarrow> string" where
  "join sep [] = []"
| "join sep [x] = x"
| "join sep (x # y # ys) = x @ sep @ join sep (y # ys)"

fun py_repr :: "pyval \<Rightarrow> string" and py_repr_items :: "(string \<times> pyval) list \<Rightarrow> string list"
  and py_repr_list :: "pyval list \<Rightarrow> string list" where
  "py_repr PNone = ''None''"
| "py_repr (PBool b) = (if b then ''True'' else ''False'')"
| "py_repr (PInt i) = int_str i"
| "py_repr (PFloat q) = float_str q"
| "py_repr (PStr s) = str_repr s"
| "py_repr (PList vs) = ''['' @ join '', '' (py_repr_list vs) @ '']''"
| "py_repr (PDict d) = ''{'' @ join '', '' (py_repr_items d) @ ''}''"
| "py_repr_items [] = []"
| "py_repr_items ((k, v) # d) = (str_repr k @ '': '' @ py_repr v) # py_repr_items d"
| "py_repr_list [] = []"
| "py_repr_list (v # vs) = py_repr v # py_repr_list vs"

definition py_str :: "pyval \<Rightarrow> string" where
  "py_str v = (case v of PStr s \<Rightarrow> s | _ \<Rightarrow> py_repr v)"

lemma py_str_PStr [simp]: "py_str (PStr s) = s"
  by (simp add: py_str_def)

text \<open>\<open>str(v or "")\<close>, the way the code reads an optional text field.\<close>

definition str_or_empty :: "pyval \<Rightarrow> string" where
  "str_or_empty v = py_str (py_or v (PStr []))"

lemma str_or_empty_simps [simp]:
  "str_or_empty PNone = []" "str_or_empty (PStr s) = s"
  by (auto simp: str_or_empty_def py_or_def)

section \<open>Numbers\<close>

text \<open>
  \<open>float(v)\<close> for a JSON number that is not a bool; \<open>None\<close> for every other value, and for an int that
  rounds past the largest float, where \<open>float\<close> and \<open>math.isfinite\<close> raise \<open>OverflowError\<close>.
\<close>

definition float_overflow :: "int \<Rightarrow> bool" where
  "float_overflow i \<longleftrightarrow> \<bar>i\<bar> \<ge> 2 ^ 1024 - 2 ^ 970"

definition to_float :: "pyval \<Rightarrow> rat option" where
  "to_float v =
     (case v of
        PInt i \<Rightarrow> if float_overflow i then None else Some (of_int i)
      | PFloat q \<Rightarrow> Some q
      | _ \<Rightarrow> None)"

text \<open>\<open>v[k]\<close> for a text key: only a dict has items of that kind.\<close>

fun py_item :: "pyval \<Rightarrow> string \<Rightarrow> pyval result" where
  "py_item (PDict d) k = (case map_of d k of None \<Rightarrow> Inl (Key_error k) | Some v \<Rightarrow> Inr v)"
| "py_item _ k = Inl Type_error"

text \<open>\<open>v == i\<close> for an int: floats and bools compare by value.\<close>

fun eq_int :: "pyval \<Rightarrow> int \<Rightarrow> bool" where
  "eq_int (PInt j) i = (j = i)"
| "eq_int (PFloat q) i = (q = of_int i)"
| "eq_int (PBool b) i = ((if b then 1 else 0) = i)"
| "eq_int _ i = False"

text \<open>
  \<open>v == w\<close>: numbers and bools compare by value, dicts as mappings whatever their order.
\<close>

fun number_value :: "pyval \<Rightarrow> rat option" where
  "number_value (PInt i) = Some (of_int i)"
| "number_value (PFloat q) = Some q"
| "number_value (PBool b) = Some (if b then 1 else 0)"
| "number_value _ = None"

fun py_eq :: "pyval \<Rightarrow> pyval \<Rightarrow> bool" and py_eq_list :: "pyval list \<Rightarrow> pyval list \<Rightarrow> bool"
  and py_eq_items :: "(string \<times> pyval) list \<Rightarrow> (string \<times> pyval) list \<Rightarrow> bool" where
  "py_eq (PList vs) w = (case w of PList ws \<Rightarrow> py_eq_list vs ws | _ \<Rightarrow> False)"
| "py_eq (PDict d) w = (case w of PDict e \<Rightarrow> length d = length e \<and> py_eq_items d e | _ \<Rightarrow> False)"
| "py_eq PNone w = (w = PNone)"
| "py_eq (PStr s) w = (w = PStr s)"
| "py_eq v w = (number_value v = number_value w)"
| "py_eq_list [] ws = (ws = [])"
| "py_eq_list (v # vs) ws = (case ws of [] \<Rightarrow> False | w # ws' \<Rightarrow> py_eq v w \<and> py_eq_list vs ws')"
| "py_eq_items [] e = True"
| "py_eq_items ((k, v) # d) e = (case map_of e k of None \<Rightarrow> False | Some w \<Rightarrow> py_eq v w \<and> py_eq_items d e)"

end
