(* ===== verification/Py_Text.thy ===== *)
theory Py_Text
  imports Py_Values
begin

text \<open>
  The string operations the code uses.  A string is a list of 8-bit characters; case mapping is
  that of ASCII.  Text outside that range is outside the model.
\<close>

section \<open>Whitespace, case, prefixes\<close>

definition is_space :: "char \<Rightarrow> bool" where
  "is_space c = (c \<in> {CHR '' '', CHR 0x09, CHR 0x0A, CHR 0x0B, CHR 0x0C, CHR 0x0D,
     CHR 0x1C, CHR 0x1D, CHR 0x1E, CHR 0x1F, CHR 0x85, CHR 0xA0})"

definition lstrip :: "string \<Rightarrow> string" where
  "lstrip s = dropWhile is_space s"

definition rstrip :: "string \<Rightarrow> string" where
  "rstrip s = rev (dropWhile is_space (rev s))"

definition strip :: "string \<Rightarrow> string" where
  "strip s = rstrip (lstrip s)"

text \<open>\<open>s.rstrip(c)\<close> and \<open>s.strip(c)\<close> for one character.\<close>

definition rstrip_char :: "char \<Rightarrow> string \<Rightarrow> string" where
  "rstrip_char c s = rev (dropWhile (\<lambda>x. x = c) (rev s))"

definition strip_char :: "char \<Rightarrow> string \<Rightarrow> string" where
  "strip_char c s = rstrip_char c (dropWhile (\<lambda>x. x = c) s)"

definition lower_char :: "char \<Rightarrow> char" where
  "lower_char c =
     (case map_of (zip ''ABCDEFGHIJKLMNOPQRSTUVWXYZ'' ''abcdefghijklmnopqrstuvwxyz'') c of
        None \<Rightarrow> c | Some d \<Rightarrow> d)"

definition upper_char :: "char \<Rightarrow> char" where
  "upper_char c =
     (case map_of (zip ''abcdefghijklmnopqrstuvwxyz'' ''ABCDEFGHIJKLMNOPQRSTUVWXYZ'') c of
        None \<Rightarrow> c | Some d \<Rightarrow> d)"

definition lower :: "string \<Rightarrow> string" where
  "lower s = map lower_char s"

definition starts_with :: "string \<Rightarrow> string \<Rightarrow> bool" where
  "starts_with p s = (take (length p) s = p)"

definition remove_prefix :: "string \<Rightarrow> string \<Rightarrow> string" where
  "remove_prefix p s = (if starts_with p s then drop (length p) s else s)"

definition is_alpha :: "char \<Rightarrow> bool" where
  "is_alpha c = ((65 \<le> char_code c \<and> char_code c \<le> 90) \<or> (97 \<le> char_code c \<and> char_code c \<le> 122))"

definition is_digit :: "char \<Rightarrow> bool" where
  "is_digit c = (48 \<le> char_code c \<and> char_code c \<le> 57)"

text \<open>\<open>s.title()\<close>: the first letter of every run of letters is upper case, the others lower.\<close>

fun title_from :: "bool \<Rightarrow> string \<Rightarrow> string" where
  "title_from _ [] = []"
| "title_from in_word (c # s) =
     (if is_alpha c then (if in_word then lower_char c else upper_char c) # title_from True s
      else c # title_from False s)"

definition title :: "string \<Rightarrow> string" where
  "title s = title_from False s"

text \<open>\<open>s.replace(old, new, 1)\<close> for a non-empty \<open>old\<close>, and replacement of one character by another.\<close>

fun replace_first :: "string \<Rightarrow> string \<Rightarrow> string \<Rightarrow> string" where
  "replace_first old new [] = []"
| "replace_first old new (c # s) =
     (if starts_with old (c # s) then new @ drop (length old) (c # s)
      else c # replace_first old new s)"

definition replace_char :: "char \<Rightarrow> char \<Rightarrow> string \<Rightarrow> string" where
  "replace_char a b s = map (\<lambda>c. if c = a then b else c) s"

text \<open>\<open>s.split()\<close>: the maximal runs of non-space characters.\<close>

function split_ws :: "string \<Rightarrow> string list" where
  "split_ws s =
     (let t = dropWhile is_space s
      in if t = [] then []
         else takeWhile (\<lambda>c. \<not> is_space c) t # split_ws (dropWhile (\<lambda>c. \<not> is_space c) t))"
  by pat_completeness auto
termination
proof (relation "measure length", simp, goal_cases)
  case (1 s t)
  then obtain c u where t: "t = c # u" by (meson neq_Nil_conv)
  have d: "dropWhile is_space s = c # u"
    using 1 t by simp
  have "\<not> is_space c"
    using hd_dropWhile [of is_space s] d by (metis list.distinct(1) list.sel(1))
  then have "length (dropWhile (\<lambda>c. \<not> is_space c) t) \<le> length u"
    by (simp add: t length_dropWhile_le)
  moreover have "length t \<le> length s"
    using 1 by (simp add: length_dropWhile_le)
  ultimately show ?case by (simp add: t)
qed

declare split_ws.simps [simp del]

definition newline :: string where
  "newline = [CHR 0x0A]"

section \<open>Lemmas\<close>

lemma strip_Nil [simp]: "strip [] = []"
  by (simp add: strip_def rstrip_def lstrip_def)

lemma lower_Nil [simp]: "lower [] = []"
  by (simp add: lower_def)

lemma dropWhile_idem: "dropWhile P (dropWhile P xs) = dropWhile P xs"
  by (induction xs) auto

lemma strip_ends:
  "strip s = [] \<or> (\<not> is_space (hd (strip s)) \<and> \<not> is_space (last (strip s)))"
proof -
  let ?t = "dropWhile is_space (rev (dropWhile is_space s))"
  show ?thesis
  proof (cases "?t = []")
    case True
    then show ?thesis by (simp add: strip_def rstrip_def lstrip_def)
  next
    case False
    have last: "last (rev ?t) = hd ?t"
      using False by (simp add: last_rev)
    have ne: "dropWhile is_space s \<noteq> []"
      using False by force
    obtain zs where zs: "rev (dropWhile is_space s) = zs @ ?t"
      by (metis takeWhile_dropWhile_id)
    have "dropWhile is_space s = rev ?t @ rev zs"
      using arg_cong [OF zs, of rev] by simp
    then have "hd (rev ?t) = hd (dropWhile is_space s)"
      using False by (metis hd_append2 rev_is_Nil_conv)
    then have "\<not> is_space (hd (rev ?t))"
      using ne hd_dropWhile by metis
    moreover have "\<not> is_space (hd ?t)"
      using False hd_dropWhile by metis
    ultimately show ?thesis
      using last by (simp add: strip_def rstrip_def lstrip_def)
  qed
qed

lemma dropWhile_hd_False: "xs = [] \<or> \<not> P (hd xs) \<Longrightarrow> dropWhile P xs = xs"
  by (cases xs) auto

lemma strip_idem [simp]: "strip (strip s) = strip s"
proof -
  have "lstrip (strip s) = strip s"
    using strip_ends [of s] by (auto simp: lstrip_def intro: dropWhile_hd_False)
  moreover have "rstrip (strip s) = strip s"
  proof -
    have "rev (strip s) = [] \<or> \<not> is_space (hd (rev (strip s)))"
      using strip_ends [of s] by (auto simp: hd_rev)
    then show ?thesis
      by (simp add: rstrip_def dropWhile_hd_False)
  qed
  ultimately show ?thesis by (simp add: strip_def)
qed

lemma length_strip: "length (strip s) \<le> length s"
proof -
  have "length (rstrip t) \<le> length t" for t
    by (metis length_dropWhile_le length_rev rstrip_def)
  moreover have "length (lstrip t) \<le> length t" for t
    by (simp add: lstrip_def length_dropWhile_le)
  ultimately show ?thesis
    unfolding strip_def using le_trans by blast
qed

section \<open>Integers from text\<close>

text \<open>
  \<open>int(v)\<close>: truncation of a float, 0 or 1 for a bool, a decimal literal for a string (surrounding
  space, a sign and single underscores between digits are accepted).
\<close>

definition digit_val :: "char \<Rightarrow> nat" where
  "digit_val c = char_code c - 48"

fun parse_digits :: "nat \<Rightarrow> string \<Rightarrow> nat option" where
  "parse_digits acc [] = Some acc"
| "parse_digits acc [c] = (if is_digit c then Some (10 * acc + digit_val c) else None)"
| "parse_digits acc (c # d # s) =
     (if is_digit c then
        (if d = CHR ''_'' then (case s of [] \<Rightarrow> None | e # _ \<Rightarrow>
             if is_digit e then parse_digits (10 * acc + digit_val c) s else None)
         else parse_digits (10 * acc + digit_val c) (d # s))
      else None)"

definition parse_nat :: "string \<Rightarrow> nat option" where
  "parse_nat s = (if s = [] then None else parse_digits 0 s)"

definition parse_int :: "string \<Rightarrow> int option" where
  "parse_int s =
     (case strip s of
        [] \<Rightarrow> None
      | c # t \<Rightarrow>
          (if c = CHR ''-'' then map_option (\<lambda>n. - int n) (parse_nat t)
           else if c = CHR ''+'' then map_option int (parse_nat t)
           else map_option int (parse_nat (c # t))))"

definition truncate_rat :: "rat \<Rightarrow> int" where
  "truncate_rat q = (if q < 0 then \<lceil>q\<rceil> else \<lfloor>q\<rfloor>)"

fun py_int :: "pyval \<Rightarrow> int result" where
  "py_int (PInt i) = Inr i"
| "py_int (PBool b) = Inr (if b then 1 else 0)"
| "py_int (PFloat q) = Inr (truncate_rat q)"
| "py_int (PStr s) =
     (case parse_int s of
        Some i \<Rightarrow> Inr i
      | None \<Rightarrow> Inl (Value_error (''invalid literal for int() with base 10: '' @ str_repr s)))"
| "py_int _ = Inl Type_error"

section \<open>UUIDs and instants as text\<close>

fun hex_digits :: "nat \<Rightarrow> nat \<Rightarrow> string" where
  "hex_digits 0 u = []"
| "hex_digits (Suc n) u = hex_digits n (u div 16) @ [hex_char (u mod 16)]"

definition uuid_str :: "uuid \<Rightarrow> string" where
  "uuid_str u =
     (let h = hex_digits 32 u
      in take 8 h @ ''-'' @ take 4 (drop 8 h) @ ''-'' @ take 4 (drop 12 h) @ ''-''
         @ take 4 (drop 16 h) @ ''-'' @ drop 20 h)"

definition hex_val :: "char \<Rightarrow> nat option" where
  "hex_val c =
     (let n = char_code c
      in if 48 \<le> n \<and> n \<le> 57 then Some (n - 48)
         else if 97 \<le> n \<and> n \<le> 102 then Some (n - 87)
         else if 65 \<le> n \<and> n \<le> 70 then Some (n - 55)
         else None)"

fun parse_hex :: "nat \<Rightarrow> string \<Rightarrow> nat option" where
  "parse_hex acc [] = Some acc"
| "parse_hex acc (c # s) = (case hex_val c of None \<Rightarrow> None | Some d \<Rightarrow> parse_hex (16 * acc + d) s)"

text \<open>
  \<open>UUID(s)\<close>: dashes are dropped and 32 hexadecimal digits must remain.  The \<open>urn:uuid:\<close> prefix and
  braces, which the constructor also accepts, are stripped first.
\<close>

definition parse_uuid :: "string \<Rightarrow> uuid option" where
  "parse_uuid s =
     (let t = remove_prefix ''uuid:'' (remove_prefix ''urn:'' s);
          u = filter (\<lambda>c. c \<noteq> CHR ''-'') (filter (\<lambda>c. c \<noteq> CHR 0x7B \<and> c \<noteq> CHR 0x7D) t)
      in if length u = 32 then parse_hex 0 u else None)"

text \<open>
  \<open>isoformat\<close> of an instant in UTC: the proleptic Gregorian date of its day number, then the time,
  with microseconds when they are not zero.
\<close>

definition civil_from_days :: "int \<Rightarrow> int \<times> int \<times> int" where
  "civil_from_days z =
     (let z = z + 719468; era = z div 146097; doe = z - era * 146097;
          yoe = (doe - doe div 1460 + doe div 36524 - doe div 146096) div 365;
          doy = doe - (365 * yoe + yoe div 4 - yoe div 100); mp = (5 * doy + 2) div 153;
          d = doy - (153 * mp + 2) div 5 + 1; m = (if mp < 10 then mp + 3 else mp - 9);
          y = yoe + era * 400 + (if m \<le> 2 then 1 else 0)
      in (y, m, d))"

fun pad_num :: "nat \<Rightarrow> nat \<Rightarrow> string" where
  "pad_num 0 n = []"
| "pad_num (Suc w) n = pad_num w (n div 10) @ [digit_char (n mod 10)]"

definition isoformat :: "datetime \<Rightarrow> string" where
  "isoformat t =
     (let us = \<lfloor>t * 1000000\<rfloor>; secs = us div 1000000; frac = nat (us mod 1000000);
          sod = nat (secs mod 86400); (y, m, d) = civil_from_days (secs div 86400)
      in pad_num 4 (nat y) @ ''-'' @ pad_num 2 (nat m) @ ''-'' @ pad_num 2 (nat d) @ ''T''
         @ pad_num 2 (sod div 3600) @ '':'' @ pad_num 2 (sod div 60 mod 60) @ '':'' @ pad_num 2 (sod mod 60)
         @ (if frac = 0 then [] else ''.'' @ pad_num 6 frac) @ ''+00:00'')"

section \<open>UUID text\<close>

lemma hex_char_cases:
  assumes "d < 16"
  shows "hex_val (hex_char d) = Some d \<and> hex_char d \<noteq> CHR ''-'' \<and> hex_char d \<noteq> CHR 0x7B
    \<and> hex_char d \<noteq> CHR 0x7D \<and> hex_char d \<noteq> CHR ''u''"
proof -
  have "d \<in> set [0..<16]" using assms by simp
  also have "[0..<16] = [0, 1, 2, 3, 4, 5, 6, 7, 8, 9, 10, 11, 12, 13, 14, 15]"
    by (simp add: upt_rec)
  finally show ?thesis
    by (auto simp: hex_char_def hex_val_def char_code_def)
qed

lemma length_hex_digits [simp]: "length (hex_digits n u) = n"
  by (induction n arbitrary: u) simp_all

lemma parse_hex_append:
  "parse_hex acc (s @ t) = (case parse_hex acc s of None \<Rightarrow> None | Some a \<Rightarrow> parse_hex a t)"
  by (induction s arbitrary: acc) (auto split: option.split)

lemma parse_hex_digits: "u < 16 ^ n \<Longrightarrow> parse_hex 0 (hex_digits n u) = Some u"
proof (induction n arbitrary: u)
  case (Suc n)
  have "u div 16 < 16 ^ n"
    using Suc.prems by (simp add: less_mult_imp_div_less mult.commute)
  with Suc.IH show ?case
    by (simp add: parse_hex_append hex_char_cases)
qed simp

lemma set_hex_digits: "c \<in> set (hex_digits n u) \<Longrightarrow> \<exists>d < 16. c = hex_char d"
  by (induction n arbitrary: u) (auto, metis mod_less_divisor zero_less_numeral)

lemma hex_digits_chars:
  assumes "c \<in> set (hex_digits n u)"
  shows "c \<noteq> CHR ''-'' \<and> c \<noteq> CHR 0x7B \<and> c \<noteq> CHR 0x7D \<and> c \<noteq> CHR ''u''"
  using set_hex_digits [OF assms] hex_char_cases by auto

lemma uuid_str_filter: "filter (\<lambda>c. c \<noteq> CHR ''-'') (filter (\<lambda>c. c \<noteq> CHR 0x7B \<and> c \<noteq> CHR 0x7D) (uuid_str u)) = hex_digits 32 u"
proof -
  let ?h = "hex_digits 32 u"
  let ?k = "\<lambda>s. filter (\<lambda>c. c \<noteq> CHR ''-'') (filter (\<lambda>c. c \<noteq> CHR 0x7B \<and> c \<noteq> CHR 0x7D) s)"
  have keep: "?k s = s" if "set s \<subseteq> set ?h" for s
  proof -
    have "\<forall>c \<in> set s. c \<noteq> CHR ''-'' \<and> c \<noteq> CHR 0x7B \<and> c \<noteq> CHR 0x7D"
      using that hex_digits_chars by blast
    then show ?thesis by (simp add: filter_id_conv)
  qed
  have parts: "?k (take n (drop m ?h)) = take n (drop m ?h)" "?k (drop m ?h) = drop m ?h" "?k (take n ?h) = take n ?h" for n m
    by (rule keep, meson set_drop_subset set_take_subset subset_trans)+
  have app: "?k (a @ b) = ?k a @ ?k b" for a b by simp
  have dash: "?k ''-'' = []" by simp
  have step: "take n (drop m h) @ drop (m + n) h = drop m h" for n m and h :: string
    by (metis add.commute append_take_drop_id drop_drop)
  have glue: "take 8 h @ take 4 (drop 8 h) @ take 4 (drop 12 h) @ take 4 (drop 16 h) @ drop 20 h = h" for h :: string
    using step [of 4 16 h] step [of 4 12 h] step [of 4 8 h] append_take_drop_id [of 8 h] by simp
  show ?thesis
    unfolding uuid_str_def Let_def app dash parts by (simp add: glue)
qed

lemma parse_uuid_str:
  assumes "u < 2 ^ 128"
  shows "parse_uuid (uuid_str u) = Some u"
proof -
  obtain c r where c: "uuid_str u = c # r" "c \<in> set (hex_digits 32 u)"
  proof -
    obtain a t where a: "hex_digits 32 u = a # t"
      by (metis length_0_conv length_hex_digits list.exhaust zero_neq_numeral)
    then have "uuid_str u = a # (take 7 t @ ''-'' @ take 4 (drop 8 (a # t)) @ ''-'' @ take 4 (drop 12 (a # t)) @ ''-''
         @ take 4 (drop 16 (a # t)) @ ''-'' @ drop 20 (a # t))"
      by (simp add: uuid_str_def Let_def)
    with a that show thesis by simp
  qed
  have "c \<noteq> CHR ''u''" using hex_digits_chars [OF c(2)] by simp
  then have "remove_prefix ''uuid:'' (remove_prefix ''urn:'' (uuid_str u)) = uuid_str u"
    using c(1) by (simp add: remove_prefix_def starts_with_def)
  moreover have "u < 16 ^ 32" using assms by simp
  ultimately show ?thesis
    by (simp add: parse_uuid_def uuid_str_filter parse_hex_digits del: filter_filter)
qed

text \<open>
  Whether \<open>int(s, 16)\<close> succeeds: surrounding space, a sign and \<open>0x\<close> are allowed, and single underscores
  after a digit or the prefix.
\<close>

fun hex_run :: "bool \<Rightarrow> string \<Rightarrow> bool" where
  "hex_run after [] = after"
| "hex_run after (c # s) =
     (if hex_val (lower_char c) \<noteq> None then hex_run True s
      else c = CHR ''_'' \<and> after \<and> hex_run False s)"

definition int16_ok :: "string \<Rightarrow> bool" where
  "int16_ok s =
     (let t = strip s;
          u = (if starts_with ''-'' t \<or> starts_with ''+'' t then tl t else t)
      in if starts_with ''0x'' u \<or> starts_with ''0X'' u then drop 2 u \<noteq> [] \<and> hex_run True (drop 2 u)
         else hex_run False u)"

text \<open>\<open>s.split(c)\<close> for a single character.\<close>

fun split_char :: "char \<Rightarrow> string \<Rightarrow> string list" where
  "split_char c [] = [[]]"
| "split_char c (x # s) =
     (if x = c then [] # split_char c s
      else case split_char c s of [] \<Rightarrow> [[x]] | w # ws \<Rightarrow> (x # w) # ws)"

text \<open>
  A non-empty path without a backslash that is relative and never goes up: neither \<open>path.is_absolute()\<close>
  nor \<open>".." in path.parts\<close>.
\<close>

definition safe_path :: "string \<Rightarrow> bool" where
  "safe_path p \<longleftrightarrow>
     p \<noteq> [] \<and> CHR 0x5C \<notin> set p \<and> hd p \<noteq> CHR ''/'' \<and> ''..'' \<notin> set (split_char (CHR ''/'') p)"

text \<open>The parts of a relative path, and the path they spell: empty parts and single dots are dropped.\<close>

definition path_parts :: "string \<Rightarrow> string list" where
  "path_parts p = filter (\<lambda>w. w \<noteq> [] \<and> w \<noteq> ''.'') (split_char (CHR ''/'') p)"

definition path_norm :: "string \<Rightarrow> string" where
  "path_norm p = join ''/'' (path_parts p)"

text \<open>\<open>p in s\<close> and \<open>s.find(p)\<close>.\<close>

fun occurs_in :: "string \<Rightarrow> string \<Rightarrow> bool" where
  "occurs_in p [] = (p = [])"
| "occurs_in p (c # s) = (starts_with p (c # s) \<or> occurs_in p s)"

fun find_from :: "nat \<Rightarrow> string \<Rightarrow> string \<Rightarrow> nat option" where
  "find_from k p [] = (if p = [] then Some k else None)"
| "find_from k p (c # s) = (if starts_with p (c # s) then Some k else find_from (Suc k) p s)"

lemma find_from_None_iff: "find_from k p s = None \<longleftrightarrow> \<not> occurs_in p s"
  by (induction s arbitrary: k) auto

text \<open>
  \<open>s.splitlines()\<close>: the line ends of the one-byte characters, a carriage return with its line feed as
  one, and no empty last line.
\<close>

definition line_end :: "char \<Rightarrow> bool" where
  "line_end c \<longleftrightarrow> c \<in> {CHR 0x0A, CHR 0x0B, CHR 0x0C, CHR 0x0D, CHR 0x1C, CHR 0x1D, CHR 0x1E, CHR 0x85}"

fun splitlines_from :: "string \<Rightarrow> string \<Rightarrow> string list" where
  "splitlines_from cur [] = (if cur = [] then [] else [cur])"
| "splitlines_from cur (c # s) =
     (if line_end c
      then cur # splitlines_from [] (if c = CHR 0x0D \<and> starts_with [CHR 0x0A] s then drop 1 s else s)
      else splitlines_from (cur @ [c]) s)"

definition splitlines :: "string \<Rightarrow> string list" where
  "splitlines s = splitlines_from [] s"

section \<open>JSON printing\<close>

text \<open>\<open>json.dumps\<close> with its default separators and \<open>ensure_ascii\<close>.\<close>

definition json_char :: "char \<Rightarrow> string" where
  "json_char c =
     (if c = CHR 0x22 then [CHR 0x5C, CHR 0x22]
      else if c = CHR 0x5C then [CHR 0x5C, CHR 0x5C]
      else if c = CHR 0x0A then [CHR 0x5C, CHR ''n'']
      else if c = CHR 0x0D then [CHR 0x5C, CHR ''r'']
      else if c = CHR 0x09 then [CHR 0x5C, CHR ''t'']
      else if c = CHR 0x08 then [CHR 0x5C, CHR ''b'']
      else if c = CHR 0x0C then [CHR 0x5C, CHR ''f'']
      else if char_code c < 32 \<or> 127 < char_code c
      then [CHR 0x5C, CHR ''u'', CHR ''0'', CHR ''0'', hex_char (char_code c div 16), hex_char (char_code c mod 16)]
      else [c])"

definition json_string :: "string \<Rightarrow> string" where
  "json_string s = [CHR 0x22] @ concat (map json_char s) @ [CHR 0x22]"

fun json_dumps :: "pyval \<Rightarrow> string" and json_items :: "(string \<times> pyval) list \<Rightarrow> string list"
  and json_list :: "pyval list \<Rightarrow> string list" where
  "json_dumps PNone = ''null''"
| "json_dumps (PBool b) = (if b then ''true'' else ''false'')"
| "json_dumps (PInt i) = int_str i"
| "json_dumps (PFloat q) = float_str q"
| "json_dumps (PStr s) = json_string s"
| "json_dumps (PList vs) = ''['' @ join '', '' (json_list vs) @ '']''"
| "json_dumps (PDict d) = ''{'' @ join '', '' (json_items d) @ ''}''"
| "json_items [] = []"
| "json_items ((k, v) # d) = (json_string k @ '': '' @ json_dumps v) # json_items d"
| "json_list [] = []"
| "json_list (v # vs) = json_dumps v # json_list vs"

end
