(* ===== verification/Db_Tables.thy ===== *)
theory Db_Tables
  imports Prelude "HOL-Library.Multiset"
begin

text \<open>
  Tables as lists of rows.  The order of the list is the scan order of the table, which SQL leaves
  open: every theorem holds for any order, and a query without \<open>ORDER BY\<close> (or whose order has ties)
  returns its rows in scan order.  The sections after the operations state, as locales, what the
  components rely on: that a row update keeps the primary key, and that a sweep leaves no row its
  own selection would pick again.
\<close>

section \<open>Queries and updates\<close>

definition select_where :: "('r \<Rightarrow> bool) \<Rightarrow> 'r list \<Rightarrow> 'r list" where
  "select_where P rows = filter P rows"

text \<open>\<open>update(T).where(P).values(...)\<close>: \<open>f\<close> writes the assigned columns.\<close>

definition update_where :: "('r \<Rightarrow> bool) \<Rightarrow> ('r \<Rightarrow> 'r) \<Rightarrow> 'r list \<Rightarrow> 'r list" where
  "update_where P f rows = map (\<lambda>r. if P r then f r else r) rows"

definition delete_where :: "('r \<Rightarrow> bool) \<Rightarrow> 'r list \<Rightarrow> 'r list" where
  "delete_where P rows = filter (\<lambda>r. \<not> P r) rows"

definition insert_row :: "'r \<Rightarrow> 'r list \<Rightarrow> 'r list" where
  "insert_row r rows = rows @ [r]"

text \<open>\<open>scalar_one_or_none\<close> on a query by primary key.\<close>

definition find_row :: "('r \<Rightarrow> bool) \<Rightarrow> 'r list \<Rightarrow> 'r option" where
  "find_row P rows = first_row (select_where P rows)"

text \<open>
  A loop over selected rows that writes each loaded object back: row by row, the row with the
  object's key becomes the object's new state.
\<close>

definition write_back :: "('r \<Rightarrow> 'k) \<Rightarrow> ('r \<Rightarrow> 'r) \<Rightarrow> 'r \<Rightarrow> 'r list \<Rightarrow> 'r list" where
  "write_back key f r rows = update_where (\<lambda>x. key x = key r) (\<lambda>_. f r) rows"

definition sweep_rows :: "('r \<Rightarrow> 'k) \<Rightarrow> ('r \<Rightarrow> bool) \<Rightarrow> ('r \<Rightarrow> 'r) \<Rightarrow> 'r list \<Rightarrow> 'r list" where
  "sweep_rows key P f rows = foldl (\<lambda>rs r. write_back key f r rs) rows (select_where P rows)"

text \<open>\<open>ORDER BY key\<close> and \<open>ORDER BY key DESC\<close>, rows with equal keys in scan order.\<close>

definition order_rows :: "bool \<Rightarrow> ('r \<Rightarrow> 'k::linorder) \<Rightarrow> 'r list \<Rightarrow> 'r list" where
  "order_rows asc key rows = (if asc then sort_key key rows else rev (sort_key key (rev rows)))"

lemma set_select [table_simps]: "set (select_where P rows) = {r \<in> set rows. P r}"
  by (simp add: select_where_def)

lemma select_Nil [simp]: "select_where P [] = []"
  by (simp add: select_where_def)

lemma length_update [simp]: "length (update_where P f rows) = length rows"
  by (simp add: update_where_def)

lemma update_Nil [simp]: "update_where P f [] = []"
  by (simp add: update_where_def)

lemma update_Cons [simp]:
  "update_where P f (r # rows) = (if P r then f r else r) # update_where P f rows"
  by (simp add: update_where_def)

lemma update_append [simp]:
  "update_where P f (xs @ ys) = update_where P f xs @ update_where P f ys"
  by (simp add: update_where_def)

lemma set_update: "set (update_where P f rows) = (\<lambda>r. if P r then f r else r) ` set rows"
  by (simp add: update_where_def)

lemma in_updateE:
  assumes "r' \<in> set (update_where P f rows)"
  obtains r where "r \<in> set rows" and "r' = (if P r then f r else r)"
  using assms by (auto simp: update_where_def)

lemma update_cong:
  "(\<And>r. r \<in> set rows \<Longrightarrow> P r = Q r) \<Longrightarrow> (\<And>r. r \<in> set rows \<Longrightarrow> P r \<Longrightarrow> f r = g r)
   \<Longrightarrow> update_where P f rows = update_where Q g rows"
  by (auto simp: update_where_def)

lemma update_ident: "(\<And>r. r \<in> set rows \<Longrightarrow> P r \<Longrightarrow> f r = r) \<Longrightarrow> update_where P f rows = rows"
  by (simp add: update_where_def map_idI)

lemma update_none: "(\<And>r. r \<in> set rows \<Longrightarrow> \<not> P r) \<Longrightarrow> update_where P f rows = rows"
  by (simp add: update_where_def map_idI)

lemma find_row_Some: "find_row P rows = Some r \<Longrightarrow> r \<in> set rows \<and> P r"
  using first_row_in [of "select_where P rows" r] by (auto simp: find_row_def table_simps)

lemma find_row_None_iff: "find_row P rows = None \<longleftrightarrow> (\<forall>r \<in> set rows. \<not> P r)"
  by (simp add: find_row_def select_where_def filter_empty_conv)

lemma find_row_Cons: "find_row P (r # rows) = (if P r then Some r else find_row P rows)"
  by (simp add: find_row_def select_where_def)

lemma find_row_Nil [simp]: "find_row P [] = None"
  by (simp add: find_row_def select_where_def)

lemma in_insert [table_simps]: "r \<in> set (insert_row x rows) \<longleftrightarrow> r = x \<or> r \<in> set rows"
  by (auto simp: insert_row_def)

lemma set_delete [table_simps]: "set (delete_where P rows) = {r \<in> set rows. \<not> P r}"
  by (simp add: delete_where_def)

lemma filter_update_invariant:
  "(\<And>r. r \<in> set rows \<Longrightarrow> P r \<Longrightarrow> Q (f r) = Q r) \<Longrightarrow>
   length (filter Q (update_where P f rows)) = length (filter Q rows)"
  by (induction rows) auto

lemma count_update_one:
  assumes "distinct (map key rows)" and "r \<in> set rows"
  shows "length (filter Q (update_where (\<lambda>x. key x = key r) f rows)) + (if Q r then 1 else 0)
       = length (filter Q rows) + (if Q (f r) then 1 else 0)"
  using assms
proof (induction rows)
  case Nil
  then show ?case by simp
next
  case (Cons a rows)
  show ?case
  proof (cases "a = r")
    case True
    have "update_where (\<lambda>x. key x = key r) f rows = rows"
      using Cons.prems(1) True by (intro update_none) (auto simp: image_iff)
    with True show ?thesis by simp
  next
    case False
    with Cons.prems have "key a \<noteq> key r" "r \<in> set rows"
      by (auto simp: image_iff)
    with Cons show ?thesis by simp
  qed
qed

lemma mset_order_rows [simp]: "mset (order_rows asc key rows) = mset rows"
  by (simp add: order_rows_def)

lemma length_order_rows [simp]: "length (order_rows asc key rows) = length rows"
  by (metis mset_order_rows size_mset)

lemma order_rows_sorted:
  "sorted_wrt (if asc then (\<lambda>a b. key a \<le> key b) else (\<lambda>a b. key b \<le> key a)) (order_rows asc key rows)"
proof -
  have "sorted_wrt (\<lambda>a b. key a \<le> key b) (sort_key key xs)" for xs :: "'a list"
    using sorted_sort_key [of key xs] by (simp add: sorted_map)
  then show ?thesis
    by (simp add: order_rows_def sorted_wrt_rev)
qed

lemma set_order_rows [simp]: "set (order_rows asc key rows) = set rows"
  by (simp add: order_rows_def)

lemma order_rows_Nil [simp]: "order_rows asc key rows = [] \<longleftrightarrow> rows = []"
  by (metis length_0_conv length_order_rows)

lemma order_rows_empty [simp]: "order_rows asc key [] = []"
  by simp

text \<open>The first row of a descending order has the greatest key.\<close>

lemma first_order_desc:
  assumes "first_row (order_rows False key rows) = Some r"
  shows "r \<in> set rows" and "\<And>x. x \<in> set rows \<Longrightarrow> key x \<le> key r"
proof -
  obtain rest where rest: "order_rows False key rows = r # rest"
    using assms by (cases "order_rows False key rows") auto
  then have set: "set rows = insert r (set rest)"
    by (metis list.simps(15) set_order_rows)
  then show "r \<in> set rows" by simp
  show "key x \<le> key r" if "x \<in> set rows" for x
    using order_rows_sorted [of False key rows] that set by (auto simp: rest)
qed

text \<open>Mapping rows by a function that keeps the key commutes with ordering and selecting.\<close>

lemma insort_key_map: "insort_key k (g x) (map g xs) = map g (insort_key (\<lambda>y. k (g y)) x xs)"
  by (induction xs) auto

lemma sort_key_map: "sort_key k (map g xs) = map g (sort_key (\<lambda>y. k (g y)) xs)"
  by (induction xs) (simp_all add: insort_key_map)

lemma order_rows_map:
  assumes "\<And>x. k (g x) = k x"
  shows "order_rows asc k (map g xs) = map g (order_rows asc k xs)"
  by (simp add: order_rows_def sort_key_map assms rev_map)

lemma select_map:
  assumes "\<And>x. P (g x) = P x"
  shows "select_where P (map g xs) = map g (select_where P xs)"
  by (simp add: select_where_def filter_map o_def assms)

lemma first_row_map: "first_row (map g xs) = map_option g (first_row xs)"
  by (cases xs) simp_all

section \<open>Keyed tables\<close>

text \<open>
  A row update that a component performs.  The law is the one every \<open>values(...)\<close> of the code obeys:
  it never writes the primary key.
\<close>

locale row_update =
  fixes key :: "'r \<Rightarrow> 'k" and upd :: "'r \<Rightarrow> 'r"
  assumes key_upd [simp]: "key (upd r) = key r"
begin

lemma keys_update: "map key (update_where P upd rows) = map key rows"
  by (simp add: update_where_def o_def)

lemma distinct_update: "distinct (map key (update_where P upd rows)) = distinct (map key rows)"
  by (simp only: keys_update)

lemma find_updated:
  "find_row (\<lambda>r. key r = k) (update_where (\<lambda>r. key r = k) upd rows)
   = map_option upd (find_row (\<lambda>r. key r = k) rows)"
  by (induction rows) (auto simp: find_row_Cons)

lemma find_other:
  "k' \<noteq> k \<Longrightarrow>
   find_row (\<lambda>r. key r = k') (update_where (\<lambda>r. key r = k) upd rows) = find_row (\<lambda>r. key r = k') rows"
  by (induction rows) (auto simp: find_row_Cons)

lemma write_back_eq:
  assumes "distinct (map key rows)" and "r \<in> set rows"
  shows "write_back key upd r rows = update_where (\<lambda>x. key x = key r) upd rows"
  unfolding write_back_def
  using assms by (intro update_cong) (auto dest: distinct_map_inj)

end

text \<open>
  A sweep picks rows and moves each to a state its own selection no longer matches.  Then the
  row-by-row loop is one bulk update, a second sweep finds nothing, and the rows it did not pick
  are untouched.
\<close>

locale sweep = row_update key act for key :: "'r \<Rightarrow> 'k" and act :: "'r \<Rightarrow> 'r" +
  fixes pick :: "'r \<Rightarrow> bool"
  assumes act_done: "pick r \<Longrightarrow> \<not> pick (act r)"
begin

lemma write_backs_eq:
  assumes "distinct (map key rows)" and "set rs \<subseteq> set rows" and "distinct (map key rs)"
  shows "foldl (\<lambda>xs r. write_back key act r xs) rows rs
       = update_where (\<lambda>x. key x \<in> key ` set rs) act rows"
  using assms
proof (induction rs rule: rev_induct)
  case Nil
  then show ?case by (simp add: update_none)
next
  case (snoc r rs)
  let ?mid = "update_where (\<lambda>x. key x \<in> key ` set rs) act rows"
  have notin: "key r \<notin> key ` set rs"
    using snoc.prems(3) by auto
  have "foldl (\<lambda>xs r. write_back key act r xs) rows (rs @ [r]) = write_back key act r ?mid"
    using snoc by simp
  also have "\<dots> = map (\<lambda>x. if key x = key r then act r else if key x \<in> key ` set rs then act x else x) rows"
    by (auto simp: write_back_def update_where_def)
  also have "\<dots> = update_where (\<lambda>x. key x \<in> key ` set (rs @ [r])) act rows"
  proof -
    have "x \<in> set rows \<Longrightarrow> key x = key r \<Longrightarrow> x = r" for x
      using snoc.prems(1,2) distinct_map_inj [of key rows x r] by auto
    then show ?thesis
      using notin by (auto simp: update_where_def)
  qed
  finally show ?case .
qed

theorem sweep_is_update:
  assumes "distinct (map key rows)"
  shows "sweep_rows key pick act rows = update_where pick act rows"
proof -
  have d: "distinct (map key (select_where pick rows))"
    using assms by (simp add: select_where_def distinct_map_filter)
  have "sweep_rows key pick act rows
      = update_where (\<lambda>x. key x \<in> key ` set (select_where pick rows)) act rows"
    unfolding sweep_rows_def using assms d by (intro write_backs_eq) (auto simp: table_simps)
  also have "\<dots> = update_where pick act rows"
    using assms by (intro update_cong) (auto simp: table_simps dest: distinct_map_inj)
  finally show ?thesis .
qed

lemma sweep_clears: "r \<in> set (update_where pick act rows) \<Longrightarrow> \<not> pick r"
  by (auto simp: update_where_def act_done)

lemma sweep_idle: "select_where pick (update_where pick act rows) = []"
  by (auto simp: select_where_def filter_empty_conv dest: sweep_clears)

lemma sweep_keeps: "r \<in> set rows \<Longrightarrow> \<not> pick r \<Longrightarrow> r \<in> set (update_where pick act rows)"
  by (auto simp: update_where_def image_iff)

end

end
