(* ===== verification/Db_Models.thy ===== *)
theory Db_Models
  imports Py_Text Db_Tables
begin

text \<open>
  The ORM models of \<open>shared/lib/models.py\<close>: one record per table, a field per column, with a
  prefix per table because the column names repeat.  The database is the record of its tables;
  \<open>next_uuid\<close> is the supply that stands for \<open>uuid.uuid4\<close>.  Constructors with the declared column
  defaults, the insertion of audit rows, and the \<open>updated\<close> trigger of the schema follow.
\<close>

section \<open>Task queue\<close>

datatype task_status =
    Queued | Running | Waiting_approval | Waiting_user_input | Resume_pending
  | Succeeded | Failed | Lost | Timed_out

fun status_str :: "task_status \<Rightarrow> string" where
  "status_str Queued = ''queued''"
| "status_str Running = ''running''"
| "status_str Waiting_approval = ''waiting_approval''"
| "status_str Waiting_user_input = ''waiting_user_input''"
| "status_str Resume_pending = ''resume_pending''"
| "status_str Succeeded = ''succeeded''"
| "status_str Failed = ''failed''"
| "status_str Lost = ''lost''"
| "status_str Timed_out = ''timed_out''"

text \<open>PostgreSQL compares the values of an enum type by their position in its declaration.\<close>

fun status_rank :: "task_status \<Rightarrow> nat" where
  "status_rank Queued = 0"
| "status_rank Running = 1"
| "status_rank Waiting_approval = 2"
| "status_rank Waiting_user_input = 3"
| "status_rank Resume_pending = 4"
| "status_rank Succeeded = 5"
| "status_rank Failed = 6"
| "status_rank Lost = 7"
| "status_rank Timed_out = 8"

lemma status_rank_inj: "status_rank s = status_rank u \<Longrightarrow> s = u"
  by (cases s; cases u) simp_all

instantiation task_status :: linorder
begin

definition less_eq_task_status :: "task_status \<Rightarrow> task_status \<Rightarrow> bool" where
  "less_eq_task_status s u \<longleftrightarrow> status_rank s \<le> status_rank u"

definition less_task_status :: "task_status \<Rightarrow> task_status \<Rightarrow> bool" where
  "less_task_status s u \<longleftrightarrow> status_rank s < status_rank u"

instance
  by standard (auto simp: less_eq_task_status_def less_task_status_def intro: status_rank_inj)

end

record task =
  t_id :: uuid
  t_workflow :: string
  t_status :: task_status
  t_prompt :: string
  t_metadata :: pydict
  t_channel :: "string option"
  t_initiator :: "string option"
  t_message_channel :: "string option"
  t_message_thread :: "string option"
  t_session_id :: "string option"
  t_container_id :: "string option"
  t_heartbeat :: "datetime option"
  t_wait_reason :: "string option"
  t_wait_deadline :: "datetime option"
  t_wait_started :: "datetime option"
  t_waited_sec :: seconds
  t_result :: "pydict option"
  t_tokens_used :: "int option"
  t_duration_sec :: pyval
  t_error :: "string option"
  t_dedupe_keys :: "string list option"
  t_archived_at :: "datetime option"
  t_created :: datetime
  t_updated :: datetime

record task_event =
  te_id :: uuid
  te_task_id :: uuid
  te_event_type :: string
  te_data :: "pydict option"
  te_created :: datetime

section \<open>Control plane\<close>

record agent =
  ag_id :: uuid
  ag_name :: string
  ag_description :: "string option"
  ag_version :: "string option"
  ag_config :: pyval
  ag_config_hash :: "string option"
  ag_repo_path :: "string option"
  ag_provisioned :: bool
  ag_paused :: bool
  ag_provisioned_at :: "datetime option"
  ag_created :: datetime
  ag_updated :: datetime

record sess =
  ss_id :: uuid
  ss_task_id :: "uuid option"
  ss_agent_id :: "uuid option"
  ss_container_id :: "string option"
  ss_status :: string
  ss_started :: "datetime option"
  ss_ended :: "datetime option"
  ss_duration_sec :: "seconds option"
  ss_tokens_input :: int
  ss_tokens_output :: int
  ss_cost_usd :: "rat option"
  ss_turns :: int
  ss_tools_used :: "pyval list"
  ss_subagents_used :: "pyval list"
  ss_error :: "string option"
  ss_archived_at :: "datetime option"

record session_event =
  se_id :: uuid
  se_task_id :: "uuid option"
  se_event_type :: string
  se_timestamp :: datetime
  se_data :: "pydict option"
  se_archived_at :: "datetime option"

record approval =
  ap_id :: uuid
  ap_task_id :: uuid
  ap_workflow :: "string option"
  ap_approval_kind :: string
  ap_tool_name :: string
  ap_status :: string
  ap_request_preview :: "string option"
  ap_reason :: "string option"
  ap_metadata :: pydict
  ap_requested_at :: datetime
  ap_resolved_at :: "datetime option"
  ap_archived_at :: "datetime option"
  ap_created_at :: datetime
  ap_updated_at :: datetime

record schedule =
  sc_id :: uuid
  sc_agent_id :: uuid
  sc_name :: string
  sc_cron :: string
  sc_prompt :: "string option"
  sc_enabled :: bool
  sc_last_run :: "datetime option"
  sc_next_run :: "datetime option"
  sc_created :: datetime

record job_run =
  jr_id :: uuid
  jr_job_type :: string
  jr_scope :: "string option"
  jr_trigger :: "string option"
  jr_source_id :: "uuid option"
  jr_version_id :: "uuid option"
  jr_status :: string
  jr_started_at :: datetime
  jr_heartbeat_at :: "datetime option"
  jr_finished_at :: "datetime option"
  jr_duration_sec :: "seconds option"
  jr_summary :: pydict
  jr_warnings :: "string list"
  jr_error :: "string option"

section \<open>Knowledge sources\<close>

record knowledge_source =
  ks_id :: uuid
  ks_canonical_alias :: string
  ks_display_name :: "string option"
  ks_source_kind :: string
  ks_index_kind :: string
  ks_source_config :: pydict
  ks_repository_url :: "string option"
  ks_default_ref :: "string option"
  ks_include_paths :: "pyval list"
  ks_exclude_paths :: "pyval list"
  ks_credential_ref :: "string option"
  ks_sync_policy :: pydict
  ks_enabled :: bool
  ks_serving_suspended_at :: "datetime option"
  ks_serving_suspension_reason :: "string option"
  ks_current_version :: "uuid option"
  ks_created_at :: datetime
  ks_updated_at :: datetime

record source_version =
  kv_id :: uuid
  kv_source_id :: uuid
  kv_source_revision :: "string option"
  kv_index_kind :: string
  kv_indexer_version :: "string option"
  kv_index_config_hash :: "string option"
  kv_stats :: pydict
  kv_commit_sha :: "string option"
  kv_status :: string
  kv_graphify_version :: "string option"
  kv_extraction_config_hash :: "string option"
  kv_artifact_keys :: pydict
  kv_artifact_checksums :: pydict
  kv_file_count :: int
  kv_node_count :: int
  kv_edge_count :: int
  kv_warnings :: "string list"
  kv_error :: "string option"
  kv_started_at :: "datetime option"
  kv_finished_at :: "datetime option"
  kv_created_at :: datetime

record document_revision =
  dr_id :: uuid
  dr_source_id :: uuid
  dr_external_id :: string
  dr_provider_revision :: string
  dr_title :: string
  dr_canonical_url :: string
  dr_hierarchy_path :: "pyval list"
  dr_normalized_content :: string
  dr_content_hash :: string
  dr_metadata :: pydict
  dr_created_at :: datetime

record knowledge_chunk =
  kc_id :: uuid
  kc_document_revision_id :: uuid
  kc_index_config_hash :: string
  kc_ordinal :: int
  kc_heading_path :: "string list"
  kc_content :: string
  kc_content_hash :: string
  kc_estimated_tokens :: int
  kc_lexical_text :: string
  kc_embedding :: "rat list"
  kc_embedding_model :: string
  kc_embedding_dimensions :: int

record version_document =
  vd_version_id :: uuid
  vd_document_revision_id :: uuid
  vd_external_id :: string
  vd_root_page_id :: string

section \<open>The database\<close>

record db =
  tasks :: "task list"
  task_events :: "task_event list"
  agents :: "agent list"
  sessions :: "sess list"
  session_events :: "session_event list"
  approvals :: "approval list"
  schedules :: "schedule list"
  job_runs :: "job_run list"
  sources :: "knowledge_source list"
  versions :: "source_version list"
  revisions :: "document_revision list"
  chunks :: "knowledge_chunk list"
  members :: "version_document list"
  next_uuid :: uuid

definition empty_db :: db where
  "empty_db = \<lparr>tasks = [], task_events = [], agents = [], sessions = [], session_events = [],
     approvals = [], schedules = [], job_runs = [], sources = [], versions = [], revisions = [],
     chunks = [], members = [], next_uuid = 0\<rparr>"

text \<open>A \<open>Task\<close> with only the required columns given; the others take their declared defaults.\<close>

definition new_task :: "uuid \<Rightarrow> string \<Rightarrow> string \<Rightarrow> datetime \<Rightarrow> task" where
  "new_task i workflow prompt tx_now =
     \<lparr>t_id = i, t_workflow = workflow, t_status = Queued, t_prompt = prompt, t_metadata = [],
      t_channel = None, t_initiator = None, t_message_channel = None, t_message_thread = None,
      t_session_id = None, t_container_id = None, t_heartbeat = None, t_wait_reason = None,
      t_wait_deadline = None, t_wait_started = None, t_waited_sec = 0, t_result = None,
      t_tokens_used = Some 0, t_duration_sec = PNone, t_error = None, t_dedupe_keys = None,
      t_archived_at = None, t_created = tx_now, t_updated = tx_now\<rparr>"

text \<open>
  The schema's trigger on \<open>task_queue.tasks\<close>: every updated row gets \<open>updated = now()\<close>, the
  transaction's time.
\<close>

definition update_tasks :: "datetime \<Rightarrow> (task \<Rightarrow> bool) \<Rightarrow> (task \<Rightarrow> task) \<Rightarrow> db \<Rightarrow> db" where
  "update_tasks tx_now P f d =
     d\<lparr>tasks := update_where P (\<lambda>t. (f t)\<lparr>t_updated := tx_now\<rparr>) (tasks d)\<rparr>"

definition find_task :: "db \<Rightarrow> uuid \<Rightarrow> task option" where
  "find_task d i = find_row (\<lambda>t. t_id t = i) (tasks d)"

text \<open>\<open>session.add(TaskEvent(...))\<close> and \<open>session.add(SessionEvent(...))\<close>.\<close>

definition add_task_event :: "datetime \<Rightarrow> uuid \<Rightarrow> string \<Rightarrow> pydict \<Rightarrow> db \<Rightarrow> db" where
  "add_task_event tx_now i event_type data d =
     d\<lparr>task_events := insert_row \<lparr>te_id = next_uuid d, te_task_id = i, te_event_type = event_type,
          te_data = Some data, te_created = tx_now\<rparr> (task_events d),
       next_uuid := Suc (next_uuid d)\<rparr>"

definition add_session_event :: "uuid option \<Rightarrow> string \<Rightarrow> datetime \<Rightarrow> pydict \<Rightarrow> db \<Rightarrow> db" where
  "add_session_event i event_type timestamp data d =
     d\<lparr>session_events := insert_row \<lparr>se_id = next_uuid d, se_task_id = i, se_event_type = event_type,
          se_timestamp = timestamp, se_data = Some data, se_archived_at = None\<rparr> (session_events d),
       next_uuid := Suc (next_uuid d)\<rparr>"

text \<open>\<open>select(Task).where(Task.status == s)\<close> counted.\<close>

definition count_status :: "task_status \<Rightarrow> (task \<Rightarrow> bool) \<Rightarrow> db \<Rightarrow> nat" where
  "count_status s P d = length (filter (\<lambda>t. t_status t = s \<and> P t) (tasks d))"

section \<open>Frame and key lemmas\<close>

lemma tasks_add_task_event [simp]: "tasks (add_task_event n i e x d) = tasks d"
  by (simp add: add_task_event_def)

lemma tasks_add_session_event [simp]: "tasks (add_session_event i e n x d) = tasks d"
  by (simp add: add_session_event_def)

lemma frame_add_task_event [simp, db_frame]:
  "agents (add_task_event n i e x d) = agents d"
  "sessions (add_task_event n i e x d) = sessions d"
  "session_events (add_task_event n i e x d) = session_events d"
  "approvals (add_task_event n i e x d) = approvals d"
  "schedules (add_task_event n i e x d) = schedules d"
  "job_runs (add_task_event n i e x d) = job_runs d"
  "next_uuid (add_task_event n i e x d) = Suc (next_uuid d)"
  by (simp_all add: add_task_event_def)

lemma frame_add_session_event [simp, db_frame]:
  "agents (add_session_event i e n x d) = agents d"
  "sessions (add_session_event i e n x d) = sessions d"
  "task_events (add_session_event i e n x d) = task_events d"
  "approvals (add_session_event i e n x d) = approvals d"
  "schedules (add_session_event i e n x d) = schedules d"
  "job_runs (add_session_event i e n x d) = job_runs d"
  "next_uuid (add_session_event i e n x d) = Suc (next_uuid d)"
  by (simp_all add: add_session_event_def)

lemma frame_update_tasks [simp, db_frame]:
  "agents (update_tasks n P f d) = agents d"
  "sessions (update_tasks n P f d) = sessions d"
  "task_events (update_tasks n P f d) = task_events d"
  "session_events (update_tasks n P f d) = session_events d"
  "approvals (update_tasks n P f d) = approvals d"
  "schedules (update_tasks n P f d) = schedules d"
  "job_runs (update_tasks n P f d) = job_runs d"
  "next_uuid (update_tasks n P f d) = next_uuid d"
  by (simp_all add: update_tasks_def)

lemma tasks_update_tasks:
  "tasks (update_tasks n P f d) = update_where P (\<lambda>t. (f t)\<lparr>t_updated := n\<rparr>) (tasks d)"
  by (simp add: update_tasks_def)

lemma find_task_Some: "find_task d i = Some t \<Longrightarrow> t \<in> set (tasks d) \<and> t_id t = i"
  unfolding find_task_def by (rule find_row_Some)

lemma find_task_unique:
  "distinct (map t_id (tasks d)) \<Longrightarrow> t \<in> set (tasks d) \<Longrightarrow> find_task d (t_id t) = Some t"
proof -
  assume d: "distinct (map t_id (tasks d))" and t: "t \<in> set (tasks d)"
  then obtain u where u: "find_task d (t_id t) = Some u"
    unfolding find_task_def using find_row_None_iff [of "\<lambda>x. t_id x = t_id t" "tasks d"] by fastforce
  with d t show ?thesis
    using find_task_Some [OF u] distinct_map_inj [OF d] by auto
qed

text \<open>
  The states of a database the operations keep: primary keys are distinct and below the supply.
\<close>

definition wf_tasks :: "db \<Rightarrow> bool" where
  "wf_tasks d \<longleftrightarrow> distinct (map t_id (tasks d)) \<and> (\<forall>t \<in> set (tasks d). t_id t < next_uuid d)"

lemma wf_tasks_distinct: "wf_tasks d \<Longrightarrow> distinct (map t_id (tasks d))"
  by (simp add: wf_tasks_def)

lemma wf_empty [simp]: "wf_tasks empty_db"
  by (simp add: wf_tasks_def empty_db_def)

lemma wf_add_task_event [simp]: "wf_tasks d \<Longrightarrow> wf_tasks (add_task_event n i e x d)"
  by (auto simp: wf_tasks_def less_SucI)

lemma wf_add_session_event [simp]: "wf_tasks d \<Longrightarrow> wf_tasks (add_session_event i e n x d)"
  by (auto simp: wf_tasks_def less_SucI)

lemma wf_update_tasks:
  assumes "\<And>t. t_id (f t) = t_id t" and "wf_tasks d"
  shows "wf_tasks (update_tasks n P f d)"
proof -
  have "map t_id (tasks (update_tasks n P f d)) = map t_id (tasks d)"
    using assms(1) by (simp add: tasks_update_tasks update_where_def o_def)
  moreover from this have "t_id ` set (tasks (update_tasks n P f d)) = t_id ` set (tasks d)"
    by (metis image_set)
  ultimately show ?thesis
    using assms(2) unfolding wf_tasks_def by (metis (no_types, lifting) frame_update_tasks(8) image_iff)
qed


lemma find_task_update:
  assumes "\<And>t. t_id (f t) = t_id t"
  shows "find_task (update_tasks n P f d) i
       = map_option (\<lambda>t. if P t then (f t)\<lparr>t_updated := n\<rparr> else t) (find_task d i)"
proof -
  have "find_row (\<lambda>t. t_id t = i) (update_where P (\<lambda>t. (f t)\<lparr>t_updated := n\<rparr>) ts)
      = map_option (\<lambda>t. if P t then (f t)\<lparr>t_updated := n\<rparr> else t) (find_row (\<lambda>t. t_id t = i) ts)" for ts
    by (induction ts) (auto simp: find_row_Cons assms)
  then show ?thesis
    by (simp add: find_task_def tasks_update_tasks)
qed

lemma find_task_add_task_event [simp]: "find_task (add_task_event n i e x d) j = find_task d j"
  by (simp add: find_task_def)

lemma find_task_add_session_event [simp]: "find_task (add_session_event i e n x d) j = find_task d j"
  by (simp add: find_task_def)

end
