(* ===== verification/Task_Queue.thy ===== *)
theory Task_Queue
  imports Db_Models
begin

text \<open>
  \<open>shared/lib/task_queue.py\<close>: the wait clock, task creation and message routing, the duplicate
  merge of \<open>submit_task\<close>, and the status updates by id.  Every operation takes \<open>now\<close>, the value of
  \<open>datetime.now(UTC)\<close>, and \<open>tx_now\<close>, the value of the database's \<open>now()\<close>.
\<close>

section \<open>Statuses\<close>

definition RUNNABLE_STATUSES :: "task_status list" where
  "RUNNABLE_STATUSES = [Resume_pending, Queued]"

definition WAITING_STATUSES :: "task_status list" where
  "WAITING_STATUSES = [Waiting_approval, Waiting_user_input]"

definition TERMINAL_STATUSES :: "task_status list" where
  "TERMINAL_STATUSES = [Succeeded, Failed, Lost, Timed_out]"

definition ACTIVE_STATUSES :: "task_status list" where
  "ACTIVE_STATUSES = [Queued, Running, Resume_pending] @ WAITING_STATUSES"

definition MAX_RECORDED_DUPLICATES :: nat where
  "MAX_RECORDED_DUPLICATES = 50"

lemmas status_lists =
  RUNNABLE_STATUSES_def WAITING_STATUSES_def TERMINAL_STATUSES_def ACTIVE_STATUSES_def

section \<open>The human-wait clock\<close>

text \<open>A dict of column values is the function that writes these columns; \<open>{}\<close> is the identity.\<close>

definition wait_started_updates :: "task option \<Rightarrow> datetime \<Rightarrow> task \<Rightarrow> task" where
  "wait_started_updates task now =
     (case task of
        Some t \<Rightarrow> (case t_wait_started t of
                    Some _ \<Rightarrow> id
                  | None \<Rightarrow> (\<lambda>r. r\<lparr>t_wait_started := Some now\<rparr>))
      | None \<Rightarrow> (\<lambda>r. r\<lparr>t_wait_started := Some now\<rparr>))"

definition wait_finished_updates :: "task option \<Rightarrow> datetime \<Rightarrow> task \<Rightarrow> task" where
  "wait_finished_updates task now =
     (case task of
        None \<Rightarrow> id
      | Some t \<Rightarrow>
          (case t_wait_started t of
             None \<Rightarrow> id
           | Some w \<Rightarrow>
               (let elapsed = max 0 (now - w)
                in (\<lambda>r. r\<lparr>t_wait_started := None, t_waited_sec := t_waited_sec t + elapsed\<rparr>))))"

definition active_runtime_sec :: "task \<Rightarrow> datetime \<Rightarrow> datetime \<Rightarrow> seconds" where
  "active_runtime_sec t started_at now =
     (let waited = t_waited_sec t
            + (case t_wait_started t of None \<Rightarrow> 0 | Some w \<Rightarrow> max 0 (now - w))
      in max 0 (now - started_at - waited))"

text \<open>The SQL form: \<open>waited_sec + coalesce(extract(epoch from now() - wait_started), 0)\<close>.\<close>

definition close_wait_sql :: "datetime \<Rightarrow> task \<Rightarrow> task" where
  "close_wait_sql tx_now t =
     t\<lparr>t_waited_sec := t_waited_sec t + (case t_wait_started t of None \<Rightarrow> 0 | Some w \<Rightarrow> tx_now - w),
       t_wait_started := None\<rparr>"

section \<open>Message routing\<close>

definition message_channel_from_config :: "pyval \<Rightarrow> string" where
  "message_channel_from_config config =
     (let messaging = (case config of PDict c \<Rightarrow> dict_get c ''messaging'' | _ \<Rightarrow> PNone);
          channels = (case messaging of PDict m \<Rightarrow> dict_get m ''channels'' | _ \<Rightarrow> PNone)
      in case channels of
           PList cs \<Rightarrow> (case first_row (filter (\<lambda>c. c \<noteq> []) (map (\<lambda>c. strip (py_str c)) cs)) of
                          Some c \<Rightarrow> c | None \<Rightarrow> [])
         | _ \<Rightarrow> [])"

text \<open>
  \<open>package_config w\<close> is the configuration of the package \<open>find_workflow_package\<close> finds for \<open>w\<close> on
  disk, \<open>None\<close> when there is none.
\<close>

definition workflow_default_message_channel ::
    "(string \<Rightarrow> pydict option) \<Rightarrow> db \<Rightarrow> string \<Rightarrow> string" where
  "workflow_default_message_channel package_config d workflow =
     (let config = (case find_row (\<lambda>a. ag_name a = workflow) (agents d) of
                      None \<Rightarrow> PNone | Some a \<Rightarrow> ag_config a);
          workflow_channel = message_channel_from_config config
      in if workflow_channel \<noteq> [] then workflow_channel
         else message_channel_from_config
                (case package_config workflow of None \<Rightarrow> PNone | Some c \<Rightarrow> PDict c))"

definition normalize_message_route ::
    "(string \<Rightarrow> pydict option) \<Rightarrow> db \<Rightarrow> string \<Rightarrow> string option \<Rightarrow> string option \<Rightarrow> pydict option
     \<Rightarrow> string option \<times> pydict" where
  "normalize_message_route package_config d workflow message_channel message_thread metadata =
     (let normalized = (case metadata of None \<Rightarrow> [] | Some m \<Rightarrow> m)
      in if message_thread \<noteq> None \<and> message_thread \<noteq> Some [] then (message_channel, normalized)
         else
           let workflow_channel = workflow_default_message_channel package_config d workflow
           in if workflow_channel = [] \<or> message_channel = Some workflow_channel
              then (message_channel, normalized)
              else (Some workflow_channel,
                    foldl (\<lambda>m k. dict_pop k m) normalized
                      [''channel_id'', ''team_id'', ''team_name'', ''team_domain'']))"

section \<open>Creating tasks\<close>

text \<open>The keyword arguments \<open>create_task\<close> and \<open>submit_task\<close> share.\<close>

record task_args =
  ta_workflow :: string
  ta_prompt :: string
  ta_channel :: "string option"
  ta_initiator :: "string option"
  ta_metadata :: "pydict option"
  ta_message_channel :: "string option"
  ta_message_thread :: "string option"

definition insert_task :: "task \<Rightarrow> db \<Rightarrow> db" where
  "insert_task t d = d\<lparr>tasks := insert_row t (tasks d), next_uuid := Suc (next_uuid d)\<rparr>"

definition create_task ::
    "(string \<Rightarrow> pydict option) \<Rightarrow> datetime \<Rightarrow> task_args \<Rightarrow> string list \<Rightarrow> db \<Rightarrow> task \<times> db" where
  "create_task package_config tx_now args dedupe_keys d =
     (let (message_channel, metadata) =
            normalize_message_route package_config d (ta_workflow args) (ta_message_channel args)
              (ta_message_thread args) (ta_metadata args);
          task = (new_task (next_uuid d) (ta_workflow args) (ta_prompt args) tx_now)
                   \<lparr>t_status := Queued, t_metadata := metadata, t_channel := ta_channel args,
                    t_initiator := ta_initiator args, t_message_channel := message_channel,
                    t_message_thread := ta_message_thread args,
                    t_dedupe_keys := (if dedupe_keys = [] then None else Some dedupe_keys)\<rparr>;
          d1 = insert_task task d
      in (task, add_task_event tx_now (t_id task) ''task_created''
                  [(''workflow'', PStr (ta_workflow args)), (''metadata'', PDict metadata)] d1))"

section \<open>Duplicate submissions\<close>

record dedupe_check =
  dc_key :: string
  dc_window_sec :: int
  dc_include_completed :: bool
  dc_action :: string

record task_submission =
  ts_task :: task
  ts_duplicate_of :: "dedupe_check option"

text \<open>Iterating a JSON value: the items of a list, the keys of a dict, the characters of a string.\<close>

fun py_iter :: "pyval \<Rightarrow> pyval list result" where
  "py_iter (PList vs) = Inr vs"
| "py_iter (PDict d) = Inr (map (\<lambda>kv. PStr (fst kv)) d)"
| "py_iter (PStr s) = Inr (map (\<lambda>c. PStr [c]) s)"
| "py_iter _ = Inl Type_error"

definition merge_duplicate_metadata :: "pydict \<Rightarrow> pydict \<Rightarrow> pydict result" where
  "merge_duplicate_metadata existing metadata =
     result_bind (py_iter (dict_get_default existing ''duplicate_alerts'' (PList []))) (\<lambda>alerts.
     result_bind (py_iter (dict_get_default existing ''alert_state_transitions'' (PList []))) (\<lambda>old.
     (let duplicates = take_last MAX_RECORDED_DUPLICATES (alerts @ [PDict metadata]);
          transitions =
            (case dict_get metadata ''alert_envelope'' of
               PDict envelope \<Rightarrow>
                 take_last MAX_RECORDED_DUPLICATES
                   (old @ [PDict [(''state'', PStr (py_str (py_or (dict_get envelope ''state'') (PStr ''unknown'')))),
                                  (''message_id'', PStr (str_or_empty (dict_get metadata ''message_id'')))]])
             | _ \<Rightarrow> old)
      in result_bind (py_int (dict_get_default existing ''alert_occurrence_count'' (PInt 1))) (\<lambda>n.
         Inr (dict_merge existing
                [(''duplicate_alerts'', PList duplicates),
                 (''alert_occurrence_count'', PInt (n + 1)),
                 (''alert_state_transitions'', PList transitions)])))))"

text \<open>The query of one check: the most recent task that carries the key within the window.\<close>

definition dedupe_matches :: "datetime \<Rightarrow> dedupe_check \<Rightarrow> task \<Rightarrow> bool" where
  "dedupe_matches now check t \<longleftrightarrow>
     (case t_dedupe_keys t of None \<Rightarrow> False | Some ks \<Rightarrow> dc_key check \<in> set ks)
     \<and> t_created t \<ge> now - of_int (dc_window_sec check)
     \<and> (dc_include_completed check \<or> t_status t \<in> set ACTIVE_STATUSES)"

definition find_duplicate :: "datetime \<Rightarrow> dedupe_check \<Rightarrow> db \<Rightarrow> task option" where
  "find_duplicate now check d =
     first_row (sort_key (\<lambda>t. - t_created t) (select_where (dedupe_matches now check) (tasks d)))"

definition merge_into ::
    "datetime \<Rightarrow> pydict option \<Rightarrow> dedupe_check \<Rightarrow> task \<Rightarrow> db \<Rightarrow> (task_submission \<times> db) result" where
  "merge_into tx_now metadata check existing d =
     (let new_metadata = (case metadata of None \<Rightarrow> [] | Some m \<Rightarrow> m)
      in result_bind (merge_duplicate_metadata (t_metadata existing) new_metadata) (\<lambda>merged.
         let upd = (\<lambda>t. t\<lparr>t_metadata := merged\<rparr>);
             d1 = update_tasks tx_now (\<lambda>t. t_id t = t_id existing) upd d;
             d2 = add_task_event tx_now (t_id existing) ''duplicate_merged''
                    [(''dedupe_key'', PStr (dc_key check)), (''action'', PStr (dc_action check)),
                     (''new_metadata'', PDict new_metadata)] d1
         in Inr (\<lparr>ts_task = (upd existing)\<lparr>t_updated := tx_now\<rparr>, ts_duplicate_of = Some check\<rparr>, d2)))"

text \<open>
  The advisory locks serialise submissions with a common key, so the whole function is one atomic
  step here.
\<close>

fun try_merges ::
    "datetime \<Rightarrow> datetime \<Rightarrow> pydict option \<Rightarrow> dedupe_check list \<Rightarrow> db
     \<Rightarrow> (task_submission \<times> db) result option" where
  "try_merges now tx_now metadata [] d = None"
| "try_merges now tx_now metadata (check # checks) d =
     (case find_duplicate now check d of
        None \<Rightarrow> try_merges now tx_now metadata checks d
      | Some existing \<Rightarrow> Some (merge_into tx_now metadata check existing d))"

definition submit_task ::
    "(string \<Rightarrow> pydict option) \<Rightarrow> datetime \<Rightarrow> datetime \<Rightarrow> task_args \<Rightarrow> dedupe_check list \<Rightarrow> db
     \<Rightarrow> (task_submission \<times> db) result" where
  "submit_task package_config now tx_now args dedupe d =
     (let checks = filter (\<lambda>c. dc_key c \<noteq> [] \<and> dc_window_sec c > 0) dedupe
      in case try_merges now tx_now (ta_metadata args) checks d of
           Some r \<Rightarrow> r
         | None \<Rightarrow>
             (let (task, d') = create_task package_config tx_now args (map dc_key checks) d
              in Inr (\<lparr>ts_task = task, ts_duplicate_of = None\<rparr>, d')))"

section \<open>Status updates by id\<close>

definition heartbeat :: "datetime \<Rightarrow> datetime \<Rightarrow> uuid \<Rightarrow> db \<Rightarrow> db" where
  "heartbeat now tx_now i d =
     update_tasks tx_now (\<lambda>t. t_id t = i) (\<lambda>t. t\<lparr>t_heartbeat := Some now\<rparr>) d"

definition iso_or_none :: "datetime option \<Rightarrow> pyval" where
  "iso_or_none x = opt_val (\<lambda>t. PStr (isoformat t)) x"

text \<open>
  Committing an audit row for a task id: the foreign key on \<open>task_events.task_id\<close> rejects an id that
  no task has, and the whole transaction with it.
\<close>

definition commit_task_event :: "datetime \<Rightarrow> uuid \<Rightarrow> string \<Rightarrow> pydict \<Rightarrow> db \<Rightarrow> db result" where
  "commit_task_event tx_now i event_type data d =
     (if find_task d i = None then Inl (Sql_error ''task_events_task_id_fkey'')
      else Inr (add_task_event tx_now i event_type data d))"

definition mark_task_waiting ::
    "datetime \<Rightarrow> datetime \<Rightarrow> uuid \<Rightarrow> task_status \<Rightarrow> string \<Rightarrow> datetime option \<Rightarrow> string option
     \<Rightarrow> pydict option \<Rightarrow> db \<Rightarrow> db result" where
  "mark_task_waiting now tx_now i status reason deadline event_type data d =
     (if status \<notin> set WAITING_STATUSES
      then Inl (Value_error (''Unsupported waiting status: '' @ status_str status))
      else
        let d1 = update_tasks tx_now (\<lambda>t. t_id t = i)
                   (\<lambda>t. t\<lparr>t_status := status, t_wait_reason := Some reason, t_wait_deadline := deadline,
                          t_wait_started := (case t_wait_started t of Some w \<Rightarrow> Some w | None \<Rightarrow> Some tx_now),
                          t_heartbeat := Some now\<rparr>) d;
            event = (case event_type of Some e \<Rightarrow> if e \<noteq> [] then e else status_str status @ ''_started''
                                      | None \<Rightarrow> status_str status @ ''_started'')
        in commit_task_event tx_now i event
             (dict_merge [(''reason'', PStr reason), (''deadline'', iso_or_none deadline)]
                (case data of None \<Rightarrow> [] | Some x \<Rightarrow> x)) d1)"

definition mark_task_resume_pending ::
    "datetime \<Rightarrow> datetime \<Rightarrow> uuid \<Rightarrow> string \<Rightarrow> string \<Rightarrow> pydict option \<Rightarrow> db \<Rightarrow> db result" where
  "mark_task_resume_pending now tx_now i reason event_type data d =
     (let d1 = update_tasks tx_now (\<lambda>t. t_id t = i)
                 (\<lambda>t. close_wait_sql tx_now
                    (t\<lparr>t_status := Resume_pending, t_wait_reason := None, t_wait_deadline := None,
                       t_heartbeat := Some now\<rparr>)) d
      in commit_task_event tx_now i event_type
           (dict_merge [(''reason'', PStr reason)] (case data of None \<Rightarrow> [] | Some x \<Rightarrow> x)) d1)"

definition mark_task_running ::
    "datetime \<Rightarrow> datetime \<Rightarrow> uuid \<Rightarrow> string \<Rightarrow> string \<Rightarrow> pydict option \<Rightarrow> db \<Rightarrow> db result" where
  "mark_task_running now tx_now i reason event_type data d =
     (let d1 = update_tasks tx_now (\<lambda>t. t_id t = i)
                 (\<lambda>t. close_wait_sql tx_now
                    (t\<lparr>t_status := Running, t_wait_reason := None, t_wait_deadline := None,
                       t_heartbeat := Some now\<rparr>)) d
      in commit_task_event tx_now i event_type
           (dict_merge [(''reason'', PStr reason)] (case data of None \<Rightarrow> [] | Some x \<Rightarrow> x)) d1)"

definition complete_task ::
    "datetime \<Rightarrow> uuid \<Rightarrow> task_status \<Rightarrow> pydict option \<Rightarrow> int \<Rightarrow> pyval \<Rightarrow> string option \<Rightarrow> db \<Rightarrow> db result" where
  "complete_task tx_now i status result tokens_used duration_sec error d =
     (let d1 = update_tasks tx_now (\<lambda>t. t_id t = i)
                 (\<lambda>t. t\<lparr>t_status := status, t_result := result, t_tokens_used := Some tokens_used,
                        t_duration_sec := duration_sec, t_error := error\<rparr>) d
      in commit_task_event tx_now i (''task_'' @ status_str status)
           [(''result'', opt_val PDict result), (''tokens_used'', PInt tokens_used),
            (''duration_sec'', duration_sec), (''error'', opt_str error)] d1)"

definition get_task :: "db \<Rightarrow> uuid \<Rightarrow> task option" where
  "get_task d i = find_task d i"

end
