(* ===== verification/Task_Dequeue.thy ===== *)
theory Task_Dequeue
  imports Task_Queue
begin

text \<open>
  \<open>dequeue_task\<close>: admission against the platform and workflow limits, the candidate query with
  \<open>FOR UPDATE SKIP LOCKED\<close>, and the loop that blocks saturated workflows and retries.  The locale
  \<open>blocked_scan\<close> states what such a loop computes whatever the rows are; its interpretation on the
  task table gives the refinement of \<open>dequeue_task\<close> to one declarative choice.
\<close>

section \<open>The operation\<close>

record dequeue_opts =
  dq_workflow :: "string option"
  dq_max_running :: "int option"
  dq_platform_max_running :: "int option"
  dq_workflow_limits :: "(string \<times> int) list option"
  dq_workflow_priorities :: "(string \<times> int) list option"

definition nonempty :: "'a list option \<Rightarrow> bool" where
  "nonempty x = (case x of None \<Rightarrow> False | Some xs \<Rightarrow> xs \<noteq> [])"

definition running_count :: "(task \<Rightarrow> bool) \<Rightarrow> db \<Rightarrow> int" where
  "running_count P d = int (count_status Running P d)"

text \<open>The \<open>WHERE\<close> clauses; \<open>locked\<close> are the rows other transactions hold, which \<open>SKIP LOCKED\<close> passes over.\<close>

definition candidate :: "dequeue_opts \<Rightarrow> (uuid \<Rightarrow> bool) \<Rightarrow> task \<Rightarrow> bool" where
  "candidate opts locked t \<longleftrightarrow>
     t_status t \<in> set RUNNABLE_STATUSES \<and> t_archived_at t = None \<and> \<not> locked (t_id t)
     \<and> (case dq_workflow opts of None \<Rightarrow> True | Some w \<Rightarrow> w = [] \<or> t_workflow t = w)
     \<and> (case dq_workflow_limits opts of None \<Rightarrow> True
        | Some limits \<Rightarrow> limits = [] \<or> t_workflow t \<in> fst ` set limits)"

text \<open>The \<open>ORDER BY\<close>: resumptions first, then the workflow's priority, then age.\<close>

definition priority_of :: "dequeue_opts \<Rightarrow> string \<Rightarrow> int" where
  "priority_of opts w =
     (case dq_workflow_priorities opts of
        None \<Rightarrow> 1
      | Some ps \<Rightarrow> (case map_of ps w of None \<Rightarrow> 1 | Some p \<Rightarrow> p))"

definition dequeue_rank :: "dequeue_opts \<Rightarrow> task \<Rightarrow> int \<times> int \<times> datetime" where
  "dequeue_rank opts t =
     (if t_status t = Resume_pending then 0 else 1, priority_of opts (t_workflow t), t_created t)"

definition next_candidate :: "dequeue_opts \<Rightarrow> (uuid \<Rightarrow> bool) \<Rightarrow> string list \<Rightarrow> db \<Rightarrow> task option" where
  "next_candidate opts locked blocked d =
     first_row (sort_key (dequeue_rank opts)
       (select_where (\<lambda>t. candidate opts locked t \<and> t_workflow t \<notin> set blocked) (tasks d)))"

definition over_limit :: "dequeue_opts \<Rightarrow> db \<Rightarrow> string \<Rightarrow> bool" where
  "over_limit opts d w =
     (case dq_workflow_limits opts of
        None \<Rightarrow> False
      | Some limits \<Rightarrow>
          (case map_of limits w of
             None \<Rightarrow> False
           | Some limit \<Rightarrow> running_count (\<lambda>t. t_workflow t = w) d \<ge> limit))"

text \<open>The columns a claim writes.\<close>

definition claim :: "datetime \<Rightarrow> task \<Rightarrow> task" where
  "claim now t =
     (wait_finished_updates (Some t) now t)
       \<lparr>t_status := Running, t_heartbeat := Some now, t_wait_reason := None, t_wait_deadline := None\<rparr>"

definition claim_task :: "datetime \<Rightarrow> datetime \<Rightarrow> task \<Rightarrow> db \<Rightarrow> task \<times> db" where
  "claim_task now tx_now t d =
     (let prior_status = t_status t;
          d1 = update_tasks tx_now (\<lambda>r. t_id r = t_id t) (\<lambda>_. claim now t) d
      in ((claim now t)\<lparr>t_updated := tx_now\<rparr>,
          add_task_event tx_now (t_id t)
            (if prior_status = Resume_pending then ''task_resumed'' else ''task_dequeued'')
            [(''previous_status'', PStr (status_str prior_status)), (''workflow'', PStr (t_workflow t))] d1))"

lemma next_candidate_Some:
  assumes "next_candidate opts locked blocked d = Some t"
  shows "t \<in> set (tasks d)" "candidate opts locked t" "t_workflow t \<notin> set blocked"
  using first_row_sort_key_Min(1) [OF assms [unfolded next_candidate_def]]
  by (auto simp: table_simps)

function dequeue_loop ::
    "dequeue_opts \<Rightarrow> (uuid \<Rightarrow> bool) \<Rightarrow> datetime \<Rightarrow> datetime \<Rightarrow> string list \<Rightarrow> db \<Rightarrow> task option \<times> db" where
  "dequeue_loop opts locked now tx_now blocked d =
     (case next_candidate opts locked blocked d of
        None \<Rightarrow> (None, d)
      | Some t \<Rightarrow>
          (if over_limit opts d (t_workflow t)
           then dequeue_loop opts locked now tx_now (t_workflow t # blocked) d
           else (let (t', d') = claim_task now tx_now t d in (Some t', d'))))"
  by pat_completeness auto
termination
proof (relation "measure (\<lambda>(opts, locked, now, tx_now, blocked, d).
    length (filter (\<lambda>t. t_workflow t \<notin> set blocked) (tasks d)))", simp, goal_cases)
  case (1 opts locked now tx_now blocked d t)
  then have "t \<in> set (tasks d)" "t_workflow t \<notin> set blocked"
    using next_candidate_Some by blast+
  then show ?case
    by (auto intro!: length_filter_strict [where y = t])
qed

declare dequeue_loop.simps [simp del]

definition dequeue_within ::
    "dequeue_opts \<Rightarrow> (uuid \<Rightarrow> bool) \<Rightarrow> datetime \<Rightarrow> datetime \<Rightarrow> db \<Rightarrow> (task option \<times> db) result" where
  "dequeue_within opts locked now tx_now d =
     (let in_scope = (\<lambda>t. case dq_workflow opts of None \<Rightarrow> True | Some w \<Rightarrow> w = [] \<or> t_workflow t = w);
          saturated = (case dq_max_running opts of
             None \<Rightarrow> False | Some m \<Rightarrow> running_count in_scope d \<ge> m)
      in if saturated then Inr (None, d)
         else if dq_workflow_limits opts = Some [] then Inr (None, d)
         else Inr (dequeue_loop opts locked now tx_now [] d))"

definition dequeue_task ::
    "dequeue_opts \<Rightarrow> (uuid \<Rightarrow> bool) \<Rightarrow> datetime \<Rightarrow> datetime \<Rightarrow> db \<Rightarrow> (task option \<times> db) result" where
  "dequeue_task opts locked now tx_now d =
     (case dq_platform_max_running opts of
        Some m \<Rightarrow>
          (if m < 1 then Inl (Value_error ''platform_max_running must be at least 1'')
           else if running_count (\<lambda>_. True) d \<ge> m then Inr (None, d)
           else dequeue_within opts locked now tx_now d)
      | None \<Rightarrow> dequeue_within opts locked now tx_now d)"

section \<open>What a blocking scan computes\<close>

text \<open>
  A scan over \<open>rows\<close> asks \<open>pick\<close> for the best row outside the blocked groups, blocks the row's group
  when it is full and asks again.  Whether a group is full does not change during the scan, so the
  scan finds the best row among the groups that are not full.
\<close>

locale blocked_scan =
  fixes rows :: "'r list" and grp :: "'r \<Rightarrow> 'g" and rank :: "'r \<Rightarrow> 'k::linorder"
    and full :: "'g \<Rightarrow> bool" and pick :: "'g list \<Rightarrow> 'r option"
    and scan :: "'g list \<Rightarrow> 'o" and nothing :: 'o and found :: "'r \<Rightarrow> 'o"
  assumes pick_best: "pick blocked = first_row (sort_key rank (filter (\<lambda>r. grp r \<notin> set blocked) rows))"
    and scan_step: "scan blocked =
       (case pick blocked of None \<Rightarrow> nothing
        | Some r \<Rightarrow> if full (grp r) then scan (grp r # blocked) else found r)"
begin

abbreviation open_rows :: "'r list" where
  "open_rows \<equiv> filter (\<lambda>r. \<not> full (grp r)) rows"

lemma pick_member:
  assumes "pick blocked = Some r"
  shows "r \<in> set rows" "grp r \<notin> set blocked"
  using first_row_sort_key_Min(1) [OF assms [unfolded pick_best]] by auto

lemma pick_open:
  assumes "set blocked \<subseteq> Collect full" and "pick blocked = Some r" and "\<not> full (grp r)"
  shows "first_row (sort_key rank open_rows) = Some r"
proof -
  obtain rest where rest: "sort_key rank (filter (\<lambda>x. grp x \<notin> set blocked) rows) = r # rest"
    using assms(2) by (cases "sort_key rank (filter (\<lambda>x. grp x \<notin> set blocked) rows)") (auto simp: pick_best)
  have "open_rows = filter (\<lambda>x. \<not> full (grp x)) (filter (\<lambda>x. grp x \<notin> set blocked) rows)"
    using assms(1) by (auto intro: filter_cong)
  then have "sort_key rank open_rows = filter (\<lambda>x. \<not> full (grp x)) (r # rest)"
    by (metis filter_sort rest)
  with assms(3) show ?thesis by simp
qed

theorem scan_finds_best:
  assumes "set blocked \<subseteq> Collect full"
  shows "scan blocked =
    (case first_row (sort_key rank open_rows) of None \<Rightarrow> nothing | Some r \<Rightarrow> found r)"
  using assms
proof (induction "length (filter (\<lambda>r. grp r \<notin> set blocked) rows)" arbitrary: blocked rule: less_induct)
  case less
  show ?case
  proof (cases "pick blocked")
    case None
    then have "filter (\<lambda>r. grp r \<notin> set blocked) rows = []"
      by (simp add: pick_best)
    then have "open_rows = []"
      using less.prems by (auto simp: filter_empty_conv)
    with None show ?thesis by (simp add: scan_step [of blocked])
  next
    case (Some r)
    show ?thesis
    proof (cases "full (grp r)")
      case True
      have "length (filter (\<lambda>x. grp x \<notin> set (grp r # blocked)) rows)
          < length (filter (\<lambda>x. grp x \<notin> set blocked) rows)"
        using pick_member [OF Some] by (auto intro!: length_filter_strict [where y = r])
      with less.hyps [OF this] less.prems True Some show ?thesis
        by (simp add: scan_step [of blocked])
    next
      case False
      with Some less.prems show ?thesis
        by (simp add: scan_step [of blocked] pick_open)
    qed
  qed
qed

end

interpretation deq: blocked_scan
  "select_where (candidate opts locked) (tasks d)" t_workflow "dequeue_rank opts"
  "over_limit opts d" "\<lambda>blocked. next_candidate opts locked blocked d"
  "\<lambda>blocked. dequeue_loop opts locked now tx_now blocked d"
  "(None, d)" "\<lambda>t. let (t', d') = claim_task now tx_now t d in (Some t', d')"
  for opts locked d now tx_now
proof (unfold_locales, goal_cases)
  case (1 blocked)
  show ?case
    by (simp add: next_candidate_def select_where_def conj_commute)
next
  case (2 blocked)
  show ?case
    by (subst dequeue_loop.simps) (simp split: option.split)
qed

section \<open>The declarative choice\<close>

text \<open>A task that may be claimed now: a candidate whose workflow has a free worker.\<close>

definition eligible :: "dequeue_opts \<Rightarrow> (uuid \<Rightarrow> bool) \<Rightarrow> db \<Rightarrow> task \<Rightarrow> bool" where
  "eligible opts locked d t \<longleftrightarrow> candidate opts locked t \<and> \<not> over_limit opts d (t_workflow t)"

definition dequeue_choice :: "dequeue_opts \<Rightarrow> (uuid \<Rightarrow> bool) \<Rightarrow> db \<Rightarrow> task option" where
  "dequeue_choice opts locked d =
     first_row (sort_key (dequeue_rank opts) (select_where (eligible opts locked d) (tasks d)))"

lemma dequeue_loop_choice:
  "dequeue_loop opts locked now tx_now [] d =
     (case dequeue_choice opts locked d of
        None \<Rightarrow> (None, d)
      | Some t \<Rightarrow> (let (t', d') = claim_task now tx_now t d in (Some t', d')))"
proof -
  have "eligible opts locked d = (\<lambda>t. candidate opts locked t \<and> \<not> over_limit opts d (t_workflow t))"
    by (simp add: eligible_def fun_eq_iff)
  then show ?thesis
    using deq.scan_finds_best [of "[]" opts d locked now tx_now]
    by (simp add: dequeue_choice_def select_where_def conj_commute)
qed

lemma dequeue_choice_Some:
  assumes "dequeue_choice opts locked d = Some t"
  shows "t \<in> set (tasks d)" "eligible opts locked d t"
    "\<And>u. u \<in> set (tasks d) \<Longrightarrow> eligible opts locked d u \<Longrightarrow> dequeue_rank opts t \<le> dequeue_rank opts u"
  using first_row_sort_key_Min [OF assms [unfolded dequeue_choice_def]]
  by (auto simp: table_simps)

lemma dequeue_choice_None:
  "dequeue_choice opts locked d = None \<longleftrightarrow> (\<forall>t \<in> set (tasks d). \<not> eligible opts locked d t)"
  by (simp add: dequeue_choice_def select_where_def filter_empty_conv)

section \<open>What a claim does\<close>

lemma claim_columns [simp]:
  "t_id (claim now t) = t_id t" "t_workflow (claim now t) = t_workflow t"
  "t_status (claim now t) = Running" "t_heartbeat (claim now t) = Some now"
  "t_wait_reason (claim now t) = None" "t_wait_deadline (claim now t) = None"
  "t_archived_at (claim now t) = t_archived_at t" "t_created (claim now t) = t_created t"
  by (simp_all add: claim_def wait_finished_updates_def Let_def split: option.split)

lemma claim_wait [simp]: "t_wait_started (claim now t) = None"
  by (simp add: claim_def wait_finished_updates_def Let_def split: option.split)

lemma claim_task_tasks:
  "tasks (snd (claim_task now tx_now t d))
   = update_where (\<lambda>r. t_id r = t_id t) (\<lambda>_. (claim now t)\<lparr>t_updated := tx_now\<rparr>) (tasks d)"
  by (simp add: claim_task_def Let_def tasks_update_tasks)

lemma claim_task_fst [simp]: "fst (claim_task now tx_now t d) = (claim now t)\<lparr>t_updated := tx_now\<rparr>"
  by (simp add: claim_task_def Let_def)

text \<open>The claimed row counts as running afterwards, and no other row changes.\<close>

lemma running_after_claim:
  assumes "wf_tasks d" and "t \<in> set (tasks d)" and "t_status t \<noteq> Running"
    and "\<And>u. t_workflow u = t_workflow t \<Longrightarrow> P u = P t"
  shows "running_count P (snd (claim_task now tx_now t d)) = running_count P d + (if P t then 1 else 0)"
proof -
  let ?c = "(claim now t)\<lparr>t_updated := tx_now\<rparr>"
  have "P ?c = P t" by (rule assms(4)) simp
  moreover have "length (filter (\<lambda>r. t_status r = Running \<and> P r)
        (update_where (\<lambda>x. t_id x = t_id t) (\<lambda>_. ?c) (tasks d))) + (if t_status t = Running \<and> P t then 1 else 0)
      = length (filter (\<lambda>r. t_status r = Running \<and> P r) (tasks d)) + (if t_status ?c = Running \<and> P ?c then 1 else 0)"
    using assms(1,2) by (intro count_update_one) (simp_all add: wf_tasks_distinct)
  ultimately show ?thesis
    using assms(3) by (simp add: running_count_def count_status_def claim_task_tasks)
qed

lemma eligible_not_running: "eligible opts locked d t \<Longrightarrow> t_status t \<noteq> Running"
  by (auto simp: eligible_def candidate_def status_lists)

lemma dequeue_task_cases:
  assumes "dequeue_task opts locked now tx_now d = Inr (Some t', d')"
  obtains t where "dequeue_choice opts locked d = Some t"
    and "t' = (claim now t)\<lparr>t_updated := tx_now\<rparr>" and "d' = snd (claim_task now tx_now t d)"
    and "\<And>m. dq_platform_max_running opts = Some m \<Longrightarrow> running_count (\<lambda>_. True) d < m"
proof -
  have within: "dequeue_within opts locked now tx_now d = Inr (Some t', d')"
    and adm: "\<And>m. dq_platform_max_running opts = Some m \<Longrightarrow> running_count (\<lambda>_. True) d < m"
    using assms by (auto simp: dequeue_task_def split: option.splits if_splits)
  from within have "dequeue_loop opts locked now tx_now [] d = (Some t', d')"
    by (simp add: dequeue_within_def Let_def split: if_splits)
  then obtain t where "dequeue_choice opts locked d = Some t" "claim_task now tx_now t d = (t', d')"
    by (auto simp: dequeue_loop_choice split: option.splits prod.splits)
  with adm show thesis
    using claim_task_fst [of now tx_now t d] by (intro that [of t]) simp_all
qed

section \<open>Properties\<close>

text \<open>
  C1. \<open>dequeue_task\<close> refines its declarative specification.  The retry loop over blocked workflows
  returns, for every database and every set of rows locked by other replicas, the first task in the
  order (resumptions, priority, age) among all eligible tasks: runnable, not archived, not locked,
  in a selected workflow that has a free worker.  It returns nothing and writes nothing exactly
  when there is none or a count is exhausted, and it raises exactly for a platform limit below 1.
\<close>

theorem dequeue_task_refines_choice:
  "dequeue_task opts locked now tx_now d =
     (if (\<exists>m. dq_platform_max_running opts = Some m \<and> m < 1)
      then Inl (Value_error ''platform_max_running must be at least 1'')
      else if (\<exists>m. dq_platform_max_running opts = Some m \<and> running_count (\<lambda>_. True) d \<ge> m)
        \<or> (\<exists>m. dq_max_running opts = Some m \<and>
             running_count (\<lambda>t. case dq_workflow opts of None \<Rightarrow> True | Some w \<Rightarrow> w = [] \<or> t_workflow t = w) d \<ge> m)
        \<or> dq_workflow_limits opts = Some []
      then Inr (None, d)
      else (case dequeue_choice opts locked d of
              None \<Rightarrow> Inr (None, d)
            | Some t \<Rightarrow> Inr (Some ((claim now t)\<lparr>t_updated := tx_now\<rparr>), snd (claim_task now tx_now t d))))"
proof -
  have found: "(case claim_task now tx_now t d of (t', d') \<Rightarrow> (Some t', d'))
      = (Some ((claim now t)\<lparr>t_updated := tx_now\<rparr>), snd (claim_task now tx_now t d))" for t
    by (simp add: case_prod_beta)
  show ?thesis
    by (auto simp: dequeue_task_def dequeue_within_def Let_def dequeue_loop_choice found
        split: option.splits)
qed

text \<open>
  C2. A dequeue never admits past a limit.  After it claims a task, the platform runs at most
  \<open>platform_max_running\<close> tasks and the task's workflow runs at most its limit.
\<close>

theorem dequeue_task_within_limits:
  assumes "wf_tasks d" and "dequeue_task opts locked now tx_now d = Inr (Some t, d')"
  shows "(case dq_platform_max_running opts of None \<Rightarrow> True | Some m \<Rightarrow> running_count (\<lambda>_. True) d' \<le> m)
    \<and> (case dq_workflow_limits opts of None \<Rightarrow> True
       | Some limits \<Rightarrow> (case map_of limits (t_workflow t) of None \<Rightarrow> limits = []
           | Some l \<Rightarrow> running_count (\<lambda>u. t_workflow u = t_workflow t) d' \<le> l))"
  using assms(2)
proof (rule dequeue_task_cases)
  fix u assume u: "dequeue_choice opts locked d = Some u" "t = (claim now u)\<lparr>t_updated := tx_now\<rparr>"
    "d' = snd (claim_task now tx_now u d)"
    and adm: "\<And>m. dq_platform_max_running opts = Some m \<Longrightarrow> running_count (\<lambda>_. True) d < m"
  note elig = dequeue_choice_Some(1,2) [OF u(1)]
  have plat: "running_count (\<lambda>_. True) d' = running_count (\<lambda>_. True) d + 1"
    using running_after_claim [OF assms(1) elig(1) eligible_not_running [OF elig(2)], of "\<lambda>_. True"] u(3) by simp
  have wf: "running_count (\<lambda>x. t_workflow x = t_workflow u) d'
      = running_count (\<lambda>x. t_workflow x = t_workflow u) d + 1"
    using running_after_claim [OF assms(1) elig(1) eligible_not_running [OF elig(2)],
        of "\<lambda>x. t_workflow x = t_workflow u"] u(3) by simp
  show ?thesis
    using adm plat wf elig(2) u(2)
    by (auto simp: eligible_def candidate_def over_limit_def map_of_eq_None_iff split: option.splits)
qed

text \<open>A one-task database on which the hypotheses of the properties are discharged.\<close>

definition demo_task :: task where
  "demo_task = new_task 0 ''triage'' ''look'' 100"

definition demo_db :: db where
  "demo_db = empty_db\<lparr>tasks := [demo_task], next_uuid := 1\<rparr>"

definition demo_opts :: dequeue_opts where
  "demo_opts = \<lparr>dq_workflow = None, dq_max_running = None, dq_platform_max_running = Some 1,
     dq_workflow_limits = Some [(''triage'', 1)], dq_workflow_priorities = None\<rparr>"

lemmas demo_simps = demo_task_def demo_db_def demo_opts_def new_task_def empty_db_def

lemma demo_wf [simp]: "wf_tasks demo_db"
  by (simp add: wf_tasks_def demo_simps)

lemma demo_dequeue:
  "dequeue_task demo_opts (\<lambda>_. False) 200 200 demo_db
   = Inr (Some ((claim 200 demo_task)\<lparr>t_updated := 200\<rparr>), snd (claim_task 200 200 demo_task demo_db))"
  by (simp add: dequeue_task_def dequeue_within_def dequeue_loop_choice dequeue_choice_def select_where_def
      eligible_def candidate_def over_limit_def running_count_def count_status_def status_lists demo_simps
      claim_task_def Let_def)

theorem dequeue_task_within_limits_witness:
  "running_count (\<lambda>_. True) (snd (claim_task 200 200 demo_task demo_db)) \<le> 1"
  using dequeue_task_within_limits [OF demo_wf demo_dequeue] by (simp add: demo_opts_def)

end
