(* ===== verification/Task_Sweeps.thy ===== *)
theory Task_Sweeps
  imports Task_Dequeue
begin

text \<open>
  The two sweeps of \<open>shared/lib/task_queue.py\<close>: \<open>maintenance_sweep\<close> (running tasks whose heartbeat
  expired become lost) and \<open>waiting_timeout_sweep\<close> (waits past their deadline time out).  Both are
  interpreted in the \<open>sweep\<close> interface, which turns their row loops into one bulk update.
\<close>

section \<open>Operations\<close>

text \<open>
  The loop both share: each selected task object is written back changed by \<open>act\<close>, and an audit row
  is added for it.
\<close>

definition sweep_step ::
    "datetime \<Rightarrow> (task \<Rightarrow> task) \<Rightarrow> string \<Rightarrow> (task \<Rightarrow> pydict) \<Rightarrow> task \<Rightarrow> db \<Rightarrow> db" where
  "sweep_step tx_now act event_type data t d =
     add_task_event tx_now (t_id t) event_type (data t)
       (update_tasks tx_now (\<lambda>r. t_id r = t_id t) (\<lambda>_. act t) d)"

definition sweep_tasks ::
    "datetime \<Rightarrow> (task \<Rightarrow> task) \<Rightarrow> string \<Rightarrow> (task \<Rightarrow> pydict) \<Rightarrow> (task \<Rightarrow> bool) \<Rightarrow> db \<Rightarrow> uuid list \<times> db" where
  "sweep_tasks tx_now act event_type data pick d =
     (let picked = select_where pick (tasks d)
      in (map t_id picked,
          foldl (\<lambda>d' t. sweep_step tx_now act event_type data t d') d picked))"

definition heartbeat_expired :: "datetime \<Rightarrow> task \<Rightarrow> bool" where
  "heartbeat_expired cutoff t \<longleftrightarrow>
     t_status t = Running \<and> (case t_heartbeat t of None \<Rightarrow> False | Some h \<Rightarrow> h < cutoff)"

definition lose_task :: "int \<Rightarrow> task \<Rightarrow> task" where
  "lose_task lost_timeout_sec t =
     t\<lparr>t_status := Lost,
       t_error := Some (''Heartbeat expired (>'' @ int_str lost_timeout_sec @ ''s without update)'')\<rparr>"

definition maintenance_sweep :: "int \<Rightarrow> datetime \<Rightarrow> datetime \<Rightarrow> db \<Rightarrow> uuid list \<times> db" where
  "maintenance_sweep lost_timeout_sec now tx_now d =
     (let cutoff = now - of_int lost_timeout_sec
      in sweep_tasks tx_now (lose_task lost_timeout_sec) ''task_lost''
           (\<lambda>t. [(''timeout_sec'', PInt lost_timeout_sec), (''last_heartbeat'', iso_or_none (t_heartbeat t))])
           (heartbeat_expired cutoff) d)"

definition wait_expired :: "datetime \<Rightarrow> task \<Rightarrow> bool" where
  "wait_expired now t \<longleftrightarrow>
     t_status t \<in> set WAITING_STATUSES
     \<and> (case t_wait_deadline t of None \<Rightarrow> False | Some deadline \<Rightarrow> deadline < now)"

text \<open>The status is assigned before the message is built, so the message's fallback reads the new one.\<close>

definition expire_wait :: "task \<Rightarrow> task" where
  "expire_wait t =
     (let t1 = t\<lparr>t_status := Timed_out\<rparr>;
          what = (case t_wait_reason t1 of
                    Some r \<Rightarrow> if r \<noteq> [] then r else status_str (t_status t1)
                  | None \<Rightarrow> status_str (t_status t1));
          t2 = t1\<lparr>t_error := Some (''Waiting deadline expired for '' @ what)\<rparr>
      in t2\<lparr>t_duration_sec := t_duration_sec t2\<rparr>)"

definition waiting_timeout_sweep :: "datetime \<Rightarrow> datetime \<Rightarrow> db \<Rightarrow> uuid list \<times> db" where
  "waiting_timeout_sweep now tx_now d =
     sweep_tasks tx_now expire_wait ''task_wait_timed_out''
       (\<lambda>t. [(''wait_reason'', opt_str (t_wait_reason t)), (''wait_deadline'', iso_or_none (t_wait_deadline t))])
       (wait_expired now) d"

section \<open>The sweeps as instances of the interface\<close>

text \<open>A row update as the table stores it, with the trigger's column.\<close>

definition touched :: "datetime \<Rightarrow> (task \<Rightarrow> task) \<Rightarrow> task \<Rightarrow> task" where
  "touched tx_now f t = (f t)\<lparr>t_updated := tx_now\<rparr>"

lemma touched_simps [simp]:
  "t_id (touched n f t) = t_id (f t)" "t_status (touched n f t) = t_status (f t)"
  "t_heartbeat (touched n f t) = t_heartbeat (f t)" "t_wait_deadline (touched n f t) = t_wait_deadline (f t)"
  "t_error (touched n f t) = t_error (f t)" "t_wait_started (touched n f t) = t_wait_started (f t)"
  "t_waited_sec (touched n f t) = t_waited_sec (f t)"
  by (simp_all add: touched_def)

lemma lose_task_simps [simp]:
  "t_id (lose_task n t) = t_id t" "t_status (lose_task n t) = Lost"
  by (simp_all add: lose_task_def)

lemma expire_wait_simps [simp]:
  "t_id (expire_wait t) = t_id t" "t_status (expire_wait t) = Timed_out"
  "t_wait_started (expire_wait t) = t_wait_started t" "t_waited_sec (expire_wait t) = t_waited_sec t"
  by (simp_all add: expire_wait_def Let_def)

interpretation lost: sweep t_id "touched tx_now (lose_task n)" "heartbeat_expired cutoff"
  for tx_now n cutoff
  by unfold_locales (simp_all add: heartbeat_expired_def)

interpretation expired: sweep t_id "touched tx_now expire_wait" "wait_expired now"
  for tx_now now
  by unfold_locales (simp_all add: wait_expired_def status_lists)

interpretation claimed: row_update t_id "claim now" for now
  by unfold_locales simp

lemma tasks_sweep_step [simp]:
  "tasks (sweep_step tx_now act ev data t d) = write_back t_id (touched tx_now act) t (tasks d)"
  by (simp add: sweep_step_def tasks_update_tasks write_back_def touched_def)

lemma tasks_sweep_fold:
  "tasks (foldl (\<lambda>d' t. sweep_step tx_now act ev data t d') d ts)
   = foldl (\<lambda>rs t. write_back t_id (touched tx_now act) t rs) (tasks d) ts"
  by (induction ts arbitrary: d) simp_all

lemma tasks_sweep_tasks:
  "tasks (snd (sweep_tasks tx_now act ev data pick d))
   = sweep_rows t_id pick (touched tx_now act) (tasks d)"
  by (simp add: sweep_tasks_def Let_def sweep_rows_def tasks_sweep_fold)

lemma sweep_fold_frame:
  "sessions (foldl (\<lambda>d' t. sweep_step tx_now act ev data t d') d ts) = sessions d"
  "approvals (foldl (\<lambda>d' t. sweep_step tx_now act ev data t d') d ts) = approvals d"
  "job_runs (foldl (\<lambda>d' t. sweep_step tx_now act ev data t d') d ts) = job_runs d"
  "session_events (foldl (\<lambda>d' t. sweep_step tx_now act ev data t d') d ts) = session_events d"
  by (induction ts arbitrary: d) (simp_all add: sweep_step_def)

text \<open>The audit rows of a sweep: one per picked task, in the order they were read.\<close>

lemma sweep_fold_events:
  "map (\<lambda>e. (te_task_id e, te_event_type e, te_data e)) (task_events (foldl (\<lambda>d' t. sweep_step tx_now act ev data t d') d ts))
   = map (\<lambda>e. (te_task_id e, te_event_type e, te_data e)) (task_events d) @ map (\<lambda>t. (t_id t, ev, Some (data t))) ts"
  by (induction ts arbitrary: d)
    (simp_all add: sweep_step_def add_task_event_def insert_row_def update_tasks_def)

lemma wf_sweep_step:
  assumes "wf_tasks d" and "t_id (act t) = t_id t"
  shows "wf_tasks (sweep_step tx_now act ev data t d)"
proof -
  have "map t_id (write_back t_id (touched tx_now act) t (tasks d)) = map t_id (tasks d)"
    by (simp add: write_back_def update_where_def o_def touched_def assms(2))
  then have "map t_id (tasks (sweep_step tx_now act ev data t d)) = map t_id (tasks d)" by simp
  moreover from this have "t_id ` set (tasks (sweep_step tx_now act ev data t d)) = t_id ` set (tasks d)"
    by (metis list.set_map)
  moreover have "next_uuid (sweep_step tx_now act ev data t d) = Suc (next_uuid d)"
    by (simp add: sweep_step_def)
  ultimately show ?thesis
    using assms(1) unfolding wf_tasks_def by (metis image_eqI imageE less_SucI)
qed

lemma wf_sweep_fold:
  assumes "wf_tasks d" and "\<And>t. t_id (act t) = t_id t"
  shows "wf_tasks (foldl (\<lambda>d' t. sweep_step tx_now act ev data t d') d ts)"
  using assms(1) by (induction ts arbitrary: d) (simp_all add: wf_sweep_step assms(2))

lemma wf_sweep_tasks:
  "wf_tasks d \<Longrightarrow> (\<And>t. t_id (act t) = t_id t) \<Longrightarrow> wf_tasks (snd (sweep_tasks tx_now act ev data pick d))"
  by (simp add: sweep_tasks_def Let_def wf_sweep_fold)

lemma maintenance_sweep_rows:
  assumes "wf_tasks d"
  shows "tasks (snd (maintenance_sweep n now tx_now d))
       = update_where (heartbeat_expired (now - of_int n)) (touched tx_now (lose_task n)) (tasks d)"
  using lost.sweep_is_update [OF wf_tasks_distinct [OF assms]]
  by (simp add: maintenance_sweep_def Let_def tasks_sweep_tasks)

lemma waiting_timeout_sweep_rows:
  assumes "wf_tasks d"
  shows "tasks (snd (waiting_timeout_sweep now tx_now d))
       = update_where (wait_expired now) (touched tx_now expire_wait) (tasks d)"
  using expired.sweep_is_update [OF wf_tasks_distinct [OF assms]]
  by (simp add: waiting_timeout_sweep_def tasks_sweep_tasks)

section \<open>Properties\<close>

text \<open>
  C3. \<open>maintenance_sweep\<close> is one bulk update: exactly the running tasks whose heartbeat is older than
  the timeout become lost, every other row stays, the returned ids and the added \<open>task_lost\<close> rows
  are those tasks in order, and a second sweep with the same clock finds nothing.
\<close>

theorem maintenance_sweep_exact:
  assumes "wf_tasks d" and "maintenance_sweep n now tx_now d = (ids, d')"
  shows "tasks d' = update_where (heartbeat_expired (now - of_int n)) (touched tx_now (lose_task n)) (tasks d)
    \<and> ids = map t_id (filter (heartbeat_expired (now - of_int n)) (tasks d))
    \<and> map te_task_id (task_events d') = map te_task_id (task_events d) @ ids
    \<and> fst (maintenance_sweep n now tx_now' d') = []"
proof -
  have d': "d' = snd (maintenance_sweep n now tx_now d)"
    and ids: "ids = map t_id (filter (heartbeat_expired (now - of_int n)) (tasks d))"
    using assms(2) by (auto simp: maintenance_sweep_def sweep_tasks_def Let_def select_where_def)
  have rows: "tasks d' = update_where (heartbeat_expired (now - of_int n)) (touched tx_now (lose_task n)) (tasks d)"
    using maintenance_sweep_rows [OF assms(1)] d' by simp
  have "map te_task_id (task_events d') = map te_task_id (task_events d) @ ids"
    using sweep_fold_events [THEN arg_cong, of "map fst"] d' ids
    by (simp add: maintenance_sweep_def sweep_tasks_def Let_def select_where_def o_def)
  moreover have "fst (maintenance_sweep n now tx_now' d') = []"
    using lost.sweep_idle [of "now - of_int n" tx_now n "tasks d"]
    by (simp add: maintenance_sweep_def sweep_tasks_def Let_def rows)
  ultimately show ?thesis using rows ids by simp
qed

definition stale_db :: db where
  "stale_db = demo_db\<lparr>tasks := [demo_task\<lparr>t_status := Running, t_heartbeat := Some 10\<rparr>]\<rparr>"

lemma wf_stale [simp]: "wf_tasks stale_db"
  by (simp add: wf_tasks_def stale_db_def demo_simps)

lemma stale_picked:
  "filter (heartbeat_expired (1000 - of_int 300)) (tasks stale_db) = tasks stale_db"
  "map t_id (tasks stale_db) = [0]"
  by (simp_all add: heartbeat_expired_def stale_db_def demo_simps)

theorem maintenance_sweep_exact_witness:
  "fst (maintenance_sweep 300 1000 1000 stale_db) = [0]"
  using maintenance_sweep_exact [OF wf_stale prod.collapse [symmetric], of 300 1000 1000 0]
  by (simp only: stale_picked)

text \<open>
  C4. \<open>waiting_timeout_sweep\<close> never touches a task that is not waiting or has no passed deadline, and
  leaves no expired wait behind; the tasks it closes are timed out with their wait clock untouched.
\<close>

theorem waiting_timeout_sweep_exact:
  assumes "wf_tasks d" and "waiting_timeout_sweep now tx_now d = (ids, d')"
  shows "tasks d' = map (\<lambda>t. if wait_expired now t then touched tx_now expire_wait t else t) (tasks d)
    \<and> ids = map t_id (filter (wait_expired now) (tasks d))
    \<and> (\<forall>t \<in> set (tasks d'). \<not> wait_expired now t)"
proof -
  have d': "d' = snd (waiting_timeout_sweep now tx_now d)"
    and ids: "ids = map t_id (filter (wait_expired now) (tasks d))"
    using assms(2) by (auto simp: waiting_timeout_sweep_def sweep_tasks_def Let_def select_where_def)
  have rows: "tasks d' = update_where (wait_expired now) (touched tx_now expire_wait) (tasks d)"
    using waiting_timeout_sweep_rows [OF assms(1)] d' by simp
  have "\<not> wait_expired now t" if "t \<in> set (tasks d')" for t
    using that unfolding rows by (rule expired.sweep_clears)
  with rows [unfolded update_where_def] ids show ?thesis by blast
qed

definition waiting_db :: db where
  "waiting_db = demo_db\<lparr>tasks := [demo_task\<lparr>t_status := Waiting_approval, t_wait_deadline := Some 10,
     t_wait_started := Some 5\<rparr>]\<rparr>"

lemma wf_waiting [simp]: "wf_tasks waiting_db"
  by (simp add: wf_tasks_def waiting_db_def demo_simps)

lemma waiting_picked:
  "filter (wait_expired 20) (tasks waiting_db) = tasks waiting_db" "map t_id (tasks waiting_db) = [0]"
  by (simp_all add: wait_expired_def status_lists waiting_db_def demo_simps)

theorem waiting_timeout_sweep_exact_witness:
  "fst (waiting_timeout_sweep 20 20 waiting_db) = [0]"
  using waiting_timeout_sweep_exact [OF wf_waiting prod.collapse [symmetric], of 20 20]
  by (simp only: waiting_picked)

text \<open>
  C38. A wait without a recorded reason is reported under the status the sweep has just assigned: the
  error names \<open>timed_out\<close>, whatever kind of wait it was.
\<close>

theorem expired_wait_reports_new_status:
  assumes "t_wait_reason t = None"
  shows "t_error (expire_wait t) = Some ''Waiting deadline expired for timed_out''"
  using assms by (simp add: expire_wait_def Let_def)

theorem expired_wait_reports_new_status_witness:
  "t_error (expire_wait (demo_task\<lparr>t_status := Waiting_approval\<rparr>)) = Some ''Waiting deadline expired for timed_out''"
  using expired_wait_reports_new_status [of "demo_task\<lparr>t_status := Waiting_approval\<rparr>"] by (simp add: demo_simps)

end
