(* ===== verification/Task_Queries.thy ===== *)
theory Task_Queries
  imports Task_Queue
begin

text \<open>
  The read side of \<open>shared/lib/task_queue.py\<close> (\<open>list_tasks\<close>, \<open>count_tasks\<close>,
  \<open>list_task_filter_options\<close>) and \<open>archive_task\<close>.  The collation of the database's text columns is
  a parameter: \<open>collate s\<close> is the sort key of \<open>s\<close>.
\<close>

section \<open>ILIKE\<close>

text \<open>
  \<open>%\<close> matches any run of characters, \<open>_\<close> one character, and a backslash makes the next character
  literal.  A pattern that ends in a lone backslash is an SQL error; the patterns built here end in \<open>%\<close>.
\<close>

fun like_match :: "string \<Rightarrow> string \<Rightarrow> bool" where
  "like_match [] s = (s = [])"
| "like_match (p # ps) [] = (p = CHR ''%'' \<and> like_match ps [])"
| "like_match (p # ps) (c # s) =
     (if p = CHR ''%'' then like_match ps (c # s) \<or> like_match (p # ps) s
      else if p = CHR 0x5C then
        (case ps of [] \<Rightarrow> False | q # qs \<Rightarrow> q = c \<and> like_match qs s)
      else (p = CHR ''_'' \<or> p = c) \<and> like_match ps s)"

definition ilike :: "string option \<Rightarrow> string \<Rightarrow> bool" where
  "ilike column pattern =
     (case column of None \<Rightarrow> False | Some s \<Rightarrow> like_match (lower pattern) (lower s))"

section \<open>Listing and counting\<close>

record task_filter =
  tf_workflow :: "string list option"
  tf_status :: "string option"
  tf_channel :: "string list option"
  tf_search :: "string option"
  tf_created_after :: "datetime option"
  tf_created_before :: "datetime option"
  tf_include_archived :: bool

text \<open>\<open>if xs: query.where(...)\<close> for an optional string or list.\<close>

definition if_given :: "'a list option \<Rightarrow> ('a list \<Rightarrow> bool) \<Rightarrow> bool" where
  "if_given x P = (case x of None \<Rightarrow> True | Some y \<Rightarrow> y = [] \<or> P y)"

definition task_matches :: "task_filter \<Rightarrow> task \<Rightarrow> bool" where
  "task_matches f t \<longleftrightarrow>
     (tf_include_archived f \<or> t_archived_at t = None)
     \<and> if_given (tf_workflow f) (\<lambda>ws. t_workflow t \<in> set ws)
     \<and> if_given (tf_status f) (\<lambda>s. status_str (t_status t) = s)
     \<and> if_given (tf_channel f) (\<lambda>cs. case t_channel t of None \<Rightarrow> False | Some c \<Rightarrow> c \<in> set cs)
     \<and> (case tf_created_after f of None \<Rightarrow> True | Some a \<Rightarrow> t_created t \<ge> a)
     \<and> (case tf_created_before f of None \<Rightarrow> True | Some b \<Rightarrow> t_created t \<le> b)
     \<and> if_given (tf_search f) (\<lambda>s.
          let pattern = ''%'' @ s @ ''%''
          in ilike (Some (t_prompt t)) pattern \<or> ilike (Some (t_workflow t)) pattern \<or> ilike (t_error t) pattern)"

text \<open>
  The value of the sort column, as a triple of which one component varies: an instant, a status (in
  the order of its enum type) or a text.  An unknown column name falls back to \<open>created\<close>.
\<close>

definition sort_column :: "(string \<Rightarrow> 'k) \<Rightarrow> string \<Rightarrow> task \<Rightarrow> datetime \<times> task_status \<times> 'k" where
  "sort_column collate sort_by t =
     (if sort_by = ''updated'' then (t_updated t, Queued, collate [])
      else if sort_by = ''status'' then (0, t_status t, collate [])
      else if sort_by = ''workflow'' then (0, Queued, collate (t_workflow t))
      else (t_created t, Queued, collate []))"

definition list_tasks ::
    "(string \<Rightarrow> 'k::linorder) \<Rightarrow> task_filter \<Rightarrow> string \<Rightarrow> string \<Rightarrow> nat \<Rightarrow> nat \<Rightarrow> db \<Rightarrow> task list" where
  "list_tasks collate f sort_by sort_dir limit offset d =
     take limit (drop offset
       (order_rows (lower sort_dir = ''asc'') (sort_column collate sort_by) (select_where (task_matches f) (tasks d))))"

definition count_tasks :: "task_filter \<Rightarrow> db \<Rightarrow> nat" where
  "count_tasks f d = length (select_where (task_matches f) (tasks d))"

definition list_task_filter_options ::
    "(string \<Rightarrow> 'k::linorder) \<Rightarrow> string option \<Rightarrow> bool \<Rightarrow> db \<Rightarrow> string list \<times> string list" where
  "list_task_filter_options collate status include_archived d =
     (let rows = select_where (\<lambda>t. (include_archived \<or> t_archived_at t = None)
                    \<and> if_given status (\<lambda>s. status_str (t_status t) = s)) (tasks d)
      in (sort_key collate (remdups (map t_workflow rows)),
          sort_key collate (remdups (map the (filter (\<lambda>c. c \<noteq> None) (map t_channel rows))))))"

section \<open>Archiving one task\<close>

text \<open>
  The mapped attributes of the five tables \<open>archive_task\<close> updates.  \<open>update(T).values(c=v)\<close> for a
  name that is not a column of \<open>T\<close> raises when the statement is compiled.
\<close>

definition task_columns :: "string list" where
  "task_columns =
     [''id'', ''workflow'', ''status'', ''prompt'', ''task_metadata'', ''channel'', ''initiator'',
      ''message_channel'', ''message_thread'', ''session_id'', ''container_id'', ''heartbeat'',
      ''wait_reason'', ''wait_deadline'', ''wait_started'', ''waited_sec'', ''result'', ''tokens_used'',
      ''duration_sec'', ''error'', ''dedupe_keys'', ''archived_at'', ''created'', ''updated'']"

definition task_event_columns :: "string list" where
  "task_event_columns = [''id'', ''task_id'', ''event_type'', ''data'', ''created'']"

definition session_columns :: "string list" where
  "session_columns =
     [''id'', ''task_id'', ''agent_id'', ''container_id'', ''status'', ''started'', ''ended'',
      ''duration_sec'', ''tokens_input'', ''tokens_output'', ''cost_usd'', ''turns'', ''tools_used'',
      ''subagents_used'', ''error'', ''archived_at'']"

definition session_event_columns :: "string list" where
  "session_event_columns = [''id'', ''task_id'', ''event_type'', ''timestamp'', ''data'', ''archived_at'']"

definition approval_columns :: "string list" where
  "approval_columns =
     [''id'', ''task_id'', ''workflow'', ''approval_kind'', ''tool_name'', ''status'',
      ''request_preview'', ''reason'', ''approval_metadata'', ''requested_at'', ''resolved_at'',
      ''archived_at'', ''created_at'', ''updated_at'']"

definition checked_update :: "string list \<Rightarrow> string \<Rightarrow> (db \<Rightarrow> db) \<Rightarrow> db \<Rightarrow> db result" where
  "checked_update columns column f d =
     (if column \<in> set columns then Inr (f d) else Inl (Sql_error (''Unconsumed column names: '' @ column)))"

definition set_task_archived :: "datetime \<Rightarrow> (uuid \<Rightarrow> bool) \<Rightarrow> datetime option \<Rightarrow> db \<Rightarrow> db" where
  "set_task_archived tx_now picked stamp d = update_tasks tx_now (\<lambda>t. picked (t_id t)) (\<lambda>t. t\<lparr>t_archived_at := stamp\<rparr>) d"

definition in_ids :: "(uuid \<Rightarrow> bool) \<Rightarrow> uuid option \<Rightarrow> bool" where
  "in_ids picked x = (case x of None \<Rightarrow> False | Some i \<Rightarrow> picked i)"

definition set_sessions_archived :: "(uuid \<Rightarrow> bool) \<Rightarrow> datetime option \<Rightarrow> db \<Rightarrow> db" where
  "set_sessions_archived picked stamp d =
     d\<lparr>sessions := update_where (\<lambda>s. in_ids picked (ss_task_id s)) (\<lambda>s. s\<lparr>ss_archived_at := stamp\<rparr>) (sessions d)\<rparr>"

definition set_session_events_archived :: "(uuid \<Rightarrow> bool) \<Rightarrow> datetime option \<Rightarrow> db \<Rightarrow> db" where
  "set_session_events_archived picked stamp d =
     d\<lparr>session_events := update_where (\<lambda>e. in_ids picked (se_task_id e)) (\<lambda>e. e\<lparr>se_archived_at := stamp\<rparr>)
         (session_events d)\<rparr>"

definition set_approvals_archived :: "(uuid \<Rightarrow> bool) \<Rightarrow> datetime option \<Rightarrow> db \<Rightarrow> db" where
  "set_approvals_archived picked stamp d =
     d\<lparr>approvals := update_where (\<lambda>a. picked (ap_task_id a)) (\<lambda>a. a\<lparr>ap_archived_at := stamp\<rparr>) (approvals d)\<rparr>"

text \<open>
  \<open>TaskEvent\<close> has no \<open>archived_at\<close> column, so \<open>f\<close> of its update never runs; it is the identity here.
\<close>

definition archive_task :: "datetime \<Rightarrow> datetime \<Rightarrow> uuid \<Rightarrow> bool \<Rightarrow> db \<Rightarrow> db result" where
  "archive_task now tx_now i archived d =
     (let archived_at = (if archived then Some now else None); this = (\<lambda>j. j = i)
      in result_bind (checked_update task_columns ''archived_at'' (set_task_archived tx_now this archived_at) d) (\<lambda>d.
         result_bind (checked_update session_columns ''archived_at'' (set_sessions_archived this archived_at) d) (\<lambda>d.
         result_bind (checked_update approval_columns ''archived_at'' (set_approvals_archived this archived_at) d) (\<lambda>d.
         result_bind (checked_update task_event_columns ''archived_at'' id d) (\<lambda>d.
         result_bind (checked_update session_event_columns ''archived_at'' (set_session_events_archived this archived_at) d) (\<lambda>d.
         commit_task_event tx_now i (if archived then ''task_archived'' else ''task_unarchived'')
           [(''archived_at'', iso_or_none archived_at)] d))))))"

section \<open>Lemmas\<close>

lemma concat_pages: "concat (map (\<lambda>i. take l (drop (i * l) xs)) [0..<n]) = take (n * l) xs"
  by (induction n) (simp_all add: take_add [symmetric] add.commute)

lemma like_percent_any: "like_match (CHR ''%'' # ps) s \<longleftrightarrow> (\<exists>u v. s = u @ v \<and> like_match ps v)"
proof (induction s)
  case Nil
  then show ?case by simp
next
  case (Cons c s)
  show ?case
  proof
    assume "like_match (CHR ''%'' # ps) (c # s)"
    then consider "like_match ps (c # s)" | "like_match (CHR ''%'' # ps) s" by auto
    then show "\<exists>u v. c # s = u @ v \<and> like_match ps v"
    proof cases
      case 1
      then show ?thesis by (metis append_Nil)
    next
      case 2
      with Cons show ?thesis by (metis append_Cons)
    qed
  next
    assume "\<exists>u v. c # s = u @ v \<and> like_match ps v"
    then obtain u v where uv: "c # s = u @ v" "like_match ps v" by blast
    show "like_match (CHR ''%'' # ps) (c # s)"
    proof (cases u)
      case Nil
      with uv(1) have "v = c # s" by simp
      with uv(2) show ?thesis by simp
    next
      case (Cons a u')
      with uv Cons.IH show ?thesis by auto
    qed
  qed
qed

text \<open>Without wildcards or escapes a pattern matches exactly the text that begins with it.\<close>

lemma like_plain:
  assumes "CHR ''%'' \<notin> set p" "CHR ''_'' \<notin> set p" "CHR 0x5C \<notin> set p"
  shows "like_match (p @ ps) s \<longleftrightarrow> (\<exists>v. s = p @ v \<and> like_match ps v)"
  using assms
proof (induction p arbitrary: s)
  case Nil
  then show ?case by simp
next
  case (Cons a p)
  then show ?case by (cases s) auto
qed

section \<open>Properties\<close>

text \<open>
  C40. Paging is lossless: for every filter and order, the pages of \<open>list_tasks\<close> together are a
  permutation of the matching tasks, sorted by the requested column, and \<open>count_tasks\<close> is their number.
\<close>

theorem task_pages_cover:
  assumes "count_tasks f d \<le> n * l"
  shows "mset (concat (map (\<lambda>i. list_tasks collate f by dir l (i * l) d) [0..<n]))
       = mset (filter (task_matches f) (tasks d))
    \<and> sorted_wrt (if lower dir = ''asc'' then (\<lambda>a b. sort_column collate by a \<le> sort_column collate by b)
                   else (\<lambda>a b. sort_column collate by b \<le> sort_column collate by a))
        (concat (map (\<lambda>i. list_tasks collate f by dir l (i * l) d) [0..<n]))"
proof -
  let ?o = "order_rows (lower dir = ''asc'') (sort_column collate by) (select_where (task_matches f) (tasks d))"
  have "concat (map (\<lambda>i. list_tasks collate f by dir l (i * l) d) [0..<n]) = ?o"
    using assms by (simp add: list_tasks_def concat_pages count_tasks_def)
  then show ?thesis
    using order_rows_sorted [of "lower dir = ''asc''" "sort_column collate by" "select_where (task_matches f) (tasks d)"]
    by (simp add: select_where_def)
qed

definition all_filter :: task_filter where
  "all_filter = \<lparr>tf_workflow = None, tf_status = None, tf_channel = None, tf_search = None,
     tf_created_after = None, tf_created_before = None, tf_include_archived = False\<rparr>"

definition two_tasks :: db where
  "two_tasks = empty_db\<lparr>tasks := [new_task 0 ''a'' ''x'' 10, new_task 1 ''b'' ''y'' 20], next_uuid := 2\<rparr>"

lemma two_tasks_matches: "filter (task_matches all_filter) (tasks two_tasks) = tasks two_tasks"
  by (simp add: two_tasks_def all_filter_def task_matches_def if_given_def new_task_def)

lemma two_tasks_count: "count_tasks all_filter two_tasks \<le> 2 * 1"
  by (simp add: count_tasks_def select_where_def two_tasks_matches) (simp add: two_tasks_def)

theorem task_pages_cover_witness:
  "mset (concat (map (\<lambda>i. list_tasks length all_filter ''created'' ''desc'' 1 (i * 1) two_tasks) [0..<2]))
   = mset (tasks two_tasks)"
  using task_pages_cover [OF two_tasks_count, of length "''created''" "''desc''"]
  by (simp only: two_tasks_matches)

text \<open>
  A search text without wildcard characters finds a task exactly when the text occurs, ignoring
  case, in its prompt, its workflow name or its error.
\<close>

theorem search_is_substring:
  assumes "CHR ''%'' \<notin> set (lower s)" "CHR ''_'' \<notin> set (lower s)" "CHR 0x5C \<notin> set (lower s)"
  shows "ilike (Some x) (''%'' @ s @ ''%'') \<longleftrightarrow> (\<exists>u v. lower x = u @ lower s @ v)"
proof -
  have low: "lower (''%'' @ s @ ''%'') = CHR ''%'' # lower s @ ''%''"
    by (simp add: lower_def lower_char_def)
  have any: "like_match ''%'' v" for v
    using like_percent_any [of "[]" v] by auto
  show ?thesis
    unfolding ilike_def option.case low like_percent_any like_plain [OF assms]
    using any by auto
qed

theorem search_is_substring_witness:
  "ilike (Some ''My Alert'') (''%'' @ ''al'' @ ''%'') \<longleftrightarrow> (\<exists>u v. lower ''My Alert'' = u @ lower ''al'' @ v)"
  by (rule search_is_substring) (simp_all add: lower_def lower_char_def)

text \<open>
  C37. Archiving or unarchiving a task through \<open>archive_task\<close> never succeeds: its fourth statement
  names a column that \<open>TaskEvent\<close> does not have, for every task and every database.
\<close>

theorem archive_task_always_raises:
  "archive_task now tx_now i archived d = Inl (Sql_error ''Unconsumed column names: archived_at'')"
  by (simp add: archive_task_def Let_def checked_update_def task_columns_def session_columns_def
      approval_columns_def task_event_columns_def)

end
