(* ===== verification/Wait_Clock.thy ===== *)
theory Wait_Clock
  imports Task_Sweeps
begin

text \<open>
  The human-wait clock of a task: the helpers of \<open>shared/lib/task_queue.py\<close> that open and close a
  wait, the active runtime that excludes waits, and the invariant that ties the clock to the status.
\<close>

definition wait_ok :: "task \<Rightarrow> bool" where
  "wait_ok t \<longleftrightarrow>
     (t_status t \<in> set WAITING_STATUSES \<longrightarrow> t_wait_started t \<noteq> None)
     \<and> (t_status t \<in> {Queued, Running, Resume_pending} \<longrightarrow> t_wait_started t = None)"

definition waits_ok :: "db \<Rightarrow> bool" where
  "waits_ok d \<longleftrightarrow> (\<forall>t \<in> set (tasks d). wait_ok t)"

lemma wait_ok_touched [simp]: "wait_ok (t\<lparr>t_updated := n\<rparr>) = wait_ok t"
  by (simp add: wait_ok_def)

lemma wait_ok_heartbeat [simp]: "wait_ok (t\<lparr>t_heartbeat := h\<rparr>) = wait_ok t"
  by (simp add: wait_ok_def)

lemma waits_ok_update:
  assumes "waits_ok d" and "\<And>t. t \<in> set (tasks d) \<Longrightarrow> P t \<Longrightarrow> wait_ok (f t)"
  shows "waits_ok (update_tasks n P f d)"
  using assms by (auto simp: waits_ok_def tasks_update_tasks elim!: in_updateE)

lemma waits_ok_frame [simp]:
  "waits_ok (add_task_event n i e x d) = waits_ok d" "waits_ok (add_session_event j e n x d) = waits_ok d"
  by (simp_all add: waits_ok_def)

lemma started_simps [simp]:
  "t_status (wait_started_updates task now r) = t_status r"
  "t_tokens_used (wait_started_updates task now r) = t_tokens_used r"
  "t_id (wait_started_updates task now r) = t_id r"
  "t_wait_deadline (wait_started_updates task now r) = t_wait_deadline r"
  "t_waited_sec (wait_started_updates task now r) = t_waited_sec r"
  "t_duration_sec (wait_started_updates task now r) = t_duration_sec r"
  "t_result (wait_started_updates task now r) = t_result r"
  by (simp_all add: wait_started_updates_def split: option.split)

lemma started_open:
  "t_wait_started (wait_started_updates task now r)
   = (case task of None \<Rightarrow> Some now | Some t \<Rightarrow>
        (case t_wait_started t of None \<Rightarrow> Some now | Some w \<Rightarrow> t_wait_started r))"
  by (simp add: wait_started_updates_def split: option.split)

lemma finished_simps [simp]:
  "t_status (wait_finished_updates task now r) = t_status r"
  "t_tokens_used (wait_finished_updates task now r) = t_tokens_used r"
  "t_id (wait_finished_updates task now r) = t_id r"
  "t_duration_sec (wait_finished_updates task now r) = t_duration_sec r"
  "t_result (wait_finished_updates task now r) = t_result r"
  "t_heartbeat (wait_finished_updates task now r) = t_heartbeat r"
  by (simp_all add: wait_finished_updates_def Let_def split: option.split)

lemma finished_closed:
  "t_wait_started r = t_wait_started t \<Longrightarrow> t_wait_started (wait_finished_updates (Some t) now r) = None"
  by (simp add: wait_finished_updates_def Let_def split: option.split)

lemma finished_waited:
  "t_waited_sec r = t_waited_sec t \<Longrightarrow> t_waited_sec t \<le> t_waited_sec (wait_finished_updates (Some t) now r)"
  by (simp add: wait_finished_updates_def Let_def split: option.split)

lemma close_wait_sql_simps [simp]:
  "t_status (close_wait_sql n t) = t_status t" "t_wait_started (close_wait_sql n t) = None"
  "t_id (close_wait_sql n t) = t_id t"
  by (simp_all add: close_wait_sql_def)

lemma wait_ok_claim [simp]: "wait_ok (claim now t)"
  by (simp add: wait_ok_def status_lists)

lemma wait_ok_lose [simp]: "wait_ok (lose_task n t)"
  by (simp add: wait_ok_def status_lists)

lemma wait_ok_expire [simp]: "wait_ok (expire_wait t)"
  by (simp add: wait_ok_def status_lists)

lemma waits_ok_mark_waiting:
  assumes "waits_ok d" and "mark_task_waiting now tx_now i status reason deadline e x d = Inr d'"
  shows "waits_ok d'"
  using assms
  by (auto simp: mark_task_waiting_def commit_task_event_def Let_def wait_ok_def status_lists
      intro!: waits_ok_update split: if_splits option.splits)

lemma waits_ok_mark_running:
  assumes "waits_ok d" and "mark_task_running now tx_now i reason e x d = Inr d'"
  shows "waits_ok d'"
  using assms
  by (auto simp: mark_task_running_def commit_task_event_def Let_def wait_ok_def status_lists
      intro!: waits_ok_update split: if_splits)

lemma waits_ok_mark_resume:
  assumes "waits_ok d" and "mark_task_resume_pending now tx_now i reason e x d = Inr d'"
  shows "waits_ok d'"
  using assms
  by (auto simp: mark_task_resume_pending_def commit_task_event_def Let_def wait_ok_def status_lists
      intro!: waits_ok_update split: if_splits)

lemma waits_ok_complete:
  assumes "waits_ok d" and "complete_task tx_now i status r k s e d = Inr d'" and "status \<in> set TERMINAL_STATUSES"
  shows "waits_ok d'"
  using assms
  by (auto simp: complete_task_def commit_task_event_def Let_def wait_ok_def status_lists
      intro!: waits_ok_update split: if_splits)

section \<open>Properties\<close>

text \<open>
  C6. The runtime clock stands still during a wait.  For a waiting task the active runtime is the
  same at any two instants after the wait began, and claiming the task closes the wait without a
  jump: the active runtime right after the claim is the one right before.
\<close>

theorem runtime_clock_pauses:
  assumes "t_wait_started t = Some w" and "w \<le> n1" and "n1 \<le> n2"
  shows "active_runtime_sec t started_at n1 = active_runtime_sec t started_at n2
    \<and> active_runtime_sec (claim n2 t) started_at n2 = active_runtime_sec t started_at n2"
  using assms
  by (simp add: active_runtime_sec_def claim_def wait_finished_updates_def Let_def)

theorem runtime_clock_pauses_witness:
  "active_runtime_sec (demo_task\<lparr>t_wait_started := Some 50\<rparr>) 10 60
   = active_runtime_sec (demo_task\<lparr>t_wait_started := Some 50\<rparr>) 10 90"
  by (rule runtime_clock_pauses [of _ 50, THEN conjunct1]) simp_all

text \<open>
  The SQL form of closing a wait agrees with the Python form on every wait that began before the
  transaction; on one that began later (the application's clock is ahead of the database's) the SQL
  form subtracts from the accumulated wait, which the Python form never does.
\<close>

theorem close_wait_forms_agree:
  assumes "t_wait_started t = Some w"
  shows "(close_wait_sql n t = wait_finished_updates (Some t) n t) = (w \<le> n)
    \<and> (n < w \<longrightarrow> t_waited_sec (close_wait_sql n t) < t_waited_sec t)
    \<and> t_waited_sec t \<le> t_waited_sec (wait_finished_updates (Some t) n t)"
proof -
  have "close_wait_sql n t = t\<lparr>t_waited_sec := t_waited_sec t + (n - w), t_wait_started := None\<rparr>"
    using assms by (simp add: close_wait_sql_def)
  moreover have "wait_finished_updates (Some t) n t
      = t\<lparr>t_waited_sec := t_waited_sec t + max 0 (n - w), t_wait_started := None\<rparr>"
    using assms by (cases t) (simp add: wait_finished_updates_def Let_def)
  moreover have "(t\<lparr>t_waited_sec := a, t_wait_started := None\<rparr> = t\<lparr>t_waited_sec := b, t_wait_started := None\<rparr>) = (a = b)" for a b
    by (cases t) simp
  ultimately have "(close_wait_sql n t = wait_finished_updates (Some t) n t) = (n - w = max 0 (n - w))"
    by (simp only: add_left_cancel)
  also have "\<dots> = (w \<le> n)"
    by (simp add: max_def)
  finally show ?thesis
    using assms finished_waited [of t t n] by (simp add: close_wait_sql_def)
qed

theorem close_wait_forms_agree_witness:
  "t_waited_sec (close_wait_sql 5 (demo_task\<lparr>t_wait_started := Some 9\<rparr>)) < t_waited_sec demo_task"
  using close_wait_forms_agree [of "demo_task\<lparr>t_wait_started := Some 9\<rparr>" 9 5] by simp

end
