(* ===== verification/Settings.thy ===== *)
theory Settings
  imports Py_Text
begin

text \<open>
  \<open>shared/lib/config.py\<close>: the settings and their defaults, and the message provider configuration
  (\<open>MessageBusConfig\<close> of \<open>shared/lib/platform_secrets.py\<close>).  The base classes of \<open>Settings\<close> are
  components of its record.
\<close>

record message_bus_config =
  mb_provider :: string
  mb_api_url :: string
  mb_team_name :: string
  mb_bot_token :: string
  mb_app_token :: string
  mb_action_callback_secret :: string

definition default_message_bus :: message_bus_config where
  "default_message_bus = \<lparr>mb_provider = [], mb_api_url = [], mb_team_name = [], mb_bot_token = [],
     mb_app_token = [], mb_action_callback_secret = []\<rparr>"

record database_settings =
  s_pg_host :: string
  s_pg_port :: int
  s_pg_db :: string
  s_pg_user :: string
  s_pg_password :: string

text \<open>The two connection strings.\<close>

definition dsn_with :: "string \<Rightarrow> database_settings \<Rightarrow> string" where
  "dsn_with driver s =
     ''postgresql+'' @ driver @ ''://'' @ s_pg_user s @ '':'' @ s_pg_password s @ ''@'' @ s_pg_host s @ '':''
       @ int_str (s_pg_port s) @ ''/'' @ s_pg_db s"

definition dsn :: "database_settings \<Rightarrow> string" where
  "dsn s = dsn_with ''asyncpg'' s"

definition sync_dsn :: "database_settings \<Rightarrow> string" where
  "sync_dsn s = dsn_with ''psycopg'' s"

record object_store_settings =
  s_object_store_provider :: string
  s_object_store_endpoint :: string
  s_object_store_access_key :: string
  s_object_store_secret_key :: string
  s_object_store_secure :: bool
  s_object_store_gcp_project :: string

record hindsight_settings =
  s_hindsight_url :: string

record settings =
  s_database :: database_settings
  s_object_store :: object_store_settings
  s_hindsight :: hindsight_settings
  s_message_bus :: message_bus_config
  s_gateway_host :: string
  s_gateway_port :: int
  s_poll_interval_sec :: int
  s_platform_max_running_tasks :: int
  s_workflow_root :: string
  s_repo_path :: string
  s_gateway_event_url :: string
  s_gateway_public_base_url :: string
  s_control_plane_ui_url :: string
  s_platform_config_file :: string
  s_workflow_repo_paths :: string
  s_workflow_repo_source :: string
  s_workflow_repo_url :: string
  s_workflow_repo_ref :: string
  s_workflow_repo_local_path :: string
  s_workflow_repo_display_path :: string
  s_workflow_repo_managed :: bool
  s_runtime_launcher :: string
  s_runtime_image :: string
  s_runtime_bundle_root :: string
  s_runtime_bundle_uri_template :: string
  s_runtime_bundle_object_store_bucket :: string
  s_runtime_bundle_presigned_url_expires_sec :: int
  s_knowledge_source_object_store_bucket :: string
  s_knowledge_source_indexer_cache_root :: string
  s_knowledge_source_graphify_binary :: string
  s_knowledge_source_graphify_timeout_sec :: int
  s_knowledge_source_stale_run_sec :: int
  s_knowledge_source_indexer_poll_interval_sec :: int
  s_knowledge_source_serving_cache_root :: string
  s_knowledge_source_refresh_interval_sec :: int
  s_knowledge_source_cache_versions_to_keep :: int
  s_knowledge_embeddings_openai_base_url :: string
  s_knowledge_embeddings_openai_model :: string
  s_knowledge_embeddings_dimensions :: int
  s_knowledge_embeddings_openai_api_key :: string
  s_knowledge_embeddings_batch_size :: int
  s_knowledge_embeddings_timeout_sec :: rat
  s_knowledge_rerank_enabled :: bool
  s_knowledge_rerank_base_url :: string
  s_knowledge_rerank_model :: string
  s_knowledge_rerank_timeout_sec :: rat
  s_knowledge_rerank_candidates :: int
  s_knowledge_require_explicit_source_grants :: bool
  s_knowledge_source_max_pages :: int
  s_knowledge_source_max_chunks :: int
  s_knowledge_source_fetch_concurrency :: int
  s_knowledge_source_request_timeout_sec :: rat
  s_knowledge_source_request_retries :: int
  s_kubernetes_memory_helper_image :: string
  s_kubernetes_bootstrap_secret :: string
  s_kubernetes_runtime_class :: string
  s_kubernetes_runtime_uid :: int
  s_kubernetes_runtime_ttl_sec :: int
  s_housekeeping_enabled :: bool
  s_housekeeping_interval_sec :: int
  s_background_job_run_history_limit :: int
  s_task_archive_after_days :: int
  s_task_delete_after_days :: int
  s_learning_memory_retention_days :: int
  s_hindsight_request_retries :: int
  s_hindsight_request_retry_backoff_sec :: rat
  s_agent_memory_versions_to_keep :: int
  s_agent_memory_retention_days :: int
  s_kubernetes_namespace :: string
  s_kubernetes_runtime_config_map :: string
  s_age_public_key :: string
  s_age_identity :: string

text \<open>The declared defaults.\<close>

definition default_database :: database_settings where
  "default_database = \<lparr>s_pg_host = ''postgres'',
     s_pg_port = 5432,
     s_pg_db = ''sage_run'',
     s_pg_user = ''sage_run'',
     s_pg_password = []\<rparr>"

definition default_object_store :: object_store_settings where
  "default_object_store = \<lparr>s_object_store_provider = ''s3'',
     s_object_store_endpoint = ''minio:9000'',
     s_object_store_access_key = ''sage_run'',
     s_object_store_secret_key = [],
     s_object_store_secure = False,
     s_object_store_gcp_project = []\<rparr>"

definition default_hindsight :: hindsight_settings where
  "default_hindsight = \<lparr>s_hindsight_url = ''http://hindsight:8888''\<rparr>"

definition default_settings :: settings where
  "default_settings = \<lparr>s_database = default_database, s_object_store = default_object_store,
     s_hindsight = default_hindsight, s_message_bus = default_message_bus,
     s_gateway_host = ''0.0.0.0'',
     s_gateway_port = 8080,
     s_poll_interval_sec = 2,
     s_platform_max_running_tasks = 3,
     s_workflow_root = ''/app/workflows'',
     s_repo_path = [],
     s_gateway_event_url = ''http://gateway:8080/events'',
     s_gateway_public_base_url = [],
     s_control_plane_ui_url = [],
     s_platform_config_file = ''/app/platform-config.yaml'',
     s_workflow_repo_paths = [],
     s_workflow_repo_source = [],
     s_workflow_repo_url = [],
     s_workflow_repo_ref = [],
     s_workflow_repo_local_path = ''/app/workflows'',
     s_workflow_repo_display_path = [],
     s_workflow_repo_managed = False,
     s_runtime_launcher = ''kubernetes'',
     s_runtime_image = ''sage-run-agent-runtime:latest'',
     s_runtime_bundle_root = [],
     s_runtime_bundle_uri_template = [],
     s_runtime_bundle_object_store_bucket = [],
     s_runtime_bundle_presigned_url_expires_sec = 3600,
     s_knowledge_source_object_store_bucket = [],
     s_knowledge_source_indexer_cache_root = ''/var/lib/sage-run/knowledge-indexer'',
     s_knowledge_source_graphify_binary = ''graphify'',
     s_knowledge_source_graphify_timeout_sec = 1800,
     s_knowledge_source_stale_run_sec = 3600,
     s_knowledge_source_indexer_poll_interval_sec = 30,
     s_knowledge_source_serving_cache_root = ''/var/lib/sage-run/knowledge'',
     s_knowledge_source_refresh_interval_sec = 30,
     s_knowledge_source_cache_versions_to_keep = 2,
     s_knowledge_embeddings_openai_base_url = ''http://model-gateway:1235/v1'',
     s_knowledge_embeddings_openai_model = [],
     s_knowledge_embeddings_dimensions = 0,
     s_knowledge_embeddings_openai_api_key = [],
     s_knowledge_embeddings_batch_size = 16,
     s_knowledge_embeddings_timeout_sec = 60,
     s_knowledge_rerank_enabled = False,
     s_knowledge_rerank_base_url = ''http://model-gateway:1235'',
     s_knowledge_rerank_model = [],
     s_knowledge_rerank_timeout_sec = 3,
     s_knowledge_rerank_candidates = 20,
     s_knowledge_require_explicit_source_grants = False,
     s_knowledge_source_max_pages = 10000,
     s_knowledge_source_max_chunks = 100000,
     s_knowledge_source_fetch_concurrency = 8,
     s_knowledge_source_request_timeout_sec = 60,
     s_knowledge_source_request_retries = 3,
     s_kubernetes_memory_helper_image = [],
     s_kubernetes_bootstrap_secret = [],
     s_kubernetes_runtime_class = ''gvisor'',
     s_kubernetes_runtime_uid = 1000,
     s_kubernetes_runtime_ttl_sec = 86400,
     s_housekeeping_enabled = True,
     s_housekeeping_interval_sec = 3600,
     s_background_job_run_history_limit = 5,
     s_task_archive_after_days = 14,
     s_task_delete_after_days = 0,
     s_learning_memory_retention_days = 30,
     s_hindsight_request_retries = 3,
     s_hindsight_request_retry_backoff_sec = 1 / 2,
     s_agent_memory_versions_to_keep = 10,
     s_agent_memory_retention_days = 90,
     s_kubernetes_namespace = ''default'',
     s_kubernetes_runtime_config_map = [],
     s_age_public_key = [],
     s_age_identity = []\<rparr>"

end
