(* ===== verification/Message_Bus.thy ===== *)
theory Message_Bus
  imports Settings
begin

text \<open>
  \<open>shared/lib/message_bus.py\<close>: the provider-neutral message bus.  The two provider clients
  (\<open>create_post\<close> of \<open>mattermost_api.py\<close> and \<open>slack_api.py\<close>) talk HTTP and are parameters: a function
  from the request to the provider's answer, \<open>Inl\<close> the text of a caught exception.
\<close>

record mm_post =
  mp_api_url :: string
  mp_bot_token :: string
  mp_text :: string
  mp_channel_id :: string
  mp_channel_name :: string
  mp_team_id :: string
  mp_team_name :: string
  mp_root_id :: string
  mp_props :: "pydict option"

record slack_post =
  sp_api_url :: string
  sp_bot_token :: string
  sp_channel_id :: string
  sp_text :: string
  sp_thread_id :: string
  sp_blocks :: "pyval list option"

record transport =
  tr_mattermost :: "mm_post \<Rightarrow> string + pydict"
  tr_slack :: "slack_post \<Rightarrow> string + pydict"

record message_ref =
  mr_id :: string
  mr_thread_id :: string
  mr_raw :: pydict

record mattermost_bus =
  mm_api_url :: string
  mm_bot_token :: string
  mm_channel_id :: string
  mm_channel_name :: string
  mm_team_id :: string
  mm_team_name :: string
  mm_last_error :: string

record slack_bus =
  sb_api_url :: string
  sb_bot_token :: string
  sb_channel :: string

datatype message_bus = Mattermost mattermost_bus | Slack slack_bus

text \<open>
  The thread id lives outside the bus, behind \<open>get_thread_id\<close> and \<open>set_thread_id\<close>; it is passed in
  and out.
\<close>

definition mattermost_post_to_thread ::
    "transport \<Rightarrow> string \<Rightarrow> string \<Rightarrow> mattermost_bus \<Rightarrow> message_ref option \<times> mattermost_bus \<times> string" where
  "mattermost_post_to_thread tr text thread bus =
     (if mm_channel_name bus = [] \<and> mm_channel_id bus = []
      then (None, bus\<lparr>mm_last_error := ''No Mattermost channel name or channel ID is available for this task''\<rparr>, thread)
      else if mm_bot_token bus = []
      then (None, bus\<lparr>mm_last_error := ''No Mattermost bot token is available for this task''\<rparr>, thread)
      else
        case tr_mattermost tr \<lparr>mp_api_url = mm_api_url bus, mp_bot_token = mm_bot_token bus, mp_text = text,
               mp_channel_id = mm_channel_id bus, mp_channel_name = mm_channel_name bus,
               mp_team_id = mm_team_id bus, mp_team_name = mm_team_name bus, mp_root_id = thread, mp_props = None\<rparr> of
          Inl e \<Rightarrow> (None, bus\<lparr>mm_last_error := e\<rparr>, thread)
        | Inr post \<Rightarrow>
            (let message_id = str_or_empty (dict_get post ''id'');
                 thread_id = (if thread \<noteq> [] then thread else message_id);
                 thread' = (if thread_id \<noteq> [] \<and> thread = [] then thread_id else thread)
             in (Some \<lparr>mr_id = message_id, mr_thread_id = thread_id, mr_raw = post\<rparr>,
                 bus\<lparr>mm_last_error := []\<rparr>, thread')))"

definition slack_post_to_thread ::
    "transport \<Rightarrow> string \<Rightarrow> string \<Rightarrow> slack_bus \<Rightarrow> message_ref option \<times> string" where
  "slack_post_to_thread tr text thread_ts bus =
     (if sb_channel bus = [] \<or> sb_bot_token bus = [] then (None, thread_ts)
      else
        case tr_slack tr \<lparr>sp_api_url = sb_api_url bus, sp_bot_token = sb_bot_token bus,
               sp_channel_id = sb_channel bus, sp_text = text, sp_thread_id = thread_ts, sp_blocks = None\<rparr> of
          Inl e \<Rightarrow> (None, thread_ts)
        | Inr payload \<Rightarrow>
            (let message_ts = str_or_empty (dict_get payload ''ts'');
                 resolved_thread = (if thread_ts \<noteq> [] then thread_ts else message_ts);
                 thread' = (if resolved_thread \<noteq> [] \<and> thread_ts = [] then resolved_thread else thread_ts)
             in (Some \<lparr>mr_id = message_ts, mr_thread_id = resolved_thread, mr_raw = payload\<rparr>, thread')))"

text \<open>The keyword arguments that say where a message goes; both functions below take them.\<close>

record bus_target =
  bt_provider :: string
  bt_api_url :: string
  bt_bot_token :: string
  bt_channel_id :: string
  bt_channel_name :: string
  bt_team_id :: string
  bt_team_name :: string

definition build_message_bus :: "bus_target \<Rightarrow> message_bus result" where
  "build_message_bus target =
     (let normalized = lower (strip (bt_provider target))
      in if normalized = ''mattermost''
         then Inr (Mattermost \<lparr>mm_api_url = bt_api_url target, mm_bot_token = bt_bot_token target,
                mm_channel_id = bt_channel_id target, mm_channel_name = bt_channel_name target,
                mm_team_id = bt_team_id target, mm_team_name = bt_team_name target, mm_last_error = []\<rparr>)
         else if normalized = ''slack''
         then Inr (Slack \<lparr>sb_api_url = rstrip_char (CHR ''/'') (strip (bt_api_url target)),
                sb_bot_token = bt_bot_token target,
                sb_channel = (if bt_channel_id target \<noteq> [] then bt_channel_id target else bt_channel_name target)\<rparr>)
         else Inl (Value_error (''Unsupported message bus provider: '' @ str_repr (bt_provider target))))"

definition post_channel_message ::
    "transport \<Rightarrow> bus_target \<Rightarrow> string \<Rightarrow> string \<Rightarrow> message_ref option result" where
  "post_channel_message tr target text thread_root =
     result_map
       (\<lambda>bus. case bus of
          Mattermost b \<Rightarrow> fst (mattermost_post_to_thread tr text thread_root b)
        | Slack b \<Rightarrow> fst (slack_post_to_thread tr text thread_root b))
       (build_message_bus target)"

section \<open>Properties\<close>

text \<open>
  A thread, once set, is kept: a successful post through either provider reports the thread it
  went to, a post into an open thread never moves it, and a post that opens one sets it to the new
  message's id.
\<close>

theorem post_to_thread_keeps_thread:
  assumes "(case bus of
      Mattermost b \<Rightarrow> (let (r, b', th) = mattermost_post_to_thread tr msg thread b in r = Some ref \<and> thread' = th)
    | Slack b \<Rightarrow> slack_post_to_thread tr msg thread b = (Some ref, thread'))"
  shows "thread' = mr_thread_id ref \<and> (if thread = [] then thread' = mr_id ref else thread' = thread)"
  using assms
  by (cases bus)
    (auto simp: mattermost_post_to_thread_def slack_post_to_thread_def Let_def split: if_splits sum.splits)

definition demo_transport :: transport where
  "demo_transport = \<lparr>tr_mattermost = (\<lambda>_. Inr [(''id'', PStr ''m1'')]), tr_slack = (\<lambda>_. Inr [(''ts'', PStr ''1.5'')])\<rparr>"

definition demo_slack :: slack_bus where
  "demo_slack = \<lparr>sb_api_url = [], sb_bot_token = ''x'', sb_channel = ''c''\<rparr>"

theorem post_to_thread_keeps_thread_witness:
  "snd (slack_post_to_thread demo_transport ''hi'' [] demo_slack) = ''1.5''"
  using post_to_thread_keeps_thread [where bus = "Slack demo_slack" and tr = demo_transport and msg = "''hi''"
      and thread = "[]" and thread' = "''1.5''"
      and ref = "\<lparr>mr_id = ''1.5'', mr_thread_id = ''1.5'', mr_raw = [(''ts'', PStr ''1.5'')]\<rparr>"]
  by (simp add: slack_post_to_thread_def demo_transport_def demo_slack_def Let_def)

end
