(* ===== verification/Approvals.thy ===== *)
theory Approvals
  imports Task_Queue
begin

text \<open>
  \<open>shared/lib/approvals.py\<close>: approval events folded into approval rows.  An event opens, annotates
  or resolves the open approval of its task and tool.
\<close>

section \<open>Operations\<close>

definition merge_metadata :: "pydict \<Rightarrow> pydict \<Rightarrow> pydict" where
  "merge_metadata existing updates = dict_merge existing updates"

definition is_open :: "uuid \<Rightarrow> string \<Rightarrow> approval \<Rightarrow> bool" where
  "is_open i tool_name a \<longleftrightarrow> ap_task_id a = i \<and> ap_tool_name a = tool_name \<and> ap_status a = ''pending''"

definition find_open_approval :: "db \<Rightarrow> uuid \<Rightarrow> string \<Rightarrow> approval option" where
  "find_open_approval d i tool_name =
     first_row (order_rows False (\<lambda>a. (ap_requested_at a, ap_created_at a))
       (select_where (is_open i tool_name) (approvals d)))"

fun first_request :: "string \<Rightarrow> approval list \<Rightarrow> approval option result" where
  "first_request request_id [] = Inr None"
| "first_request request_id (a # as) =
     result_bind (as_dict (dict_get_default (ap_metadata a) ''approval_requested'' (PDict []))) (\<lambda>requested.
       if str_or_empty (dict_get requested ''request_id'') = request_id then Inr (Some a)
       else first_request request_id as)"

definition find_approval_by_request ::
    "db \<Rightarrow> uuid \<Rightarrow> string \<Rightarrow> string \<Rightarrow> approval option result" where
  "find_approval_by_request d i tool_name request_id =
     first_request request_id
       (order_rows False (\<lambda>a. (ap_requested_at a, ap_created_at a))
         (select_where (\<lambda>a. ap_task_id a = i \<and> ap_tool_name a = tool_name) (approvals d)))"

definition approval_status_from_result :: "pydict \<Rightarrow> string" where
  "approval_status_from_result data = (if truthy (dict_get data ''approved'') then ''approved'' else ''rejected'')"

definition update_approval :: "uuid \<Rightarrow> (approval \<Rightarrow> approval) \<Rightarrow> db \<Rightarrow> db" where
  "update_approval i f d = d\<lparr>approvals := update_where (\<lambda>a. ap_id a = i) f (approvals d)\<rparr>"

definition add_approval :: "approval \<Rightarrow> db \<Rightarrow> db" where
  "add_approval a d = d\<lparr>approvals := insert_row a (approvals d), next_uuid := Suc (next_uuid d)\<rparr>"

definition new_approval ::
    "datetime \<Rightarrow> uuid \<Rightarrow> uuid \<Rightarrow> string option \<Rightarrow> string \<Rightarrow> string \<Rightarrow> string \<Rightarrow> pydict \<Rightarrow> datetime \<Rightarrow> approval" where
  "new_approval tx_now i task_id workflow kind tool_name status metadata event_timestamp =
     \<lparr>ap_id = i, ap_task_id = task_id, ap_workflow = workflow, ap_approval_kind = kind,
      ap_tool_name = tool_name, ap_status = status, ap_request_preview = None, ap_reason = None,
      ap_metadata = metadata, ap_requested_at = event_timestamp, ap_resolved_at = None,
      ap_archived_at = None, ap_created_at = tx_now, ap_updated_at = event_timestamp\<rparr>"

text \<open>
  The three branches share one shape: write the open approval, or add a new one.  The result is the
  approval object as the code returns it.
\<close>

definition open_or_add ::
    "uuid \<Rightarrow> string \<Rightarrow> (approval \<Rightarrow> approval) \<Rightarrow> (uuid \<Rightarrow> approval) \<Rightarrow> db \<Rightarrow> approval option \<times> db" where
  "open_or_add i tool_name change fresh d =
     (case find_open_approval d i tool_name of
        None \<Rightarrow> (Some (fresh (next_uuid d)), add_approval (fresh (next_uuid d)) d)
      | Some a \<Rightarrow> (Some (change a), update_approval (ap_id a) (\<lambda>_. change a) d))"

definition none_if_empty :: "string \<Rightarrow> string option" where
  "none_if_empty s = (if s = [] then None else Some s)"

definition apply_approval_event ::
    "datetime \<Rightarrow> task option \<Rightarrow> uuid option \<Rightarrow> string \<Rightarrow> datetime \<Rightarrow> pydict option \<Rightarrow> db
     \<Rightarrow> approval option \<times> db" where
  "apply_approval_event tx_now task task_id event_type event_timestamp data d =
     (case task_id of
        None \<Rightarrow> (None, d)
      | Some i \<Rightarrow>
          (let payload = (case data of None \<Rightarrow> [] | Some p \<Rightarrow> p);
               tool_name = strip (str_or_empty (dict_get payload ''tool_name''));
               workflow = map_option t_workflow task
           in if tool_name = [] then (None, d)
              else if event_type = ''permission_callback'' then
                (if dict_get payload ''kind'' \<noteq> PStr ''operator_approval'' then (None, d)
                 else open_or_add i tool_name
                   (\<lambda>a. a\<lparr>ap_approval_kind := py_str (py_or (dict_get payload ''kind'') (PStr (ap_approval_kind a))),
                          ap_metadata := merge_metadata (ap_metadata a) [(''permission_callback'', PDict payload)],
                          ap_updated_at := event_timestamp\<rparr>)
                   (\<lambda>u. new_approval tx_now u i workflow
                          (py_str (py_or (dict_get payload ''kind'') (PStr ''operator_approval''))) tool_name ''pending''
                          [(''permission_callback'', PDict payload)] event_timestamp) d)
              else if event_type = ''approval_requested'' then
                (let preview = dict_get payload ''tool_input_preview''
                 in open_or_add i tool_name
                   (\<lambda>a. a\<lparr>ap_request_preview := (if truthy preview then Some (py_str preview) else ap_request_preview a),
                          ap_metadata := merge_metadata (ap_metadata a) [(''approval_requested'', PDict payload)],
                          ap_updated_at := event_timestamp\<rparr>)
                   (\<lambda>u. (new_approval tx_now u i workflow ''operator_approval'' tool_name ''pending''
                          [(''approval_requested'', PDict payload)] event_timestamp)
                          \<lparr>ap_request_preview := (if truthy preview then Some (py_str preview) else None)\<rparr>) d)
              else if event_type = ''approval_result'' then
                (let reason = none_if_empty (str_or_empty (dict_get payload ''reason''))
                 in open_or_add i tool_name
                   (\<lambda>a. a\<lparr>ap_status := approval_status_from_result payload, ap_reason := reason,
                          ap_metadata := merge_metadata (ap_metadata a) [(''approval_result'', PDict payload)],
                          ap_resolved_at := Some event_timestamp, ap_updated_at := event_timestamp\<rparr>)
                   (\<lambda>u. (new_approval tx_now u i workflow ''operator_approval'' tool_name
                          (approval_status_from_result payload) [(''approval_result'', PDict payload)] event_timestamp)
                          \<lparr>ap_reason := reason, ap_resolved_at := Some event_timestamp\<rparr>) d)
              else (None, d)))"

text \<open>\<open>None\<close> among the ids is dropped; the events are replayed by task, time and event id.\<close>

definition approval_event_types :: "string list" where
  "approval_event_types = [''permission_callback'', ''approval_requested'', ''approval_result'']"

definition replay_event :: "datetime \<Rightarrow> db \<Rightarrow> nat \<times> db \<Rightarrow> session_event \<Rightarrow> nat \<times> db" where
  "replay_event tx_now d0 st e =
     (let (approval, d') = apply_approval_event tx_now (find_task d0 (the (se_task_id e))) (se_task_id e)
            (se_event_type e) (se_timestamp e) (se_data e) (snd st)
      in (if approval = None then fst st else Suc (fst st), d'))"

definition backfill_approvals_for_task_ids :: "datetime \<Rightarrow> uuid option list \<Rightarrow> db \<Rightarrow> nat \<times> db" where
  "backfill_approvals_for_task_ids tx_now task_ids d =
     (let ids = map the (filter (\<lambda>i. i \<noteq> None) task_ids)
      in if ids = [] then (0, d)
         else
           let d1 = d\<lparr>approvals := delete_where (\<lambda>a. ap_task_id a \<in> set ids) (approvals d)\<rparr>;
               events = order_rows True (\<lambda>e. (the (se_task_id e), se_timestamp e, se_id e))
                 (select_where (\<lambda>e. (case se_task_id e of None \<Rightarrow> False | Some i \<Rightarrow> i \<in> set ids)
                    \<and> se_event_type e \<in> set approval_event_types) (session_events d1))
           in foldl (replay_event tx_now d) (0, d1) events)"

section \<open>Invariant\<close>

text \<open>
  Approval ids are distinct and below the supply, tool names are stripped and not empty, and a task
  has at most one open approval per tool.
\<close>

definition approvals_ok :: "db \<Rightarrow> bool" where
  "approvals_ok d \<longleftrightarrow>
     distinct (map ap_id (approvals d))
     \<and> (\<forall>a \<in> set (approvals d). ap_id a < next_uuid d \<and> strip (ap_tool_name a) = ap_tool_name a
          \<and> ap_tool_name a \<noteq> [])
     \<and> distinct (map (\<lambda>a. (ap_task_id a, ap_tool_name a)) (filter (\<lambda>a. ap_status a = ''pending'') (approvals d)))"

lemma approvals_ok_empty [simp]: "approvals_ok empty_db"
  by (simp add: approvals_ok_def empty_db_def)

lemma find_open_Some:
  assumes "find_open_approval d i tool = Some a"
  shows "a \<in> set (approvals d)" "ap_task_id a = i" "ap_tool_name a = tool" "ap_status a = ''pending''"
  using first_order_desc(1) [OF assms [unfolded find_open_approval_def]]
  by (auto simp: table_simps is_open_def)

lemma find_open_None:
  "find_open_approval d i tool = None \<longleftrightarrow> (\<forall>a \<in> set (approvals d). \<not> is_open i tool a)"
  by (simp add: find_open_approval_def select_where_def filter_empty_conv)

lemma find_open_unique:
  assumes "approvals_ok d" and "a \<in> set (approvals d)" and "ap_status a = ''pending''"
  shows "find_open_approval d (ap_task_id a) (ap_tool_name a) = Some a"
proof -
  have "is_open (ap_task_id a) (ap_tool_name a) a"
    using assms(3) by (simp add: is_open_def)
  with assms(2) obtain b where b: "find_open_approval d (ap_task_id a) (ap_tool_name a) = Some b"
    using find_open_None by blast
  let ?open = "filter (\<lambda>a. ap_status a = ''pending'') (approvals d)"
  have "distinct (map (\<lambda>a. (ap_task_id a, ap_tool_name a)) ?open)"
    using assms(1) by (simp add: approvals_ok_def)
  then have "b = a"
    by (rule distinct_map_inj) (use find_open_Some [OF b] assms(2,3) in auto)
  with b show ?thesis by simp
qed

text \<open>Updating rows so that the open ones stay among the open ones keeps their keys distinct.\<close>

lemma distinct_open_update:
  assumes "\<And>r. r \<in> set rows \<Longrightarrow> P r \<Longrightarrow> Q (f r) \<Longrightarrow> Q r \<and> k (f r) = k r"
    and "distinct (map k (filter Q rows))"
  shows "distinct (map k (filter Q (update_where P f rows)))"
  using assms
proof (induction rows)
  case (Cons r rows)
  have IH: "distinct (map k (filter Q (update_where P f rows)))"
    using Cons by (cases "Q r") auto
  have sub: "k ` set (filter Q (update_where P f rows)) \<subseteq> k ` set (filter Q rows)"
  proof
    fix y assume "y \<in> k ` set (filter Q (update_where P f rows))"
    then obtain x where x: "x \<in> set (update_where P f rows)" "Q x" "y = k x" by auto
    from x(1) obtain r' where "r' \<in> set rows" "x = (if P r' then f r' else r')" by (rule in_updateE)
    with x Cons.prems(1) [of r'] show "y \<in> k ` set (filter Q rows)"
      by (cases "P r'") (auto intro!: image_eqI [where x = r'])
  qed
  have head: "Q (if P r then f r else r) \<Longrightarrow> Q r \<and> k (if P r then f r else r) = k r"
    using Cons.prems(1) [of r] by auto
  show ?case
  proof (cases "Q (if P r then f r else r)")
    case True
    then have "Q r" "k (if P r then f r else r) = k r" using head by auto
    moreover have "k r \<notin> k ` set (filter Q rows)"
      using Cons.prems(2) \<open>Q r\<close> by auto
    ultimately show ?thesis using IH sub True by auto
  next
    case False
    with IH show ?thesis by simp
  qed
qed simp

lemma approvals_ok_update:
  assumes ok: "approvals_ok d" and a: "a \<in> set (approvals d)"
    and keep: "ap_id a' = ap_id a" "ap_task_id a' = ap_task_id a" "ap_tool_name a' = ap_tool_name a"
    and pend: "ap_status a' = ''pending'' \<Longrightarrow> ap_status a = ''pending''"
  shows "approvals_ok (update_approval (ap_id a) (\<lambda>_. a') d)"
proof -
  have only: "r \<in> set (approvals d) \<Longrightarrow> ap_id r = ap_id a \<Longrightarrow> r = a" for r
    using ok a distinct_map_inj [of ap_id "approvals d"] by (simp add: approvals_ok_def)
  have ids: "map ap_id (update_where (\<lambda>r. ap_id r = ap_id a) (\<lambda>_. a') (approvals d)) = map ap_id (approvals d)"
    using keep(1) by (simp add: update_where_def)
  have rows: "r \<in> set (approvals (update_approval (ap_id a) (\<lambda>_. a') d)) \<Longrightarrow> r = a' \<or> r \<in> set (approvals d)" for r
    by (auto simp: update_approval_def update_where_def)
  have "distinct (map (\<lambda>a. (ap_task_id a, ap_tool_name a))
      (filter (\<lambda>a. ap_status a = ''pending'') (update_where (\<lambda>r. ap_id r = ap_id a) (\<lambda>_. a') (approvals d))))"
    using ok keep pend by (intro distinct_open_update) (auto simp: approvals_ok_def dest: only)
  moreover have "ap_id a' < next_uuid d \<and> strip (ap_tool_name a') = ap_tool_name a' \<and> ap_tool_name a' \<noteq> []"
    using ok a keep by (auto simp: approvals_ok_def)
  ultimately show ?thesis
    using ok rows ids unfolding approvals_ok_def
    by (auto simp: update_approval_def)
qed

lemma approvals_ok_add:
  assumes ok: "approvals_ok d" and "ap_id a = next_uuid d"
    and "strip (ap_tool_name a) = ap_tool_name a" "ap_tool_name a \<noteq> []"
    and fresh: "ap_status a = ''pending'' \<Longrightarrow> find_open_approval d (ap_task_id a) (ap_tool_name a) = None"
  shows "approvals_ok (add_approval a d)"
proof -
  have "ap_id a \<notin> ap_id ` set (approvals d)"
    using assms(1,2) by (auto simp: approvals_ok_def)
  moreover have "ap_status a = ''pending'' \<Longrightarrow>
      (ap_task_id a, ap_tool_name a) \<notin> (\<lambda>a. (ap_task_id a, ap_tool_name a)) ` set (filter (\<lambda>a. ap_status a = ''pending'') (approvals d))"
    using fresh by (auto simp: find_open_None is_open_def)
  ultimately show ?thesis
    using assms by (auto simp: approvals_ok_def add_approval_def insert_row_def less_SucI)
qed

lemma open_or_add_ok:
  assumes ok: "approvals_ok d" and tool: "strip tool = tool" "tool \<noteq> []"
    and keep: "\<And>a. ap_id (change a) = ap_id a \<and> ap_task_id (change a) = ap_task_id a \<and> ap_tool_name (change a) = ap_tool_name a"
    and new: "\<And>u. ap_id (fresh u) = u \<and> ap_task_id (fresh u) = i \<and> ap_tool_name (fresh u) = tool"
  shows "approvals_ok (snd (open_or_add i tool change fresh d))"
proof (cases "find_open_approval d i tool")
  case None
  then show ?thesis
    using ok tool new by (simp add: open_or_add_def approvals_ok_add)
next
  case (Some a)
  then show ?thesis
    using ok keep find_open_Some [OF Some] by (simp add: open_or_add_def approvals_ok_update)
qed

lemma open_or_add_result:
  "fst (open_or_add i tool change fresh d)
   = (case find_open_approval d i tool of None \<Rightarrow> Some (fresh (next_uuid d)) | Some a \<Rightarrow> Some (change a))"
  by (simp add: open_or_add_def split: option.split)

lemma new_approval_simps [simp]:
  "ap_id (new_approval n u i w k t s m e) = u" "ap_task_id (new_approval n u i w k t s m e) = i"
  "ap_tool_name (new_approval n u i w k t s m e) = t" "ap_status (new_approval n u i w k t s m e) = s"
  "ap_metadata (new_approval n u i w k t s m e) = m"
  by (simp_all add: new_approval_def)

lemma frame_approvals [simp]:
  "tasks (update_approval u f d) = tasks d" "session_events (update_approval u f d) = session_events d"
  "next_uuid (update_approval u f d) = next_uuid d" "task_events (update_approval u f d) = task_events d"
  "tasks (add_approval a d) = tasks d" "session_events (add_approval a d) = session_events d"
  "next_uuid (add_approval a d) = Suc (next_uuid d)" "task_events (add_approval a d) = task_events d"
  "sessions (update_approval u f d) = sessions d" "sessions (add_approval a d) = sessions d"
  by (simp_all add: update_approval_def add_approval_def)

lemma frame_open_or_add [simp]:
  "tasks (snd (open_or_add i tool change fresh d)) = tasks d"
  "session_events (snd (open_or_add i tool change fresh d)) = session_events d"
  "task_events (snd (open_or_add i tool change fresh d)) = task_events d"
  by (simp_all add: open_or_add_def split: option.split)

lemma frame_apply_approval_event [simp]:
  "tasks (snd (apply_approval_event tx_now task i e ts data d)) = tasks d"
  "session_events (snd (apply_approval_event tx_now task i e ts data d)) = session_events d"
  "task_events (snd (apply_approval_event tx_now task i e ts data d)) = task_events d"
  by (simp_all add: apply_approval_event_def Let_def split: option.split)

lemma approvals_ok_add_session_event [simp]:
  "approvals_ok d \<Longrightarrow> approvals_ok (add_session_event i e n x d)"
  by (auto simp: approvals_ok_def less_SucI)

lemma apply_approval_event_ok:
  assumes "approvals_ok d"
  shows "approvals_ok (snd (apply_approval_event tx_now task i e ts data d))"
  using assms
  by (cases i) (simp_all add: apply_approval_event_def Let_def strip_idem open_or_add_ok)

lemma backfill_ok:
  assumes "approvals_ok d"
  shows "approvals_ok (snd (backfill_approvals_for_task_ids tx_now ids d))"
proof -
  have fold: "approvals_ok (snd st) \<Longrightarrow> approvals_ok (snd (foldl (replay_event tx_now d) st es))" for st es
    by (induction es arbitrary: st) (simp_all add: replay_event_def case_prod_beta Let_def apply_approval_event_ok)
  have "approvals_ok (d\<lparr>approvals := delete_where P (approvals d)\<rparr>)" for P
  proof -
    have swap: "filter Q (filter R xs) = filter R (filter Q xs)" for Q R :: "approval \<Rightarrow> bool" and xs
      by (simp add: conj_commute)
    show ?thesis
      using assms
      by (simp add: approvals_ok_def delete_where_def swap [of "\<lambda>a. ap_status a = ''pending''"] distinct_map_filter
          del: filter_filter)
  qed
  then show ?thesis
    using assms fold [of "(0, _)"] by (simp add: backfill_approvals_for_task_ids_def Let_def)
qed

end
