(* ===== verification/Approval_Broker.thy ===== *)
theory Approval_Broker
  imports Approvals Message_Bus
begin

text \<open>
  \<open>gateway/approval_broker.py\<close>: the prompt posted for an approval, the recording of a decision, and
  the delivery state kept in the approval's metadata.
\<close>

section \<open>Prompt texts\<close>

definition approval_callback_url :: "settings \<Rightarrow> string" where
  "approval_callback_url cfg =
     (let explicit = rstrip_char (CHR ''/'') (strip (s_gateway_public_base_url cfg))
      in if explicit \<noteq> [] then explicit @ ''/webhooks/message/actions/approval''
         else ''http://gateway:'' @ int_str (s_gateway_port cfg) @ ''/webhooks/message/actions/approval'')"

definition session_details_url :: "settings \<Rightarrow> uuid \<Rightarrow> string option" where
  "session_details_url cfg i =
     (let base = rstrip_char (CHR ''/'') (strip (s_control_plane_ui_url cfg))
      in if base = [] then None else Some (base @ ''/tasks/'' @ uuid_str i))"

definition requested_payload :: "approval \<Rightarrow> pydict result" where
  "requested_payload a = as_dict (dict_get_default (ap_metadata a) ''approval_requested'' (PDict []))"

definition approval_action_context :: "settings \<Rightarrow> approval \<Rightarrow> string \<Rightarrow> bool \<Rightarrow> pydict result" where
  "approval_action_context cfg a decision include_callback_secret =
     result_bind (requested_payload a) (\<lambda>requested.
       (let context = [(''approval_id'', PStr (uuid_str (ap_id a))), (''task_id'', PStr (uuid_str (ap_task_id a))),
              (''tool_name'', PStr (ap_tool_name a)),
              (''request_id'', PStr (str_or_empty (dict_get requested ''request_id''))),
              (''decision'', PStr decision)]
        in Inr (if include_callback_secret
                then dict_set ''token'' (PStr (mb_action_callback_secret (s_message_bus cfg))) context
                else context)))"

definition fence :: string where
  "fence = [CHR 0x60, CHR 0x60, CHR 0x60]"

definition quoted :: "string \<Rightarrow> string" where
  "quoted s = [CHR 0x60] @ s @ [CHR 0x60]"

definition use_buttons :: string where
  "use_buttons = ''Use the buttons below to approve or reject this action.''"

definition approval_button :: "settings \<Rightarrow> string \<Rightarrow> string \<Rightarrow> string \<Rightarrow> pydict \<Rightarrow> pyval" where
  "approval_button cfg i name style context =
     PDict [(''id'', PStr i), (''type'', PStr ''button''), (''name'', PStr name), (''style'', PStr style),
       (''integration'', PDict [(''url'', PStr (approval_callback_url cfg)), (''context'', PDict context)])]"

definition approval_lines :: "settings \<Rightarrow> task \<Rightarrow> approval \<Rightarrow> pydict \<Rightarrow> string list" where
  "approval_lines cfg t a requested =
     (let issue = py_or (dict_get requested ''task_prompt_summary'') (PStr (take 300 (t_prompt t)));
          action_desc = (case ap_request_preview a of
            Some p \<Rightarrow> if p \<noteq> [] then p else ap_tool_name a | None \<Rightarrow> ap_tool_name a)
      in ['':warning: **Approval Required** (Task '' @ quoted (take 8 (uuid_str (t_id t))) @ '')'', [],
          ''**Tool**: '' @ quoted (ap_tool_name a)]
       @ (if action_desc \<noteq> [] then [[], ''**Request Preview**:'',
            fence @ newline @ take 1200 action_desc @ newline @ fence] else [])
       @ (case ap_workflow a of None \<Rightarrow> [] | Some w \<Rightarrow> if w \<noteq> [] then [''**Workflow**: '' @ quoted w] else [])
       @ (if truthy issue then [''**Issue**: '' @ py_str issue] else [])
       @ (case session_details_url cfg (t_id t) of None \<Rightarrow> []
          | Some url \<Rightarrow> [''**Session**: [Open details]('' @ url @ '')''])
       @ [[], use_buttons])"

definition approval_post_payload :: "settings \<Rightarrow> task \<Rightarrow> approval \<Rightarrow> (string \<times> pydict) result" where
  "approval_post_payload cfg t a =
     result_bind (requested_payload a) (\<lambda>requested.
     result_bind (approval_action_context cfg a ''approve'' True) (\<lambda>approve.
     result_bind (approval_action_context cfg a ''reject'' True) (\<lambda>reject.
       Inr (join newline (approval_lines cfg t a requested),
            [(''attachments'', PList [PDict
                [(''text'', PStr ''Approve or reject this tool execution.''),
                 (''actions'', PList [approval_button cfg ''approve'' ''Approve'' ''success'' approve,
                                      approval_button cfg ''reject'' ''Reject'' ''danger'' reject])]])]))))"

definition approval_resolution_post_payload ::
    "settings \<Rightarrow> task \<Rightarrow> approval \<Rightarrow> bool \<Rightarrow> string \<Rightarrow> (string \<times> pydict) result" where
  "approval_resolution_post_payload cfg t a approved approved_by =
     result_bind (approval_post_payload cfg t a) (\<lambda>(text, _).
       (let status_label = (if approved then ''approved'' else ''rejected'');
            status_icon = (if approved then '':white_check_mark:'' else '':x:'');
            status_message = status_icon @ '' Approval **'' @ status_label @ ''** by @'' @ approved_by @ ''.'';
            text1 = replace_first '':warning: **Approval Required**''
                      (status_icon @ '' **Approval '' @ title status_label @ ''**'') text;
            text2 = replace_first use_buttons ''This approval request has been resolved.'' text1
        in Inr (text2, [(''attachments'', PList [PDict [(''text'', PStr status_message)]])])))"

definition slack_button :: "string \<Rightarrow> string \<Rightarrow> pydict \<Rightarrow> pyval" where
  "slack_button label style context =
     PDict [(''type'', PStr ''button''),
       (''text'', PDict [(''type'', PStr ''plain_text''), (''text'', PStr label)]), (''style'', PStr style),
       (''action_id'', PStr ''sage_run_approval''), (''value'', PStr (json_dumps (PDict context)))]"

definition slack_approval_post_payload :: "settings \<Rightarrow> task \<Rightarrow> approval \<Rightarrow> (string \<times> pyval list) result" where
  "slack_approval_post_payload cfg t a =
     result_bind (approval_post_payload cfg t a) (\<lambda>(text, _).
     result_bind (approval_action_context cfg a ''approve'' False) (\<lambda>approve.
     result_bind (approval_action_context cfg a ''reject'' False) (\<lambda>reject.
       Inr (text,
         [PDict [(''type'', PStr ''section''),
                 (''text'', PDict [(''type'', PStr ''mrkdwn''), (''text'', PStr text)])],
          PDict [(''type'', PStr ''actions''),
                 (''elements'', PList [slack_button ''Approve'' ''primary'' approve,
                                       slack_button ''Reject'' ''danger'' reject])]]))))"

section \<open>Recording a decision\<close>

definition put_if_given :: "string \<Rightarrow> string option \<Rightarrow> pydict \<Rightarrow> pydict" where
  "put_if_given k v d = (case v of None \<Rightarrow> d | Some s \<Rightarrow> if s = [] then d else dict_set k (PStr s) d)"

definition decision_payload ::
    "approval \<Rightarrow> bool \<Rightarrow> string option \<Rightarrow> string option \<Rightarrow> string option \<Rightarrow> string option \<Rightarrow> string \<Rightarrow> pydict" where
  "decision_payload a approved reason approved_by approved_by_user_id approval_reply source =
     put_if_given ''approval_reply'' approval_reply
       (put_if_given ''approved_by_user_id'' approved_by_user_id
         (put_if_given ''approved_by'' approved_by
           (put_if_given ''reason'' reason
             [(''tool_name'', PStr (ap_tool_name a)), (''approved'', PBool approved), (''source'', PStr source)])))"

definition record_approval_result ::
    "datetime \<Rightarrow> datetime \<Rightarrow> task \<Rightarrow> approval \<Rightarrow> bool \<Rightarrow> string option \<Rightarrow> string option \<Rightarrow> string option
     \<Rightarrow> string option \<Rightarrow> string \<Rightarrow> db \<Rightarrow> (approval \<times> db) result" where
  "record_approval_result now tx_now t a approved reason approved_by approved_by_user_id approval_reply source d =
     (let payload = decision_payload a approved reason approved_by approved_by_user_id approval_reply source;
          d1 = add_session_event (Some (t_id t)) ''approval_result'' now payload d;
          (resolved, d2) = apply_approval_event tx_now (Some t) (Some (t_id t)) ''approval_result'' now (Some payload) d1;
          d3 = (if t_status t = Waiting_approval
                then add_session_event (Some (t_id t)) ''approval_wait_resolved'' now
                       [(''tool_name'', PStr (ap_tool_name a)), (''approved'', PBool approved), (''source'', PStr source)] d2
                else d2)
      in case resolved of None \<Rightarrow> Inl Assertion_error | Some r \<Rightarrow> Inr (r, d3))"

section \<open>Delivery of the prompt\<close>

text \<open>
  The delivery record is put into the dict the loaded approval already holds, and that same dict is
  assigned back.  Whether the ORM writes such a column is a fact about SQLAlchemy, not about this
  code: \<open>tracked\<close> says it does.  (For a plain \<open>JSONB\<close> column its documentation says that in-place
  changes are not detected, \<open>tracked = False\<close>.)  An empty metadata dict is replaced by a new one,
  which is always written.
\<close>

definition store_delivery :: "bool \<Rightarrow> datetime \<Rightarrow> pydict \<Rightarrow> approval \<Rightarrow> db \<Rightarrow> approval \<times> db" where
  "store_delivery tracked now delivery a d =
     (let metadata = dict_set ''gateway_delivery'' (PDict delivery) (ap_metadata a)
      in (a\<lparr>ap_metadata := metadata, ap_updated_at := now\<rparr>,
          update_approval (ap_id a)
            (\<lambda>r. (if tracked \<or> ap_metadata a = [] then r\<lparr>ap_metadata := metadata\<rparr> else r)\<lparr>ap_updated_at := now\<rparr>) d))"

definition given :: "string option \<Rightarrow> bool" where
  "given s = (case s of None \<Rightarrow> False | Some x \<Rightarrow> x \<noteq> [])"

definition or_empty :: "string option \<Rightarrow> string" where
  "or_empty s = (case s of None \<Rightarrow> [] | Some x \<Rightarrow> x)"

definition gateway_delivery :: "approval \<Rightarrow> pyval" where
  "gateway_delivery a = py_or (dict_get (ap_metadata a) ''gateway_delivery'') (PDict [])"

text \<open>The post itself, with the provider the settings name; \<open>Inr (Inl e)\<close> is a caught post failure.\<close>

definition post_prompt ::
    "settings \<Rightarrow> transport \<Rightarrow> task \<Rightarrow> approval \<Rightarrow> string \<Rightarrow> string \<Rightarrow> string \<Rightarrow> (string + pydict) result" where
  "post_prompt cfg tr t a channel_id team_id team_name =
     (let mb = s_message_bus cfg in
      if mb_provider mb = ''slack'' then
        result_bind (slack_approval_post_payload cfg t a) (\<lambda>(text, blocks).
          Inr (tr_slack tr \<lparr>sp_api_url = mb_api_url mb, sp_bot_token = mb_bot_token mb,
                 sp_channel_id = (if channel_id \<noteq> [] then channel_id else or_empty (t_message_channel t)),
                 sp_text = text, sp_thread_id = or_empty (t_message_thread t), sp_blocks = Some blocks\<rparr>))
      else
        result_bind (approval_post_payload cfg t a) (\<lambda>(text, props).
          Inr (tr_mattermost tr \<lparr>mp_api_url = mb_api_url mb, mp_bot_token = mb_bot_token mb, mp_text = text,
                 mp_channel_id = channel_id, mp_channel_name = or_empty (t_message_channel t),
                 mp_team_id = team_id, mp_team_name = team_name, mp_root_id = or_empty (t_message_thread t),
                 mp_props = Some props\<rparr>)))"

definition delivery_record :: "datetime \<Rightarrow> task \<Rightarrow> string \<Rightarrow> string + pydict \<Rightarrow> pydict" where
  "delivery_record now t channel_id outcome =
     (case outcome of
        Inl e \<Rightarrow> [(''delivery_failed_at'', PStr (isoformat now)), (''error'', PStr e)]
      | Inr post \<Rightarrow>
          [(''post_id'', PStr (str_or_empty (py_or (dict_get post ''id'') (dict_get post ''ts'')))),
           (''root_id'', PStr (str_or_empty (py_or (dict_get post ''root_id'') (opt_str (t_message_thread t))))),
           (''channel_id'', PStr (str_or_empty (py_or (py_or (dict_get post ''channel_id'') (PStr channel_id))
               (opt_str (t_message_channel t))))),
           (''posted_at'', PStr (isoformat now))])"

definition ensure_approval_prompt_posted ::
    "settings \<Rightarrow> transport \<Rightarrow> bool \<Rightarrow> datetime \<Rightarrow> task option \<Rightarrow> approval option \<Rightarrow> db
     \<Rightarrow> (approval option \<times> db) result" where
  "ensure_approval_prompt_posted cfg tr tracked now task approval d =
     (case (task, approval) of
        (Some t, Some a) \<Rightarrow>
          (if ap_status a \<noteq> ''pending'' then Inr (Some a, d)
           else result_bind (as_dict (gateway_delivery a)) (\<lambda>delivery.
             if truthy (dict_get delivery ''post_id'') then Inr (Some a, d)
             else if \<not> (given (t_message_channel t) \<or> given (t_message_thread t)
                         \<or> truthy (dict_get (t_metadata t) ''channel_id''))
             then (let (a', d') = store_delivery tracked now
                          [(''delivery_failed_at'', PStr (isoformat now)),
                           (''error'', PStr ''Approval channel unavailable for this task'')] a d
                   in Inr (Some a', d'))
             else
               let channel_id = str_or_empty (dict_get (t_metadata t) ''channel_id'');
                   team_id = str_or_empty (dict_get (t_metadata t) ''team_id'');
                   team_name = py_str (py_or (py_or (dict_get (t_metadata t) ''team_domain'')
                                 (PStr (mb_team_name (s_message_bus cfg)))) (PStr []))
               in result_bind (post_prompt cfg tr t a channel_id team_id team_name) (\<lambda>outcome.
                    let (a', d') = store_delivery tracked now (delivery_record now t channel_id outcome) a d
                    in Inr (Some a', d'))))
      | _ \<Rightarrow> Inr (approval, d))"

definition get_runtime_approval :: "db \<Rightarrow> uuid \<Rightarrow> string \<Rightarrow> string \<Rightarrow> approval option result" where
  "get_runtime_approval d i tool_name request_id = find_approval_by_request d i tool_name request_id"

section \<open>Lemmas\<close>

lemma put_if_given_other [simp]: "k' \<noteq> k \<Longrightarrow> dict_get (put_if_given k v d) k' = dict_get d k'"
  by (simp add: put_if_given_def split: option.split)

lemma decision_payload_keys [simp]:
  "dict_get (decision_payload a b r by u y s) ''tool_name'' = PStr (ap_tool_name a)"
  "dict_get (decision_payload a b r by u y s) ''approved'' = PBool b"
  "dict_get (decision_payload a b r by u y s) ''source'' = PStr s"
  by (simp_all add: decision_payload_def)

lemma decision_status [simp]:
  "approval_status_from_result (decision_payload a b r by u y s) = (if b then ''approved'' else ''rejected'')"
  by (simp add: approval_status_from_result_def)

lemma store_delivery_frame [simp]:
  "tasks (snd (store_delivery tracked now x a d)) = tasks d"
  "session_events (snd (store_delivery tracked now x a d)) = session_events d"
  "task_events (snd (store_delivery tracked now x a d)) = task_events d"
  "ap_status (fst (store_delivery tracked now x a d)) = ap_status a"
  by (simp_all add: store_delivery_def Let_def)

lemma ensure_cases:
  assumes "ensure_approval_prompt_posted cfg tr tracked now task approval d = Inr (a', d')"
  shows "(a' = approval \<and> d' = d) \<or>
    (\<exists>b x. approval = Some b \<and> ap_status b = ''pending'' \<and> a' = Some (fst (store_delivery tracked now x b d))
       \<and> d' = snd (store_delivery tracked now x b d))"
proof (cases task)
  case None
  with assms show ?thesis by (simp add: ensure_approval_prompt_posted_def)
next
  case t: (Some t)
  show ?thesis
  proof (cases approval)
    case None
    with assms t show ?thesis by (simp add: ensure_approval_prompt_posted_def)
  next
    case (Some b)
    with assms t show ?thesis
      by (auto simp: ensure_approval_prompt_posted_def Let_def result_bind_Inr_iff case_prod_beta split: if_splits)
  qed
qed

lemma ensure_frame:
  assumes "ensure_approval_prompt_posted cfg tr tracked now t a d = Inr (a', d')"
  shows "tasks d' = tasks d" "session_events d' = session_events d" "task_events d' = task_events d"
    "map_option ap_status a' = map_option ap_status a"
  using ensure_cases [OF assms] by auto

section \<open>Properties\<close>

lemma approval_events_ok:
  "approvals_ok d \<Longrightarrow>
   approvals_ok (foldl (\<lambda>x (task, i, e, ts, data). snd (apply_approval_event tx_now task i e ts data x)) d events)"
proof (induction events arbitrary: d)
  case (Cons ev events)
  obtain task i e ts data where "ev = (task, i, e, ts, data)" by (cases ev)
  with Cons show ?case by (simp add: apply_approval_event_ok)
qed simp

text \<open>
  C7. A task has at most one open approval per tool.  Whatever sequence of approval events the
  gateway applies, to whatever tasks and with whatever payloads, the approvals of the result never
  hold two pending rows for the same task and tool.
\<close>

theorem one_open_approval_per_tool:
  assumes "approvals_ok d"
    and "d' = foldl (\<lambda>x (task, i, e, ts, data). snd (apply_approval_event tx_now task i e ts data x)) d events"
    and "a \<in> set (approvals d')" "b \<in> set (approvals d')"
    and "ap_status a = ''pending''" "ap_status b = ''pending''"
    and "ap_task_id a = ap_task_id b" "ap_tool_name a = ap_tool_name b"
  shows "a = b"
proof -
  have "approvals_ok d'"
    unfolding assms(2) using assms(1) by (rule approval_events_ok)
  then have "find_open_approval d' (ap_task_id a) (ap_tool_name a) = Some a"
    "find_open_approval d' (ap_task_id b) (ap_tool_name b) = Some b"
    using assms(3-6) by (simp_all only: find_open_unique)
  then show ?thesis
    unfolding assms(7,8) by (simp only: option.inject)
qed

definition demo_request :: pydict where
  "demo_request = [(''tool_name'', PStr ''bash'')]"

lemma demo_strip: "strip ''bash'' = ''bash''"
  by (simp add: strip_def lstrip_def rstrip_def is_space_def)

lemma demo_request_rows:
  "approvals (snd (apply_approval_event 5 None (Some 3) ''approval_requested'' 5 (Some demo_request) empty_db))
   = [new_approval 5 0 3 None ''operator_approval'' ''bash'' ''pending'' [(''approval_requested'', PDict demo_request)] 5]"
  by (simp add: apply_approval_event_def demo_request_def demo_strip open_or_add_def find_open_approval_def
      select_where_def order_rows_def empty_db_def add_approval_def insert_row_def new_approval_def Let_def)

theorem one_open_approval_per_tool_witness:
  "hd (approvals (snd (apply_approval_event 5 None (Some 3) ''approval_requested'' 5 (Some demo_request) empty_db)))
   = new_approval 5 0 3 None ''operator_approval'' ''bash'' ''pending'' [(''approval_requested'', PDict demo_request)] 5"
proof -
  let ?d = "snd (apply_approval_event 5 None (Some 3) ''approval_requested'' 5 (Some demo_request) empty_db)"
  let ?b = "new_approval 5 0 3 None ''operator_approval'' ''bash'' ''pending'' [(''approval_requested'', PDict demo_request)] 5"
  have rows: "approvals ?d = [?b]"
    by (rule demo_request_rows)
  have run: "?d = foldl (\<lambda>x (task, i, e, ts, data). snd (apply_approval_event 5 task i e ts data x)) empty_db
      [(None, Some 3, ''approval_requested'', 5, Some demo_request)]"
    by (simp only: foldl_Cons foldl_Nil prod.case)
  have mem: "hd (approvals ?d) \<in> set (approvals ?d)" "?b \<in> set (approvals ?d)"
    by (simp_all only: rows list.sel list.set_intros)
  have "ap_status (hd (approvals ?d)) = ''pending''" "ap_task_id (hd (approvals ?d)) = ap_task_id ?b"
    "ap_tool_name (hd (approvals ?d)) = ap_tool_name ?b"
    by (simp_all add: rows)
  with one_open_approval_per_tool [OF approvals_ok_empty run mem] show ?thesis by simp
qed

text \<open>The row a decision leaves.\<close>

definition decided :: "datetime \<Rightarrow> bool \<Rightarrow> pydict \<Rightarrow> approval \<Rightarrow> approval" where
  "decided now approved payload a =
     a\<lparr>ap_status := (if approved then ''approved'' else ''rejected''),
       ap_reason := none_if_empty (str_or_empty (dict_get payload ''reason'')),
       ap_metadata := merge_metadata (ap_metadata a) [(''approval_result'', PDict payload)],
       ap_resolved_at := Some now, ap_updated_at := now\<rparr>"

lemma decided_simps [simp]:
  "ap_id (decided now b p a) = ap_id a" "ap_resolved_at (decided now b p a) = Some now"
  "ap_status (decided now b p a) = (if b then ''approved'' else ''rejected'')"
  by (simp_all add: decided_def)

lemma record_approval_effect:
  assumes "approvals_ok d" and "a \<in> set (approvals d)" and "ap_status a = ''pending''"
    and "t_id t = ap_task_id a"
  obtains res d' where "record_approval_result now tx_now t a approved r by_name u y s d = Inr (res, d')"
    and "res = decided now approved (decision_payload a approved r by_name u y s) a"
    and "approvals d' = update_where (\<lambda>x. ap_id x = ap_id a) (\<lambda>_. res) (approvals d)"
    and "tasks d' = tasks d"
    and "map se_event_type (session_events d') = map se_event_type (session_events d)
        @ ''approval_result'' # (if t_status t = Waiting_approval then [''approval_wait_resolved''] else [])"
proof -
  have tool: "strip (ap_tool_name a) = ap_tool_name a" "ap_tool_name a \<noteq> []"
    using assms(1,2) by (auto simp: approvals_ok_def)
  let ?p = "decision_payload a approved r by_name u y s"
  let ?d1 = "add_session_event (Some (t_id t)) ''approval_result'' now ?p d"
  let ?r = "decided now approved ?p a"
  have opn: "find_open_approval ?d1 (ap_task_id a) (ap_tool_name a) = Some a"
    using find_open_unique [OF assms(1-3)] by (simp add: find_open_approval_def)
  have applied: "apply_approval_event tx_now (Some t) (Some (t_id t)) ''approval_result'' now (Some ?p) ?d1
      = (Some ?r, update_approval (ap_id a) (\<lambda>_. ?r) ?d1)"
    using opn tool by (simp add: apply_approval_event_def Let_def open_or_add_def assms(4) decided_def)
  show thesis
    by (rule that [of ?r "if t_status t = Waiting_approval
      then add_session_event (Some (t_id t)) ''approval_wait_resolved'' now
             [(''tool_name'', PStr (ap_tool_name a)), (''approved'', PBool approved), (''source'', PStr s)]
             (update_approval (ap_id a) (\<lambda>_. ?r) ?d1)
      else update_approval (ap_id a) (\<lambda>_. ?r) ?d1"])
      (simp add: record_approval_result_def Let_def applied,
        simp_all add: add_session_event_def update_approval_def insert_row_def)
qed

text \<open>
  C12. Recording a decision on an open approval always succeeds and resolves exactly the approval it
  was made for: that row gets the status of the decision and the time, every other approval row and
  every task row stays as it was, and one \<open>approval_result\<close> event (with an
  \<open>approval_wait_resolved\<close> one when the task waits) is stored.
\<close>

theorem record_approval_result_exact:
  assumes "approvals_ok d" and "a \<in> set (approvals d)" and "ap_status a = ''pending''"
    and "t_id t = ap_task_id a"
  shows "\<exists>res d'. record_approval_result now tx_now t a approved r by_name u y s d = Inr (res, d')
    \<and> ap_id res = ap_id a \<and> ap_status res = (if approved then ''approved'' else ''rejected'')
    \<and> ap_resolved_at res = Some now
    \<and> approvals d' = update_where (\<lambda>x. ap_id x = ap_id a) (\<lambda>_. res) (approvals d)
    \<and> tasks d' = tasks d
    \<and> map se_event_type (session_events d') = map se_event_type (session_events d)
        @ ''approval_result'' # (if t_status t = Waiting_approval then [''approval_wait_resolved''] else [])"
  by (rule record_approval_effect [OF assms, of now tx_now approved r by_name u y s])
    (intro exI conjI, assumption, simp_all)

definition demo_approval :: approval where
  "demo_approval = new_approval 1 0 0 None ''operator_approval'' ''bash'' ''pending'' [] 1"

definition demo_wait_db :: db where
  "demo_wait_db = empty_db\<lparr>approvals := [demo_approval], next_uuid := 1\<rparr>"

definition demo_wait_task :: task where
  "demo_wait_task = new_task 0 ''w'' ''p'' 1"

lemma demo_wait_ok: "approvals_ok demo_wait_db"
  by (simp add: approvals_ok_def demo_wait_db_def demo_approval_def demo_strip)

lemma demo_approval_in: "demo_approval \<in> set (approvals demo_wait_db)"
  by (simp add: demo_wait_db_def)

theorem record_approval_result_exact_witness:
  "\<exists>res d'. record_approval_result 9 9 demo_wait_task demo_approval True None None None None ''ui'' demo_wait_db = Inr (res, d')
     \<and> approvals d' = [res] \<and> ap_status res = ''approved''"
proof -
  have "ap_status demo_approval = ''pending''" "t_id demo_wait_task = ap_task_id demo_approval"
    by (simp_all add: demo_approval_def demo_wait_task_def new_task_def)
  from record_approval_result_exact [OF demo_wait_ok demo_approval_in this, of 9 9 True None None None None "''ui''"]
  show ?thesis by (auto simp: demo_wait_db_def)
qed

lemma ensure_again:
  assumes "gateway_delivery a = PDict delivery" and "truthy (dict_get delivery ''post_id'')"
  shows "ensure_approval_prompt_posted cfg tr tracked now task (Some a) d = Inr (Some a, d)"
  using assms by (cases task) (simp_all add: ensure_approval_prompt_posted_def)

lemma stored_row_delivery:
  assumes "r \<in> set (approvals (snd (store_delivery True now x a d)))" and "ap_id r = ap_id a"
  shows "gateway_delivery r = gateway_delivery (fst (store_delivery True now x a d))"
  using assms by (auto simp: store_delivery_def Let_def update_approval_def update_where_def gateway_delivery_def
      split: if_splits)

text \<open>
  C22. Delivering the prompt is idempotent when the ORM writes the delivery record
  (\<open>tracked = True\<close>): once a post with an id was recorded, asking again for the approval row that is
  now in the database neither posts (the outcome is the same for every transport) nor writes.
\<close>

theorem prompt_posted_once:
  assumes "approvals_ok d" and "a \<in> set (approvals d)"
    and "ensure_approval_prompt_posted cfg tr True now (Some t) (Some a) d = Inr (Some a', d')"
    and "gateway_delivery a' = PDict delivery" and "truthy (dict_get delivery ''post_id'')"
    and "r \<in> set (approvals d')" and "ap_id r = ap_id a"
  shows "ensure_approval_prompt_posted cfg tr2 True now2 task2 (Some r) d' = Inr (Some r, d')"
proof -
  have "gateway_delivery r = gateway_delivery a'"
    using ensure_cases [OF assms(3)]
  proof (elim disjE exE conjE)
    assume "Some a' = Some a" "d' = d"
    then have "r = a"
      using assms(1,2,6,7) distinct_map_inj [of ap_id "approvals d" r a] by (simp add: approvals_ok_def)
    with \<open>Some a' = Some a\<close> show ?thesis by simp
  next
    fix b x
    assume "Some a = Some b" "Some a' = Some (fst (store_delivery True now x b d))"
      "d' = snd (store_delivery True now x b d)"
    with stored_row_delivery [of r now x b d] assms(6,7) show ?thesis by simp
  qed
  with assms(4,5) show ?thesis by (simp add: ensure_again)
qed

definition posting_task :: task where
  "posting_task = demo_wait_task\<lparr>t_message_channel := Some ''ops''\<rparr>"

definition asked_approval :: approval where
  "asked_approval = demo_approval\<lparr>ap_metadata := [(''approval_requested'', PDict demo_request)]\<rparr>"

definition asked_db :: db where
  "asked_db = demo_wait_db\<lparr>approvals := [asked_approval]\<rparr>"

lemma asked_ok: "approvals_ok asked_db" "asked_approval \<in> set (approvals asked_db)"
  by (simp_all add: approvals_ok_def asked_db_def demo_wait_db_def asked_approval_def demo_approval_def
      new_approval_def demo_strip)

definition m1_delivery :: pydict where
  "m1_delivery = [(''post_id'', PStr ''m1''), (''root_id'', PStr []), (''channel_id'', PStr ''ops''), (''posted_at'', PStr (isoformat 9))]"

lemma m1_record: "delivery_record 9 posting_task [] (Inr [(''id'', PStr ''m1'')]) = m1_delivery"
  by (simp add: delivery_record_def m1_delivery_def posting_task_def demo_wait_task_def new_task_def dict_get_def
      py_or_def str_or_empty_def py_str_def opt_val_def)

lemma asked_payload: "\<exists>msg props. approval_post_payload default_settings posting_task asked_approval = Inr (msg, props)"
  by (simp add: approval_post_payload_def approval_action_context_def requested_payload_def asked_approval_def Let_def)

lemma asked_post:
  "post_prompt default_settings demo_transport posting_task asked_approval c i n = Inr (Inr [(''id'', PStr ''m1'')])"
proof -
  obtain msg props where "approval_post_payload default_settings posting_task asked_approval = Inr (msg, props)"
    using asked_payload by blast
  then show ?thesis
    by (simp add: post_prompt_def demo_transport_def Let_def default_settings_def default_message_bus_def)
qed

lemma asked_run:
  "ensure_approval_prompt_posted default_settings demo_transport tracked 9 (Some posting_task) (Some asked_approval) asked_db
   = Inr (Some (fst (store_delivery tracked 9 m1_delivery asked_approval asked_db)),
          snd (store_delivery tracked 9 m1_delivery asked_approval asked_db))"
proof -
  have "ap_status asked_approval = ''pending''" "gateway_delivery asked_approval = PDict []"
    "given (t_message_channel posting_task)" "str_or_empty (dict_get (t_metadata posting_task) ''channel_id'') = []"
    by (simp_all add: asked_approval_def demo_approval_def new_approval_def gateway_delivery_def given_def
        posting_task_def demo_wait_task_def new_task_def py_or_def str_or_empty_def py_str_def)
  then show ?thesis
    by (simp add: ensure_approval_prompt_posted_def asked_post m1_record Let_def case_prod_beta)
qed

definition delivered_db :: db where
  "delivered_db = snd (store_delivery True 9 m1_delivery asked_approval asked_db)"

lemma delivered_row: "hd (approvals delivered_db) \<in> set (approvals delivered_db)"
  "ap_id (hd (approvals delivered_db)) = ap_id asked_approval"
  by (simp_all add: delivered_db_def store_delivery_def Let_def update_approval_def update_where_def asked_db_def)

theorem prompt_posted_once_witness:
  "ensure_approval_prompt_posted default_settings demo_transport True 10 None (Some (hd (approvals delivered_db))) delivered_db
   = Inr (Some (hd (approvals delivered_db)), delivered_db)"
proof -
  have g: "gateway_delivery (fst (store_delivery True 9 m1_delivery asked_approval asked_db)) = PDict m1_delivery"
    by (simp add: store_delivery_def Let_def gateway_delivery_def py_or_def m1_delivery_def)
  have t: "truthy (dict_get m1_delivery ''post_id'')"
    by (simp add: m1_delivery_def dict_get_def)
  show ?thesis
    using prompt_posted_once [OF asked_ok asked_run g t delivered_row(1) [unfolded delivered_db_def]
        delivered_row(2) [unfolded delivered_db_def]]
    by (simp only: delivered_db_def)
qed

text \<open>
  C32. When the ORM does not detect in-place changes (\<open>tracked = False\<close>), no delivery of a prompt
  ever reaches the database: the metadata column of every approval row is what it was, so a later
  request for the same approval posts the prompt again.
\<close>

theorem delivery_record_lost:
  assumes "ensure_approval_prompt_posted cfg tr False now (Some t) (Some a) d = Inr (a', d')"
    and "ap_metadata a \<noteq> []"
  shows "map ap_metadata (approvals d') = map ap_metadata (approvals d)"
proof -
  have "map ap_metadata (approvals (snd (store_delivery False now delivery a d))) = map ap_metadata (approvals d)" for delivery
    using assms(2) by (simp add: store_delivery_def Let_def update_approval_def update_where_def)
  with ensure_cases [OF assms(1)] show ?thesis by auto
qed

theorem delivery_record_lost_witness:
  "map ap_metadata (approvals (snd (store_delivery False 9 m1_delivery asked_approval asked_db)))
   = [[(''approval_requested'', PDict demo_request)]]"
proof -
  have "ap_metadata asked_approval \<noteq> []"
    by (simp add: asked_approval_def)
  from delivery_record_lost [OF asked_run this] show ?thesis
    by (simp add: asked_db_def asked_approval_def)
qed

end
