(* ===== verification/Message_Actions.thy ===== *)
theory Message_Actions
  imports Approval_Broker
begin

text \<open>
  \<open>gateway/message.py\<close>: interactive approval actions from the message provider.  The username
  lookup goes to the provider and is a parameter, \<open>Inl\<close> the text of a caught exception.
\<close>

section \<open>Operations\<close>

record interactive_action =
  ia_user_id :: string
  ia_post_id :: string
  ia_channel_id :: string
  ia_team_id :: string
  ia_context :: pydict

definition verify_interactive_action_token :: "settings \<Rightarrow> string \<Rightarrow> bool" where
  "verify_interactive_action_token cfg token =
     (let expected = mb_action_callback_secret (s_message_bus cfg)
      in if expected = [] then False else token = expected)"

definition interactive_error :: "string \<Rightarrow> pydict" where
  "interactive_error message = [(''error'', PDict [(''message'', PStr message)])]"

record approval_action_resolution =
  aa_approval :: approval
  aa_task :: task
  aa_approved :: "bool option"
  aa_status_message :: string

definition find_approval :: "db \<Rightarrow> uuid \<Rightarrow> approval option" where
  "find_approval d i = find_row (\<lambda>a. ap_id a = i) (approvals d)"

text \<open>\<open>require x e k\<close>: raise \<open>ValueError(e)\<close> when \<open>x\<close> is missing.\<close>

definition require :: "'a option \<Rightarrow> string \<Rightarrow> ('a \<Rightarrow> 'b result) \<Rightarrow> 'b result" where
  "require x e k = (case x of None \<Rightarrow> Inl (Value_error e) | Some a \<Rightarrow> k a)"

definition reject_if :: "bool \<Rightarrow> string \<Rightarrow> 'b result \<Rightarrow> 'b result" where
  "reject_if bad e k = (if bad then Inl (Value_error e) else k)"

text \<open>The guards: the approval and task an authentic, still matching action is about.\<close>

definition request_matches :: "pydict \<Rightarrow> approval \<Rightarrow> db \<Rightarrow> bool result" where
  "request_matches context a d =
     (let request_id = str_or_empty (dict_get context ''request_id'')
      in if request_id = [] then Inr True
         else result_map (\<lambda>m. case m of None \<Rightarrow> False | Some b \<Rightarrow> ap_id b = ap_id a)
                (get_runtime_approval d (ap_task_id a) (ap_tool_name a) request_id))"

definition checked_action ::
    "pydict \<Rightarrow> string \<Rightarrow> string \<Rightarrow> db \<Rightarrow> (string \<times> approval \<times> task) result" where
  "checked_action context post_id channel_id d =
     (let decision = lower (strip (str_or_empty (dict_get context ''decision''))) in
      reject_if (decision \<notin> {''approve'', ''reject''}) ''Unsupported approval action'' (
      require (parse_uuid (str_or_empty (dict_get context ''approval_id''))) ''Invalid approval identifier'' (\<lambda>approval_id.
      require (find_approval d approval_id) ''Approval not found'' (\<lambda>a.
      require (find_task d (ap_task_id a)) ''Associated task not found'' (\<lambda>t.
      result_bind (request_matches context a d) (\<lambda>ok.
      reject_if (\<not> ok) ''Approval action no longer matches an open request'' (
      result_bind (as_dict (if ap_metadata a = [] then PDict []
          else dict_get_default (ap_metadata a) ''gateway_delivery'' (PDict []))) (\<lambda>delivery.
      (let expected_post_id = str_or_empty (dict_get delivery ''post_id'');
           expected_channel_id = str_or_empty (dict_get delivery ''channel_id'')
       in reject_if (expected_post_id \<noteq> [] \<and> post_id \<noteq> [] \<and> expected_post_id \<noteq> post_id)
            ''Approval action does not match the approval prompt'' (
          reject_if (expected_channel_id \<noteq> [] \<and> channel_id \<noteq> [] \<and> expected_channel_id \<noteq> channel_id)
            ''Approval action does not match the approval channel'' (
          Inr (decision, a, t))))))))))))"

definition first_given :: "string \<Rightarrow> string \<Rightarrow> string \<Rightarrow> string" where
  "first_given a b c = (if a \<noteq> [] then a else if b \<noteq> [] then b else c)"

definition resolve_approval_action ::
    "datetime \<Rightarrow> datetime \<Rightarrow> pydict \<Rightarrow> string \<Rightarrow> string \<Rightarrow> string \<Rightarrow> string \<Rightarrow> string \<Rightarrow> db
     \<Rightarrow> (approval_action_resolution \<times> db) result" where
  "resolve_approval_action now tx_now context user_id username post_id channel_id source d =
     result_bind (checked_action context post_id channel_id d) (\<lambda>(decision, a, t).
       if ap_status a \<noteq> ''pending''
       then Inr (\<lparr>aa_approval = a, aa_task = t, aa_approved = None,
              aa_status_message = '':lock: Approval already resolved as **'' @ ap_status a @ ''**.''\<rparr>, d)
       else
         let approved = (decision = ''approve'');
             approved_by = first_given (strip username) user_id ''operator'';
             d1 = add_session_event (Some (t_id t)) ''approval_action'' tx_now
                    [(''approval_id'', PStr (uuid_str (ap_id a))), (''tool_name'', PStr (ap_tool_name a)),
                     (''decision'', PStr decision), (''user_id'', PStr user_id), (''username'', PStr approved_by),
                     (''post_id'', PStr post_id), (''channel_id'', PStr channel_id)] d
         in result_bind (record_approval_result now tx_now t a approved
                (if approved then None else Some (''Approval rejected in message provider by '' @ approved_by))
                (Some approved_by) (none_if_empty user_id) (Some decision) source d1) (\<lambda>(resolved, d2).
              let status_label = (if approved then ''approved'' else ''rejected'')
              in Inr (\<lparr>aa_approval = (case find_approval d2 (ap_id a) of None \<Rightarrow> a | Some b \<Rightarrow> b), aa_task = t,
                     aa_approved = Some approved,
                     aa_status_message = '':white_check_mark: Approval **'' @ status_label @ ''** for ''
                       @ quoted (ap_tool_name a) @ '' by @'' @ approved_by @ ''.''\<rparr>, d2)))"

definition resolve_mattermost_username :: "(string \<Rightarrow> string + string) \<Rightarrow> string \<Rightarrow> string" where
  "resolve_mattermost_username get_user_username user_id =
     (if user_id = [] then []
      else case get_user_username user_id of Inl _ \<Rightarrow> [] | Inr name \<Rightarrow> name)"

definition action_response :: "string \<Rightarrow> pydict \<Rightarrow> string \<Rightarrow> pydict" where
  "action_response message props ephemeral_text =
     [(''update'', PDict [(''message'', PStr message), (''props'', PDict props)]),
      (''ephemeral_text'', PStr ephemeral_text), (''skip_slack_parsing'', PBool True)]"

definition message_approval_action ::
    "settings \<Rightarrow> (string \<Rightarrow> string + string) \<Rightarrow> datetime \<Rightarrow> datetime \<Rightarrow> interactive_action \<Rightarrow> db
     \<Rightarrow> pydict result \<times> db" where
  "message_approval_action cfg get_user_username now tx_now payload d =
     (let context = ia_context payload in
      if \<not> verify_interactive_action_token cfg (str_or_empty (dict_get context ''token''))
      then (Inr (interactive_error ''Invalid approval action token''), d)
      else
        let username = resolve_mattermost_username get_user_username (ia_user_id payload)
        in case resolve_approval_action now tx_now context (ia_user_id payload) username
                  (ia_post_id payload) (ia_channel_id payload) ''mattermost_interactive'' d of
             Inl (Value_error e) \<Rightarrow> (Inr (interactive_error e), d)
           | Inl e \<Rightarrow> (Inl e, d)
           | Inr (resolution, d') \<Rightarrow>
               (case aa_approved resolution of
                  None \<Rightarrow>
                    (Inr (action_response (aa_status_message resolution) []
                            (''This approval is already '' @ ap_status (aa_approval resolution) @ ''.'')), d')
                | Some approved \<Rightarrow>
                    (result_map (\<lambda>(message, props). action_response message props
                         (''You '' @ (if approved then ''approved'' else ''rejected'') @ '' this approval request.''))
                       (approval_resolution_post_payload cfg (aa_task resolution) (aa_approval resolution) approved
                         (first_given username (ia_user_id payload) ''operator'')), d')))"

section \<open>Lemmas\<close>

lemma require_Inr_iff: "require x e k = Inr y \<longleftrightarrow> (\<exists>a. x = Some a \<and> k a = Inr y)"
  by (simp add: require_def split: option.split)

lemma reject_if_Inr_iff: "reject_if b e k = Inr y \<longleftrightarrow> \<not> b \<and> k = Inr y"
  by (simp add: reject_if_def)

lemmas guard_simps = require_Inr_iff reject_if_Inr_iff result_bind_Inr_iff

lemma checked_action_Inr:
  assumes "checked_action context post_id channel_id d = Inr (decision, a, t)"
  shows "a \<in> set (approvals d)" "t \<in> set (tasks d)" "t_id t = ap_task_id a"
    "decision = ''approve'' \<or> decision = ''reject''"
    "parse_uuid (str_or_empty (dict_get context ''approval_id'')) = Some (ap_id a)"
proof -
  from assms obtain i where i: "parse_uuid (str_or_empty (dict_get context ''approval_id'')) = Some i"
    and a: "find_approval d i = Some a" and t: "find_task d (ap_task_id a) = Some t"
    and dec: "decision = ''approve'' \<or> decision = ''reject''"
    unfolding checked_action_def Let_def guard_simps by auto
  show "a \<in> set (approvals d)" "parse_uuid (str_or_empty (dict_get context ''approval_id'')) = Some (ap_id a)"
    using find_row_Some [OF a [unfolded find_approval_def]] i by auto
  show "t \<in> set (tasks d)" "t_id t = ap_task_id a"
    using find_task_Some [OF t] by auto
  show "decision = ''approve'' \<or> decision = ''reject''" by (rule dec)
qed

text \<open>A successful action found the approval resolved, or records one decision on an open approval.\<close>

definition records_decision :: "datetime \<Rightarrow> datetime \<Rightarrow> approval \<Rightarrow> task \<Rightarrow> db \<Rightarrow> db \<Rightarrow> bool" where
  "records_decision now tx_now a t d d' \<longleftrightarrow>
     a \<in> set (approvals d) \<and> t \<in> set (tasks d) \<and> t_id t = ap_task_id a \<and> ap_status a = ''pending''
     \<and> (\<exists>approved reason by_name u y source data r.
          record_approval_result now tx_now t a approved reason by_name u y source
            (add_session_event (Some (t_id t)) ''approval_action'' tx_now data d) = Inr (r, d'))"

lemma resolve_cases:
  assumes "resolve_approval_action now tx_now context user_id username post_id channel_id source d = Inr (res, d')"
  shows "d' = d \<or> (\<exists>a t. records_decision now tx_now a t d d')"
proof -
  from assms obtain decision a t where c: "checked_action context post_id channel_id d = Inr (decision, a, t)"
    by (auto simp: resolve_approval_action_def result_bind_Inr_iff)
  note m = checked_action_Inr(1-3) [OF c]
  show ?thesis
  proof (cases "ap_status a = ''pending''")
    case True
    then have "\<exists>approved reason by_name u y source data r.
          record_approval_result now tx_now t a approved reason by_name u y source
            (add_session_event (Some (t_id t)) ''approval_action'' tx_now data d) = Inr (r, d')"
      using assms unfolding resolve_approval_action_def c result_bind.simps prod.case Let_def result_bind_Inr_iff
      by (simp only: if_False not_True_eq_False True simp_thms result_bind_Inr_iff split_paired_Ex prod.case sum.inject prod.inject) blast
    with True m show ?thesis by (auto simp: records_decision_def)
  next
    case False
    then show ?thesis
      using assms by (simp add: resolve_approval_action_def c)
  qed
qed

lemma records_decision_effect:
  assumes ok: "approvals_ok d" and "records_decision now tx_now a t d d'"
  obtains r where "approvals d' = update_where (\<lambda>x. ap_id x = ap_id a) (\<lambda>_. r) (approvals d)"
    and "tasks d' = tasks d" and "ap_id r = ap_id a" and "ap_status r \<noteq> ''pending''"
proof -
  from assms(2) obtain approved reason by_name u y source data r where
    rec: "record_approval_result now tx_now t a approved reason by_name u y source
            (add_session_event (Some (t_id t)) ''approval_action'' tx_now data d) = Inr (r, d')"
    and a: "a \<in> set (approvals d)" "ap_status a = ''pending''" "t_id t = ap_task_id a"
    by (auto simp: records_decision_def)
  have ok': "approvals_ok (add_session_event (Some (t_id t)) ''approval_action'' tx_now data d)"
    and a': "a \<in> set (approvals (add_session_event (Some (t_id t)) ''approval_action'' tx_now data d))"
    using ok a(1) by simp_all
  show thesis
    by (rule record_approval_effect [OF ok' a' a(2,3), of now tx_now approved reason by_name u y source])
      (rule that [of r], use rec in auto)
qed

lemma message_action_db:
  "snd (message_approval_action cfg g now tx_now payload d) = d
   \<or> (\<exists>res. resolve_approval_action now tx_now (ia_context payload) (ia_user_id payload)
        (resolve_mattermost_username g (ia_user_id payload)) (ia_post_id payload) (ia_channel_id payload)
        ''mattermost_interactive'' d = Inr (res, snd (message_approval_action cfg g now tx_now payload d)))"
  by (auto simp: message_approval_action_def Let_def split: sum.split py_error.split option.split)

section \<open>Properties\<close>

text \<open>
  Without the callback secret nothing happens: an action whose token differs from the configured
  secret, and every action while no secret is configured, is answered with an error and leaves the
  database unchanged.
\<close>

theorem unauthenticated_action_rejected:
  assumes "mb_action_callback_secret (s_message_bus cfg) = []
    \<or> str_or_empty (dict_get (ia_context payload) ''token'') \<noteq> mb_action_callback_secret (s_message_bus cfg)"
  shows "message_approval_action cfg g now tx_now payload d
       = (Inr (interactive_error ''Invalid approval action token''), d)"
  using assms by (auto simp: message_approval_action_def verify_interactive_action_token_def Let_def)

definition demo_action :: interactive_action where
  "demo_action = \<lparr>ia_user_id = [], ia_post_id = [], ia_channel_id = [], ia_team_id = [], ia_context = []\<rparr>"

theorem unauthenticated_action_rejected_witness:
  "message_approval_action default_settings (\<lambda>_. Inr []) 1 1 demo_action empty_db
   = (Inr (interactive_error ''Invalid approval action token''), empty_db)"
  by (rule unauthenticated_action_rejected)
    (simp add: default_settings_def default_message_bus_def)

text \<open>
  A decision is final.  No interactive action, whatever its context, changes an approval that is
  no longer pending, and it never changes a task row.
\<close>

theorem resolved_approval_is_final:
  assumes "approvals_ok d" and "a \<in> set (approvals d)" and "ap_status a \<noteq> ''pending''"
  shows "a \<in> set (approvals (snd (message_approval_action cfg g now tx_now payload d)))
    \<and> tasks (snd (message_approval_action cfg g now tx_now payload d)) = tasks d"
proof -
  let ?d' = "snd (message_approval_action cfg g now tx_now payload d)"
  consider "?d' = d" | res where "resolve_approval_action now tx_now (ia_context payload) (ia_user_id payload)
        (resolve_mattermost_username g (ia_user_id payload)) (ia_post_id payload) (ia_channel_id payload)
        ''mattermost_interactive'' d = Inr (res, ?d')"
    using message_action_db by blast
  then show ?thesis
  proof cases
    case 1
    with assms(2) show ?thesis by simp
  next
    case 2
    then consider "?d' = d" | b t where "records_decision now tx_now b t d ?d'"
      using resolve_cases by blast
    then show ?thesis
    proof cases
      case 1
      with assms(2) show ?thesis by simp
    next
      case 2
      then have b: "b \<in> set (approvals d)" "ap_status b = ''pending''"
        by (auto simp: records_decision_def)
      have "ap_id a \<noteq> ap_id b"
        using assms b distinct_map_inj [of ap_id "approvals d" a b] by (auto simp: approvals_ok_def)
      moreover obtain r where "approvals ?d' = update_where (\<lambda>x. ap_id x = ap_id b) (\<lambda>_. r) (approvals d)" "tasks ?d' = tasks d"
        using records_decision_effect [OF assms(1) 2] by blast
      ultimately show ?thesis
        using assms(2) by (auto simp: update_where_def image_iff)
    qed
  qed
qed

definition decided_db :: db where
  "decided_db = empty_db\<lparr>approvals := [demo_approval\<lparr>ap_status := ''approved''\<rparr>], next_uuid := 1\<rparr>"

lemma decided_ok: "approvals_ok decided_db"
  by (simp add: approvals_ok_def decided_db_def demo_approval_def demo_strip)

theorem resolved_approval_is_final_witness:
  "demo_approval\<lparr>ap_status := ''approved''\<rparr> \<in> set (approvals (snd (message_approval_action default_settings (\<lambda>_. Inr []) 1 1 demo_action decided_db)))"
  by (rule resolved_approval_is_final [OF decided_ok, THEN conjunct1]) (simp_all add: decided_db_def)





end
