(* ===== verification/Event_Collector.thy ===== *)
theory Event_Collector
  imports Approval_Broker Wait_Clock
begin

text \<open>
  \<open>gateway/event_collector.py\<close>: events from the runtime, the token totals read out of them, and the
  status and wait-clock updates \<open>receive_event\<close> makes.  The two parsers \<open>json.loads\<close> and
  \<open>ast.literal_eval\<close> are parameters, \<open>None\<close> when the parser raises.
\<close>

section \<open>Token totals\<close>

text \<open>\<open>total_tokens['"]?\s*[:=]\s*(\d+)\<close>, searched from the left.\<close>

definition skip_spaces :: "string \<Rightarrow> string" where
  "skip_spaces s = dropWhile is_space s"

definition match_total :: "string \<Rightarrow> nat option" where
  "match_total s =
     (if \<not> starts_with ''total_tokens'' s then None
      else
        let r1 = drop (length ''total_tokens'') s;
            r2 = (case r1 of c # r \<Rightarrow> if c = CHR 0x27 \<or> c = CHR 0x22 then r else r1 | [] \<Rightarrow> r1)
        in case skip_spaces r2 of
             c # r3 \<Rightarrow>
               (if c = CHR '':'' \<or> c = CHR ''=''
                then (let ds = takeWhile is_digit (skip_spaces r3) in if ds = [] then None else parse_digits 0 ds)
                else None)
           | [] \<Rightarrow> None)"

fun search_total :: "string \<Rightarrow> nat option" where
  "search_total [] = None"
| "search_total (c # s) = (case match_total (c # s) of Some n \<Rightarrow> Some n | None \<Rightarrow> search_total s)"

type_synonym parser = "string \<Rightarrow> pyval option"

text \<open>
  The loop over the parsers, for a given recursive call: the first total found, \<open>None\<close> when no parser
  gives one.  Only the parse itself is guarded by \<open>try\<close>.
\<close>

fun try_parsers :: "(pyval \<Rightarrow> int option result) \<Rightarrow> parser list \<Rightarrow> string \<Rightarrow> int option result" where
  "try_parsers rec [] s = Inr None"
| "try_parsers rec (p # ps) s =
     (case p s of
        None \<Rightarrow> try_parsers rec ps s
      | Some v \<Rightarrow>
          result_bind (rec v) (\<lambda>total. case total of Some n \<Rightarrow> Inr (Some n) | None \<Rightarrow> try_parsers rec ps s))"

definition dict_total :: "pydict \<Rightarrow> int option result" where
  "dict_total usage =
     (let total_tokens = dict_get usage ''total_tokens'';
          input_tokens = dict_get usage ''input_tokens'';
          output_tokens = dict_get usage ''output_tokens''
      in if is_number total_tokens then result_map Some (py_int total_tokens)
         else if is_number input_tokens \<or> is_number output_tokens
         then result_bind (py_int (py_or input_tokens (PInt 0))) (\<lambda>i.
              result_bind (py_int (py_or output_tokens (PInt 0))) (\<lambda>j. Inr (Some (i + j))))
         else Inr None)"

text \<open>
  The recursion is on the value a parser returns, which the code does not bound; the fuel counts the
  nested string literals.
\<close>

fun coerce_total_tokens :: "nat \<Rightarrow> parser list \<Rightarrow> pyval \<Rightarrow> int option result" where
  "coerce_total_tokens fuel parsers (PDict usage) = dict_total usage"
| "coerce_total_tokens fuel parsers (PStr usage) =
     (let stripped = strip usage
      in if stripped = [] then Inr None
         else case fuel of
           0 \<Rightarrow> Inl (Runtime_error ''out of fuel'')
         | Suc n \<Rightarrow>
             result_bind (try_parsers (coerce_total_tokens n parsers) parsers stripped) (\<lambda>total.
               case total of Some t \<Rightarrow> Inr (Some t)
               | None \<Rightarrow> Inr (map_option int (search_total stripped))))"
| "coerce_total_tokens fuel parsers _ = Inr None"

text \<open>A string at nesting depth \<open>n\<close> has at most \<open>n\<close> characters, so this fuel is enough for shrinking parsers.\<close>

definition coerce :: "parser list \<Rightarrow> pyval \<Rightarrow> int option result" where
  "coerce parsers v = coerce_total_tokens (case v of PStr s \<Rightarrow> length s | _ \<Rightarrow> 0) parsers v"

text \<open>Testing membership in a set literal hashes the value: a list or dict raises \<open>TypeError\<close>.\<close>

definition in_string_set :: "pyval \<Rightarrow> string list \<Rightarrow> bool result" where
  "in_string_set v xs =
     (if is_list v \<or> is_dict v then Inl Type_error else Inr (\<exists>x \<in> set xs. v = PStr x))"

definition message_total :: "parser list \<Rightarrow> pyval \<Rightarrow> int option result" where
  "message_total parsers message =
     (case message of
        PDict m \<Rightarrow>
          (if dict_get m ''type'' = PStr ''result'' then coerce parsers (dict_get m ''usage'')
           else if dict_get m ''type'' \<noteq> PStr ''system'' then Inr None
           else result_bind (in_string_set (dict_get m ''subtype'') [''task_progress'', ''task_notification'']) (\<lambda>progress.
             if \<not> progress then Inr None
             else case dict_get m ''data'' of
                PDict payload \<Rightarrow>
                  result_bind (coerce parsers (dict_get payload ''workflow_usage'')) (\<lambda>total.
                    case total of Some n \<Rightarrow> Inr (Some n) | None \<Rightarrow> coerce parsers (dict_get payload ''usage''))
              | _ \<Rightarrow> Inr None))
      | _ \<Rightarrow> Inr None)"

fun latest_total :: "parser list \<Rightarrow> int option \<Rightarrow> pyval list \<Rightarrow> int option result" where
  "latest_total parsers latest [] = Inr latest"
| "latest_total parsers latest (m # ms) =
     result_bind (message_total parsers m) (\<lambda>total.
       latest_total parsers (case total of Some n \<Rightarrow> Some n | None \<Rightarrow> latest) ms)"

definition extract_incremental_tokens :: "parser list \<Rightarrow> pydict \<Rightarrow> int option result" where
  "extract_incremental_tokens parsers event_data =
     (case dict_get event_data ''messages'' of
        PList messages \<Rightarrow> latest_total parsers None messages
      | _ \<Rightarrow> Inr None)"

definition monotonic_token_total :: "int option \<Rightarrow> int \<Rightarrow> int" where
  "monotonic_token_total current observed = max (case current of None \<Rightarrow> 0 | Some n \<Rightarrow> n) observed"

definition can_deliver_approval_prompt :: "settings \<Rightarrow> task option \<Rightarrow> bool" where
  "can_deliver_approval_prompt cfg task =
     (case task of
        None \<Rightarrow> False
      | Some t \<Rightarrow>
          mb_api_url (s_message_bus cfg) \<noteq> [] \<and> mb_bot_token (s_message_bus cfg) \<noteq> []
          \<and> (given (t_message_channel t) \<or> given (t_message_thread t) \<or> truthy (dict_get (t_metadata t) ''channel_id'')))"

section \<open>Receiving an event\<close>

text \<open>\<open>ep_timestamp\<close> is what \<open>datetime.fromisoformat\<close> makes of the timestamp, \<open>None\<close> when it raises.\<close>

record event_payload =
  ep_task_id :: string
  ep_event_type :: string
  ep_timestamp :: "datetime option"
  ep_data :: pydict
  ep_wait_timeout_sec :: int

definition event_tokens :: "pydict \<Rightarrow> (int \<times> int) result" where
  "event_tokens data =
     result_bind (py_int (py_or (dict_get_default data ''input_tokens'' (PInt 0)) (PInt 0))) (\<lambda>i.
     result_bind (py_int (py_or (dict_get_default data ''output_tokens'' (PInt 0)) (PInt 0))) (\<lambda>j.
       Inr (i, j)))"

text \<open>The loaded task, where the code dereferences it: \<open>AttributeError\<close> on \<open>None\<close>.\<close>

definition deref :: "'a option \<Rightarrow> 'a result" where
  "deref x = (case x of None \<Rightarrow> Inl Attribute_error | Some a \<Rightarrow> Inr a)"

text \<open>
  The dictionary \<open>task_updates\<close> is the function it applies to the row.  Each of the next definitions
  is one \<open>task_updates.update(...)\<close>.
\<close>

definition start_wait ::
    "datetime \<Rightarrow> event_payload \<Rightarrow> task option \<Rightarrow> task_status \<Rightarrow> string \<Rightarrow> task \<Rightarrow> task" where
  "start_wait now ev task status reason r =
     (let wait_started = (case task of None \<Rightarrow> None | Some t \<Rightarrow> t_wait_started t);
          from_time = (case wait_started of None \<Rightarrow> now | Some w \<Rightarrow> w)
      in wait_started_updates task now
           (r\<lparr>t_status := status, t_wait_reason := Some reason,
              t_wait_deadline := Some (from_time + of_int (ep_wait_timeout_sec ev))\<rparr>))"

definition approval_updates ::
    "settings \<Rightarrow> transport \<Rightarrow> bool \<Rightarrow> datetime \<Rightarrow> event_payload \<Rightarrow> task option \<Rightarrow> approval option \<Rightarrow> db
     \<Rightarrow> ((task \<Rightarrow> task) \<times> db) result" where
  "approval_updates cfg tr tracked now ev task approval d =
     (if ep_event_type ev \<noteq> ''approval_requested'' then Inr (id, d)
      else
        result_bind (if can_deliver_approval_prompt cfg task
                     then ensure_approval_prompt_posted cfg tr tracked now task approval d
                     else Inr (approval, d)) (\<lambda>(approval', d').
          Inr (case approval' of
                 Some a \<Rightarrow> (if ap_status a = ''pending''
                            then start_wait now ev task Waiting_approval ''operator_approval'' else id)
               | None \<Rightarrow> id, d')))"

definition question_updates :: "datetime \<Rightarrow> event_payload \<Rightarrow> task option \<Rightarrow> task \<Rightarrow> task" where
  "question_updates now ev task =
     (if ep_event_type ev \<in> {''user_question_requested'', ''user_question_delivery_failed''}
      then start_wait now ev task Waiting_user_input
             (if ep_event_type ev = ''user_question_delivery_failed''
              then ''ask_user_question_delivery_failed'' else ''ask_user_question'')
      else id)"

definition resolved_updates :: "datetime \<Rightarrow> event_payload \<Rightarrow> task option \<Rightarrow> task \<Rightarrow> task" where
  "resolved_updates now ev task =
     (if ep_event_type ev \<in> {''user_question_resolved'', ''approval_wait_resolved''}
      then (\<lambda>r. wait_finished_updates task now
                  (r\<lparr>t_status := Resume_pending, t_wait_reason := None, t_wait_deadline := None\<rparr>))
      else id)"

definition batch_updates :: "parser list \<Rightarrow> event_payload \<Rightarrow> task option \<Rightarrow> (task \<Rightarrow> task) result" where
  "batch_updates parsers ev task =
     (if ep_event_type ev \<noteq> ''conversation_batch'' then Inr id
      else
        result_bind (extract_incremental_tokens parsers (ep_data ev)) (\<lambda>incremental.
          case incremental of
            None \<Rightarrow> Inr id
          | Some n \<Rightarrow> result_bind (deref task) (\<lambda>t.
              Inr (\<lambda>r. r\<lparr>t_tokens_used := Some (monotonic_token_total (t_tokens_used t) n)\<rparr>))))"

text \<open>\<open>session_error\<close> and \<open>session_timeout\<close> differ in the status and the default message.\<close>

definition ended_updates ::
    "event_payload \<Rightarrow> task option \<Rightarrow> task_status \<Rightarrow> string \<Rightarrow> (task \<Rightarrow> task) result" where
  "ended_updates ev task status default_error =
     result_bind (event_tokens (ep_data ev)) (\<lambda>(input_tokens, output_tokens).
       let base = (\<lambda>r. r\<lparr>t_status := status, t_result := Some (ep_data ev),
                         t_duration_sec := dict_get (ep_data ev) ''duration_sec'',
                         t_error := Some (py_str (py_or (dict_get (ep_data ev) ''error'') (PStr default_error)))\<rparr>)
       in if input_tokens \<noteq> 0 \<or> output_tokens \<noteq> 0
          then result_bind (deref task) (\<lambda>t.
            Inr (\<lambda>r. (base r)\<lparr>t_tokens_used := Some (monotonic_token_total (t_tokens_used t) (input_tokens + output_tokens))\<rparr>))
          else Inr base)"

definition terminal_updates :: "event_payload \<Rightarrow> task option \<Rightarrow> (task \<Rightarrow> task) result" where
  "terminal_updates ev task =
     (if ep_event_type ev = ''session_complete'' then
        result_bind (deref task) (\<lambda>t.
          if t_status t \<in> {Waiting_approval, Waiting_user_input} then Inr id
          else result_bind (event_tokens (ep_data ev)) (\<lambda>(input_tokens, output_tokens).
            Inr (\<lambda>r. r\<lparr>t_status := Succeeded, t_result := Some (ep_data ev),
                   t_tokens_used := Some (monotonic_token_total (t_tokens_used t) (input_tokens + output_tokens)),
                   t_duration_sec := dict_get (ep_data ev) ''duration_sec'', t_error := None\<rparr>)))
      else if ep_event_type ev = ''session_error'' then ended_updates ev task Failed ''Session error''
      else if ep_event_type ev = ''session_timeout'' then ended_updates ev task Timed_out ''Session timed out''
      else Inr id)"

text \<open>A value the \<open>duration_sec\<close> column takes.\<close>

definition float_column :: "pyval \<Rightarrow> bool" where
  "float_column v \<longleftrightarrow> v = PNone \<or> is_number v"

definition task_updates ::
    "settings \<Rightarrow> transport \<Rightarrow> bool \<Rightarrow> parser list \<Rightarrow> datetime \<Rightarrow> event_payload \<Rightarrow> task option \<Rightarrow> approval option
     \<Rightarrow> db \<Rightarrow> ((task \<Rightarrow> task) \<times> db) result" where
  "task_updates cfg tr tracked parsers now ev task approval d =
     result_bind (approval_updates cfg tr tracked now ev task approval d) (\<lambda>(f1, d1).
     result_bind (batch_updates parsers ev task) (\<lambda>f4.
     result_bind (terminal_updates ev task) (\<lambda>f5.
       Inr (\<lambda>r. f5 (f4 (resolved_updates now ev task (question_updates now ev task (f1 (r\<lparr>t_heartbeat := Some now\<rparr>))))), d1))))"

definition receive_event ::
    "settings \<Rightarrow> transport \<Rightarrow> bool \<Rightarrow> parser list \<Rightarrow> datetime \<Rightarrow> datetime \<Rightarrow> event_payload \<Rightarrow> db \<Rightarrow> db result" where
  "receive_event cfg tr tracked parsers now tx_now ev d =
     (let task_uuid = (if ep_task_id ev = [] then None else parse_uuid (ep_task_id ev))
      in case ep_timestamp ev of
           None \<Rightarrow> Inl (Value_error ''Invalid isoformat string'')
         | Some timestamp \<Rightarrow>
             (let d1 = add_session_event task_uuid (ep_event_type ev) timestamp (ep_data ev) d
              in case task_uuid of
                   None \<Rightarrow> Inr d1
                 | Some i \<Rightarrow>
                     (let task = find_task d i;
                          (approval, d2) = apply_approval_event tx_now task (Some i) (ep_event_type ev) timestamp
                                             (Some (ep_data ev)) d1
                      in result_bind (task_updates cfg tr tracked parsers now ev task approval d2) (\<lambda>(upd, d3).
                           if task = None then Inl (Sql_error ''session_events_task_id_fkey'')
                           else if \<not> float_column (t_duration_sec (upd (the task)))
                           then Inl (Sql_error ''invalid input for duration_sec'')
                           else Inr (update_tasks tx_now (\<lambda>t. t_id t = i) upd d3)))))"

section \<open>Fuel\<close>

definition shrinking :: "parser \<Rightarrow> bool" where
  "shrinking p \<longleftrightarrow> (\<forall>s t. p s = Some (PStr t) \<longrightarrow> length t < length s)"

lemma try_parsers_cong:
  assumes "\<And>p v. p \<in> set ps \<Longrightarrow> p s = Some v \<Longrightarrow> f v = g v"
  shows "try_parsers f ps s = try_parsers g ps s"
  using assms
proof (induction ps)
  case (Cons p ps)
  have IH: "try_parsers f ps s = try_parsers g ps s"
    by (rule Cons.IH) (use Cons.prems in auto)
  show ?case
  proof (cases "p s")
    case None
    with IH show ?thesis by simp
  next
    case (Some v)
    then have "f v = g v" using Cons.prems [of p v] by simp
    with Some IH show ?thesis by simp
  qed
qed simp

lemma strip_shorter: "length (strip s) \<le> length s"
  by (rule length_strip)

lemma coerce_fuel:
  assumes "\<forall>p \<in> set parsers. shrinking p" and "length s \<le> f" and "length s \<le> g"
  shows "coerce_total_tokens f parsers (PStr s) = coerce_total_tokens g parsers (PStr s)"
  using assms(2,3)
proof (induction "length s" arbitrary: s f g rule: less_induct)
  case less
  show ?case
  proof (cases "strip s = []")
    case True
    then show ?thesis by simp
  next
    case False
    then have pos: "0 < length s" using strip_Nil by fastforce
    then obtain f' g' where fg: "f = Suc f'" "g = Suc g'"
      using less.prems by (meson Suc_less_eq2 gr0_conv_Suc less_le_trans)
    have "coerce_total_tokens f' parsers v = coerce_total_tokens g' parsers v"
      if "p \<in> set parsers" "p (strip s) = Some v" for p v
    proof (cases v)
      case (PStr t)
      then have "length t < length (strip s)"
        using that assms(1) by (auto simp: shrinking_def)
      then have "length t < length s" using strip_shorter [of s] by simp
      with less fg PStr show ?thesis by simp
    qed auto
    then have "try_parsers (coerce_total_tokens f' parsers) parsers (strip s)
        = try_parsers (coerce_total_tokens g' parsers) parsers (strip s)"
      by (rule try_parsers_cong)
    with False fg show ?thesis by simp
  qed
qed

lemma py_int_fuel [simp]: "py_int v \<noteq> Inl (Runtime_error e)"
  by (cases v) (auto split: option.split)

lemma result_bind_Inl_iff: "result_bind x f = Inl e \<longleftrightarrow> x = Inl e \<or> (\<exists>v. x = Inr v \<and> f v = Inl e)"
  by (cases x) auto

lemma result_map_Inl_iff: "result_map f x = Inl e \<longleftrightarrow> x = Inl e"
  by (cases x) auto

lemma dict_total_fuel: "dict_total d \<noteq> Inl (Runtime_error e)"
  by (simp add: dict_total_def Let_def result_bind_Inl_iff result_map_Inl_iff)

lemma try_parsers_fuel:
  assumes "\<And>p v. p \<in> set ps \<Longrightarrow> p s = Some v \<Longrightarrow> f v \<noteq> Inl e"
  shows "try_parsers f ps s \<noteq> Inl e"
  using assms
  by (induction ps) (auto simp: result_bind_Inl_iff split: option.splits)

lemma coerce_no_fuel_error:
  assumes "\<forall>p \<in> set parsers. shrinking p" and "length s \<le> f"
  shows "coerce_total_tokens f parsers (PStr s) \<noteq> Inl (Runtime_error e)"
  using assms(2)
proof (induction "length s" arbitrary: s f rule: less_induct)
  case less
  show ?case
  proof (cases "strip s = []")
    case True
    then show ?thesis by simp
  next
    case False
    then have "0 < length s" using strip_Nil by fastforce
    then obtain f' where f: "f = Suc f'"
      using less.prems by (cases f) auto
    have "coerce_total_tokens f' parsers v \<noteq> Inl (Runtime_error e)"
      if "p \<in> set parsers" "p (strip s) = Some v" for p v
    proof (cases v)
      case (PStr t)
      then have "length t < length (strip s)"
        using that assms(1) by (auto simp: shrinking_def)
      then have "length t < length s" using strip_shorter [of s] by simp
      with less f PStr show ?thesis by simp
    qed (auto simp: dict_total_fuel)
    then have "try_parsers (coerce_total_tokens f' parsers) parsers (strip s) \<noteq> Inl (Runtime_error e)"
      by (rule try_parsers_fuel)
    with False f show ?thesis
      by (simp add: result_bind_Inl_iff Let_def split: option.split)
  qed
qed

section \<open>What an event does to its task\<close>

definition tokens_of :: "task \<Rightarrow> int" where
  "tokens_of t = (case t_tokens_used t of None \<Rightarrow> 0 | Some n \<Rightarrow> n)"

lemma monotonic_total: "tokens_of t \<le> monotonic_token_total (t_tokens_used t) n"
  by (simp add: monotonic_token_total_def tokens_of_def)

lemma start_wait_simps [simp]:
  "t_status (start_wait now ev task s reason r) = s"
  "t_id (start_wait now ev task s reason r) = t_id r"
  "t_tokens_used (start_wait now ev task s reason r) = t_tokens_used r"
  "t_duration_sec (start_wait now ev task s reason r) = t_duration_sec r"
  "t_result (start_wait now ev task s reason r) = t_result r"
  by (simp_all add: start_wait_def Let_def)

lemma start_wait_clock:
  assumes "t_wait_started r = t_wait_started t"
  shows "t_wait_started (start_wait now ev (Some t) s reason r)
      = Some (case t_wait_started t of None \<Rightarrow> now | Some w \<Rightarrow> w)"
    and "t_wait_deadline (start_wait now ev (Some t) s reason r)
      = Some ((case t_wait_started t of None \<Rightarrow> now | Some w \<Rightarrow> w) + of_int (ep_wait_timeout_sec ev))"
  using assms by (simp_all add: start_wait_def Let_def started_open split: option.split)

lemma question_tokens [simp]: "t_tokens_used (question_updates now ev task r) = t_tokens_used r"
  by (simp add: question_updates_def)

lemma resolved_tokens [simp]: "t_tokens_used (resolved_updates now ev task r) = t_tokens_used r"
  by (simp add: resolved_updates_def)

lemma question_id [simp]: "t_id (question_updates now ev task r) = t_id r"
  by (simp add: question_updates_def)

lemma resolved_id [simp]: "t_id (resolved_updates now ev task r) = t_id r"
  by (simp add: resolved_updates_def)

lemma approval_updates_cases:
  assumes "approval_updates cfg tr tracked now ev task approval d = Inr (f, d')"
  shows "f = id \<or> (ep_event_type ev = ''approval_requested'' \<and> f = start_wait now ev task Waiting_approval ''operator_approval'')"
    and "tasks d' = tasks d"
proof -
  have e: "ensure_approval_prompt_posted cfg tr tracked now task approval d = Inr (a', d') \<Longrightarrow> tasks d' = tasks d" for a'
    using ensure_frame(1) by blast
  show "f = id \<or> (ep_event_type ev = ''approval_requested'' \<and> f = start_wait now ev task Waiting_approval ''operator_approval'')"
    using assms by (auto simp: approval_updates_def result_bind_Inr_iff split: if_splits option.splits)
  show "tasks d' = tasks d"
    using assms e by (auto simp: approval_updates_def result_bind_Inr_iff split: if_splits)
qed

lemma batch_updates_cases:
  assumes "batch_updates parsers ev task = Inr f"
  shows "f = id \<or> (\<exists>t n. task = Some t \<and> ep_event_type ev = ''conversation_batch'' \<and>
    f = (\<lambda>r. r\<lparr>t_tokens_used := Some (monotonic_token_total (t_tokens_used t) n)\<rparr>))"
  using assms
  by (auto simp: batch_updates_def deref_def result_bind_Inr_iff split: if_splits option.splits)

text \<open>The three kinds of end an event can bring.\<close>

definition ends_as :: "event_payload \<Rightarrow> task \<Rightarrow> (task \<Rightarrow> task) \<Rightarrow> bool" where
  "ends_as ev t f \<longleftrightarrow>
     (\<forall>r. t_status (f r) \<in> {Succeeded, Failed, Timed_out} \<and> t_id (f r) = t_id r
        \<and> t_wait_started (f r) = t_wait_started r
        \<and> t_result (f r) = Some (ep_data ev)
        \<and> (t_tokens_used (f r) = t_tokens_used r \<or> (\<exists>n. t_tokens_used (f r) = Some (monotonic_token_total (t_tokens_used t) n))))"

lemma ends_as_tokens:
  assumes "ends_as ev t f"
  shows "tokens_of (f r) = tokens_of r \<or> (\<exists>n. tokens_of (f r) = monotonic_token_total (t_tokens_used t) n)"
proof -
  have "t_tokens_used (f r) = t_tokens_used r \<or> (\<exists>n. t_tokens_used (f r) = Some (monotonic_token_total (t_tokens_used t) n))"
    using assms unfolding ends_as_def by blast
  then show ?thesis by (auto simp: tokens_of_def)
qed

lemma ends_as_wait_ok: "ends_as ev t f \<Longrightarrow> wait_ok (f r)"
proof -
  assume "ends_as ev t f"
  then have "t_status (f r) \<in> {Succeeded, Failed, Timed_out}"
    unfolding ends_as_def by blast
  then show "wait_ok (f r)" by (auto simp: wait_ok_def status_lists)
qed

lemma ended_updates_ends:
  assumes "ended_updates ev (Some t) s m = Inr f" and "s \<in> {Succeeded, Failed, Timed_out}"
  shows "ends_as ev t f"
  using assms
  by (auto simp: ended_updates_def ends_as_def deref_def result_bind_Inr_iff Let_def split: if_splits)

lemma complete_ends:
  assumes "terminal_updates ev (Some t) = Inr f" and "ep_event_type ev = ''session_complete''"
  shows "(t_status t \<in> {Waiting_approval, Waiting_user_input} \<and> f = id) \<or> ends_as ev t f"
  using assms
  by (auto simp: terminal_updates_def ends_as_def deref_def result_bind_Inr_iff split: if_splits)

lemma terminal_updates_cases:
  assumes "terminal_updates ev (Some t) = Inr f"
  shows "f = id \<or> ends_as ev t f"
proof (cases "ep_event_type ev = ''session_complete''")
  case True
  from complete_ends [OF assms True] show ?thesis by blast
next
  case False
  have "f = id \<or> (\<exists>s m. ended_updates ev (Some t) s m = Inr f \<and> s \<in> {Succeeded, Failed, Timed_out})"
    using assms False unfolding terminal_updates_def by (auto split: if_splits)
  then show ?thesis using ended_updates_ends by blast
qed

lemma receive_event_cases:
  assumes "receive_event cfg tr tracked parsers now tx_now ev d = Inr d'"
  shows "tasks d' = tasks d \<or>
    (\<exists>i t upd approval d2 d3. parse_uuid (ep_task_id ev) = Some i \<and> find_task d i = Some t
       \<and> task_updates cfg tr tracked parsers now ev (Some t) approval d2 = Inr (upd, d3)
       \<and> tasks d3 = tasks d \<and> d' = update_tasks tx_now (\<lambda>x. t_id x = i) upd d3)"
proof -
  obtain timestamp where ts: "ep_timestamp ev = Some timestamp"
    using assms by (cases "ep_timestamp ev") (auto simp: receive_event_def)
  let ?u = "if ep_task_id ev = [] then None else parse_uuid (ep_task_id ev)"
  let ?d1 = "add_session_event ?u (ep_event_type ev) timestamp (ep_data ev) d"
  show ?thesis
  proof (cases ?u)
    case None
    then have "d' = ?d1" using assms ts by (simp add: receive_event_def Let_def)
    then show ?thesis by simp
  next
    case (Some i)
    then have pu: "parse_uuid (ep_task_id ev) = Some i" by (simp split: if_splits)
    obtain approval d2 where ap: "apply_approval_event tx_now (find_task d i) (Some i) (ep_event_type ev) timestamp
        (Some (ep_data ev)) ?d1 = (approval, d2)" by fastforce
    have t2: "tasks d2 = tasks d"
      using frame_apply_approval_event(1) [of tx_now "find_task d i" "Some i" "ep_event_type ev" timestamp "Some (ep_data ev)" ?d1]
      by (simp add: ap)
    from assms ts Some ap obtain upd d3 where
      tu: "task_updates cfg tr tracked parsers now ev (find_task d i) approval d2 = Inr (upd, d3)"
      and fin: "(if find_task d i = None then Inl (Sql_error ''session_events_task_id_fkey'')
         else if \<not> float_column (t_duration_sec (upd (the (find_task d i)))) then Inl (Sql_error ''invalid input for duration_sec'')
         else Inr (update_tasks tx_now (\<lambda>t. t_id t = i) upd d3)) = Inr d'"
      unfolding receive_event_def Let_def by (auto simp: result_bind_Inr_iff)
    from fin obtain t where t: "find_task d i = Some t" by (cases "find_task d i") auto
    have "tasks d3 = tasks d2"
      using tu approval_updates_cases(2) by (auto simp: task_updates_def result_bind_Inr_iff)
    with pu t tu t2 fin show ?thesis by (auto split: if_splits)
  qed
qed

lemma task_updates_parts:
  assumes "task_updates cfg tr tracked parsers now ev (Some t) approval d = Inr (upd, d')"
  obtains f1 f4 f5 where "f1 = id \<or> (ep_event_type ev = ''approval_requested'' \<and> f1 = start_wait now ev (Some t) Waiting_approval ''operator_approval'')"
    and "f4 = id \<or> (\<exists>n. f4 = (\<lambda>r. r\<lparr>t_tokens_used := Some (monotonic_token_total (t_tokens_used t) n)\<rparr>))"
    and "terminal_updates ev (Some t) = Inr f5"
    and "upd = (\<lambda>r. f5 (f4 (resolved_updates now ev (Some t) (question_updates now ev (Some t) (f1 (r\<lparr>t_heartbeat := Some now\<rparr>))))))"
    and "ep_event_type ev \<noteq> ''conversation_batch'' \<Longrightarrow> f4 = id"
proof -
  from assms obtain f1 f4 f5 where
    f1: "approval_updates cfg tr tracked now ev (Some t) approval d = Inr (f1, d')"
    and f4: "batch_updates parsers ev (Some t) = Inr f4" and f5: "terminal_updates ev (Some t) = Inr f5"
    and upd: "upd = (\<lambda>r. f5 (f4 (resolved_updates now ev (Some t) (question_updates now ev (Some t) (f1 (r\<lparr>t_heartbeat := Some now\<rparr>))))))"
    by (auto simp: task_updates_def result_bind_Inr_iff)
  show thesis
  proof (rule that [OF approval_updates_cases(1) [OF f1] _ f5 upd])
    show "f4 = id \<or> (\<exists>n. f4 = (\<lambda>r. r\<lparr>t_tokens_used := Some (monotonic_token_total (t_tokens_used t) n)\<rparr>))"
      using batch_updates_cases [OF f4] by auto
    show "f4 = id" if "ep_event_type ev \<noteq> ''conversation_batch''"
      using batch_updates_cases [OF f4] that by blast
  qed
qed

lemma upd_id:
  assumes "task_updates cfg tr tracked parsers now ev (Some t) approval d = Inr (upd, d')"
  shows "t_id (upd r) = t_id r"
  using assms
proof (rule task_updates_parts)
  fix f1 f4 f5
  assume f: "f1 = id \<or> (ep_event_type ev = ''approval_requested'' \<and> f1 = start_wait now ev (Some t) Waiting_approval ''operator_approval'')"
    "f4 = id \<or> (\<exists>n. f4 = (\<lambda>r. r\<lparr>t_tokens_used := Some (monotonic_token_total (t_tokens_used t) n)\<rparr>))"
    "terminal_updates ev (Some t) = Inr f5"
    "upd = (\<lambda>r. f5 (f4 (resolved_updates now ev (Some t) (question_updates now ev (Some t) (f1 (r\<lparr>t_heartbeat := Some now\<rparr>))))))"
  have "t_id (f5 r) = t_id r" for r
    using terminal_updates_cases [OF f(3)] by (auto simp: ends_as_def)
  with f(1,2,4) show ?thesis by auto
qed

text \<open>An event changes at most the row of its own task, and that by its updates.\<close>

lemma receive_event_row:
  assumes "receive_event cfg tr tracked parsers now tx_now ev d = Inr d'" and "find_task d i = Some t"
  shows "find_task d' i = Some t \<or>
    (\<exists>upd approval d2 d3. task_updates cfg tr tracked parsers now ev (Some t) approval d2 = Inr (upd, d3)
       \<and> parse_uuid (ep_task_id ev) = Some i \<and> find_task d' i = Some ((upd t)\<lparr>t_updated := tx_now\<rparr>))"
  using receive_event_cases [OF assms(1)]
proof
  assume "tasks d' = tasks d"
  with assms(2) show ?thesis by (simp add: find_task_def)
next
  assume "\<exists>j u upd approval d2 d3. parse_uuid (ep_task_id ev) = Some j \<and> find_task d j = Some u
       \<and> task_updates cfg tr tracked parsers now ev (Some u) approval d2 = Inr (upd, d3)
       \<and> tasks d3 = tasks d \<and> d' = update_tasks tx_now (\<lambda>x. t_id x = j) upd d3"
  then obtain j u upd approval d2 d3 where j: "parse_uuid (ep_task_id ev) = Some j" "find_task d j = Some u"
    and tu: "task_updates cfg tr tracked parsers now ev (Some u) approval d2 = Inr (upd, d3)"
    and d3: "tasks d3 = tasks d" "d' = update_tasks tx_now (\<lambda>x. t_id x = j) upd d3" by blast
  have "find_task d3 i = Some t"
    using assms(2) d3(1) by (simp add: find_task_def)
  then have "find_task d' i = Some (if t_id t = j then (upd t)\<lparr>t_updated := tx_now\<rparr> else t)"
    using d3(2) upd_id [OF tu] by (simp add: find_task_update)
  moreover have "t_id t = i"
    using find_task_Some [OF assms(2)] by simp
  ultimately show ?thesis
    using j tu assms(2) by (cases "i = j") auto
qed

lemma wait_ok_upd:
  assumes "task_updates cfg tr tracked parsers now ev (Some t) approval d = Inr (upd, d')" and "wait_ok t"
  shows "wait_ok (upd t)"
  using assms(1)
proof (rule task_updates_parts)
  fix f1 f4 f5
  assume f: "f1 = id \<or> (ep_event_type ev = ''approval_requested'' \<and> f1 = start_wait now ev (Some t) Waiting_approval ''operator_approval'')"
    "f4 = id \<or> (\<exists>n. f4 = (\<lambda>r. r\<lparr>t_tokens_used := Some (monotonic_token_total (t_tokens_used t) n)\<rparr>))"
    "terminal_updates ev (Some t) = Inr f5"
    "upd = (\<lambda>r. f5 (f4 (resolved_updates now ev (Some t) (question_updates now ev (Some t) (f1 (r\<lparr>t_heartbeat := Some now\<rparr>))))))"
  let ?t = "t\<lparr>t_heartbeat := Some now\<rparr>"
  let ?w = "start_wait now ev (Some t)"
  have wait: "wait_ok (?w s reason ?t)" if "s \<in> {Waiting_approval, Waiting_user_input}" for s reason
    using that by (auto simp: wait_ok_def status_lists start_wait_clock(1) [where t = t])
  have resume: "wait_ok (resolved_updates now ev (Some t) r)" if "wait_ok r" "t_wait_started r = t_wait_started t" for r
    using that by (auto simp: resolved_updates_def wait_ok_def status_lists finished_closed)
  have "wait_ok (resolved_updates now ev (Some t) (question_updates now ev (Some t) (f1 ?t)))"
  proof (cases "ep_event_type ev \<in> {''user_question_resolved'', ''approval_wait_resolved''}")
    case True
    then have "f1 = id" "question_updates now ev (Some t) = id"
      using f(1) by (auto simp: question_updates_def)
    then show ?thesis using resume [of ?t] assms(2) by simp
  next
    case False
    then have "resolved_updates now ev (Some t) = id" by (auto simp: resolved_updates_def)
    then show ?thesis
      using f(1) wait assms(2) by (auto simp: question_updates_def)
  qed
  then have "wait_ok (f4 (resolved_updates now ev (Some t) (question_updates now ev (Some t) (f1 ?t))))"
    using f(2) by (auto simp: wait_ok_def)
  moreover have "wait_ok (f5 r)" if "wait_ok r" for r
    using that terminal_updates_cases [OF f(3)] ends_as_wait_ok by (metis id_apply)
  ultimately show ?thesis using f(4) by simp
qed

lemma receive_event_waits:
  assumes "waits_ok d" and "distinct (map t_id (tasks d))"
    and "receive_event cfg tr tracked parsers now tx_now ev d = Inr d'"
  shows "waits_ok d'"
  using receive_event_cases [OF assms(3)]
proof
  assume "tasks d' = tasks d"
  with assms(1) show ?thesis by (simp add: waits_ok_def)
next
  assume "\<exists>j u upd approval d2 d3. parse_uuid (ep_task_id ev) = Some j \<and> find_task d j = Some u
       \<and> task_updates cfg tr tracked parsers now ev (Some u) approval d2 = Inr (upd, d3)
       \<and> tasks d3 = tasks d \<and> d' = update_tasks tx_now (\<lambda>x. t_id x = j) upd d3"
  then obtain j u upd approval d2 d3 where j: "find_task d j = Some u"
    and tu: "task_updates cfg tr tracked parsers now ev (Some u) approval d2 = Inr (upd, d3)"
    and d3: "tasks d3 = tasks d" "d' = update_tasks tx_now (\<lambda>x. t_id x = j) upd d3" by blast
  have u: "u \<in> set (tasks d)" "t_id u = j"
    using find_task_Some [OF j] by auto
  have "wait_ok (upd u)"
    using wait_ok_upd [OF tu] assms(1) u by (auto simp: waits_ok_def)
  moreover have "t = u" if "t \<in> set (tasks d3)" "t_id t = j" for t
    using that u assms(2) d3(1) distinct_map_inj [of t_id "tasks d" t u] by simp
  ultimately show ?thesis
    using assms(1) d3 unfolding d3(2) by (intro waits_ok_update) (auto simp: waits_ok_def)
qed

section \<open>Properties\<close>

text \<open>
  C4. The token total of a task never decreases, whichever event arrives and whatever usage it
  reports.
\<close>

theorem token_total_monotone:
  assumes "receive_event cfg tr tracked parsers now tx_now ev d = Inr d'" and "find_task d i = Some t"
  shows "\<exists>t'. find_task d' i = Some t' \<and> tokens_of t \<le> tokens_of t'"
  using receive_event_row [OF assms]
proof
  assume "find_task d' i = Some t"
  then show ?thesis by auto
next
  assume "\<exists>upd approval d2 d3. task_updates cfg tr tracked parsers now ev (Some t) approval d2 = Inr (upd, d3)
       \<and> parse_uuid (ep_task_id ev) = Some i \<and> find_task d' i = Some ((upd t)\<lparr>t_updated := tx_now\<rparr>)"
  then obtain upd approval d2 d3 where tu: "task_updates cfg tr tracked parsers now ev (Some t) approval d2 = Inr (upd, d3)"
    and t': "find_task d' i = Some ((upd t)\<lparr>t_updated := tx_now\<rparr>)" by blast
  have "tokens_of t \<le> tokens_of (upd t)"
    using tu
  proof (rule task_updates_parts)
    fix f1 f4 f5
    assume f: "f1 = id \<or> (ep_event_type ev = ''approval_requested'' \<and> f1 = start_wait now ev (Some t) Waiting_approval ''operator_approval'')"
      "f4 = id \<or> (\<exists>n. f4 = (\<lambda>r. r\<lparr>t_tokens_used := Some (monotonic_token_total (t_tokens_used t) n)\<rparr>))"
      "terminal_updates ev (Some t) = Inr f5"
      "upd = (\<lambda>r. f5 (f4 (resolved_updates now ev (Some t) (question_updates now ev (Some t) (f1 (r\<lparr>t_heartbeat := Some now\<rparr>))))))"
      "ep_event_type ev \<noteq> ''conversation_batch'' \<Longrightarrow> f4 = id"
    let ?r = "resolved_updates now ev (Some t) (question_updates now ev (Some t) (f1 (t\<lparr>t_heartbeat := Some now\<rparr>)))"
    have "t_tokens_used ?r = t_tokens_used t"
      using f(1) by auto
    then have "tokens_of t \<le> tokens_of (f4 ?r)"
      using f(2) monotonic_total [of t] by (auto simp: tokens_of_def)
    also have "\<dots> \<le> tokens_of (f5 (f4 ?r))"
      using terminal_updates_cases [OF f(3)]
    proof
      assume "f5 = id" then show ?thesis by simp
    next
      assume e: "ends_as ev t f5"
      show ?thesis
      proof (cases "ep_event_type ev = ''conversation_batch''")
        case True
        then have "f5 = id" using f(3) by (auto simp: terminal_updates_def)
        then show ?thesis by simp
      next
        case False
        then have "tokens_of (f4 ?r) = tokens_of t"
          using f(5) \<open>t_tokens_used ?r = t_tokens_used t\<close> by (simp add: tokens_of_def)
        moreover have "tokens_of (f5 (f4 ?r)) = tokens_of (f4 ?r) \<or> (\<exists>n. tokens_of (f5 (f4 ?r)) = monotonic_token_total (t_tokens_used t) n)"
          by (rule ends_as_tokens [OF e])
        ultimately show ?thesis
          using monotonic_total [of t] by auto
      qed
    qed
    finally show ?thesis using f(4) by simp
  qed
  with t' show ?thesis by (auto simp: tokens_of_def)
qed

definition demo_event :: "string \<Rightarrow> pydict \<Rightarrow> event_payload" where
  "demo_event kind data = \<lparr>ep_task_id = uuid_str 0, ep_event_type = kind, ep_timestamp = Some 5, ep_data = data,
     ep_wait_timeout_sec = 60\<rparr>"

lemma demo_uuid: "parse_uuid (uuid_str 0) = Some 0" "uuid_str 0 \<noteq> []"
  by (simp_all add: parse_uuid_str) (simp add: uuid_str_def Let_def)

lemma demo_find: "find_task demo_db 0 = Some demo_task"
  by (simp add: find_task_def find_row_def select_where_def demo_simps)

text \<open>A total in a progress message, and the resolution of a question.\<close>

lemma demo_resolved:
  "\<exists>d'. receive_event default_settings tr False [] 9 9 (demo_event ''user_question_resolved'' []) demo_db = Inr d'"
proof -
  have f: "find_task (add_session_event i e n x demo_db) 0 = Some demo_task" for i e n x
    by (simp add: demo_find)
  show ?thesis
    by (simp add: receive_event_def demo_event_def demo_uuid demo_find Let_def apply_approval_event_def task_updates_def
        approval_updates_def batch_updates_def terminal_updates_def question_updates_def resolved_updates_def
        float_column_def)
      (simp add: demo_simps)
qed

theorem token_total_monotone_witness:
  "\<exists>d' t'. receive_event default_settings demo_transport False [] 9 9 (demo_event ''user_question_resolved'' []) demo_db = Inr d'
     \<and> find_task d' 0 = Some t' \<and> 0 \<le> tokens_of t'"
proof -
  obtain d' where d': "receive_event default_settings demo_transport False [] 9 9 (demo_event ''user_question_resolved'' []) demo_db = Inr d'"
    using demo_resolved by blast
  from token_total_monotone [OF d' demo_find] d' show ?thesis
    by (auto simp: tokens_of_def demo_simps)
qed

text \<open>
  Reading token usage always ends: for parsers whose string results are shorter than their
  input (as those of JSON and Python literals are), any fuel from the length of the text on gives
  the same answer, and that answer is never the lack of fuel.
\<close>

theorem coerce_total_tokens_ends:
  assumes "\<forall>p \<in> set parsers. shrinking p" and "length s \<le> fuel"
  shows "coerce_total_tokens fuel parsers (PStr s) = coerce parsers (PStr s)
    \<and> coerce parsers (PStr s) \<noteq> Inl (Runtime_error e)"
proof -
  have "coerce parsers (PStr s) = coerce_total_tokens (length s) parsers (PStr s)"
    by (simp add: coerce_def)
  then show ?thesis
    using coerce_fuel [OF assms(1) assms(2) order_refl] coerce_no_fuel_error [OF assms(1) order_refl, of s e]
    by simp
qed

definition quote_parser :: parser where
  "quote_parser s = (case s of c # t \<Rightarrow> if c = CHR 0x22 then Some (PStr t) else None | [] \<Rightarrow> None)"

theorem coerce_total_tokens_ends_witness:
  "coerce_total_tokens 99 [quote_parser] (PStr ''total_tokens: 7'') = coerce [quote_parser] (PStr ''total_tokens: 7'')"
proof -
  have "\<forall>p \<in> set [quote_parser]. shrinking p"
    by (auto simp: shrinking_def quote_parser_def split: list.splits)
  then show ?thesis
    by (rule coerce_total_tokens_ends [THEN conjunct1]) simp
qed

text \<open>
  C7. A \<open>session_complete\<close> that arrives while the task waits for a person does not end it: of the
  task's columns only the heartbeat (and the trigger's time) changes.
\<close>

theorem complete_ignored_while_waiting:
  assumes "find_task d i = Some t" and "t_status t \<in> set WAITING_STATUSES"
    and "ep_event_type ev = ''session_complete''" and "parse_uuid (ep_task_id ev) = Some i"
    and "receive_event cfg tr tracked parsers now tx_now ev d = Inr d'"
  shows "find_task d' i = Some t \<or> find_task d' i = Some (t\<lparr>t_heartbeat := Some now, t_updated := tx_now\<rparr>)"
  using receive_event_row [OF assms(5,1)]
proof
  assume "\<exists>upd approval d2 d3. task_updates cfg tr tracked parsers now ev (Some t) approval d2 = Inr (upd, d3)
       \<and> parse_uuid (ep_task_id ev) = Some i \<and> find_task d' i = Some ((upd t)\<lparr>t_updated := tx_now\<rparr>)"
  then obtain upd approval d2 d3 where tu: "task_updates cfg tr tracked parsers now ev (Some t) approval d2 = Inr (upd, d3)"
    and t': "find_task d' i = Some ((upd t)\<lparr>t_updated := tx_now\<rparr>)" by blast
  have "upd t = t\<lparr>t_heartbeat := Some now\<rparr>"
    using tu
  proof (rule task_updates_parts)
    fix f1 f4 f5
    assume f: "f1 = id \<or> (ep_event_type ev = ''approval_requested'' \<and> f1 = start_wait now ev (Some t) Waiting_approval ''operator_approval'')"
      "terminal_updates ev (Some t) = Inr f5"
      "upd = (\<lambda>r. f5 (f4 (resolved_updates now ev (Some t) (question_updates now ev (Some t) (f1 (r\<lparr>t_heartbeat := Some now\<rparr>))))))"
      "ep_event_type ev \<noteq> ''conversation_batch'' \<Longrightarrow> f4 = id"
    have "f5 = id"
      using f(2) assms(2,3) by (auto simp: terminal_updates_def deref_def status_lists)
    moreover have "f1 = id" "f4 = id" "question_updates now ev (Some t) = id" "resolved_updates now ev (Some t) = id"
      using f(1,4) assms(3) by (auto simp: question_updates_def resolved_updates_def)
    ultimately show ?thesis using f(3) by simp
  qed
  with t' show ?thesis by simp
qed simp

definition waiting_task :: task where
  "waiting_task = demo_task\<lparr>t_status := Waiting_user_input, t_wait_started := Some 5\<rparr>"

definition asking_db :: db where
  "asking_db = demo_db\<lparr>tasks := [waiting_task]\<rparr>"

lemma asking_find: "find_task asking_db 0 = Some waiting_task"
  by (simp add: find_task_def find_row_def select_where_def asking_db_def waiting_task_def demo_simps)

lemma asking_complete:
  "\<exists>d'. receive_event default_settings demo_transport False [] 9 9 (demo_event ''session_complete'' []) asking_db = Inr d'"
  by (simp add: receive_event_def demo_event_def demo_uuid asking_find Let_def apply_approval_event_def task_updates_def
      approval_updates_def batch_updates_def terminal_updates_def question_updates_def resolved_updates_def
      float_column_def deref_def)
    (simp add: waiting_task_def demo_simps)

theorem complete_ignored_while_waiting_witness:
  "\<exists>d' t'. receive_event default_settings demo_transport False [] 9 9 (demo_event ''session_complete'' []) asking_db = Inr d'
     \<and> find_task d' 0 = Some t' \<and> t_status t' = Waiting_user_input"
proof -
  obtain d' where d': "receive_event default_settings demo_transport False [] 9 9 (demo_event ''session_complete'' []) asking_db = Inr d'"
    using asking_complete by blast
  have "t_status waiting_task \<in> set WAITING_STATUSES" "ep_event_type (demo_event ''session_complete'' []) = ''session_complete''"
    "parse_uuid (ep_task_id (demo_event ''session_complete'' [])) = Some 0"
    by (simp_all add: waiting_task_def status_lists demo_event_def demo_uuid)
  from complete_ignored_while_waiting [OF asking_find this d'] d' show ?thesis
    by (auto simp: waiting_task_def)
qed




text \<open>
  C7. A resolution event requeues its task whatever the task's status is, a finished one included:
  \<open>receive_event\<close> has no guard on the status here.
\<close>

theorem resolution_requeues_any_task:
  assumes "find_task d i = Some t" and "parse_uuid (ep_task_id ev) = Some i" and "ep_task_id ev \<noteq> []"
    and "ep_event_type ev = ''user_question_resolved''"
    and "receive_event cfg tr tracked parsers now tx_now ev d = Inr d'"
  shows "\<exists>t'. find_task d' i = Some t' \<and> t_status t' = Resume_pending \<and> t_wait_deadline t' = None"
proof -
  obtain timestamp where ts: "ep_timestamp ev = Some timestamp"
    using assms(5) by (cases "ep_timestamp ev") (auto simp: receive_event_def)
  let ?u = "\<lambda>r. wait_finished_updates (Some t) now (r\<lparr>t_status := Resume_pending, t_wait_reason := None, t_wait_deadline := None\<rparr>)"
  let ?d1 = "add_session_event (Some i) (ep_event_type ev) timestamp (ep_data ev) d"
  have ap: "apply_approval_event tx_now (Some t) (Some i) (ep_event_type ev) timestamp (Some (ep_data ev)) ?d1 = (None, ?d1)"
    using assms(4) by (simp add: apply_approval_event_def Let_def)
  have tu: "task_updates cfg tr tracked parsers now ev (Some t) None ?d1
      = Inr (\<lambda>r. ?u (r\<lparr>t_heartbeat := Some now\<rparr>), ?d1)"
    using assms(4)
    by (simp add: task_updates_def approval_updates_def batch_updates_def terminal_updates_def question_updates_def
        resolved_updates_def)
  have d': "d' = update_tasks tx_now (\<lambda>x. t_id x = i) (\<lambda>r. ?u (r\<lparr>t_heartbeat := Some now\<rparr>)) ?d1"
    using assms(5) unfolding receive_event_def Let_def
    by (simp add: assms(1-3) ts ap tu split: if_splits)
  have "find_task d' i = Some ((?u (t\<lparr>t_heartbeat := Some now\<rparr>))\<lparr>t_updated := tx_now\<rparr>)"
    unfolding d' using assms(1) find_task_Some [OF assms(1)] by (simp add: find_task_update)
  moreover have "t_wait_deadline (?u r) = None" for r
    by (simp add: wait_finished_updates_def Let_def split: option.split)
  ultimately show ?thesis by simp
qed

definition finished_db :: db where
  "finished_db = demo_db\<lparr>tasks := [demo_task\<lparr>t_status := Succeeded\<rparr>]\<rparr>"

lemma finished_find: "find_task finished_db 0 = Some (demo_task\<lparr>t_status := Succeeded\<rparr>)"
  by (simp add: find_task_def find_row_def select_where_def finished_db_def demo_simps)

lemma finished_resolved:
  "\<exists>d'. receive_event default_settings demo_transport False [] 9 9 (demo_event ''user_question_resolved'' []) finished_db = Inr d'"
  by (simp add: receive_event_def demo_event_def demo_uuid finished_find Let_def apply_approval_event_def task_updates_def
      approval_updates_def batch_updates_def terminal_updates_def question_updates_def resolved_updates_def
      float_column_def)
    (simp add: demo_simps)

theorem resolution_requeues_any_task_witness:
  "\<exists>d' t'. receive_event default_settings demo_transport False [] 9 9 (demo_event ''user_question_resolved'' []) finished_db = Inr d'
     \<and> find_task d' 0 = Some t' \<and> t_status t' = Resume_pending"
proof -
  obtain d' where d': "receive_event default_settings demo_transport False [] 9 9 (demo_event ''user_question_resolved'' []) finished_db = Inr d'"
    using finished_resolved by blast
  have "parse_uuid (ep_task_id (demo_event ''user_question_resolved'' [])) = Some 0" "ep_task_id (demo_event ''user_question_resolved'' []) \<noteq> []"
    "ep_event_type (demo_event ''user_question_resolved'' []) = ''user_question_resolved''"
    by (simp_all add: demo_event_def demo_uuid)
  from resolution_requeues_any_task [OF finished_find this d'] d' show ?thesis by auto
qed

end
