(* ===== verification/Background_Jobs.thy ===== *)
theory Background_Jobs
  imports Db_Models
begin

text \<open>
  \<open>shared/lib/background_jobs.py\<close>: the lifecycle of durable background jobs, the step relation its
  operations generate, and the finality of finished runs.
\<close>

section \<open>Operations\<close>

definition RUNNING_STATUS :: string where
  "RUNNING_STATUS = ''running''"

definition QUEUED_STATUS :: string where
  "QUEUED_STATUS = ''queued''"

definition JOB_TERMINAL_STATUSES :: "string list" where
  "JOB_TERMINAL_STATUSES = [''succeeded'', ''failed'', ''skipped'', ''cancelled'']"

lemmas job_statuses = RUNNING_STATUS_def QUEUED_STATUS_def JOB_TERMINAL_STATUSES_def

text \<open>The keyword arguments that identify a job.\<close>

record job_args =
  ja_job_type :: string
  ja_scope :: "string option"
  ja_trigger :: "string option"
  ja_source_id :: "uuid option"
  ja_version_id :: "uuid option"
  ja_summary :: "pydict option"

definition new_run :: "uuid \<Rightarrow> job_args \<Rightarrow> string \<Rightarrow> datetime \<Rightarrow> job_run" where
  "new_run i args status started_at =
     \<lparr>jr_id = i, jr_job_type = ja_job_type args, jr_scope = ja_scope args, jr_trigger = ja_trigger args,
      jr_source_id = ja_source_id args, jr_version_id = ja_version_id args, jr_status = status,
      jr_started_at = started_at, jr_heartbeat_at = None, jr_finished_at = None, jr_duration_sec = None,
      jr_summary = (case ja_summary args of None \<Rightarrow> [] | Some s \<Rightarrow> s), jr_warnings = [], jr_error = None\<rparr>"

text \<open>The foreign keys of a run; a commit that violates one fails.\<close>

definition refs_ok :: "db \<Rightarrow> job_run \<Rightarrow> bool" where
  "refs_ok d r \<longleftrightarrow>
     (case jr_source_id r of None \<Rightarrow> True | Some s \<Rightarrow> s \<in> ks_id ` set (sources d))
     \<and> (case jr_version_id r of None \<Rightarrow> True | Some v \<Rightarrow> v \<in> kv_id ` set (versions d))"

definition add_run :: "job_run \<Rightarrow> db \<Rightarrow> (job_run \<times> db) result" where
  "add_run r d =
     (if refs_ok d r
      then Inr (r, d\<lparr>job_runs := insert_row r (job_runs d), next_uuid := Suc (next_uuid d)\<rparr>)
      else Inl (Sql_error ''background_job_runs foreign key''))"

definition find_run :: "db \<Rightarrow> uuid \<Rightarrow> job_run option" where
  "find_run d i = find_row (\<lambda>r. jr_id r = i) (job_runs d)"

definition update_runs :: "(job_run \<Rightarrow> bool) \<Rightarrow> (job_run \<Rightarrow> job_run) \<Rightarrow> db \<Rightarrow> db" where
  "update_runs P f d = d\<lparr>job_runs := update_where P f (job_runs d)\<rparr>"

definition queue_background_job :: "datetime \<Rightarrow> job_args \<Rightarrow> datetime option \<Rightarrow> db \<Rightarrow> (job_run \<times> db) result" where
  "queue_background_job now args queued_at d =
     add_run (new_run (next_uuid d) (args\<lparr>ja_version_id := None\<rparr>) QUEUED_STATUS
       (case queued_at of None \<Rightarrow> now | Some q \<Rightarrow> q)) d"

definition claim_background_job :: "datetime \<Rightarrow> uuid \<Rightarrow> db \<Rightarrow> (job_run \<times> db) result" where
  "claim_background_job now i d =
     (case find_run d i of
        None \<Rightarrow> Inl (Runtime_error (''Background job '' @ uuid_str i @ '' does not exist''))
      | Some run \<Rightarrow>
          (if jr_status run \<noteq> QUEUED_STATUS
           then Inl (Runtime_error (''Background job '' @ uuid_str i @ '' is already '' @ jr_status run))
           else
             let run' = run\<lparr>jr_status := RUNNING_STATUS, jr_started_at := now, jr_heartbeat_at := Some now\<rparr>
             in Inr (run', update_runs (\<lambda>r. jr_id r = i) (\<lambda>_. run') d)))"

definition start_background_job :: "datetime \<Rightarrow> job_args \<Rightarrow> datetime option \<Rightarrow> db \<Rightarrow> (job_run \<times> db) result" where
  "start_background_job current args started_at d =
     (let now = (case started_at of None \<Rightarrow> current | Some s \<Rightarrow> s)
      in add_run ((new_run (next_uuid d) args RUNNING_STATUS now)\<lparr>jr_heartbeat_at := Some now\<rparr>) d)"

definition heartbeat_background_job :: "datetime \<Rightarrow> uuid \<Rightarrow> pydict option \<Rightarrow> db \<Rightarrow> db result" where
  "heartbeat_background_job now i summary d =
     (let hit = (\<lambda>r. jr_id r = i \<and> jr_status r = RUNNING_STATUS);
          rowcount = length (select_where hit (job_runs d))
      in if rowcount \<noteq> 1
         then Inl (Value_error (''Background job '' @ uuid_str i @ '' is not running''))
         else Inr (update_runs hit
                (\<lambda>r. (case summary of None \<Rightarrow> r | Some s \<Rightarrow> r\<lparr>jr_summary := s\<rparr>)\<lparr>jr_heartbeat_at := Some now\<rparr>) d))"

record finish_args =
  fa_status :: string
  fa_summary :: "pydict option"
  fa_warnings :: "string list option"
  fa_error :: "string option"
  fa_version_id :: "uuid option"
  fa_finished_at :: "datetime option"

definition finished_run :: "datetime \<Rightarrow> finish_args \<Rightarrow> job_run \<Rightarrow> job_run" where
  "finished_run completed_at args run =
     run\<lparr>jr_status := fa_status args, jr_heartbeat_at := Some completed_at, jr_finished_at := Some completed_at,
       jr_duration_sec := Some (max 0 (completed_at - jr_started_at run)),
       jr_summary := (case fa_summary args of None \<Rightarrow> jr_summary run | Some s \<Rightarrow> s),
       jr_warnings := (case fa_warnings args of None \<Rightarrow> jr_warnings run | Some w \<Rightarrow> w),
       jr_error := fa_error args,
       jr_version_id := (case fa_version_id args of None \<Rightarrow> jr_version_id run | Some v \<Rightarrow> Some v)\<rparr>"

definition finish_background_job :: "datetime \<Rightarrow> uuid \<Rightarrow> finish_args \<Rightarrow> db \<Rightarrow> (job_run \<times> db) result" where
  "finish_background_job now i args d =
     (if fa_status args \<notin> set JOB_TERMINAL_STATUSES
      then Inl (Value_error (''Unsupported background job terminal status: '' @ fa_status args))
      else case find_run d i of
        None \<Rightarrow> Inl (Value_error (''Background job '' @ uuid_str i @ '' does not exist''))
      | Some run \<Rightarrow>
          (if jr_status run \<noteq> RUNNING_STATUS
           then Inl (Value_error (''Background job '' @ uuid_str i @ '' is already '' @ jr_status run))
           else
             let completed_at = (case fa_finished_at args of None \<Rightarrow> now | Some f \<Rightarrow> f);
                 run' = finished_run completed_at args run
             in if refs_ok d run' then Inr (run', update_runs (\<lambda>r. jr_id r = i) (\<lambda>_. run') d)
                else Inl (Sql_error ''background_job_runs foreign key'')))"

definition record_completed_background_job ::
    "job_args \<Rightarrow> string \<Rightarrow> datetime \<Rightarrow> datetime \<Rightarrow> string list option \<Rightarrow> string option \<Rightarrow> db \<Rightarrow> (job_run \<times> db) result" where
  "record_completed_background_job args status started_at finished_at warnings error d =
     (if status \<notin> set JOB_TERMINAL_STATUSES
      then Inl (Value_error (''Unsupported background job terminal status: '' @ status))
      else add_run ((new_run (next_uuid d) args status started_at)
             \<lparr>jr_heartbeat_at := Some finished_at, jr_finished_at := Some finished_at,
              jr_duration_sec := Some (max 0 (finished_at - started_at)),
              jr_warnings := (case warnings of None \<Rightarrow> [] | Some w \<Rightarrow> w), jr_error := error\<rparr>) d)"

definition stale_run :: "datetime \<Rightarrow> string option \<Rightarrow> job_run \<Rightarrow> bool" where
  "stale_run stale_before job_type r \<longleftrightarrow>
     jr_status r = RUNNING_STATUS
     \<and> (case jr_heartbeat_at r of Some h \<Rightarrow> h < stale_before | None \<Rightarrow> jr_started_at r < stale_before)
     \<and> (case job_type of None \<Rightarrow> True | Some j \<Rightarrow> jr_job_type r = j)"

definition fail_stale :: "datetime \<Rightarrow> job_run \<Rightarrow> job_run" where
  "fail_stale reconciled_at run =
     run\<lparr>jr_status := ''failed'', jr_heartbeat_at := Some reconciled_at, jr_finished_at := Some reconciled_at,
       jr_duration_sec := Some (max 0 (reconciled_at - jr_started_at run)),
       jr_summary := dict_merge (jr_summary run) [(''failure_phase'', PStr ''startup_reconciliation'')],
       jr_error := Some ''Background job heartbeat expired before worker startup''\<rparr>"

definition reconcile_stale_background_jobs ::
    "datetime \<Rightarrow> datetime \<Rightarrow> string option \<Rightarrow> db \<Rightarrow> uuid list \<times> db" where
  "reconcile_stale_background_jobs now stale_before job_type d =
     (let runs = select_where (stale_run stale_before job_type) (job_runs d)
      in (map jr_id runs,
          d\<lparr>job_runs := sweep_rows jr_id (stale_run stale_before job_type) (fail_stale now) (job_runs d)\<rparr>))"

section \<open>Lemmas\<close>

definition runs_ok :: "db \<Rightarrow> bool" where
  "runs_ok d \<longleftrightarrow> distinct (map jr_id (job_runs d)) \<and> (\<forall>r \<in> set (job_runs d). jr_id r < next_uuid d)"

definition job_final :: "job_run \<Rightarrow> bool" where
  "job_final r \<longleftrightarrow> jr_status r \<in> set JOB_TERMINAL_STATUSES"

interpretation stale: sweep jr_id "fail_stale now" "stale_run stale_before job_type"
  for now stale_before job_type
  by unfold_locales (simp_all add: fail_stale_def stale_run_def job_statuses)

interpretation finishing: row_update jr_id "finished_run completed_at args" for completed_at args
  by unfold_locales (simp add: finished_run_def)

lemma find_run_Some: "find_run d i = Some r \<Longrightarrow> r \<in> set (job_runs d) \<and> jr_id r = i"
  unfolding find_run_def by (rule find_row_Some)

lemma runs_ok_ids:
  assumes "runs_ok d" and "map jr_id (job_runs d') = map jr_id (job_runs d)" and "next_uuid d' = next_uuid d"
  shows "runs_ok d'"
proof -
  have same: "jr_id ` set (job_runs d') = jr_id ` set (job_runs d)"
    using arg_cong [OF assms(2), of set] by simp
  have "jr_id r < next_uuid d'" if "r \<in> set (job_runs d')" for r
  proof -
    have "jr_id r \<in> jr_id ` set (job_runs d)" using that same by blast
    then show ?thesis using assms(1,3) by (auto simp: runs_ok_def)
  qed
  then show ?thesis
    using assms(1,2) by (simp add: runs_ok_def)
qed

lemma runs_ok_update:
  assumes "runs_ok d" and "\<And>r. P r \<Longrightarrow> jr_id (f r) = jr_id r"
  shows "runs_ok (update_runs P f d)"
proof (rule runs_ok_ids [OF assms(1)])
  show "map jr_id (job_runs (update_runs P f d)) = map jr_id (job_runs d)"
    using assms(2) by (simp add: update_runs_def update_where_def)
  show "next_uuid (update_runs P f d) = next_uuid d"
    by (simp add: update_runs_def)
qed

text \<open>A row-by-id update that hits only an unfinished run keeps every finished one.\<close>

lemma final_kept:
  assumes "runs_ok d" and "r \<in> set (job_runs d)" and "\<not> job_final r"
    and "x \<in> set (job_runs d)" and "job_final x"
  shows "x \<in> set (job_runs (update_runs (\<lambda>y. jr_id y = jr_id r) f d))"
proof -
  have "jr_id x \<noteq> jr_id r"
    using assms distinct_map_inj [of jr_id "job_runs d" x r] by (auto simp: runs_ok_def)
  with assms(4) show ?thesis
    by (auto simp: update_runs_def update_where_def image_iff)
qed

section \<open>Histories\<close>

text \<open>One operation of the module on the database, successful or not.\<close>

inductive job_step :: "db \<Rightarrow> db \<Rightarrow> bool" where
  queue: "queue_background_job now args q d = Inr (r, d') \<Longrightarrow> job_step d d'"
| claim: "claim_background_job now i d = Inr (r, d') \<Longrightarrow> job_step d d'"
| start: "start_background_job now args s d = Inr (r, d') \<Longrightarrow> job_step d d'"
| beat: "heartbeat_background_job now i summary d = Inr d' \<Longrightarrow> job_step d d'"
| finish: "finish_background_job now i fargs d = Inr (r, d') \<Longrightarrow> job_step d d'"
| recorded: "record_completed_background_job args st s f w e d = Inr (r, d') \<Longrightarrow> job_step d d'"
| reconcile: "reconcile_stale_background_jobs now before job_type d = (ids, d') \<Longrightarrow> job_step d d'"

inductive_cases job_stepE: "job_step d d'"

lemma add_run_keeps:
  assumes "runs_ok d" and "jr_id r = next_uuid d" and "add_run r d = Inr (r', d')"
  shows "runs_ok d' \<and> (\<forall>x \<in> set (job_runs d). job_final x \<longrightarrow> x \<in> set (job_runs d'))"
proof -
  have "jr_id r \<notin> jr_id ` set (job_runs d)"
  proof
    assume "jr_id r \<in> jr_id ` set (job_runs d)"
    then obtain x where "x \<in> set (job_runs d)" "jr_id x = next_uuid d"
      using assms(2) by force
    with assms(1) show False by (auto simp: runs_ok_def)
  qed
  with assms show ?thesis
    by (auto simp: add_run_def runs_ok_def insert_row_def less_SucI split: if_splits)
qed

lemma new_run_id [simp]: "jr_id (new_run i args s n) = i"
  by (simp add: new_run_def)

lemma job_step_keeps:
  assumes "job_step d d'" and "runs_ok d"
  shows "runs_ok d' \<and> (\<forall>x \<in> set (job_runs d). job_final x \<longrightarrow> x \<in> set (job_runs d'))"
  using assms
proof (induction rule: job_step.induct)
  case (queue now args q d r d')
  then show ?case unfolding queue_background_job_def by (intro add_run_keeps) simp_all
next
  case (claim now i d r d')
  then obtain run where run: "find_run d i = Some run" "jr_status run = QUEUED_STATUS"
    and d': "d' = update_runs (\<lambda>y. jr_id y = i) (\<lambda>_. run\<lparr>jr_status := RUNNING_STATUS, jr_started_at := now, jr_heartbeat_at := Some now\<rparr>) d"
    by (auto simp: claim_background_job_def Let_def split: option.splits if_splits)
  have m: "run \<in> set (job_runs d)" "jr_id run = i" using find_run_Some [OF run(1)] by auto
  have "\<not> job_final run" using run(2) by (simp add: job_final_def job_statuses)
  moreover have "runs_ok d'"
    unfolding d' using m(2) by (intro runs_ok_update [OF claim.prems]) simp
  ultimately show ?case
    using final_kept [OF claim.prems m(1)] m(2) unfolding d' by blast
next
  case (start now args s d r d')
  then show ?case unfolding start_background_job_def Let_def by (intro add_run_keeps) simp_all
next
  case (beat now i summary d d')
  let ?hit = "\<lambda>r. jr_id r = i \<and> jr_status r = RUNNING_STATUS"
  let ?f = "\<lambda>r. (case summary of None \<Rightarrow> r | Some s \<Rightarrow> r\<lparr>jr_summary := s\<rparr>)\<lparr>jr_heartbeat_at := Some now\<rparr>"
  have d': "d' = update_runs ?hit ?f d"
    using beat.hyps by (simp add: heartbeat_background_job_def Let_def split: if_splits)
  have "runs_ok d'"
    unfolding d' by (rule runs_ok_update [OF beat.prems]) (simp split: option.split)
  moreover have "x \<in> set (job_runs d')" if "x \<in> set (job_runs d)" "job_final x" for x
  proof -
    have "\<not> ?hit x" using that(2) by (auto simp: job_final_def job_statuses)
    with that(1) show ?thesis
      unfolding d' by (auto simp: update_runs_def update_where_def image_iff)
  qed
  ultimately show ?case by blast
next
  case (finish now i fargs d r d')
  then obtain run c where run: "find_run d i = Some run" "jr_status run = RUNNING_STATUS"
    and d': "d' = update_runs (\<lambda>y. jr_id y = i) (\<lambda>_. finished_run c fargs run) d"
    by (auto simp: finish_background_job_def Let_def split: option.splits if_splits)
  have m: "run \<in> set (job_runs d)" "jr_id run = i" using find_run_Some [OF run(1)] by auto
  have "\<not> job_final run" using run(2) by (simp add: job_final_def job_statuses)
  moreover have "runs_ok d'"
    unfolding d' using m(2) by (intro runs_ok_update [OF finish.prems]) simp
  ultimately show ?case
    using final_kept [OF finish.prems m(1)] m(2) unfolding d' by blast
next
  case (recorded args st s f w e d r d')
  then show ?case unfolding record_completed_background_job_def by (intro add_run_keeps) (simp_all split: if_splits)
next
  case (reconcile now before job_type d ids d')
  have rows: "job_runs d' = update_where (stale_run before job_type) (fail_stale now) (job_runs d)"
    and nu: "next_uuid d' = next_uuid d"
    using reconcile stale.sweep_is_update [of "job_runs d" before job_type now]
    by (auto simp: reconcile_stale_background_jobs_def Let_def runs_ok_def)
  have ids: "map jr_id (job_runs d') = map jr_id (job_runs d)"
    unfolding rows by (rule stale.keys_update)
  then have "runs_ok d'"
    using runs_ok_ids [OF reconcile.prems _ nu] by blast
  moreover have "x \<in> set (job_runs d')" if "x \<in> set (job_runs d)" "job_final x" for x
    unfolding rows using that by (intro stale.sweep_keeps) (auto simp: job_final_def stale_run_def job_statuses)
  ultimately show ?case by blast
qed

section \<open>Properties\<close>

text \<open>
  C22. A finished background job is final.  No history of queueing, claiming, starting, heartbeats,
  finishing, recording and reconciling changes or removes a run that has reached a terminal status.
\<close>

theorem finished_job_is_final:
  assumes "job_step\<^sup>*\<^sup>* d d'" and "runs_ok d" and "r \<in> set (job_runs d)" and "job_final r"
  shows "r \<in> set (job_runs d')"
proof -
  from assms(1) have "runs_ok d' \<and> r \<in> set (job_runs d')"
  proof (induction rule: rtranclp_induct)
    case base
    with assms show ?case by simp
  next
    case (step y z)
    with job_step_keeps assms(4) show ?case by blast
  qed
  then show ?thesis by blast
qed

definition demo_args :: job_args where
  "demo_args = \<lparr>ja_job_type = ''housekeeping'', ja_scope = None, ja_trigger = None, ja_source_id = None,
     ja_version_id = None, ja_summary = None\<rparr>"

definition demo_final :: job_run where
  "demo_final = new_run 0 demo_args ''succeeded'' 5"

definition demo_jobs :: db where
  "demo_jobs = empty_db\<lparr>job_runs := [demo_final], next_uuid := 1\<rparr>"

theorem finished_job_is_final_witness:
  "\<exists>d'. job_step\<^sup>*\<^sup>* demo_jobs d' \<and> d' \<noteq> demo_jobs \<and> demo_final \<in> set (job_runs d')"
proof -
  obtain r d' where q: "queue_background_job 9 demo_args None demo_jobs = Inr (r, d')" and ne: "d' \<noteq> demo_jobs"
    by (auto simp: queue_background_job_def add_run_def refs_ok_def new_run_def demo_args_def demo_jobs_def empty_db_def
        insert_row_def)
  have steps: "job_step\<^sup>*\<^sup>* demo_jobs d'" using job_step.queue [OF q] by simp
  have "runs_ok demo_jobs" "demo_final \<in> set (job_runs demo_jobs)" "job_final demo_final"
    by (simp_all add: runs_ok_def demo_jobs_def demo_final_def job_final_def job_statuses new_run_def)
  from finished_job_is_final [OF steps this] steps ne show ?thesis by blast
qed

text \<open>
  A queued job is claimed once: after a successful claim the job runs, and every further claim
  of it raises, naming its status.
\<close>

theorem claim_once:
  assumes "claim_background_job now i d = Inr (r, d')"
  shows "jr_status r = RUNNING_STATUS
    \<and> claim_background_job now' i d' = Inl (Runtime_error (''Background job '' @ uuid_str i @ '' is already running''))"
proof -
  obtain run where run: "find_run d i = Some run"
    and r: "r = run\<lparr>jr_status := RUNNING_STATUS, jr_started_at := now, jr_heartbeat_at := Some now\<rparr>"
    and d': "d' = update_runs (\<lambda>y. jr_id y = i) (\<lambda>_. r) d"
    using assms by (auto simp: claim_background_job_def Let_def split: option.splits if_splits)
  have "jr_id r = i" using r find_run_Some [OF run] by simp
  moreover have "jr_id r = i \<Longrightarrow> find_row (\<lambda>y. jr_id y = i) rs = Some run \<Longrightarrow>
      find_row (\<lambda>y. jr_id y = i) (update_where (\<lambda>y. jr_id y = i) (\<lambda>_. r) rs) = Some r" for rs
    by (induction rs) (auto simp: find_row_Cons)
  ultimately have "find_run d' i = Some r"
    using run unfolding d' find_run_def update_runs_def by simp
  then show ?thesis
    using r by (simp add: claim_background_job_def job_statuses)
qed

definition demo_queue :: db where
  "demo_queue = empty_db\<lparr>job_runs := [new_run 0 demo_args QUEUED_STATUS 5], next_uuid := 1\<rparr>"

lemma demo_claim: "\<exists>r d'. claim_background_job 9 0 demo_queue = Inr (r, d')"
  by (simp add: claim_background_job_def find_run_def find_row_def select_where_def demo_queue_def Let_def new_run_def)

theorem claim_once_witness:
  "\<exists>r d'. claim_background_job 9 0 demo_queue = Inr (r, d') \<and> (\<exists>e. claim_background_job 10 0 d' = Inl e)"
proof -
  obtain r d' where c: "claim_background_job 9 0 demo_queue = Inr (r, d')"
    using demo_claim by blast
  from claim_once [OF c, of 10] c show ?thesis by blast
qed

text \<open>
  Startup reconciliation fails exactly the stale runs of the requested type, in one pass: the
  table is the old one with each stale run failed, and reconciling again with the same cutoff finds
  nothing.
\<close>

theorem reconcile_exact:
  assumes "runs_ok d" and "reconcile_stale_background_jobs now stale_before job_type d = (ids, d')"
  shows "job_runs d' = map (\<lambda>r. if stale_run stale_before job_type r then fail_stale now r else r) (job_runs d)
    \<and> ids = map jr_id (filter (stale_run stale_before job_type) (job_runs d))
    \<and> reconcile_stale_background_jobs now' stale_before job_type d' = ([], d')"
proof -
  have rows: "job_runs d' = update_where (stale_run stale_before job_type) (fail_stale now) (job_runs d)"
    using assms stale.sweep_is_update [of "job_runs d" stale_before job_type now]
    by (auto simp: reconcile_stale_background_jobs_def Let_def runs_ok_def)
  have none: "select_where (stale_run stale_before job_type) (job_runs d') = []"
    unfolding rows by (rule stale.sweep_idle)
  have again: "reconcile_stale_background_jobs now' stale_before job_type d' = ([], d')"
    by (simp add: reconcile_stale_background_jobs_def Let_def none sweep_rows_def)
  have "ids = map jr_id (filter (stale_run stale_before job_type) (job_runs d))"
    using assms(2) by (auto simp: reconcile_stale_background_jobs_def Let_def select_where_def)
  with rows [unfolded update_where_def] again show ?thesis by blast
qed

theorem reconcile_exact_witness:
  "\<exists>ids d'. reconcile_stale_background_jobs 9 7 None demo_jobs = (ids, d')
     \<and> reconcile_stale_background_jobs 12 7 None d' = ([], d')"
proof -
  have ok: "runs_ok demo_jobs"
    by (simp add: runs_ok_def demo_jobs_def demo_final_def new_run_def)
  from reconcile_exact [OF ok prod.collapse [symmetric], of 9 7 None 12]
  show ?thesis by (metis prod.collapse)
qed

end
