(* ===== verification/Call_Budget.thy ===== *)
theory Call_Budget
  imports Py_Text
begin

text \<open>
  \<open>shared/lib/task_call_budget.py\<close>: the bounded call accounting of the MCP servers.  The ordered dict
  of counts is an association list, oldest entry first; the lock makes \<open>consume\<close> one step.
\<close>

section \<open>The operation\<close>

record call_budget =
  cb_limit :: int
  cb_max_tasks :: int
  cb_resource_name :: string
  cb_exhausted_instruction :: string
  cb_counts :: "(string \<times> int) list"

definition new_budget :: "int \<Rightarrow> int \<Rightarrow> call_budget" where
  "new_budget limit max_tasks =
     \<lparr>cb_limit = limit, cb_max_tasks = max_tasks, cb_resource_name = ''MCP'',
      cb_exhausted_instruction = ''Do not retry.'', cb_counts = []\<rparr>"

text \<open>\<open>while len(counts) > max_tasks: counts.popitem(last=False)\<close>; popping an empty dict raises.\<close>

fun evict :: "int \<Rightarrow> (string \<times> int) list \<Rightarrow> (string \<times> int) list result" where
  "evict max_tasks [] = (if 0 > max_tasks then Inl (Key_error ''dictionary is empty'') else Inr [])"
| "evict max_tasks (x # xs) = (if int (length (x # xs)) > max_tasks then evict max_tasks xs else Inr (x # xs))"

text \<open>The result and the counts left behind, also when the call raises.\<close>

definition consume :: "string \<Rightarrow> call_budget \<Rightarrow> int result \<times> call_budget" where
  "consume task_id b =
     (let used = (case map_of (cb_counts b) task_id of None \<Rightarrow> 0 | Some n \<Rightarrow> n);
          rest = AList.delete task_id (cb_counts b)
      in if used \<ge> cb_limit b
         then (Inl (Permission_error (cb_resource_name b @ '' task call budget exhausted ('' @ int_str (cb_limit b)
                 @ '' calls). '' @ cb_exhausted_instruction b)),
               b\<lparr>cb_counts := rest @ [(task_id, used)]\<rparr>)
         else
           let current = used + 1
           in case evict (cb_max_tasks b) (rest @ [(task_id, current)]) of
                Inr counts \<Rightarrow> (Inr current, b\<lparr>cb_counts := counts\<rparr>)
              | Inl e \<Rightarrow> (Inl e, b\<lparr>cb_counts := []\<rparr>))"

section \<open>Specification: a counter per task\<close>

definition calls :: "call_budget \<Rightarrow> string \<Rightarrow> int" where
  "calls b k = (case map_of (cb_counts b) k of None \<Rightarrow> 0 | Some n \<Rightarrow> n)"

definition budget_ok :: "call_budget \<Rightarrow> bool" where
  "budget_ok b \<longleftrightarrow>
     0 \<le> cb_limit b \<and> 0 \<le> cb_max_tasks b \<and> distinct (map fst (cb_counts b))
     \<and> (\<forall>(k, n) \<in> set (cb_counts b). 0 \<le> n \<and> n \<le> cb_limit b)"

lemma evict_within: "0 \<le> m \<Longrightarrow> \<exists>ys. evict m xs = Inr ys \<and> int (length ys) \<le> m \<and> (\<exists>n. ys = drop n xs)"
proof (induction xs)
  case (Cons x xs)
  show ?case
  proof (cases "int (length (x # xs)) > m")
    case True
    with Cons show ?thesis by (metis drop_Suc_Cons evict.simps(2))
  next
    case False
    then show ?thesis by (auto intro: exI [of _ 0])
  qed
qed simp

lemma evict_fits: "int (length xs) \<le> m \<Longrightarrow> evict m xs = Inr xs"
  by (cases xs) auto

lemma delete_keys: "distinct (map fst d) \<Longrightarrow> distinct (map fst (AList.delete k d @ [(k, n)]))"
  by (simp add: distinct_delete) (auto simp: AList.delete_eq)

lemma map_of_delete_append:
  "map_of (AList.delete k d @ [(k, n)]) j = (if j = k then Some n else map_of d j)"
  by (simp add: map_add_def delete_conv' split: option.split)

lemma length_delete_in:
  assumes "distinct (map fst d)" and "k \<in> fst ` set d"
  shows "length (AList.delete k d) + 1 = length d"
  using assms
proof (induction d)
  case (Cons p d)
  show ?case
  proof (cases "fst p = k")
    case True
    then have "AList.delete k d = d"
      using Cons.prems(1) by (intro delete_id) auto
    with True show ?thesis by (cases p) (simp add: AList.delete_eq)
  next
    case False
    with Cons show ?thesis by (cases p) (auto simp: AList.delete_eq)
  qed
qed simp

lemma length_delete_le: "length (AList.delete k d) \<le> length d"
  by (simp add: AList.delete_eq)

lemma calls_put: "calls (b\<lparr>cb_counts := AList.delete k (cb_counts b) @ [(k, n)]\<rparr>) = (calls b)(k := n)"
  by (rule ext) (simp add: calls_def map_of_delete_append del: map_of_append)

section \<open>Properties\<close>

text \<open>
  While it tracks no more tasks than it has room for, a budget is one counter per task: a call
  counts up and returns the new count below the limit, and raises, counting nothing, at the limit;
  no call touches the count of another task.
\<close>

theorem consume_refines_counter:
  assumes "budget_ok b" and "card (insert k (fst ` set (cb_counts b))) \<le> nat (cb_max_tasks b)"
    and "consume k b = (r, b')"
  shows "calls b' = (if calls b k < cb_limit b then (calls b)(k := calls b k + 1) else calls b)
    \<and> (if calls b k < cb_limit b then r = Inr (calls b k + 1) else (\<exists>m. r = Inl (Permission_error m)))
    \<and> fst ` set (cb_counts b') = insert k (fst ` set (cb_counts b)) \<and> budget_ok b'"
proof -
  let ?d = "cb_counts b"
  have dist: "distinct (map fst ?d)" using assms(1) by (simp add: budget_ok_def)
  have card: "card (insert k (fst ` set ?d)) = length (AList.delete k ?d) + 1"
  proof (cases "k \<in> fst ` set ?d")
    case True
    have "card (fst ` set ?d) = length ?d"
      using dist distinct_card by fastforce
    with True length_delete_in [OF dist True] show ?thesis by (simp add: insert_absorb)
  next
    case False
    then have "AList.delete k ?d = ?d" by (rule delete_id)
    moreover have "card (fst ` set ?d) = length ?d"
      using dist distinct_card by fastforce
    ultimately show ?thesis using False by simp
  qed
  have fits: "int (length (AList.delete k ?d @ [(k, n)])) \<le> cb_max_tasks b" for n
    using assms(1,2) card by (simp add: budget_ok_def)
  have keys: "fst ` set (AList.delete k ?d @ [(k, n)]) = insert k (fst ` set ?d)" for n
    by (auto simp: AList.delete_eq image_iff)
  have vals: "(\<forall>(j, m) \<in> set (AList.delete k ?d @ [(k, n)]). 0 \<le> m \<and> m \<le> cb_limit b)" if "0 \<le> n" "n \<le> cb_limit b" for n
    using assms(1) that by (auto simp: budget_ok_def AList.delete_eq)
  have used: "(case map_of ?d k of None \<Rightarrow> 0 | Some n \<Rightarrow> n) = calls b k" by (simp add: calls_def)
  have nonneg: "0 \<le> calls b k" "calls b k \<le> cb_limit b"
    using assms(1) by (auto simp: budget_ok_def calls_def split: option.split dest!: map_of_SomeD)
  have ok: "budget_ok (b\<lparr>cb_counts := AList.delete k ?d @ [(k, n)]\<rparr>)" if "0 \<le> n" "n \<le> cb_limit b" for n
    using assms(1) fits [of n] vals [OF that] delete_keys [OF dist, of k n] by (simp add: budget_ok_def)
  show ?thesis
  proof (cases "calls b k < cb_limit b")
    case True
    then have b': "b' = b\<lparr>cb_counts := AList.delete k ?d @ [(k, calls b k + 1)]\<rparr>" "r = Inr (calls b k + 1)"
      using assms(3) evict_fits [OF fits] by (auto simp: consume_def used Let_def)
    have "calls b' = (calls b)(k := calls b k + 1)"
      unfolding b'(1) by (rule calls_put)
    with True b' ok [of "calls b k + 1"] nonneg keys show ?thesis by simp
  next
    case False
    then have b': "b' = b\<lparr>cb_counts := AList.delete k ?d @ [(k, calls b k)]\<rparr>" "\<exists>m. r = Inl (Permission_error m)"
      using assms(3) by (auto simp: consume_def used Let_def)
    have "calls b' = calls b"
      unfolding b'(1) calls_put by simp
    with False b' ok [of "calls b k"] nonneg keys show ?thesis by simp
  qed
qed

theorem consume_refines_counter_witness:
  "calls (snd (consume ''t'' (new_budget 2 5))) ''t'' = 1"
proof -
  have "budget_ok (new_budget 2 5)" "card (insert ''t'' (fst ` set (cb_counts (new_budget 2 5)))) \<le> nat (cb_max_tasks (new_budget 2 5))"
    by (simp_all add: budget_ok_def new_budget_def)
  from consume_refines_counter [OF this prod.collapse [symmetric]] show ?thesis
    by (simp add: calls_def new_budget_def)
qed

text \<open>
  C32. The memory of a budget is bounded: whatever task ids call, after a call that succeeds at most
  \<open>max_tasks\<close> tasks are tracked, and a task's own call is granted at most \<open>limit\<close>.
\<close>

theorem consume_bounded:
  assumes "0 \<le> cb_max_tasks b" and "consume k b = (Inr n, b')"
  shows "int (length (cb_counts b')) \<le> cb_max_tasks b' \<and> n \<le> cb_limit b'"
proof -
  obtain ys where "evict (cb_max_tasks b) (AList.delete k (cb_counts b) @ [(k, calls b k + 1)]) = Inr ys"
    and "int (length ys) \<le> cb_max_tasks b"
    using evict_within [OF assms(1)] by blast
  with assms(2) show ?thesis
    by (auto simp: consume_def Let_def calls_def split: if_splits option.splits)
qed

theorem consume_bounded_witness:
  "int (length (cb_counts (snd (consume ''t'' (new_budget 2 5))))) \<le> 5"
proof -
  have "consume ''t'' (new_budget 2 5) = (Inr 1, (new_budget 2 5)\<lparr>cb_counts := [(''t'', 1)]\<rparr>)"
    by (simp add: consume_def new_budget_def AList.delete_eq)
  from consume_bounded [OF _ this] show ?thesis
    by (simp add: consume_def new_budget_def AList.delete_eq)
qed

end
