(* ===== verification/Heartbeat_Monitor.thy ===== *)
theory Heartbeat_Monitor
  imports Wait_Clock Message_Bus
begin

text \<open>
  \<open>session-manager/heartbeat.py\<close>: the per-workflow lost and runtime-timeout sweeps, their
  notifications, and one round of the monitor.  \<open>agent_yaml w\<close> is what \<open>load_agent_yaml\<close> reads from
  disk for \<open>w\<close>.
\<close>

section \<open>Timeouts\<close>

definition DEFAULT_LOST_TIMEOUT_SEC :: int where
  "DEFAULT_LOST_TIMEOUT_SEC = 300"

text \<open>\<open>except (TypeError, ValueError): return default\<close>; other exceptions pass.\<close>

definition int_or_default :: "int \<Rightarrow> int result \<Rightarrow> int result" where
  "int_or_default fallback r =
     (case r of Inl Type_error \<Rightarrow> Inr fallback | Inl (Value_error e) \<Rightarrow> Inr fallback | _ \<Rightarrow> r)"

definition runtime_section :: "(string \<Rightarrow> pyval) \<Rightarrow> string \<Rightarrow> pyval" where
  "runtime_section agent_yaml workflow =
     (case py_or (agent_yaml workflow) (PDict []) of
        PDict config \<Rightarrow> dict_get_default config ''runtime'' (PDict [])
      | _ \<Rightarrow> PDict [])"

definition workflow_runtime_timeout_sec :: "(string \<Rightarrow> pyval) \<Rightarrow> string \<Rightarrow> int result" where
  "workflow_runtime_timeout_sec agent_yaml workflow =
     result_bind (as_dict (runtime_section agent_yaml workflow)) (\<lambda>runtime.
       int_or_default DEFAULT_LOST_TIMEOUT_SEC
         (py_int (dict_get_default runtime ''runtime_timeout_sec''
            (dict_get_default runtime ''lost_task_timeout_sec'' (PInt DEFAULT_LOST_TIMEOUT_SEC)))))"

definition workflow_lost_timeout_sec :: "(string \<Rightarrow> pyval) \<Rightarrow> string \<Rightarrow> int result" where
  "workflow_lost_timeout_sec agent_yaml workflow =
     result_bind (as_dict (runtime_section agent_yaml workflow)) (\<lambda>runtime.
       int_or_default DEFAULT_LOST_TIMEOUT_SEC
         (py_int (dict_get_default runtime ''lost_task_timeout_sec'' (PInt DEFAULT_LOST_TIMEOUT_SEC))))"

section \<open>Sweeps\<close>

text \<open>\<open>ORDER BY started DESC\<close>: a missing start sorts first.\<close>

definition started_key :: "sess \<Rightarrow> nat \<times> datetime" where
  "started_key s = (case ss_started s of None \<Rightarrow> (1, 0) | Some n \<Rightarrow> (0, n))"

definition latest_task_session :: "db \<Rightarrow> uuid \<Rightarrow> sess option" where
  "latest_task_session d i =
     first_row (order_rows False started_key (select_where (\<lambda>s. ss_task_id s = Some i) (sessions d)))"

definition update_session :: "uuid \<Rightarrow> (sess \<Rightarrow> sess) \<Rightarrow> db \<Rightarrow> db" where
  "update_session i f d = d\<lparr>sessions := update_where (\<lambda>s. ss_id s = i) f (sessions d)\<rparr>"

text \<open>The still open session of a task that is being closed.\<close>

definition close_session ::
    "sess option \<Rightarrow> string \<Rightarrow> datetime \<Rightarrow> seconds option \<Rightarrow> string \<Rightarrow> db \<Rightarrow> db" where
  "close_session db_session status now duration error_msg d =
     (case db_session of
        None \<Rightarrow> d
      | Some s \<Rightarrow>
          (if ss_ended s \<noteq> None then d
           else update_session (ss_id s)
                  (\<lambda>r. r\<lparr>ss_status := status, ss_ended := Some now, ss_duration_sec := duration,
                         ss_error := Some error_msg\<rparr>) d))"

definition close_lost_task :: "datetime \<Rightarrow> datetime \<Rightarrow> int \<Rightarrow> datetime \<Rightarrow> task \<Rightarrow> db \<Rightarrow> db" where
  "close_lost_task now tx_now lost_timeout_sec heartbeat_at t d =
     (let error_msg = ''Heartbeat expired (>'' @ int_str lost_timeout_sec @ ''s without update)'';
          d1 = update_tasks tx_now (\<lambda>r. t_id r = t_id t) (\<lambda>_. lose_task lost_timeout_sec t) d;
          db_session = latest_task_session d1 (t_id t);
          runtime_sec = (case db_session of None \<Rightarrow> None
            | Some s \<Rightarrow> map_option (\<lambda>started. now - started) (ss_started s));
          d2 = close_session db_session ''lost'' now runtime_sec error_msg d1
      in add_task_event tx_now (t_id t) ''task_lost''
           [(''timeout_sec'', PInt lost_timeout_sec), (''last_heartbeat'', PStr (isoformat heartbeat_at)),
            (''session_id'', opt_val (\<lambda>s. PStr (uuid_str (ss_id s))) db_session)] d2)"

definition lost_task_step ::
    "(string \<Rightarrow> pyval) \<Rightarrow> datetime \<Rightarrow> datetime \<Rightarrow> uuid list \<times> db \<Rightarrow> task \<Rightarrow> (uuid list \<times> db) result" where
  "lost_task_step agent_yaml now tx_now st t =
     result_bind (workflow_lost_timeout_sec agent_yaml (t_workflow t)) (\<lambda>lost_timeout_sec.
       case t_heartbeat t of
         None \<Rightarrow> Inr st
       | Some heartbeat_at \<Rightarrow>
           (if lost_timeout_sec \<le> 0 \<or> heartbeat_at \<ge> now - of_int lost_timeout_sec then Inr st
            else Inr (fst st @ [t_id t], close_lost_task now tx_now lost_timeout_sec heartbeat_at t (snd st))))"

definition running_tasks :: "db \<Rightarrow> task list" where
  "running_tasks d = select_where (\<lambda>t. t_status t = Running) (tasks d)"

definition lost_task_sweep :: "(string \<Rightarrow> pyval) \<Rightarrow> datetime \<Rightarrow> datetime \<Rightarrow> db \<Rightarrow> (uuid list \<times> db) result" where
  "lost_task_sweep agent_yaml now tx_now d =
     result_fold (lost_task_step agent_yaml now tx_now) ([], d) (running_tasks d)"

definition session_start :: "db \<Rightarrow> task \<Rightarrow> datetime" where
  "session_start d t =
     (case latest_task_session d (t_id t) of
        None \<Rightarrow> t_created t
      | Some s \<Rightarrow> (case ss_started s of None \<Rightarrow> t_created t | Some n \<Rightarrow> n))"

definition time_out_task :: "int \<Rightarrow> seconds \<Rightarrow> task \<Rightarrow> task" where
  "time_out_task timeout_sec runtime_sec t =
     t\<lparr>t_status := Timed_out,
       t_error := Some (''Runtime exceeded configured timeout (>'' @ int_str timeout_sec @ ''s)''),
       t_duration_sec := PFloat runtime_sec\<rparr>"

definition close_timed_out_task :: "datetime \<Rightarrow> datetime \<Rightarrow> int \<Rightarrow> datetime \<Rightarrow> task \<Rightarrow> db \<Rightarrow> db" where
  "close_timed_out_task now tx_now timeout_sec started_at t d =
     (let db_session = latest_task_session d (t_id t);
          runtime_sec = active_runtime_sec t started_at now;
          error_msg = ''Runtime exceeded configured timeout (>'' @ int_str timeout_sec @ ''s)'';
          d1 = update_tasks tx_now (\<lambda>r. t_id r = t_id t) (\<lambda>_. time_out_task timeout_sec runtime_sec t) d;
          d2 = close_session db_session ''timed_out'' now (Some runtime_sec) error_msg d1
      in add_task_event tx_now (t_id t) ''task_timed_out''
           [(''timeout_sec'', PInt timeout_sec), (''runtime_sec'', PFloat runtime_sec),
            (''started_at'', PStr (isoformat started_at)),
            (''session_id'', opt_val (\<lambda>s. PStr (uuid_str (ss_id s))) db_session)] d2)"

definition runtime_timeout_step ::
    "(string \<Rightarrow> pyval) \<Rightarrow> datetime \<Rightarrow> datetime \<Rightarrow> uuid list \<times> db \<Rightarrow> task \<Rightarrow> (uuid list \<times> db) result" where
  "runtime_timeout_step agent_yaml now tx_now st t =
     result_bind (workflow_runtime_timeout_sec agent_yaml (t_workflow t)) (\<lambda>timeout_sec.
       if timeout_sec \<le> 0 then Inr st
       else
         let started_at = session_start (snd st) t
         in if active_runtime_sec t started_at now \<le> of_int timeout_sec then Inr st
            else Inr (fst st @ [t_id t], close_timed_out_task now tx_now timeout_sec started_at t (snd st)))"

definition runtime_timeout_sweep :: "(string \<Rightarrow> pyval) \<Rightarrow> datetime \<Rightarrow> datetime \<Rightarrow> db \<Rightarrow> (uuid list \<times> db) result" where
  "runtime_timeout_sweep agent_yaml now tx_now d =
     result_fold (runtime_timeout_step agent_yaml now tx_now) ([], d) (running_tasks d)"

section \<open>Notifications and the monitor\<close>

definition minutes_or_seconds :: "int \<Rightarrow> string" where
  "minutes_or_seconds n =
     int_str (if n \<ge> 60 then n div 60 else n) @ (if n \<ge> 60 then '' minutes'' else '' seconds'')"

text \<open>The em dash of the texts is its three UTF-8 bytes.\<close>

definition dash :: string where
  "dash = [CHR 0xE2, CHR 0x80, CHR 0x94]"

definition quoted_id :: "uuid \<Rightarrow> string" where
  "quoted_id i = [CHR 0x60] @ take 8 (uuid_str i) @ [CHR 0x60]"

text \<open>The guards and the post common to the two notifications; \<open>timeout_text\<close> builds the text.\<close>

definition notify_task ::
    "settings \<Rightarrow> transport \<Rightarrow> (task \<Rightarrow> string result) \<Rightarrow> db \<Rightarrow> uuid \<Rightarrow> message_ref option result" where
  "notify_task cfg tr timeout_text d i =
     (let mb = s_message_bus cfg in
      if mb_api_url mb = [] then Inr None
      else case get_task d i of
        None \<Rightarrow> Inr None
      | Some t \<Rightarrow>
          (case t_message_channel t of
             None \<Rightarrow> Inr None
           | Some channel \<Rightarrow>
               (if channel = [] \<or> mb_bot_token mb = [] then Inr None
                else result_bind (timeout_text t) (\<lambda>msg.
                  let m = t_metadata t;
                      team_name = py_str (py_or (py_or (py_or (dict_get m ''team_domain'') (dict_get m ''team_name''))
                                    (PStr (mb_team_name mb))) (PStr []))
                  in post_channel_message tr
                       \<lparr>bt_provider = mb_provider mb, bt_api_url = mb_api_url mb, bt_bot_token = mb_bot_token mb,
                        bt_channel_id = str_or_empty (dict_get m ''channel_id''), bt_channel_name = channel,
                        bt_team_id = str_or_empty (dict_get m ''team_id''), bt_team_name = team_name\<rparr>
                       msg (case t_message_thread t of None \<Rightarrow> [] | Some th \<Rightarrow> th)))))"

definition notify_lost_task ::
    "(string \<Rightarrow> pyval) \<Rightarrow> settings \<Rightarrow> transport \<Rightarrow> db \<Rightarrow> uuid \<Rightarrow> message_ref option result" where
  "notify_lost_task agent_yaml cfg tr d i =
     notify_task cfg tr (\<lambda>t.
       result_map (\<lambda>n. '':warning: **Task Lost** '' @ dash @ '' '' @ quoted_id i @ newline
           @ ''Investigation lost '' @ dash @ '' agent container did not respond within '' @ minutes_or_seconds n @ ''.''
           @ newline @ ''Workflow: '' @ t_workflow t)
         (workflow_lost_timeout_sec agent_yaml (t_workflow t))) d i"

definition notify_timed_out_task ::
    "(string \<Rightarrow> pyval) \<Rightarrow> settings \<Rightarrow> transport \<Rightarrow> db \<Rightarrow> uuid \<Rightarrow> message_ref option result" where
  "notify_timed_out_task agent_yaml cfg tr d i =
     notify_task cfg tr (\<lambda>t.
       result_map (\<lambda>n. '':warning: **Task Timed Out** '' @ dash @ '' '' @ quoted_id i @ newline
           @ ''Investigation exceeded the configured runtime timeout of '' @ minutes_or_seconds n @ ''.''
           @ newline @ ''Workflow: '' @ t_workflow t)
         (workflow_runtime_timeout_sec agent_yaml (t_workflow t))) d i"

text \<open>
  One round of the monitor.  Each sweep commits on its own; the notifications and the cancellations
  of runtimes follow, in order, until one raises (a cancellation never does).  The second component
  lists the runtimes cancelled.
\<close>

fun notify_and_cancel :: "(uuid \<Rightarrow> message_ref option result) \<Rightarrow> uuid list \<Rightarrow> uuid list \<Rightarrow> uuid list result" where
  "notify_and_cancel notify [] cancelled = Inr cancelled"
| "notify_and_cancel notify (i # ids) cancelled =
     result_bind (notify i) (\<lambda>_. notify_and_cancel notify ids (cancelled @ [i]))"

definition heartbeat_monitor_round ::
    "(string \<Rightarrow> pyval) \<Rightarrow> settings \<Rightarrow> transport \<Rightarrow> datetime \<Rightarrow> datetime \<Rightarrow> db \<Rightarrow> uuid list result \<times> db" where
  "heartbeat_monitor_round agent_yaml cfg tr now tx_now d =
     (case lost_task_sweep agent_yaml now tx_now d of
        Inl e \<Rightarrow> (Inl e, d)
      | Inr (lost_ids, d1) \<Rightarrow>
          (case runtime_timeout_sweep agent_yaml now tx_now d1 of
             Inl e \<Rightarrow> (Inl e, d1)
           | Inr (timed_out_ids, d2) \<Rightarrow>
               (let (waiting_ids, d3) = waiting_timeout_sweep now tx_now d2
                in (result_bind (notify_and_cancel (notify_lost_task agent_yaml cfg tr d3) lost_ids []) (\<lambda>c1.
                    result_bind (notify_and_cancel (notify_timed_out_task agent_yaml cfg tr d3) timed_out_ids c1)
                      (notify_and_cancel (notify_timed_out_task agent_yaml cfg tr d3) waiting_ids)), d3))))"

section \<open>The sweeps as bulk updates\<close>

text \<open>Which running tasks the lost sweep closes, and how.\<close>

definition lost_now :: "(string \<Rightarrow> pyval) \<Rightarrow> datetime \<Rightarrow> task \<Rightarrow> bool" where
  "lost_now agent_yaml now t \<longleftrightarrow>
     t_status t = Running
     \<and> (case workflow_lost_timeout_sec agent_yaml (t_workflow t) of
          Inl _ \<Rightarrow> False
        | Inr n \<Rightarrow> n > 0 \<and> (case t_heartbeat t of None \<Rightarrow> False | Some h \<Rightarrow> h < now - of_int n))"

definition lose_now :: "(string \<Rightarrow> pyval) \<Rightarrow> task \<Rightarrow> task" where
  "lose_now agent_yaml t =
     (case workflow_lost_timeout_sec agent_yaml (t_workflow t) of Inl _ \<Rightarrow> lose_task 0 t | Inr n \<Rightarrow> lose_task n t)"

interpretation workflow_lost: sweep t_id "touched tx_now (lose_now agent_yaml)" "lost_now agent_yaml now"
  for tx_now agent_yaml now
  by unfold_locales (simp_all add: lose_now_def lost_now_def split: sum.split)

lemma close_session_frame [simp]:
  "tasks (close_session s st n r e d) = tasks d" "next_uuid (close_session s st n r e d) = next_uuid d"
  "task_events (close_session s st n r e d) = task_events d"
  by (simp_all add: close_session_def update_session_def split: option.split)

lemma close_lost_task_rows [simp]:
  "tasks (close_lost_task now tx_now n h t d) = write_back t_id (touched tx_now (lose_task n)) t (tasks d)"
  by (simp add: close_lost_task_def Let_def tasks_update_tasks write_back_def touched_def)

lemma lost_task_step_ok:
  assumes "lost_task_step agent_yaml now tx_now st t = Inr st'" and "t_status t = Running"
  shows "tasks (snd st') = (if lost_now agent_yaml now t
      then write_back t_id (touched tx_now (lose_now agent_yaml)) t (tasks (snd st)) else tasks (snd st))
    \<and> fst st' = fst st @ (if lost_now agent_yaml now t then [t_id t] else [])"
proof -
  obtain n where n: "workflow_lost_timeout_sec agent_yaml (t_workflow t) = Inr n"
    using assms(1) by (auto simp: lost_task_step_def result_bind_Inr_iff)
  show ?thesis
  proof (cases "lost_now agent_yaml now t")
    case True
    then obtain h where "t_heartbeat t = Some h" "n > 0" "h < now - of_int n"
      by (auto simp: lost_now_def n split: option.splits)
    then have "st' = (fst st @ [t_id t], close_lost_task now tx_now n h t (snd st))"
      using assms(1) by (simp add: lost_task_step_def n)
    moreover have "touched tx_now (lose_task n) t = touched tx_now (lose_now agent_yaml) t"
      by (simp add: touched_def lose_now_def n)
    ultimately show ?thesis using True by (simp add: write_back_def)
  next
    case False
    then have "st' = st"
      using assms by (auto simp: lost_task_step_def n lost_now_def split: option.splits if_splits)
    with False show ?thesis by simp
  qed
qed

lemma lost_fold:
  assumes "result_fold (lost_task_step agent_yaml now tx_now) st ts = Inr st'" and "\<forall>t \<in> set ts. t_status t = Running"
  shows "tasks (snd st') = foldl (\<lambda>rs t. write_back t_id (touched tx_now (lose_now agent_yaml)) t rs)
      (tasks (snd st)) (filter (lost_now agent_yaml now) ts)
    \<and> fst st' = fst st @ map t_id (filter (lost_now agent_yaml now) ts)"
  using assms
proof (induction ts arbitrary: st)
  case (Cons t ts)
  then obtain st1 where s: "lost_task_step agent_yaml now tx_now st t = Inr st1"
    and r: "result_fold (lost_task_step agent_yaml now tx_now) st1 ts = Inr st'"
    by (auto simp: result_bind_Inr_iff)
  from Cons.IH [OF r] Cons.prems(2) lost_task_step_ok [OF s] show ?case by auto
qed simp

lemma lost_task_sweep_rows:
  assumes "wf_tasks d" and "lost_task_sweep agent_yaml now tx_now d = Inr (ids, d')"
  shows "tasks d' = update_where (lost_now agent_yaml now) (touched tx_now (lose_now agent_yaml)) (tasks d)
    \<and> ids = map t_id (filter (lost_now agent_yaml now) (tasks d))"
proof -
  have sub: "filter (lost_now agent_yaml now) (running_tasks d) = select_where (lost_now agent_yaml now) (tasks d)"
    by (auto simp: running_tasks_def select_where_def lost_now_def intro: filter_cong)
  have run: "\<forall>t \<in> set (running_tasks d). t_status t = Running"
    by (simp add: running_tasks_def table_simps)
  show ?thesis
    using lost_fold [OF assms(2) [unfolded lost_task_sweep_def] run]
      workflow_lost.sweep_is_update [OF wf_tasks_distinct [OF assms(1)], of agent_yaml now tx_now]
    by (simp add: sub sweep_rows_def) (simp add: select_where_def)
qed

text \<open>Closing sessions does not move the start of any session.\<close>

lemma session_start_close [simp]: "session_start (close_session s st n r e d) t = session_start d t"
proof (cases s)
  case None
  then show ?thesis by (simp add: close_session_def)
next
  case (Some s0)
  let ?g = "\<lambda>x. if ss_id x = ss_id s0 then x\<lparr>ss_status := st, ss_ended := Some n, ss_duration_sec := r, ss_error := Some e\<rparr> else x"
  have rows: "sessions (close_session s st n r e d) = sessions d \<or> sessions (close_session s st n r e d) = map ?g (sessions d)"
    by (auto simp: Some close_session_def update_session_def update_where_def)
  have g: "started_key (?g x) = started_key x" "ss_task_id (?g x) = ss_task_id x" "ss_started (?g x) = ss_started x" for x
    by (simp_all add: started_key_def)
  have "order_rows False started_key (select_where (\<lambda>x. ss_task_id x = Some (t_id t)) (map ?g (sessions d)))
      = map ?g (order_rows False started_key (select_where (\<lambda>x. ss_task_id x = Some (t_id t)) (sessions d)))"
    using g by (subst select_map, simp, subst order_rows_map) simp_all
  then have "map_option ss_started (latest_task_session (close_session s st n r e d) (t_id t))
      = map_option ss_started (latest_task_session d (t_id t))"
    using rows g by (auto simp: latest_task_session_def first_row_map option.map_comp o_def)
  then show ?thesis
    by (auto simp: session_start_def split: option.splits)
qed

lemma session_start_frame [simp]:
  "session_start (update_tasks n P f d) t = session_start d t"
  "session_start (add_task_event n i e x d) t = session_start d t"
  by (simp_all add: session_start_def latest_task_session_def)

definition overdue :: "(string \<Rightarrow> pyval) \<Rightarrow> datetime \<Rightarrow> db \<Rightarrow> task \<Rightarrow> bool" where
  "overdue agent_yaml now d t \<longleftrightarrow>
     t_status t = Running
     \<and> (case workflow_runtime_timeout_sec agent_yaml (t_workflow t) of
          Inl _ \<Rightarrow> False
        | Inr n \<Rightarrow> n > 0 \<and> active_runtime_sec t (session_start d t) now > of_int n)"

definition time_out_now :: "(string \<Rightarrow> pyval) \<Rightarrow> datetime \<Rightarrow> db \<Rightarrow> task \<Rightarrow> task" where
  "time_out_now agent_yaml now d t =
     (case workflow_runtime_timeout_sec agent_yaml (t_workflow t) of
        Inl _ \<Rightarrow> time_out_task 0 0 t
      | Inr n \<Rightarrow> time_out_task n (active_runtime_sec t (session_start d t) now) t)"

interpretation workflow_timeout: sweep t_id "touched tx_now (time_out_now agent_yaml now d)" "overdue agent_yaml now d"
  for tx_now agent_yaml now d
  by unfold_locales (simp_all add: time_out_now_def overdue_def time_out_task_def split: sum.split)

lemma close_timed_out_rows [simp]:
  "tasks (close_timed_out_task now tx_now n s t d)
   = write_back t_id (touched tx_now (time_out_task n (active_runtime_sec t s now))) t (tasks d)"
  "session_start (close_timed_out_task now tx_now n s t d) u = session_start d u"
  by (simp_all add: close_timed_out_task_def Let_def tasks_update_tasks write_back_def touched_def)

lemma runtime_timeout_step_ok:
  assumes "runtime_timeout_step agent_yaml now tx_now st t = Inr st'" and "t_status t = Running"
    and start: "\<And>u. session_start (snd st) u = session_start d u"
  shows "tasks (snd st') = (if overdue agent_yaml now d t
      then write_back t_id (touched tx_now (time_out_now agent_yaml now d)) t (tasks (snd st)) else tasks (snd st))
    \<and> fst st' = fst st @ (if overdue agent_yaml now d t then [t_id t] else [])
    \<and> (\<forall>u. session_start (snd st') u = session_start d u)"
proof -
  obtain n where n: "workflow_runtime_timeout_sec agent_yaml (t_workflow t) = Inr n"
    using assms(1) by (auto simp: runtime_timeout_step_def result_bind_Inr_iff)
  show ?thesis
  proof (cases "overdue agent_yaml now d t")
    case True
    then have "n > 0" "active_runtime_sec t (session_start d t) now > of_int n"
      by (auto simp: overdue_def n)
    then have "st' = (fst st @ [t_id t], close_timed_out_task now tx_now n (session_start d t) t (snd st))"
      using assms(1) by (simp add: runtime_timeout_step_def n start)
    moreover have "touched tx_now (time_out_task n (active_runtime_sec t (session_start d t) now)) t
        = touched tx_now (time_out_now agent_yaml now d) t"
      by (simp add: touched_def time_out_now_def n)
    ultimately show ?thesis using True start by (simp add: write_back_def)
  next
    case False
    then have "st' = st"
      using assms by (auto simp: runtime_timeout_step_def n overdue_def Let_def split: if_splits)
    with False start show ?thesis by simp
  qed
qed

lemma runtime_timeout_fold:
  assumes "result_fold (runtime_timeout_step agent_yaml now tx_now) st ts = Inr st'"
    and "\<forall>t \<in> set ts. t_status t = Running" and "\<And>u. session_start (snd st) u = session_start d u"
  shows "tasks (snd st') = foldl (\<lambda>rs t. write_back t_id (touched tx_now (time_out_now agent_yaml now d)) t rs)
      (tasks (snd st)) (filter (overdue agent_yaml now d) ts)
    \<and> fst st' = fst st @ map t_id (filter (overdue agent_yaml now d) ts)"
  using assms
proof (induction ts arbitrary: st)
  case (Cons t ts)
  then obtain st1 where s: "runtime_timeout_step agent_yaml now tx_now st t = Inr st1"
    and r: "result_fold (runtime_timeout_step agent_yaml now tx_now) st1 ts = Inr st'"
    by (auto simp: result_bind_Inr_iff)
  have t: "t_status t = Running" using Cons.prems(2) by simp
  note one = runtime_timeout_step_ok [OF s t Cons.prems(3)]
  have rest: "\<forall>t \<in> set ts. t_status t = Running" using Cons.prems(2) by simp
  from Cons.IH [OF r rest] one show ?case by auto
qed simp

section \<open>Properties\<close>

text \<open>
  The lost sweep closes exactly the silent tasks: running tasks of workflows with a positive
  lost timeout whose heartbeat is older than it become lost, in one bulk update; tasks that wait for
  a person, that heartbeat in time or that never did are left alone, and the returned ids are those
  of the closed tasks.
\<close>

theorem lost_task_sweep_exact:
  assumes "wf_tasks d" and "lost_task_sweep agent_yaml now tx_now d = Inr (ids, d')"
  shows "tasks d' = map (\<lambda>t. if lost_now agent_yaml now t then touched tx_now (lose_now agent_yaml) t else t) (tasks d)
    \<and> ids = map t_id (filter (lost_now agent_yaml now) (tasks d))
    \<and> (\<forall>t \<in> set (tasks d'). \<not> lost_now agent_yaml now t)"
proof -
  note rows = lost_task_sweep_rows [OF assms]
  have "\<not> lost_now agent_yaml now t" if "t \<in> set (tasks d')" for t
    using that rows workflow_lost.sweep_clears by metis
  with rows show ?thesis unfolding update_where_def by blast
qed

definition no_yaml :: "string \<Rightarrow> pyval" where
  "no_yaml w = PDict []"

lemma no_yaml_timeouts:
  "workflow_lost_timeout_sec no_yaml w = Inr 300" "workflow_runtime_timeout_sec no_yaml w = Inr 300"
  by (simp_all add: workflow_lost_timeout_sec_def workflow_runtime_timeout_sec_def runtime_section_def no_yaml_def
      py_or_def DEFAULT_LOST_TIMEOUT_SEC_def int_or_default_def)

definition silent_task :: task where
  "silent_task = demo_task\<lparr>t_status := Running, t_heartbeat := Some 10\<rparr>"

definition silent_db :: db where
  "silent_db = demo_db\<lparr>tasks := [silent_task]\<rparr>"

lemma silent_wf: "wf_tasks silent_db"
  by (simp add: wf_tasks_def silent_db_def silent_task_def demo_simps)

lemma silent_running: "running_tasks silent_db = [silent_task]"
  by (simp add: running_tasks_def select_where_def silent_db_def silent_task_def)

lemma silent_lost: "\<exists>ids d'. lost_task_sweep no_yaml 1000 1000 silent_db = Inr (ids, d')"
  by (simp add: lost_task_sweep_def silent_running lost_task_step_def no_yaml_timeouts silent_task_def)

lemma silent_lost_now: "filter (lost_now no_yaml 1000) (tasks silent_db) = [silent_task]" "t_id silent_task = 0"
  by (simp_all add: silent_db_def lost_now_def silent_task_def no_yaml_timeouts demo_simps)

theorem lost_task_sweep_exact_witness:
  "\<exists>d'. lost_task_sweep no_yaml 1000 1000 silent_db = Inr ([0], d')"
proof -
  obtain ids d' where s: "lost_task_sweep no_yaml 1000 1000 silent_db = Inr (ids, d')"
    using silent_lost by blast
  have "ids = [0]"
    using lost_task_sweep_exact [OF silent_wf s] unfolding silent_lost_now by (simp only: list.map silent_lost_now)
  with s show ?thesis by blast
qed

text \<open>
  C20. The runtime ceiling counts working time only.  The runtime-timeout sweep times out exactly the
  running tasks whose active runtime (the time since their latest session began, without waits)
  exceeds their workflow's positive timeout, records that runtime as their duration, and leaves every
  other task as it was.
\<close>

theorem runtime_timeout_sweep_exact:
  assumes "wf_tasks d" and "runtime_timeout_sweep agent_yaml now tx_now d = Inr (ids, d')"
  shows "tasks d' = map (\<lambda>t. if overdue agent_yaml now d t then touched tx_now (time_out_now agent_yaml now d) t else t) (tasks d)
    \<and> ids = map t_id (filter (overdue agent_yaml now d) (tasks d))"
proof -
  have sub: "filter (overdue agent_yaml now d) (running_tasks d) = select_where (overdue agent_yaml now d) (tasks d)"
    by (auto simp: running_tasks_def select_where_def overdue_def intro: filter_cong)
  have run: "\<forall>t \<in> set (running_tasks d). t_status t = Running"
    by (simp add: running_tasks_def table_simps)
  have "tasks d' = sweep_rows t_id (overdue agent_yaml now d) (touched tx_now (time_out_now agent_yaml now d)) (tasks d)
    \<and> ids = map t_id (select_where (overdue agent_yaml now d) (tasks d))"
    using runtime_timeout_fold [OF assms(2) [unfolded runtime_timeout_sweep_def] run, of d]
    by (simp add: sub sweep_rows_def)
  then show ?thesis
    using workflow_timeout.sweep_is_update [OF wf_tasks_distinct [OF assms(1)], of agent_yaml now d tx_now]
    by (simp add: update_where_def select_where_def)
qed

lemma silent_timeout: "\<exists>ids d'. runtime_timeout_sweep no_yaml 1000 1000 silent_db = Inr (ids, d')"
  by (simp add: runtime_timeout_sweep_def silent_running runtime_timeout_step_def no_yaml_timeouts Let_def)

lemma silent_overdue: "filter (overdue no_yaml 1000 silent_db) (tasks silent_db) = [silent_task]"
  by (simp add: silent_db_def overdue_def silent_task_def no_yaml_timeouts demo_simps active_runtime_sec_def
      session_start_def latest_task_session_def)

theorem runtime_timeout_sweep_exact_witness:
  "\<exists>d'. runtime_timeout_sweep no_yaml 1000 1000 silent_db = Inr ([0], d')"
proof -
  obtain ids d' where s: "runtime_timeout_sweep no_yaml 1000 1000 silent_db = Inr (ids, d')"
    using silent_timeout by blast
  have "ids = [0]"
    using runtime_timeout_sweep_exact [OF silent_wf s] unfolding silent_overdue by (simp only: list.map silent_lost_now)
  with s show ?thesis by blast
qed

text \<open>
  C21. One malformed workflow stops the monitor for all: while any running task belongs to a workflow
  whose \<open>runtime\<close> section is not a mapping, a round of the monitor raises before any task is
  examined further, changes no row, and no lost, overdue or expired task of any workflow is closed.
\<close>

theorem malformed_runtime_stops_monitor:
  assumes "t \<in> set (tasks d)" and "t_status t = Running" and "\<not> is_dict (runtime_section agent_yaml (t_workflow t))"
  shows "\<exists>e. heartbeat_monitor_round agent_yaml cfg tr now tx_now d = (Inl e, d)"
proof -
  have bad: "workflow_lost_timeout_sec agent_yaml (t_workflow t) = Inl Attribute_error"
    using assms(3) by (cases "runtime_section agent_yaml (t_workflow t)") (simp_all add: workflow_lost_timeout_sec_def)
  have "\<exists>e. result_fold (lost_task_step agent_yaml now tx_now) st ts = Inl e" if "t \<in> set ts" for st ts
    using that
  proof (induction ts arbitrary: st)
    case (Cons u ts)
    show ?case
    proof (cases "lost_task_step agent_yaml now tx_now st u")
      case (Inr st1)
      then have "u \<noteq> t" using bad by (auto simp: lost_task_step_def)
      with Cons Inr show ?thesis by simp
    qed simp
  qed simp
  moreover have "t \<in> set (running_tasks d)"
    using assms(1,2) by (simp add: running_tasks_def table_simps)
  ultimately obtain e where "lost_task_sweep agent_yaml now tx_now d = Inl e"
    unfolding lost_task_sweep_def by blast
  then show ?thesis by (simp add: heartbeat_monitor_round_def)
qed

definition null_runtime :: "string \<Rightarrow> pyval" where
  "null_runtime w = PDict [(''runtime'', PNone)]"

theorem malformed_runtime_stops_monitor_witness:
  "\<exists>e. heartbeat_monitor_round null_runtime default_settings \<lparr>tr_mattermost = (\<lambda>_. Inr []), tr_slack = (\<lambda>_. Inr [])\<rparr> 1000 1000 silent_db = (Inl e, silent_db)"
  by (rule malformed_runtime_stops_monitor [of silent_task])
    (simp_all add: silent_db_def silent_task_def runtime_section_def null_runtime_def py_or_def)

end
