(* ===== verification/Scheduler.thy ===== *)
theory Scheduler
  imports Task_Queue
begin

text \<open>
  \<open>gateway/scheduler.py\<close>: cron schedules.  APScheduler is not part of the repository: the running
  scheduler is a value of any type \<open>'s\<close> with the operations the code calls, and \<open>CronTrigger\<close> is a
  parameter that gives the next fire time or raises.  \<open>scheduler_laws\<close> states the documented
  behaviour the code relies on: jobs are keyed by id, and adding with \<open>replace_existing\<close> replaces.
\<close>

section \<open>Interfaces\<close>

type_synonym trigger = "datetime \<Rightarrow> datetime option"
type_synonym cron_trigger = "string list \<Rightarrow> trigger result"

record job =
  jb_agent_name :: string
  jb_schedule_name :: string
  jb_prompt :: string
  jb_message_channel :: "string option"
  jb_name :: string
  jb_cron_fields :: "string list"

record 's scheduler_api =
  sa_fresh :: 's
  sa_start :: "'s \<Rightarrow> 's"
  sa_add_job :: "string \<Rightarrow> job \<Rightarrow> 's \<Rightarrow> 's"
  sa_remove_job :: "string \<Rightarrow> 's \<Rightarrow> 's"
  sa_get_job :: "'s \<Rightarrow> string \<Rightarrow> job option"
  sa_job_ids :: "'s \<Rightarrow> string list"
  sa_next_run_time :: "'s \<Rightarrow> string \<Rightarrow> datetime option"

definition scheduler_laws :: "'s scheduler_api \<Rightarrow> bool" where
  "scheduler_laws api \<longleftrightarrow>
     (\<forall>i j s k. sa_get_job api (sa_add_job api i j s) k = (if k = i then Some j else sa_get_job api s k))
     \<and> (\<forall>i s k. sa_get_job api (sa_remove_job api i s) k = (if k = i then None else sa_get_job api s k))
     \<and> (\<forall>s. set (sa_job_ids api s) = {k. sa_get_job api s k \<noteq> None})"

section \<open>Operations\<close>

definition job_id :: "string \<Rightarrow> string \<Rightarrow> string" where
  "job_id agent_name schedule_name = agent_name @ '':'' @ schedule_name"

fun schedule_entry_channel :: "string \<Rightarrow> pyval list \<Rightarrow> string option" where
  "schedule_entry_channel name [] = None"
| "schedule_entry_channel name (sched # rest) =
     (case sched of
        PDict s \<Rightarrow>
          (if dict_get s ''name'' = PStr name \<and> truthy (dict_get s ''message_channel'')
           then Some (py_str (dict_get s ''message_channel''))
           else schedule_entry_channel name rest)
      | _ \<Rightarrow> schedule_entry_channel name rest)"

definition resolve_schedule_channel :: "pydict \<Rightarrow> string \<Rightarrow> string option result" where
  "resolve_schedule_channel agent_config schedule_name =
     result_map (\<lambda>schedules.
         case schedule_entry_channel schedule_name schedules of
           Some c \<Rightarrow> Some c
         | None \<Rightarrow>
             (let messaging = py_or (dict_get agent_config ''messaging'') (PDict []);
                  channels = (case messaging of PDict m \<Rightarrow> dict_get_default m ''channels'' (PList []) | _ \<Rightarrow> PList [])
              in case channels of
                   PList cs \<Rightarrow>
                     (let normalized_name = replace_char (CHR ''_'') (CHR ''-'') schedule_name
                      in if PStr normalized_name \<in> set cs then Some normalized_name
                         else map_option py_str (first_row cs))
                 | _ \<Rightarrow> None))
       (py_iter (dict_get_default agent_config ''schedules'' (PList [])))"

text \<open>The three strips take white space, then double quotes, then single quotes off both ends.\<close>

definition cron_fields :: "string \<Rightarrow> string list" where
  "cron_fields cron_str = split_ws (strip_char (CHR 0x27) (strip_char (CHR 0x22) (strip cron_str)))"

definition parse_cron :: "cron_trigger \<Rightarrow> string \<Rightarrow> trigger result" where
  "parse_cron cron_trigger cron_str =
     (let parts = cron_fields cron_str
      in if length parts \<noteq> 5
         then Inl (Value_error (''Expected 5-field cron expression, got: '' @ cron_str))
         else cron_trigger parts)"

definition next_run_at :: "cron_trigger \<Rightarrow> datetime \<Rightarrow> string \<Rightarrow> datetime option \<Rightarrow> datetime option result" where
  "next_run_at cron_trigger now cron_str after =
     result_map (\<lambda>trigger. trigger (case after of None \<Rightarrow> now | Some a \<Rightarrow> a)) (parse_cron cron_trigger cron_str)"

definition compute_next_run :: "cron_trigger \<Rightarrow> datetime \<Rightarrow> string \<Rightarrow> string option" where
  "compute_next_run cron_trigger now cron_str =
     (case next_run_at cron_trigger now cron_str None of
        Inl _ \<Rightarrow> None | Inr next_fire \<Rightarrow> map_option isoformat next_fire)"

text \<open>The join of schedules with their agents, enabled schedules only.\<close>

definition find_agent :: "db \<Rightarrow> uuid \<Rightarrow> agent option" where
  "find_agent d i = find_row (\<lambda>a. ag_id a = i) (agents d)"

definition enabled_schedules :: "db \<Rightarrow> (schedule \<times> agent) list" where
  "enabled_schedules d =
     map (\<lambda>s. (s, the (find_agent d (sc_agent_id s))))
       (select_where (\<lambda>s. sc_enabled s \<and> find_agent d (sc_agent_id s) \<noteq> None) (schedules d))"

definition update_schedule :: "uuid \<Rightarrow> (schedule \<Rightarrow> schedule) \<Rightarrow> db \<Rightarrow> db" where
  "update_schedule i f d = d\<lparr>schedules := update_where (\<lambda>s. sc_id s = i) f (schedules d)\<rparr>"

text \<open>
  The handler of a fired job.  \<open>create_task\<close> commits, so the task stays when computing the next run
  raises afterwards.
\<close>

definition schedule_job_handler ::
    "(string \<Rightarrow> pydict option) \<Rightarrow> cron_trigger \<Rightarrow> datetime \<Rightarrow> datetime \<Rightarrow> string \<Rightarrow> string \<Rightarrow> string
     \<Rightarrow> string option \<Rightarrow> db \<Rightarrow> unit result \<times> db" where
  "schedule_job_handler package_config cron_trigger now tx_now agent_name schedule_name prompt message_channel d =
     (case filter (\<lambda>(s, a). ag_name a = agent_name \<and> sc_name s = schedule_name) (enabled_schedules d) of
        [] \<Rightarrow> (Inr (), d)
      | [(sched, agent)] \<Rightarrow>
          (if ag_paused agent then (Inr (), d)
           else
             let (task, d1) = create_task package_config tx_now
                   \<lparr>ta_workflow = agent_name, ta_prompt = prompt, ta_channel = Some ''schedule'', ta_initiator = None,
                    ta_metadata = Some [(''schedule'', PStr schedule_name), (''triggered_by'', PStr ''scheduler'')],
                    ta_message_channel = message_channel, ta_message_thread = None\<rparr> [] d
             in case next_run_at cron_trigger now (sc_cron sched) (Some now) of
                  Inl e \<Rightarrow> (Inl e, d1)
                | Inr next_run \<Rightarrow>
                    (Inr (), update_schedule (sc_id sched) (\<lambda>s. s\<lparr>sc_last_run := Some now, sc_next_run := next_run\<rparr>) d1))
      | _ \<Rightarrow> (Inl (Sql_error ''Multiple rows were found when one or none was required''), d))"

definition persist_next_runs :: "'s scheduler_api \<Rightarrow> 's option \<Rightarrow> db \<Rightarrow> db" where
  "persist_next_runs api scheduler d =
     (case scheduler of
        None \<Rightarrow> d
      | Some s \<Rightarrow>
          foldl (\<lambda>d' (sched, agent).
            let i = job_id (ag_name agent) (sc_name sched)
            in update_schedule (sc_id sched)
                 (\<lambda>r. r\<lparr>sc_next_run := (if sa_get_job api s i = None then None else sa_next_run_time api s i)\<rparr>) d')
            d (enabled_schedules d))"

text \<open>The global \<open>_scheduler\<close> is passed in and out; \<open>None\<close> before the start and after a stop.\<close>

definition register_schedule_job ::
    "'s scheduler_api \<Rightarrow> cron_trigger \<Rightarrow> string \<Rightarrow> string \<Rightarrow> string \<Rightarrow> string \<Rightarrow> pydict \<Rightarrow> 's option
     \<Rightarrow> (bool \<times> 's option) result" where
  "register_schedule_job api cron_trigger agent_name schedule_name cron prompt agent_config scheduler =
     (case scheduler of
        None \<Rightarrow> Inr (False, None)
      | Some s \<Rightarrow>
          result_bind (parse_cron cron_trigger cron) (\<lambda>trigger.
          result_bind (resolve_schedule_channel agent_config schedule_name) (\<lambda>message_channel.
            Inr (True, Some (sa_add_job api (job_id agent_name schedule_name)
              \<lparr>jb_agent_name = agent_name, jb_schedule_name = schedule_name, jb_prompt = prompt,
               jb_message_channel = message_channel, jb_name = agent_name @ ''/'' @ schedule_name,
               jb_cron_fields = cron_fields cron\<rparr> s)))))"

definition unregister_schedule_job ::
    "'s scheduler_api \<Rightarrow> string \<Rightarrow> string \<Rightarrow> 's option \<Rightarrow> bool \<times> 's option" where
  "unregister_schedule_job api agent_name schedule_name scheduler =
     (case scheduler of
        None \<Rightarrow> (False, None)
      | Some s \<Rightarrow>
          (if sa_get_job api s (job_id agent_name schedule_name) = None then (False, Some s)
           else (True, Some (sa_remove_job api (job_id agent_name schedule_name) s))))"

definition or_empty_prompt :: "schedule \<Rightarrow> string" where
  "or_empty_prompt s = (case sc_prompt s of None \<Rightarrow> [] | Some p \<Rightarrow> p)"

definition agent_config_dict :: "agent \<Rightarrow> pydict" where
  "agent_config_dict a = dict_or_empty (py_or (ag_config a) (PDict []))"

definition register_row ::
    "'s scheduler_api \<Rightarrow> cron_trigger \<Rightarrow> 's \<Rightarrow> schedule \<times> agent \<Rightarrow> 's result" where
  "register_row api cron_trigger s row =
     (case row of (sched, agent) \<Rightarrow>
        result_map (\<lambda>(_, s'). case s' of Some x \<Rightarrow> x | None \<Rightarrow> s)
          (register_schedule_job api cron_trigger (ag_name agent) (sc_name sched) (sc_cron sched)
             (or_empty_prompt sched) (agent_config_dict agent) (Some s)))"

text \<open>A schedule that fails to register at startup is logged and skipped.\<close>

definition start_scheduler :: "'s scheduler_api \<Rightarrow> cron_trigger \<Rightarrow> db \<Rightarrow> 's option \<times> db" where
  "start_scheduler api cron_trigger d =
     (let s = foldl (\<lambda>s row. case register_row api cron_trigger s row of Inl _ \<Rightarrow> s | Inr s' \<Rightarrow> s')
                (sa_fresh api) (enabled_schedules d);
          started = sa_start api s
      in (Some started, persist_next_runs api (Some started) d))"

definition stop_scheduler :: "'s option \<Rightarrow> 's option" where
  "stop_scheduler scheduler = None"

text \<open>
  \<open>reload_schedules\<close>: all crons are parsed before anything changes.  The scheduler is an object that
  later steps mutate, so its last state is returned also when a registration raises.
\<close>

fun register_all :: "'s scheduler_api \<Rightarrow> cron_trigger \<Rightarrow> 's \<Rightarrow> (schedule \<times> agent) list \<Rightarrow> unit result \<times> 's" where
  "register_all api cron_trigger s [] = (Inr (), s)"
| "register_all api cron_trigger s (row # rows) =
     (case register_row api cron_trigger s row of
        Inl e \<Rightarrow> (Inl e, s) | Inr s' \<Rightarrow> register_all api cron_trigger s' rows)"

definition reload_schedules ::
    "'s scheduler_api \<Rightarrow> cron_trigger \<Rightarrow> 's option \<Rightarrow> db \<Rightarrow> unit result \<times> 's option \<times> db" where
  "reload_schedules api cron_trigger scheduler d =
     (case scheduler of
        None \<Rightarrow> (Inl (Runtime_error ''Cannot reload schedules before the scheduler has started''), None, d)
      | Some s \<Rightarrow>
          (let rows = enabled_schedules d
           in case result_fold (\<lambda>_ (sched, agent). parse_cron cron_trigger (sc_cron sched)) (\<lambda>_. None) rows of
                Inl e \<Rightarrow> (Inl e, Some s, d)
              | Inr _ \<Rightarrow>
                  (let desired = map (\<lambda>(sched, agent). job_id (ag_name agent) (sc_name sched)) rows;
                       kept = foldl (\<lambda>s' i. if i \<in> set desired then s' else sa_remove_job api i s') s (sa_job_ids api s)
                   in case register_all api cron_trigger kept rows of
                        (Inl e, s') \<Rightarrow> (Inl e, Some s', d)
                      | (Inr _, s') \<Rightarrow> (Inr (), Some s', persist_next_runs api (Some s') d))))"

section \<open>Lemmas\<close>

definition row_id :: "schedule \<times> agent \<Rightarrow> string" where
  "row_id row = job_id (ag_name (snd row)) (sc_name (fst row))"

lemma laws_add: "scheduler_laws api \<Longrightarrow> sa_get_job api (sa_add_job api i j s) k = (if k = i then Some j else sa_get_job api s k)"
  by (simp add: scheduler_laws_def)

lemma laws_remove: "scheduler_laws api \<Longrightarrow> sa_get_job api (sa_remove_job api i s) k = (if k = i then None else sa_get_job api s k)"
  by (simp add: scheduler_laws_def)

lemma laws_ids: "scheduler_laws api \<Longrightarrow> set (sa_job_ids api s) = {k. sa_get_job api s k \<noteq> None}"
  by (simp add: scheduler_laws_def)

lemma removed_jobs:
  assumes "scheduler_laws api"
  shows "sa_get_job api (foldl (\<lambda>s' i. if i \<in> set desired then s' else sa_remove_job api i s') s ids) k
       = (if k \<in> set ids \<and> k \<notin> set desired then None else sa_get_job api s k)"
proof (induction ids arbitrary: s)
  case (Cons i ids)
  then show ?case by (auto simp: laws_remove [OF assms])
qed simp

lemma register_row_job:
  assumes "scheduler_laws api" and "register_row api cron_trigger s row = Inr s'"
  obtains j where "\<And>k. sa_get_job api s' k = (if k = row_id row then Some j else sa_get_job api s k)"
    and "jb_prompt j = or_empty_prompt (fst row)" and "jb_cron_fields j = cron_fields (sc_cron (fst row))"
  using assms
  by (cases row)
    (auto simp: register_row_def register_schedule_job_def result_map_Inr_iff result_bind_Inr_iff laws_add row_id_def)

lemma register_all_ids:
  assumes "scheduler_laws api" and "register_all api cron_trigger s rows = (Inr u, s')"
  shows "(sa_get_job api s' k \<noteq> None) = (k \<in> row_id ` set rows \<or> sa_get_job api s k \<noteq> None)"
  using assms(2)
proof (induction rows arbitrary: s)
  case (Cons row rows)
  then obtain s1 where r: "register_row api cron_trigger s row = Inr s1" and a: "register_all api cron_trigger s1 rows = (Inr u, s')"
    by (auto split: sum.splits)
  obtain j where "\<And>k. sa_get_job api s1 k = (if k = row_id row then Some j else sa_get_job api s k)"
    using register_row_job [OF assms(1) r] by blast
  with Cons.IH [OF a] show ?case by auto
qed simp

lemma parse_all_fails:
  assumes "row \<in> set rows" and "parse_cron cron_trigger (sc_cron (fst row)) = Inl e"
  shows "\<exists>e'. result_fold (\<lambda>_ (sched, agent). parse_cron cron_trigger (sc_cron sched)) init rows = Inl e'"
  using assms(1)
proof (induction rows arbitrary: init)
  case (Cons r rows)
  show ?case
  proof (cases "parse_cron cron_trigger (sc_cron (fst r))")
    case Inl
    then show ?thesis by (simp add: case_prod_beta)
  next
    case (Inr x)
    with assms(2) Cons.prems have "row \<in> set rows" by auto
    with Cons.IH Inr show ?thesis by (simp add: case_prod_beta)
  qed
qed simp

section \<open>Properties\<close>

text \<open>
  C23. A successful reload makes the running scheduler mirror the database: afterwards exactly the
  enabled schedules have a job, whatever was registered before.
\<close>

theorem reload_mirrors_schedules:
  assumes "scheduler_laws api" and "reload_schedules api cron_trigger (Some s) d = (Inr u, Some s', d')"
  shows "set (sa_job_ids api s') = (\<lambda>(sched, agent). job_id (ag_name agent) (sc_name sched)) ` set (enabled_schedules d)"
proof -
  let ?desired = "map (\<lambda>(sched, agent). job_id (ag_name agent) (sc_name sched)) (enabled_schedules d)"
  let ?kept = "foldl (\<lambda>s' i. if i \<in> set ?desired then s' else sa_remove_job api i s') s (sa_job_ids api s)"
  have ids: "(\<lambda>(sched, agent). job_id (ag_name agent) (sc_name sched)) = row_id"
    by (simp add: row_id_def fun_eq_iff case_prod_beta)
  from assms(2) obtain v where reg: "register_all api cron_trigger ?kept (enabled_schedules d) = (Inr v, s')"
    by (auto simp: reload_schedules_def Let_def split: sum.splits prod.splits)
  have "sa_get_job api ?kept k \<noteq> None \<Longrightarrow> k \<in> set ?desired" for k
    using removed_jobs [OF assms(1), of "?desired" s "sa_job_ids api s" k] laws_ids [OF assms(1), of s]
    by (auto split: if_splits)
  then have "(sa_get_job api s' k \<noteq> None) = (k \<in> row_id ` set (enabled_schedules d))" for k
    using register_all_ids [OF assms(1) reg, of k] by (auto simp: ids)
  then show ?thesis
    using laws_ids [OF assms(1), of s'] ids by auto
qed

text \<open>A scheduler whose job store is an association list.\<close>

definition list_api :: "(string \<times> job) list scheduler_api" where
  "list_api = \<lparr>sa_fresh = [], sa_start = id, sa_add_job = AList.update, sa_remove_job = AList.delete,
     sa_get_job = map_of, sa_job_ids = map fst, sa_next_run_time = (\<lambda>_ _. None)\<rparr>"

lemma list_api_laws: "scheduler_laws list_api"
  by (auto simp: scheduler_laws_def list_api_def delete_conv' map_of_eq_None_iff)

definition demo_agent :: agent where
  "demo_agent = \<lparr>ag_id = 0, ag_name = ''a'', ag_description = None, ag_version = None, ag_config = PDict [],
     ag_config_hash = None, ag_repo_path = None, ag_provisioned = True, ag_paused = False,
     ag_provisioned_at = None, ag_created = 1, ag_updated = 1\<rparr>"

definition old_job :: job where
  "old_job = \<lparr>jb_agent_name = ''a'', jb_schedule_name = ''gone'', jb_prompt = [], jb_message_channel = None,
     jb_name = ''a/gone'', jb_cron_fields = []\<rparr>"

definition agent_only_db :: db where
  "agent_only_db = empty_db\<lparr>agents := [demo_agent]\<rparr>"

lemma agent_only_reload:
  "reload_schedules list_api (\<lambda>_. Inr (\<lambda>_. None)) (Some [(''a:gone'', old_job)]) agent_only_db = (Inr (), Some [], agent_only_db)"
  by (simp add: reload_schedules_def enabled_schedules_def agent_only_db_def empty_db_def list_api_def
      persist_next_runs_def AList.delete_eq)

theorem reload_mirrors_schedules_witness:
  "set (sa_job_ids list_api []) = {}"
  using reload_mirrors_schedules [OF list_api_laws agent_only_reload]
  by (simp add: enabled_schedules_def agent_only_db_def empty_db_def)

text \<open>
  A reload is refused as a whole when any enabled schedule has an invalid cron expression: it
  raises, and neither the running jobs nor the database change.
\<close>

theorem reload_rejects_bad_cron:
  assumes "row \<in> set (enabled_schedules d)" and "length (cron_fields (sc_cron (fst row))) \<noteq> 5"
  shows "\<exists>e. reload_schedules api cron_trigger (Some s) d = (Inl e, Some s, d)"
proof -
  have "parse_cron cron_trigger (sc_cron (fst row))
      = Inl (Value_error (''Expected 5-field cron expression, got: '' @ sc_cron (fst row)))"
    using assms(2) by (simp add: parse_cron_def)
  from parse_all_fails [OF assms(1) this] obtain e where
    "result_fold (\<lambda>_ (sched, agent). parse_cron cron_trigger (sc_cron sched)) (\<lambda>_. None) (enabled_schedules d) = Inl e"
    by blast
  then show ?thesis by (simp add: reload_schedules_def)
qed

definition demo_schedule :: schedule where
  "demo_schedule = \<lparr>sc_id = 7, sc_agent_id = 0, sc_name = ''nightly'', sc_cron = [], sc_prompt = None,
     sc_enabled = True, sc_last_run = None, sc_next_run = None, sc_created = 1\<rparr>"

definition scheduled_db :: db where
  "scheduled_db = agent_only_db\<lparr>schedules := [demo_schedule]\<rparr>"

lemma scheduled_rows: "enabled_schedules scheduled_db = [(demo_schedule, demo_agent)]"
  by (simp add: enabled_schedules_def find_agent_def find_row_def select_where_def scheduled_db_def agent_only_db_def
      demo_schedule_def demo_agent_def)

theorem reload_rejects_bad_cron_witness:
  "\<exists>e. reload_schedules list_api (\<lambda>_. Inr (\<lambda>_. None)) (Some [(''a:gone'', old_job)]) scheduled_db
     = (Inl e, Some [(''a:gone'', old_job)], scheduled_db)"
  by (rule reload_rejects_bad_cron [of "(demo_schedule, demo_agent)"])
    (simp_all add: scheduled_rows demo_schedule_def cron_fields_def strip_char_def rstrip_char_def split_ws.simps)

text \<open>
  A fired job of a paused agent, or of a schedule that was removed or disabled meanwhile, creates
  nothing: the database is unchanged and no error is raised.
\<close>

theorem paused_or_disabled_schedule_skipped:
  assumes "\<And>s a. (s, a) \<in> set (enabled_schedules d) \<Longrightarrow> ag_name a = agent_name \<Longrightarrow> sc_name s = schedule_name \<Longrightarrow> ag_paused a"
    and "length (filter (\<lambda>(s, a). ag_name a = agent_name \<and> sc_name s = schedule_name) (enabled_schedules d)) \<le> 1"
  shows "schedule_job_handler package_config cron_trigger now tx_now agent_name schedule_name prompt channel d = (Inr (), d)"
proof (cases "filter (\<lambda>(s, a). ag_name a = agent_name \<and> sc_name s = schedule_name) (enabled_schedules d)")
  case Nil
  then show ?thesis by (simp add: schedule_job_handler_def)
next
  case (Cons row rest)
  obtain s a where row: "row = (s, a)" by (cases row)
  have "rest = []" using assms(2) Cons by simp
  moreover have "row \<in> set (filter (\<lambda>(s, a). ag_name a = agent_name \<and> sc_name s = schedule_name) (enabled_schedules d))"
    using Cons by simp
  then have "ag_paused a" using assms(1) row by auto
  ultimately show ?thesis using Cons row by (simp add: schedule_job_handler_def)
qed

theorem paused_or_disabled_schedule_skipped_witness:
  "schedule_job_handler (\<lambda>_. None) (\<lambda>_. Inr (\<lambda>_. None)) 5 5 ''a'' ''weekly'' ''go'' None scheduled_db = (Inr (), scheduled_db)"
  by (rule paused_or_disabled_schedule_skipped) (simp_all add: scheduled_rows demo_schedule_def)

end
