(* ===== verification/Housekeeping.thy ===== *)
theory Housekeeping
  imports Task_Sweeps Task_Queries Background_Jobs Settings "HOL-Library.List_Lexorder" "HOL-Library.Char_ord"
begin

text \<open>
  \<open>shared/lib/housekeeping.py\<close> (tasks, learning memories, job history, agent memory), and the backup
  rotation of \<open>sage_run/backups.py\<close>.  The memory service and the object store are reached over HTTP
  and are parameters.
\<close>

section \<open>Tasks\<close>

definition archivable :: "datetime \<Rightarrow> task \<Rightarrow> bool" where
  "archivable cutoff t \<longleftrightarrow>
     t_status t \<in> set TERMINAL_STATUSES \<and> t_archived_at t = None \<and> t_created t < cutoff"

definition archive_row :: "datetime \<Rightarrow> task \<Rightarrow> task" where
  "archive_row archived_at t = t\<lparr>t_archived_at := Some archived_at\<rparr>"

definition archive_terminal_tasks ::
    "settings \<Rightarrow> int option \<Rightarrow> datetime option \<Rightarrow> datetime \<Rightarrow> datetime \<Rightarrow> db \<Rightarrow> nat \<times> db" where
  "archive_terminal_tasks cfg older_than_days now current tx_now d =
     (let days_n = (case older_than_days of None \<Rightarrow> s_task_archive_after_days cfg | Some n \<Rightarrow> n)
      in if days_n \<le> 0 then (0, d)
         else
           let anchor = (case now of None \<Rightarrow> current | Some n \<Rightarrow> n);
               cutoff = anchor - days days_n;
               (task_ids, d1) = sweep_tasks tx_now (archive_row anchor) ''task_auto_archived''
                 (\<lambda>t. [(''cutoff'', PStr (isoformat cutoff)), (''status'', PStr (status_str (t_status t)))])
                 (archivable cutoff) d
           in if task_ids = [] then (0, d)
              else
                let hit = (\<lambda>i. i \<in> set task_ids);
                    d2 = set_sessions_archived hit (Some anchor) d1;
                    d3 = set_session_events_archived hit (Some anchor) d2;
                    d4 = set_approvals_archived hit (Some anchor) d3
                in (length task_ids, d4))"

definition delete_task_rows :: "uuid list \<Rightarrow> db \<Rightarrow> db" where
  "delete_task_rows task_ids d =
     (let hit = (\<lambda>i. i \<in> set task_ids)
      in d\<lparr>approvals := delete_where (\<lambda>a. hit (ap_task_id a)) (approvals d),
           session_events := delete_where (\<lambda>e. in_ids hit (se_task_id e)) (session_events d),
           sessions := delete_where (\<lambda>s. in_ids hit (ss_task_id s)) (sessions d),
           task_events := delete_where (\<lambda>e. hit (te_task_id e)) (task_events d),
           tasks := delete_where (\<lambda>t. hit (t_id t)) (tasks d)\<rparr>)"

definition deletable :: "datetime \<Rightarrow> task \<Rightarrow> bool" where
  "deletable cutoff t \<longleftrightarrow> (case t_archived_at t of None \<Rightarrow> False | Some a \<Rightarrow> a < cutoff)"

definition delete_archived_tasks ::
    "settings \<Rightarrow> int option \<Rightarrow> datetime option \<Rightarrow> datetime \<Rightarrow> db \<Rightarrow> nat \<times> db" where
  "delete_archived_tasks cfg older_than_days now current d =
     (let days_n = (case older_than_days of None \<Rightarrow> s_task_delete_after_days cfg | Some n \<Rightarrow> n)
      in if days_n \<le> 0 then (0, d)
         else
           let anchor = (case now of None \<Rightarrow> current | Some n \<Rightarrow> n);
               task_ids = map t_id (select_where (deletable (anchor - days days_n)) (tasks d))
           in if task_ids = [] then (0, d) else (length task_ids, delete_task_rows task_ids d))"

definition archive_task_and_related :: "datetime \<Rightarrow> datetime \<Rightarrow> uuid \<Rightarrow> bool \<Rightarrow> db \<Rightarrow> db" where
  "archive_task_and_related now tx_now i archived d =
     (let archived_at = (if archived then Some now else None); this = (\<lambda>j. j = i)
      in set_approvals_archived this archived_at
           (set_session_events_archived this archived_at
             (set_sessions_archived this archived_at (set_task_archived tx_now this archived_at d))))"

section \<open>Job history\<close>

definition run_order :: "job_run list \<Rightarrow> job_run list" where
  "run_order runs = order_rows False (\<lambda>r. (jr_started_at r, jr_id r)) runs"

definition prune_background_job_runs :: "settings \<Rightarrow> string \<Rightarrow> int option \<Rightarrow> db \<Rightarrow> nat \<times> db" where
  "prune_background_job_runs cfg job_type keep_latest d =
     (let keep = (case keep_latest of None \<Rightarrow> s_background_job_run_history_limit cfg | Some k \<Rightarrow> k)
      in if keep < 0 then (0, d)
         else
           let run_ids = map jr_id (drop (nat keep) (run_order (select_where (\<lambda>r. jr_job_type r = job_type) (job_runs d))))
           in if run_ids = [] then (0, d)
              else (length run_ids, d\<lparr>job_runs := delete_where (\<lambda>r. jr_id r \<in> set run_ids) (job_runs d)\<rparr>))"

definition record_background_job_run ::
    "string \<Rightarrow> string \<Rightarrow> datetime \<Rightarrow> datetime \<Rightarrow> string option \<Rightarrow> pydict option \<Rightarrow> string list option \<Rightarrow> string option
     \<Rightarrow> db \<Rightarrow> (job_run \<times> db) result" where
  "record_background_job_run job_type status started_at finished_at scope summary warnings error d =
     record_completed_background_job
       \<lparr>ja_job_type = job_type, ja_scope = scope, ja_trigger = None, ja_source_id = None, ja_version_id = None,
        ja_summary = Some (case summary of None \<Rightarrow> [] | Some s \<Rightarrow> s)\<rparr>
       status started_at finished_at (Some (case warnings of None \<Rightarrow> [] | Some w \<Rightarrow> w)) error d"

section \<open>Learning memories\<close>

definition BANK_WORKFLOW_LEARNING :: string where
  "BANK_WORKFLOW_LEARNING = ''workflow-learning''"

text \<open>\<open>banks\<close> are the values of the \<open>learning\<close> section of the bank catalog on disk.\<close>

definition learning_bank_ids :: "string list \<Rightarrow> string list" where
  "learning_bank_ids banks = sort (remdups (BANK_WORKFLOW_LEARNING # banks))"

text \<open>\<open>fromisoformat\<close> maps a timestamp text to its instant, a naive one read as UTC; \<open>None\<close> when it raises.\<close>

fun replace_zulu :: "string \<Rightarrow> string" where
  "replace_zulu [] = []"
| "replace_zulu (c # s) = (if c = CHR ''Z'' then ''+00:00'' @ replace_zulu s else c # replace_zulu s)"

definition parse_hindsight_timestamp :: "(string \<Rightarrow> datetime option) \<Rightarrow> pyval \<Rightarrow> datetime option" where
  "parse_hindsight_timestamp fromisoformat value =
     (if \<not> truthy value then None else fromisoformat (replace_zulu (py_str value)))"

definition stripped_field :: "pydict \<Rightarrow> string \<Rightarrow> string" where
  "stripped_field item key = strip (str_or_empty (dict_get item key))"

definition extract_memory_id :: "pydict \<Rightarrow> string option" where
  "extract_memory_id item =
     first_row (filter (\<lambda>v. v \<noteq> []) (map (stripped_field item) [''id'', ''memory_id'', ''document_id'']))"

definition extract_document_id :: "pydict \<Rightarrow> string option" where
  "extract_document_id item =
     (let v = stripped_field item ''document_id''
      in if v \<noteq> [] then Some v
         else case dict_get item ''metadata'' of
           PDict m \<Rightarrow> (let w = stripped_field m ''document_id'' in if w \<noteq> [] then Some w else None)
         | _ \<Rightarrow> None)"

definition should_skip_memory_invalidation :: "pydict \<Rightarrow> bool" where
  "should_skip_memory_invalidation item =
     (let fact_type = lower (strip (str_or_empty
            (py_or (py_or (dict_get item ''fact_type'') (dict_get item ''type'')) (dict_get item ''kind''))))
      in fact_type = ''observation'' \<and> extract_document_id item = None)"

datatype http_outcome = Status_error string | Transport_error string | Bad_json string | Payload pyval

text \<open>
  The retry loop: only transport errors are retried, and the last one is raised.  \<open>get n\<close> is the
  outcome of the \<open>n\<close>-th request.  A string on the left is the text of a caught exception.
\<close>

function list_attempt :: "(int \<Rightarrow> http_outcome) \<Rightarrow> int \<Rightarrow> int \<Rightarrow> string + pydict" where
  "list_attempt get attempts attempt =
     (if attempt > attempts then Inr []
      else case get attempt of
        Status_error e \<Rightarrow> Inl e
      | Bad_json e \<Rightarrow> Inl e
      | Payload (PDict p) \<Rightarrow> Inr p
      | Payload _ \<Rightarrow> Inl ''expected object payload''
      | Transport_error e \<Rightarrow>
          (if attempt \<ge> attempts then Inl e else list_attempt get attempts (attempt + 1)))"
  by pat_completeness auto
termination by (relation "measure (\<lambda>(get, attempts, attempt). nat (attempts + 1 - attempt))") auto

declare list_attempt.simps [simp del]

definition list_hindsight_memories :: "settings \<Rightarrow> (int \<Rightarrow> http_outcome) \<Rightarrow> string + pydict" where
  "list_hindsight_memories cfg get =
     list_attempt get (max 1 (if s_hindsight_request_retries cfg = 0 then 1 else s_hindsight_request_retries cfg)) 1"

text \<open>
  The memory service: the outcomes of a list request, the payload of a document deletion and of an
  invalidation, or the text of the caught exception.
\<close>

record hindsight =
  hs_list :: "string \<Rightarrow> int \<Rightarrow> http_outcome"
  hs_delete_document :: "string \<Rightarrow> string \<Rightarrow> string + pyval"
  hs_invalidate :: "string \<Rightarrow> string \<Rightarrow> string + pyval"

record prune_state =
  pr_deleted :: int
  pr_warnings :: "string list"
  pr_documents :: "string list"

text \<open>\<open>int(payload.get("memory_units_deleted") or 0)\<close>, one when not positive; a \<open>ValueError\<close> is caught.\<close>

definition deleted_units :: "pyval \<Rightarrow> (string + int) result" where
  "deleted_units payload =
     (let v = (case payload of PDict p \<Rightarrow> dict_get p ''memory_units_deleted'' | _ \<Rightarrow> PInt 0)
      in case py_int (py_or v (PInt 0)) of
           Inr n \<Rightarrow> Inr (Inr (if n > 0 then n else 1))
         | Inl (Value_error e) \<Rightarrow> Inr (Inl e)
         | Inl e \<Rightarrow> Inl e)"

definition prune_document :: "hindsight \<Rightarrow> string \<Rightarrow> string \<Rightarrow> prune_state \<Rightarrow> prune_state result" where
  "prune_document hs bank_id document_id st =
     (if document_id \<in> set (pr_documents st) then Inr st
      else
        let st1 = st\<lparr>pr_documents := document_id # pr_documents st\<rparr>;
            failed = (\<lambda>e. st1\<lparr>pr_warnings := pr_warnings st1 @ [''Failed to delete Hindsight learning document ''
                        @ document_id @ '' in '' @ bank_id @ '': '' @ e]\<rparr>)
        in case hs_delete_document hs bank_id document_id of
             Inl e \<Rightarrow> Inr (failed e)
           | Inr payload \<Rightarrow>
               result_map (\<lambda>r. case r of Inl e \<Rightarrow> failed e | Inr n \<Rightarrow> st1\<lparr>pr_deleted := pr_deleted st1 + n\<rparr>)
                 (deleted_units payload))"

definition prune_item ::
    "hindsight \<Rightarrow> (string \<Rightarrow> datetime option) \<Rightarrow> datetime \<Rightarrow> string \<Rightarrow> prune_state \<Rightarrow> pyval \<Rightarrow> prune_state result" where
  "prune_item hs fromisoformat cutoff bank_id st item =
     (case item of
        PDict m \<Rightarrow>
          (case (parse_hindsight_timestamp fromisoformat
                   (py_or (py_or (py_or (dict_get m ''created_at'') (dict_get m ''timestamp''))
                     (dict_get m ''updated_at'')) (dict_get m ''date'')), extract_memory_id m) of
             (Some created_at, Some memory_id) \<Rightarrow>
               (if created_at \<ge> cutoff then Inr st
                else case extract_document_id m of
                  Some document_id \<Rightarrow> prune_document hs bank_id document_id st
                | None \<Rightarrow>
                    (if should_skip_memory_invalidation m then Inr st
                     else case hs_invalidate hs bank_id memory_id of
                       Inl e \<Rightarrow> Inr (st\<lparr>pr_warnings := pr_warnings st @ [''Failed to invalidate Hindsight learning memory ''
                                  @ memory_id @ '' in '' @ bank_id @ '': '' @ e]\<rparr>)
                     | Inr _ \<Rightarrow> Inr (st\<lparr>pr_deleted := pr_deleted st + 1\<rparr>)))
           | _ \<Rightarrow> Inr st)
      | _ \<Rightarrow> Inr st)"

definition prune_bank ::
    "settings \<Rightarrow> hindsight \<Rightarrow> (string \<Rightarrow> datetime option) \<Rightarrow> datetime \<Rightarrow> prune_state \<Rightarrow> string \<Rightarrow> prune_state result" where
  "prune_bank cfg hs fromisoformat cutoff st bank_id =
     (case list_hindsight_memories cfg (hs_list hs bank_id) of
        Inl e \<Rightarrow> Inr (st\<lparr>pr_warnings := pr_warnings st @ [''Failed to list Hindsight learning bank '' @ bank_id @ '': '' @ e]\<rparr>)
      | Inr payload \<Rightarrow>
          (case py_or (py_or (py_or (dict_get payload ''items'') (dict_get payload ''memories''))
                 (dict_get payload ''results'')) (dict_get payload ''data'') of
             PList items \<Rightarrow> result_fold (prune_item hs fromisoformat cutoff bank_id) (st\<lparr>pr_documents := []\<rparr>) items
           | _ \<Rightarrow> Inr st))"

definition prune_learning_bank_memories ::
    "settings \<Rightarrow> hindsight \<Rightarrow> (string \<Rightarrow> datetime option) \<Rightarrow> int option \<Rightarrow> string list option \<Rightarrow> string list
     \<Rightarrow> datetime \<Rightarrow> (int \<times> string list) result" where
  "prune_learning_bank_memories cfg hs fromisoformat retention_days bank_ids banks now =
     (let days_n = (case retention_days of None \<Rightarrow> s_learning_memory_retention_days cfg | Some n \<Rightarrow> n)
      in if days_n \<le> 0 then Inr (0, [])
         else
           let target_banks = (case bank_ids of Some (b # bs) \<Rightarrow> b # bs | _ \<Rightarrow> learning_bank_ids banks)
           in result_map (\<lambda>st. (pr_deleted st, pr_warnings st))
                (result_fold (prune_bank cfg hs fromisoformat (now - days days_n))
                  \<lparr>pr_deleted = 0, pr_warnings = [], pr_documents = []\<rparr> target_banks))"

section \<open>Agent memory versions\<close>

record stored_object =
  ob_key :: string
  ob_last_modified :: "datetime option"

definition ends_with :: "string \<Rightarrow> string \<Rightarrow> bool" where
  "ends_with suffix s = (drop (length s - length suffix) s = suffix \<and> length suffix \<le> length s)"

definition is_latest :: "stored_object \<Rightarrow> bool" where
  "is_latest ob = ends_with ''/latest.tar.gz'' (ob_key ob)"

definition agent_of :: "stored_object \<Rightarrow> string" where
  "agent_of ob = takeWhile (\<lambda>c. c \<noteq> CHR ''/'') (ob_key ob)"

text \<open>The objects of one agent, newest first; a missing time counts as the oldest.\<close>

definition modified_key :: "stored_object \<Rightarrow> nat \<times> datetime" where
  "modified_key ob = (case ob_last_modified ob of None \<Rightarrow> (0, 0) | Some t \<Rightarrow> (1, t))"

definition agent_versions :: "string \<Rightarrow> stored_object list \<Rightarrow> stored_object list" where
  "agent_versions agent objects =
     order_rows False modified_key (filter (\<lambda>ob. \<not> is_latest ob \<and> agent_of ob = agent) objects)"

text \<open>What \<open>prune_agent_memory_versions\<close> asks the object store to delete, in order.\<close>

definition versions_to_delete :: "int \<Rightarrow> datetime option \<Rightarrow> stored_object list \<Rightarrow> stored_object list" where
  "versions_to_delete keep cutoff vs =
     map snd (filter (\<lambda>(index, ob).
         (keep > 0 \<and> int index \<ge> keep)
         \<or> (case (cutoff, ob_last_modified ob) of (Some c, Some m) \<Rightarrow> m < c | _ \<Rightarrow> False))
       (zip [0..<length vs] vs))"

definition prune_requests ::
    "settings \<Rightarrow> int option \<Rightarrow> int option \<Rightarrow> datetime \<Rightarrow> stored_object list \<Rightarrow> stored_object list" where
  "prune_requests cfg versions_to_keep retention_days anchor objects =
     (let keep = (case versions_to_keep of None \<Rightarrow> s_agent_memory_versions_to_keep cfg | Some k \<Rightarrow> k);
          days_n = (case retention_days of None \<Rightarrow> s_agent_memory_retention_days cfg | Some n \<Rightarrow> n)
      in if keep \<le> 0 \<and> days_n \<le> 0 then []
         else
           let cutoff = (if days_n > 0 then Some (anchor - days days_n) else None);
               agents = remdups (map agent_of (filter (\<lambda>ob. \<not> is_latest ob) objects))
           in concat (map (\<lambda>agent. versions_to_delete keep cutoff (agent_versions agent objects)) agents))"

text \<open>\<open>delete_object\<close> answers whether the deletion happened.\<close>

definition prune_agent_memory_versions ::
    "settings \<Rightarrow> (string \<Rightarrow> bool) \<Rightarrow> int option \<Rightarrow> int option \<Rightarrow> datetime \<Rightarrow> stored_object list \<Rightarrow> nat" where
  "prune_agent_memory_versions cfg delete_object versions_to_keep retention_days anchor objects =
     length (filter (\<lambda>ob. delete_object (ob_key ob)) (prune_requests cfg versions_to_keep retention_days anchor objects))"

section \<open>Backup rotation\<close>

definition BACKUP_FORMAT :: string where
  "BACKUP_FORMAT = ''sage-run-backup-v1''"

definition KEEP :: "string \<Rightarrow> nat option" where
  "KEEP = [''nightly'' \<mapsto> 7, ''deployment'' \<mapsto> 3]"

text \<open>
  A directory entry of the backup root: \<open>bk_real\<close> says it is a directory, not a link, and has a manifest
  file.  Names stand for the paths; \<open>completed_at\<close> is compared as the text it is.
\<close>

record backup_entry =
  bk_name :: string
  bk_real :: bool
  bk_manifest :: pydict

definition backup_eligible :: "string \<Rightarrow> string \<Rightarrow> backup_entry \<Rightarrow> bool" where
  "backup_eligible namespace kind e \<longleftrightarrow>
     bk_real e
     \<and> dict_get (bk_manifest e) ''format'' = PStr BACKUP_FORMAT
     \<and> dict_get (bk_manifest e) ''namespace'' = PStr namespace
     \<and> dict_get (bk_manifest e) ''kind'' = PStr kind
     \<and> dict_get (bk_manifest e) ''complete'' = PBool True
     \<and> \<not> truthy (dict_get (bk_manifest e) ''protected'')"

text \<open>\<open>manifest["completed_at"]\<close> raises when the key is missing.\<close>

fun completed_ats :: "backup_entry list \<Rightarrow> (string \<times> backup_entry) list result" where
  "completed_ats [] = Inr []"
| "completed_ats (e # es) =
     (case dict_get (bk_manifest e) ''completed_at'' of
        PStr c \<Rightarrow> result_map (\<lambda>rest. (c, e) # rest) (completed_ats es)
      | PNone \<Rightarrow> Inl (Key_error ''completed_at'')
      | _ \<Rightarrow> Inl Type_error)"

definition prune_backups :: "string \<Rightarrow> string \<Rightarrow> backup_entry list \<Rightarrow> backup_entry list result" where
  "prune_backups namespace kind entries =
     (case KEEP kind of
        None \<Rightarrow> Inl (Key_error kind)
      | Some keep \<Rightarrow>
          result_map (\<lambda>eligible.
              let removed = map snd (drop keep (order_rows False fst eligible))
              in filter (\<lambda>e. e \<notin> set removed) entries)
            (completed_ats (filter (backup_eligible namespace kind) entries)))"

section \<open>Lemmas\<close>

interpretation archiving: sweep t_id "touched tx_now (archive_row anchor)" "archivable cutoff"
  for tx_now anchor cutoff
  by unfold_locales (simp_all add: archivable_def archive_row_def touched_def)

lemma tasks_set_archived [simp]:
  "tasks (set_sessions_archived h a d) = tasks d" "tasks (set_session_events_archived h a d) = tasks d"
  "tasks (set_approvals_archived h a d) = tasks d"
  by (simp_all add: set_sessions_archived_def set_session_events_archived_def set_approvals_archived_def)

text \<open>Every row that refers to a task refers to one that exists.\<close>

definition task_refs_ok :: "db \<Rightarrow> bool" where
  "task_refs_ok d \<longleftrightarrow>
     (let ids = t_id ` set (tasks d)
      in (\<forall>a \<in> set (approvals d). ap_task_id a \<in> ids)
         \<and> (\<forall>e \<in> set (session_events d). case se_task_id e of None \<Rightarrow> True | Some i \<Rightarrow> i \<in> ids)
         \<and> (\<forall>s \<in> set (sessions d). case ss_task_id s of None \<Rightarrow> True | Some i \<Rightarrow> i \<in> ids)
         \<and> (\<forall>e \<in> set (task_events d). te_task_id e \<in> ids))"

lemma delete_rows_tasks: "tasks (delete_task_rows ids d) = filter (\<lambda>t. t_id t \<notin> set ids) (tasks d)"
  by (simp add: delete_task_rows_def Let_def delete_where_def)

lemma delete_rows_approvals: "approvals (delete_task_rows ids d) = filter (\<lambda>a. ap_task_id a \<notin> set ids) (approvals d)"
  and delete_rows_session_events:
    "session_events (delete_task_rows ids d) = filter (\<lambda>e. \<not> in_ids (\<lambda>i. i \<in> set ids) (se_task_id e)) (session_events d)"
  and delete_rows_sessions: "sessions (delete_task_rows ids d) = filter (\<lambda>s. \<not> in_ids (\<lambda>i. i \<in> set ids) (ss_task_id s)) (sessions d)"
  and delete_rows_task_events:
    "task_events (delete_task_rows ids d) = filter (\<lambda>e. te_task_id e \<notin> set ids) (task_events d)"
  by (simp_all add: delete_task_rows_def Let_def delete_where_def)

lemmas delete_rows = delete_rows_tasks delete_rows_approvals delete_rows_session_events delete_rows_sessions
  delete_rows_task_events

lemma kept_task_id: "i \<in> t_id ` set ts \<Longrightarrow> i \<notin> set ids \<Longrightarrow> i \<in> t_id ` set (filter (\<lambda>t. t_id t \<notin> set ids) ts)"
  by auto

lemma kept_task_ref:
  assumes "case x of None \<Rightarrow> True | Some i \<Rightarrow> i \<in> t_id ` set ts" and "\<not> in_ids (\<lambda>i. i \<in> set ids) x"
  shows "case x of None \<Rightarrow> True | Some i \<Rightarrow> i \<in> t_id ` set (filter (\<lambda>t. t_id t \<notin> set ids) ts)"
proof (cases x)
  case (Some i)
  then have "i \<in> t_id ` set (filter (\<lambda>t. t_id t \<notin> set ids) ts)"
    using assms by (intro kept_task_id) (simp_all add: in_ids_def)
  with Some show ?thesis by (simp only: option.case)
qed simp

lemma delete_rows_refs:
  assumes "task_refs_ok d"
  shows "task_refs_ok (delete_task_rows ids d)"
  unfolding task_refs_ok_def Let_def
proof (intro conjI ballI)
  fix a assume "a \<in> set (approvals (delete_task_rows ids d))"
  then show "ap_task_id a \<in> t_id ` set (tasks (delete_task_rows ids d))"
    using assms unfolding delete_rows task_refs_ok_def Let_def by (intro kept_task_id) (simp_all)
next
  fix e assume "e \<in> set (session_events (delete_task_rows ids d))"
  then show "case se_task_id e of None \<Rightarrow> True | Some i \<Rightarrow> i \<in> t_id ` set (tasks (delete_task_rows ids d))"
    using assms unfolding delete_rows task_refs_ok_def Let_def by (intro kept_task_ref) simp_all
next
  fix s assume "s \<in> set (sessions (delete_task_rows ids d))"
  then show "case ss_task_id s of None \<Rightarrow> True | Some i \<Rightarrow> i \<in> t_id ` set (tasks (delete_task_rows ids d))"
    using assms unfolding delete_rows task_refs_ok_def Let_def by (intro kept_task_ref) simp_all
next
  fix e assume "e \<in> set (task_events (delete_task_rows ids d))"
  then show "te_task_id e \<in> t_id ` set (tasks (delete_task_rows ids d))"
    using assms unfolding delete_rows task_refs_ok_def Let_def by (intro kept_task_id) (simp_all)
qed

section \<open>Properties\<close>

text \<open>
  Automatic archiving takes exactly the finished, unarchived tasks created before the cutoff, and
  no task that is queued, running or waiting; the count it returns is their number.
\<close>

theorem archive_terminal_tasks_exact:
  assumes "wf_tasks d" and "archive_terminal_tasks cfg (Some n) (Some anchor) current tx_now d = (k, d')" and "0 < n"
  shows "tasks d' = map (\<lambda>t. if archivable (anchor - days n) t then touched tx_now (archive_row anchor) t else t) (tasks d)
    \<and> k = length (filter (archivable (anchor - days n)) (tasks d))"
proof -
  let ?c = "anchor - days n"
  let ?ev = "\<lambda>t. [(''cutoff'', PStr (isoformat ?c)), (''status'', PStr (status_str (t_status t)))]"
  obtain ids d1 where s: "sweep_tasks tx_now (archive_row anchor) ''task_auto_archived'' ?ev (archivable ?c) d = (ids, d1)"
    by fastforce
  have d1: "tasks d1 = update_where (archivable ?c) (touched tx_now (archive_row anchor)) (tasks d)"
    using tasks_sweep_tasks [of tx_now "archive_row anchor" "''task_auto_archived''" ?ev "archivable ?c" d]
      archiving.sweep_is_update [OF wf_tasks_distinct [OF assms(1)], of ?c tx_now anchor] by (simp add: s)
  have ids: "ids = map t_id (filter (archivable ?c) (tasks d))"
    using s by (auto simp: sweep_tasks_def Let_def select_where_def)
  show ?thesis
  proof (cases "ids = []")
    case True
    then have none: "\<forall>t \<in> set (tasks d). \<not> archivable ?c t"
      by (simp add: ids filter_empty_conv)
    have "d' = d" "k = 0"
      using assms(2,3) True by (simp_all add: archive_terminal_tasks_def Let_def s)
    with none show ?thesis by (auto intro!: map_idI [symmetric])
  next
    case False
    then have "tasks d' = tasks d1" "k = length ids"
      using assms(2,3) by (auto simp: archive_terminal_tasks_def Let_def s)
    with d1 ids show ?thesis by (simp add: update_where_def)
  qed
qed

definition done_db :: db where
  "done_db = demo_db\<lparr>tasks := [demo_task\<lparr>t_status := Succeeded\<rparr>]\<rparr>"

lemma done_wf: "wf_tasks done_db"
  by (simp add: wf_tasks_def done_db_def demo_simps)

theorem archive_terminal_tasks_exact_witness:
  "fst (archive_terminal_tasks default_settings (Some 1) (Some 200000) 0 200000 done_db) = 1"
proof -
  have f: "filter (archivable (200000 - days 1)) (tasks done_db) = [demo_task\<lparr>t_status := Succeeded\<rparr>]"
    by (simp add: done_db_def archivable_def status_lists days_def demo_simps)
  show ?thesis
    using archive_terminal_tasks_exact [OF done_wf prod.collapse [symmetric], of 1 default_settings 200000 0 200000]
    unfolding f by simp
qed

lemma delete_archived_effect:
  assumes "wf_tasks d" and "delete_archived_tasks cfg (Some n) (Some anchor) current d = (k, d')" and "0 < n"
  shows "tasks d' = filter (\<lambda>t. \<not> deletable (anchor - days n) t) (tasks d)"
    and "k = length (filter (deletable (anchor - days n)) (tasks d))"
    and "task_refs_ok d \<longrightarrow> task_refs_ok d'"
proof -
  let ?P = "deletable (anchor - days n)"
  let ?ids = "map t_id (select_where ?P (tasks d))"
  have hit: "t_id t \<in> set ?ids \<longleftrightarrow> ?P t" if "t \<in> set (tasks d)" for t
    using that distinct_map_inj [OF wf_tasks_distinct [OF assms(1)]] by (auto simp: table_simps)
  have kept: "filter (\<lambda>t. t_id t \<notin> set ?ids) (tasks d) = filter (\<lambda>t. \<not> ?P t) (tasks d)"
  proof (rule filter_cong [OF refl])
    fix t assume "t \<in> set (tasks d)"
    from hit [OF this] show "t_id t \<notin> set ?ids \<longleftrightarrow> \<not> ?P t" by (rule arg_cong)
  qed
  consider (none) "?ids = []" "d' = d" "k = 0" | (some) "d' = delete_task_rows ?ids d" "k = length ?ids"
    using assms(2,3) by (cases "?ids = []") (simp_all add: delete_archived_tasks_def Let_def)
  then have "tasks d' = filter (\<lambda>t. \<not> ?P t) (tasks d) \<and> k = length (filter ?P (tasks d))
    \<and> (task_refs_ok d \<longrightarrow> task_refs_ok d')"
  proof cases
    case none
    then have "filter ?P (tasks d) = []" by (simp add: select_where_def)
    with none show ?thesis by (simp add: filter_empty_conv)
  next
    case some
    then show ?thesis
      using kept delete_rows_refs [of d ?ids] by (simp add: delete_rows_tasks) (simp add: select_where_def)
  qed
  then show "tasks d' = filter (\<lambda>t. \<not> ?P t) (tasks d)" "k = length (filter ?P (tasks d))"
    "task_refs_ok d \<longrightarrow> task_refs_ok d'"
    by blast+
qed

text \<open>
  C24. Deleting archived tasks deletes exactly the tasks archived before the cutoff, returns their
  number, and never leaves a dangling reference: sessions, events and approvals that refer to a
  deleted task go with it.
\<close>

theorem delete_archived_tasks_clean:
  assumes "wf_tasks d" and "task_refs_ok d" and "0 < n"
    and "delete_archived_tasks cfg (Some n) (Some anchor) current d = (k, d')"
  shows "tasks d' = filter (\<lambda>t. \<not> deletable (anchor - days n) t) (tasks d)
    \<and> k = length (filter (deletable (anchor - days n)) (tasks d)) \<and> task_refs_ok d'"
  using delete_archived_effect [OF assms(1,4,3)] assms(2) by blast

definition old_db :: db where
  "old_db = demo_db\<lparr>tasks := [demo_task\<lparr>t_status := Succeeded, t_archived_at := Some 100\<rparr>]\<rparr>"

theorem delete_archived_tasks_clean_witness:
  "tasks (snd (delete_archived_tasks default_settings (Some 1) (Some 200000) 0 old_db)) = []"
proof -
  have refs: "task_refs_ok old_db" and wf: "wf_tasks old_db"
    by (simp_all add: task_refs_ok_def wf_tasks_def old_db_def demo_simps)
  have "filter (\<lambda>t. \<not> deletable (200000 - days 1) t) (tasks old_db) = []"
    by (simp add: old_db_def deletable_def days_def)
  with delete_archived_tasks_clean [OF wf refs _ prod.collapse [symmetric], of 1 default_settings 200000 0]
  show ?thesis by simp
qed

text \<open>
  C29. Job-history pruning keeps the newest runs: of the pruned type exactly the first \<open>keep\<close> in the
  order (start, id) descending remain, and runs of every other type are untouched.
\<close>

theorem prune_job_runs_keeps_newest:
  assumes "runs_ok d" and "0 \<le> keep" and "prune_background_job_runs cfg job_type (Some keep) d = (k, d')"
  shows "set (filter (\<lambda>r. jr_job_type r = job_type) (job_runs d'))
      = set (take (nat keep) (run_order (filter (\<lambda>r. jr_job_type r = job_type) (job_runs d))))
    \<and> filter (\<lambda>r. jr_job_type r \<noteq> job_type) (job_runs d') = filter (\<lambda>r. jr_job_type r \<noteq> job_type) (job_runs d)"
proof -
  let ?of = "filter (\<lambda>r. jr_job_type r = job_type) (job_runs d)"
  let ?o = "run_order ?of"
  let ?ids = "map jr_id (drop (nat keep) ?o)"
  have d': "job_runs d' = filter (\<lambda>r. jr_id r \<notin> set ?ids) (job_runs d)"
    using assms(2,3) by (auto simp: prune_background_job_runs_def Let_def select_where_def delete_where_def
        filter_id_conv split: if_splits)
  have set_o: "set ?o = set ?of" by (simp add: run_order_def)
  have "mset ?o = mset ?of" by (simp add: run_order_def)
  then have "mset (map jr_id ?o) = mset (map jr_id ?of)" by simp
  moreover have "distinct (map jr_id ?of)"
    using assms(1) by (simp add: runs_ok_def distinct_map_filter)
  ultimately have dist: "distinct (map jr_id ?o)"
    using mset_eq_imp_distinct_iff by blast
  have split: "set ?o = set (take (nat keep) ?o) \<union> set (drop (nat keep) ?o)"
    by (metis append_take_drop_id set_append)
  have disj: "jr_id ` set (take (nat keep) ?o) \<inter> set ?ids = {}"
    using dist by (metis append_take_drop_id distinct_append map_append list.set_map)
  have "set (filter (\<lambda>r. jr_job_type r = job_type) (job_runs d')) = {r \<in> set ?o. jr_id r \<notin> set ?ids}"
    using d' set_o by auto
  also have "\<dots> = set (take (nat keep) ?o)"
    using split disj by (auto simp: image_iff disjoint_iff)
  finally have kept: "set (filter (\<lambda>r. jr_job_type r = job_type) (job_runs d')) = set (take (nat keep) ?o)" .
  have "jr_id r \<notin> set ?ids" if "r \<in> set (job_runs d)" "jr_job_type r \<noteq> job_type" for r
  proof
    assume "jr_id r \<in> set ?ids"
    then obtain x where x: "x \<in> set (drop (nat keep) ?o)" "jr_id x = jr_id r" by auto
    then have "x \<in> set ?of" using split set_o by auto
    then show False
      using that x(2) assms(1) distinct_map_inj [of jr_id "job_runs d" x r] by (auto simp: runs_ok_def)
  qed
  then have "filter (\<lambda>r. jr_job_type r \<noteq> job_type) (job_runs d') = filter (\<lambda>r. jr_job_type r \<noteq> job_type) (job_runs d)"
    unfolding d' by (auto intro!: filter_cong)
  with kept show ?thesis by blast
qed

theorem prune_job_runs_keeps_newest_witness:
  "set (filter (\<lambda>r. jr_job_type r = ''housekeeping'') (job_runs (snd (prune_background_job_runs default_settings ''housekeeping'' (Some 1) demo_jobs))))
   = set (take (nat 1) (run_order (filter (\<lambda>r. jr_job_type r = ''housekeeping'') (job_runs demo_jobs))))"
proof -
  have "runs_ok demo_jobs"
    by (simp add: runs_ok_def demo_jobs_def demo_final_def new_run_def)
  from prune_job_runs_keeps_newest [OF this _ prod.collapse [symmetric], of 1] show ?thesis by simp
qed

lemma completed_ats_snd: "completed_ats es = Inr ps \<Longrightarrow> map snd ps = es"
  by (induction es arbitrary: ps) (auto simp: result_map_Inr_iff split: pyval.splits)

text \<open>
  C30. Backup rotation is confined to its category: it removes only completed, unprotected sets of the
  given namespace and kind, and at most \<open>KEEP\<close> such sets remain.
\<close>

theorem prune_backups_confined:
  assumes "prune_backups namespace kind entries = Inr kept" and "KEEP kind = Some keep" and "distinct entries"
  shows "set kept \<subseteq> set entries
    \<and> (\<forall>e \<in> set entries. e \<notin> set kept \<longrightarrow> backup_eligible namespace kind e)
    \<and> length (filter (backup_eligible namespace kind) kept) = min keep (length (filter (backup_eligible namespace kind) entries))"
proof -
  let ?el = "filter (backup_eligible namespace kind) entries"
  from assms(1,2) obtain ps where ps: "completed_ats ?el = Inr ps"
    and kept: "kept = filter (\<lambda>e. e \<notin> set (map snd (drop keep (order_rows False fst ps)))) entries"
    by (auto simp: prune_backups_def result_map_Inr_iff Let_def)
  let ?o = "map snd (order_rows False fst ps)"
  have "mset ?o = mset (map snd ps)" by simp
  then have mo: "mset ?o = mset ?el" using completed_ats_snd [OF ps] by simp
  then have so: "set ?o = set ?el" by (rule mset_eq_setD)
  have do: "distinct ?o"
    using mo assms(3) mset_eq_imp_distinct_iff distinct_filter by blast
  have rem: "map snd (drop keep (order_rows False fst ps)) = drop keep ?o" by (simp add: drop_map)
  have sub: "set (drop keep ?o) \<subseteq> set ?el" using set_drop_subset [of keep ?o] unfolding so .
  have "filter (backup_eligible namespace kind) kept = filter (\<lambda>e. e \<notin> set (drop keep ?o)) ?el"
    unfolding kept rem by (simp add: conj_commute)
  moreover have "mset (filter (\<lambda>e. e \<notin> set (drop keep ?o)) ?el) = mset (filter (\<lambda>e. e \<notin> set (drop keep ?o)) ?o)"
    by (simp only: mset_filter mo)
  moreover have "filter (\<lambda>e. e \<notin> set (drop keep ?o)) ?o = take keep ?o"
  proof -
    have "distinct (take keep ?o @ drop keep ?o)" using do by simp
    then have "set (take keep ?o) \<inter> set (drop keep ?o) = {}" by (simp only: distinct_append)
    then have "filter (\<lambda>e. e \<notin> set (drop keep ?o)) (take keep ?o @ drop keep ?o) = take keep ?o"
      unfolding filter_append by (auto simp: filter_id_conv filter_empty_conv disjoint_iff)
    then show ?thesis by (simp only: append_take_drop_id)
  qed
  ultimately have "mset (filter (backup_eligible namespace kind) kept) = mset (take keep ?o)"
    by (simp only:)
  then have "length (filter (backup_eligible namespace kind) kept) = length (take keep ?o)"
    by (metis size_mset)
  moreover have "length ?o = length ?el" using mo by (metis size_mset)
  ultimately have "length (filter (backup_eligible namespace kind) kept) = min keep (length ?el)"
    by (simp add: min.commute)
  moreover have "set kept \<subseteq> set entries" unfolding kept by simp
  moreover have "backup_eligible namespace kind e" if "e \<in> set entries" "e \<notin> set kept" for e
  proof -
    have "e \<in> set (drop keep ?o)" using that unfolding kept rem by simp
    with sub show ?thesis by auto
  qed
  ultimately show ?thesis by blast
qed

definition demo_backup :: backup_entry where
  "demo_backup = \<lparr>bk_name = ''b'', bk_real = True, bk_manifest = []\<rparr>"

theorem prune_backups_confined_witness:
  "prune_backups ''ns'' ''nightly'' [demo_backup] = Inr [demo_backup]
   \<and> length (filter (backup_eligible ''ns'' ''nightly'') [demo_backup]) = min 7 0"
proof -
  have p: "prune_backups ''ns'' ''nightly'' [demo_backup] = Inr [demo_backup]"
    by (simp add: prune_backups_def KEEP_def backup_eligible_def demo_backup_def)
  have k: "KEEP ''nightly'' = Some 7" by (simp add: KEEP_def)
  from prune_backups_confined [OF p k] p show ?thesis
    by (simp add: backup_eligible_def demo_backup_def)
qed

end
