(* ===== verification/Knowledge_Grants.thy ===== *)
theory Knowledge_Grants
  imports Py_Text
begin

text \<open>
  \<open>shared/lib/knowledge_source_authorization.py\<close>: which knowledge sources a workflow may use.  The
  packages discovered on disk and their \<open>.mcp.json\<close> files are parameters; \<open>None\<close> stands for a read or
  parse that raised one of the caught exceptions.
\<close>

section \<open>Grants\<close>

definition MAX_SOURCE_GRANTS :: nat where
  "MAX_SOURCE_GRANTS = 100"

record grants =
  g_aliases :: "string list"
  g_compatibility_all :: bool

definition no_grants :: grants where
  "no_grants = \<lparr>g_aliases = [], g_compatibility_all = False\<rparr>"

definition all_grants :: "bool \<Rightarrow> grants" where
  "all_grants require_explicit = \<lparr>g_aliases = [], g_compatibility_all = \<not> require_explicit\<rparr>"

text \<open>\<open>[A-Za-z0-9][A-Za-z0-9._/-]{0,199}\<close> as a full match.\<close>

definition alias_start :: "char \<Rightarrow> bool" where
  "alias_start c \<longleftrightarrow> is_alpha c \<or> is_digit c"

definition alias_char :: "char \<Rightarrow> bool" where
  "alias_char c \<longleftrightarrow> alias_start c \<or> c \<in> {CHR ''.'', CHR ''_'', CHR ''/'', CHR ''-''}"

fun alias_ok :: "string \<Rightarrow> bool" where
  "alias_ok [] = False"
| "alias_ok (c # s) = (alias_start c \<and> (\<forall>x \<in> set s. alias_char x) \<and> length s \<le> 199)"

definition allows :: "grants \<Rightarrow> string \<Rightarrow> bool" where
  "allows g name \<longleftrightarrow> alias_ok name \<and> (g_compatibility_all g \<or> name \<in> set (g_aliases g))"

definition alias_value_ok :: "pyval \<Rightarrow> bool" where
  "alias_value_ok v = (case v of PStr s \<Rightarrow> alias_ok s | _ \<Rightarrow> False)"

definition text_of :: "pyval \<Rightarrow> string" where
  "text_of v = (case v of PStr s \<Rightarrow> s | _ \<Rightarrow> [])"

definition explicit_grants :: "pyval \<Rightarrow> grants" where
  "explicit_grants aliases =
     (case aliases of
        PList vs \<Rightarrow>
          (if length vs > MAX_SOURCE_GRANTS \<or> (\<exists>v \<in> set vs. \<not> alias_value_ok v) \<or> \<not> distinct vs then no_grants
           else \<lparr>g_aliases = map text_of vs, g_compatibility_all = False\<rparr>)
      | _ \<Rightarrow> no_grants)"

definition source_grants :: "pyval \<Rightarrow> bool \<Rightarrow> grants" where
  "source_grants config require_explicit =
     (case config of
        PDict c \<Rightarrow>
          (case map_of c ''knowledge'' of
             None \<Rightarrow> all_grants require_explicit
           | Some (PDict k) \<Rightarrow>
               (if \<exists>key \<in> fst ` set k. key \<noteq> ''sources'' then no_grants
                else case map_of k ''sources'' of
                  None \<Rightarrow> all_grants require_explicit
                | Some aliases \<Rightarrow> explicit_grants aliases)
           | Some _ \<Rightarrow> no_grants)
      | _ \<Rightarrow> no_grants)"

section \<open>Workflows\<close>

record package =
  wp_name :: string
  wp_config :: pyval
  wp_mcp_json :: "pyval option"

definition has_knowledge_server :: "package \<Rightarrow> bool" where
  "has_knowledge_server p =
     (case wp_mcp_json p of
        Some (PDict m) \<Rightarrow>
          (case dict_get m ''mcpServers'' of PDict servers \<Rightarrow> ''knowledge'' \<in> fst ` set servers | _ \<Rightarrow> False)
      | _ \<Rightarrow> False)"

definition workflow_source_grants :: "package list option \<Rightarrow> bool \<Rightarrow> string \<Rightarrow> grants" where
  "workflow_source_grants packages strict workflow =
     (case packages of
        None \<Rightarrow> no_grants
      | Some ps \<Rightarrow>
          (case filter (\<lambda>p. wp_name p = workflow) ps of
             [] \<Rightarrow> no_grants
           | p # _ \<Rightarrow> if has_knowledge_server p then source_grants (wp_config p) strict else no_grants))"

text \<open>\<open>KnowledgeSourceServingRegistry.authorize\<close>.\<close>

definition authorize :: "package list option \<Rightarrow> bool \<Rightarrow> string \<Rightarrow> string \<Rightarrow> unit result" where
  "authorize packages strict workflow name =
     (if allows (workflow_source_grants packages strict workflow) name then Inr ()
      else Inl (Permission_error (''Workflow is not authorized for Knowledge Source: '' @ name)))"

section \<open>Lemmas\<close>

text \<open>The declarative reading of a workflow's grant: the alias is listed, or nothing was listed and that is allowed.\<close>

definition lists_source :: "pyval \<Rightarrow> string \<Rightarrow> bool" where
  "lists_source config name \<longleftrightarrow>
     (\<exists>c k vs. config = PDict c \<and> map_of c ''knowledge'' = Some (PDict k) \<and> map_of k ''sources'' = Some (PList vs)
        \<and> PStr name \<in> set vs)"

definition lists_nothing :: "pyval \<Rightarrow> bool" where
  "lists_nothing config \<longleftrightarrow>
     (\<exists>c. config = PDict c \<and> (map_of c ''knowledge'' = None
        \<or> (\<exists>k. map_of c ''knowledge'' = Some (PDict k) \<and> map_of k ''sources'' = None)))"

lemma explicit_grants_allows:
  "allows (explicit_grants aliases) name \<Longrightarrow> \<exists>vs. aliases = PList vs \<and> PStr name \<in> set vs"
  by (cases aliases)
    (force simp: explicit_grants_def allows_def no_grants_def alias_value_ok_def text_of_def split: if_splits pyval.splits)+

lemma not_allows_none [simp]: "\<not> allows no_grants name"
  by (simp add: allows_def no_grants_def)

lemma source_grants_allows:
  assumes "allows (source_grants config strict) name"
  shows "lists_source config name \<or> (\<not> strict \<and> lists_nothing config)"
proof (cases config)
  case (PDict c)
  show ?thesis
  proof (cases "map_of c ''knowledge''")
    case None
    then have "lists_nothing config" using PDict by (simp add: lists_nothing_def)
    moreover have "\<not> strict"
      using assms PDict None by (simp add: source_grants_def all_grants_def allows_def)
    ultimately show ?thesis by blast
  next
    case (Some kv)
    then obtain k where k: "kv = PDict k"
      using assms PDict by (cases kv) (simp_all add: source_grants_def)
    show ?thesis
    proof (cases "map_of k ''sources''")
      case None
      then have "lists_nothing config" using PDict Some k by (simp add: lists_nothing_def)
      moreover have "\<not> strict"
        using assms PDict Some k None by (auto simp: source_grants_def all_grants_def allows_def no_grants_def split: if_splits)
      ultimately show ?thesis by blast
    next
      case aliases: (Some aliases)
      then have "allows (explicit_grants aliases) name"
        using assms PDict Some k by (simp add: source_grants_def split: if_splits)
      from explicit_grants_allows [OF this] show ?thesis
        using PDict Some k aliases unfolding lists_source_def by blast
    qed
  qed
qed (use assms in \<open>simp_all add: source_grants_def\<close>)

section \<open>Properties\<close>

text \<open>
  C17. Access is denied by default.  An authorized alias is well formed, and it is authorized only for a
  workflow whose package was found, declares the knowledge server, and lists that alias under
  \<open>knowledge.sources\<close>; a package that lists no sources grants access only while explicit grants are
  not required.
\<close>

theorem access_needs_a_grant:
  assumes "authorize packages strict workflow name = Inr ()"
  shows "alias_ok name \<and> (\<exists>ps p. packages = Some ps \<and> p \<in> set ps \<and> wp_name p = workflow \<and> has_knowledge_server p
    \<and> (lists_source (wp_config p) name \<or> (\<not> strict \<and> lists_nothing (wp_config p))))"
proof -
  have a: "allows (workflow_source_grants packages strict workflow) name"
    using assms by (simp add: authorize_def split: if_splits)
  obtain ps where ps: "packages = Some ps"
    using a by (cases packages) (simp_all add: workflow_source_grants_def)
  obtain p rest where p: "filter (\<lambda>p. wp_name p = workflow) ps = p # rest"
    using a ps by (cases "filter (\<lambda>p. wp_name p = workflow) ps") (simp_all add: workflow_source_grants_def)
  then have "p \<in> set (filter (\<lambda>p. wp_name p = workflow) ps)" by simp
  then have "p \<in> set ps" "wp_name p = workflow" by simp_all
  moreover have "has_knowledge_server p" "allows (source_grants (wp_config p) strict) name"
    using a ps p by (simp_all add: workflow_source_grants_def split: if_splits)
  ultimately show ?thesis
    using source_grants_allows [of "wp_config p" strict name] a ps by (auto simp: allows_def)
qed

definition demo_package :: package where
  "demo_package = \<lparr>wp_name = ''triage'',
     wp_config = PDict [(''knowledge'', PDict [(''sources'', PList [PStr ''docs''])])],
     wp_mcp_json = Some (PDict [(''mcpServers'', PDict [(''knowledge'', PDict [])])])\<rparr>"

lemma demo_authorized: "authorize (Some [demo_package]) True ''triage'' ''docs'' = Inr ()"
  by (simp add: authorize_def workflow_source_grants_def demo_package_def has_knowledge_server_def source_grants_def
      explicit_grants_def allows_def alias_value_ok_def text_of_def MAX_SOURCE_GRANTS_def alias_start_def alias_char_def
      is_alpha_def is_digit_def char_code_def)

theorem access_needs_a_grant_witness: "alias_ok ''docs'' \<and> has_knowledge_server demo_package"
  using access_needs_a_grant [OF demo_authorized] by auto

end
