(* ===== verification/Hybrid_Ranking.thy ===== *)
theory Hybrid_Ranking
  imports Py_Text Db_Tables "HOL-Library.List_Lexorder" "HOL-Library.Char_ord" "HOL-Library.Sublist"
begin

text \<open>
  The ranking half of \<open>shared/lib/knowledge_source_hybrid_retrieval.py\<close>: reciprocal-rank fusion of
  the dense and the lexical candidates, removal of overlapping chunks, and reranking by an external
  service.  Scores are exact rationals where the code has floats.
\<close>

section \<open>Candidates\<close>

text \<open>The columns of a candidate row, and the \<open>scores\<close> dict that fusion adds to it.\<close>

record candidate =
  c_chunk_id :: nat
  c_page_id :: string
  c_title :: string
  c_url :: string
  c_hierarchy_path :: "pyval list"
  c_heading_path :: "string list"
  c_ordinal :: int
  c_content :: string
  c_lexical_text :: string

record scored =
  s_row :: candidate
  s_rrf :: rat
  s_dense_rank :: "nat option"
  s_lexical_rank :: "nat option"
  s_rerank :: "rat option"

datatype lane = Dense | Lexical

definition identity :: "candidate \<Rightarrow> string" where
  "identity c = uuid_str (c_chunk_id c)"

definition item_id :: "scored \<Rightarrow> string" where
  "item_id i = identity (s_row i)"

section \<open>Reciprocal-rank fusion\<close>

definition unscored :: "candidate \<Rightarrow> scored" where
  "unscored c = \<lparr>s_row = c, s_rrf = 0, s_dense_rank = None, s_lexical_rank = None, s_rerank = None\<rparr>"

definition rank_score :: "nat \<Rightarrow> rat" where
  "rank_score rank = 1 / of_nat (60 + rank)"

definition bump :: "lane \<Rightarrow> nat \<Rightarrow> scored \<Rightarrow> scored" where
  "bump lane rank item =
     (case lane of
        Dense \<Rightarrow> item\<lparr>s_rrf := s_rrf item + rank_score rank, s_dense_rank := Some rank\<rparr>
      | Lexical \<Rightarrow> item\<lparr>s_rrf := s_rrf item + rank_score rank, s_lexical_rank := Some rank\<rparr>)"

text \<open>One lane: \<open>rank\<close> is the rank of the next candidate, \<open>seen\<close> the identities met in this lane.\<close>

fun fuse_lane ::
    "lane \<Rightarrow> nat \<Rightarrow> string list \<Rightarrow> candidate list \<Rightarrow> (string \<times> scored) list \<Rightarrow> (string \<times> scored) list" where
  "fuse_lane lane rank seen [] fused = fused"
| "fuse_lane lane rank seen (c # cs) fused =
     (if identity c \<in> set seen then fuse_lane lane (Suc rank) seen cs fused
      else
        let item = (case map_of fused (identity c) of None \<Rightarrow> unscored c | Some i \<Rightarrow> i)
        in fuse_lane lane (Suc rank) (identity c # seen) cs
             (AList.update (identity c) (bump lane rank item) fused))"

definition reciprocal_rank_fusion :: "candidate list \<Rightarrow> candidate list \<Rightarrow> scored list" where
  "reciprocal_rank_fusion dense lexical =
     sort_key (\<lambda>i. (- s_rrf i, item_id i))
       (map snd (fuse_lane Lexical 1 [] (take 20 lexical) (fuse_lane Dense 1 [] (take 20 dense) [])))"

section \<open>Overlapping chunks\<close>

text \<open>
  \<open>ceil(shorter * 0.65)\<close>: the float product is exact at the multiples of 20, the only arguments where
  the exact product is an integer, so the ceiling is that of the exact product.
\<close>

definition least_overlap :: "nat \<Rightarrow> nat" where
  "least_overlap shorter = (13 * shorter + 19) div 20"

text \<open>\<open>left[-size:] == right[:size]\<close> for some size down to the least one.\<close>

definition words_overlap :: "string list \<Rightarrow> string list \<Rightarrow> bool" where
  "words_overlap left right =
     (let shorter = min (length left) (length right)
      in shorter \<noteq> 0
         \<and> (\<exists>size \<in> set [least_overlap shorter..<Suc shorter].
              drop (length left - size) left = take size right))"

definition overlap :: "candidate \<Rightarrow> candidate \<Rightarrow> bool" where
  "overlap first second =
     (if c_page_id first \<noteq> c_page_id second then False
      else
        let first_words = split_ws (c_content first); second_words = split_ws (c_content second)
        in if first_words = second_words then True
           else if \<bar>c_ordinal first - c_ordinal second\<bar> \<noteq> 1 \<or> c_heading_path first \<noteq> c_heading_path second then False
           else if c_ordinal first < c_ordinal second then words_overlap first_words second_words
           else words_overlap second_words first_words)"

fun dedupe_loop :: "scored list \<Rightarrow> scored list \<Rightarrow> scored list" where
  "dedupe_loop kept [] = kept"
| "dedupe_loop kept (c # cs) =
     (if \<exists>prior \<in> set kept. overlap (s_row c) (s_row prior) then dedupe_loop kept cs
      else dedupe_loop (kept @ [c]) cs)"

definition deduplicate_candidates :: "scored list \<Rightarrow> scored list" where
  "deduplicate_candidates candidates = dedupe_loop [] candidates"

section \<open>Reranking\<close>

record rerank_options =
  ro_enabled :: bool
  ro_base_url :: string
  ro_model :: string
  ro_timeout_sec :: rat
  ro_candidates :: nat
  ro_api_key :: string

record rerank_request =
  rq_url :: string
  rq_authorization :: "string option"
  rq_model :: string
  rq_query :: string
  rq_documents :: "string list"
  rq_timeout_sec :: rat

text \<open>
  What \<open>client.post\<close> gives: \<open>None\<close> when it raises an \<open>httpx\<close> error, otherwise the status, the size of
  the body and the parsed body, \<open>None\<close> when it is not JSON.
\<close>

record rerank_response =
  rr_status :: int
  rr_size :: nat
  rr_json :: "pyval option"

text \<open>One result: \<open>None\<close> for everything the loop raises on (missing keys and non-dicts included).\<close>

definition result_score :: "nat \<Rightarrow> pyval \<Rightarrow> (nat \<times> rat) option" where
  "result_score n result =
     (case result of
        PDict r \<Rightarrow>
          (case (map_of r ''index'', map_of r ''relevance_score'') of
             (Some (PInt i), Some v) \<Rightarrow>
               (if 0 \<le> i \<and> i < int n then map_option (\<lambda>q. (nat i, q)) (to_float v) else None)
           | _ \<Rightarrow> None)
      | _ \<Rightarrow> None)"

fun read_scores :: "nat \<Rightarrow> (nat \<times> rat) list \<Rightarrow> pyval list \<Rightarrow> (nat \<times> rat) list option" where
  "read_scores n scores [] = Some scores"
| "read_scores n scores (r # rs) =
     (case result_score n r of
        None \<Rightarrow> None
      | Some (i, q) \<Rightarrow> if i \<in> fst ` set scores then None else read_scores n (scores @ [(i, q)]) rs)"

definition rerank_request_of :: "rerank_options \<Rightarrow> string \<Rightarrow> scored list \<Rightarrow> rerank_request" where
  "rerank_request_of opts query selected =
     \<lparr>rq_url = rstrip_char (CHR ''/'') (ro_base_url opts) @ ''/rerank'',
      rq_authorization = (if ro_api_key opts \<noteq> [] then Some (''Bearer '' @ ro_api_key opts) else None),
      rq_model = ro_model opts, rq_query = query,
      rq_documents = map (\<lambda>i. c_lexical_text (s_row i)) selected, rq_timeout_sec = ro_timeout_sec opts\<rparr>"

definition reranked :: "scored list \<Rightarrow> (nat \<times> rat) list \<Rightarrow> scored list" where
  "reranked selected scores =
     map (\<lambda>(i, q). (selected ! i)\<lparr>s_rerank := Some q\<rparr>) (sort_key (\<lambda>(i, q). (- q, i)) scores)"

definition rerank_warning :: string where
  "rerank_warning = ''Reranker unavailable or malformed; retained reciprocal-rank order''"

definition response_scores :: "nat \<Rightarrow> rerank_response option \<Rightarrow> (nat \<times> rat) list option" where
  "response_scores n response =
     (case response of
        None \<Rightarrow> None
      | Some r \<Rightarrow>
          (if rr_status r \<noteq> 200 \<or> rr_size r > 100000 then None
           else case rr_json r of
             Some (PDict payload) \<Rightarrow>
               (case dict_get payload ''results'' of
                  PList results \<Rightarrow> if length results \<noteq> n then None else read_scores n [] results
                | _ \<Rightarrow> None)
           | _ \<Rightarrow> None))"

definition rerank_candidates ::
    "(rerank_request \<Rightarrow> rerank_response option) \<Rightarrow> rerank_options \<Rightarrow> string \<Rightarrow> scored list
     \<Rightarrow> scored list \<times> string option" where
  "rerank_candidates post opts query candidates =
     (if \<not> ro_enabled opts \<or> candidates = [] then (candidates, None)
      else
        let selected = take (ro_candidates opts) candidates
        in case response_scores (length selected) (post (rerank_request_of opts query selected)) of
             None \<Rightarrow> (candidates, Some rerank_warning)
           | Some scores \<Rightarrow> (reranked selected scores @ drop (length selected) candidates, None))"

section \<open>Fusion against its reference\<close>

text \<open>The rank of an identity in a lane is that of its first occurrence.\<close>

fun rank_from :: "nat \<Rightarrow> string \<Rightarrow> candidate list \<Rightarrow> nat option" where
  "rank_from r k [] = None"
| "rank_from r k (c # cs) = (if identity c = k then Some r else rank_from (Suc r) k cs)"

definition lane_rank :: "candidate list \<Rightarrow> string \<Rightarrow> nat option" where
  "lane_rank cs k = rank_from 1 k (take 20 cs)"

definition lane_score :: "candidate list \<Rightarrow> string \<Rightarrow> rat" where
  "lane_score cs k = (case lane_rank cs k of None \<Rightarrow> 0 | Some r \<Rightarrow> rank_score r)"

definition pick :: "string \<Rightarrow> candidate list \<Rightarrow> candidate" where
  "pick k cs = hd (filter (\<lambda>c. identity c = k) cs)"

text \<open>What fusion is to compute for one identity: the first row found, and the sum over the lanes.\<close>

definition fused_item :: "candidate list \<Rightarrow> candidate list \<Rightarrow> string \<Rightarrow> scored" where
  "fused_item dense lexical k =
     \<lparr>s_row = pick k (take 20 dense @ take 20 lexical),
      s_rrf = lane_score dense k + lane_score lexical k,
      s_dense_rank = lane_rank dense k, s_lexical_rank = lane_rank lexical k, s_rerank = None\<rparr>"

lemma rank_from_None: "rank_from r k cs = None \<longleftrightarrow> k \<notin> identity ` set cs"
  by (induction r k cs rule: rank_from.induct) auto

lemma fuse_lane_get:
  "map_of (fuse_lane lane r seen cs fused) k =
     (if k \<in> set seen then map_of fused k
      else case rank_from r k cs of
        None \<Rightarrow> map_of fused k
      | Some n \<Rightarrow> Some (bump lane n (case map_of fused k of None \<Rightarrow> unscored (pick k cs) | Some i \<Rightarrow> i)))"
proof (induction lane r seen cs fused rule: fuse_lane.induct)
  case (2 lane r seen c cs fused)
  then show ?case
    by (cases "identity c = k") (auto simp: Let_def update_conv pick_def split: option.split)
qed simp

lemma fuse_lane_keys: "distinct (map fst fused) \<Longrightarrow> distinct (map fst (fuse_lane lane r seen cs fused))"
  by (induction lane r seen cs fused rule: fuse_lane.induct) (simp_all add: Let_def distinct_update)

lemma fuse_map_of:
  "map_of (fuse_lane Lexical 1 [] (take 20 lexical) (fuse_lane Dense 1 [] (take 20 dense) [])) k =
     (if k \<in> identity ` set (take 20 dense @ take 20 lexical) then Some (fused_item dense lexical k) else None)"
proof -
  have pick: "pick k (take 20 dense @ take 20 lexical) =
      (if k \<in> identity ` set (take 20 dense) then pick k (take 20 dense) else pick k (take 20 lexical))"
    by (auto simp: pick_def filter_empty_conv hd_append image_iff)
  show ?thesis
    using rank_from_None [of 1 k "take 20 dense"] rank_from_None [of 1 k "take 20 lexical"]
    by (cases "rank_from 1 k (take 20 dense)"; cases "rank_from 1 k (take 20 lexical)")
      (simp_all add: fuse_lane_get fused_item_def lane_score_def lane_rank_def pick bump_def unscored_def
        image_Un del: One_nat_def)
qed

lemma pick_in: "k \<in> identity ` set cs \<Longrightarrow> pick k cs \<in> set cs \<and> identity (pick k cs) = k"
proof -
  assume "k \<in> identity ` set cs"
  then have "filter (\<lambda>c. identity c = k) cs \<noteq> []" by (auto simp: filter_empty_conv)
  then have "pick k cs \<in> set (filter (\<lambda>c. identity c = k) cs)" unfolding pick_def by (rule hd_in_set)
  then show ?thesis by simp
qed

lemma fused_item_id:
  "k \<in> identity ` set (take 20 dense @ take 20 lexical) \<Longrightarrow> item_id (fused_item dense lexical k) = k"
  using pick_in [of k "take 20 dense @ take 20 lexical"] by (simp add: item_id_def fused_item_def)

lemma snd_of_map_of: "distinct (map fst xs) \<Longrightarrow> map snd xs = map (the \<circ> map_of xs) (map fst xs)"
  by (auto intro!: map_cong)

section \<open>Deduplication and reranking\<close>

lemma overlap_sym: "overlap a b = overlap b a"
  by (auto simp: overlap_def Let_def)

lemma dedupe_loop_subseq: "\<exists>ys. dedupe_loop kept cs = kept @ ys \<and> subseq ys cs"
proof (induction kept cs rule: dedupe_loop.induct)
  case (2 kept c cs)
  show ?case
  proof (cases "\<exists>prior \<in> set kept. overlap (s_row c) (s_row prior)")
    case True
    with 2(1) show ?thesis by auto
  next
    case False
    with 2(2) obtain ys where "dedupe_loop (kept @ [c]) cs = (kept @ [c]) @ ys" "subseq ys cs" by blast
    with False show ?thesis by (intro exI [of _ "c # ys"]) simp
  qed
qed simp

lemma dedupe_loop_apart:
  "sorted_wrt (\<lambda>a b. \<not> overlap (s_row a) (s_row b)) kept \<Longrightarrow>
   sorted_wrt (\<lambda>a b. \<not> overlap (s_row a) (s_row b)) (dedupe_loop kept cs)"
  by (induction kept cs rule: dedupe_loop.induct) (auto simp: sorted_wrt_append overlap_sym)

lemma dedupe_loop_keeps: "set kept \<subseteq> set (dedupe_loop kept cs)"
  using dedupe_loop_subseq [of kept cs] by auto

lemma dedupe_loop_covers:
  "x \<in> set cs \<Longrightarrow> x \<in> set (dedupe_loop kept cs) \<or> (\<exists>y \<in> set (dedupe_loop kept cs). overlap (s_row x) (s_row y))"
proof (induction kept cs rule: dedupe_loop.induct)
  case (2 kept c cs)
  show ?case
  proof (cases "\<exists>prior \<in> set kept. overlap (s_row c) (s_row prior)")
    case True
    with 2(1,3) dedupe_loop_keeps [of kept cs] show ?thesis by auto
  next
    case False
    with 2(2,3) dedupe_loop_keeps [of "kept @ [c]" cs] show ?thesis by auto
  qed
qed simp

lemma read_scores_shape:
  assumes "read_scores n scores rs = Some out" and "distinct (map fst scores)" and "fst ` set scores \<subseteq> {..<n}"
  shows "distinct (map fst out) \<and> fst ` set out \<subseteq> {..<n} \<and> length out = length scores + length rs"
  using assms
proof (induction n scores rs rule: read_scores.induct)
  case (2 n scores r rs)
  then obtain i q where r: "result_score n r = Some (i, q)" "i \<notin> fst ` set scores"
      "read_scores n (scores @ [(i, q)]) rs = Some out"
    by (auto split: option.splits if_splits)
  then have "i < n" by (auto simp: result_score_def split: pyval.splits option.splits if_splits)
  with r 2 show ?case by auto
qed simp

lemma read_scores_all:
  assumes "read_scores n [] rs = Some out" and "length rs = n"
  shows "mset (map fst out) = mset [0..<n]"
proof -
  from read_scores_shape [OF assms(1)] assms(2)
  have shape: "distinct (map fst out)" "set (map fst out) \<subseteq> {..<n}" "length (map fst out) = n" by auto
  then have "card (set (map fst out)) = n" by (simp only: distinct_card)
  with shape(2) have "set (map fst out) = {..<n}" by (intro card_subset_eq) auto
  then have "set (map fst out) = set [0..<n]" by (simp add: atLeast0LessThan)
  with shape(1) show ?thesis by (intro set_eq_iff_mset_eq_distinct [THEN iffD1]) simp_all
qed

lemma response_scores_all:
  assumes "response_scores n response = Some scores"
  shows "mset (map fst scores) = mset [0..<n]"
  using assms read_scores_all
  by (auto simp: response_scores_def split: option.splits if_splits pyval.splits)

lemma reranked_rows:
  assumes "mset (map fst scores) = mset [0..<length selected]"
  shows "mset (map s_row (reranked selected scores)) = mset (map s_row selected)"
proof -
  have "map s_row (reranked selected scores) = map (\<lambda>i. s_row (selected ! i)) (map fst (sort_key (\<lambda>(i, q). (- q, i)) scores))"
    by (simp add: reranked_def comp_def case_prod_beta)
  also have "mset \<dots> = image_mset (\<lambda>i. s_row (selected ! i)) (mset (map fst scores))"
    by (simp add: image_mset.compositionality comp_def)
  also have "\<dots> = mset (map (\<lambda>i. s_row (selected ! i)) [0..<length selected])"
    unfolding assms by simp
  also have "map (\<lambda>i. s_row (selected ! i)) [0..<length selected] = map s_row selected"
    by (rule nth_equalityI) simp_all
  finally show ?thesis .
qed

lemma length_reranked [simp]: "length (reranked selected scores) = length scores"
  by (simp add: reranked_def)

lemma reranked_sorted: "sorted (map (\<lambda>i. - the (s_rerank i)) (reranked selected scores))"
proof -
  let ?o = "sort_key (\<lambda>(i, q). (- q, i)) scores"
  have "map (\<lambda>i. - the (s_rerank i)) (reranked selected scores) = map (\<lambda>p. - snd p) ?o"
    by (simp add: reranked_def comp_def case_prod_beta)
  moreover have "sorted_wrt (\<lambda>a b. - snd a \<le> - snd b) ?o"
    using sorted_sort_key [of "\<lambda>(i, q). (- q, i)" scores] unfolding sorted_map
    by (rule sorted_wrt_mono_rel [rotated]) (auto simp: less_eq_prod_def case_prod_beta)
  ultimately show ?thesis by (simp only: sorted_map)
qed

lemma fusion_reference:
  "reciprocal_rank_fusion dense lexical =
     sort_key (\<lambda>i. (- s_rrf i, item_id i))
       (map (fused_item dense lexical) (remdups (map identity (take 20 dense @ take 20 lexical))))"
proof -
  let ?ids = "remdups (map identity (take 20 dense @ take 20 lexical))"
  let ?F = "fuse_lane Lexical 1 [] (take 20 lexical) (fuse_lane Dense 1 [] (take 20 dense) [])"
  let ?key = "\<lambda>i. (- s_rrf i, item_id i)"
  have dist: "distinct (map fst ?F)"
    by (intro fuse_lane_keys) simp
  have keys: "set (map fst ?F) = set ?ids"
    using fuse_map_of [of lexical dense] by (auto simp: dom_map_of_conv_image_fst [symmetric] dom_def split: if_splits)
  have "map snd ?F = map (fused_item dense lexical) (map fst ?F)"
    unfolding snd_of_map_of [OF dist]
    by (rule map_cong [OF refl]) (use keys in \<open>simp add: fuse_map_of image_Un del: One_nat_def\<close>)
  moreover have "mset (map fst ?F) = mset ?ids"
    using dist keys by (intro set_eq_iff_mset_eq_distinct [THEN iffD1]) simp_all
  ultimately have m: "mset (map snd ?F) = mset (map (fused_item dense lexical) ?ids)"
    by (simp only: mset_map)
  have "inj_on item_id (set (map (fused_item dense lexical) ?ids))"
  proof (rule inj_onI)
    fix x y
    assume "x \<in> set (map (fused_item dense lexical) ?ids)" "y \<in> set (map (fused_item dense lexical) ?ids)"
      and eq: "item_id x = item_id y"
    then obtain k l where "x = fused_item dense lexical k" "y = fused_item dense lexical l" "k \<in> set ?ids" "l \<in> set ?ids"
      by auto
    with eq fused_item_id [of k dense lexical] fused_item_id [of l dense lexical] show "x = y"
      by (simp add: image_Un)
  qed
  then have "inj_on ?key (set (map snd ?F))"
    unfolding mset_eq_setD [OF m] by (auto simp: inj_on_def)
  then show ?thesis
    unfolding reciprocal_rank_fusion_def
    by (intro sort_key_inj_key_eq) (simp_all only: m mset_sort sorted_sort_key)
qed

lemma fusion_rows: "i \<in> set (reciprocal_rank_fusion dense lexical) \<Longrightarrow> s_row i \<in> set dense \<union> set lexical"
proof -
  assume "i \<in> set (reciprocal_rank_fusion dense lexical)"
  then obtain k where k: "i = fused_item dense lexical k" "k \<in> identity ` set (take 20 dense @ take 20 lexical)"
    unfolding fusion_reference by auto
  then have "s_row i \<in> set (take 20 dense @ take 20 lexical)"
    using pick_in [OF k(2)] by (simp add: fused_item_def)
  then show ?thesis by (auto dest: in_set_takeD)
qed

lemma dedupe_loop_in: "x \<in> set (dedupe_loop [] cs) \<Longrightarrow> x \<in> set cs"
  using dedupe_loop_subseq [of "[]" cs] by (auto dest: list_emb_set)

lemma rerank_effect:
  assumes "rerank_candidates post opts query cs = (cs', w)"
  shows "mset (map s_row cs') = mset (map s_row cs) \<and> drop (ro_candidates opts) cs' = drop (ro_candidates opts) cs
    \<and> (w \<noteq> None \<longrightarrow> cs' = cs)
    \<and> (ro_enabled opts \<and> cs \<noteq> [] \<and> w = None \<longrightarrow> sorted (map (\<lambda>i. - the (s_rerank i)) (take (ro_candidates opts) cs')))"
proof (cases "ro_enabled opts \<and> cs \<noteq> []")
  case False
  with assms show ?thesis by (auto simp: rerank_candidates_def)
next
  case True
  let ?sel = "take (ro_candidates opts) cs"
  let ?resp = "response_scores (length ?sel) (post (rerank_request_of opts query ?sel))"
  show ?thesis
  proof (cases ?resp)
    case None
    with True assms show ?thesis by (auto simp: rerank_candidates_def Let_def)
  next
    case (Some scores)
    then have res: "cs' = reranked ?sel scores @ drop (length ?sel) cs" "w = None"
      using True assms by (auto simp: rerank_candidates_def Let_def)
    have m: "mset (map fst scores) = mset [0..<length ?sel]"
      by (rule response_scores_all [OF Some])
    then have len: "length scores = length ?sel"
      by (metis length_map length_upt minus_nat.diff_0 size_mset)
    have "mset (map s_row cs') = mset (map s_row ?sel) + mset (map s_row (drop (length ?sel) cs))"
      using reranked_rows [OF m] by (simp only: res map_append mset_append)
    also have "\<dots> = mset (map s_row (?sel @ drop (length ?sel) cs))"
      by (simp only: map_append mset_append)
    also have "?sel @ drop (length ?sel) cs = cs"
      by (cases "ro_candidates opts \<le> length cs") (simp_all add: min_def)
    finally show ?thesis
      using res len reranked_sorted [of ?sel scores] by (auto simp: min_def)
  qed
qed

lemma rerank_rows:
  "rerank_candidates post opts query cs = (cs', w) \<Longrightarrow> mset (map s_row cs') = mset (map s_row cs)"
  by (drule rerank_effect) blast

section \<open>Properties\<close>

text \<open>
  C16. Fusion computes the reciprocal-rank sum.  Its result is exactly the list of all identities met in
  the first 20 rows of either lane, each once, with its first rank in each lane and the sum of
  \<open>1 / (60 + rank)\<close> over the lanes, ordered by that sum downwards and by identity.
\<close>

theorem fusion_refines_reference:
  "reciprocal_rank_fusion dense lexical =
     sort_key (\<lambda>i. (- s_rrf i, item_id i))
       (map (fused_item dense lexical) (remdups (map identity (take 20 dense @ take 20 lexical))))"
  by (rule fusion_reference)

text \<open>
  Deduplication keeps candidates in order, no two of which overlap, and drops only candidates that
  overlap a kept one.
\<close>

theorem deduplicate_exact:
  assumes "deduplicate_candidates cs = kept"
  shows "subseq kept cs \<and> sorted_wrt (\<lambda>a b. \<not> overlap (s_row a) (s_row b)) kept
    \<and> (\<forall>x \<in> set cs. x \<in> set kept \<or> (\<exists>y \<in> set kept. overlap (s_row x) (s_row y)))"
  using dedupe_loop_subseq [of "[]" cs] dedupe_loop_apart [of "[]" cs] dedupe_loop_covers [of _ cs "[]"] assms
  unfolding deduplicate_candidates_def by auto

definition demo_candidate :: "nat \<Rightarrow> candidate" where
  "demo_candidate i =
     \<lparr>c_chunk_id = i, c_page_id = ''p'', c_title = ''t'', c_url = ''u'', c_hierarchy_path = [], c_heading_path = [],
      c_ordinal = 0, c_content = ''a b'', c_lexical_text = ''a b''\<rparr>"

theorem deduplicate_exact_witness:
  "subseq (deduplicate_candidates [unscored (demo_candidate 0), unscored (demo_candidate 1)])
     [unscored (demo_candidate 0), unscored (demo_candidate 1)]
   \<and> deduplicate_candidates [unscored (demo_candidate 0), unscored (demo_candidate 1)] = [unscored (demo_candidate 0)]"
  using deduplicate_exact [OF refl, of "[unscored (demo_candidate 0), unscored (demo_candidate 1)]"]
  by (simp add: deduplicate_candidates_def overlap_def unscored_def demo_candidate_def)

text \<open>
  Reranking never loses, adds or duplicates a candidate, whatever the service answers: the result
  is a permutation of the candidates, those beyond the requested number keep their places, a warning
  means the order is the old one, and without a warning the reranked part is ordered by score.
\<close>

theorem rerank_permutes:
  assumes "rerank_candidates post opts query cs = (cs', w)"
  shows "mset (map s_row cs') = mset (map s_row cs) \<and> drop (ro_candidates opts) cs' = drop (ro_candidates opts) cs
    \<and> (w \<noteq> None \<longrightarrow> cs' = cs)
    \<and> (ro_enabled opts \<and> cs \<noteq> [] \<and> w = None \<longrightarrow> sorted (map (\<lambda>i. - the (s_rerank i)) (take (ro_candidates opts) cs')))"
  using rerank_effect [OF assms] .

definition demo_rerank :: rerank_options where
  "demo_rerank = \<lparr>ro_enabled = True, ro_base_url = ''http://r'', ro_model = ''m'', ro_timeout_sec = 3,
     ro_candidates = 2, ro_api_key = []\<rparr>"

definition demo_scores :: "rerank_request \<Rightarrow> rerank_response option" where
  "demo_scores req = Some \<lparr>rr_status = 200, rr_size = 90, rr_json = Some (PDict [(''results'', PList
     [PDict [(''index'', PInt 0), (''relevance_score'', PFloat (1 / 2))],
      PDict [(''index'', PInt 1), (''relevance_score'', PInt 1)]])])\<rparr>"

lemma demo_reranked:
  "rerank_candidates demo_scores demo_rerank ''q'' [unscored (demo_candidate 0), unscored (demo_candidate 1)] =
     ([(unscored (demo_candidate 1))\<lparr>s_rerank := Some 1\<rparr>, (unscored (demo_candidate 0))\<lparr>s_rerank := Some (1 / 2)\<rparr>], None)"
  by (simp add: rerank_candidates_def demo_scores_def demo_rerank_def response_scores_def result_score_def
      to_float_def float_overflow_def reranked_def Let_def less_eq_prod_def)

theorem rerank_permutes_witness:
  "mset (map s_row (fst (rerank_candidates demo_scores demo_rerank ''q'' [unscored (demo_candidate 0), unscored (demo_candidate 1)])))
   = {# demo_candidate 0, demo_candidate 1 #}"
  using rerank_permutes [OF demo_reranked] unfolding demo_reranked by (simp add: unscored_def)

end
