(* ===== verification/Embeddings.thy ===== *)
theory Embeddings
  imports Py_Text Prelude
begin

text \<open>
  \<open>shared/lib/knowledge_source_embeddings.py\<close>: the validated client of an embedding service.  The
  service is a parameter, a function of the number of the request and its body; \<open>None\<close> is a
  transport error.  \<open>urlsplit\<close> is a parameter too.
\<close>

section \<open>Options\<close>

record url_parts =
  up_scheme :: string
  up_hostname :: "string option"
  up_username :: "string option"
  up_password :: "string option"
  up_query :: string
  up_fragment :: string

record embedding_options =
  eo_base_url :: string
  eo_model :: string
  eo_dimensions :: int
  eo_api_key :: string
  eo_batch_size :: int
  eo_timeout_sec :: rat
  eo_max_input_chars :: int

definition truthy_text :: "string option \<Rightarrow> bool" where
  "truthy_text s = (case s of None \<Rightarrow> False | Some x \<Rightarrow> x \<noteq> [])"

definition check_options :: "(string \<Rightarrow> url_parts) \<Rightarrow> embedding_options \<Rightarrow> unit result" where
  "check_options urlsplit opts =
     (let parsed = urlsplit (eo_base_url opts)
      in if up_scheme parsed \<notin> {''http'', ''https''} \<or> \<not> truthy_text (up_hostname parsed)
            \<or> truthy_text (up_username parsed) \<or> truthy_text (up_password parsed)
         then Inl (Value_error ''Invalid embedding endpoint'')
         else if up_query parsed \<noteq> [] \<or> up_fragment parsed \<noteq> [] \<or> strip (eo_model opts) = []
         then Inl (Value_error ''Embedding endpoint and model are required'')
         else if \<not> (0 \<le> eo_dimensions opts \<and> eo_dimensions opts \<le> 65535)
            \<or> \<not> (1 \<le> eo_batch_size opts \<and> eo_batch_size opts \<le> 1024)
            \<or> eo_timeout_sec opts \<le> 0 \<or> eo_max_input_chars opts \<le> 0
         then Inl (Value_error ''Invalid embedding dimensions or bounds'')
         else Inr ())"

section \<open>Vectors\<close>

definition embedding_error :: "string \<Rightarrow> 'a result" where
  "embedding_error msg = Inl (Runtime_error msg)"

definition validate_vector :: "pyval \<Rightarrow> int \<Rightarrow> rat list result" where
  "validate_vector v dimensions =
     (case v of
        PList numbers \<Rightarrow>
          (if (if dimensions > 0 then int (length numbers) \<noteq> dimensions
               else \<not> (1 \<le> length numbers \<and> length numbers \<le> 65535))
           then embedding_error ''Embedding dimension mismatch''
           else if \<exists>n \<in> set numbers. (case n of PInt _ \<Rightarrow> False | PFloat _ \<Rightarrow> False | _ \<Rightarrow> True)
           then embedding_error ''Embedding contains nonnumeric values''
           else if None \<in> set (map to_float numbers)
           then embedding_error ''Embedding contains invalid values''
           else
             let vector = map (\<lambda>n. the (to_float n)) numbers
             in if \<exists>x \<in> set vector. x \<noteq> 0 then Inr vector
                else embedding_error ''Embedding must be finite and nonzero'')
      | _ \<Rightarrow> embedding_error ''Embedding dimension mismatch'')"

section \<open>The client\<close>

record client_state =
  ec_request_count :: nat
  ec_input_characters :: nat
  ec_detected_dimensions :: int

record embedding_request =
  er_url :: string
  er_authorization :: "string option"
  er_model :: string
  er_input :: "string list"
  er_dimensions :: "int option"
  er_timeout_sec :: rat

record embedding_response =
  es_status :: int
  es_size :: nat
  es_json :: "pyval option"

type_synonym embedding_service = "nat \<Rightarrow> embedding_request \<Rightarrow> embedding_response option"

definition effective_dimensions :: "embedding_options \<Rightarrow> client_state \<Rightarrow> int" where
  "effective_dimensions opts st = (if eo_dimensions opts \<noteq> 0 then eo_dimensions opts else ec_detected_dimensions st)"

text \<open>The loop over the items of a response: \<open>ordered\<close> maps an index to its vector.\<close>

definition read_item ::
    "nat \<Rightarrow> (nat \<times> rat list) list \<times> int \<Rightarrow> pyval \<Rightarrow> ((nat \<times> rat list) list \<times> int) result" where
  "read_item n st item =
     (case item of
        PDict d \<Rightarrow>
          (case dict_get d ''index'' of
             PInt i \<Rightarrow>
               (if \<not> (0 \<le> i \<and> i < int n) \<or> nat i \<in> fst ` set (fst st)
                then embedding_error ''Embedding response index mismatch''
                else result_map (\<lambda>vector. ((nat i, vector) # fst st, int (length vector)))
                       (validate_vector (dict_get d ''embedding'') (snd st)))
           | _ \<Rightarrow> embedding_error ''Embedding response index mismatch'')
      | _ \<Rightarrow> embedding_error ''Malformed embedding item'')"

definition read_items :: "nat \<Rightarrow> int \<Rightarrow> pyval list \<Rightarrow> ((nat \<times> rat list) list \<times> int) result" where
  "read_items n target items = result_fold (read_item n) ([], target) items"

definition request_of :: "embedding_options \<Rightarrow> string \<Rightarrow> string list \<Rightarrow> embedding_request" where
  "request_of opts env_key texts =
     (let key = (if eo_api_key opts \<noteq> [] then eo_api_key opts else env_key)
      in \<lparr>er_url = rstrip_char (CHR ''/'') (eo_base_url opts) @ ''/embeddings'',
          er_authorization = (if key \<noteq> [] then Some (''Bearer '' @ key) else None),
          er_model = eo_model opts, er_input = texts,
          er_dimensions = (if eo_dimensions opts > 0 then Some (eo_dimensions opts) else None),
          er_timeout_sec = eo_timeout_sec opts\<rparr>)"

definition read_payload :: "embedding_options \<Rightarrow> nat \<Rightarrow> int \<Rightarrow> pyval \<Rightarrow> ((nat \<times> rat list) list \<times> int) result" where
  "read_payload opts n target payload =
     (case payload of
        PDict d \<Rightarrow>
          (if dict_get_default d ''model'' (PStr (eo_model opts)) \<noteq> PStr (eo_model opts)
           then embedding_error ''Embedding response model mismatch''
           else case dict_get d ''data'' of
             PList items \<Rightarrow>
               (if length items \<noteq> n then embedding_error ''Embedding response count mismatch''
                else read_items n target items)
           | _ \<Rightarrow> embedding_error ''Embedding response count mismatch'')
      | _ \<Rightarrow> embedding_error ''Embedding response model mismatch'')"

definition response_limit :: "embedding_options \<Rightarrow> client_state \<Rightarrow> nat \<Rightarrow> int" where
  "response_limit opts st n =
     (let expected = (if effective_dimensions opts st \<noteq> 0 then effective_dimensions opts st else 4096)
      in max 4096 (int n * expected * 64))"

definition embed_batch ::
    "embedding_service \<Rightarrow> embedding_options \<Rightarrow> string \<Rightarrow> client_state \<Rightarrow> string list
     \<Rightarrow> rat list list result \<times> client_state" where
  "embed_batch service opts env_key st texts =
     (let st1 = st\<lparr>ec_request_count := Suc (ec_request_count st),
                  ec_input_characters := ec_input_characters st + sum_list (map length texts)\<rparr>
      in case service (ec_request_count st) (request_of opts env_key texts) of
           None \<Rightarrow> (embedding_error ''Embedding transport failed'', st1)
         | Some r \<Rightarrow>
             (if es_status r \<noteq> 200
              then (embedding_error (''Embedding endpoint failed (HTTP '' @ int_str (es_status r) @ '')''), st1)
              else if int (es_size r) > response_limit opts st (length texts)
              then (embedding_error ''Embedding response exceeds limit'', st1)
              else case es_json r of
                None \<Rightarrow> (embedding_error ''Malformed embedding response'', st1)
              | Some payload \<Rightarrow>
                  (case read_payload opts (length texts) (effective_dimensions opts st) payload of
                     Inl e \<Rightarrow> (Inl e, st1)
                   | Inr (ordered, target) \<Rightarrow>
                       (Inr (map (\<lambda>i. the (map_of ordered i)) [0..<length texts]),
                        st1\<lparr>ec_detected_dimensions := target\<rparr>))))"

text \<open>\<open>texts[offset : offset + batch_size]\<close> for \<open>offset\<close> in steps of the batch size.\<close>

function batches :: "nat \<Rightarrow> 'a list \<Rightarrow> 'a list list" where
  "batches n xs = (if xs = [] \<or> n = 0 then [] else take n xs # batches n (drop n xs))"
  by pat_completeness auto

termination by (relation "measure (\<lambda>(n, xs). length xs)") (auto simp: neq_Nil_conv)

declare batches.simps [simp del]

fun embed_batches ::
    "embedding_service \<Rightarrow> embedding_options \<Rightarrow> string \<Rightarrow> client_state \<Rightarrow> string list list
     \<Rightarrow> rat list list result \<times> client_state" where
  "embed_batches service opts env_key st [] = (Inr [], st)"
| "embed_batches service opts env_key st (b # bs) =
     (case embed_batch service opts env_key st b of
        (Inl e, st1) \<Rightarrow> (Inl e, st1)
      | (Inr vs, st1) \<Rightarrow>
          (case embed_batches service opts env_key st1 bs of
             (Inl e, st2) \<Rightarrow> (Inl e, st2)
           | (Inr ws, st2) \<Rightarrow> (Inr (vs @ ws), st2)))"

definition embed ::
    "embedding_service \<Rightarrow> embedding_options \<Rightarrow> string \<Rightarrow> client_state \<Rightarrow> string list
     \<Rightarrow> rat list list result \<times> client_state" where
  "embed service opts env_key st texts =
     (if \<exists>t \<in> set texts. strip t = [] \<or> int (length t) > eo_max_input_chars opts
      then (embedding_error ''Embedding input is empty or exceeds limit'', st)
      else embed_batches service opts env_key st (batches (nat (eo_batch_size opts)) texts))"

definition probe ::
    "embedding_service \<Rightarrow> embedding_options \<Rightarrow> string \<Rightarrow> client_state \<Rightarrow> unit result \<times> client_state" where
  "probe service opts env_key st =
     (case embed service opts env_key st [''knowledge embedding dimension probe''] of
        (r, st1) \<Rightarrow> (result_map (\<lambda>_. ()) r, st1))"

section \<open>Lemmas\<close>

lemma concat_batches: "0 < n \<Longrightarrow> concat (batches n xs) = xs"
proof (induction n xs rule: batches.induct)
  case (1 n xs)
  then show ?case by (subst batches.simps) simp
qed

lemma validate_vector_Inr:
  assumes "validate_vector v dims = Inr vec"
  shows "(0 < dims \<longrightarrow> int (length vec) = dims) \<and> vec \<noteq> [] \<and> (\<exists>x \<in> set vec. x \<noteq> 0)"
  using assms
  by (cases v) (auto simp: validate_vector_def embedding_error_def Let_def split: if_splits)

text \<open>What the item loop collects: one vector per index, all of the final length.\<close>

definition collected :: "nat \<Rightarrow> int \<Rightarrow> (nat \<times> rat list) list \<times> int \<Rightarrow> bool" where
  "collected n target st \<longleftrightarrow>
     distinct (map fst (fst st)) \<and> fst ` set (fst st) \<subseteq> {..<n}
     \<and> (\<forall>(i, v) \<in> set (fst st). v \<noteq> [] \<and> int (length v) = snd st)
     \<and> (fst st = [] \<longrightarrow> snd st = target) \<and> (0 < target \<longrightarrow> snd st = target)"

lemma read_item_collected:
  assumes "read_item n st item = Inr st'" and "collected n target st" and "0 \<le> target"
  shows "collected n target st' \<and> length (fst st') = Suc (length (fst st))"
proof -
  obtain d i vec where d: "item = PDict d" "0 \<le> i" "i < int n" "nat i \<notin> fst ` set (fst st)"
      "validate_vector (dict_get d ''embedding'') (snd st) = Inr vec" "st' = ((nat i, vec) # fst st, int (length vec))"
    using assms(1)
    by (auto simp: read_item_def embedding_error_def result_map_Inr_iff split: pyval.splits if_splits)
  have pos: "fst st \<noteq> [] \<Longrightarrow> 0 < snd st" 
    using assms(2)
    by (cases "fst st") (auto simp: collected_def, (metis length_greater_0_conv of_nat_0_less_iff)+)
  note v = validate_vector_Inr [OF d(5)]
  have "snd st = 0 \<or> int (length vec) = snd st"
    using v pos assms(2,3) by (cases "fst st = []") (auto simp: collected_def)
  with v pos d assms(2,3) show ?thesis by (auto simp: collected_def)
qed

lemma read_items_collected:
  assumes "result_fold (read_item n) st items = Inr st'" and "collected n target st" and "0 \<le> target"
  shows "collected n target st' \<and> length (fst st') = length (fst st) + length items"
  using assms
proof (induction items arbitrary: st)
  case (Cons item items)
  then obtain st1 where st1: "read_item n st item = Inr st1" "result_fold (read_item n) st1 items = Inr st'"
    by (auto simp: result_bind_Inr_iff)
  from read_item_collected [OF st1(1) Cons.prems(2,3)] Cons.IH [OF st1(2)] Cons.prems(3) show ?case by auto
qed simp

lemma read_payload_all:
  assumes "read_payload opts n target payload = Inr (ordered, t)" and "0 \<le> target"
  shows "fst ` set ordered = {..<n}" "distinct (map fst ordered)"
    "\<forall>(i, v) \<in> set ordered. v \<noteq> [] \<and> int (length v) = t" "0 < target \<longrightarrow> t = target" "n = 0 \<longrightarrow> t = target"
proof -
  from assms(1) obtain items where items: "length items = n" "result_fold (read_item n) ([], target) items = Inr (ordered, t)"
    by (auto simp: read_payload_def read_items_def embedding_error_def split: pyval.splits if_splits)
  have "collected n target ([], target)" by (simp add: collected_def)
  from read_items_collected [OF items(2) this assms(2)]
  have c: "collected n target (ordered, t)" "length ordered = n" using items(1) by auto
  then have "card (fst ` set ordered) = n" "fst ` set ordered \<subseteq> {..<n}"
    using distinct_card [of "map fst ordered"] by (auto simp: collected_def)
  then show "fst ` set ordered = {..<n}" by (intro card_subset_eq) auto
  show "distinct (map fst ordered)" "\<forall>(i, v) \<in> set ordered. v \<noteq> [] \<and> int (length v) = t"
    "0 < target \<longrightarrow> t = target" "n = 0 \<longrightarrow> t = target"
    using c by (auto simp: collected_def)
qed

lemma embed_batch_shape:
  assumes "embed_batch service opts env_key st texts = (Inr vs, st')" and "texts \<noteq> []"
    and "0 \<le> eo_dimensions opts" and "0 \<le> ec_detected_dimensions st"
  shows "length vs = length texts \<and> (\<forall>v \<in> set vs. int (length v) = ec_detected_dimensions st')
    \<and> 0 < ec_detected_dimensions st'
    \<and> (0 < effective_dimensions opts st \<longrightarrow> ec_detected_dimensions st' = effective_dimensions opts st)"
proof -
  obtain payload ordered target where r: "read_payload opts (length texts) (effective_dimensions opts st) payload = Inr (ordered, target)"
      "vs = map (\<lambda>i. the (map_of ordered i)) [0..<length texts]" "ec_detected_dimensions st' = target"
    using assms(1)
    by (auto simp: embed_batch_def embedding_error_def Let_def split: option.splits if_splits sum.splits prod.splits)
  have eff: "0 \<le> effective_dimensions opts st"
    using assms(3,4) by (simp add: effective_dimensions_def)
  note all = read_payload_all [OF r(1) eff]
  have vec: "the (map_of ordered i) \<noteq> [] \<and> int (length (the (map_of ordered i))) = target" if "i < length texts" for i
  proof -
    from that all(1) have "i \<in> fst ` set ordered" by simp
    then obtain v where "(i, v) \<in> set ordered" by auto
    with all(2,3) show ?thesis by (auto simp: map_of_is_SomeI)
  qed
  then have "\<forall>v \<in> set vs. v \<noteq> [] \<and> int (length v) = target" unfolding r(2) by auto
  moreover have "0 < target" using vec [of 0] assms(2) by (cases "the (map_of ordered 0)") auto
  ultimately show ?thesis using all(4) r(2,3) by auto
qed

lemma effective_kept:
  "0 < effective_dimensions opts st \<Longrightarrow> ec_detected_dimensions st' = effective_dimensions opts st \<Longrightarrow>
   effective_dimensions opts st' = effective_dimensions opts st"
  by (simp add: effective_dimensions_def)

lemma embed_batches_shape:
  assumes "embed_batches service opts env_key st bs = (Inr vs, st')" and "[] \<notin> set bs" and "bs \<noteq> []"
    and "0 \<le> eo_dimensions opts" and "0 \<le> ec_detected_dimensions st"
  shows "length vs = length (concat bs) \<and> (\<forall>v \<in> set vs. int (length v) = ec_detected_dimensions st')
    \<and> 0 < ec_detected_dimensions st'
    \<and> (0 < effective_dimensions opts st \<longrightarrow> ec_detected_dimensions st' = effective_dimensions opts st)"
  using assms
proof (induction bs arbitrary: st vs)
  case (Cons b bs)
  obtain v1 st1 v2 where r: "embed_batch service opts env_key st b = (Inr v1, st1)"
      "embed_batches service opts env_key st1 bs = (Inr v2, st')" "vs = v1 @ v2"
    using Cons.prems(1) by (auto split: prod.splits sum.splits)
  have s1: "length v1 = length b \<and> (\<forall>v \<in> set v1. int (length v) = ec_detected_dimensions st1) \<and> 0 < ec_detected_dimensions st1
    \<and> (0 < effective_dimensions opts st \<longrightarrow> ec_detected_dimensions st1 = effective_dimensions opts st)"
    using Cons.prems by (intro embed_batch_shape [OF r(1)]) auto
  show ?case
  proof (cases "bs = []")
    case True
    with r s1 show ?thesis by simp
  next
    case False
    have s2: "length v2 = length (concat bs) \<and> (\<forall>v \<in> set v2. int (length v) = ec_detected_dimensions st')
      \<and> 0 < ec_detected_dimensions st'
      \<and> (0 < effective_dimensions opts st1 \<longrightarrow> ec_detected_dimensions st' = effective_dimensions opts st1)"
      using False Cons.prems s1 by (intro Cons.IH [OF r(2)]) auto
    have "effective_dimensions opts st1 = (if eo_dimensions opts \<noteq> 0 then eo_dimensions opts else ec_detected_dimensions st1)"
      by (simp add: effective_dimensions_def)
    then have "ec_detected_dimensions st' = ec_detected_dimensions st1"
      using s1 s2 Cons.prems(4) by (auto simp: effective_dimensions_def split: if_splits)
    with r s1 s2 show ?thesis by auto
  qed
qed simp

lemma batches_nonempty: "[] \<notin> set (batches n xs)"
proof (induction n xs rule: batches.induct)
  case (1 n xs)
  then show ?case by (subst batches.simps) auto
qed

lemma batches_Nil_iff: "0 < n \<Longrightarrow> batches n xs = [] \<longleftrightarrow> xs = []"
  by (subst batches.simps) simp

section \<open>Properties\<close>

text \<open>
  C30. Embedding answers for every text.  Whatever the service sends, when \<open>embed\<close> returns, it returns
  one vector per text, in all batches of one and the same positive dimension: the configured one, else
  the one already detected, else the one it detects now.
\<close>

theorem embed_one_vector_per_text:
  assumes "embed service opts env_key st texts = (Inr vectors, st')" and "texts \<noteq> []"
    and "0 \<le> eo_dimensions opts" and "1 \<le> eo_batch_size opts" and "0 \<le> ec_detected_dimensions st"
  shows "length vectors = length texts
    \<and> (\<forall>v \<in> set vectors. int (length v) = ec_detected_dimensions st') \<and> 0 < ec_detected_dimensions st'
    \<and> (0 < effective_dimensions opts st \<longrightarrow> ec_detected_dimensions st' = effective_dimensions opts st)"
proof -
  let ?bs = "batches (nat (eo_batch_size opts)) texts"
  have run: "embed_batches service opts env_key st ?bs = (Inr vectors, st')"
    using assms(1) by (auto simp: embed_def embedding_error_def split: if_splits)
  have "concat ?bs = texts" "?bs \<noteq> []"
    using assms(2,4) by (simp_all add: concat_batches batches_Nil_iff)
  with embed_batches_shape [OF run batches_nonempty _ assms(3,5)] show ?thesis by simp
qed

definition demo_embedding :: embedding_options where
  "demo_embedding = \<lparr>eo_base_url = ''http://m'', eo_model = ''e'', eo_dimensions = 0, eo_api_key = [],
     eo_batch_size = 1, eo_timeout_sec = 60, eo_max_input_chars = 100\<rparr>"

definition demo_service :: embedding_service where
  "demo_service k req = Some \<lparr>es_status = 200, es_size = 50, es_json = Some (PDict
     [(''model'', PStr ''e''), (''data'', PList [PDict [(''index'', PInt 0), (''embedding'', PList [PInt 1, PFloat (1 / 2)])]])])\<rparr>"

definition fresh_client :: client_state where
  "fresh_client = \<lparr>ec_request_count = 0, ec_input_characters = 0, ec_detected_dimensions = 0\<rparr>"

lemma demo_embed:
  "embed demo_service demo_embedding [] fresh_client [''a'', ''b''] =
     (Inr [[1, 1 / 2], [1, 1 / 2]],
      \<lparr>ec_request_count = 2, ec_input_characters = 2, ec_detected_dimensions = 2\<rparr>)"
proof -
  have b: "batches 1 [''a'', ''b''] = [[''a''], [''b'']]"
    by (simp add: batches.simps)
  show ?thesis
    by (simp add: embed_def demo_embedding_def b [unfolded One_nat_def] embed_batch_def demo_service_def fresh_client_def Let_def
        response_limit_def effective_dimensions_def read_payload_def read_items_def read_item_def
        validate_vector_def to_float_def float_overflow_def strip_def lstrip_def rstrip_def is_space_def)
qed

theorem embed_one_vector_per_text_witness:
  "length (projr (fst (embed demo_service demo_embedding [] fresh_client [''a'', ''b'']))) = 2"
  using embed_one_vector_per_text [OF demo_embed] unfolding demo_embed
  by (simp add: demo_embedding_def fresh_client_def)

end
