(* ===== verification/Hybrid_Search.thy ===== *)
theory Hybrid_Search
  imports Hybrid_Ranking Embeddings Knowledge_Grants Db_Models
begin

text \<open>
  The retrieval half of \<open>shared/lib/knowledge_source_hybrid_retrieval.py\<close>: pinning the promoted
  version, the candidates of that version, and \<open>search\<close> with its bounded response.  The distance, the
  full-text match and the full-text rank are functions of PostgreSQL and its vector extension, and are
  parameters.
\<close>

section \<open>Pinning\<close>

record retrieval_options =
  rt_max_query_chars :: int
  rt_max_response_chars :: int
  rt_max_content_chars :: int

definition retrieval_options_ok :: "retrieval_options \<Rightarrow> bool" where
  "retrieval_options_ok opts \<longleftrightarrow>
     rt_max_query_chars opts > 0 \<and> rt_max_response_chars opts \<ge> 512 \<and> rt_max_content_chars opts > 0"

definition rerank_options_ok :: "(string \<Rightarrow> url_parts) \<Rightarrow> rerank_options \<Rightarrow> bool" where
  "rerank_options_ok urlsplit opts \<longleftrightarrow>
     ro_timeout_sec opts > 0 \<and> 1 \<le> ro_candidates opts \<and> ro_candidates opts \<le> 40
     \<and> (ro_enabled opts \<longrightarrow>
          (let parsed = urlsplit (ro_base_url opts)
           in up_scheme parsed \<in> {''http'', ''https''} \<and> truthy_text (up_hostname parsed)
              \<and> \<not> truthy_text (up_username parsed) \<and> \<not> truthy_text (up_password parsed)
              \<and> up_query parsed = [] \<and> up_fragment parsed = [] \<and> ro_model opts \<noteq> []))"

definition servable :: "string \<Rightarrow> knowledge_source \<Rightarrow> source_version \<Rightarrow> bool" where
  "servable name s v \<longleftrightarrow>
     Some (kv_id v) = ks_current_version s
     \<and> ks_canonical_alias s = name \<and> ks_enabled s \<and> ks_serving_suspended_at s = None
     \<and> ks_source_kind s = ''confluence'' \<and> ks_index_kind s = ''hybrid_vector''
     \<and> kv_source_id v = ks_id s \<and> kv_status v = ''succeeded'' \<and> kv_index_kind v = ''hybrid_vector''"

definition pin_unavailable :: string where
  "pin_unavailable = ''Knowledge source is unavailable or does not support hybrid search''"

definition pin :: "(string \<Rightarrow> unit result) \<Rightarrow> db \<Rightarrow> string \<Rightarrow> (knowledge_source \<times> source_version) result" where
  "pin authorizer d name =
     result_bind (authorizer name) (\<lambda>_.
       case filter (\<lambda>(s, v). servable name s v) (List.product (sources d) (versions d)) of
         [] \<Rightarrow> Inl (Runtime_error pin_unavailable)
       | [p] \<Rightarrow> Inr p
       | _ \<Rightarrow> Inl (Sql_error ''Multiple rows were found when one or none was required''))"

section \<open>Candidates\<close>

record search_engine =
  sx_distance :: "rat list \<Rightarrow> rat list \<Rightarrow> rat"
  sx_matches :: "string \<Rightarrow> string \<Rightarrow> knowledge_chunk \<Rightarrow> bool"
  sx_rank :: "string \<Rightarrow> string \<Rightarrow> knowledge_chunk \<Rightarrow> rat"

text \<open>The join of chunks, document revisions and the members of the version.\<close>

definition candidate_row :: "knowledge_chunk \<Rightarrow> document_revision \<Rightarrow> candidate" where
  "candidate_row k r =
     \<lparr>c_chunk_id = kc_id k, c_page_id = dr_external_id r, c_title = dr_title r, c_url = dr_canonical_url r,
      c_hierarchy_path = dr_hierarchy_path r, c_heading_path = kc_heading_path k, c_ordinal = kc_ordinal k,
      c_content = kc_content k, c_lexical_text = kc_lexical_text k\<rparr>"

definition in_version :: "knowledge_source \<Rightarrow> source_version \<Rightarrow> knowledge_chunk \<Rightarrow> document_revision \<Rightarrow> version_document \<Rightarrow> bool" where
  "in_version s v k r m \<longleftrightarrow>
     dr_id r = kc_document_revision_id k \<and> vd_document_revision_id m = dr_id r
     \<and> vd_version_id m = kv_id v \<and> dr_source_id r = ks_id s \<and> vd_external_id m = dr_external_id r
     \<and> Some (kc_index_config_hash k) = kv_index_config_hash v"

definition base_rows :: "db \<Rightarrow> knowledge_source \<Rightarrow> source_version \<Rightarrow> (knowledge_chunk \<times> document_revision) list" where
  "base_rows d s v =
     [(k, r). k \<leftarrow> chunks d, r \<leftarrow> revisions d, m \<leftarrow> members d, in_version s v k r m]"

text \<open>A stored vector's length is its dimension (the table's check constraint).\<close>

definition dense_candidates ::
    "search_engine \<Rightarrow> db \<Rightarrow> knowledge_source \<Rightarrow> source_version \<Rightarrow> string \<Rightarrow> int \<Rightarrow> rat list \<Rightarrow> candidate list" where
  "dense_candidates eng d s v model dimensions vector =
     map (\<lambda>(k, r). candidate_row k r) (take 20
       (sort_key (\<lambda>(k, r). (sx_distance eng (kc_embedding k) vector, kc_id k))
         (filter (\<lambda>(k, r). kc_embedding_model k = model \<and> kc_embedding_dimensions k = dimensions
                    \<and> int (length (kc_embedding k)) = dimensions) (base_rows d s v))))"

definition lexical_candidates ::
    "search_engine \<Rightarrow> db \<Rightarrow> knowledge_source \<Rightarrow> source_version \<Rightarrow> string \<Rightarrow> candidate list" where
  "lexical_candidates eng d s v query =
     (let config = py_str (dict_get_default (kv_stats v) ''lexical_config'' (PStr ''simple''))
      in map (\<lambda>(k, r). candidate_row k r) (take 20
           (sort_key (\<lambda>(k, r). (- sx_rank eng config query k, kc_id k))
             (filter (\<lambda>(k, r). sx_matches eng config query k) (base_rows d s v)))))"

section \<open>The response\<close>

record response =
  sr_source :: string
  sr_version_id :: nat
  sr_mode :: string
  sr_warnings :: "string list"
  sr_results :: "(scored \<times> string) list"
  sr_truncated :: bool

definition rank_value :: "nat option \<Rightarrow> pyval" where
  "rank_value r = opt_val (\<lambda>n. PInt (int n)) r"

definition scores_json :: "scored \<Rightarrow> pyval" where
  "scores_json i =
     PDict [(''rrf'', PFloat (s_rrf i)), (''dense_rank'', rank_value (s_dense_rank i)),
       (''lexical_rank'', rank_value (s_lexical_rank i)), (''rerank'', opt_val PFloat (s_rerank i))]"

definition item_fields :: "response \<Rightarrow> string \<Rightarrow> scored \<Rightarrow> pydict" where
  "item_fields resp kind i =
     (let c = s_row i in
      [(''page_id'', PStr (c_page_id c)), (''title'', PStr (c_title c)), (''url'', PStr (c_url c)),
       (''hierarchy_path'', PList (c_hierarchy_path c)), (''heading_path'', PList (map PStr (c_heading_path c))),
       (''scores'', scores_json i), (''source'', PStr (sr_source resp)), (''source_kind'', PStr kind),
       (''version_id'', PStr (uuid_str (sr_version_id resp))), (''retrieval_mode'', PStr (sr_mode resp))])"

definition item_json :: "response \<Rightarrow> string \<Rightarrow> scored \<times> string \<Rightarrow> pyval" where
  "item_json resp kind ic = PDict (item_fields resp kind (fst ic) @ [(''content'', PStr (snd ic))])"

definition response_json :: "string \<Rightarrow> response \<Rightarrow> pyval" where
  "response_json kind resp =
     PDict [(''source'', PStr (sr_source resp)), (''version_id'', PStr (uuid_str (sr_version_id resp))),
       (''retrieval_mode'', PStr (sr_mode resp)), (''warnings'', PList (map PStr (sr_warnings resp))),
       (''results'', PList (map (item_json resp kind) (sr_results resp))), (''truncated'', PBool (sr_truncated resp))]"

text \<open>\<open>len(json.dumps({**response, "results": [*response["results"], item]}, ensure_ascii=True)) <= max\<close>\<close>

definition fits :: "retrieval_options \<Rightarrow> string \<Rightarrow> response \<Rightarrow> scored \<Rightarrow> string \<Rightarrow> nat \<Rightarrow> bool" where
  "fits opts kind resp i original n \<longleftrightarrow>
     int (length (json_dumps (response_json kind (resp\<lparr>sr_results := sr_results resp @ [(i, take n original)]\<rparr>))))
       \<le> rt_max_response_chars opts"

text \<open>The binary search for the longest prefix that fits.\<close>

function longest_fit :: "(nat \<Rightarrow> bool) \<Rightarrow> nat \<Rightarrow> nat \<Rightarrow> nat" where
  "longest_fit ok low high =
     (if low < high then
        (let middle = (low + high + 1) div 2
         in if ok middle then longest_fit ok middle high else longest_fit ok low (middle - 1))
      else low)"
  by pat_completeness auto

termination
  by (relation "measure (\<lambda>(ok, low, high). high - low)") auto

declare longest_fit.simps [simp del]

fun fill :: "retrieval_options \<Rightarrow> string \<Rightarrow> int \<Rightarrow> response \<Rightarrow> scored list \<Rightarrow> response" where
  "fill opts kind limit resp [] = resp"
| "fill opts kind limit resp (i # is) =
     (let content = c_content (s_row i);
          original = take (nat (rt_max_content_chars opts)) content;
          low = longest_fit (fits opts kind resp i original) 0 (length original)
      in if low = 0 then fill opts kind limit (resp\<lparr>sr_truncated := True\<rparr>) is
         else
           let resp' = resp\<lparr>sr_results := sr_results resp @ [(i, take low original)],
                            sr_truncated := (sr_truncated resp \<or> length content > low)\<rparr>
           in if int (length (sr_results resp')) = limit then resp' else fill opts kind limit resp' is)"

definition finish_response :: "int \<Rightarrow> nat \<Rightarrow> response \<Rightarrow> response" where
  "finish_response limit n resp =
     resp\<lparr>sr_truncated := (sr_truncated resp \<or> int (length (sr_results resp)) < min (int n) limit)\<rparr>"

section \<open>Search\<close>

definition embedding_fallback :: string where
  "embedding_fallback = ''Query embeddings unavailable or incompatible; used PostgreSQL full-text search''"

text \<open>The dense lane: \<open>None\<close> is the lexical fallback.\<close>

definition query_vector ::
    "embedding_service \<Rightarrow> embedding_options \<Rightarrow> string \<Rightarrow> client_state \<Rightarrow> pydict \<Rightarrow> string
     \<Rightarrow> rat list option \<times> client_state" where
  "query_vector service eopts env_key st stats query =
     (if dict_get stats ''embedding_model'' \<noteq> PStr (eo_model eopts)
         \<or> (eo_dimensions eopts \<noteq> 0 \<and> dict_get stats ''embedding_dimensions'' \<noteq> PInt (eo_dimensions eopts))
      then (None, st)
      else case embed service eopts env_key st [query] of
        (Inl _, st1) \<Rightarrow> (None, st1)
      | (Inr vectors, st1) \<Rightarrow>
          (if dict_get stats ''embedding_dimensions'' \<noteq> PInt (int (length (hd vectors))) then (None, st1)
           else (Some (hd vectors), st1)))"

definition vector_dimensions :: "embedding_options \<Rightarrow> client_state \<Rightarrow> rat list \<Rightarrow> int" where
  "vector_dimensions eopts st vector =
     (if effective_dimensions eopts st \<noteq> 0 then effective_dimensions eopts st
      else if eo_dimensions eopts \<noteq> 0 then eo_dimensions eopts else int (length vector))"

record searcher =
  sh_authorizer :: "string \<Rightarrow> unit result"
  sh_embedding :: embedding_options
  sh_service :: embedding_service
  sh_env_key :: string
  sh_engine :: search_engine
  sh_post :: "rerank_request \<Rightarrow> rerank_response option"
  sh_options :: retrieval_options
  sh_rerank :: rerank_options

definition fused_candidates :: "searcher \<Rightarrow> db \<Rightarrow> knowledge_source \<Rightarrow> source_version \<Rightarrow> string \<Rightarrow> client_state
    \<Rightarrow> rat list option \<Rightarrow> scored list" where
  "fused_candidates sh d s v query st vector =
     (let dense = (case vector of
            None \<Rightarrow> []
          | Some x \<Rightarrow> dense_candidates (sh_engine sh) d s v (eo_model (sh_embedding sh))
                        (vector_dimensions (sh_embedding sh) st x) x)
      in take 20 (deduplicate_candidates
           (reciprocal_rank_fusion dense (lexical_candidates (sh_engine sh) d s v query))))"

definition search_pinned :: "searcher \<Rightarrow> client_state \<Rightarrow> db \<Rightarrow> knowledge_source \<Rightarrow> source_version \<Rightarrow> string \<Rightarrow> int \<Rightarrow> response" where
  "search_pinned sh st d s v query limit =
     (let (vector, st1) = query_vector (sh_service sh) (sh_embedding sh) (sh_env_key sh) st (kv_stats v) query;
          mode = (case vector of None \<Rightarrow> ''lexical_fallback'' | Some _ \<Rightarrow> ''hybrid'');
          warnings = (case vector of None \<Rightarrow> [embedding_fallback] | Some _ \<Rightarrow> []);
          (candidates, warning) = rerank_candidates (sh_post sh) (sh_rerank sh) query
             (fused_candidates sh d s v query st1 vector);
          resp = \<lparr>sr_source = ks_canonical_alias s, sr_version_id = kv_id v, sr_mode = mode,
                  sr_warnings = warnings @ (case warning of None \<Rightarrow> [] | Some w \<Rightarrow> [w]),
                  sr_results = [], sr_truncated = False\<rparr>
      in finish_response limit (length candidates)
           (fill (sh_options sh) (ks_source_kind s) limit resp candidates))"

definition search :: "searcher \<Rightarrow> client_state \<Rightarrow> db \<Rightarrow> string \<Rightarrow> string \<Rightarrow> int \<Rightarrow> response result" where
  "search sh st d name query limit =
     (if strip query = [] \<or> int (length query) > rt_max_query_chars (sh_options sh)
      then Inl (Value_error ''Knowledge query is empty or exceeds limit'')
      else if \<not> (1 \<le> limit \<and> limit \<le> 6)
      then Inl (Value_error ''Knowledge result limit must be between one and six'')
      else
        result_map (\<lambda>(s, v). search_pinned sh st d s v (join '' '' (split_ws query)) limit)
          (pin (sh_authorizer sh) d name))"

section \<open>The size of a response\<close>

lemma json_list_append [simp]: "json_list (xs @ ys) = json_list xs @ json_list ys"
  by (induction xs) simp_all

lemma json_items_append [simp]: "json_items (xs @ ys) = json_items xs @ json_items ys"
proof (induction xs)
  case (Cons x xs)
  then show ?case by (cases x) simp
qed simp

lemma join_snoc: "join sep (xs @ [y]) = join sep xs @ (if xs = [] then [] else sep) @ y"
  by (induction sep xs rule: join.induct) simp_all

lemma json_list_Nil_iff [simp]: "json_list xs = [] \<longleftrightarrow> xs = []"
  by (cases xs) simp_all

lemma item_fields_results [simp]:
  "item_fields (resp\<lparr>sr_results := rs\<rparr>) kind i = item_fields resp kind i"
  "item_fields (resp\<lparr>sr_truncated := b\<rparr>) kind i = item_fields resp kind i"
  by (simp_all add: item_fields_def)

lemma item_json_results [simp]:
  "item_json (resp\<lparr>sr_results := rs\<rparr>) kind = item_json resp kind"
  "item_json (resp\<lparr>sr_truncated := b\<rparr>) kind = item_json resp kind"
  by (rule ext, simp add: item_json_def)+

lemma item_size:
  "\<exists>k. \<forall>c. length (json_dumps (item_json resp kind (i, c))) = k + length (json_string c)"
  by (rule exI [of _ "length (json_dumps (item_json resp kind (i, []))) - length (json_string [])"])
    (auto simp: item_json_def join_snoc json_string_def)

lemma response_size_results:
  "length (json_dumps (response_json kind (resp\<lparr>sr_results := rs\<rparr>)))
     = length (json_dumps (response_json kind (resp\<lparr>sr_results := []\<rparr>)))
       + length (join '', '' (json_list (map (item_json resp kind) rs)))"
  by (simp add: response_json_def)

lemma response_size:
  "\<exists>k. \<forall>c. length (json_dumps (response_json kind (resp\<lparr>sr_results := sr_results resp @ [(i, c)]\<rparr>))) = k + length (json_string c)"
proof -
  obtain k where k: "length (json_dumps (item_json resp kind (i, c))) = k + length (json_string c)" for c
    using item_size by blast
  show ?thesis
  proof (intro exI allI)
    fix c
    show "length (json_dumps (response_json kind (resp\<lparr>sr_results := sr_results resp @ [(i, c)]\<rparr>)))
      = (length (json_dumps (response_json kind (resp\<lparr>sr_results := []\<rparr>)))
         + length (join '', '' (json_list (map (item_json resp kind) (sr_results resp))))
         + (if sr_results resp = [] then 0 else 2) + k) + length (json_string c)"
      unfolding response_size_results [where rs = "sr_results resp @ [(i, c)]"]
      by (simp add: join_snoc k)
  qed
qed

lemma json_string_take: "m \<le> n \<Longrightarrow> length (json_string (take m s)) \<le> length (json_string (take n s))"
proof -
  assume "m \<le> n"
  then have "take n s = take m s @ take (n - m) (drop m s)"
    by (metis le_add_diff_inverse take_add)
  then show ?thesis by (simp add: json_string_def)
qed

lemma fits_antitone: "fits opts kind resp i original n \<Longrightarrow> m \<le> n \<Longrightarrow> fits opts kind resp i original m"
proof -
  assume f: "fits opts kind resp i original n" and le: "m \<le> n"
  obtain k where "length (json_dumps (response_json kind (resp\<lparr>sr_results := sr_results resp @ [(i, c)]\<rparr>)))
      = k + length (json_string c)" for c
    using response_size by blast
  with f json_string_take [OF le, of original] show ?thesis unfolding fits_def by simp
qed

lemma truncated_flag_shrinks:
  "length (json_dumps (response_json kind (resp\<lparr>sr_truncated := True\<rparr>)))
     \<le> length (json_dumps (response_json kind (resp\<lparr>sr_truncated := False\<rparr>)))"
  by (simp add: response_json_def)

lemma longest_fit_range:
  "low \<le> high \<Longrightarrow> low \<le> longest_fit ok low high \<and> longest_fit ok low high \<le> high
     \<and> (longest_fit ok low high = low \<or> ok (longest_fit ok low high))"
proof (induction ok low high rule: longest_fit.induct)
  case (1 ok low high)
  show ?case
  proof (cases "low < high")
    case False
    with 1(3) show ?thesis by (simp add: longest_fit.simps)
  next
    case True
    let ?m = "(low + high + 1) div 2"
    have m: "low < ?m" "?m \<le> high" using True by auto
    show ?thesis
    proof (cases "ok ?m")
      case ok: True
      then have e: "longest_fit ok low high = longest_fit ok ?m high"
        using True by (subst longest_fit.simps) (simp add: Let_def)
      from 1(1) [OF True refl ok] m show ?thesis unfolding e using ok by auto
    next
      case nok: False
      then have e: "longest_fit ok low high = longest_fit ok low (?m - 1)"
        using True by (subst longest_fit.simps) (simp add: Let_def)
      have "low \<le> ?m - 1" "?m - 1 \<le> high" using m by linarith+
      with 1(2) [OF True refl nok] show ?thesis unfolding e by (meson le_trans)
    qed
  qed
qed

lemma longest_fit_greatest:
  assumes anti: "\<And>m n. ok n \<Longrightarrow> m \<le> n \<Longrightarrow> ok m"
  shows "longest_fit ok low high < m \<Longrightarrow> m \<le> high \<Longrightarrow> low \<le> high \<Longrightarrow> \<not> ok m"
proof (induction "high - low" arbitrary: low high rule: less_induct)
  case less
  let ?m = "(low + high + 1) div 2"
  show ?case
  proof (cases "low < high")
    case False
    with less.prems show ?thesis by (simp add: longest_fit.simps)
  next
    case True
    show ?thesis
    proof (cases "ok ?m")
      case ok: True
      then have "longest_fit ok low high = longest_fit ok ?m high"
        using True by (subst longest_fit.simps) (simp add: Let_def)
      with less.hyps [of high ?m] less.prems True show ?thesis by simp
    next
      case nok: False
      then have e: "longest_fit ok low high = longest_fit ok low (?m - 1)"
        using True by (subst longest_fit.simps) (simp add: Let_def)
      show ?thesis
      proof (cases "m \<le> ?m - 1")
        case le: True
        have "?m - 1 - low < high - low" "low \<le> ?m - 1" using True by auto
        with less.hyps [of "?m - 1" low] less.prems(1) le e show ?thesis by simp
      next
        case False
        then have "?m \<le> m" by linarith
        with anti nok show ?thesis by blast
      qed
    qed
  qed
qed

section \<open>What the fill loop keeps\<close>

text \<open>A response that holds results is within the bound.\<close>

definition bounded :: "retrieval_options \<Rightarrow> string \<Rightarrow> response \<Rightarrow> bool" where
  "bounded opts kind resp \<longleftrightarrow>
     (sr_results resp \<noteq> [] \<longrightarrow> int (length (json_dumps (response_json kind resp))) \<le> rt_max_response_chars opts)"

lemma bounded_truncate: "bounded opts kind resp \<Longrightarrow> bounded opts kind (resp\<lparr>sr_truncated := sr_truncated resp \<or> b\<rparr>)"
proof (cases "sr_truncated resp \<or> \<not> b")
  case True
  then have "resp\<lparr>sr_truncated := sr_truncated resp \<or> b\<rparr> = resp" by (cases "sr_truncated resp") simp_all
  then show "bounded opts kind resp \<Longrightarrow> ?thesis" by simp
next
  case False
  then have "resp = resp\<lparr>sr_truncated := False\<rparr>" by simp
  with False truncated_flag_shrinks [of kind resp]
  show "bounded opts kind resp \<Longrightarrow> ?thesis"
    unfolding bounded_def by (simp only: response.simps simp_thms) fastforce
qed

text \<open>A result is a non-empty prefix of a candidate's content.\<close>

definition prefix_of :: "scored list \<Rightarrow> scored \<times> string \<Rightarrow> bool" where
  "prefix_of is r \<longleftrightarrow> fst r \<in> set is \<and> snd r \<noteq> [] \<and> prefix (snd r) (c_content (s_row (fst r)))"

lemma longest_fit_fits:
  "longest_fit (fits opts kind resp i original) 0 (length original) \<noteq> 0 \<Longrightarrow>
   fits opts kind resp i original (longest_fit (fits opts kind resp i original) 0 (length original))"
  using longest_fit_range [of 0 "length original" "fits opts kind resp i original"] by auto

lemma fill_inv:
  assumes "bounded opts kind resp" and "\<forall>r \<in> set (sr_results resp). prefix_of all r"
    and "int (length (sr_results resp)) < limit" and "set is \<subseteq> set all"
  shows "bounded opts kind (fill opts kind limit resp is)
    \<and> (\<forall>r \<in> set (sr_results (fill opts kind limit resp is)). prefix_of all r)
    \<and> int (length (sr_results (fill opts kind limit resp is))) \<le> limit
    \<and> sr_version_id (fill opts kind limit resp is) = sr_version_id resp
    \<and> sr_source (fill opts kind limit resp is) = sr_source resp"
  using assms
proof (induction "is" arbitrary: resp)
  case (Cons i "is")
  let ?o = "take (nat (rt_max_content_chars opts)) (c_content (s_row i))"
  let ?low = "longest_fit (fits opts kind resp i ?o) 0 (length ?o)"
  have "is": "set is \<subseteq> set all" "i \<in> set all" using Cons.prems(4) by simp_all
  show ?case
  proof (cases "?low = 0")
    case True
    then have e: "fill opts kind limit resp (i # is) = fill opts kind limit (resp\<lparr>sr_truncated := True\<rparr>) is"
      by (simp only: fill.simps Let_def simp_thms if_True)
    have "bounded opts kind (resp\<lparr>sr_truncated := True\<rparr>)"
      using bounded_truncate [OF Cons.prems(1), of True] by simp
    from Cons.IH [OF this _ _ "is"(1)] Cons.prems(2,3) show ?thesis unfolding e by simp
  next
    case False
    let ?r = "resp\<lparr>sr_results := sr_results resp @ [(i, take ?low ?o)]\<rparr>"
    define r' where "r' = ?r\<lparr>sr_truncated := sr_truncated resp \<or> length (c_content (s_row i)) > ?low\<rparr>"
    have step: "fill opts kind limit resp (i # is) = (if int (length (sr_results r')) = limit then r' else fill opts kind limit r' is)"
      using False by (simp only: fill.simps Let_def if_False r'_def)
    have "bounded opts kind ?r"
      using longest_fit_fits [OF False] by (simp add: bounded_def fits_def)
    from bounded_truncate [OF this, of "length (c_content (s_row i)) > ?low"]
    have b: "bounded opts kind r'" by (simp add: r'_def)
    have "?low \<le> length ?o"
      using longest_fit_range [of 0 "length ?o" "fits opts kind resp i ?o"] by simp
    then have "take ?low ?o \<noteq> []" using False by auto
    moreover have "prefix (take ?low ?o) (c_content (s_row i))"
      by (rule prefix_order.trans [OF take_is_prefix take_is_prefix])
    ultimately have p: "\<forall>r \<in> set (sr_results r'). prefix_of all r"
      using Cons.prems(2) "is"(2) by (simp add: prefix_of_def r'_def del: take_take)
    have same: "sr_version_id r' = sr_version_id resp" "sr_source r' = sr_source resp"
      "length (sr_results r') = Suc (length (sr_results resp))"
      by (simp_all add: r'_def)
    show ?thesis
    proof (cases "int (length (sr_results r')) = limit")
      case True
      with b p same show ?thesis unfolding step by simp
    next
      case ne: False
      then have "int (length (sr_results r')) < limit" using Cons.prems(3) same(3) by simp
      from Cons.IH [OF b p this "is"(1)] ne same show ?thesis unfolding step by simp
    qed
  qed
qed simp

section \<open>Where the candidates come from\<close>

text \<open>A candidate row of a version: a chunk of a document that is a member of it.\<close>

definition row_of_version :: "db \<Rightarrow> knowledge_source \<Rightarrow> source_version \<Rightarrow> candidate \<Rightarrow> bool" where
  "row_of_version d s v c \<longleftrightarrow>
     (\<exists>k \<in> set (chunks d). \<exists>r \<in> set (revisions d). \<exists>m \<in> set (members d).
        kc_document_revision_id k = dr_id r \<and> vd_document_revision_id m = dr_id r \<and> vd_version_id m = kv_id v
        \<and> dr_source_id r = ks_id s \<and> c = candidate_row k r)"

lemma base_rows_version: "(k, r) \<in> set (base_rows d s v) \<Longrightarrow> row_of_version d s v (candidate_row k r)"
  by (fastforce simp: base_rows_def row_of_version_def in_version_def split: if_splits)

lemma dense_version: "c \<in> set (dense_candidates eng d s v model dims vec) \<Longrightarrow> row_of_version d s v c"
  unfolding dense_candidates_def by (auto dest!: in_set_takeD base_rows_version)

lemma lexical_version: "c \<in> set (lexical_candidates eng d s v query) \<Longrightarrow> row_of_version d s v c"
  unfolding lexical_candidates_def Let_def by (auto dest!: in_set_takeD base_rows_version)

lemma fused_version:
  assumes "i \<in> set (fused_candidates sh d s v query st vector)"
  shows "row_of_version d s v (s_row i)"
proof -
  obtain dense where "i \<in> set (reciprocal_rank_fusion dense (lexical_candidates (sh_engine sh) d s v query))"
    and dense: "\<forall>c \<in> set dense. row_of_version d s v c"
    using assms dense_version
    by (auto simp: fused_candidates_def Let_def deduplicate_candidates_def dest!: in_set_takeD dedupe_loop_in
        split: option.splits)
  from fusion_rows [OF this(1)] dense lexical_version show ?thesis by blast
qed

lemma pin_servable:
  assumes "pin authorizer d name = Inr (s, v)"
  shows "authorizer name = Inr () \<and> s \<in> set (sources d) \<and> v \<in> set (versions d) \<and> servable name s v"
proof -
  have a: "authorizer name = Inr ()" and f: "filter (\<lambda>(s, v). servable name s v) (List.product (sources d) (versions d)) = [(s, v)]"
    using assms by (auto simp: pin_def result_bind_Inr_iff split: list.splits)
  from f have "(s, v) \<in> set (filter (\<lambda>(s, v). servable name s v) (List.product (sources d) (versions d)))" by simp
  with a show ?thesis by auto
qed

lemma search_parts:
  assumes "search sh st d name query limit = Inr resp"
  obtains s v q where "1 \<le> limit" "pin (sh_authorizer sh) d name = Inr (s, v)" "resp = search_pinned sh st d s v q limit"
  using assms by (auto simp: search_def result_map_Inr_iff split: if_splits)

lemma search_pinned_parts:
  obtains cs w resp0 vec st1
  where "rerank_candidates (sh_post sh) (sh_rerank sh) q (fused_candidates sh d s v q st1 vec) = (cs, w)"
    and "search_pinned sh st d s v q limit
      = finish_response limit (length cs) (fill (sh_options sh) (ks_source_kind s) limit resp0 cs)"
    and "sr_results resp0 = []" "sr_version_id resp0 = kv_id v" "sr_source resp0 = ks_canonical_alias s"
proof -
  obtain vec st1 where q: "query_vector (sh_service sh) (sh_embedding sh) (sh_env_key sh) st (kv_stats v) q = (vec, st1)"
    by fastforce
  obtain cs w where r: "rerank_candidates (sh_post sh) (sh_rerank sh) q (fused_candidates sh d s v q st1 vec) = (cs, w)"
    by fastforce
  show thesis
    by (rule that [OF r]) (simp only: search_pinned_def q r Let_def prod.case, simp_all)
qed

lemma search_results:
  assumes "search sh st d name query limit = Inr resp"
  obtains s v cs where "sh_authorizer sh name = Inr ()" "s \<in> set (sources d)" "v \<in> set (versions d)" "servable name s v"
    and "bounded (sh_options sh) (ks_source_kind s) resp" "int (length (sr_results resp)) \<le> limit"
    and "sr_version_id resp = kv_id v" "sr_source resp = ks_canonical_alias s"
    and "\<forall>r \<in> set (sr_results resp). prefix_of cs r" "\<forall>i \<in> set cs. row_of_version d s v (s_row i)"
proof -
  obtain s v q where limit: "1 \<le> limit" and pin: "pin (sh_authorizer sh) d name = Inr (s, v)"
    and run: "resp = search_pinned sh st d s v q limit"
    using assms by (rule search_parts)
  obtain cs w resp0 vec st1
    where rer: "rerank_candidates (sh_post sh) (sh_rerank sh) q (fused_candidates sh d s v q st1 vec) = (cs, w)"
    and resp: "search_pinned sh st d s v q limit
      = finish_response limit (length cs) (fill (sh_options sh) (ks_source_kind s) limit resp0 cs)"
    and resp0: "sr_results resp0 = []" "sr_version_id resp0 = kv_id v" "sr_source resp0 = ks_canonical_alias s"
    by (rule search_pinned_parts)
  have rows: "\<forall>i \<in> set cs. row_of_version d s v (s_row i)"
  proof
    fix i assume "i \<in> set cs"
    then have "s_row i \<in> set (map s_row (fused_candidates sh d s v q st1 vec))"
      unfolding mset_eq_setD [OF rerank_rows [OF rer], symmetric] by simp
    then show "row_of_version d s v (s_row i)" using fused_version by auto
  qed
  let ?f = "fill (sh_options sh) (ks_source_kind s) limit resp0 cs"
  have "bounded (sh_options sh) (ks_source_kind s) resp0" by (simp add: bounded_def resp0)
  from fill_inv [OF this, of cs limit cs] limit resp0
  have f: "bounded (sh_options sh) (ks_source_kind s) ?f" "\<forall>r \<in> set (sr_results ?f). prefix_of cs r"
    "int (length (sr_results ?f)) \<le> limit" "sr_version_id ?f = kv_id v" "sr_source ?f = ks_canonical_alias s"
    by simp_all
  have b: "bounded (sh_options sh) (ks_source_kind s) resp"
    unfolding run resp finish_response_def by (rule bounded_truncate [OF f(1)])
  show thesis
    by (rule that [OF _ _ _ _ b _ _ _ _ rows])
      (use pin_servable [OF pin] f in \<open>simp_all add: run resp finish_response_def\<close>)
qed

section \<open>Properties\<close>

definition demo_source :: knowledge_source where
  "demo_source = \<lparr>ks_id = 1, ks_canonical_alias = ''docs'', ks_display_name = None, ks_source_kind = ''confluence'',
     ks_index_kind = ''hybrid_vector'', ks_source_config = [], ks_repository_url = None, ks_default_ref = None,
     ks_include_paths = [], ks_exclude_paths = [], ks_credential_ref = None, ks_sync_policy = [], ks_enabled = True,
     ks_serving_suspended_at = None, ks_serving_suspension_reason = None, ks_current_version = Some 2,
     ks_created_at = 0, ks_updated_at = 0\<rparr>"

definition demo_version :: source_version where
  "demo_version = \<lparr>kv_id = 2, kv_source_id = 1, kv_source_revision = Some ''r'', kv_index_kind = ''hybrid_vector'',
     kv_indexer_version = Some ''1'', kv_index_config_hash = Some ''h'', kv_stats = [], kv_commit_sha = None,
     kv_status = ''succeeded'', kv_graphify_version = None, kv_extraction_config_hash = None, kv_artifact_keys = [],
     kv_artifact_checksums = [], kv_file_count = 0, kv_node_count = 0, kv_edge_count = 0, kv_warnings = [],
     kv_error = None, kv_started_at = None, kv_finished_at = Some 0, kv_created_at = 0\<rparr>"

definition demo_revision :: document_revision where
  "demo_revision = \<lparr>dr_id = 3, dr_source_id = 1, dr_external_id = ''p'', dr_provider_revision = ''1'', dr_title = ''T'',
     dr_canonical_url = ''u'', dr_hierarchy_path = [], dr_normalized_content = ''x'', dr_content_hash = ''c'',
     dr_metadata = [], dr_created_at = 0\<rparr>"

definition demo_chunk :: knowledge_chunk where
  "demo_chunk = \<lparr>kc_id = 4, kc_document_revision_id = 3, kc_index_config_hash = ''h'', kc_ordinal = 0,
     kc_heading_path = [], kc_content = ''x'', kc_content_hash = ''c'', kc_estimated_tokens = 1,
     kc_lexical_text = ''x'', kc_embedding = [1], kc_embedding_model = ''e'', kc_embedding_dimensions = 1\<rparr>"

definition demo_knowledge :: db where
  "demo_knowledge = empty_db\<lparr>sources := [demo_source], versions := [demo_version], revisions := [demo_revision],
     chunks := [demo_chunk], members := [\<lparr>vd_version_id = 2, vd_document_revision_id = 3, vd_external_id = ''p'', vd_root_page_id = ''p''\<rparr>]\<rparr>"

definition demo_searcher :: searcher where
  "demo_searcher = \<lparr>sh_authorizer = (\<lambda>_. Inr ()), sh_embedding = demo_embedding, sh_service = demo_service,
     sh_env_key = [],
     sh_engine = \<lparr>sx_distance = (\<lambda>_ _. 0), sx_matches = (\<lambda>_ _ _. True), sx_rank = (\<lambda>_ _ _. 1)\<rparr>,
     sh_post = (\<lambda>_. None),
     sh_options = \<lparr>rt_max_query_chars = 2000, rt_max_response_chars = 24000, rt_max_content_chars = 4000\<rparr>,
     sh_rerank = demo_rerank\<lparr>ro_enabled := False\<rparr>\<rparr>"

lemma demo_rows: "base_rows demo_knowledge demo_source demo_version = [(demo_chunk, demo_revision)]"
  by (simp add: base_rows_def demo_knowledge_def in_version_def demo_source_def demo_version_def demo_chunk_def demo_revision_def)

lemma demo_query: "query_vector (sh_service demo_searcher) (sh_embedding demo_searcher) (sh_env_key demo_searcher) fresh_client (kv_stats demo_version) ''x'' = (None, fresh_client)"
  by (simp add: query_vector_def demo_searcher_def demo_embedding_def demo_version_def)

lemma demo_lexical: "lexical_candidates (sh_engine demo_searcher) demo_knowledge demo_source demo_version ''x'' = [candidate_row demo_chunk demo_revision]"
  by (simp add: lexical_candidates_def demo_rows demo_searcher_def)

lemma demo_fused: "fused_candidates demo_searcher demo_knowledge demo_source demo_version ''x'' fresh_client None
   = [\<lparr>s_row = candidate_row demo_chunk demo_revision, s_rrf = 1/61, s_dense_rank = None, s_lexical_rank = Some 1, s_rerank = None\<rparr>]"
  unfolding fused_candidates_def option.case demo_lexical Let_def
  by (simp add: deduplicate_candidates_def reciprocal_rank_fusion_def bump_def unscored_def rank_score_def take_Cons')

lemma demo_pin: "pin (sh_authorizer demo_searcher) demo_knowledge ''docs'' = Inr (demo_source, demo_version)"
 by (simp add: pin_def demo_searcher_def demo_knowledge_def servable_def demo_source_def demo_version_def)

definition demo_item :: scored where
  "demo_item = \<lparr>s_row = candidate_row demo_chunk demo_revision, s_rrf = 1/61, s_dense_rank = None, s_lexical_rank = Some 1, s_rerank = None\<rparr>"

definition demo_start :: response where
  "demo_start = \<lparr>sr_source = ''docs'', sr_version_id = 2, sr_mode = ''lexical_fallback'', sr_warnings = [embedding_fallback], sr_results = [], sr_truncated = False\<rparr>"

lemma demo_fits: "fits (sh_options demo_searcher) ''confluence'' demo_start demo_item ''x'' 1"
  by code_simp

lemma demo_fill: "fill (sh_options demo_searcher) ''confluence'' 2 demo_start [demo_item] = demo_start\<lparr>sr_results := [(demo_item, ''x'')]\<rparr>"
proof -
  have c: "c_content (s_row demo_item) = ''x''" by (simp add: demo_item_def candidate_row_def demo_chunk_def)
  have "longest_fit (fits (sh_options demo_searcher) ''confluence'' demo_start demo_item ''x'') 0 1 = 1"
    using demo_fits by (simp add: longest_fit.simps)
  then show ?thesis by (simp add: c demo_searcher_def demo_start_def)
qed

lemma demo_search: "search demo_searcher fresh_client demo_knowledge ''docs'' ''x'' 2 = Inr (demo_start\<lparr>sr_results := [(demo_item, ''x'')]\<rparr>)"
proof -
  have rerank: "rerank_candidates (sh_post demo_searcher) (sh_rerank demo_searcher) q cs = (cs, None)" for q cs
    by (simp add: rerank_candidates_def demo_searcher_def)
  have "ks_canonical_alias demo_source = ''docs''" "ks_source_kind demo_source = ''confluence''" "kv_id demo_version = 2"
    by (simp_all add: demo_source_def demo_version_def)
  then have "search_pinned demo_searcher fresh_client demo_knowledge demo_source demo_version ''x'' 2
    = finish_response 2 1 (fill (sh_options demo_searcher) ''confluence'' 2 demo_start [demo_item])"
    by (simp only: search_pinned_def demo_query Let_def prod.case demo_fused option.case demo_item_def
        rerank append_Nil2 demo_start_def list.size One_nat_def add_0)
  also have "\<dots> = demo_start\<lparr>sr_results := [(demo_item, ''x'')]\<rparr>"
    unfolding demo_fill by (simp add: finish_response_def demo_start_def)
  finally have pinned: "search_pinned demo_searcher fresh_client demo_knowledge demo_source demo_version ''x'' 2
    = demo_start\<lparr>sr_results := [(demo_item, ''x'')]\<rparr>" .
  have "join '' '' (split_ws ''x'') = ''x''" "strip ''x'' \<noteq> []"
    by (simp_all add: split_ws.simps is_space_def strip_def lstrip_def rstrip_def)
  moreover have "rt_max_query_chars (sh_options demo_searcher) = 2000" by (simp add: demo_searcher_def)
  ultimately show ?thesis
    by (simp add: search_def demo_pin pinned)
qed

text \<open>
  C14. Retrieval is confined to what was authorized and promoted.  A response comes only after the
  authorizer accepted the alias, from an enabled, unsuspended source and its current successful
  version; it has at most \<open>limit\<close> results, each a non-empty prefix of a chunk of that version.
\<close>

theorem search_confined_to_promoted_version:
  assumes "search sh st d name query limit = Inr resp"
  shows "sh_authorizer sh name = Inr () \<and> int (length (sr_results resp)) \<le> limit
    \<and> (\<exists>s \<in> set (sources d). \<exists>v \<in> set (versions d). sr_source resp = name \<and> sr_version_id resp = kv_id v
        \<and> ks_canonical_alias s = name \<and> ks_enabled s \<and> ks_serving_suspended_at s = None
        \<and> ks_current_version s = Some (kv_id v) \<and> kv_source_id v = ks_id s \<and> kv_status v = ''succeeded''
        \<and> (\<forall>r \<in> set (sr_results resp). snd r \<noteq> [] \<and> prefix (snd r) (c_content (s_row (fst r)))
              \<and> row_of_version d s v (s_row (fst r))))"
  using assms
proof (rule search_results)
  fix s v cs
  assume sv: "servable name s v" and facts: "sh_authorizer sh name = Inr ()" "s \<in> set (sources d)" "v \<in> set (versions d)"
    "int (length (sr_results resp)) \<le> limit" "sr_version_id resp = kv_id v" "sr_source resp = ks_canonical_alias s"
    "\<forall>r \<in> set (sr_results resp). prefix_of cs r" "\<forall>i \<in> set cs. row_of_version d s v (s_row i)"
  from sv have "ks_canonical_alias s = name \<and> ks_enabled s \<and> ks_serving_suspended_at s = None
      \<and> ks_current_version s = Some (kv_id v) \<and> kv_source_id v = ks_id s \<and> kv_status v = ''succeeded''"
    by (simp add: servable_def)
  moreover from this facts have "sr_source resp = name" by simp
  ultimately show ?thesis using facts unfolding prefix_of_def by blast
qed

lemma search_confined_to_promoted_version_witness:
  "int (length (sr_results (demo_start\<lparr>sr_results := [(demo_item, ''x'')]\<rparr>))) \<le> 2"
  using search_confined_to_promoted_version [OF demo_search] by simp

text \<open>
  C15. A response is bounded: the JSON text of every response that holds a result has at most
  \<open>max_response_chars\<close> characters, whatever the titles, paths and contents of the chunks.
\<close>

theorem search_response_bounded:
  assumes "search sh st d name query limit = Inr resp" and "sr_results resp \<noteq> []"
  shows "int (length (json_dumps (response_json ''confluence'' resp))) \<le> rt_max_response_chars (sh_options sh)"
  using assms(1)
proof (rule search_results)
  fix s v cs
  assume "servable name s v" "bounded (sh_options sh) (ks_source_kind s) resp"
  with assms(2) show ?thesis by (simp add: servable_def bounded_def)
qed

lemma search_response_bounded_witness:
  "int (length (json_dumps (response_json ''confluence'' (demo_start\<lparr>sr_results := [(demo_item, ''x'')]\<rparr>)))) \<le> 24000"
  using search_response_bounded [OF demo_search] by (simp add: demo_searcher_def)

text \<open>
  The content of a result is cut no shorter than the bound asks: the binary search finds the
  longest prefix whose response fits.
\<close>

theorem truncation_is_maximal:
  "longest_fit (fits opts kind resp i original) 0 (length original) =
     Max {n. n \<le> length original \<and> (n = 0 \<or> fits opts kind resp i original n)}"
proof (rule sym, rule Max_eqI)
  let ?ok = "fits opts kind resp i original"
  let ?r = "longest_fit ?ok 0 (length original)"
  have "{n. n \<le> length original \<and> (n = 0 \<or> ?ok n)} \<subseteq> {..length original}" by auto
  then show "finite {n. n \<le> length original \<and> (n = 0 \<or> ?ok n)}" by (rule finite_subset) simp
  show "?r \<in> {n. n \<le> length original \<and> (n = 0 \<or> ?ok n)}"
    using longest_fit_range [of 0 "length original" ?ok] by auto
  fix n assume n: "n \<in> {n. n \<le> length original \<and> (n = 0 \<or> ?ok n)}"
  show "n \<le> ?r"
  proof (rule ccontr)
    assume "\<not> n \<le> ?r"
    then have "?r < n" "n \<noteq> 0" by auto
    with longest_fit_greatest [of ?ok 0 "length original" n] fits_antitone n show False by blast
  qed
qed

end
