(* ===== verification/Knowledge_Bundle.thy ===== *)
theory Knowledge_Bundle
  imports Py_Text
begin

text \<open>
  The verifier of \<open>shared/lib/knowledge_source_graphify.py\<close>: what a bundle directory must hold before
  it is published.  SHA-256, JSON parsing and reading a compressed archive are parameters; a directory
  is the list of its files with their contents.
\<close>

section \<open>Files and digests\<close>

type_synonym files = "(string \<times> string) list"

text \<open>\<open>_load_json_object\<close>: \<open>None\<close> is text that is not JSON.\<close>

definition load_json_object :: "(string \<Rightarrow> pyval option) \<Rightarrow> files \<Rightarrow> string \<Rightarrow> pydict result" where
  "load_json_object json fs name =
     (case Option.bind (map_of fs name) json of
        None \<Rightarrow> Inl (Value_error (''Could not read valid JSON object from '' @ name))
      | Some (PDict d) \<Rightarrow> Inr d
      | Some _ \<Rightarrow> Inl (Value_error (name @ '' must contain a JSON object'')))"

definition is_hex_digest :: "pyval \<Rightarrow> nat \<Rightarrow> bool" where
  "is_hex_digest v n = (case v of PStr s \<Rightarrow> length s = n \<and> int16_ok s | _ \<Rightarrow> False)"

section \<open>The source archive\<close>

record member =
  tm_name :: string
  tm_isfile :: bool
  tm_size :: nat

text \<open>
  A reader gives the members of an archive, or raises; the loop adds up their sizes.  \<open>PurePath.parts\<close>
  of a member name are its segments between slashes.
\<close>

fun inspect_members :: "nat \<Rightarrow> nat \<Rightarrow> nat \<Rightarrow> member list \<Rightarrow> (nat \<times> nat) result" where
  "inspect_members max_bytes expanded n [] = Inr (expanded, n)"
| "inspect_members max_bytes expanded n (m # ms) =
     (if \<not> safe_path (tm_name m) then Inl (Value_error (''archive member '' @ str_repr (tm_name m)))
      else if \<not> tm_isfile m
      then Inl (Value_error ''Knowledge Source archive may contain only regular files'')
      else if expanded + tm_size m > max_bytes
      then Inl (Value_error ''Knowledge Source archive exceeds expanded-size limit'')
      else inspect_members max_bytes (expanded + tm_size m) (Suc n) ms)"

definition inspect_source_archive :: "(string \<Rightarrow> member list result) \<Rightarrow> string \<Rightarrow> nat \<Rightarrow> (nat \<times> nat) result" where
  "inspect_source_archive reader content max_bytes =
     (if max_bytes = 0 then Inl (Value_error ''Expanded source archive limit must be positive'')
      else result_bind (reader content) (inspect_members max_bytes 0 0))"

section \<open>The verifier\<close>

definition bundle_error :: "string \<Rightarrow> 'a result" where
  "bundle_error msg = Inl (Value_error msg)"

text \<open>\<open>sorted({"graph", "source", "report", "extraction_log"})\<close>.\<close>

definition required_artifacts :: "string list" where
  "required_artifacts = [''extraction_log'', ''graph'', ''report'', ''source'']"

text \<open>
  \<open>Path(file_name).name == file_name\<close>: no slash, and not the single dot, which \<open>Path\<close> drops.
\<close>

definition plain_name :: "string \<Rightarrow> bool" where
  "plain_name f \<longleftrightarrow> CHR ''/'' \<notin> set f \<and> f \<noteq> ''.''"

definition verify_entry :: "(string \<Rightarrow> string) \<Rightarrow> files \<Rightarrow> string \<Rightarrow> pyval \<Rightarrow> unit result" where
  "verify_entry sha fs name v =
     (case v of
        PDict entry \<Rightarrow>
          (case dict_get entry ''file'' of
             PStr f \<Rightarrow>
               (if \<not> plain_name f
                then bundle_error (''Knowledge Source artifact '' @ str_repr name @ '' has an unsafe file name'')
                else case map_of fs f of
                  None \<Rightarrow> bundle_error (''Knowledge Source bundle is missing artifact '' @ f)
                | Some c \<Rightarrow>
                    (if \<not> eq_int (dict_get entry ''size_bytes'') (int (length c))
                     then bundle_error (''Knowledge Source artifact '' @ str_repr name @ '' size does not match manifest'')
                     else if dict_get entry ''sha256'' \<noteq> PStr (sha c)
                     then bundle_error (''Knowledge Source artifact '' @ str_repr name @ '' checksum does not match manifest'')
                     else Inr ()))
           | _ \<Rightarrow> bundle_error (''Knowledge Source artifact '' @ str_repr name @ '' has an unsafe file name''))
      | _ \<Rightarrow> bundle_error (''Knowledge Source artifact '' @ str_repr name @ '' has invalid metadata''))"

definition verify_entries :: "(string \<Rightarrow> string) \<Rightarrow> files \<Rightarrow> pydict \<Rightarrow> unit result" where
  "verify_entries sha fs artifacts =
     result_fold (\<lambda>_ name. result_bind (py_item (PDict artifacts) name) (verify_entry sha fs name)) () required_artifacts"

definition verify_archive :: "(string \<Rightarrow> member list result) \<Rightarrow> nat \<Rightarrow> files \<Rightarrow> pydict \<Rightarrow> unit result" where
  "verify_archive reader max_bytes fs artifacts =
     (let entry = dict_or_empty (dict_get artifacts ''source'');
          content = (case map_of fs (py_str (dict_get entry ''file'')) of None \<Rightarrow> [] | Some c \<Rightarrow> c)
      in result_bind (inspect_source_archive reader content max_bytes)
           (\<lambda>(expanded, n).
             if \<not> eq_int (dict_get entry ''expanded_size_bytes'') (int expanded) \<or> \<not> eq_int (dict_get entry ''file_count'') (int n)
             then bundle_error ''Knowledge Source archive counts do not match manifest''
             else Inr ()))"

record bundle_tools =
  bt_json :: "string \<Rightarrow> pyval option"
  bt_sha :: "string \<Rightarrow> string"
  bt_reader :: "string \<Rightarrow> member list result"

definition verify_knowledge_source_bundle :: "bundle_tools \<Rightarrow> nat \<Rightarrow> files \<Rightarrow> pydict result" where
  "verify_knowledge_source_bundle tools max_bytes fs =
     result_bind (load_json_object (bt_json tools) fs ''manifest.json'') (\<lambda>manifest.
       if \<not> eq_int (dict_get manifest ''schema_version'') 1
       then bundle_error ''Unsupported Knowledge Source bundle schema version''
       else if \<not> is_dict (dict_get manifest ''source'')
           \<or> \<not> is_hex_digest (dict_get (dict_or_empty (dict_get manifest ''source'')) ''commit_sha'') 40
       then bundle_error ''Knowledge Source bundle has invalid source identity''
       else case dict_get manifest ''artifacts'' of
         PDict artifacts \<Rightarrow>
           (if set (map fst artifacts) \<noteq> set required_artifacts
            then bundle_error ''Knowledge Source bundle artifact set is incomplete''
            else result_bind (verify_entries (bt_sha tools) fs artifacts) (\<lambda>_.
              result_map (\<lambda>_. manifest) (verify_archive (bt_reader tools) max_bytes fs artifacts)))
       | _ \<Rightarrow> bundle_error ''Knowledge Source bundle has no artifact manifest'')"

section \<open>Lemmas\<close>

lemma inspect_members_ok:
  "inspect_members max_bytes expanded n ms = Inr (all, count) \<Longrightarrow>
     all = expanded + sum_list (map tm_size ms) \<and> count = n + length ms \<and> (ms = [] \<or> all \<le> max_bytes)
     \<and> (\<forall>m \<in> set ms. safe_path (tm_name m) \<and> tm_isfile m)"
proof (induction ms arbitrary: expanded n)
  case (Cons m ms)
  then have ok: "safe_path (tm_name m)" "tm_isfile m" "expanded + tm_size m \<le> max_bytes"
    and rest: "inspect_members max_bytes (expanded + tm_size m) (Suc n) ms = Inr (all, count)"
    by (auto split: if_splits)
  from Cons.IH [OF rest] ok show ?case by (cases ms) auto
qed simp

lemma verify_entry_ok:
  assumes "verify_entry sha fs name v = Inr ()"
  obtains entry f c where "v = PDict entry" "dict_get entry ''file'' = PStr f" "plain_name f"
    "map_of fs f = Some c" "eq_int (dict_get entry ''size_bytes'') (int (length c))" "dict_get entry ''sha256'' = PStr (sha c)"
  using assms by (auto simp: verify_entry_def bundle_error_def split: pyval.splits option.splits if_splits)

lemma verify_entries_ok:
  assumes "verify_entries sha fs artifacts = Inr ()" and "name \<in> set required_artifacts"
  shows "verify_entry sha fs name (dict_get artifacts name) = Inr ()"
proof -
  have "result_fold (\<lambda>_ name. result_bind (py_item (PDict artifacts) name) (verify_entry sha fs name)) () names = Inr ()
      \<Longrightarrow> name \<in> set names \<Longrightarrow> verify_entry sha fs name (dict_get artifacts name) = Inr ()" for names
    by (induction names)
      (auto simp: result_bind_Inr_iff dict_get_def dict_get_default_def split: option.splits)
  with assms show ?thesis unfolding verify_entries_def by blast
qed

text \<open>What an accepted bundle holds.\<close>

definition artifact_matches :: "(string \<Rightarrow> string) \<Rightarrow> files \<Rightarrow> pyval \<Rightarrow> bool" where
  "artifact_matches sha fs v \<longleftrightarrow>
     (\<exists>f c. dict_get (dict_or_empty v) ''file'' = PStr f \<and> plain_name f \<and> map_of fs f = Some c
        \<and> eq_int (dict_get (dict_or_empty v) ''size_bytes'') (int (length c))
        \<and> dict_get (dict_or_empty v) ''sha256'' = PStr (sha c))"

lemma verify_parts:
  assumes "verify_knowledge_source_bundle tools max_bytes fs = Inr manifest"
  obtains artifacts where "load_json_object (bt_json tools) fs ''manifest.json'' = Inr manifest"
    "eq_int (dict_get manifest ''schema_version'') 1" "is_dict (dict_get manifest ''source'')"
    "is_hex_digest (dict_get (dict_or_empty (dict_get manifest ''source'')) ''commit_sha'') 40"
    "dict_get manifest ''artifacts'' = PDict artifacts" "set (map fst artifacts) = set required_artifacts"
    "verify_entries (bt_sha tools) fs artifacts = Inr ()"
    "verify_archive (bt_reader tools) max_bytes fs artifacts = Inr ()"
proof -
  let ?src = "dict_get manifest ''source''"
  obtain m where m: "load_json_object (bt_json tools) fs ''manifest.json'' = Inr m"
    using assms by (auto simp: verify_knowledge_source_bundle_def result_bind_Inr_iff)
  note run = assms [unfolded verify_knowledge_source_bundle_def m result_bind.simps]
  from run have schema: "eq_int (dict_get m ''schema_version'') 1"
    and src: "is_dict (dict_get m ''source'')" "is_hex_digest (dict_get (dict_or_empty (dict_get m ''source'')) ''commit_sha'') 40"
    by (auto simp: bundle_error_def split: if_splits)
  with run obtain artifacts where a: "dict_get m ''artifacts'' = PDict artifacts"
    by (cases "dict_get m ''artifacts''") (simp_all add: bundle_error_def)
  with run schema src have keys: "set (map fst artifacts) = set required_artifacts"
    by (auto simp: bundle_error_def split: if_splits)
  with run schema src a have entries: "verify_entries (bt_sha tools) fs artifacts = Inr ()"
    and archive: "verify_archive (bt_reader tools) max_bytes fs artifacts = Inr ()" and same: "manifest = m"
    by (auto simp: result_bind_Inr_iff result_map_Inr_iff)
  show thesis
    by (rule that) (use m schema src a keys entries archive same in auto)
qed

end
