(* ===== verification/Object_Store.thy ===== *)
theory Object_Store
  imports Py_Text
begin

text \<open>
  \<open>shared/lib/object_store.py\<close>: the protocol of an object store, and its two adapters over client
  libraries that are not part of the repository.  Those libraries are parameters; the laws state their
  documented behaviour.  A failed upload may or may not have stored the object.
\<close>

section \<open>The protocol\<close>

text \<open>
  \<open>download_file\<close> writes a scratch file, here its content: \<open>Inr None\<close> is the result \<open>False\<close>.
\<close>

record 's store_api =
  st_download :: "string \<Rightarrow> string \<Rightarrow> 's \<Rightarrow> string option result"
  st_upload :: "string \<Rightarrow> string \<Rightarrow> string \<Rightarrow> 's \<Rightarrow> unit result \<times> 's"

definition stored :: "'s store_api \<Rightarrow> string \<Rightarrow> string \<Rightarrow> 's \<Rightarrow> string option" where
  "stored api bucket key s = (case st_download api bucket key s of Inr (Some c) \<Rightarrow> Some c | _ \<Rightarrow> None)"

text \<open>An upload writes its own object or, when it raises, perhaps nothing.\<close>

definition writes_object ::
    "(string \<Rightarrow> string \<Rightarrow> 's \<Rightarrow> string option) \<Rightarrow> string \<Rightarrow> string \<Rightarrow> string \<Rightarrow> 's \<Rightarrow> unit result \<times> 's \<Rightarrow> bool" where
  "writes_object view bucket key content s out \<longleftrightarrow>
     (view bucket key (snd out) = Some content \<or> (fst out \<noteq> Inr () \<and> view bucket key (snd out) = view bucket key s))
     \<and> (\<forall>b k. (b, k) \<noteq> (bucket, key) \<longrightarrow> view b k (snd out) = view b k s)"

definition store_laws :: "'s store_api \<Rightarrow> bool" where
  "store_laws api \<longleftrightarrow>
     (\<forall>bucket key content s. writes_object (stored api) bucket key content s (st_upload api bucket key content s))"

lemma upload_other:
  assumes "store_laws api" and "st_upload api bucket key content s = (res, s')" and "(b, k) \<noteq> (bucket, key)"
  shows "stored api b k s' = stored api b k s"
  using assms unfolding store_laws_def writes_object_def by (metis snd_conv)

lemma upload_same:
  assumes "store_laws api" and "st_upload api bucket key content s = (Inr (), s')"
  shows "stored api bucket key s' = Some content"
  using assms unfolding store_laws_def writes_object_def by (metis fst_conv snd_conv)

text \<open>A step that touches no object may come first.\<close>

lemma writes_after:
  assumes "writes_object view bucket key content u out" and "\<And>b k. view b k u = view b k s"
  shows "writes_object view bucket key content s out"
  using assms by (simp add: writes_object_def)

section \<open>The S3 adapter\<close>

text \<open>\<open>fget_object\<close> gives the content or the code of an \<open>S3Error\<close>; \<open>fput_object\<close> may raise.\<close>

record 's s3_client =
  s3_bucket_exists :: "string \<Rightarrow> 's \<Rightarrow> bool"
  s3_make_bucket :: "string \<Rightarrow> 's \<Rightarrow> 's"
  s3_fput :: "string \<Rightarrow> string \<Rightarrow> string \<Rightarrow> 's \<Rightarrow> unit result \<times> 's"
  s3_fget :: "string \<Rightarrow> string \<Rightarrow> 's \<Rightarrow> string + string"

definition s3_ensure_bucket :: "'s s3_client \<Rightarrow> string \<Rightarrow> 's \<Rightarrow> 's" where
  "s3_ensure_bucket cl bucket s = (if s3_bucket_exists cl bucket s then s else s3_make_bucket cl bucket s)"

definition s3_upload_file :: "'s s3_client \<Rightarrow> string \<Rightarrow> string \<Rightarrow> string \<Rightarrow> 's \<Rightarrow> unit result \<times> 's" where
  "s3_upload_file cl bucket key content s = s3_fput cl bucket key content (s3_ensure_bucket cl bucket s)"

definition s3_download_file :: "'s s3_client \<Rightarrow> string \<Rightarrow> string \<Rightarrow> 's \<Rightarrow> string option result" where
  "s3_download_file cl bucket key s =
     (case s3_fget cl bucket key s of
        Inr c \<Rightarrow> Inr (Some c)
      | Inl code \<Rightarrow> (if code = ''NoSuchKey'' then Inr None else Inl (Runtime_error code)))"

definition s3_download_bytes :: "'s s3_client \<Rightarrow> string \<Rightarrow> string \<Rightarrow> 's \<Rightarrow> string option result" where
  "s3_download_bytes cl bucket key s =
     (case s3_fget cl bucket key s of
        Inr c \<Rightarrow> Inr (Some c)
      | Inl code \<Rightarrow> (if code \<in> {''NoSuchKey'', ''NoSuchBucket''} then Inr None else Inl (Runtime_error code)))"

definition s3_store :: "'s s3_client \<Rightarrow> 's store_api" where
  "s3_store cl = \<lparr>st_download = s3_download_file cl, st_upload = s3_upload_file cl\<rparr>"

definition s3_content :: "'s s3_client \<Rightarrow> string \<Rightarrow> string \<Rightarrow> 's \<Rightarrow> string option" where
  "s3_content cl bucket key s = (case s3_fget cl bucket key s of Inr c \<Rightarrow> Some c | Inl _ \<Rightarrow> None)"

text \<open>Making a bucket touches no object; putting an object touches only that object.\<close>

definition s3_laws :: "'s s3_client \<Rightarrow> bool" where
  "s3_laws cl \<longleftrightarrow>
     (\<forall>bucket s b k. s3_content cl b k (s3_make_bucket cl bucket s) = s3_content cl b k s)
     \<and> (\<forall>bucket key content s. writes_object (s3_content cl) bucket key content s (s3_fput cl bucket key content s))"

lemma stored_s3 [simp]: "stored (s3_store cl) = s3_content cl"
  by (intro ext) (simp add: stored_def s3_store_def s3_download_file_def s3_content_def split: sum.split)

lemma s3_store_laws: "s3_laws cl \<Longrightarrow> store_laws (s3_store cl)"
  unfolding store_laws_def stored_s3
proof (intro allI)
  fix bucket key content s assume laws: "s3_laws cl"
  let ?u = "s3_ensure_bucket cl bucket s"
  have bucket: "s3_content cl b k (s3_make_bucket cl bucket s) = s3_content cl b k s" for b k
    using laws unfolding s3_laws_def by blast
  have "writes_object (s3_content cl) bucket key content ?u (s3_fput cl bucket key content ?u)"
    using laws unfolding s3_laws_def by blast
  moreover have "s3_content cl b k ?u = s3_content cl b k s" for b k
    by (simp add: s3_ensure_bucket_def bucket)
  ultimately show "writes_object (s3_content cl) bucket key content s (st_upload (s3_store cl) bucket key content s)"
    unfolding s3_store_def s3_upload_file_def store_api.simps by (rule writes_after)
qed

section \<open>The GCS adapter\<close>

record 's gcs_client =
  gcs_lookup_bucket :: "string \<Rightarrow> 's \<Rightarrow> bool"
  gcs_create_bucket :: "string \<Rightarrow> 's \<Rightarrow> 's"
  gcs_upload :: "string \<Rightarrow> string \<Rightarrow> string \<Rightarrow> 's \<Rightarrow> unit result \<times> 's"
  gcs_blob :: "string \<Rightarrow> string \<Rightarrow> 's \<Rightarrow> string option"

definition gcs_ensure_bucket :: "'s gcs_client \<Rightarrow> string \<Rightarrow> 's \<Rightarrow> 's" where
  "gcs_ensure_bucket cl bucket s = (if gcs_lookup_bucket cl bucket s then s else gcs_create_bucket cl bucket s)"

definition gcs_upload_file :: "'s gcs_client \<Rightarrow> string \<Rightarrow> string \<Rightarrow> string \<Rightarrow> 's \<Rightarrow> unit result \<times> 's" where
  "gcs_upload_file cl bucket key content s = gcs_upload cl bucket key content (gcs_ensure_bucket cl bucket s)"

text \<open>\<open>blob.exists()\<close> and then the download.\<close>

definition gcs_download_file :: "'s gcs_client \<Rightarrow> string \<Rightarrow> string \<Rightarrow> 's \<Rightarrow> string option result" where
  "gcs_download_file cl bucket key s = Inr (gcs_blob cl bucket key s)"

definition gcs_store :: "'s gcs_client \<Rightarrow> 's store_api" where
  "gcs_store cl = \<lparr>st_download = gcs_download_file cl, st_upload = gcs_upload_file cl\<rparr>"

definition gcs_laws :: "'s gcs_client \<Rightarrow> bool" where
  "gcs_laws cl \<longleftrightarrow>
     (\<forall>bucket s b k. gcs_blob cl b k (gcs_create_bucket cl bucket s) = gcs_blob cl b k s)
     \<and> (\<forall>bucket key content s. writes_object (gcs_blob cl) bucket key content s (gcs_upload cl bucket key content s))"

lemma stored_gcs [simp]: "stored (gcs_store cl) = gcs_blob cl"
  by (intro ext) (simp add: stored_def gcs_store_def gcs_download_file_def split: option.split)

lemma gcs_store_laws: "gcs_laws cl \<Longrightarrow> store_laws (gcs_store cl)"
  unfolding store_laws_def stored_gcs
proof (intro allI)
  fix bucket key content s assume laws: "gcs_laws cl"
  let ?u = "gcs_ensure_bucket cl bucket s"
  have bucket: "gcs_blob cl b k (gcs_create_bucket cl bucket s) = gcs_blob cl b k s" for b k
    using laws unfolding gcs_laws_def by blast
  have "writes_object (gcs_blob cl) bucket key content ?u (gcs_upload cl bucket key content ?u)"
    using laws unfolding gcs_laws_def by blast
  moreover have "gcs_blob cl b k ?u = gcs_blob cl b k s" for b k
    by (simp add: gcs_ensure_bucket_def bucket)
  ultimately show "writes_object (gcs_blob cl) bucket key content s (st_upload (gcs_store cl) bucket key content s)"
    unfolding gcs_store_def gcs_upload_file_def store_api.simps by (rule writes_after)
qed

section \<open>The configured store\<close>

datatype provider = Gcs | S3

definition object_store_provider :: "string \<Rightarrow> provider result" where
  "object_store_provider setting =
     (let name = lower (strip setting)
      in if name = ''gcs'' then Inr Gcs
         else if name = ''s3'' then Inr S3
         else Inl (Value_error (''Unsupported object_store_provider: '' @ str_repr name)))"

definition get_object_store :: "string \<Rightarrow> 's gcs_client \<Rightarrow> 's s3_client \<Rightarrow> 's store_api result" where
  "get_object_store setting gcs s3 =
     result_map (\<lambda>p. case p of Gcs \<Rightarrow> gcs_store gcs | S3 \<Rightarrow> s3_store s3) (object_store_provider setting)"

lemma get_object_store_laws:
  "get_object_store setting gcs s3 = Inr api \<Longrightarrow> gcs_laws gcs \<Longrightarrow> s3_laws s3 \<Longrightarrow> store_laws api"
  unfolding get_object_store_def result_map_Inr_iff
  by (elim exE conjE, rename_tac p, case_tac p) (simp_all add: gcs_store_laws s3_store_laws)

end
