(* ===== verification/Knowledge_Publication.thy ===== *)
theory Knowledge_Publication
  imports Knowledge_Bundle Object_Store Background_Jobs
begin

text \<open>
  \<open>shared/lib/knowledge_source_publication.py\<close>: the upload of a verified bundle to an object store, and
  the two transactions that end a synchronization, promotion and failure.  The order of effects on the
  store is kept, and an error keeps what was uploaded before it.
\<close>

section \<open>Publication of a bundle\<close>

record kbundle =
  bn_files :: files
  bn_artifact_paths :: "(string \<times> string) list"
  bn_file_count :: int
  bn_node_count :: int
  bn_edge_count :: int

record publication =
  pb_bucket :: string
  pb_keys :: "(string \<times> string) list"
  pb_checksums :: "(string \<times> string) list"

definition ARTIFACT_ORDER :: "string list" where
  "ARTIFACT_ORDER = [''graph'', ''source'', ''report'', ''extraction_log'', ''manifest'']"

definition publication_error :: "string \<Rightarrow> 'a result" where
  "publication_error msg = Inl (Runtime_error msg)"

definition matching :: "(string \<Rightarrow> string) \<Rightarrow> string \<Rightarrow> string \<Rightarrow> bool" where
  "matching sha content c \<longleftrightarrow> length c = length content \<and> sha c = sha content"

definition require_matching_object :: "(string \<Rightarrow> string) \<Rightarrow> string \<Rightarrow> string \<Rightarrow> string \<Rightarrow> unit result" where
  "require_matching_object sha key content c =
     (if matching sha content c then Inr ()
      else publication_error (''Immutable Knowledge Source object differs at '' @ key))"

text \<open>\<open>bundle.artifact_paths[name]\<close> with the name and the content of the file.\<close>

definition artifact_file :: "kbundle \<Rightarrow> string \<Rightarrow> (string \<times> string) result" where
  "artifact_file b name =
     (case map_of (bn_artifact_paths b) name of
        None \<Rightarrow> Inl (Key_error name)
      | Some f \<Rightarrow>
          (case map_of (bn_files b) f of
             None \<Rightarrow> Inl (Os_error (''No such file: '' @ f))
           | Some c \<Rightarrow> Inr (f, c)))"

definition object_prefix :: "pydict \<Rightarrow> string result" where
  "object_prefix manifest =
     result_bind (py_item (PDict manifest) ''source'') (\<lambda>source.
     result_bind (py_item source ''id'') (\<lambda>source_id.
     result_bind (py_item source ''commit_sha'') (\<lambda>commit_sha.
     result_bind (py_item (PDict manifest) ''graphify'') (\<lambda>graphify.
     result_map (\<lambda>config_hash. ''knowledge-sources/'' @ py_str source_id @ ''/'' @ py_str commit_sha @ ''/'' @ py_str config_hash)
       (py_item graphify ''extraction_config_hash'')))))"

text \<open>The object as it is after the upload, compared with the artifact.\<close>

definition confirm_object :: "'s store_api \<Rightarrow> (string \<Rightarrow> string) \<Rightarrow> string \<Rightarrow> string \<Rightarrow> string \<Rightarrow> 's \<Rightarrow> unit result" where
  "confirm_object api sha bucket key content s =
     result_bind (st_download api bucket key s) (\<lambda>got.
       case got of
         None \<Rightarrow> publication_error (''Published Knowledge Source artifact is missing: '' @ key)
       | Some c \<Rightarrow> require_matching_object sha key content c)"

definition put_artifact :: "'s store_api \<Rightarrow> (string \<Rightarrow> string) \<Rightarrow> string \<Rightarrow> string \<Rightarrow> string \<Rightarrow> 's \<Rightarrow> unit result \<times> 's" where
  "put_artifact api sha bucket key content s =
     (case st_download api bucket key s of
        Inl e \<Rightarrow> (Inl e, s)
      | Inr (Some c) \<Rightarrow>
          (result_bind (require_matching_object sha key content c) (\<lambda>_. confirm_object api sha bucket key content s), s)
      | Inr None \<Rightarrow>
          (case st_upload api bucket key content s of
             (Inl e, s') \<Rightarrow> (Inl e, s')
           | (Inr _, s') \<Rightarrow> (confirm_object api sha bucket key content s', s')))"

fun publish_artifacts ::
    "'s store_api \<Rightarrow> (string \<Rightarrow> string) \<Rightarrow> string \<Rightarrow> string \<Rightarrow> kbundle \<Rightarrow> string list \<Rightarrow> publication \<Rightarrow> 's
     \<Rightarrow> publication result \<times> 's" where
  "publish_artifacts api sha bucket prefix b [] pub s = (Inr pub, s)"
| "publish_artifacts api sha bucket prefix b (name # names) pub s =
     (case artifact_file b name of
        Inl e \<Rightarrow> (Inl e, s)
      | Inr (f, content) \<Rightarrow>
          (let key = prefix @ ''/'' @ f in
           case put_artifact api sha bucket key content s of
             (Inl e, s') \<Rightarrow> (Inl e, s')
           | (Inr _, s') \<Rightarrow>
               publish_artifacts api sha bucket prefix b names
                 (pub\<lparr>pb_keys := AList.update name key (pb_keys pub),
                      pb_checksums := AList.update name (''sha256:'' @ sha content) (pb_checksums pub)\<rparr>) s'))"

definition publish_knowledge_source_bundle ::
    "'s store_api \<Rightarrow> bundle_tools \<Rightarrow> nat \<Rightarrow> kbundle \<Rightarrow> string \<Rightarrow> 's \<Rightarrow> publication result \<times> 's" where
  "publish_knowledge_source_bundle api tools max_bytes b bucket_setting s =
     (let bucket = strip bucket_setting in
      if bucket = [] then (publication_error ''Knowledge Source object-store bucket is required'', s)
      else case result_bind (verify_knowledge_source_bundle tools max_bytes (bn_files b)) object_prefix of
        Inl e \<Rightarrow> (Inl e, s)
      | Inr prefix \<Rightarrow>
          publish_artifacts api (bt_sha tools) bucket prefix b ARTIFACT_ORDER
            \<lparr>pb_bucket = bucket, pb_keys = [], pb_checksums = []\<rparr> s)"

section \<open>What the store keeps\<close>

lemma confirm_object_ok:
  "confirm_object api sha bucket key content s = Inr () \<longleftrightarrow>
     (\<exists>c. stored api bucket key s = Some c \<and> matching sha content c)"
  by (auto simp: confirm_object_def stored_def result_bind_Inr_iff require_matching_object_def publication_error_def
      split: option.splits sum.splits if_splits)

lemma stored_download: "stored api b k s = Some c \<longleftrightarrow> st_download api b k s = Inr (Some c)"
  by (auto simp: stored_def split: sum.splits option.splits)

text \<open>An artifact is stored at its key, and no object that was there is replaced.\<close>

lemma put_artifact_keeps:
  assumes "store_laws api" and "put_artifact api sha bucket key content s = (res, s')" and "stored api b k s = Some c"
  shows "stored api b k s' = Some c"
proof (cases "st_download api bucket key s")
  case (Inr found)
  show ?thesis
  proof (cases found)
    case None
    with assms(3) Inr have "(b, k) \<noteq> (bucket, key)" by (auto simp: stored_download)
    moreover obtain r where "st_upload api bucket key content s = (r, s')"
      using assms(2) Inr None by (auto simp: put_artifact_def split: prod.splits sum.splits)
    ultimately show ?thesis using upload_other [OF assms(1)] assms(3) by metis
  qed (use assms Inr in \<open>simp add: put_artifact_def\<close>)
qed (use assms in \<open>simp add: put_artifact_def\<close>)

lemma put_artifact_ok:
  assumes "put_artifact api sha bucket key content s = (Inr (), s')"
  shows "\<exists>c. stored api bucket key s' = Some c \<and> matching sha content c"
  using assms
  by (auto simp: put_artifact_def result_bind_Inr_iff confirm_object_ok split: sum.splits option.splits prod.splits)

text \<open>Storing an artifact that is already there changes nothing.\<close>

lemma put_artifact_again:
  assumes "stored api bucket key s = Some c" and "matching sha content c"
  shows "put_artifact api sha bucket key content s = (Inr (), s)"
  using assms confirm_object_ok [of api sha bucket key content s]
  by (simp add: put_artifact_def stored_download require_matching_object_def)

definition published_at :: "'s store_api \<Rightarrow> (string \<Rightarrow> string) \<Rightarrow> string \<Rightarrow> string \<Rightarrow> kbundle \<Rightarrow> 's \<Rightarrow> string \<Rightarrow> bool" where
  "published_at api sha bucket prefix b s name \<longleftrightarrow>
     (\<exists>f content c. artifact_file b name = Inr (f, content) \<and> matching sha content c
        \<and> stored api bucket (prefix @ ''/'' @ f) s = Some c)"

lemma publish_artifacts_keeps:
  assumes "store_laws api" and "publish_artifacts api sha bucket prefix b names pub s = (res, s')"
    and "stored api bk k s = Some c"
  shows "stored api bk k s' = Some c"
  using assms(2,3)
proof (induction names arbitrary: pub s)
  case (Cons name names)
  show ?case
  proof (cases "artifact_file b name")
    case (Inr fc)
    obtain f content where fc: "fc = (f, content)" by fastforce
    obtain r s1 where put: "put_artifact api sha bucket (prefix @ ''/'' @ f) content s = (r, s1)" by fastforce
    have kept: "stored api bk k s1 = Some c"
      using put_artifact_keeps [OF assms(1) put Cons.prems(2)] .
    show ?thesis
    proof (cases r)
      case (Inl e)
      with Cons.prems(1) kept put Inr fc show ?thesis by simp
    next
      case (Inr u)
      with Cons.IH kept Cons.prems(1) put \<open>artifact_file b name = Inr fc\<close> fc show ?thesis
        by (simp add: Let_def)
    qed
  qed (use Cons.prems in simp)
qed simp

lemma publish_artifacts_ok:
  assumes "store_laws api" and "publish_artifacts api sha bucket prefix b names pub s = (Inr pub', s')"
    and "name \<in> set names"
  shows "published_at api sha bucket prefix b s' name"
  using assms(2,3)
proof (induction names arbitrary: pub s)
  case (Cons n names)
  from Cons.prems(1) obtain f content where art: "artifact_file b n = Inr (f, content)"
    by (auto split: sum.splits)
  obtain r s1 where put: "put_artifact api sha bucket (prefix @ ''/'' @ f) content s = (r, s1)" by fastforce
  from Cons.prems(1) art put obtain pub1 where r: "r = Inr ()"
    and rest: "publish_artifacts api sha bucket prefix b names pub1 s1 = (Inr pub', s')"
    by (cases r) (auto simp: Let_def)
  from put_artifact_ok [OF put [unfolded r]] obtain c
    where c: "stored api bucket (prefix @ ''/'' @ f) s1 = Some c" "matching sha content c" by blast
  have "published_at api sha bucket prefix b s' n"
    using art c publish_artifacts_keeps [OF assms(1) rest c(1)] unfolding published_at_def by blast
  with Cons.IH [OF rest] Cons.prems(2) show ?case by auto
qed simp

lemma publish_artifacts_again:
  assumes "\<forall>name \<in> set names. published_at api sha bucket prefix b t name"
    and "publish_artifacts api sha bucket prefix b names pub s = (Inr pub', s')"
  shows "publish_artifacts api sha bucket prefix b names pub t = (Inr pub', t)"
  using assms
proof (induction names arbitrary: pub s)
  case (Cons n names)
  from Cons.prems(1) obtain f content c where art: "artifact_file b n = Inr (f, content)"
    and c: "matching sha content c" "stored api bucket (prefix @ ''/'' @ f) t = Some c"
    unfolding published_at_def by auto
  obtain r s1 where put: "put_artifact api sha bucket (prefix @ ''/'' @ f) content s = (r, s1)" by fastforce
  from Cons.prems(2) art put obtain pub1
    where pub1: "pub1 = pub\<lparr>pb_keys := AList.update n (prefix @ ''/'' @ f) (pb_keys pub),
        pb_checksums := AList.update n (''sha256:'' @ sha content) (pb_checksums pub)\<rparr>"
    and rest: "publish_artifacts api sha bucket prefix b names pub1 s1 = (Inr pub', s')"
    by (cases r) (auto simp: Let_def)
  have "publish_artifacts api sha bucket prefix b names pub1 t = (Inr pub', t)"
    by (rule Cons.IH [OF _ rest]) (use Cons.prems(1) in simp)
  with art put_artifact_again [OF c(2,1)] pub1 show ?case by (simp add: Let_def)
qed simp

lemma publish_parts:
  assumes "publish_knowledge_source_bundle api tools max_bytes b setting s = (Inr pub, s')"
  obtains prefix where "strip setting \<noteq> []"
    "result_bind (verify_knowledge_source_bundle tools max_bytes (bn_files b)) object_prefix = Inr prefix"
    "publish_artifacts api (bt_sha tools) (strip setting) prefix b ARTIFACT_ORDER
       \<lparr>pb_bucket = strip setting, pb_keys = [], pb_checksums = []\<rparr> s = (Inr pub, s')"
  using assms
  by (auto simp: publish_knowledge_source_bundle_def publication_error_def Let_def split: if_splits sum.splits)

section \<open>Promotion and failure\<close>

definition find_source :: "db \<Rightarrow> uuid \<Rightarrow> knowledge_source option" where
  "find_source d i = find_row (\<lambda>s. ks_id s = i) (sources d)"

definition find_version :: "db \<Rightarrow> uuid \<Rightarrow> source_version option" where
  "find_version d i = find_row (\<lambda>v. kv_id v = i) (versions d)"

text \<open>Writing back one loaded row of each table.\<close>

definition put_source :: "knowledge_source \<Rightarrow> db \<Rightarrow> db" where
  "put_source s d = d\<lparr>sources := update_where (\<lambda>x. ks_id x = ks_id s) (\<lambda>_. s) (sources d)\<rparr>"

definition put_version :: "source_version \<Rightarrow> db \<Rightarrow> db" where
  "put_version v d = d\<lparr>versions := update_where (\<lambda>x. kv_id x = kv_id v) (\<lambda>_. v) (versions d)\<rparr>"

definition put_run :: "job_run \<Rightarrow> db \<Rightarrow> db" where
  "put_run r d = d\<lparr>job_runs := update_where (\<lambda>x. jr_id x = jr_id r) (\<lambda>_. r) (job_runs d)\<rparr>"

definition locked_sync_records ::
    "db \<Rightarrow> uuid \<Rightarrow> uuid \<Rightarrow> uuid \<Rightarrow> (knowledge_source \<times> source_version \<times> job_run) result" where
  "locked_sync_records d source_id version_id run_id =
     (case (find_source d source_id, find_version d version_id, find_run d run_id) of
        (Some s, Some v, Some r) \<Rightarrow>
          (if kv_source_id v \<noteq> ks_id s
           then publication_error ''Knowledge Source version belongs to another source''
           else if jr_source_id r \<noteq> Some (ks_id s) \<or> jr_version_id r \<noteq> Some (kv_id v)
           then publication_error ''Background job does not own the Knowledge Source version''
           else Inr (s, v, r))
      | _ \<Rightarrow> publication_error ''Knowledge Source sync records are incomplete'')"

record promote_args =
  pa_publication :: publication
  pa_file_count :: int
  pa_node_count :: int
  pa_edge_count :: int
  pa_timings :: pydict
  pa_warnings :: "string list option"
  pa_finished_at :: "datetime option"

definition text_dict :: "(string \<times> string) list \<Rightarrow> pydict" where
  "text_dict d = map (\<lambda>(k, v). (k, PStr v)) d"

definition promoted_version :: "promote_args \<Rightarrow> datetime \<Rightarrow> source_version \<Rightarrow> source_version" where
  "promoted_version args completed_at v =
     v\<lparr>kv_status := ''succeeded'', kv_artifact_keys := text_dict (pb_keys (pa_publication args)),
       kv_artifact_checksums := text_dict (pb_checksums (pa_publication args)),
       kv_file_count := pa_file_count args, kv_node_count := pa_node_count args, kv_edge_count := pa_edge_count args,
       kv_warnings := (case pa_warnings args of None \<Rightarrow> [] | Some w \<Rightarrow> w), kv_error := None,
       kv_finished_at := Some completed_at\<rparr>"

definition ended_run :: "string \<Rightarrow> datetime \<Rightarrow> job_run \<Rightarrow> job_run" where
  "ended_run status completed_at r =
     r\<lparr>jr_status := status, jr_heartbeat_at := Some completed_at, jr_finished_at := Some completed_at,
       jr_duration_sec := Some (max 0 (completed_at - jr_started_at r))\<rparr>"

definition promoted_run :: "promote_args \<Rightarrow> datetime \<Rightarrow> source_version \<Rightarrow> job_run \<Rightarrow> job_run" where
  "promoted_run args completed_at v r =
     (ended_run ''succeeded'' completed_at r)
       \<lparr>jr_summary := [(''commit_sha'', opt_str (kv_commit_sha v)), (''phase_timings_sec'', PDict (pa_timings args)),
          (''file_count'', PInt (pa_file_count args)), (''node_count'', PInt (pa_node_count args)),
          (''edge_count'', PInt (pa_edge_count args)),
          (''artifact_keys'', PDict (text_dict (pb_keys (pa_publication args))))],
        jr_warnings := (case pa_warnings args of None \<Rightarrow> [] | Some w \<Rightarrow> w), jr_error := None\<rparr>"

definition promote_knowledge_source_version ::
    "datetime \<Rightarrow> uuid \<Rightarrow> uuid \<Rightarrow> uuid \<Rightarrow> promote_args \<Rightarrow> db \<Rightarrow> (source_version \<times> db) result" where
  "promote_knowledge_source_version now source_id version_id run_id args d =
     result_bind (locked_sync_records d source_id version_id run_id) (\<lambda>(s, v, r).
       if kv_status v \<notin> {''pending'', ''running''}
       then publication_error (''Knowledge Source version is already '' @ kv_status v)
       else if jr_status r \<noteq> RUNNING_STATUS
       then publication_error (''Knowledge Source sync run is already '' @ jr_status r)
       else
         let completed_at = (case pa_finished_at args of None \<Rightarrow> now | Some f \<Rightarrow> f);
             v' = promoted_version args completed_at v
         in Inr (v', put_run (promoted_run args completed_at v r)
              (put_source (s\<lparr>ks_current_version := Some (kv_id v)\<rparr>) (put_version v' d))))"

record fail_args =
  fl_phase :: string
  fl_error :: string
  fl_timings :: pydict
  fl_warnings :: "string list option"
  fl_finished_at :: "datetime option"

definition failed_version :: "fail_args \<Rightarrow> datetime \<Rightarrow> source_version \<Rightarrow> source_version" where
  "failed_version args completed_at v =
     v\<lparr>kv_status := ''failed'', kv_warnings := (case fl_warnings args of None \<Rightarrow> [] | Some w \<Rightarrow> w),
       kv_error := Some (fl_error args), kv_finished_at := Some completed_at\<rparr>"

definition failed_run :: "fail_args \<Rightarrow> datetime \<Rightarrow> source_version \<Rightarrow> job_run \<Rightarrow> job_run" where
  "failed_run args completed_at v r =
     (ended_run ''failed'' completed_at r)
       \<lparr>jr_summary := dict_merge (jr_summary r) [(''commit_sha'', opt_str (kv_commit_sha v)),
          (''failure_phase'', PStr (fl_phase args)), (''phase_timings_sec'', PDict (fl_timings args))],
        jr_warnings := (case fl_warnings args of None \<Rightarrow> [] | Some w \<Rightarrow> w), jr_error := Some (fl_error args)\<rparr>"

definition fail_knowledge_source_version ::
    "datetime \<Rightarrow> uuid \<Rightarrow> uuid \<Rightarrow> uuid \<Rightarrow> fail_args \<Rightarrow> db \<Rightarrow> (source_version \<times> db) result" where
  "fail_knowledge_source_version now source_id version_id run_id args d =
     result_bind (locked_sync_records d source_id version_id run_id) (\<lambda>(s, v, r).
       if jr_status r \<noteq> RUNNING_STATUS
       then publication_error (''Knowledge Source sync run is already '' @ jr_status r)
       else
         let completed_at = (case fl_finished_at args of None \<Rightarrow> now | Some f \<Rightarrow> f);
             v' = failed_version args completed_at v
         in Inr (v', put_run (failed_run args completed_at v r) (put_version v' d)))"

section \<open>Lemmas on the records\<close>

lemma locked_ok:
  assumes "locked_sync_records d sid vid rid = Inr (s, v, r)"
  shows "s \<in> set (sources d) \<and> v \<in> set (versions d) \<and> r \<in> set (job_runs d) \<and> ks_id s = sid \<and> kv_id v = vid
    \<and> jr_id r = rid \<and> kv_source_id v = sid \<and> jr_source_id r = Some sid \<and> jr_version_id r = Some vid"
  using assms find_row_Some [of "\<lambda>s. ks_id s = sid" "sources d"] find_row_Some [of "\<lambda>v. kv_id v = vid" "versions d"]
    find_row_Some [of "\<lambda>r. jr_id r = rid" "job_runs d"]
  by (auto simp: locked_sync_records_def publication_error_def find_source_def find_version_def find_run_def
      split: option.splits if_splits)

lemma promote_parts:
  assumes "promote_knowledge_source_version now sid vid rid args d = Inr (v', d')"
  obtains s v r c where "locked_sync_records d sid vid rid = Inr (s, v, r)" "kv_status v \<in> {''pending'', ''running''}"
    "jr_status r = RUNNING_STATUS" "v' = promoted_version args c v"
    "d' = put_run (promoted_run args c v r) (put_source (s\<lparr>ks_current_version := Some (kv_id v)\<rparr>) (put_version v' d))"
  using assms
  by (auto simp: promote_knowledge_source_version_def result_bind_Inr_iff publication_error_def Let_def split: if_splits)

lemma fail_parts:
  assumes "fail_knowledge_source_version now sid vid rid args d = Inr (v', d')"
  obtains s v r c where "locked_sync_records d sid vid rid = Inr (s, v, r)"
    "jr_status r = RUNNING_STATUS" "v' = failed_version args c v"
    "d' = put_run (failed_run args c v r) (put_version v' d)"
  using assms
  by (auto simp: fail_knowledge_source_version_def result_bind_Inr_iff publication_error_def Let_def split: if_splits)

lemma put_frames [simp]:
  "versions (put_source s d) = versions d" "job_runs (put_source s d) = job_runs d"
  "sources (put_version v d) = sources d" "job_runs (put_version v d) = job_runs d"
  "sources (put_run r d) = sources d" "versions (put_run r d) = versions d"
  "next_uuid (put_source s d) = next_uuid d" "next_uuid (put_version v d) = next_uuid d" "next_uuid (put_run r d) = next_uuid d"
  by (simp_all add: put_source_def put_version_def put_run_def)

lemma promoted_version_fields [simp]:
  "kv_id (promoted_version args c v) = kv_id v" "kv_source_id (promoted_version args c v) = kv_source_id v"
  "kv_status (promoted_version args c v) = ''succeeded''"
  by (simp_all add: promoted_version_def)

lemma failed_version_fields [simp]:
  "kv_id (failed_version args c v) = kv_id v" "kv_source_id (failed_version args c v) = kv_source_id v"
  "kv_status (failed_version args c v) = ''failed''"
  by (simp_all add: failed_version_def)

lemma ended_run_fields [simp]:
  "jr_id (ended_run st c r) = jr_id r" "jr_status (ended_run st c r) = st" "jr_version_id (ended_run st c r) = jr_version_id r"
  "jr_source_id (ended_run st c r) = jr_source_id r"
  by (simp_all add: ended_run_def)

lemma promoted_run_fields [simp]:
  "jr_id (promoted_run args c v r) = jr_id r" "jr_status (promoted_run args c v r) = ''succeeded''"
  "jr_version_id (promoted_run args c v r) = jr_version_id r"
  by (simp_all add: promoted_run_def)

lemma failed_run_fields [simp]:
  "jr_id (failed_run args c v r) = jr_id r" "jr_status (failed_run args c v r) = ''failed''"
  "jr_version_id (failed_run args c v r) = jr_version_id r"
  by (simp_all add: failed_run_def)

section \<open>Properties\<close>

definition map_store :: "(string \<times> string \<Rightarrow> string option) store_api" where
  "map_store = \<lparr>st_download = (\<lambda>bucket key m. Inr (m (bucket, key))),
     st_upload = (\<lambda>bucket key c m. (Inr (), m((bucket, key) \<mapsto> c)))\<rparr>"

lemma stored_map [simp]: "stored map_store b k m = m (b, k)"
  by (simp add: stored_def map_store_def split: option.split)

lemma map_store_laws: "store_laws map_store"
  by (simp add: store_laws_def writes_object_def) (simp add: map_store_def)

definition demo_manifest :: pydict where
  "demo_manifest =
     [(''schema_version'', PInt 1),
      (''source'', PDict [(''id'', PStr ''i''), (''commit_sha'', PStr (replicate 40 (CHR ''a'')))]),
      (''graphify'', PDict [(''extraction_config_hash'', PStr ''h'')]),
      (''artifacts'', PDict
        [(''graph'', PDict [(''file'', PStr ''graph.json''), (''sha256'', PStr ''g''), (''size_bytes'', PInt 1)]),
         (''source'', PDict [(''file'', PStr ''source.tar.zst''), (''sha256'', PStr ''s''), (''size_bytes'', PInt 1),
            (''expanded_size_bytes'', PInt 0), (''file_count'', PInt 0)]),
         (''report'', PDict [(''file'', PStr ''graph-report.md''), (''sha256'', PStr ''r''), (''size_bytes'', PInt 1)]),
         (''extraction_log'', PDict [(''file'', PStr ''extraction.log''), (''sha256'', PStr ''l''), (''size_bytes'', PInt 1)])])]"

definition demo_tools :: bundle_tools where
  "demo_tools = \<lparr>bt_json = (\<lambda>_. Some (PDict demo_manifest)), bt_sha = (\<lambda>c. c), bt_reader = (\<lambda>_. Inr [])\<rparr>"

definition demo_bundle :: kbundle where
  "demo_bundle = \<lparr>bn_files = [(''graph.json'', ''g''), (''source.tar.zst'', ''s''), (''graph-report.md'', ''r''),
       (''extraction.log'', ''l''), (''manifest.json'', ''m'')],
     bn_artifact_paths = [(''graph'', ''graph.json''), (''source'', ''source.tar.zst''), (''report'', ''graph-report.md''),
       (''extraction_log'', ''extraction.log''), (''manifest'', ''manifest.json'')],
     bn_file_count = 0, bn_node_count = 0, bn_edge_count = 0\<rparr>"

lemma demo_verified: "verify_knowledge_source_bundle demo_tools 10 (bn_files demo_bundle) = Inr demo_manifest"
  by code_simp

lemma demo_prefix: "object_prefix demo_manifest = Inr (''knowledge-sources/i/'' @ replicate 40 (CHR ''a'') @ ''/h'')"
  by code_simp

lemma demo_artifacts:
  "artifact_file demo_bundle ''graph'' = Inr (''graph.json'', ''g'')"
  "artifact_file demo_bundle ''source'' = Inr (''source.tar.zst'', ''s'')"
  "artifact_file demo_bundle ''report'' = Inr (''graph-report.md'', ''r'')"
  "artifact_file demo_bundle ''extraction_log'' = Inr (''extraction.log'', ''l'')"
  "artifact_file demo_bundle ''manifest'' = Inr (''manifest.json'', ''m'')"
  by (simp_all add: artifact_file_def demo_bundle_def)

lemma demo_published:
  "\<exists>pub m. publish_knowledge_source_bundle map_store demo_tools 10 demo_bundle '' b '' Map.empty = (Inr pub, m)"
  by (simp add: publish_knowledge_source_bundle_def demo_verified demo_prefix ARTIFACT_ORDER_def demo_artifacts
      put_artifact_def confirm_object_def require_matching_object_def matching_def map_store_def Let_def
      strip_def lstrip_def rstrip_def is_space_def)

text \<open>
  C13. Published objects are immutable.  Whatever publishing a bundle does, and even when it raises half
  way, every object that was in the store before is still there with the same content.
\<close>

theorem publication_never_overwrites:
  assumes "store_laws api" and "publish_knowledge_source_bundle api tools max_bytes b setting s = (res, s')"
    and "stored api bk k s = Some c"
  shows "stored api bk k s' = Some c"
  using assms(2,3) publish_artifacts_keeps [OF assms(1)]
  by (auto simp: publish_knowledge_source_bundle_def Let_def split: if_splits sum.splits)

lemma publication_never_overwrites_witness:
  "stored map_store ''b'' ''other''
     (snd (publish_knowledge_source_bundle map_store demo_tools 10 demo_bundle '' b '' [(''b'', ''other'') \<mapsto> ''x'']))
   = Some ''x''"
  by (rule publication_never_overwrites [OF map_store_laws prod.collapse [symmetric]]) simp

text \<open>
  Publication is complete and repeatable.  When it returns, each of the five artifacts is in the
  store under the identity of the bundle with the size and the digest of the local file, and publishing
  the bundle again gives the same record and leaves the store as it is.
\<close>

theorem publication_repeatable:
  assumes "store_laws api" and "publish_knowledge_source_bundle api tools max_bytes b setting s = (Inr pub, s')"
  shows "(\<exists>prefix. \<forall>name \<in> set ARTIFACT_ORDER. published_at api (bt_sha tools) (strip setting) prefix b s' name)
    \<and> publish_knowledge_source_bundle api tools max_bytes b setting s' = (Inr pub, s')"
  using assms(2)
proof (rule publish_parts)
  let ?start = "\<lparr>pb_bucket = strip setting, pb_keys = [], pb_checksums = []\<rparr>"
  fix prefix
  assume verified: "strip setting \<noteq> []"
      "result_bind (verify_knowledge_source_bundle tools max_bytes (bn_files b)) object_prefix = Inr prefix"
    and run: "publish_artifacts api (bt_sha tools) (strip setting) prefix b ARTIFACT_ORDER ?start s = (Inr pub, s')"
  have all: "\<forall>name \<in> set ARTIFACT_ORDER. published_at api (bt_sha tools) (strip setting) prefix b s' name"
    using publish_artifacts_ok [OF assms(1) run] by blast
  moreover have "publish_knowledge_source_bundle api tools max_bytes b setting s' = (Inr pub, s')"
    unfolding publish_knowledge_source_bundle_def Let_def verified(2)
    using verified(1) publish_artifacts_again [OF all run] by simp
  ultimately show ?thesis by blast
qed

lemma publication_repeatable_witness:
  "\<exists>pub m. publish_knowledge_source_bundle map_store demo_tools 10 demo_bundle '' b '' m = (Inr pub, m)"
proof -
  obtain pub m where "publish_knowledge_source_bundle map_store demo_tools 10 demo_bundle '' b '' Map.empty = (Inr pub, m)"
    using demo_published by blast
  from publication_repeatable [OF map_store_laws this] show ?thesis by blast
qed

end
