(* ===== verification/Knowledge_Sync.thy ===== *)
theory Knowledge_Sync
  imports Knowledge_Publication Knowledge_Grants Embeddings "HOL-Library.List_Lexorder" "HOL-Library.Char_ord"
begin

text \<open>
  The synchronization worker of \<open>shared/lib/knowledge_source_indexer.py\<close>: the transactions of a run
  under the advisory lock of its source, the code-graph run and the hybrid run they make up, and the
  relation of all workers' transactions in any order.  Git, Graphify, the page crawler and the clock are
  parameters.
\<close>

section \<open>Canonical hashes\<close>

text \<open>\<open>json.dumps(v, sort_keys=True, separators=(",", ":"))\<close>.\<close>

fun canonical_json :: "pyval \<Rightarrow> string" and canonical_items :: "(string \<times> pyval) list \<Rightarrow> (string \<times> string) list"
  and canonical_list :: "pyval list \<Rightarrow> string list" where
  "canonical_json (PList vs) = ''['' @ join '','' (canonical_list vs) @ '']''"
| "canonical_json (PDict d) =
     ''{'' @ join '','' (map (\<lambda>(k, t). json_string k @ '':'' @ t) (sort_key fst (canonical_items d))) @ ''}''"
| "canonical_json v = json_dumps v"
| "canonical_items [] = []"
| "canonical_items ((k, v) # d) = (k, canonical_json v) # canonical_items d"
| "canonical_list [] = []"
| "canonical_list (v # vs) = canonical_json v # canonical_list vs"

definition stable_hash :: "(string \<Rightarrow> string) \<Rightarrow> pyval \<Rightarrow> string" where
  "stable_hash sha v = sha (canonical_json v)"

definition GRAPHIFY_VERSION :: string where
  "GRAPHIFY_VERSION = ''0.9.56''"

definition extraction_config_hash :: "(string \<Rightarrow> string) \<Rightarrow> knowledge_source \<Rightarrow> string" where
  "extraction_config_hash sha s =
     sha (canonical_json (PDict
       [(''schema_version'', PInt 2), (''graphify_version'', PStr GRAPHIFY_VERSION),
        (''include_paths'', PList (ks_include_paths s)), (''exclude_paths'', PList (ks_exclude_paths s))]))"

definition hybrid_source_config_hash :: "(string \<Rightarrow> string) \<Rightarrow> knowledge_source \<Rightarrow> string" where
  "hybrid_source_config_hash sha s =
     stable_hash sha (PDict
       [(''source_kind'', PStr (ks_source_kind s)), (''index_kind'', PStr (ks_index_kind s)),
        (''source_config'', PDict (ks_source_config s)), (''credential_ref'', opt_str (ks_credential_ref s))])"

section \<open>Configuration and repository checks\<close>

definition sync_error :: "string \<Rightarrow> 'a result" where
  "sync_error msg = Inl (Runtime_error msg)"

record indexer_config =
  ic_bucket :: string
  ic_graphify_binary :: string
  ic_graphify_timeout :: int

definition validate_config :: "indexer_config \<Rightarrow> unit result" where
  "validate_config c =
     (if ic_bucket c = [] then sync_error ''KNOWLEDGE_SOURCE_OBJECT_STORE_BUCKET must be configured''
      else if ic_graphify_binary c = [] then sync_error ''KNOWLEDGE_SOURCE_GRAPHIFY_BINARY must be configured''
      else if ic_graphify_timeout c \<le> 0 then sync_error ''Knowledge Source Graphify timeout must be positive''
      else Inr ())"

definition validated_repository_url :: "(string \<Rightarrow> url_parts) \<Rightarrow> knowledge_source \<Rightarrow> string result" where
  "validated_repository_url urlparse s =
     (case ks_repository_url s of
        None \<Rightarrow> Inl Attribute_error
      | Some raw \<Rightarrow>
          (let v = strip raw; parsed = urlparse v
           in if up_scheme parsed \<noteq> ''https'' \<or> \<not> truthy_text (up_hostname parsed) \<or> truthy_text (up_username parsed)
                 \<or> truthy_text (up_password parsed) \<or> up_query parsed \<noteq> [] \<or> up_fragment parsed \<noteq> []
              then sync_error ''Knowledge Source repository_url must be credential-free HTTPS''
              else Inr v))"

definition validated_git_ref :: "knowledge_source \<Rightarrow> string result" where
  "validated_git_ref s =
     (case ks_default_ref s of
        None \<Rightarrow> Inl Attribute_error
      | Some raw \<Rightarrow>
          (let ref = strip raw
           in if \<not> alias_ok ref \<or> occurs_in ''..'' ref \<or> occurs_in ''//'' ref \<or> last ref \<in> {CHR ''/'', CHR ''.''}
                 \<or> occurs_in ''/.'' ref
              then sync_error ''Knowledge Source default_ref has invalid Git ref syntax''
              else Inr ref))"

definition commit_ok :: "string \<Rightarrow> bool" where
  "commit_ok c \<longleftrightarrow> length c = 40 \<and> (\<forall>x \<in> set c. x \<in> set ''0123456789abcdef'')"

text \<open>\<open>git\<close> fetches the ref and gives the commit; \<open>copy_scope\<close> copies the configured files.\<close>

definition prepare_repository_snapshot ::
    "(string \<Rightarrow> url_parts) \<Rightarrow> (string \<Rightarrow> string \<Rightarrow> string result) \<Rightarrow> (string \<Rightarrow> unit result) \<Rightarrow> knowledge_source \<Rightarrow> string result" where
  "prepare_repository_snapshot urlparse git copy_scope s =
     result_bind (validated_repository_url urlparse s) (\<lambda>url.
     result_bind (validated_git_ref s) (\<lambda>ref.
     result_bind (git url ref) (\<lambda>commit.
       if \<not> commit_ok commit then sync_error ''git did not resolve the Knowledge Source ref to a commit SHA''
       else result_map (\<lambda>_. commit) (copy_scope commit))))"

section \<open>The text of an error\<close>

text \<open>
  \<open>str(exc)[-4000:] or exc.__class__.__name__\<close>; the subclasses of one built-in error share its
  constructor, so the name that stands for an empty message is that of the built-in class.
\<close>

fun error_text :: "py_error \<Rightarrow> string" where
  "error_text (Value_error m) = (if m = [] then ''ValueError'' else m)"
| "error_text Type_error = ''TypeError''"
| "error_text (Key_error k) = str_repr k"
| "error_text Attribute_error = ''AttributeError''"
| "error_text (Os_error m) = (if m = [] then ''OSError'' else m)"
| "error_text Assertion_error = ''AssertionError''"
| "error_text (Permission_error m) = (if m = [] then ''PermissionError'' else m)"
| "error_text (Runtime_error m) = (if m = [] then ''RuntimeError'' else m)"
| "error_text (Sql_error m) = (if m = [] then ''SQLAlchemyError'' else m)"
| "error_text (Http_error n m) = (if m = [] then ''HTTPError'' else m)"

definition failure_text :: "py_error \<Rightarrow> string" where
  "failure_text e = take_last 4000 (error_text e)"

section \<open>Opening a run\<close>

definition SYNC_JOB_TYPE :: string where
  "SYNC_JOB_TYPE = ''knowledge_source_sync''"

definition SUPPORTED_TRIGGERS :: "string list" where
  "SUPPORTED_TRIGGERS = [''scheduled'', ''manual'', ''retry'']"

definition failed_finish :: "pydict \<Rightarrow> string \<Rightarrow> finish_args" where
  "failed_finish summary error =
     \<lparr>fa_status = ''failed'', fa_summary = Some summary, fa_warnings = None, fa_error = Some error,
      fa_version_id = None, fa_finished_at = None\<rparr>"

text \<open>Finishing a run and raising: the error of the finish, when it raises, replaces the other.\<close>

definition finish_and_raise :: "datetime \<Rightarrow> uuid \<Rightarrow> finish_args \<Rightarrow> string \<Rightarrow> db \<Rightarrow> 'a result \<times> db" where
  "finish_and_raise now run_id args msg d =
     (case finish_background_job now run_id args d of
        Inl e \<Rightarrow> (Inl e, d)
      | Inr (_, d') \<Rightarrow> (sync_error msg, d'))"

definition claim_mismatch :: string where
  "claim_mismatch = ''Queued Knowledge Source request does not match worker claim''"

definition open_run :: "datetime \<Rightarrow> uuid \<Rightarrow> string \<Rightarrow> uuid option \<Rightarrow> db \<Rightarrow> job_run result \<times> db" where
  "open_run now source_id trigger queued d =
     (case queued of
        Some q \<Rightarrow>
          (case claim_background_job now q d of
             Inl e \<Rightarrow> (Inl e, d)
           | Inr (run, d1) \<Rightarrow>
               (if jr_job_type run \<noteq> SYNC_JOB_TYPE \<or> jr_source_id run \<noteq> Some source_id \<or> jr_trigger run \<noteq> Some trigger
                then finish_and_raise now (jr_id run) (failed_finish [(''failure_phase'', PStr ''claim'')] claim_mismatch) claim_mismatch d1
                else (Inr run, d1)))
      | None \<Rightarrow>
          (case find_source d source_id of
             None \<Rightarrow> (sync_error (''Knowledge Source '' @ uuid_str source_id @ '' does not exist''), d)
           | Some s \<Rightarrow>
               (case start_background_job now
                   \<lparr>ja_job_type = SYNC_JOB_TYPE, ja_scope = Some (ks_canonical_alias s), ja_trigger = Some trigger,
                    ja_source_id = Some (ks_id s), ja_version_id = None, ja_summary = Some [(''phase'', PStr ''resolve_ref'')]\<rparr> None d of
                  Inl e \<Rightarrow> (Inl e, d)
                | Inr (run, d1) \<Rightarrow> (Inr run, d1))))"

definition unavailable_text :: "knowledge_source option \<Rightarrow> uuid \<Rightarrow> string" where
  "unavailable_text s source_id =
     ''Knowledge Source '' @ str_repr (case s of Some k \<Rightarrow> ks_canonical_alias k | None \<Rightarrow> uuid_str source_id)
       @ '' is unavailable or disabled''"

text \<open>The run opens, then the source as it was read before the claim decides whether it goes on.\<close>

definition open_enabled :: "datetime \<Rightarrow> uuid \<Rightarrow> string \<Rightarrow> uuid option \<Rightarrow> db \<Rightarrow> (knowledge_source \<times> job_run) result \<times> db" where
  "open_enabled now source_id trigger queued d =
     (case open_run now source_id trigger queued d of
        (Inl e, d1) \<Rightarrow> (Inl e, d1)
      | (Inr run, d1) \<Rightarrow>
          (let source = find_source d source_id; msg = unavailable_text source source_id
           in case source of
                None \<Rightarrow> finish_and_raise now (jr_id run) (failed_finish [(''failure_phase'', PStr ''claim'')] msg) msg d1
              | Some s \<Rightarrow>
                  (if \<not> ks_enabled s
                   then finish_and_raise now (jr_id run) (failed_finish [(''failure_phase'', PStr ''claim'')] msg) msg d1
                   else (Inr (s, run), d1))))"

section \<open>Transactions of a code-graph run\<close>

definition same_extraction :: "knowledge_source \<Rightarrow> string \<Rightarrow> string \<Rightarrow> source_version \<Rightarrow> bool" where
  "same_extraction s commit config_hash v \<longleftrightarrow>
     kv_source_id v = ks_id s \<and> kv_commit_sha v = Some commit \<and> kv_graphify_version v = Some GRAPHIFY_VERSION
     \<and> kv_extraction_config_hash v = Some config_hash"

definition existing_version :: "db \<Rightarrow> knowledge_source \<Rightarrow> string \<Rightarrow> string \<Rightarrow> source_version option" where
  "existing_version d s commit config_hash = find_row (same_extraction s commit config_hash) (versions d)"

definition set_current :: "uuid \<Rightarrow> uuid \<Rightarrow> db \<Rightarrow> db" where
  "set_current source_id version_id d =
     d\<lparr>sources := update_where (\<lambda>s. ks_id s = source_id) (\<lambda>s. s\<lparr>ks_current_version := Some version_id\<rparr>) (sources d)\<rparr>"

text \<open>The ORM writes the assigned columns of the run, whatever its row holds by then.\<close>

definition skipped_run :: "datetime \<Rightarrow> uuid \<Rightarrow> pydict \<Rightarrow> job_run \<Rightarrow> job_run" where
  "skipped_run completed_at version_id summary r =
     (ended_run ''skipped'' completed_at r)\<lparr>jr_version_id := Some version_id, jr_summary := summary\<rparr>"

definition skip_version :: "datetime \<Rightarrow> knowledge_source \<Rightarrow> uuid \<Rightarrow> uuid \<Rightarrow> string \<Rightarrow> pydict \<Rightarrow> db \<Rightarrow> db" where
  "skip_version completed_at s version_id run_id commit timings d =
     update_runs (\<lambda>r. jr_id r = run_id)
       (skipped_run completed_at version_id
          [(''commit_sha'', PStr commit), (''skip_reason'', PStr ''unchanged_commit_and_config''),
           (''phase_timings_sec'', PDict timings)])
       (set_current (ks_id s) version_id d)"

text \<open>A new row takes its revision, indexer version and configuration hash from the extraction columns.\<close>

definition new_version :: "uuid \<Rightarrow> knowledge_source \<Rightarrow> string \<Rightarrow> string \<Rightarrow> datetime \<Rightarrow> source_version" where
  "new_version i s commit config_hash now =
     \<lparr>kv_id = i, kv_source_id = ks_id s, kv_source_revision = Some commit, kv_index_kind = ''code_graph'',
      kv_indexer_version = Some GRAPHIFY_VERSION, kv_index_config_hash = Some config_hash, kv_stats = [],
      kv_commit_sha = Some commit, kv_status = ''running'', kv_graphify_version = Some GRAPHIFY_VERSION,
      kv_extraction_config_hash = Some config_hash, kv_artifact_keys = [], kv_artifact_checksums = [],
      kv_file_count = 0, kv_node_count = 0, kv_edge_count = 0, kv_warnings = [], kv_error = None,
      kv_started_at = Some now, kv_finished_at = None, kv_created_at = now\<rparr>"

definition restarted :: "datetime \<Rightarrow> source_version \<Rightarrow> source_version" where
  "restarted now v = v\<lparr>kv_status := ''running'', kv_started_at := Some now, kv_finished_at := None, kv_error := None\<rparr>"

definition own_version :: "uuid \<Rightarrow> uuid \<Rightarrow> db \<Rightarrow> db" where
  "own_version run_id version_id d = update_runs (\<lambda>r. jr_id r = run_id) (\<lambda>r. r\<lparr>jr_version_id := Some version_id\<rparr>) d"

definition begin_version :: "datetime \<Rightarrow> knowledge_source \<Rightarrow> source_version option \<Rightarrow> uuid \<Rightarrow> string \<Rightarrow> string \<Rightarrow> db \<Rightarrow> uuid \<times> db" where
  "begin_version now s existing run_id commit config_hash d =
     (case existing of
        Some v \<Rightarrow> (kv_id v, own_version run_id (kv_id v) (put_version (restarted now v) d))
      | None \<Rightarrow>
          (let i = next_uuid d
           in (i, own_version run_id i
                (d\<lparr>versions := insert_row (new_version i s commit config_hash now) (versions d), next_uuid := Suc i\<rparr>))))"

text \<open>The columns assigned just before promotion; its first query flushes them.\<close>

definition attach_index :: "string \<Rightarrow> string \<Rightarrow> kbundle \<Rightarrow> source_version \<Rightarrow> source_version" where
  "attach_index commit config_hash b v =
     v\<lparr>kv_source_revision := Some commit, kv_indexer_version := Some GRAPHIFY_VERSION,
       kv_index_config_hash := Some config_hash, kv_index_kind := ''code_graph'',
       kv_stats := [(''file_count'', PInt (bn_file_count b)), (''node_count'', PInt (bn_node_count b)),
         (''edge_count'', PInt (bn_edge_count b))]\<rparr>"

definition attach_version :: "uuid \<Rightarrow> string \<Rightarrow> string \<Rightarrow> kbundle \<Rightarrow> db \<Rightarrow> db" where
  "attach_version version_id commit config_hash b d =
     d\<lparr>versions := update_where (\<lambda>v. kv_id v = version_id) (attach_index commit config_hash b) (versions d)\<rparr>"

section \<open>The code-graph run\<close>

record sync_result =
  sy_status :: string
  sy_source_id :: uuid
  sy_version_id :: uuid
  sy_run_id :: uuid
  sy_revision :: string

text \<open>
  What the local variables of the run hold.  \<open>cx_db\<close> is the session's view, \<open>cx_committed\<close> what the last
  commit left; they differ only between the assignments before promotion and its commit.
\<close>

record 's sync_ctx =
  cx_db :: db
  cx_committed :: db
  cx_store :: 's
  cx_phase :: string
  cx_timings :: pydict
  cx_commit :: string
  cx_version :: "uuid option"

datatype 's sync_flow =
    Go "'s sync_ctx"
  | Done sync_result "'s sync_ctx"
  | Raised py_error "'s sync_ctx"

fun and_then :: "'s sync_flow \<Rightarrow> ('s sync_ctx \<Rightarrow> 's sync_flow) \<Rightarrow> 's sync_flow" where
  "and_then (Go cx) f = f cx"
| "and_then (Done r cx) f = Done r cx"
| "and_then (Raised e cx) f = Raised e cx"

definition commit_db :: "db \<Rightarrow> 's sync_ctx \<Rightarrow> 's sync_ctx" where
  "commit_db d cx = cx\<lparr>cx_db := d, cx_committed := d\<rparr>"

record 's sync_tools =
  sn_urlparse :: "string \<Rightarrow> url_parts"
  sn_git :: "string \<Rightarrow> string \<Rightarrow> string result"
  sn_copy_scope :: "string \<Rightarrow> unit result"
  sn_extract :: "string \<Rightarrow> unit result"
  sn_bundle :: "string \<Rightarrow> string \<Rightarrow> kbundle result"
  sn_bundle_tools :: bundle_tools
  sn_max_bytes :: nat
  sn_store :: "'s store_api"
  sn_now :: "nat \<Rightarrow> datetime"
  sn_elapsed :: "string \<Rightarrow> rat"

definition time_phase :: "'s sync_tools \<Rightarrow> 's sync_ctx \<Rightarrow> 's sync_ctx" where
  "time_phase tools cx = cx\<lparr>cx_timings := dict_set (cx_phase cx) (PFloat (sn_elapsed tools (cx_phase cx))) (cx_timings cx)\<rparr>"

definition resolve_phase :: "'s sync_tools \<Rightarrow> indexer_config \<Rightarrow> knowledge_source \<Rightarrow> 's sync_ctx \<Rightarrow> 's sync_flow" where
  "resolve_phase tools c s cx =
     (if (ks_source_kind s, ks_index_kind s) \<noteq> (''github'', ''code_graph'')
      then Raised (Runtime_error ''Unsupported Knowledge Source source/index pair'') cx
      else case result_bind (validate_config c)
          (\<lambda>_. prepare_repository_snapshot (sn_urlparse tools) (sn_git tools) (sn_copy_scope tools) s) of
        Inl e \<Rightarrow> Raised e cx
      | Inr commit \<Rightarrow> Go (time_phase tools (cx\<lparr>cx_commit := commit\<rparr>)))"

definition version_phase :: "'s sync_tools \<Rightarrow> knowledge_source \<Rightarrow> uuid \<Rightarrow> string \<Rightarrow> 's sync_ctx \<Rightarrow> 's sync_flow" where
  "version_phase tools s run_id config_hash cx =
     (let existing = existing_version (cx_db cx) s (cx_commit cx) config_hash in
      case existing of
        Some v \<Rightarrow>
          (if kv_status v = ''succeeded''
           then Done \<lparr>sy_status = ''skipped'', sy_source_id = ks_id s, sy_version_id = kv_id v, sy_run_id = run_id,
                      sy_revision = cx_commit cx\<rparr>
                  (commit_db (skip_version (sn_now tools 1) s (kv_id v) run_id (cx_commit cx) (cx_timings cx) (cx_db cx)) cx)
           else let (i, d) = begin_version (sn_now tools 1) s existing run_id (cx_commit cx) config_hash (cx_db cx)
                in Go (commit_db d (cx\<lparr>cx_version := Some i\<rparr>)))
      | None \<Rightarrow>
          (let (i, d) = begin_version (sn_now tools 1) s existing run_id (cx_commit cx) config_hash (cx_db cx)
           in Go (commit_db d (cx\<lparr>cx_version := Some i\<rparr>))))"

definition enter_phase :: "'s sync_tools \<Rightarrow> nat \<Rightarrow> string \<Rightarrow> uuid \<Rightarrow> 's sync_ctx \<Rightarrow> 's sync_flow" where
  "enter_phase tools n phase run_id cx0 =
     (let cx = cx0\<lparr>cx_phase := phase\<rparr> in
      case heartbeat_background_job (sn_now tools n) run_id
          (Some [(''phase'', PStr phase), (''commit_sha'', PStr (cx_commit cx)), (''phase_timings_sec'', PDict (cx_timings cx))]) (cx_db cx) of
        Inl e \<Rightarrow> Raised e cx
      | Inr d \<Rightarrow> Go (commit_db d cx))"

definition extract_phase :: "'s sync_tools \<Rightarrow> 's sync_ctx \<Rightarrow> 's sync_flow" where
  "extract_phase tools cx =
     (case sn_extract tools (cx_commit cx) of Inl e \<Rightarrow> Raised e cx | Inr _ \<Rightarrow> Go (time_phase tools cx))"

definition publish_phase ::
    "'s sync_tools \<Rightarrow> indexer_config \<Rightarrow> knowledge_source \<Rightarrow> uuid \<Rightarrow> string \<Rightarrow> kbundle \<Rightarrow> 's sync_ctx \<Rightarrow> 's sync_flow" where
  "publish_phase tools c s run_id config_hash b cx =
     (case publish_knowledge_source_bundle (sn_store tools) (sn_bundle_tools tools) (sn_max_bytes tools) b (ic_bucket c) (cx_store cx) of
        (Inl e, st) \<Rightarrow> Raised e (cx\<lparr>cx_store := st\<rparr>)
      | (Inr pub, st) \<Rightarrow>
          (let cx1 = time_phase tools (cx\<lparr>cx_store := st\<rparr>);
               i = the (cx_version cx1);
               d = attach_version i (cx_commit cx1) config_hash b (cx_db cx1)
           in case promote_knowledge_source_version (sn_now tools 5) (ks_id s) i run_id
                \<lparr>pa_publication = pub, pa_file_count = bn_file_count b, pa_node_count = bn_node_count b,
                 pa_edge_count = bn_edge_count b, pa_timings = cx_timings cx1, pa_warnings = None, pa_finished_at = None\<rparr> d of
              Inl e \<Rightarrow> Raised e (cx1\<lparr>cx_db := d\<rparr>)
            | Inr (_, d') \<Rightarrow>
                Done \<lparr>sy_status = ''succeeded'', sy_source_id = ks_id s, sy_version_id = i, sy_run_id = run_id,
                      sy_revision = cx_commit cx1\<rparr> (commit_db d' cx1)))"

definition bundle_phase ::
    "'s sync_tools \<Rightarrow> indexer_config \<Rightarrow> knowledge_source \<Rightarrow> uuid \<Rightarrow> string \<Rightarrow> 's sync_ctx \<Rightarrow> 's sync_flow" where
  "bundle_phase tools c s run_id config_hash cx =
     (case sn_bundle tools (cx_commit cx) config_hash of
        Inl e \<Rightarrow> Raised e cx
      | Inr b \<Rightarrow>
          and_then (enter_phase tools 4 ''publish'' run_id (time_phase tools cx)) (publish_phase tools c s run_id config_hash b))"

definition code_graph_body :: "'s sync_tools \<Rightarrow> indexer_config \<Rightarrow> knowledge_source \<Rightarrow> uuid \<Rightarrow> 's sync_ctx \<Rightarrow> 's sync_flow" where
  "code_graph_body tools c s run_id cx0 =
     (let config_hash = extraction_config_hash (bt_sha (sn_bundle_tools tools)) s in
      and_then (and_then (and_then (and_then (and_then
        (resolve_phase tools c s cx0)
        (version_phase tools s run_id config_hash))
        (enter_phase tools 2 ''extract'' run_id))
        (extract_phase tools))
        (enter_phase tools 3 ''bundle'' run_id))
        (bundle_phase tools c s run_id config_hash))"

text \<open>
  The handler of the run: it fails the run, with its version once there is one, and raises.  A handler that
  raises itself leaves the last commit.
\<close>

definition handle_failure ::
    "'s sync_tools \<Rightarrow> knowledge_source \<Rightarrow> uuid \<Rightarrow> py_error \<Rightarrow> 's sync_ctx \<Rightarrow> sync_result result \<times> db \<times> 's" where
  "handle_failure tools s run_id e cx0 =
     (let cx = time_phase tools cx0;
          error = failure_text e;
          msg = ''Knowledge Source '' @ str_repr (ks_canonical_alias s) @ '' failed during '' @ cx_phase cx @ '': '' @ error
      in case cx_version cx of
           None \<Rightarrow>
             (case finish_background_job (sn_now tools 6) run_id
                (failed_finish [(''commit_sha'', PStr (cx_commit cx)), (''failure_phase'', PStr (cx_phase cx)),
                   (''phase_timings_sec'', PDict (cx_timings cx))] error) (cx_db cx) of
                Inl e' \<Rightarrow> (Inl e', cx_committed cx, cx_store cx)
              | Inr (_, d) \<Rightarrow> (sync_error msg, d, cx_store cx))
         | Some i \<Rightarrow>
             (case fail_knowledge_source_version (sn_now tools 6) (ks_id s) i run_id
                \<lparr>fl_phase = cx_phase cx, fl_error = error, fl_timings = cx_timings cx, fl_warnings = None, fl_finished_at = None\<rparr>
                (cx_db cx) of
                Inl e' \<Rightarrow> (Inl e', cx_committed cx, cx_store cx)
              | Inr (_, d) \<Rightarrow> (sync_error msg, d, cx_store cx)))"

definition run_code_graph_sync ::
    "'s sync_tools \<Rightarrow> indexer_config \<Rightarrow> knowledge_source \<Rightarrow> uuid \<Rightarrow> db \<Rightarrow> 's \<Rightarrow> sync_result result \<times> db \<times> 's" where
  "run_code_graph_sync tools c s run_id d st =
     (case code_graph_body tools c s run_id
         \<lparr>cx_db = d, cx_committed = d, cx_store = st, cx_phase = ''resolve_ref'', cx_timings = [], cx_commit = [],
          cx_version = None\<rparr> of
        Done r cx \<Rightarrow> (Inr r, cx_db cx, cx_store cx)
      | Raised e cx \<Rightarrow> handle_failure tools s run_id e cx
      | Go cx \<Rightarrow> (Inl Assertion_error, cx_db cx, cx_store cx))"

section \<open>Transactions of a hybrid run\<close>

definition INDEXER_VERSION :: string where
  "INDEXER_VERSION = ''confluence-hybrid-1''"

definition pending_version :: "uuid \<Rightarrow> uuid \<Rightarrow> string \<Rightarrow> datetime \<Rightarrow> source_version" where
  "pending_version i source_id config_hash now =
     \<lparr>kv_id = i, kv_source_id = source_id, kv_source_revision = Some (''pending:'' @ uuid_str i),
      kv_index_kind = ''hybrid_vector'', kv_indexer_version = Some INDEXER_VERSION, kv_index_config_hash = Some config_hash,
      kv_stats = [], kv_commit_sha = None, kv_status = ''pending'', kv_graphify_version = None,
      kv_extraction_config_hash = None, kv_artifact_keys = [], kv_artifact_checksums = [], kv_file_count = 0,
      kv_node_count = 0, kv_edge_count = 0, kv_warnings = [], kv_error = None, kv_started_at = Some now,
      kv_finished_at = None, kv_created_at = now\<rparr>"

definition hybrid_begin :: "datetime \<Rightarrow> uuid \<Rightarrow> uuid \<Rightarrow> string \<Rightarrow> db \<Rightarrow> uuid \<times> db" where
  "hybrid_begin now source_id run_id config_hash d =
     (let i = next_uuid d
      in (i, update_runs (\<lambda>r. jr_id r = run_id)
               (\<lambda>r. r\<lparr>jr_version_id := Some i, jr_summary := [(''phase'', PStr ''build'')]\<rparr>)
               (d\<lparr>versions := insert_row (pending_version i source_id config_hash now) (versions d), next_uuid := Suc i\<rparr>)))"

record hybrid_build =
  hb_revision :: string
  hb_config_hash :: string
  hb_stats :: pydict
  hb_warnings :: "string list"

definition built_version :: "datetime \<Rightarrow> hybrid_build \<Rightarrow> source_version \<Rightarrow> source_version" where
  "built_version now b v =
     v\<lparr>kv_source_revision := Some (hb_revision b), kv_index_config_hash := Some (hb_config_hash b),
       kv_indexer_version := Some INDEXER_VERSION, kv_stats := hb_stats b, kv_warnings := hb_warnings b,
       kv_status := ''succeeded'', kv_error := None, kv_finished_at := Some now\<rparr>"

definition same_revision :: "uuid \<Rightarrow> uuid \<Rightarrow> hybrid_build \<Rightarrow> source_version \<Rightarrow> bool" where
  "same_revision source_id version_id b v \<longleftrightarrow>
     kv_source_id v = source_id \<and> kv_index_kind v = ''hybrid_vector'' \<and> kv_source_revision v = Some (hb_revision b)
     \<and> kv_index_config_hash v = Some (hb_config_hash b) \<and> kv_id v \<noteq> version_id"

definition drop_members :: "uuid \<Rightarrow> db \<Rightarrow> db" where
  "drop_members version_id d = d\<lparr>members := delete_where (\<lambda>m. vd_version_id m = version_id) (members d)\<rparr>"

definition move_members :: "uuid \<Rightarrow> uuid \<Rightarrow> db \<Rightarrow> db" where
  "move_members old new d =
     d\<lparr>members := update_where (\<lambda>m. vd_version_id m = old) (\<lambda>m. m\<lparr>vd_version_id := new\<rparr>) (members d)\<rparr>"

definition drop_version :: "uuid \<Rightarrow> db \<Rightarrow> db" where
  "drop_version i d = d\<lparr>versions := delete_where (\<lambda>v. kv_id v = i) (versions d)\<rparr>"

text \<open>The source is still the one the run started from.\<close>

definition unedited :: "(string \<Rightarrow> string) \<Rightarrow> datetime \<Rightarrow> string \<Rightarrow> knowledge_source \<Rightarrow> bool" where
  "unedited sha captured_at captured_hash s \<longleftrightarrow>
     ks_updated_at s = captured_at \<and> hybrid_source_config_hash sha s = captured_hash"

definition serve_version :: "uuid \<Rightarrow> uuid \<Rightarrow> db \<Rightarrow> db" where
  "serve_version source_id version_id d =
     d\<lparr>sources := update_where (\<lambda>s. ks_id s = source_id)
         (\<lambda>s. s\<lparr>ks_current_version := Some version_id, ks_serving_suspended_at := None,
                ks_serving_suspension_reason := None\<rparr>) (sources d)\<rparr>"

text \<open>The version that takes the result: an earlier one of the same revision, or the pending one.\<close>

definition place_build :: "datetime \<Rightarrow> uuid \<Rightarrow> uuid \<Rightarrow> uuid \<Rightarrow> hybrid_build \<Rightarrow> db \<Rightarrow> bool \<times> uuid \<times> db" where
  "place_build now source_id version_id run_id b d =
     (case find_row (same_revision source_id version_id b) (versions d) of
        None \<Rightarrow>
          (False, version_id,
           d\<lparr>versions := update_where (\<lambda>v. kv_id v = version_id) (built_version now b) (versions d)\<rparr>)
      | Some e \<Rightarrow>
          (let d1 = own_version run_id (kv_id e) d in
           if kv_status e = ''succeeded''
           then (True, kv_id e, drop_version version_id (drop_members version_id d1))
           else (False, kv_id e,
             put_version (built_version now b e)
               (drop_version version_id (move_members version_id (kv_id e) (drop_members (kv_id e) d1))))))"

definition hybrid_promote ::
    "(string \<Rightarrow> string) \<Rightarrow> datetime \<Rightarrow> datetime \<Rightarrow> string \<Rightarrow> uuid \<Rightarrow> uuid \<Rightarrow> uuid \<Rightarrow> hybrid_build \<Rightarrow> pydict \<Rightarrow> db
     \<Rightarrow> (sync_result \<times> db) result" where
  "hybrid_promote sha now captured_at captured_hash source_id version_id run_id b timings d =
     (case find_source d source_id of
        None \<Rightarrow> sync_error ''Knowledge Source was disabled or edited during synchronization''
      | Some s \<Rightarrow>
          (if \<not> ks_enabled s \<or> \<not> unedited sha captured_at captured_hash s
           then sync_error ''Knowledge Source was disabled or edited during synchronization''
           else
             let (skipped, i, d1) = place_build now source_id version_id run_id b d;
                 status = (if skipped then ''skipped'' else ''succeeded'');
                 summary = [(''source_revision'', PStr (hb_revision b)), (''stats'', PDict (hb_stats b)),
                   (''phase_timings_sec'', PDict timings)]
                   @ (if skipped then [(''skip_reason'', PStr ''unchanged_revision_and_config'')] else [])
             in result_map (\<lambda>(_, d2).
                  (\<lparr>sy_status = status, sy_source_id = source_id, sy_version_id = i, sy_run_id = run_id,
                    sy_revision = hb_revision b\<rparr>, d2))
                (finish_background_job now run_id
                  \<lparr>fa_status = status, fa_summary = Some summary, fa_warnings = Some (hb_warnings b), fa_error = None,
                   fa_version_id = Some i, fa_finished_at = None\<rparr> (serve_version source_id i d1))))"

text \<open>The handler: a security error of the crawler also suspends serving.\<close>

definition suspend_serving :: "(string \<Rightarrow> string) \<Rightarrow> datetime \<Rightarrow> datetime \<Rightarrow> string \<Rightarrow> bool \<Rightarrow> string \<Rightarrow> uuid \<Rightarrow> db \<Rightarrow> db" where
  "suspend_serving sha now captured_at captured_hash security error source_id d =
     d\<lparr>sources := update_where (\<lambda>s. security \<and> ks_id s = source_id \<and> unedited sha captured_at captured_hash s)
         (\<lambda>s. s\<lparr>ks_serving_suspended_at := Some now, ks_serving_suspension_reason := Some error\<rparr>) (sources d)\<rparr>"

definition failed_pending :: "datetime \<Rightarrow> string \<Rightarrow> source_version \<Rightarrow> source_version" where
  "failed_pending now error v = v\<lparr>kv_status := ''failed'', kv_finished_at := Some now, kv_error := Some error\<rparr>"

definition fail_pending :: "datetime \<Rightarrow> string \<Rightarrow> uuid option \<Rightarrow> db \<Rightarrow> db" where
  "fail_pending now error version_id d =
     (case version_id of
        None \<Rightarrow> d
      | Some i \<Rightarrow>
          (case find_version d i of
             None \<Rightarrow> d
           | Some _ \<Rightarrow>
               (drop_members i d)\<lparr>versions := update_where (\<lambda>v. kv_id v = i) (failed_pending now error) (versions d)\<rparr>))"

definition hybrid_fail ::
    "(string \<Rightarrow> string) \<Rightarrow> datetime \<Rightarrow> datetime \<Rightarrow> string \<Rightarrow> bool \<Rightarrow> string \<Rightarrow> uuid \<Rightarrow> uuid option \<Rightarrow> uuid
     \<Rightarrow> pydict \<Rightarrow> db \<Rightarrow> (job_run \<times> db) result" where
  "hybrid_fail sha now captured_at captured_hash security error source_id version_id run_id summary d =
     finish_background_job now run_id (failed_finish summary error)
       (fail_pending now error version_id (suspend_serving sha now captured_at captured_hash security error source_id d))"

end
