(* ===== verification/Sync_Invariant.thy ===== *)
theory Sync_Invariant
  imports Knowledge_Sync
begin

text \<open>
  The transactions of all synchronization workers as a step relation, the invariant of its reachable
  states, and the code-graph run as a sequence of its steps.
\<close>

section \<open>All workers\<close>

text \<open>
  The advisory locks are the second half of the state: the run of the worker that holds the lock of a
  source.  A step is one transaction of a lock holder, the death of one, a transaction of another
  component on the job table, or an edit of a source that leaves its serving pointer alone.
\<close>

record sync_sys =
  sq_db :: db
  sq_locks :: "uuid \<Rightarrow> uuid option"

inductive sync_step :: "sync_sys \<Rightarrow> sync_sys \<Rightarrow> bool" where
  open_ok: "L sid = None \<Longrightarrow> open_enabled now sid trigger queued d = (Inr (s, run), d') \<Longrightarrow>
    sync_step \<lparr>sq_db = d, sq_locks = L\<rparr> \<lparr>sq_db = d', sq_locks = L(sid \<mapsto> jr_id run)\<rparr>"
| open_refused: "L sid = None \<Longrightarrow> open_enabled now sid trigger queued d = (Inl e, d') \<Longrightarrow>
    sync_step \<lparr>sq_db = d, sq_locks = L\<rparr> \<lparr>sq_db = d', sq_locks = L\<rparr>"
| skip: "L (ks_id s) = Some rid \<Longrightarrow> existing_version d s commit config_hash = Some v \<Longrightarrow> kv_status v = ''succeeded'' \<Longrightarrow>
    sync_step \<lparr>sq_db = d, sq_locks = L\<rparr>
      \<lparr>sq_db = skip_version now s (kv_id v) rid commit timings d, sq_locks = L(ks_id s := None)\<rparr>"
| begin_new: "L (ks_id s) = Some rid \<Longrightarrow> existing = existing_version d s commit config_hash \<Longrightarrow>
    (\<forall>v. existing = Some v \<longrightarrow> kv_status v \<noteq> ''succeeded'') \<Longrightarrow>
    begin_version now s existing rid commit config_hash d = (i, d') \<Longrightarrow>
    sync_step \<lparr>sq_db = d, sq_locks = L\<rparr> \<lparr>sq_db = d', sq_locks = L\<rparr>"
| promote: "L sid = Some rid \<Longrightarrow>
    promote_knowledge_source_version now sid vid rid args (attach_version vid commit config_hash b d) = Inr (v, d') \<Longrightarrow>
    sync_step \<lparr>sq_db = d, sq_locks = L\<rparr> \<lparr>sq_db = d', sq_locks = L(sid := None)\<rparr>"
| fail: "L sid = Some rid \<Longrightarrow>
    fail_knowledge_source_version now sid vid rid fargs d0 = Inr (v, d') \<Longrightarrow>
    d0 = d \<or> d0 = attach_version vid commit config_hash b d \<Longrightarrow>
    sync_step \<lparr>sq_db = d, sq_locks = L\<rparr> \<lparr>sq_db = d', sq_locks = L(sid := None)\<rparr>"
| hybrid_begin: "L sid = Some rid \<Longrightarrow> hybrid_begin now sid rid config_hash d = (i, d') \<Longrightarrow>
    sync_step \<lparr>sq_db = d, sq_locks = L\<rparr> \<lparr>sq_db = d', sq_locks = L\<rparr>"
| hybrid_promote: "L sid = Some rid \<Longrightarrow> find_run d rid = Some r \<Longrightarrow> jr_version_id r = Some vid \<Longrightarrow>
    hybrid_promote sha now captured_at captured_hash sid vid rid build timings d = Inr (out, d') \<Longrightarrow>
    sync_step \<lparr>sq_db = d, sq_locks = L\<rparr> \<lparr>sq_db = d', sq_locks = L(sid := None)\<rparr>"
| hybrid_fail: "L sid = Some rid \<Longrightarrow> find_run d rid = Some r \<Longrightarrow> jr_version_id r = vid \<Longrightarrow>
    hybrid_fail sha now captured_at captured_hash security error sid vid rid summary d = Inr (out, d') \<Longrightarrow>
    sync_step \<lparr>sq_db = d, sq_locks = L\<rparr> \<lparr>sq_db = d', sq_locks = L(sid := None)\<rparr>"
| release: "sync_step \<lparr>sq_db = d, sq_locks = L\<rparr> \<lparr>sq_db = d, sq_locks = L(sid := None)\<rparr>"
| job: "job_step d d' \<Longrightarrow> sync_step \<lparr>sq_db = d, sq_locks = L\<rparr> \<lparr>sq_db = d', sq_locks = L\<rparr>"
| edit: "(\<And>s. ks_id (f s) = ks_id s) \<Longrightarrow> (\<And>s. ks_current_version (f s) = ks_current_version s) \<Longrightarrow>
    sync_step \<lparr>sq_db = d, sq_locks = L\<rparr>
      \<lparr>sq_db = d\<lparr>sources := update_where P f (sources d)\<rparr>, sq_locks = L\<rparr>"

inductive_cases sync_stepE: "sync_step x y"

section \<open>The invariant\<close>

definition served :: "db \<Rightarrow> uuid \<Rightarrow> uuid \<Rightarrow> bool" where
  "served d sid i \<longleftrightarrow> (\<exists>v \<in> set (versions d). kv_id v = i \<and> kv_source_id v = sid \<and> kv_status v = ''succeeded'')"

definition open_version :: "db \<Rightarrow> uuid \<Rightarrow> uuid \<Rightarrow> bool" where
  "open_version d sid i \<longleftrightarrow>
     (\<exists>v \<in> set (versions d). kv_id v = i \<and> kv_source_id v = sid \<and> kv_status v \<in> {''pending'', ''running''})"

definition serving_ok :: "db \<Rightarrow> bool" where
  "serving_ok d \<longleftrightarrow> (\<forall>s \<in> set (sources d). \<forall>i. ks_current_version s = Some i \<longrightarrow> served d (ks_id s) i)"

definition versions_ok :: "db \<Rightarrow> bool" where
  "versions_ok d \<longleftrightarrow> distinct (map kv_id (versions d)) \<and> (\<forall>v \<in> set (versions d). kv_id v < next_uuid d)"

definition queued_fresh :: "db \<Rightarrow> bool" where
  "queued_fresh d \<longleftrightarrow> (\<forall>r \<in> set (job_runs d). jr_status r = QUEUED_STATUS \<longrightarrow> jr_version_id r = None)"

text \<open>The run of a lock holder: while it runs, its version is one it is still building.\<close>

definition holder_ok :: "db \<Rightarrow> uuid \<Rightarrow> job_run \<Rightarrow> bool" where
  "holder_ok d sid r \<longleftrightarrow>
     jr_source_id r = Some sid \<and> jr_status r \<noteq> QUEUED_STATUS
     \<and> (jr_status r = RUNNING_STATUS \<longrightarrow> (\<forall>i. jr_version_id r = Some i \<longrightarrow> open_version d sid i))"

definition locks_ok :: "db \<Rightarrow> (uuid \<Rightarrow> uuid option) \<Rightarrow> bool" where
  "locks_ok d L \<longleftrightarrow> (\<forall>sid rid. L sid = Some rid \<longrightarrow> (\<exists>r \<in> set (job_runs d). jr_id r = rid \<and> holder_ok d sid r))"

definition sync_ok :: "sync_sys \<Rightarrow> bool" where
  "sync_ok x \<longleftrightarrow> runs_ok (sq_db x) \<and> versions_ok (sq_db x) \<and> queued_fresh (sq_db x) \<and> serving_ok (sq_db x)
     \<and> locks_ok (sq_db x) (sq_locks x)"

lemma locks_ok_drop: "locks_ok d L \<Longrightarrow> locks_ok d (L(sid := None))"
  by (simp add: locks_ok_def)

lemma served_open:
  assumes "versions_ok d" and "open_version d sid i"
  shows "\<not> served d sid' i"
proof
  assume "served d sid' i"
  then obtain v where v: "v \<in> set (versions d)" "kv_id v = i" "kv_status v = ''succeeded''" by (auto simp: served_def)
  obtain u where u: "u \<in> set (versions d)" "kv_id u = i" "kv_status u \<in> {''pending'', ''running''}"
    using assms(2) by (auto simp: open_version_def)
  have "v = u" using assms(1) v u distinct_map_inj [of kv_id "versions d" v u] by (simp add: versions_ok_def)
  with v u show False by auto
qed

lemma open_version_same:
  assumes "versions_ok d" and "open_version d sid i" and "open_version d sid' i"
  shows "sid' = sid"
  using assms distinct_map_inj [of kv_id "versions d"] unfolding open_version_def versions_ok_def by blast

text \<open>Updates of one version that keep its key and its source.\<close>

definition version_update :: "(source_version \<Rightarrow> source_version) \<Rightarrow> bool" where
  "version_update g \<longleftrightarrow> (\<forall>v. kv_id (g v) = kv_id v \<and> kv_source_id (g v) = kv_source_id v)"

lemma version_update_intros:
  "version_update (promoted_version pargs c)" "version_update (failed_version fargs c)" "version_update (restarted now)"
  "version_update (attach_index commit config_hash b)" "version_update (built_version now hb)"
  by (simp_all add: version_update_def restarted_def attach_index_def built_version_def)

lemma versions_ok_update:
  assumes "versions_ok d" and "version_update g" and "versions d' = update_where (\<lambda>v. kv_id v = i) g (versions d)"
    and "next_uuid d \<le> next_uuid d'"
  shows "versions_ok d'"
proof -
  have "map kv_id (versions d') = map kv_id (versions d)"
    using assms(2,3) by (simp add: update_where_def version_update_def)
  moreover from this have "kv_id ` set (versions d') = kv_id ` set (versions d)" by (metis image_set)
  ultimately show ?thesis
    using assms(1,4) unfolding versions_ok_def by (metis (no_types, lifting) image_iff order_less_le_trans)
qed

lemma served_update:
  assumes "version_update g" and "versions d' = update_where (\<lambda>v. kv_id v = i) g (versions d)"
    and "(\<forall>v. kv_status (g v) = ''succeeded'') \<or> \<not> served d sid i"
  shows "served d sid j \<Longrightarrow> served d' sid j"
proof -
  assume "served d sid j"
  then obtain v where v: "v \<in> set (versions d)" "kv_id v = j" "kv_source_id v = sid" "kv_status v = ''succeeded''"
    by (auto simp: served_def)
  let ?w = "if kv_id v = i then g v else v"
  have "?w \<in> set (versions d')" using v(1) unfolding assms(2) set_update by blast
  moreover have "kv_status ?w = ''succeeded''" using assms(3) v by (auto simp: served_def)
  moreover have "kv_id ?w = j" "kv_source_id ?w = sid" using v assms(1) by (simp_all add: version_update_def)
  ultimately show ?thesis unfolding served_def by blast
qed

lemma open_update_other:
  assumes "versions d' = update_where (\<lambda>v. kv_id v = i) g (versions d)" and "open_version d sid j" and "j \<noteq> i"
  shows "open_version d' sid j"
  using assms unfolding open_version_def assms(1) set_update by force

lemma put_version_update:
  assumes "distinct (map kv_id (versions d))" and "v \<in> set (versions d)" and "kv_id (g v) = kv_id v"
  shows "versions (put_version (g v) d) = update_where (\<lambda>x. kv_id x = kv_id v) g (versions d)"
  unfolding put_version_def using assms by (auto intro!: update_cong dest: distinct_map_inj)

lemma update_twice:
  assumes "\<And>v. kv_id (g v) = kv_id v"
  shows "update_where (\<lambda>v. kv_id v = i) f (update_where (\<lambda>v. kv_id v = i) g vs)
       = update_where (\<lambda>v. kv_id v = i) (\<lambda>v. f (g v)) vs"
  using assms by (induction vs) auto

section \<open>Steps on the job table\<close>

definition run_follows :: "job_run \<Rightarrow> job_run \<Rightarrow> bool" where
  "run_follows r r' \<longleftrightarrow> jr_id r' = jr_id r \<and> jr_source_id r' = jr_source_id r
     \<and> (jr_status r \<noteq> QUEUED_STATUS \<longrightarrow> jr_status r' \<noteq> QUEUED_STATUS
          \<and> (jr_status r' = RUNNING_STATUS \<longrightarrow> jr_status r = RUNNING_STATUS \<and> jr_version_id r' = jr_version_id r))
     \<and> (jr_status r' = QUEUED_STATUS \<longrightarrow> jr_status r = QUEUED_STATUS \<and> jr_version_id r' = jr_version_id r)"

lemma run_follows_refl [simp]: "run_follows r r"
  by (simp add: run_follows_def)

definition runs_follow :: "db \<Rightarrow> db \<Rightarrow> bool" where
  "runs_follow d d' \<longleftrightarrow> versions d' = versions d \<and> sources d' = sources d \<and> next_uuid d \<le> next_uuid d'
     \<and> (\<forall>r \<in> set (job_runs d). \<exists>r' \<in> set (job_runs d'). run_follows r r')
     \<and> (\<forall>r' \<in> set (job_runs d'). jr_status r' = QUEUED_STATUS \<longrightarrow>
          jr_version_id r' = None \<or> (\<exists>r \<in> set (job_runs d). run_follows r r'))"

lemma runs_follow_update:
  assumes "job_runs d' = update_where P f (job_runs d)" and "versions d' = versions d" and "sources d' = sources d"
    and "next_uuid d' = next_uuid d" and "\<And>r. r \<in> set (job_runs d) \<Longrightarrow> P r \<Longrightarrow> run_follows r (f r)"
  shows "runs_follow d d'"
proof -
  have each: "run_follows r (if P r then f r else r)" if "r \<in> set (job_runs d)" for r
    using assms(5) that by simp
  have rows: "set (job_runs d') = (\<lambda>r. if P r then f r else r) ` set (job_runs d)"
    unfolding assms(1) set_update ..
  have "\<forall>r \<in> set (job_runs d). \<exists>r' \<in> set (job_runs d'). run_follows r r'"
    unfolding rows using each by blast
  moreover have "\<forall>r' \<in> set (job_runs d'). \<exists>r \<in> set (job_runs d). run_follows r r'"
    unfolding rows using each by blast
  ultimately show ?thesis
    unfolding runs_follow_def assms(2-4) by blast
qed

lemma runs_follow_runs:
  assumes "d' = update_runs P f d" and "\<And>r. r \<in> set (job_runs d) \<Longrightarrow> P r \<Longrightarrow> run_follows r (f r)"
  shows "runs_follow d d'"
  by (rule runs_follow_update [where P = P and f = f]) (use assms in \<open>simp_all add: update_runs_def\<close>)

lemma runs_follow_add:
  assumes "add_run r d = Inr (r', d')" and "jr_status r = QUEUED_STATUS \<Longrightarrow> jr_version_id r = None"
  shows "runs_follow d d'"
proof -
  have "d' = d\<lparr>job_runs := job_runs d @ [r], next_uuid := Suc (next_uuid d)\<rparr>"
    using assms(1) by (auto simp: add_run_def insert_row_def split: if_splits)
  with assms(2) show ?thesis
    unfolding runs_follow_def by (auto intro: run_follows_refl)
qed

lemma job_step_follows:
  assumes "job_step d d'" and "runs_ok d"
  shows "runs_follow d d'"
  using assms
proof (induction rule: job_step.induct)
  case (queue now args q d r d')
  then show ?case unfolding queue_background_job_def by (elim runs_follow_add) (simp add: new_run_def)
next
  case (claim now i d r d')
  then obtain run where run: "find_run d i = Some run" "jr_status run = QUEUED_STATUS"
    and d': "d' = update_runs (\<lambda>y. jr_id y = i) (\<lambda>_. run\<lparr>jr_status := RUNNING_STATUS, jr_started_at := now, jr_heartbeat_at := Some now\<rparr>) d"
    by (auto simp: claim_background_job_def Let_def split: option.splits if_splits)
  have "y = run" if "y \<in> set (job_runs d)" "jr_id y = i" for y
    using that find_run_Some [OF run(1)] claim.prems distinct_map_inj [of jr_id "job_runs d" y run] by (auto simp: runs_ok_def)
  with run(2) show ?case
    by (intro runs_follow_runs [OF d']) (auto simp: run_follows_def job_statuses)
next
  case (start now args s d r d')
  then show ?case unfolding start_background_job_def Let_def by (elim runs_follow_add) (simp add: new_run_def job_statuses)
next
  case (beat now i summary d d')
  then have d': "d' = update_runs (\<lambda>r. jr_id r = i \<and> jr_status r = RUNNING_STATUS)
      (\<lambda>r. (case summary of None \<Rightarrow> r | Some s \<Rightarrow> r\<lparr>jr_summary := s\<rparr>)\<lparr>jr_heartbeat_at := Some now\<rparr>) d"
    by (simp add: heartbeat_background_job_def Let_def split: if_splits)
  show ?case
    by (rule runs_follow_runs [OF d']) (simp add: run_follows_def split: option.split)
next
  case (finish now i fargs d r d')
  then obtain run c where run: "find_run d i = Some run" "jr_status run = RUNNING_STATUS"
    and st: "fa_status fargs \<in> set JOB_TERMINAL_STATUSES"
    and d': "d' = update_runs (\<lambda>y. jr_id y = i) (\<lambda>_. finished_run c fargs run) d"
    by (auto simp: finish_background_job_def Let_def split: option.splits if_splits)
  have same: "y = run" if "y \<in> set (job_runs d)" "jr_id y = i" for y
    using that find_run_Some [OF run(1)] finish.prems distinct_map_inj [of jr_id "job_runs d" y run] by (auto simp: runs_ok_def)
  have "run_follows run (finished_run c fargs run)"
    using st run(2) by (auto simp: run_follows_def finished_run_def job_statuses)
  with same show ?case
    by (intro runs_follow_runs [OF d']) auto
next
  case (recorded args st s f w e d r d')
  then have add: "add_run ((new_run (next_uuid d) args st s)
             \<lparr>jr_heartbeat_at := Some f, jr_finished_at := Some f,
              jr_duration_sec := Some (max 0 (f - s)),
              jr_warnings := (case w of None \<Rightarrow> [] | Some w \<Rightarrow> w), jr_error := e\<rparr>) d = Inr (r, d')"
    and st: "st \<in> set JOB_TERMINAL_STATUSES"
    by (simp_all add: record_completed_background_job_def split: if_splits)
  show ?case by (rule runs_follow_add [OF add]) (use st in \<open>auto simp: new_run_def job_statuses\<close>)
next
  case (reconcile now before job_type d ids d')
  then have rows: "job_runs d' = update_where (stale_run before job_type) (fail_stale now) (job_runs d)"
    and rest: "versions d' = versions d" "sources d' = sources d" "next_uuid d' = next_uuid d"
    using stale.sweep_is_update [of "job_runs d" before job_type now]
    by (auto simp: reconcile_stale_background_jobs_def Let_def runs_ok_def)
  show ?case
    by (rule runs_follow_update [OF rows rest]) (simp add: run_follows_def fail_stale_def stale_run_def job_statuses)
qed

text \<open>A transaction of the job table alone keeps every part of the invariant.\<close>

lemma follow_keeps:
  assumes "runs_follow d d'" and "versions_ok d" and "queued_fresh d" and "serving_ok d" and "locks_ok d L"
  shows "versions_ok d' \<and> queued_fresh d' \<and> serving_ok d' \<and> locks_ok d' L"
proof -
  have same: "versions d' = versions d" "sources d' = sources d" "next_uuid d \<le> next_uuid d'"
    and fwd: "\<And>r. r \<in> set (job_runs d) \<Longrightarrow> \<exists>r' \<in> set (job_runs d'). run_follows r r'"
    and queued: "\<And>r'. r' \<in> set (job_runs d') \<Longrightarrow> jr_status r' = QUEUED_STATUS \<Longrightarrow>
        jr_version_id r' = None \<or> (\<exists>r \<in> set (job_runs d). run_follows r r')"
    using assms(1) unfolding runs_follow_def by auto
  have open_same: "open_version d' = open_version d" by (intro ext) (simp add: open_version_def same)
  have "versions_ok d'" using assms(2) same by (auto simp: versions_ok_def intro: order_less_le_trans)
  moreover have "queued_fresh d'"
    using assms(3) queued unfolding queued_fresh_def run_follows_def by metis
  moreover have "serving_ok d'" using assms(4) by (simp add: serving_ok_def served_def same)
  moreover have "locks_ok d' L"
    unfolding locks_ok_def
  proof (intro allI impI)
    fix sid rid assume "L sid = Some rid"
    then obtain r where r: "r \<in> set (job_runs d)" "jr_id r = rid" "holder_ok d sid r"
      using assms(5) unfolding locks_ok_def by blast
    obtain r' where r': "r' \<in> set (job_runs d')" "run_follows r r'" using fwd [OF r(1)] by blast
    have "holder_ok d' sid r'"
      using r(3) r'(2) unfolding holder_ok_def run_follows_def open_same by auto
    with r r' show "\<exists>r \<in> set (job_runs d'). jr_id r = rid \<and> holder_ok d' sid r"
      unfolding run_follows_def by blast
  qed
  ultimately show ?thesis by blast
qed

section \<open>Steps of a lock holder\<close>

definition only_run :: "uuid \<Rightarrow> db \<Rightarrow> db \<Rightarrow> bool" where
  "only_run rid d d' \<longleftrightarrow> map jr_id (job_runs d') = map jr_id (job_runs d)
     \<and> filter (\<lambda>r. jr_id r \<noteq> rid) (job_runs d') = filter (\<lambda>r. jr_id r \<noteq> rid) (job_runs d)"

lemma only_run_update:
  assumes "job_runs d' = update_where (\<lambda>r. jr_id r = rid) h (job_runs d)" and "\<And>r. jr_id r = rid \<Longrightarrow> jr_id (h r) = rid"
  shows "only_run rid d d'"
proof -
  have "filter (\<lambda>r. jr_id r \<noteq> rid) (update_where (\<lambda>r. jr_id r = rid) h rs) = filter (\<lambda>r. jr_id r \<noteq> rid) rs"
    and "map jr_id (update_where (\<lambda>r. jr_id r = rid) h rs) = map jr_id rs" for rs
    using assms(2) by (induction rs) auto
  then show ?thesis by (simp add: only_run_def assms(1))
qed

lemma only_run_trans: "only_run rid d d' \<Longrightarrow> only_run rid d' d'' \<Longrightarrow> only_run rid d d''"
  by (simp add: only_run_def)

lemma only_run_other:
  assumes "only_run rid d d'" and "jr_id r \<noteq> rid"
  shows "r \<in> set (job_runs d') \<longleftrightarrow> r \<in> set (job_runs d)"
proof -
  have "set (filter (\<lambda>r. jr_id r \<noteq> rid) (job_runs d')) = set (filter (\<lambda>r. jr_id r \<noteq> rid) (job_runs d))"
    using assms(1) by (simp only: only_run_def)
  with assms(2) show ?thesis by auto
qed

lemma holder_run:
  assumes "locks_ok d L" and "runs_ok d" and "L sid = Some rid" and "r \<in> set (job_runs d)" and "jr_id r = rid"
  shows "holder_ok d sid r"
proof -
  obtain r0 where r0: "r0 \<in> set (job_runs d)" "jr_id r0 = rid" "holder_ok d sid r0"
    using assms(1,3) unfolding locks_ok_def by blast
  have "r = r0" using assms(2,4,5) r0 distinct_map_inj [of jr_id "job_runs d" r r0] by (simp add: runs_ok_def)
  with r0 show ?thesis by simp
qed

lemma worker_keeps:
  assumes inv: "sync_ok \<lparr>sq_db = d, sq_locks = L\<rparr>" and lock: "L sid = Some rid" and run: "only_run rid d d'"
    and fresh: "next_uuid d \<le> next_uuid d'" and vers: "versions_ok d'" and serve: "serving_ok d'"
    and status: "\<And>r. r \<in> set (job_runs d') \<Longrightarrow> jr_id r = rid \<Longrightarrow> jr_status r \<noteq> QUEUED_STATUS"
    and others: "\<And>sid' j. sid' \<noteq> sid \<Longrightarrow> open_version d sid' j \<Longrightarrow> open_version d' sid' j"
  shows "sync_ok \<lparr>sq_db = d', sq_locks = L(sid := None)\<rparr>"
proof -
  have ok: "runs_ok d" "queued_fresh d" "locks_ok d L" using inv by (simp_all add: sync_ok_def)
  have ids: "map jr_id (job_runs d') = map jr_id (job_runs d)" using run by (simp add: only_run_def)
  then have "jr_id ` set (job_runs d') = jr_id ` set (job_runs d)" by (metis image_set)
  then have "runs_ok d'"
    using ok(1) ids fresh unfolding runs_ok_def by (metis (no_types, lifting) image_iff order_less_le_trans)
  moreover have "queued_fresh d'"
    using ok(2) status only_run_other [OF run] unfolding queued_fresh_def by blast
  moreover have "locks_ok d' (L(sid := None))"
    unfolding locks_ok_def
  proof (intro allI impI)
    fix sid' rid' assume "(L(sid := None)) sid' = Some rid'"
    then have l: "L sid' = Some rid'" "sid' \<noteq> sid" by (auto split: if_splits)
    then obtain r where r: "r \<in> set (job_runs d)" "jr_id r = rid'" "holder_ok d sid' r"
      using ok(3) unfolding locks_ok_def by blast
    have "rid' \<noteq> rid"
    proof
      assume "rid' = rid"
      with holder_run [OF ok(3,1) lock r(1)] r l(2) show False by (simp add: holder_ok_def)
    qed
    then have "r \<in> set (job_runs d')" using only_run_other [OF run] r by simp
    moreover have "holder_ok d' sid' r" using r(3) others l(2) by (simp add: holder_ok_def)
    ultimately show "\<exists>r \<in> set (job_runs d'). jr_id r = rid' \<and> holder_ok d' sid' r" using r(2) by blast
  qed
  ultimately show ?thesis using vers serve by (simp add: sync_ok_def)
qed

text \<open>A holder that goes on keeps its lock when its run is in order afterwards.\<close>

lemma worker_goes_on:
  assumes "sync_ok \<lparr>sq_db = d', sq_locks = L(sid := None)\<rparr>" and "L sid = Some rid"
    and "r \<in> set (job_runs d')" and "jr_id r = rid" and "holder_ok d' sid r"
  shows "sync_ok \<lparr>sq_db = d', sq_locks = L\<rparr>"
proof -
  have drop: "locks_ok d' (L(sid := None))" using assms(1) by (simp add: sync_ok_def)
  have "\<exists>r \<in> set (job_runs d'). jr_id r = rid' \<and> holder_ok d' sid' r" if l: "L sid' = Some rid'" for sid' rid'
  proof (cases "sid' = sid")
    case True
    with l assms(2) have "rid' = rid" by simp
    with True assms(3-5) show ?thesis by blast
  next
    case False
    with l have "(L(sid := None)) sid' = Some rid'" by simp
    with drop show ?thesis unfolding locks_ok_def by blast
  qed
  then have "locks_ok d' L" unfolding locks_ok_def by blast
  with assms(1) show ?thesis by (simp add: sync_ok_def)
qed

lemma serving_update:
  assumes "serving_ok d" and "\<And>sid j. served d sid j \<Longrightarrow> served d' sid j"
    and "sources d' = update_where P f (sources d)"
    and "\<And>s. s \<in> set (sources d) \<Longrightarrow> P s \<Longrightarrow> ks_id (f s) = ks_id s
        \<and> (ks_current_version (f s) = ks_current_version s \<or> (\<exists>i. ks_current_version (f s) = Some i \<and> served d' (ks_id s) i))"
  shows "serving_ok d'"
  unfolding serving_ok_def
proof (intro ballI allI impI)
  fix s i assume s: "s \<in> set (sources d')" and cur: "ks_current_version s = Some i"
  obtain t where t: "t \<in> set (sources d)" "s = (if P t then f t else t)"
    using s unfolding assms(3) by (rule in_updateE)
  have old: "ks_current_version t = Some j \<Longrightarrow> served d' (ks_id t) j" for j
    using assms(1,2) t(1) unfolding serving_ok_def by blast
  show "served d' (ks_id s) i"
  proof (cases "P t")
    case True
    with assms(4) [OF t(1)] t(2) cur old show ?thesis by auto
  next
    case False
    with t(2) cur old show ?thesis by simp
  qed
qed

lemma serving_same:
  assumes "serving_ok d" and "\<And>sid j. served d sid j \<Longrightarrow> served d' sid j" and "sources d' = sources d"
  shows "serving_ok d'"
  using assms unfolding serving_ok_def by simp

lemma sync_okD:
  assumes "sync_ok \<lparr>sq_db = d, sq_locks = L\<rparr>"
  shows "runs_ok d" "versions_ok d" "queued_fresh d" "serving_ok d" "locks_ok d L"
  using assms by (simp_all add: sync_ok_def)

lemma holder_open:
  assumes "sync_ok \<lparr>sq_db = d, sq_locks = L\<rparr>" and "L sid = Some rid" and "r \<in> set (job_runs d)" and "jr_id r = rid"
    and "jr_status r = RUNNING_STATUS" and "jr_version_id r = Some i"
  shows "open_version d sid i"
  using holder_run [OF sync_okD(5) [OF assms(1)] sync_okD(1) [OF assms(1)] assms(2-4)] assms(5,6) by (simp add: holder_ok_def)

text \<open>The end of a run: it writes one version of its source, and its own run becomes terminal.\<close>

lemma ending_keeps:
  assumes inv: "sync_ok \<lparr>sq_db = d, sq_locks = L\<rparr>" and lock: "L sid = Some rid" and opened: "open_version d sid vid"
    and g: "version_update g" "versions d' = update_where (\<lambda>v. kv_id v = vid) g (versions d)"
    and runs: "job_runs d' = update_where (\<lambda>r. jr_id r = rid) (\<lambda>_. h) (job_runs d)" "jr_id h = rid" "jr_status h \<noteq> QUEUED_STATUS"
    and nu: "next_uuid d' = next_uuid d"
    and serve: "(\<And>sid j. served d sid j \<Longrightarrow> served d' sid j) \<Longrightarrow> serving_ok d'"
  shows "sync_ok \<lparr>sq_db = d', sq_locks = L(sid := None)\<rparr>"
proof (rule worker_keeps [OF inv lock])
  note ok = sync_okD [OF inv]
  show "only_run rid d d'" using runs by (intro only_run_update) simp_all
  show "versions_ok d'" using versions_ok_update [OF ok(2) g] nu by simp
  show "serving_ok d'"
  proof (rule serve)
    fix sid' j assume "served d sid' j"
    then show "served d' sid' j"
      using served_update [OF g] served_open [OF ok(2) opened] by blast
  qed
  show "jr_status r \<noteq> QUEUED_STATUS" if "r \<in> set (job_runs d')" "jr_id r = rid" for r
    using that runs by (auto simp: set_update)
  show "open_version d' sid' j" if "sid' \<noteq> sid" "open_version d sid' j" for sid' j
  proof (rule open_update_other [OF g(2) that(2)])
    show "j \<noteq> vid" using open_version_same [OF ok(2) opened] that by blast
  qed
qed (use nu in simp)

lemma attach_version_frame [simp]:
  "sources (attach_version i commit config_hash b d) = sources d" "job_runs (attach_version i commit config_hash b d) = job_runs d"
  "next_uuid (attach_version i commit config_hash b d) = next_uuid d"
  "versions (attach_version i commit config_hash b d) = update_where (\<lambda>v. kv_id v = i) (attach_index commit config_hash b) (versions d)"
  by (simp_all add: attach_version_def)

lemma attach_index_fields [simp]:
  "kv_id (attach_index commit config_hash b v) = kv_id v" "kv_source_id (attach_index commit config_hash b v) = kv_source_id v"
  "kv_status (attach_index commit config_hash b v) = kv_status v"
  by (simp_all add: attach_index_def)

lemma attach_distinct:
  "distinct (map kv_id (versions (attach_version i commit config_hash b d))) = distinct (map kv_id (versions d))"
  by (simp add: update_where_def o_def if_distrib cong: if_cong)

lemma promote_keeps:
  assumes inv: "sync_ok \<lparr>sq_db = d, sq_locks = L\<rparr>" and lock: "L sid = Some rid"
    and run: "promote_knowledge_source_version now sid vid rid args (attach_version vid commit config_hash b d) = Inr (v', d')"
  shows "sync_ok \<lparr>sq_db = d', sq_locks = L(sid := None)\<rparr>"
proof -
  let ?a = "attach_version vid commit config_hash b d"
  obtain s v r c where rec: "locked_sync_records ?a sid vid rid = Inr (s, v, r)" and st: "jr_status r = RUNNING_STATUS"
    and v': "v' = promoted_version args c v"
    and d': "d' = put_run (promoted_run args c v r) (put_source (s\<lparr>ks_current_version := Some (kv_id v)\<rparr>) (put_version v' ?a))"
    using run by (rule promote_parts)
  note m = locked_ok [OF rec]
  have opened: "open_version d sid vid"
    by (rule holder_open [OF inv lock _ _ st]) (use m in simp_all)
  let ?g = "\<lambda>x. promoted_version args c (attach_index commit config_hash b x)"
  have "versions (put_version v' ?a) = update_where (\<lambda>x. kv_id x = vid) (promoted_version args c) (versions ?a)"
    using put_version_update [of ?a v "promoted_version args c"] m attach_distinct [of vid commit config_hash b d] sync_okD(2) [OF inv]
    by (simp add: v' versions_ok_def)
  then have g: "versions d' = update_where (\<lambda>x. kv_id x = vid) ?g (versions d)"
    using update_twice [of "attach_index commit config_hash b" vid "promoted_version args c" "versions d"] by (simp add: d')
  have up: "version_update ?g" by (simp add: version_update_def)
  have mine: "served d' sid vid"
  proof -
    obtain x where "x \<in> set (versions d)" "kv_id x = vid" "kv_source_id x = sid" using opened by (auto simp: open_version_def)
    then show ?thesis unfolding served_def g set_update by (intro bexI [of _ "?g x"]) (auto intro: rev_image_eqI)
  qed
  show ?thesis
  proof (rule ending_keeps [OF inv lock opened up g])
    show "job_runs d' = update_where (\<lambda>x. jr_id x = rid) (\<lambda>_. promoted_run args c v r) (job_runs d)"
      using m by (simp add: d' put_run_def)
    show "serving_ok d'" if mono: "\<And>sid j. served d sid j \<Longrightarrow> served d' sid j"
    proof (rule serving_update [OF sync_okD(4) [OF inv] mono])
      show "sources d' = update_where (\<lambda>x. ks_id x = sid) (\<lambda>_. s\<lparr>ks_current_version := Some vid\<rparr>) (sources d)"
        using m by (simp add: d' put_source_def)
    qed (use m mine in auto)
  qed (use m in \<open>simp_all add: d' job_statuses\<close>)
qed

lemma fail_keeps:
  assumes inv: "sync_ok \<lparr>sq_db = d, sq_locks = L\<rparr>" and lock: "L sid = Some rid"
    and run: "fail_knowledge_source_version now sid vid rid args d0 = Inr (v', d')"
    and d0: "d0 = d \<or> d0 = attach_version vid commit config_hash b d"
  shows "sync_ok \<lparr>sq_db = d', sq_locks = L(sid := None)\<rparr>"
proof -
  obtain s v r c where rec: "locked_sync_records d0 sid vid rid = Inr (s, v, r)" and st: "jr_status r = RUNNING_STATUS"
    and v': "v' = failed_version args c v" and d': "d' = put_run (failed_run args c v r) (put_version v' d0)"
    using run by (rule fail_parts)
  note m = locked_ok [OF rec]
  have frame: "sources d0 = sources d" "job_runs d0 = job_runs d" "next_uuid d0 = next_uuid d"
    and dist: "distinct (map kv_id (versions d0))"
    using d0 attach_distinct [of vid commit config_hash b d] sync_okD(2) [OF inv] by (auto simp: versions_ok_def)
  have opened: "open_version d sid vid"
    by (rule holder_open [OF inv lock _ _ st]) (use m frame in simp_all)
  obtain g0 where g0: "version_update g0" "versions d0 = update_where (\<lambda>x. kv_id x = vid) g0 (versions d)"
  proof (cases "d0 = d")
    case True
    then show ?thesis by (intro that [of "\<lambda>x. x"]) (simp_all add: version_update_def update_ident)
  next
    case False
    with d0 show ?thesis by (intro that [OF version_update_intros(4)]) simp
  qed
  let ?g = "\<lambda>x. failed_version args c (g0 x)"
  have "versions d' = update_where (\<lambda>x. kv_id x = vid) (failed_version args c) (versions d0)"
    using put_version_update [OF dist, of v "failed_version args c"] m by (simp add: d' v')
  then have g: "versions d' = update_where (\<lambda>x. kv_id x = vid) ?g (versions d)"
    unfolding g0(2) by (subst (asm) update_twice) (use g0(1) in \<open>simp_all add: version_update_def\<close>)
  have up: "version_update ?g" using g0(1) by (simp add: version_update_def)
  show ?thesis
  proof (rule ending_keeps [OF inv lock opened up g])
    show "job_runs d' = update_where (\<lambda>x. jr_id x = rid) (\<lambda>_. failed_run args c v r) (job_runs d)"
      using m frame by (simp add: d' put_run_def)
    have "sources d' = sources d" unfolding d' using frame(1) by simp
    then show "serving_ok d'" if "\<And>sid j. served d sid j \<Longrightarrow> served d' sid j"
      using serving_same [OF sync_okD(4) [OF inv] that] by blast
  qed (use m frame in \<open>simp_all add: d' job_statuses\<close>)
qed

lemma the_version:
  assumes "versions_ok d" and "v \<in> set (versions d)" and "u \<in> set (versions d)" and "kv_id u = kv_id v"
  shows "u = v"
  using assms distinct_map_inj [of kv_id "versions d" u v] by (simp add: versions_ok_def)

lemma skip_keeps:
  assumes inv: "sync_ok \<lparr>sq_db = d, sq_locks = L\<rparr>" and lock: "L (ks_id s) = Some rid"
    and ex: "existing_version d s commit config_hash = Some v" and st: "kv_status v = ''succeeded''"
  shows "sync_ok \<lparr>sq_db = skip_version now s (kv_id v) rid commit timings d, sq_locks = L(ks_id s := None)\<rparr>"
proof (rule worker_keeps [OF inv lock])
  note ok = sync_okD [OF inv]
  let ?d' = "skip_version now s (kv_id v) rid commit timings d"
  have vers: "versions ?d' = versions d" and nu: "next_uuid ?d' = next_uuid d"
    by (simp_all add: skip_version_def update_runs_def set_current_def)
  let ?h = "skipped_run now (kv_id v) [(''commit_sha'', PStr commit), (''skip_reason'', PStr ''unchanged_commit_and_config''),
      (''phase_timings_sec'', PDict timings)]"
  have runs: "job_runs ?d' = update_where (\<lambda>r. jr_id r = rid) ?h (job_runs d)"
    by (simp add: skip_version_def update_runs_def set_current_def)
  have h: "jr_id (?h r) = jr_id r" "jr_status (?h r) = ''skipped''" for r
    by (simp_all add: skipped_run_def)
  have v: "v \<in> set (versions d)" "kv_source_id v = ks_id s"
    using find_row_Some [OF ex [unfolded existing_version_def]] by (simp_all add: same_extraction_def)
  then have mine: "served ?d' (ks_id s) (kv_id v)" using st by (auto simp: served_def vers)
  show "only_run rid d ?d'" using h by (intro only_run_update [OF runs]) simp
  show "next_uuid d \<le> next_uuid ?d'" using nu by simp
  show "versions_ok ?d'" using ok(2) by (simp add: versions_ok_def vers nu)
  show "serving_ok ?d'"
  proof (rule serving_update [OF ok(4)])
    show "sources ?d' = update_where (\<lambda>x. ks_id x = ks_id s) (\<lambda>x. x\<lparr>ks_current_version := Some (kv_id v)\<rparr>) (sources d)"
      by (simp add: skip_version_def update_runs_def set_current_def)
  qed (use mine vers in \<open>auto simp: served_def\<close>)
  show "jr_status r \<noteq> QUEUED_STATUS" if r: "r \<in> set (job_runs ?d')" "jr_id r = rid" for r
  proof -
    obtain x where "r = (if jr_id x = rid then ?h x else x)" using r(1) unfolding runs by (rule in_updateE)
    then have "jr_status r = ''skipped''" using r(2) h by (cases "jr_id x = rid") simp_all
    then show ?thesis by (simp add: job_statuses)
  qed
  show "open_version ?d' sid' j" if "open_version d sid' j" for sid' j
    using that by (simp add: open_version_def vers)
qed

text \<open>A worker takes over a version that is open afterwards.\<close>

lemma own_keeps:
  assumes inv: "sync_ok \<lparr>sq_db = d, sq_locks = L\<rparr>" and lock: "L sid = Some rid"
    and vers: "versions_ok d'" and nu: "next_uuid d \<le> next_uuid d'" and src: "sources d' = sources d"
    and runs: "job_runs d' = update_where (\<lambda>r. jr_id r = rid) h (job_runs d)"
    and h: "\<And>r. jr_id (h r) = jr_id r \<and> jr_source_id (h r) = jr_source_id r \<and> jr_status (h r) = jr_status r \<and> jr_version_id (h r) = Some i"
    and mine: "open_version d' sid i" and serve: "\<And>sid j. served d sid j \<Longrightarrow> served d' sid j"
    and others: "\<And>sid' j. sid' \<noteq> sid \<Longrightarrow> open_version d sid' j \<Longrightarrow> open_version d' sid' j"
  shows "sync_ok \<lparr>sq_db = d', sq_locks = L\<rparr>"
proof -
  note ok = sync_okD [OF inv]
  have holder: "holder_ok d sid r" if "r \<in> set (job_runs d)" "jr_id r = rid" for r
    by (rule holder_run [OF ok(5,1) lock that])
  have "sync_ok \<lparr>sq_db = d', sq_locks = L(sid := None)\<rparr>"
  proof (rule worker_keeps [OF inv lock _ nu vers _ _ others])
    show "only_run rid d d'" using h by (intro only_run_update [OF runs]) simp
    show "serving_ok d'" by (rule serving_same [OF ok(4) serve src])
    show "jr_status r \<noteq> QUEUED_STATUS" if r: "r \<in> set (job_runs d')" "jr_id r = rid" for r
    proof -
      obtain x where x: "x \<in> set (job_runs d)" "r = (if jr_id x = rid then h x else x)"
        using r(1) unfolding runs by (rule in_updateE)
      then have "jr_id x = rid" "jr_status r = jr_status x" using r(2) h by (cases "jr_id x = rid"; simp)+
      with holder [OF x(1)] show ?thesis by (simp add: holder_ok_def)
    qed
  qed
  moreover obtain r where r: "r \<in> set (job_runs d)" "jr_id r = rid" "holder_ok d sid r"
    using ok(5) lock unfolding locks_ok_def by blast
  have "h r \<in> set (job_runs d')" unfolding runs set_update using r(1,2) by (intro rev_image_eqI [of r]) simp_all
  moreover have "holder_ok d' sid (h r)" using r(3) h mine by (simp add: holder_ok_def)
  moreover have "jr_id (h r) = rid" using r(2) h by simp
  ultimately show ?thesis using worker_goes_on lock by blast
qed

lemma new_version_keeps:
  assumes inv: "sync_ok \<lparr>sq_db = d, sq_locks = L\<rparr>" and lock: "L sid = Some rid"
    and vers: "versions d' = versions d @ [v]" "kv_id v = next_uuid d" "kv_source_id v = sid" "kv_status v \<in> {''pending'', ''running''}"
    and nu: "next_uuid d' = Suc (next_uuid d)" and src: "sources d' = sources d"
    and runs: "job_runs d' = update_where (\<lambda>r. jr_id r = rid) h (job_runs d)"
    and h: "\<And>r. jr_id (h r) = jr_id r \<and> jr_source_id (h r) = jr_source_id r \<and> jr_status (h r) = jr_status r \<and> jr_version_id (h r) = Some (next_uuid d)"
  shows "sync_ok \<lparr>sq_db = d', sq_locks = L\<rparr>"
proof (rule own_keeps [OF inv lock _ _ src runs h])
  have old: "versions_ok d" by (rule sync_okD(2) [OF inv])
  have "next_uuid d \<notin> kv_id ` set (versions d)" using old by (force simp: versions_ok_def)
  then show "versions_ok d'" using old vers(2) by (auto simp: versions_ok_def vers(1) nu less_SucI)
  show "open_version d' sid (next_uuid d)" using vers by (auto simp: open_version_def)
qed (use nu in \<open>auto simp: served_def open_version_def vers(1)\<close>)

lemma begin_keeps:
  assumes inv: "sync_ok \<lparr>sq_db = d, sq_locks = L\<rparr>" and lock: "L (ks_id s) = Some rid"
    and ex: "existing = existing_version d s commit config_hash"
    and fresh: "\<forall>v. existing = Some v \<longrightarrow> kv_status v \<noteq> ''succeeded''"
    and run: "begin_version now s existing rid commit config_hash d = (i, d')"
  shows "sync_ok \<lparr>sq_db = d', sq_locks = L\<rparr>"
proof (cases existing)
  case None
  with run have "d' = own_version rid (next_uuid d)
      (d\<lparr>versions := versions d @ [new_version (next_uuid d) s commit config_hash now], next_uuid := Suc (next_uuid d)\<rparr>)"
    by (auto simp: begin_version_def Let_def insert_row_def)
  then show ?thesis
    by (intro new_version_keeps [OF inv lock, where h = "\<lambda>r. r\<lparr>jr_version_id := Some (next_uuid d)\<rparr>"
        and v = "new_version (next_uuid d) s commit config_hash now"])
      (simp_all add: own_version_def update_runs_def new_version_def)
next
  case (Some v)
  note ok = sync_okD [OF inv]
  have v: "v \<in> set (versions d)" "kv_source_id v = ks_id s"
    using find_row_Some [OF ex [unfolded existing_version_def Some, symmetric]] by (simp_all add: same_extraction_def)
  have d': "d' = own_version rid (kv_id v) (put_version (restarted now v) d)" using run Some by (auto simp: begin_version_def)
  have g: "versions d' = update_where (\<lambda>x. kv_id x = kv_id v) (restarted now) (versions d)"
    using put_version_update [of d v "restarted now"] ok(2) v(1)
    by (simp add: d' own_version_def update_runs_def versions_ok_def restarted_def)
  have mine: "restarted now v \<in> set (versions d')" unfolding g set_update using v(1) by (auto intro!: rev_image_eqI)
  show ?thesis
  proof (rule own_keeps [OF inv lock])
    show "versions_ok d'"
      using versions_ok_update [OF ok(2) version_update_intros(3) g] by (simp add: d' own_version_def update_runs_def)
    show "job_runs d' = update_where (\<lambda>r. jr_id r = rid) (\<lambda>r. r\<lparr>jr_version_id := Some (kv_id v)\<rparr>) (job_runs d)"
      by (simp add: d' own_version_def update_runs_def)
    show "open_version d' (ks_id s) (kv_id v)" using mine v(2) unfolding open_version_def by (intro bexI) (simp_all add: restarted_def)
    show "served d' sid j" if "served d sid j" for sid j
    proof (rule served_update [OF version_update_intros(3) g _ that])
      have "\<not> served d sid (kv_id v)"
        using fresh Some v(1) the_version [OF ok(2) v(1)] unfolding served_def by blast
      then show "(\<forall>x. kv_status (restarted now x) = ''succeeded'') \<or> \<not> served d sid (kv_id v)" ..
    qed
    show "open_version d' sid' j" if "sid' \<noteq> ks_id s" "open_version d sid' j" for sid' j
    proof (rule open_update_other [OF g that(2)])
      show "j \<noteq> kv_id v" using that v(2) the_version [OF ok(2) v(1)] unfolding open_version_def by blast
    qed
  qed (simp_all add: d' own_version_def update_runs_def)
qed

lemma hybrid_begin_keeps:
  assumes inv: "sync_ok \<lparr>sq_db = d, sq_locks = L\<rparr>" and lock: "L sid = Some rid"
    and run: "hybrid_begin now sid rid config_hash d = (i, d')"
  shows "sync_ok \<lparr>sq_db = d', sq_locks = L\<rparr>"
proof -
  have d': "d' = update_runs (\<lambda>r. jr_id r = rid) (\<lambda>r. r\<lparr>jr_version_id := Some (next_uuid d), jr_summary := [(''phase'', PStr ''build'')]\<rparr>)
      (d\<lparr>versions := versions d @ [pending_version (next_uuid d) sid config_hash now], next_uuid := Suc (next_uuid d)\<rparr>)"
    using run by (auto simp: hybrid_begin_def Let_def insert_row_def)
  show ?thesis
    by (rule new_version_keeps [OF inv lock, where h = "\<lambda>r. r\<lparr>jr_version_id := Some (next_uuid d), jr_summary := [(''phase'', PStr ''build'')]\<rparr>"
        and v = "pending_version (next_uuid d) sid config_hash now"])
      (simp_all add: d' update_runs_def pending_version_def)
qed

lemma finish_parts:
  assumes "finish_background_job now i args d = Inr (out, d')"
  obtains r c where "r \<in> set (job_runs d)" "jr_id r = i" "jr_status r = RUNNING_STATUS"
    "fa_status args \<in> set JOB_TERMINAL_STATUSES" "d' = update_runs (\<lambda>x. jr_id x = i) (\<lambda>_. finished_run c args r) d"
proof -
  obtain r c where r: "find_run d i = Some r" "jr_status r = RUNNING_STATUS"
    and rest: "fa_status args \<in> set JOB_TERMINAL_STATUSES" "d' = update_runs (\<lambda>x. jr_id x = i) (\<lambda>_. finished_run c args r) d"
    using assms by (auto simp: finish_background_job_def Let_def split: option.splits if_splits)
  show thesis using find_run_Some [OF r(1)] r(2) rest by (intro that) auto
qed

text \<open>The end of a hybrid run, whose version table the caller describes.\<close>

lemma hybrid_end_keeps:
  assumes inv: "sync_ok \<lparr>sq_db = d, sq_locks = L\<rparr>" and lock: "L sid = Some rid"
    and run: "finish_background_job now rid args d1 = Inr (out, d')" and pre: "only_run rid d d1" "next_uuid d1 = next_uuid d"
    and vers: "versions_ok d1" and serve: "serving_ok d1"
    and others: "\<And>sid' j. sid' \<noteq> sid \<Longrightarrow> open_version d sid' j \<Longrightarrow> open_version d1 sid' j"
  shows "sync_ok \<lparr>sq_db = d', sq_locks = L(sid := None)\<rparr>"
proof -
  obtain r c where r: "jr_id r = rid" "fa_status args \<in> set JOB_TERMINAL_STATUSES"
    and d': "d' = update_runs (\<lambda>x. jr_id x = rid) (\<lambda>_. finished_run c args r) d1"
    using run by (rule finish_parts)
  have frame: "versions d' = versions d1" "sources d' = sources d1" "next_uuid d' = next_uuid d1"
    and runs: "job_runs d' = update_where (\<lambda>x. jr_id x = rid) (\<lambda>_. finished_run c args r) (job_runs d1)"
    by (simp_all add: d' update_runs_def)
  show ?thesis
  proof (rule worker_keeps [OF inv lock])
    show "only_run rid d d'"
      using only_run_trans [OF pre(1) only_run_update [OF runs]] r(1) by (simp add: finished_run_def)
    show "next_uuid d \<le> next_uuid d'" using pre(2) frame by simp
    show "versions_ok d'" using vers by (simp add: versions_ok_def frame)
    show "serving_ok d'" using serve by (simp add: serving_ok_def served_def frame)
    show "open_version d' sid' j" if "sid' \<noteq> sid" "open_version d sid' j" for sid' j
      using others [OF that] by (simp add: open_version_def frame)
    show "jr_status x \<noteq> QUEUED_STATUS" if x: "x \<in> set (job_runs d')" "jr_id x = rid" for x
    proof -
      obtain y where "x = (if jr_id y = rid then finished_run c args r else y)" using x(1) unfolding runs by (rule in_updateE)
      then have "jr_status x = fa_status args" using x(2) by (cases "jr_id y = rid") (simp_all add: finished_run_def)
      then show ?thesis using r(2) by (auto simp: job_statuses)
    qed
  qed
qed

lemma finish_was_running:
  assumes "runs_ok d" and "only_run rid d d1" and "\<And>r. r \<in> set (job_runs d1) \<Longrightarrow> jr_id r = rid \<Longrightarrow>
      (\<exists>x \<in> set (job_runs d). jr_id x = rid \<and> jr_status x = jr_status r)"
    and "finish_background_job now rid args d1 = Inr (out, d')" and "find_run d rid = Some r"
  shows "jr_status r = RUNNING_STATUS"
proof -
  obtain y where y: "y \<in> set (job_runs d1)" "jr_id y = rid" "jr_status y = RUNNING_STATUS"
    using assms(4) by (rule finish_parts)
  then obtain x where x: "x \<in> set (job_runs d)" "jr_id x = rid" "jr_status x = RUNNING_STATUS" using assms(3) by metis
  have "x = r" using assms(1) x find_run_Some [OF assms(5)] distinct_map_inj [of jr_id "job_runs d" x r] by (simp add: runs_ok_def)
  with x show ?thesis by simp
qed

lemma hybrid_fail_keeps:
  assumes inv: "sync_ok \<lparr>sq_db = d, sq_locks = L\<rparr>" and lock: "L sid = Some rid"
    and r: "find_run d rid = Some r" "jr_version_id r = vid"
    and run: "hybrid_fail sha now captured_at captured_hash security error sid vid rid summary d = Inr (out, d')"
  shows "sync_ok \<lparr>sq_db = d', sq_locks = L(sid := None)\<rparr>"
proof -
  note ok = sync_okD [OF inv]
  let ?S = "suspend_serving sha now captured_at captured_hash security error sid d"
  let ?g = "failed_pending now error"
  define d2 where "d2 = fail_pending now error vid ?S"
  have fin: "finish_background_job now rid (failed_finish summary error) d2 = Inr (out, d')"
    using run by (simp add: hybrid_fail_def d2_def)
  have suspend: "job_runs ?S = job_runs d" "next_uuid ?S = next_uuid d" "versions ?S = versions d"
    by (simp_all add: suspend_serving_def)
  have none: "find_version ?S i = None \<Longrightarrow> update_where (\<lambda>v. kv_id v = i) ?g (versions d) = versions d" for i
    using suspend(3) by (intro update_none) (auto simp: find_version_def find_row_None_iff)
  have d2: "job_runs d2 = job_runs d" "next_uuid d2 = next_uuid d" "sources d2 = sources ?S"
    using suspend by (simp_all add: d2_def fail_pending_def drop_members_def split: option.split)
  have vers: "versions d2 = (case vid of None \<Rightarrow> versions d | Some i \<Rightarrow> update_where (\<lambda>v. kv_id v = i) ?g (versions d))"
    using suspend none by (simp add: d2_def fail_pending_def drop_members_def split: option.split)
  have only: "only_run rid d d2" using d2(1) by (simp add: only_run_def)
  have running: "jr_status r = RUNNING_STATUS"
    by (rule finish_was_running [OF ok(1) only _ fin r(1)]) (use d2(1) in auto)
  have opened: "open_version d sid i" if "vid = Some i" for i
    using holder_open [OF inv lock _ _ running] find_run_Some [OF r(1)] r(2) that by simp
  have g: "version_update ?g" by (simp add: version_update_def failed_pending_def)
  have mono: "served d2 sid' j" if "served d sid' j" for sid' j
  proof (cases vid)
    case None
    with that show ?thesis by (simp add: served_def vers)
  next
    case (Some i)
    show ?thesis
      by (rule served_update [OF g _ _ that, of d2 i]) (use vers Some served_open [OF ok(2) opened [OF Some]] in simp_all)
  qed
  show ?thesis
  proof (rule hybrid_end_keeps [OF inv lock fin only d2(2)])
    show "versions_ok d2"
    proof (cases vid)
      case None
      with ok(2) d2 vers show ?thesis by (simp add: versions_ok_def)
    next
      case (Some i)
      show ?thesis by (rule versions_ok_update [OF ok(2) g, where i = i]) (use d2 vers Some in simp_all)
    qed
    show "serving_ok d2"
      by (rule serving_update [OF ok(4) mono d2(3) [unfolded suspend_serving_def, simplified]]) auto
    show "open_version d2 sid' j" if "sid' \<noteq> sid" "open_version d sid' j" for sid' j
    proof (cases vid)
      case None
      with that show ?thesis by (simp add: open_version_def vers)
    next
      case (Some i)
      have "j \<noteq> i" using open_version_same [OF ok(2) opened [OF Some]] that by blast
      then show ?thesis by (intro open_update_other [OF _ that(2), of _ i ?g]) (use vers Some in simp_all)
    qed
  qed
qed

lemma own_version_frame [simp]:
  "versions (own_version rid i d) = versions d" "sources (own_version rid i d) = sources d"
  "next_uuid (own_version rid i d) = next_uuid d"
  "job_runs (own_version rid i d) = update_where (\<lambda>r. jr_id r = rid) (\<lambda>r. r\<lparr>jr_version_id := Some i\<rparr>) (job_runs d)"
  by (simp_all add: own_version_def update_runs_def)

lemma member_frames [simp]:
  "versions (drop_members i d) = versions d" "sources (drop_members i d) = sources d" "job_runs (drop_members i d) = job_runs d"
  "next_uuid (drop_members i d) = next_uuid d" "versions (move_members i j d) = versions d"
  "sources (move_members i j d) = sources d" "job_runs (move_members i j d) = job_runs d"
  "next_uuid (move_members i j d) = next_uuid d" "sources (drop_version i d) = sources d"
  "job_runs (drop_version i d) = job_runs d" "next_uuid (drop_version i d) = next_uuid d"
  "versions (drop_version i d) = delete_where (\<lambda>v. kv_id v = i) (versions d)"
  by (simp_all add: drop_members_def move_members_def drop_version_def)

lemma place_build_frame:
  assumes "place_build now sid vid rid b d = (skipped, i, d1)"
  shows "sources d1 = sources d" and "next_uuid d1 = next_uuid d" and "only_run rid d d1"
    and "\<And>r. r \<in> set (job_runs d1) \<Longrightarrow> jr_id r = rid \<Longrightarrow> \<exists>x \<in> set (job_runs d). jr_id x = rid \<and> jr_status x = jr_status r"
proof -
  show "sources d1 = sources d" "next_uuid d1 = next_uuid d"
    using assms by (auto simp: place_build_def Let_def split: option.splits if_splits)
  have runs: "job_runs d1 = job_runs d \<or> (\<exists>j. job_runs d1 = update_where (\<lambda>r. jr_id r = rid) (\<lambda>r. r\<lparr>jr_version_id := Some j\<rparr>) (job_runs d))"
    using assms by (auto simp: place_build_def Let_def split: option.splits if_splits)
  then show "only_run rid d d1"
  proof
    assume "job_runs d1 = job_runs d"
    then show ?thesis by (simp add: only_run_def)
  next
    assume "\<exists>j. job_runs d1 = update_where (\<lambda>r. jr_id r = rid) (\<lambda>r. r\<lparr>jr_version_id := Some j\<rparr>) (job_runs d)"
    then show ?thesis by (auto intro: only_run_update)
  qed
  show "\<exists>x \<in> set (job_runs d). jr_id x = rid \<and> jr_status x = jr_status r" if r: "r \<in> set (job_runs d1)" "jr_id r = rid" for r
    using runs
  proof
    assume "job_runs d1 = job_runs d"
    with r show ?thesis by auto
  next
    assume "\<exists>j. job_runs d1 = update_where (\<lambda>r. jr_id r = rid) (\<lambda>r. r\<lparr>jr_version_id := Some j\<rparr>) (job_runs d)"
    then obtain j where j: "job_runs d1 = update_where (\<lambda>r. jr_id r = rid) (\<lambda>r. r\<lparr>jr_version_id := Some j\<rparr>) (job_runs d)" ..
    obtain x where "x \<in> set (job_runs d)" "r = (if jr_id x = rid then x\<lparr>jr_version_id := Some j\<rparr> else x)"
      using r(1) unfolding j by (rule in_updateE)
    with r(2) show ?thesis by (cases "jr_id x = rid") auto
  qed
qed

text \<open>Where the build lands, the version is served; nothing else that was served is lost.\<close>

lemma delete_version:
  assumes ok: "versions_ok d" and del: "versions d' = delete_where (\<lambda>v. kv_id v = vid) (versions d)" and nu: "next_uuid d' = next_uuid d"
  shows "versions_ok d'" and "\<And>sid j. served d sid j \<Longrightarrow> j \<noteq> vid \<Longrightarrow> served d' sid j"
    and "\<And>sid j. open_version d sid j \<Longrightarrow> j \<noteq> vid \<Longrightarrow> open_version d' sid j"
proof -
  have rows: "set (versions d') = {v \<in> set (versions d). kv_id v \<noteq> vid}" by (simp add: del set_delete)
  have "distinct (map kv_id (versions d'))"
    using ok by (simp add: del delete_where_def distinct_map_filter versions_ok_def)
  with ok rows nu show "versions_ok d'" by (simp add: versions_ok_def)
  show "served d' sid j" if "served d sid j" "j \<noteq> vid" for sid j
    using that rows unfolding served_def by blast
  show "open_version d' sid j" if "open_version d sid j" "j \<noteq> vid" for sid j
    using that rows unfolding open_version_def by blast
qed

lemma place_build_versions:
  assumes ok: "versions_ok d" and opened: "open_version d sid vid"
    and run: "place_build now sid vid rid b d = (skipped, i, d1)"
  shows "versions_ok d1 \<and> served d1 sid i \<and> (\<forall>sid' j. served d sid' j \<longrightarrow> served d1 sid' j)
    \<and> (\<forall>sid' j. sid' \<noteq> sid \<longrightarrow> open_version d sid' j \<longrightarrow> open_version d1 sid' j)"
proof -
  let ?g = "built_version now b"
  have g: "version_update ?g" "\<And>v. kv_status (?g v) = ''succeeded''"
    by (simp_all add: version_update_def built_version_def)
  have nu: "next_uuid d1 = next_uuid d" by (rule place_build_frame(2) [OF run])
  obtain v where v: "v \<in> set (versions d)" "kv_id v = vid" "kv_source_id v = sid" using opened by (auto simp: open_version_def)
  have not_vid: "j \<noteq> vid" if "served d sid' j \<or> (sid' \<noteq> sid \<and> open_version d sid' j)" for sid' j
    using that served_open [OF ok opened] open_version_same [OF ok opened] by blast
  show ?thesis
  proof (cases "find_row (same_revision sid vid b) (versions d)")
    case None
    with run have vers: "versions d1 = update_where (\<lambda>x. kv_id x = vid) ?g (versions d)" and i: "i = vid"
      by (auto simp: place_build_def)
    have "?g v \<in> set (versions d1)" unfolding vers set_update using v(1,2) by (intro rev_image_eqI [of v]) simp_all
    then have "served d1 sid i" using v g unfolding served_def version_update_def i by fastforce
    moreover have "versions_ok d1" using versions_ok_update [OF ok g(1) vers] nu by simp
    moreover have "served d1 sid' j" if "served d sid' j" for sid' j
      by (rule served_update [OF g(1) vers _ that]) (use g(2) in simp)
    moreover have "open_version d1 sid' j" if "sid' \<noteq> sid" "open_version d sid' j" for sid' j
      using open_update_other [OF vers that(2)] not_vid that by blast
    ultimately show ?thesis by blast
  next
    case (Some e)
    note e = find_row_Some [OF Some, unfolded same_revision_def]
    define dd where "dd = drop_version vid d"
    have dd: "versions dd = delete_where (\<lambda>x. kv_id x = vid) (versions d)" "next_uuid dd = next_uuid d" by (simp_all add: dd_def)
    note del = delete_version [OF ok dd]
    have e_dd: "e \<in> set (versions dd)" using e by (simp add: dd delete_where_def)
    show ?thesis
    proof (cases "kv_status e = ''succeeded''")
      case True
      with run Some have "i = kv_id e" and same: "versions d1 = versions dd" by (auto simp: place_build_def Let_def dd)
      moreover have "served dd sid (kv_id e)" using e e_dd True by (auto simp: served_def)
      ultimately show ?thesis
        using del not_vid nu dd(2) by (simp add: served_def open_version_def versions_ok_def) blast
    next
      case False
      with run Some have i: "i = kv_id e" and put: "versions d1 = versions (put_version (?g e) dd)"
        by (auto simp: place_build_def Let_def dd put_version_def)
      have "versions d1 = update_where (\<lambda>x. kv_id x = kv_id e) ?g (versions dd)"
        unfolding put by (rule put_version_update) (use del(1) e_dd g(1) in \<open>simp_all add: versions_ok_def version_update_def\<close>)
      note vers = this
      have "?g e \<in> set (versions d1)" unfolding vers set_update using e_dd by (intro rev_image_eqI [of e]) simp_all
      then have "served d1 sid i" using e g unfolding served_def version_update_def i by fastforce
      moreover have "versions_ok d1" using versions_ok_update [OF del(1) g(1) vers] nu dd(2) by simp
      moreover have "served d1 sid' j" if "served d sid' j" for sid' j
        by (rule served_update [OF g(1) vers _ del(2) [OF that]]) (use g(2) not_vid that in auto)
      moreover have "open_version d1 sid' j" if o: "sid' \<noteq> sid" "open_version d sid' j" for sid' j
      proof (rule open_update_other [OF vers del(3) [OF o(2)]])
        show "j \<noteq> vid" using not_vid o by blast
        show "j \<noteq> kv_id e" using o e the_version [OF ok, of e] unfolding open_version_def by blast
      qed
      ultimately show ?thesis by blast
    qed
  qed
qed

lemma serve_version_frame [simp]:
  "versions (serve_version sid i d) = versions d" "job_runs (serve_version sid i d) = job_runs d"
  "next_uuid (serve_version sid i d) = next_uuid d"
  by (simp_all add: serve_version_def)

lemma hybrid_promote_keeps:
  assumes inv: "sync_ok \<lparr>sq_db = d, sq_locks = L\<rparr>" and lock: "L sid = Some rid"
    and r: "find_run d rid = Some r" "jr_version_id r = Some vid"
    and run: "hybrid_promote sha now captured_at captured_hash sid vid rid b timings d = Inr (out, d')"
  shows "sync_ok \<lparr>sq_db = d', sq_locks = L(sid := None)\<rparr>"
proof -
  note ok = sync_okD [OF inv]
  obtain skipped i d1 where place: "place_build now sid vid rid b d = (skipped, i, d1)" by (metis prod_cases3)
  obtain args out' where fin: "finish_background_job now rid args (serve_version sid i d1) = Inr (out', d')"
    using run place
    by (auto simp: hybrid_promote_def sync_error_def result_map_Inr_iff Let_def split: option.splits if_splits)
  note frame = place_build_frame [OF place]
  have only: "only_run rid d (serve_version sid i d1)" using frame(3) by (simp add: only_run_def)
  have running: "jr_status r = RUNNING_STATUS"
    by (rule finish_was_running [OF ok(1) only _ fin r(1)]) (use frame(4) in simp)
  have opened: "open_version d sid vid"
    using holder_open [OF inv lock _ _ running r(2)] find_run_Some [OF r(1)] by simp
  note land = place_build_versions [OF ok(2) opened place]
  show ?thesis
  proof (rule hybrid_end_keeps [OF inv lock fin only])
    show "next_uuid (serve_version sid i d1) = next_uuid d" using frame(2) by simp
    show "versions_ok (serve_version sid i d1)" using land by (simp add: versions_ok_def)
    show "open_version (serve_version sid i d1) sid' j" if "sid' \<noteq> sid" "open_version d sid' j" for sid' j
      using land that by (simp add: open_version_def)
    show "serving_ok (serve_version sid i d1)"
    proof (rule serving_update [OF ok(4)])
      show "served (serve_version sid i d1) sid' j" if "served d sid' j" for sid' j
        using land that by (simp add: served_def)
      show "sources (serve_version sid i d1) = update_where (\<lambda>s. ks_id s = sid)
          (\<lambda>s. s\<lparr>ks_current_version := Some i, ks_serving_suspended_at := None, ks_serving_suspension_reason := None\<rparr>) (sources d)"
        using frame(1) by (simp add: serve_version_def)
    qed (use land in \<open>auto simp: served_def\<close>)
  qed
qed

section \<open>Every step keeps the invariant\<close>

lemma jobs_keep:
  assumes "job_step\<^sup>*\<^sup>* d d'" and "runs_ok d" and "versions_ok d" and "queued_fresh d" and "serving_ok d" and "locks_ok d L"
  shows "runs_ok d' \<and> versions_ok d' \<and> queued_fresh d' \<and> serving_ok d' \<and> locks_ok d' L"
  using assms
proof (induction rule: rtranclp_induct)
  case (step y z)
  with job_step_follows follow_keeps job_step_keeps show ?case by blast
qed simp

lemma claim_parts:
  assumes "claim_background_job now i d = Inr (r, d')"
  obtains r0 where "find_run d i = Some r0" "jr_status r0 = QUEUED_STATUS"
    "r = r0\<lparr>jr_status := RUNNING_STATUS, jr_started_at := now, jr_heartbeat_at := Some now\<rparr>"
    "d' = update_runs (\<lambda>y. jr_id y = i) (\<lambda>_. r) d"
  using assms by (auto simp: claim_background_job_def Let_def split: option.splits if_splits)

lemma finish_and_raise_steps:
  assumes "finish_and_raise now rid args msg d = (res, d')"
  shows "job_step\<^sup>*\<^sup>* d d'" and "\<exists>e. res = Inl e"
  using assms job_step.finish [of now rid args d]
  by (auto simp: finish_and_raise_def sync_error_def split: sum.splits)

lemma open_run_steps:
  assumes "open_run now sid trigger queued d = (res, d')" and fresh: "queued_fresh d"
  shows "job_step\<^sup>*\<^sup>* d d' \<and> (\<forall>run. res = Inr run \<longrightarrow> run \<in> set (job_runs d') \<and> jr_status run = RUNNING_STATUS
           \<and> jr_source_id run = Some sid \<and> jr_version_id run = None)"
proof (cases queued)
  case None
  show ?thesis
  proof (cases "find_source d sid")
    case none: None
    with assms None show ?thesis by (auto simp: open_run_def sync_error_def)
  next
    case (Some s)
    have sid: "ks_id s = sid" using find_row_Some [OF Some [unfolded find_source_def]] by simp
    let ?args = "\<lparr>ja_job_type = SYNC_JOB_TYPE, ja_scope = Some (ks_canonical_alias s), ja_trigger = Some trigger,
                    ja_source_id = Some (ks_id s), ja_version_id = None, ja_summary = Some [(''phase'', PStr ''resolve_ref'')]\<rparr>"
    show ?thesis
    proof (cases "start_background_job now ?args None d")
      case (Inl e)
      with assms None Some show ?thesis by (auto simp: open_run_def)
    next
      case (Inr rd)
      then obtain run d1 where start: "start_background_job now ?args None d = Inr (run, d1)" by (cases rd) auto
      then have "run \<in> set (job_runs d1)" "jr_status run = RUNNING_STATUS" "jr_source_id run = Some sid" "jr_version_id run = None"
        using sid by (auto simp: start_background_job_def add_run_def Let_def insert_row_def new_run_def split: if_splits)
      moreover have "res = Inr run" "d' = d1" using assms(1) None Some start by (auto simp: open_run_def)
      ultimately show ?thesis using job_step.start [OF start] by auto
    qed
  qed
next
  case (Some q)
  show ?thesis
  proof (cases "claim_background_job now q d")
    case (Inl e)
    with assms Some show ?thesis by (auto simp: open_run_def)
  next
    case (Inr rd)
    then obtain run d1 where claim: "claim_background_job now q d = Inr (run, d1)" by (cases rd) auto
    then obtain r0 where r0: "find_run d q = Some r0" "jr_status r0 = QUEUED_STATUS"
      and run: "run = r0\<lparr>jr_status := RUNNING_STATUS, jr_started_at := now, jr_heartbeat_at := Some now\<rparr>"
      and d1: "d1 = update_runs (\<lambda>y. jr_id y = q) (\<lambda>_. run) d"
      by (rule claim_parts)
    have claimed: "job_step\<^sup>*\<^sup>* d d1" using job_step.claim [OF claim] by simp
    have m: "r0 \<in> set (job_runs d)" "jr_id r0 = q" using find_run_Some [OF r0(1)] by simp_all
    have mem: "run \<in> set (job_runs d1)"
      unfolding d1 update_runs_def using m by (simp add: set_update rev_image_eqI [of r0])
    have v: "jr_version_id run = None" using fresh m r0(2) by (auto simp: queued_fresh_def run)
    show ?thesis
    proof (cases "jr_job_type run \<noteq> SYNC_JOB_TYPE \<or> jr_source_id run \<noteq> Some sid \<or> jr_trigger run \<noteq> Some trigger")
      case True
      then have "finish_and_raise now (jr_id run) (failed_finish [(''failure_phase'', PStr ''claim'')] claim_mismatch) claim_mismatch d1 = (res, d')"
        using assms(1) Some claim by (simp add: open_run_def)
      from finish_and_raise_steps [OF this] claimed show ?thesis by auto
    next
      case False
      then have "res = Inr run" "d' = d1" using assms(1) Some claim by (auto simp: open_run_def)
      with False claimed mem v show ?thesis by (simp add: run)
    qed
  qed
qed

lemma open_enabled_steps:
  assumes "open_enabled now sid trigger queued d = (res, d')" and "queued_fresh d"
  shows "job_step\<^sup>*\<^sup>* d d' \<and> (\<forall>s run. res = Inr (s, run) \<longrightarrow> find_source d sid = Some s \<and> run \<in> set (job_runs d')
           \<and> jr_status run = RUNNING_STATUS \<and> jr_source_id run = Some sid \<and> jr_version_id run = None)"
proof -
  obtain res1 d1 where first: "open_run now sid trigger queued d = (res1, d1)" by fastforce
  note steps = open_run_steps [OF first assms(2)]
  show ?thesis
  proof (cases res1)
    case (Inl e)
    with assms(1) first steps show ?thesis by (auto simp: open_enabled_def)
  next
    case (Inr run)
    have refused: "?thesis" if "finish_and_raise now (jr_id run) args msg d1 = (res, d')" for args msg
      using finish_and_raise_steps [OF that] steps by auto
    show ?thesis
    proof (cases "find_source d sid")
      case None
      with assms(1) first Inr refused show ?thesis by (simp add: open_enabled_def Let_def)
    next
      case (Some s)
      show ?thesis
      proof (cases "ks_enabled s")
        case True
        with Some assms(1) first Inr steps show ?thesis by (auto simp: open_enabled_def Let_def)
      next
        case False
        with Some assms(1) first Inr
        have "finish_and_raise now (jr_id run) (failed_finish [(''failure_phase'', PStr ''claim'')] (unavailable_text (Some s) sid))
            (unavailable_text (Some s) sid) d1 = (res, d')"
          by (simp add: open_enabled_def Let_def)
        then show ?thesis by (rule refused)
      qed
    qed
  qed
qed

lemma sync_step_keeps:
  assumes "sync_step x y" and "sync_ok x"
  shows "sync_ok y"
  using assms
proof (induction rule: sync_step.induct)
  case (open_ok L sid now trigger queued d s run d')
  note ok = sync_okD [OF open_ok.prems]
  have steps: "job_step\<^sup>*\<^sup>* d d'" and run: "run \<in> set (job_runs d')" "jr_status run = RUNNING_STATUS"
      "jr_source_id run = Some sid" "jr_version_id run = None"
    using open_enabled_steps [OF open_ok.hyps(2) ok(3)] by auto
  have later: "runs_ok d' \<and> versions_ok d' \<and> queued_fresh d' \<and> serving_ok d' \<and> locks_ok d' L"
    by (rule jobs_keep [OF steps ok])
  have "holder_ok d' sid run" using run by (simp add: holder_ok_def job_statuses)
  have "\<exists>r \<in> set (job_runs d'). jr_id r = rid' \<and> holder_ok d' sid' r" if l: "(L(sid \<mapsto> jr_id run)) sid' = Some rid'" for sid' rid'
  proof (cases "sid' = sid")
    case True
    with l have "rid' = jr_id run" by simp
    with True run(1) \<open>holder_ok d' sid run\<close> show ?thesis by blast
  next
    case False
    with l have "L sid' = Some rid'" by simp
    with later show ?thesis unfolding locks_ok_def by blast
  qed
  then have "locks_ok d' (L(sid \<mapsto> jr_id run))" unfolding locks_ok_def by blast
  with later show ?case by (simp add: sync_ok_def)
next
  case (open_refused L sid now trigger queued d e d')
  note ok = sync_okD [OF open_refused.prems]
  have "job_step\<^sup>*\<^sup>* d d'" using open_enabled_steps [OF open_refused.hyps(2) ok(3)] by simp
  from jobs_keep [OF this ok] show ?case by (simp add: sync_ok_def)
next
  case (skip L s rid d commit config_hash v now timings)
  show ?case by (rule skip_keeps [OF skip.prems skip.hyps])
next
  case (begin_new L s rid existing d commit config_hash now i d')
  show ?case by (rule begin_keeps [OF begin_new.prems begin_new.hyps])
next
  case (promote L sid rid now vid args commit config_hash b d v d')
  show ?case by (rule promote_keeps [OF promote.prems promote.hyps])
next
  case (fail L sid rid now vid fargs d0 v d' d commit config_hash b)
  show ?case by (rule fail_keeps [OF fail.prems fail.hyps])
next
  case (hybrid_begin L sid rid now config_hash d i d')
  show ?case by (rule hybrid_begin_keeps [OF hybrid_begin.prems hybrid_begin.hyps])
next
  case (hybrid_promote L sid rid d r vid sha now captured_at captured_hash build timings out d')
  show ?case by (rule hybrid_promote_keeps [OF hybrid_promote.prems hybrid_promote.hyps])
next
  case (hybrid_fail L sid rid d r vid sha now captured_at captured_hash security error summary out d')
  show ?case by (rule hybrid_fail_keeps [OF hybrid_fail.prems hybrid_fail.hyps])
next
  case (release d L sid)
  then show ?case by (simp add: sync_ok_def locks_ok_drop)
next
  case (job d d' L)
  then have "job_step\<^sup>*\<^sup>* d d'" by simp
  from jobs_keep [OF this sync_okD [OF job.prems]] show ?case by (simp add: sync_ok_def)
next
  case (edit f d L P)
  note ok = sync_okD [OF edit.prems]
  let ?d = "d\<lparr>sources := update_where P f (sources d)\<rparr>"
  have "serving_ok ?d"
    by (rule serving_update [OF ok(4), where P = P and f = f]) (use edit.hyps in \<open>auto simp: served_def\<close>)
  moreover have "holder_ok ?d = holder_ok d" by (intro ext) (simp add: holder_ok_def open_version_def)
  ultimately show ?case
    using ok by (simp add: sync_ok_def runs_ok_def versions_ok_def queued_fresh_def locks_ok_def)
qed

section \<open>The code-graph run as a sequence of steps\<close>

definition flow_ok :: "db \<Rightarrow> (uuid \<Rightarrow> uuid option) \<Rightarrow> uuid \<Rightarrow> 's sync_flow \<Rightarrow> bool" where
  "flow_ok d L sid flow \<longleftrightarrow>
     (case flow of
        Go cx \<Rightarrow> cx_db cx = cx_committed cx \<and> sync_step\<^sup>*\<^sup>* \<lparr>sq_db = d, sq_locks = L\<rparr> \<lparr>sq_db = cx_db cx, sq_locks = L\<rparr>
      | Done r cx \<Rightarrow> sync_step\<^sup>*\<^sup>* \<lparr>sq_db = d, sq_locks = L\<rparr> \<lparr>sq_db = cx_db cx, sq_locks = L(sid := None)\<rparr>
      | Raised e cx \<Rightarrow> sync_step\<^sup>*\<^sup>* \<lparr>sq_db = d, sq_locks = L\<rparr> \<lparr>sq_db = cx_committed cx, sq_locks = L\<rparr>
          \<and> (cx_db cx = cx_committed cx
               \<or> (\<exists>i commit h b. cx_version cx = Some i \<and> cx_db cx = attach_version i commit h b (cx_committed cx))))"

lemma flow_and_then:
  assumes "flow_ok d L sid flow"
    and "\<And>cx. flow = Go cx \<Longrightarrow> flow_ok d L sid (Go cx) \<Longrightarrow> flow_ok d L sid (f cx)"
  shows "flow_ok d L sid (and_then flow f)"
  using assms by (cases flow) simp_all

lemma flow_Go [simp]:
  "flow_ok d L sid (Go (cx\<lparr>cx_commit := c\<rparr>)) = flow_ok d L sid (Go cx)"
  "flow_ok d L sid (Go (cx\<lparr>cx_version := v\<rparr>)) = flow_ok d L sid (Go cx)"
  "flow_ok d L sid (Go (cx\<lparr>cx_phase := p\<rparr>)) = flow_ok d L sid (Go cx)"
  "flow_ok d L sid (Go (cx\<lparr>cx_store := st\<rparr>)) = flow_ok d L sid (Go cx)"
  "flow_ok d L sid (Go (time_phase tools cx)) = flow_ok d L sid (Go cx)"
  by (simp_all add: flow_ok_def time_phase_def)

lemma flow_Raised: "flow_ok d L sid (Go cx) \<Longrightarrow> flow_ok d L sid (Raised e cx)"
  by (auto simp: flow_ok_def)

lemma flow_step:
  assumes "flow_ok d L sid (Go cx)" and "sync_step \<lparr>sq_db = cx_db cx, sq_locks = L\<rparr> \<lparr>sq_db = d', sq_locks = L\<rparr>"
  shows "flow_ok d L sid (Go (commit_db d' cx))"
  using assms unfolding flow_ok_def commit_db_def by (auto intro: rtranclp.rtrancl_into_rtrancl)

lemma flow_done:
  assumes "flow_ok d L sid (Go cx)" and "sync_step \<lparr>sq_db = cx_db cx, sq_locks = L\<rparr> \<lparr>sq_db = d', sq_locks = L(sid := None)\<rparr>"
  shows "flow_ok d L sid (Done r (commit_db d' cx))"
  using assms unfolding flow_ok_def commit_db_def by (auto intro: rtranclp.rtrancl_into_rtrancl)

lemma resolve_flow: "flow_ok d L sid (Go cx) \<Longrightarrow> flow_ok d L sid (resolve_phase tools c s cx)"
  by (auto simp: resolve_phase_def intro: flow_Raised split: sum.split)

lemma version_flow:
  assumes "L (ks_id s) = Some rid" and "flow_ok d L (ks_id s) (Go cx)"
  shows "flow_ok d L (ks_id s) (version_phase tools s rid h cx)"
proof -
  let ?ex = "existing_version (cx_db cx) s (cx_commit cx) h"
  obtain i d' where beg: "begin_version (sn_now tools 1) s ?ex rid (cx_commit cx) h (cx_db cx) = (i, d')" by fastforce
  have fresh: "flow_ok d L (ks_id s) (Go (commit_db d' (cx\<lparr>cx_version := Some i\<rparr>)))"
    if "\<forall>v. ?ex = Some v \<longrightarrow> kv_status v \<noteq> ''succeeded''"
    by (rule flow_step) (use assms that in \<open>simp_all add: sync_step.begin_new [where L = L and s = s, OF assms(1) refl that beg]\<close>)
  show ?thesis
  proof (cases ?ex)
    case None
    with fresh beg show ?thesis by (simp add: version_phase_def Let_def)
  next
    case (Some v)
    show ?thesis
    proof (cases "kv_status v = ''succeeded''")
      case True
      have "flow_ok d L (ks_id s) (Done r (commit_db (skip_version (sn_now tools 1) s (kv_id v) rid (cx_commit cx) (cx_timings cx) (cx_db cx)) cx))" for r
        by (rule flow_done [OF assms(2) sync_step.skip [where L = L and s = s, OF assms(1) Some True]])
      with Some True show ?thesis by (simp add: version_phase_def Let_def)
    next
      case False
      with Some fresh beg show ?thesis by (simp add: version_phase_def Let_def)
    qed
  qed
qed

lemma enter_flow: "flow_ok d L sid (Go cx) \<Longrightarrow> flow_ok d L sid (enter_phase tools n p rid cx)"
proof -
  assume cx: "flow_ok d L sid (Go cx)"
  let ?beat = "heartbeat_background_job (sn_now tools n) rid
    (Some [(''phase'', PStr p), (''commit_sha'', PStr (cx_commit cx)), (''phase_timings_sec'', PDict (cx_timings cx))]) (cx_db cx)"
  show ?thesis
  proof (cases ?beat)
    case (Inl e)
    with cx show ?thesis by (simp add: enter_phase_def Let_def flow_Raised)
  next
    case (Inr d')
    have "flow_ok d L sid (Go (commit_db d' (cx\<lparr>cx_phase := p\<rparr>)))"
      by (rule flow_step) (use cx sync_step.job [OF job_step.beat [OF Inr]] in simp_all)
    with Inr show ?thesis by (simp add: enter_phase_def Let_def)
  qed
qed

lemma extract_flow: "flow_ok d L sid (Go cx) \<Longrightarrow> flow_ok d L sid (extract_phase tools cx)"
  by (auto simp: extract_phase_def intro: flow_Raised split: sum.split)

lemma publish_flow:
  assumes lock: "L (ks_id s) = Some rid" and cx: "flow_ok d L (ks_id s) (Go cx)" and own: "cx_version cx \<noteq> None"
  shows "flow_ok d L (ks_id s) (publish_phase tools c s rid h b cx)"
proof -
  obtain res st where pub: "publish_knowledge_source_bundle (sn_store tools) (sn_bundle_tools tools) (sn_max_bytes tools) b
      (ic_bucket c) (cx_store cx) = (res, st)" by fastforce
  show ?thesis
  proof (cases res)
    case (Inl e)
    with pub cx show ?thesis by (simp add: publish_phase_def flow_Raised)
  next
    case (Inr p)
    obtain i where i: "cx_version cx = Some i" using own by blast
    define cx1 where "cx1 = time_phase tools (cx\<lparr>cx_store := st\<rparr>)"
    have cx1: "flow_ok d L (ks_id s) (Go cx1)" "cx_version cx1 = Some i" using cx i by (simp_all add: cx1_def) (simp add: time_phase_def)
    let ?a = "attach_version i (cx_commit cx1) h b (cx_db cx1)"
    let ?args = "\<lparr>pa_publication = p, pa_file_count = bn_file_count b, pa_node_count = bn_node_count b,
                 pa_edge_count = bn_edge_count b, pa_timings = cx_timings cx1, pa_warnings = None, pa_finished_at = None\<rparr>"
    let ?res = "promote_knowledge_source_version (sn_now tools 5) (ks_id s) i rid ?args ?a"
    show ?thesis
    proof (cases ?res)
      case err: (Inl e)
      have "flow_ok d L (ks_id s) (Raised e (cx1\<lparr>cx_db := ?a\<rparr>))"
        using cx1 unfolding flow_ok_def sync_flow.case by auto
      with err pub Inr cx1(2) show ?thesis by (simp add: publish_phase_def Let_def cx1_def [symmetric])
    next
      case out: (Inr vd)
      obtain v d' where vd: "vd = (v, d')" by fastforce
      have "flow_ok d L (ks_id s) (Done r (commit_db d' cx1))" for r
        by (rule flow_done [OF cx1(1) sync_step.promote [where L = L and sid = "ks_id s" and vid = i, OF lock out [unfolded vd]]])
      with out vd pub Inr cx1(2) show ?thesis by (simp add: publish_phase_def Let_def cx1_def [symmetric])
    qed
  qed
qed

text \<open>From the second phase on the run has a version.\<close>

lemma version_phase_own: "version_phase tools s rid h cx = Go cx' \<Longrightarrow> cx_version cx' \<noteq> None"
  by (auto simp: version_phase_def Let_def commit_db_def split: option.splits if_splits prod.splits)

lemma enter_phase_own: "enter_phase tools n p rid cx = Go cx' \<Longrightarrow> cx_version cx' = cx_version cx"
  by (auto simp: enter_phase_def Let_def commit_db_def split: sum.splits)

lemma extract_phase_own: "extract_phase tools cx = Go cx' \<Longrightarrow> cx_version cx' = cx_version cx"
  by (auto simp: extract_phase_def time_phase_def split: sum.splits)

lemma and_then_Go: "and_then flow f = Go cx' \<longleftrightarrow> (\<exists>cx. flow = Go cx \<and> f cx = Go cx')"
  by (cases flow) simp_all

lemma bundle_flow:
  assumes lock: "L (ks_id s) = Some rid" and cx: "flow_ok d L (ks_id s) (Go cx)" and own: "cx_version cx \<noteq> None"
  shows "flow_ok d L (ks_id s) (bundle_phase tools c s rid h cx)"
proof (cases "sn_bundle tools (cx_commit cx) h")
  case (Inl e)
  with cx show ?thesis by (simp add: bundle_phase_def flow_Raised)
next
  case (Inr b)
  have "flow_ok d L (ks_id s) (and_then (enter_phase tools 4 ''publish'' rid (time_phase tools cx)) (publish_phase tools c s rid h b))"
  proof (rule flow_and_then)
    show "flow_ok d L (ks_id s) (enter_phase tools 4 ''publish'' rid (time_phase tools cx))"
      by (rule enter_flow) (use cx in simp)
    fix cx' assume go: "enter_phase tools 4 ''publish'' rid (time_phase tools cx) = Go cx'" and ok: "flow_ok d L (ks_id s) (Go cx')"
    show "flow_ok d L (ks_id s) (publish_phase tools c s rid h b cx')"
      by (rule publish_flow [OF lock ok]) (use enter_phase_own [OF go] own in \<open>simp add: time_phase_def\<close>)
  qed
  with Inr show ?thesis by (simp add: bundle_phase_def)
qed

lemma body_flow:
  assumes lock: "L (ks_id s) = Some rid" and cx: "flow_ok d L (ks_id s) (Go cx)"
  shows "flow_ok d L (ks_id s) (code_graph_body tools c s rid cx)"
proof -
  let ?h = "extraction_config_hash (bt_sha (sn_bundle_tools tools)) s"
  let ?F1 = "resolve_phase tools c s cx"
  let ?F2 = "and_then ?F1 (version_phase tools s rid ?h)"
  let ?F3 = "and_then ?F2 (enter_phase tools 2 ''extract'' rid)"
  let ?F4 = "and_then ?F3 (extract_phase tools)"
  let ?F5 = "and_then ?F4 (enter_phase tools 3 ''bundle'' rid)"
  have ok: "flow_ok d L (ks_id s) ?F2"
    by (rule flow_and_then [OF resolve_flow [OF cx]]) (rule version_flow [where L = L and s = s, OF lock])
  have ok3: "flow_ok d L (ks_id s) ?F3" by (rule flow_and_then [OF ok]) (rule enter_flow)
  have ok4: "flow_ok d L (ks_id s) ?F4" by (rule flow_and_then [OF ok3]) (rule extract_flow)
  have ok5: "flow_ok d L (ks_id s) ?F5" by (rule flow_and_then [OF ok4]) (rule enter_flow)
  have "flow_ok d L (ks_id s) (and_then ?F5 (bundle_phase tools c s rid ?h))"
  proof (rule flow_and_then [OF ok5])
    fix cx' assume go: "?F5 = Go cx'" and "flow_ok d L (ks_id s) (Go cx')"
    obtain cx2 cx3 x y where path: "version_phase tools s rid ?h cx2 = Go cx3" "enter_phase tools 2 ''extract'' rid cx3 = Go x"
        "extract_phase tools x = Go y" "enter_phase tools 3 ''bundle'' rid y = Go cx'"
      using go unfolding and_then_Go by blast
    have "cx_version cx' \<noteq> None"
      using version_phase_own [OF path(1)] enter_phase_own [OF path(2)] extract_phase_own [OF path(3)] enter_phase_own [OF path(4)]
      by simp
    with \<open>flow_ok d L (ks_id s) (Go cx')\<close> show "flow_ok d L (ks_id s) (bundle_phase tools c s rid ?h cx')"
      by (rule bundle_flow [where L = L and s = s, OF lock])
  qed
  then show ?thesis by (simp add: code_graph_body_def Let_def)
qed

lemma publish_phase_not_Go: "publish_phase tools c s rid h b cx \<noteq> Go cx'"
  by (simp add: publish_phase_def Let_def split: prod.split sum.split)

lemma body_not_Go: "code_graph_body tools c s rid cx \<noteq> Go cx'"
proof
  assume "code_graph_body tools c s rid cx = Go cx'"
  then obtain h cx1 where "bundle_phase tools c s rid h cx1 = Go cx'" by (auto simp: code_graph_body_def Let_def and_then_Go)
  then show False
    by (auto simp: bundle_phase_def and_then_Go publish_phase_not_Go split: sum.splits)
qed

lemma release_after:
  "sync_step\<^sup>*\<^sup>* x \<lparr>sq_db = d, sq_locks = L\<rparr> \<Longrightarrow> sync_step\<^sup>*\<^sup>* x \<lparr>sq_db = d, sq_locks = L(sid := None)\<rparr>"
  by (erule rtranclp.rtrancl_into_rtrancl) (rule sync_step.release)

lemma handle_flow:
  assumes lock: "L (ks_id s) = Some rid" and flow: "flow_ok d L (ks_id s) (Raised e cx)"
    and run: "handle_failure tools s rid e cx = (res, d', st')"
  shows "sync_step\<^sup>*\<^sup>* \<lparr>sq_db = d, sq_locks = L\<rparr> \<lparr>sq_db = d', sq_locks = L(ks_id s := None)\<rparr>"
proof -
  let ?c = "cx_committed cx"
  have steps: "sync_step\<^sup>*\<^sup>* \<lparr>sq_db = d, sq_locks = L\<rparr> \<lparr>sq_db = ?c, sq_locks = L\<rparr>"
    and view: "cx_db cx = ?c \<or> (\<exists>i commit h b. cx_version cx = Some i \<and> cx_db cx = attach_version i commit h b ?c)"
    using flow by (simp_all add: flow_ok_def)
  have stay: "sync_step\<^sup>*\<^sup>* \<lparr>sq_db = d, sq_locks = L\<rparr> \<lparr>sq_db = ?c, sq_locks = L(ks_id s := None)\<rparr>"
    by (rule release_after [where L = L, OF steps])
  show ?thesis
  proof (cases "cx_version cx")
    case None
    with view have db: "cx_db cx = ?c" by simp
    from run None obtain args where
      "(d' = ?c) \<or> (\<exists>r. finish_background_job (sn_now tools 6) rid args ?c = Inr (r, d'))"
      by (auto simp: handle_failure_def time_phase_def Let_def db split: sum.splits)
    then show ?thesis
    proof
      assume "d' = ?c"
      with stay show ?thesis by simp
    next
      assume "\<exists>r. finish_background_job (sn_now tools 6) rid args ?c = Inr (r, d')"
      then obtain r where "finish_background_job (sn_now tools 6) rid args ?c = Inr (r, d')" ..
      from sync_step.job [OF job_step.finish [OF this], of L] steps
      have "sync_step\<^sup>*\<^sup>* \<lparr>sq_db = d, sq_locks = L\<rparr> \<lparr>sq_db = d', sq_locks = L\<rparr>" by (rule rtranclp.rtrancl_into_rtrancl [rotated])
      then show ?thesis by (rule release_after [where L = L])
    qed
  next
    case (Some i)
    from run Some obtain fargs where
      "(d' = ?c) \<or> (\<exists>v. fail_knowledge_source_version (sn_now tools 6) (ks_id s) i rid fargs (cx_db cx) = Inr (v, d'))"
      by (auto simp: handle_failure_def time_phase_def Let_def split: sum.splits)
    then show ?thesis
    proof
      assume "d' = ?c"
      with stay show ?thesis by simp
    next
      assume "\<exists>v. fail_knowledge_source_version (sn_now tools 6) (ks_id s) i rid fargs (cx_db cx) = Inr (v, d')"
      then obtain v where fail: "fail_knowledge_source_version (sn_now tools 6) (ks_id s) i rid fargs (cx_db cx) = Inr (v, d')" ..
      obtain commit h b where "cx_db cx = ?c \<or> cx_db cx = attach_version i commit h b ?c" using view Some by auto
      from sync_step.fail [where L = L and sid = "ks_id s", OF lock fail this] steps
      show ?thesis by (rule rtranclp.rtrancl_into_rtrancl [rotated])
    qed
  qed
qed

section \<open>What a run does to the sources\<close>

definition pointed :: "knowledge_source list \<Rightarrow> uuid \<Rightarrow> uuid \<Rightarrow> knowledge_source list" where
  "pointed ss sid i = map (\<lambda>x. if ks_id x = sid then x\<lparr>ks_current_version := Some i\<rparr> else x) ss"

definition keeps_sources :: "knowledge_source list \<Rightarrow> uuid \<Rightarrow> 's sync_flow \<Rightarrow> bool" where
  "keeps_sources ss sid flow \<longleftrightarrow>
     (case flow of
        Go cx \<Rightarrow> sources (cx_db cx) = ss \<and> sources (cx_committed cx) = ss
      | Raised e cx \<Rightarrow> sources (cx_db cx) = ss \<and> sources (cx_committed cx) = ss
      | Done r cx \<Rightarrow> sources (cx_db cx) = pointed ss sid (sy_version_id r))"

lemma keeps_and_then:
  assumes "keeps_sources ss sid flow" and "\<And>cx. keeps_sources ss sid (Go cx) \<Longrightarrow> keeps_sources ss sid (f cx)"
  shows "keeps_sources ss sid (and_then flow f)"
  using assms by (cases flow) simp_all

lemma keeps_resolve: "keeps_sources ss sid (Go cx) \<Longrightarrow> keeps_sources ss sid (resolve_phase tools c s cx)"
  by (auto simp: resolve_phase_def keeps_sources_def time_phase_def split: sum.split)

lemma begin_version_sources: "begin_version now s ex rid commit h d = (i, d') \<Longrightarrow> sources d' = sources d"
  by (auto simp: begin_version_def Let_def split: option.splits)

lemma keeps_version: "keeps_sources ss (ks_id s) (Go cx) \<Longrightarrow> keeps_sources ss (ks_id s) (version_phase tools s rid h cx)"
proof -
  assume cx: "keeps_sources ss (ks_id s) (Go cx)"
  obtain i d' where beg: "begin_version (sn_now tools 1) s (existing_version (cx_db cx) s (cx_commit cx) h) rid (cx_commit cx) h (cx_db cx) = (i, d')"
    by fastforce
  have fresh: "keeps_sources ss (ks_id s) (Go (commit_db d' (cx\<lparr>cx_version := Some i\<rparr>)))"
    using cx begin_version_sources [OF beg] by (simp add: keeps_sources_def commit_db_def)
  show ?thesis
  proof (cases "existing_version (cx_db cx) s (cx_commit cx) h")
    case None
    with beg fresh show ?thesis by (simp add: version_phase_def Let_def)
  next
    case (Some v)
    with beg fresh cx show ?thesis
      by (simp add: version_phase_def Let_def)
        (simp add: keeps_sources_def commit_db_def skip_version_def update_runs_def set_current_def pointed_def update_where_def)
  qed
qed

lemma keeps_enter: "keeps_sources ss sid (Go cx) \<Longrightarrow> keeps_sources ss sid (enter_phase tools n p rid cx)"
  by (auto simp: enter_phase_def Let_def keeps_sources_def commit_db_def heartbeat_background_job_def update_runs_def split: if_splits)

lemma keeps_extract: "keeps_sources ss sid (Go cx) \<Longrightarrow> keeps_sources ss sid (extract_phase tools cx)"
  by (auto simp: extract_phase_def keeps_sources_def time_phase_def split: sum.split)

lemma promote_sources:
  assumes "promote_knowledge_source_version now sid vid rid args d = Inr (v', d')" and "distinct (map ks_id (sources d))"
  shows "sources d' = pointed (sources d) sid vid"
proof -
  obtain s v r c where rec: "locked_sync_records d sid vid rid = Inr (s, v, r)"
    and d': "d' = put_run (promoted_run args c v r) (put_source (s\<lparr>ks_current_version := Some (kv_id v)\<rparr>) (put_version v' d))"
    using assms(1) by (rule promote_parts)
  note m = locked_ok [OF rec]
  have "x = s" if "x \<in> set (sources d)" "ks_id x = sid" for x
    using that m assms(2) distinct_map_inj [of ks_id "sources d" x s] by simp
  with m show ?thesis
    by (auto simp: d' put_source_def pointed_def update_where_def)
qed

lemma keeps_publish:
  assumes "keeps_sources ss (ks_id s) (Go cx)" and "distinct (map ks_id ss)"
  shows "keeps_sources ss (ks_id s) (publish_phase tools c s rid h b cx)"
proof -
  obtain res st where pub: "publish_knowledge_source_bundle (sn_store tools) (sn_bundle_tools tools) (sn_max_bytes tools) b
      (ic_bucket c) (cx_store cx) = (res, st)" by fastforce
  define cx1 where "cx1 = time_phase tools (cx\<lparr>cx_store := st\<rparr>)"
  have cx1: "sources (cx_db cx1) = ss" "sources (cx_committed cx1) = ss"
    using assms(1) by (simp_all add: cx1_def time_phase_def keeps_sources_def)
  show ?thesis
  proof (cases res)
    case (Inl e)
    with pub assms(1) show ?thesis by (simp add: publish_phase_def keeps_sources_def)
  next
    case (Inr p)
    let ?args = "\<lparr>pa_publication = p, pa_file_count = bn_file_count b, pa_node_count = bn_node_count b,
                 pa_edge_count = bn_edge_count b, pa_timings = cx_timings cx1, pa_warnings = None, pa_finished_at = None\<rparr>"
    let ?a = "attach_version (the (cx_version cx1)) (cx_commit cx1) h b (cx_db cx1)"
    let ?res = "promote_knowledge_source_version (sn_now tools 5) (ks_id s) (the (cx_version cx1)) rid ?args ?a"
    show ?thesis
    proof (cases ?res)
      case err: (Inl e)
      with Inr pub cx1 show ?thesis
        by (simp add: publish_phase_def Let_def cx1_def [symmetric]) (simp add: keeps_sources_def)
    next
      case out: (Inr vd)
      obtain v d' where vd: "vd = (v, d')" by fastforce
      from promote_sources [OF out [unfolded vd]] assms(2) cx1
      have "sources d' = pointed ss (ks_id s) (the (cx_version cx1))" by simp
      with out vd Inr pub show ?thesis
        by (simp add: publish_phase_def Let_def cx1_def [symmetric]) (simp add: keeps_sources_def commit_db_def)
    qed
  qed
qed

lemma keeps_body:
  assumes "keeps_sources ss (ks_id s) (Go cx)" and "distinct (map ks_id ss)"
  shows "keeps_sources ss (ks_id s) (code_graph_body tools c s rid cx)"
proof -
  have bnd: "keeps_sources ss (ks_id s) (bundle_phase tools c s rid h cx)" if "keeps_sources ss (ks_id s) (Go cx)" for h cx
  proof (cases "sn_bundle tools (cx_commit cx) h")
    case (Inl e)
    with that show ?thesis by (simp add: bundle_phase_def keeps_sources_def)
  next
    case (Inr b)
    have "keeps_sources ss (ks_id s) (Go (time_phase tools cx))" using that by (simp add: keeps_sources_def time_phase_def)
    from keeps_and_then [OF keeps_enter [OF this] keeps_publish [OF _ assms(2)]] Inr show ?thesis
      by (simp add: bundle_phase_def)
  qed
  have "keeps_sources ss (ks_id s) (and_then (resolve_phase tools c s cx) (version_phase tools s rid h))" for h
    by (rule keeps_and_then [OF keeps_resolve [OF assms(1)] keeps_version])
  then show ?thesis
    unfolding code_graph_body_def Let_def
    by (intro keeps_and_then [where f = "enter_phase tools 2 ''extract'' rid"] keeps_and_then [where f = "extract_phase tools"]
        keeps_and_then [where f = "enter_phase tools 3 ''bundle'' rid"] keeps_and_then [OF _ bnd]
        keeps_enter keeps_extract)
qed

lemma fail_sources: "fail_knowledge_source_version now sid vid rid args d = Inr (v', d') \<Longrightarrow> sources d' = sources d"
  by (erule fail_parts) simp

lemma finish_sources: "finish_background_job now rid args d = Inr (r, d') \<Longrightarrow> sources d' = sources d"
  by (erule finish_parts) (simp add: update_runs_def)

lemma run_sources:
  assumes "run_code_graph_sync tools c s rid d st = (res, d', st')" and "distinct (map ks_id (sources d))"
  shows "case res of Inl e \<Rightarrow> sources d' = sources d | Inr r \<Rightarrow> sources d' = pointed (sources d) (ks_id s) (sy_version_id r)"
proof -
  let ?cx = "\<lparr>cx_db = d, cx_committed = d, cx_store = st, cx_phase = ''resolve_ref'', cx_timings = [], cx_commit = [], cx_version = None\<rparr>"
  have keep: "keeps_sources (sources d) (ks_id s) (code_graph_body tools c s rid ?cx)"
    by (rule keeps_body [OF _ assms(2)]) (simp add: keeps_sources_def)
  show ?thesis
  proof (cases "code_graph_body tools c s rid ?cx")
    case (Go cx)
    with body_not_Go show ?thesis by blast
  next
    case (Done r cx)
    with assms(1) keep show ?thesis by (auto simp: run_code_graph_sync_def keeps_sources_def)
  next
    case (Raised e cx)
    with assms(1) have h: "handle_failure tools s rid e cx = (res, d', st')" by (simp add: run_code_graph_sync_def)
    have "\<exists>e'. res = Inl e'"
      using h by (auto simp: handle_failure_def Let_def sync_error_def split: option.splits sum.splits)
    moreover have "sources d' = sources d"
      using h keep Raised
      by (auto simp: handle_failure_def time_phase_def Let_def keeps_sources_def dest: fail_sources finish_sources split: option.splits sum.splits)
    ultimately show ?thesis by auto
  qed
qed

section \<open>Properties\<close>

definition synced_source :: knowledge_source where
  "synced_source = \<lparr>ks_id = 1, ks_canonical_alias = ''code'', ks_display_name = None, ks_source_kind = ''github'',
     ks_index_kind = ''code_graph'', ks_source_config = [], ks_repository_url = Some ''https://h/r'', ks_default_ref = Some ''main'',
     ks_include_paths = [], ks_exclude_paths = [], ks_credential_ref = None, ks_sync_policy = [], ks_enabled = True,
     ks_serving_suspended_at = None, ks_serving_suspension_reason = None, ks_current_version = Some 2,
     ks_created_at = 0, ks_updated_at = 0\<rparr>"

definition synced_db :: db where
  "synced_db = empty_db\<lparr>sources := [synced_source],
     versions := [(new_version 2 synced_source ''c'' ''h'' 0)\<lparr>kv_status := ''succeeded''\<rparr>], next_uuid := 3\<rparr>"

definition no_locks :: "uuid \<Rightarrow> uuid option" where
  "no_locks sid = None"

lemma synced_ok: "sync_ok \<lparr>sq_db = synced_db, sq_locks = no_locks\<rparr>"
  by (simp add: sync_ok_def runs_ok_def versions_ok_def queued_fresh_def serving_ok_def served_def locks_ok_def no_locks_def
      synced_db_def empty_db_def new_version_def synced_source_def)

lemma synced_open:
  "\<exists>run d'. open_enabled 5 1 ''manual'' None synced_db = (Inr (synced_source, run), d') \<and> jr_id run = 3 \<and> sources d' = [synced_source]"
  by (simp add: open_enabled_def open_run_def find_source_def find_row_Cons synced_db_def synced_source_def empty_db_def
      start_background_job_def add_run_def refs_ok_def new_run_def Let_def)

text \<open>
  C8. What is served has been indexed.  In every state that any interleaving of the workers'
  transactions, of other job transactions, of crashes and of edits can reach, the serving pointer of a
  source refers to an existing version of that source whose status is succeeded.
\<close>

theorem serving_pointer_sound:
  assumes "sync_step\<^sup>*\<^sup>* x y" and "sync_ok x" and "s \<in> set (sources (sq_db y))" and "ks_current_version s = Some i"
  shows "\<exists>v \<in> set (versions (sq_db y)). kv_id v = i \<and> kv_source_id v = ks_id s \<and> kv_status v = ''succeeded''"
proof -
  from assms(1,2) have "sync_ok y" by (induction rule: rtranclp_induct) (auto intro: sync_step_keeps)
  with assms(3,4) show ?thesis unfolding sync_ok_def serving_ok_def served_def by blast
qed

lemma serving_pointer_sound_witness:
  "\<exists>y. sync_step\<^sup>*\<^sup>* \<lparr>sq_db = synced_db, sq_locks = no_locks\<rparr> y \<and> sq_locks y 1 = Some 3
     \<and> (\<exists>v \<in> set (versions (sq_db y)). kv_id v = 2 \<and> kv_source_id v = 1 \<and> kv_status v = ''succeeded'')"
proof -
  obtain run d' where run: "open_enabled 5 1 ''manual'' None synced_db = (Inr (synced_source, run), d')" "jr_id run = 3"
    and src: "sources d' = [synced_source]" using synced_open by blast
  let ?y = "\<lparr>sq_db = d', sq_locks = no_locks(1 \<mapsto> 3)\<rparr>"
  have "sync_step \<lparr>sq_db = synced_db, sq_locks = no_locks\<rparr> ?y"
    using sync_step.open_ok [where L = no_locks, OF _ run(1)] run(2) by (simp add: no_locks_def)
  then have steps: "sync_step\<^sup>*\<^sup>* \<lparr>sq_db = synced_db, sq_locks = no_locks\<rparr> ?y" ..
  have "\<exists>v \<in> set (versions (sq_db ?y)). kv_id v = 2 \<and> kv_source_id v = ks_id synced_source \<and> kv_status v = ''succeeded''"
    by (rule serving_pointer_sound [OF steps synced_ok]) (simp_all add: src synced_source_def)
  with steps show ?thesis by (intro exI [of _ ?y]) (simp add: synced_source_def)
qed

definition demo_sync_tools :: "(string \<times> string \<Rightarrow> string option) sync_tools" where
  "demo_sync_tools = \<lparr>sn_urlparse = (\<lambda>_. \<lparr>up_scheme = ''https'', up_hostname = Some ''h'', up_username = None,
       up_password = None, up_query = [], up_fragment = []\<rparr>),
     sn_git = (\<lambda>url ref. Inr (replicate 40 (CHR ''a''))), sn_copy_scope = (\<lambda>_. Inr ()), sn_extract = (\<lambda>_. Inr ()),
     sn_bundle = (\<lambda>commit h. Inr demo_bundle), sn_bundle_tools = demo_tools, sn_max_bytes = 10, sn_store = map_store,
     sn_now = (\<lambda>n. 100 + of_nat n), sn_elapsed = (\<lambda>_. 1)\<rparr>"

definition running_db :: db where
  "running_db = empty_db\<lparr>sources := [synced_source\<lparr>ks_current_version := None\<rparr>],
     job_runs := [(new_run 3 \<lparr>ja_job_type = SYNC_JOB_TYPE, ja_scope = None, ja_trigger = None, ja_source_id = Some 1,
        ja_version_id = None, ja_summary = None\<rparr> RUNNING_STATUS 5)], next_uuid := 4\<rparr>"

definition demo_indexer :: indexer_config where
  "demo_indexer = \<lparr>ic_bucket = ''b'', ic_graphify_binary = ''g'', ic_graphify_timeout = 5\<rparr>"

abbreviation demo_run :: "sync_result result \<times> db \<times> (string \<times> string \<Rightarrow> string option)" where
  "demo_run \<equiv> run_code_graph_sync demo_sync_tools demo_indexer synced_source 3 running_db Map.empty"

lemma demo_run_result:
  "fst demo_run = Inr \<lparr>sy_status = ''succeeded'', sy_source_id = 1, sy_version_id = 4, sy_run_id = 3,
     sy_revision = replicate 40 (CHR ''a'')\<rparr>"
  by code_simp

text \<open>
  C9. A code-graph run, whatever git, Graphify, the bundle and the object store do, is a sequence of
  transactions of the lock holder that ends with the lock released: it refines the step relation.
\<close>

theorem code_graph_run_refines:
  assumes "L (ks_id s) = Some rid" and "run_code_graph_sync tools c s rid d st = (res, d', st')"
  shows "sync_step\<^sup>*\<^sup>* \<lparr>sq_db = d, sq_locks = L\<rparr> \<lparr>sq_db = d', sq_locks = L(ks_id s := None)\<rparr>"
proof -
  let ?cx = "\<lparr>cx_db = d, cx_committed = d, cx_store = st, cx_phase = ''resolve_ref'', cx_timings = [], cx_commit = [], cx_version = None\<rparr>"
  have "flow_ok d L (ks_id s) (Go ?cx)" by (simp add: flow_ok_def)
  from body_flow [where L = L and s = s, OF assms(1) this]
  have flow: "flow_ok d L (ks_id s) (code_graph_body tools c s rid ?cx)" .
  show ?thesis
  proof (cases "code_graph_body tools c s rid ?cx")
    case (Go cx)
    with body_not_Go show ?thesis by blast
  next
    case (Done r cx)
    with flow assms(2) show ?thesis by (simp add: flow_ok_def run_code_graph_sync_def)
  next
    case (Raised e cx)
    from assms(2) Raised have "handle_failure tools s rid e cx = (res, d', st')" by (simp add: run_code_graph_sync_def)
    from handle_flow [where L = L and s = s, OF assms(1) flow [unfolded Raised] this] show ?thesis .
  qed
qed

lemma code_graph_run_refines_witness:
  "sync_step\<^sup>*\<^sup>* \<lparr>sq_db = running_db, sq_locks = no_locks(1 \<mapsto> 3)\<rparr>
     \<lparr>sq_db = fst (snd demo_run), sq_locks = (no_locks(1 \<mapsto> 3))(1 := None)\<rparr>"
proof -
  have id: "ks_id synced_source = 1" by (simp add: synced_source_def)
  have run: "demo_run = (fst demo_run, fst (snd demo_run), snd (snd demo_run))" by simp
  show ?thesis
    using code_graph_run_refines [where L = "no_locks(1 \<mapsto> 3)" and s = synced_source, OF _ run] by (simp add: id)
qed

text \<open>
  A run moves the serving pointer of its own source or nothing: when it returns, the sources are the
  old ones with the pointer of its source at the version it reports; when it raises, no source changed.
\<close>

theorem run_moves_own_pointer:
  assumes "run_code_graph_sync tools c s rid d st = (res, d', st')" and "distinct (map ks_id (sources d))"
  shows "sources d' =
    (case res of
       Inl e \<Rightarrow> sources d
     | Inr r \<Rightarrow> map (\<lambda>x. if ks_id x = ks_id s then x\<lparr>ks_current_version := Some (sy_version_id r)\<rparr> else x) (sources d))"
  using run_sources [OF assms] by (simp add: pointed_def split: sum.splits)

lemma run_moves_own_pointer_witness:
  "map ks_current_version (sources (fst (snd demo_run))) = [Some 4]"
proof -
  have run: "demo_run = (fst demo_run, fst (snd demo_run), snd (snd demo_run))" by simp
  have "distinct (map ks_id (sources running_db))" by (simp add: running_db_def)
  from run_moves_own_pointer [OF run this] show ?thesis
    unfolding demo_run_result by (simp add: running_db_def synced_source_def)
qed

end
