(* ===== verification/Graph_Queries.thy ===== *)
theory Graph_Queries
  imports Knowledge_Bundle "HOL-Library.List_Lexorder" "HOL-Library.Char_ord"
begin

text \<open>
  The query functions of \<open>shared/lib/knowledge_source_serving.py\<close> on one pinned snapshot, and the check
  that a graph passes before it is served.  A node and a link keep their dicts next to the fields that
  the check guarantees; the graph library's own traversals are not modelled.
\<close>

section \<open>Graphs\<close>

record gnode =
  gn_id :: string
  gn_fields :: pydict

record glink =
  gl_source :: string
  gl_target :: string
  gl_fields :: pydict

record graph =
  gr_nodes :: "gnode list"
  gr_links :: "glink list"
  gr_hyperedges :: "pyval list"

definition serving_error :: "string \<Rightarrow> 'a result" where
  "serving_error msg = Inl (Runtime_error msg)"

text \<open>The check of one node: \<open>ids\<close> are the ids met so far, \<open>files\<close> the files of the snapshot.\<close>

definition read_node :: "string list \<Rightarrow> string list \<Rightarrow> pyval \<Rightarrow> gnode result" where
  "read_node files ids v =
     (case v of
        PDict d \<Rightarrow>
          (case dict_get d ''id'' of
             PStr i \<Rightarrow>
               (if i = [] then serving_error ''Knowledge Source graph has an invalid node''
                else if i \<in> set ids then serving_error ''Knowledge Source graph has duplicate node IDs''
                else
                  let source_file = dict_get d ''source_file'' in
                  if source_file = PNone \<or> source_file = PStr [] then Inr \<lparr>gn_id = i, gn_fields = d\<rparr>
                  else case source_file of
                    PStr f \<Rightarrow>
                      (if \<not> safe_path f then serving_error ''Knowledge Source archive contains an unsafe path''
                       else if path_norm f \<notin> set files
                       then serving_error ''Knowledge Source graph references a file absent from its snapshot''
                       else Inr \<lparr>gn_id = i, gn_fields = d\<rparr>)
                  | _ \<Rightarrow> serving_error ''Knowledge Source archive contains an unsafe path'')
           | _ \<Rightarrow> serving_error ''Knowledge Source graph has an invalid node'')
      | _ \<Rightarrow> serving_error ''Knowledge Source graph has an invalid node'')"

fun read_nodes :: "string list \<Rightarrow> string list \<Rightarrow> pyval list \<Rightarrow> gnode list result" where
  "read_nodes files ids [] = Inr []"
| "read_nodes files ids (v # vs) =
     result_bind (read_node files ids v) (\<lambda>n. result_map (\<lambda>ns. n # ns) (read_nodes files (gn_id n # ids) vs))"

text \<open>\<open>value not in node_ids\<close>: a list or a dict has no hash, and the test raises.\<close>

definition known_id :: "string list \<Rightarrow> pyval \<Rightarrow> string result" where
  "known_id ids v =
     (case v of
        PStr i \<Rightarrow> if i \<in> set ids then Inr i else serving_error ''Knowledge Source graph has an invalid link''
      | PList _ \<Rightarrow> Inl Type_error
      | PDict _ \<Rightarrow> Inl Type_error
      | _ \<Rightarrow> serving_error ''Knowledge Source graph has an invalid link'')"

definition read_link :: "string list \<Rightarrow> pyval \<Rightarrow> glink result" where
  "read_link ids v =
     (case v of
        PDict d \<Rightarrow>
          result_bind (known_id ids (dict_get d ''source'')) (\<lambda>a.
          result_map (\<lambda>b. \<lparr>gl_source = a, gl_target = b, gl_fields = d\<rparr>) (known_id ids (dict_get d ''target'')))
      | _ \<Rightarrow> serving_error ''Knowledge Source graph has an invalid link'')"

fun read_links :: "string list \<Rightarrow> pyval list \<Rightarrow> glink list result" where
  "read_links ids [] = Inr []"
| "read_links ids (v # vs) = result_bind (read_link ids v) (\<lambda>l. result_map (\<lambda>ls. l # ls) (read_links ids vs))"

definition validate_serving_graph :: "string list \<Rightarrow> pydict \<Rightarrow> graph result" where
  "validate_serving_graph files g =
     (case (dict_get g ''nodes'', dict_get g ''links'', dict_get g ''hyperedges'') of
        (PList ns, PList ls, PList hs) \<Rightarrow>
          result_bind (read_nodes files [] ns) (\<lambda>nodes.
          result_map (\<lambda>links. \<lparr>gr_nodes = nodes, gr_links = links, gr_hyperedges = hs\<rparr>)
            (read_links (map gn_id nodes) ls))
      | _ \<Rightarrow> serving_error ''Knowledge Source graph has an invalid node-link schema'')"

section \<open>Snapshots\<close>

record source_file =
  sf_path :: string
  sf_size :: int
  sf_text :: string

record snapshot =
  sp_source_id :: nat
  sp_version_id :: nat
  sp_alias :: string
  sp_commit :: "string option"
  sp_graph :: graph
  sp_files :: "source_file list"

definition bounded_limit :: "int \<Rightarrow> int \<Rightarrow> nat result" where
  "bounded_limit value maximum =
     (if 1 \<le> value \<and> value \<le> maximum then Inr (nat value)
      else Inl (Value_error (''Result limit must be between 1 and '' @ int_str maximum)))"

definition node_result :: "snapshot \<Rightarrow> gnode \<Rightarrow> pydict" where
  "node_result sp n =
     dict_merge (filter (\<lambda>(k, v). k \<notin> {''embedding'', ''vector'', ''local_path''}) (gn_fields n))
       [(''source'', PStr (sp_alias sp)), (''commit_sha'', opt_str (sp_commit sp))]"

definition public_link :: "glink \<Rightarrow> pydict" where
  "public_link l = filter (\<lambda>(k, v). k \<notin> {''embedding'', ''vector''}) (gl_fields l)"

text \<open>\<open>{node["id"]: node for node in nodes}\<close>: the ids are distinct, so the lookup finds the node.\<close>

definition node_by_id :: "snapshot \<Rightarrow> string \<Rightarrow> gnode option" where
  "node_by_id sp i = find (\<lambda>n. gn_id n = i) (rev (gr_nodes (sp_graph sp)))"

section \<open>Symbol search\<close>

definition searchable :: "gnode \<Rightarrow> string" where
  "searchable n =
     lower (join '' '' (map (\<lambda>f. py_str (dict_get_default (gn_fields n) f (PStr [])))
       [''id'', ''name'', ''label'', ''qualified_name'', ''type'', ''source_file'']))"

fun symbol_loop :: "snapshot \<Rightarrow> string \<Rightarrow> nat \<Rightarrow> pydict list \<Rightarrow> gnode list \<Rightarrow> pydict list" where
  "symbol_loop sp query limit matches [] = matches"
| "symbol_loop sp query limit matches (n # ns) =
     (if occurs_in query (searchable n)
      then let matches' = matches @ [node_result sp n]
           in if length matches' = limit then matches' else symbol_loop sp query limit matches' ns
      else symbol_loop sp query limit matches ns)"

definition search_symbols :: "snapshot \<Rightarrow> string \<Rightarrow> int \<Rightarrow> pydict list result" where
  "search_symbols sp query limit =
     (let normalized = lower (strip query) in
      if normalized = [] then Inl (Value_error ''Symbol query is required'')
      else result_map (\<lambda>n. symbol_loop sp normalized n [] (gr_nodes (sp_graph sp))) (bounded_limit limit 50))"

definition get_symbol :: "snapshot \<Rightarrow> string \<Rightarrow> pydict result" where
  "get_symbol sp i =
     (case node_by_id sp i of
        None \<Rightarrow> serving_error (''Symbol is not present in '' @ sp_alias sp @ '': '' @ i)
      | Some n \<Rightarrow> Inr (node_result sp n))"

section \<open>Neighbours\<close>

definition link_neighbor :: "string \<Rightarrow> string \<Rightarrow> glink \<Rightarrow> string option" where
  "link_neighbor direction i l =
     (if direction \<in> {''outgoing'', ''both''} \<and> gl_source l = i then Some (gl_target l)
      else if direction \<in> {''incoming'', ''both''} \<and> gl_target l = i then Some (gl_source l)
      else None)"

record neighbor =
  nb_relation :: pydict
  nb_symbol :: pydict

fun neighbor_loop :: "snapshot \<Rightarrow> string \<Rightarrow> string \<Rightarrow> nat \<Rightarrow> neighbor list \<Rightarrow> glink list \<Rightarrow> neighbor list result" where
  "neighbor_loop sp direction i limit acc [] = Inr acc"
| "neighbor_loop sp direction i limit acc (l # ls) =
     (case link_neighbor direction i l of
        None \<Rightarrow> neighbor_loop sp direction i limit acc ls
      | Some j \<Rightarrow>
          (case node_by_id sp j of
             None \<Rightarrow> Inl (Key_error j)
           | Some n \<Rightarrow>
               (let acc' = acc @ [\<lparr>nb_relation = public_link l, nb_symbol = node_result sp n\<rparr>]
                in if length acc' = limit then Inr acc' else neighbor_loop sp direction i limit acc' ls)))"

definition get_neighbors :: "snapshot \<Rightarrow> string \<Rightarrow> string \<Rightarrow> int \<Rightarrow> (pydict \<times> neighbor list) result" where
  "get_neighbors sp i direction limit =
     (if direction \<notin> {''incoming'', ''outgoing'', ''both''}
      then Inl (Value_error ''Neighbor direction must be incoming, outgoing, or both'')
      else case node_by_id sp i of
        None \<Rightarrow> serving_error (''Symbol is not present in '' @ sp_alias sp @ '': '' @ i)
      | Some n \<Rightarrow>
          result_bind (bounded_limit limit 100) (\<lambda>k.
            result_map (\<lambda>ns. (node_result sp n, ns)) (neighbor_loop sp direction i k [] (gr_links (sp_graph sp)))))"

section \<open>Source search and excerpts\<close>

definition search_skip_dirs :: "string list" where
  "search_skip_dirs = [''.git'', ''.serena'', ''.next'', ''build'', ''dist'', ''node_modules'', ''target'']"

definition max_search_file_bytes :: int where
  "max_search_file_bytes = 2 * 1024 * 1024"

definition max_preview :: nat where
  "max_preview = 500"

definition source_search_preview :: "string \<Rightarrow> nat \<Rightarrow> nat \<Rightarrow> string" where
  "source_search_preview line column query_length =
     (if length line \<le> max_preview then strip line
      else
        let start = column - 120;
            stop = min (length line) (max (start + max_preview) (column + query_length + 120));
            preview = strip (drop start (take stop line))
        in (if start = 0 then [] else ''...'') @ preview @ (if stop < length line then ''...'' else []))"

record source_match =
  sm_path :: string
  sm_line :: nat
  sm_column :: nat
  sm_preview :: string

definition line_match :: "string \<Rightarrow> string \<Rightarrow> source_file \<Rightarrow> nat \<Rightarrow> string \<Rightarrow> source_match option" where
  "line_match query normalized f n line =
     map_option
       (\<lambda>c. \<lparr>sm_path = sf_path f, sm_line = n, sm_column = c + 1,
             sm_preview = source_search_preview line c (length query)\<rparr>)
       (find_from 0 normalized (lower line))"

text \<open>The loop over the lines of a file; both loops stop once there are more matches than the limit.\<close>

fun line_loop :: "(nat \<Rightarrow> string \<Rightarrow> source_match option) \<Rightarrow> nat \<Rightarrow> nat \<Rightarrow> source_match list \<Rightarrow> string list \<Rightarrow> source_match list" where
  "line_loop m limit n acc [] = acc"
| "line_loop m limit n acc (line # rest) =
     (case m n line of
        None \<Rightarrow> line_loop m limit (Suc n) acc rest
      | Some h \<Rightarrow> if limit < length (acc @ [h]) then acc @ [h] else line_loop m limit (Suc n) (acc @ [h]) rest)"

definition searched :: "source_file \<Rightarrow> bool" where
  "searched f \<longleftrightarrow>
     set (path_parts (sf_path f)) \<inter> set search_skip_dirs = {} \<and> sf_size f \<le> max_search_file_bytes
     \<and> CHR 0x00 \<notin> set (sf_text f)"

fun file_loop :: "string \<Rightarrow> string \<Rightarrow> nat \<Rightarrow> source_match list \<Rightarrow> source_file list \<Rightarrow> source_match list" where
  "file_loop query normalized limit acc [] = acc"
| "file_loop query normalized limit acc (f # fs) =
     (if \<not> searched f then file_loop query normalized limit acc fs
      else
        let acc' = line_loop (line_match query normalized f) limit 1 acc (splitlines (sf_text f))
        in if limit < length acc' then acc' else file_loop query normalized limit acc' fs)"

record search_answer =
  sa_source :: string
  sa_commit :: "string option"
  sa_query :: string
  sa_matches :: "source_match list"
  sa_count :: nat
  sa_truncated :: bool

text \<open>\<open>sorted(source_root.rglob("*"))\<close> compares paths part by part.\<close>

definition sorted_files :: "snapshot \<Rightarrow> source_file list" where
  "sorted_files sp = sort_key (\<lambda>f. path_parts (sf_path f)) (sp_files sp)"

definition search_source :: "snapshot \<Rightarrow> string \<Rightarrow> int \<Rightarrow> search_answer result" where
  "search_source sp query limit =
     (let normalized = lower (strip query) in
      if normalized = [] then Inl (Value_error ''Source query is required'')
      else if 256 < length query \<or> (\<exists>c \<in> set query. char_code c < 32)
      then Inl (Value_error ''Source query must be one line of at most 256 characters'')
      else result_map
        (\<lambda>n. let matches = file_loop query normalized n [] (sorted_files sp) in
          \<lparr>sa_source = sp_alias sp, sa_commit = sp_commit sp, sa_query = query, sa_matches = take n matches,
           sa_count = min (length matches) n, sa_truncated = (n < length matches)\<rparr>)
        (bounded_limit limit 50))"

record excerpt =
  ex_source :: string
  ex_commit :: "string option"
  ex_path :: string
  ex_start :: int
  ex_end :: int
  ex_content :: string

definition get_source_excerpt :: "snapshot \<Rightarrow> string \<Rightarrow> int \<Rightarrow> int \<Rightarrow> excerpt result" where
  "get_source_excerpt sp path start_line end_line =
     (if \<not> safe_path path then Inl (Value_error ''Source path must be a safe repository-relative path'')
      else case find (\<lambda>f. sf_path f = path_norm path) (sp_files sp) of
        None \<Rightarrow> serving_error (''Source file is not present in '' @ sp_alias sp @ '': '' @ path)
      | Some f \<Rightarrow>
          (if start_line < 1 \<or> end_line < start_line \<or> 200 < end_line - start_line + 1
           then Inl (Value_error ''Source excerpt must be a positive range of at most 200 lines'')
           else
             let ls = splitlines (sf_text f);
                 actual_end = min end_line (int (length ls))
             in Inr \<lparr>ex_source = sp_alias sp, ex_commit = sp_commit sp, ex_path = path, ex_start = start_line,
                     ex_end = actual_end,
                     ex_content = join newline (drop (nat (start_line - 1)) (take (nat actual_end) ls))\<rparr>))"

section \<open>Overview\<close>

text \<open>A \<open>Counter\<close> of the link ends: a link from a node to itself counts twice.\<close>

definition degree :: "glink list \<Rightarrow> string \<Rightarrow> nat" where
  "degree links i = length (filter (\<lambda>l. gl_source l = i) links) + length (filter (\<lambda>l. gl_target l = i) links)"

record overview =
  ov_nodes :: nat
  ov_links :: nat
  ov_hyperedges :: nat
  ov_hubs :: "(pydict \<times> nat) list"

definition get_graph_overview :: "snapshot \<Rightarrow> int \<Rightarrow> overview result" where
  "get_graph_overview sp limit =
     (let links = gr_links (sp_graph sp);
          by_degree = sort_key (\<lambda>n. (- int (degree links (gn_id n)), gn_id n)) (gr_nodes (sp_graph sp))
      in result_map
        (\<lambda>k. \<lparr>ov_nodes = length (gr_nodes (sp_graph sp)), ov_links = length links,
              ov_hyperedges = length (gr_hyperedges (sp_graph sp)),
              ov_hubs = map (\<lambda>n. (node_result sp n, degree links (gn_id n))) (take k by_degree)\<rparr>)
        (bounded_limit limit 20))"

section \<open>Graphify queries\<close>

text \<open>
  The checks around Graphify's own traversals, which are the parameters \<open>text_of\<close>: what they answer
  on the pinned graph.
\<close>

record graph_answer =
  ga_status :: string
  ga_context :: string

definition query_graph ::
    "(snapshot \<Rightarrow> string \<Rightarrow> string \<Rightarrow> int \<Rightarrow> int \<Rightarrow> string list \<Rightarrow> string) \<Rightarrow> snapshot \<Rightarrow> string \<Rightarrow> string \<Rightarrow> int \<Rightarrow> int
      \<Rightarrow> string list \<Rightarrow> graph_answer result" where
  "query_graph text_of sp question mode depth budget filters =
     (if strip question = [] then Inl (Value_error ''Graph query question is required'')
      else if 512 < length question \<or> (\<exists>c \<in> set question. char_code c < 32)
      then Inl (Value_error ''Graph query must be one line of at most 512 characters'')
      else if mode \<notin> {''bfs'', ''dfs''} then Inl (Value_error ''Graph query mode must be bfs or dfs'')
      else if \<not> (1 \<le> depth \<and> depth \<le> 6) then Inl (Value_error ''Graph query depth must be between 1 and 6'')
      else if \<not> (200 \<le> budget \<and> budget \<le> 5000)
      then Inl (Value_error ''Graph query token budget must be between 200 and 5000'')
      else
        let c = text_of sp question mode depth budget filters
        in Inr \<lparr>ga_status = (if c = ''No matching nodes found.'' then ''no_match'' else ''matched''), ga_context = c\<rparr>)"

definition shortest_path ::
    "(snapshot \<Rightarrow> string \<Rightarrow> string \<Rightarrow> int \<Rightarrow> bool \<Rightarrow> string) \<Rightarrow> snapshot \<Rightarrow> string \<Rightarrow> string \<Rightarrow> int \<Rightarrow> bool
      \<Rightarrow> graph_answer result" where
  "shortest_path text_of sp a b max_hops undirected =
     (if strip a = [] \<or> strip b = [] then Inl (Value_error ''Both graph path concepts are required'')
      else if \<not> (1 \<le> max_hops \<and> max_hops \<le> 12)
      then Inl (Value_error ''Maximum graph path hops must be between 1 and 12'')
      else
        let c = text_of sp a b max_hops undirected;
            status = (if occurs_in ''Shortest path ('' c then ''resolved''
                      else if starts_with ''No node'' c \<or> occurs_in ''both resolved to the same node'' c
                      then ''not_resolved'' else ''not_connected'')
        in Inr \<lparr>ga_status = status, ga_context = c\<rparr>)"

section \<open>Paths\<close>

definition adjacent :: "glink list \<Rightarrow> string \<Rightarrow> string list" where
  "adjacent links i = map gl_target (filter (\<lambda>l. gl_source l = i) links)"

text \<open>The neighbours of the end of a path that are not on it, in the order of the links.\<close>

definition extensions :: "glink list \<Rightarrow> string list \<Rightarrow> string list list" where
  "extensions links path = map (\<lambda>j. path @ [j]) (filter (\<lambda>j. j \<notin> set path) (adjacent links (last path)))"

lemma length_extensions: "length (extensions links path) \<le> length links"
proof -
  have "length (extensions links path) \<le> length (adjacent links (last path))" by (simp add: extensions_def)
  also have "\<dots> \<le> length links" by (simp add: adjacent_def)
  finally show ?thesis .
qed

text \<open>
  The breadth-first loop.  It ends although it keeps no set of visited nodes: a path of \<open>k\<close> nodes weighs
  \<open>(1 + |links|) ^ (max_depth + 1 - k)\<close>, more than all its extensions together.
\<close>

definition path_weight :: "glink list \<Rightarrow> nat \<Rightarrow> string list \<Rightarrow> nat" where
  "path_weight links max_depth path = Suc (length links) ^ (max_depth + 2 - length path)"

lemma path_weight_pos [simp]: "0 < path_weight links max_depth path"
  by (simp add: path_weight_def)

lemma extensions_weight:
  assumes "length path - 1 < max_depth"
  shows "sum_list (map (path_weight links max_depth) (extensions links path)) < path_weight links max_depth path"
proof -
  let ?k = "max_depth + 1 - length path"
  have each: "path_weight links max_depth p = Suc (length links) ^ ?k" if "p \<in> set (extensions links path)" for p
    using that by (auto simp: extensions_def path_weight_def)
  have "sum_list (map (path_weight links max_depth) (extensions links path))
      = sum_list (map (\<lambda>_. Suc (length links) ^ ?k) (extensions links path))"
    using each by (simp cong: map_cong)
  also have "\<dots> = length (extensions links path) * Suc (length links) ^ ?k"
    by (simp add: sum_list_triv)
  also have "\<dots> \<le> length links * Suc (length links) ^ ?k"
    using length_extensions by simp
  also have "\<dots> < Suc (length links) * Suc (length links) ^ ?k" by simp
  also have "\<dots> = path_weight links max_depth path"
  proof -
    have "max_depth + 2 - length path = Suc ?k" using assms by linarith
    then show ?thesis unfolding path_weight_def by (simp only: power_Suc)
  qed
  finally show ?thesis .
qed

lemma sum_list_filter_le: "sum_list (map (f :: 'a \<Rightarrow> nat) (filter P xs)) \<le> sum_list (map f xs)"
  by (induction xs) auto

function path_loop :: "glink list \<Rightarrow> string \<Rightarrow> nat \<Rightarrow> nat \<Rightarrow> string list list \<Rightarrow> string list list \<Rightarrow> string list list" where
  "path_loop links target max_depth limit [] paths = paths"
| "path_loop links target max_depth limit (path # queue) paths =
     (if limit \<le> length paths then paths
      else if max_depth \<le> length path - 1 then path_loop links target max_depth limit queue paths
      else
        path_loop links target max_depth limit
          (queue @ filter (\<lambda>p. last p \<noteq> target) (extensions links path))
          (paths @ filter (\<lambda>p. last p = target) (extensions links path)))"
  by pat_completeness auto

termination
proof (relation "measure (\<lambda>(links, target, max_depth, limit, queue, paths). sum_list (map (path_weight links max_depth) queue))")
  show "((links, target, max_depth, limit, queue @ filter (\<lambda>p. last p \<noteq> target) (extensions links path), paths @ filter (\<lambda>p. last p = target) (extensions links path)),
      links, target, max_depth, limit, path # queue, paths)
      \<in> measure (\<lambda>(links, target, max_depth, limit, queue, paths). sum_list (map (path_weight links max_depth) queue))"
    if "\<not> max_depth \<le> length path - 1" for links target max_depth and limit :: nat and path queue paths
    using extensions_weight [of path max_depth links] that
      sum_list_filter_le [of "path_weight links max_depth" "\<lambda>p. last p \<noteq> target" "extensions links path"]
    by simp
qed simp_all

definition path_result :: "snapshot \<Rightarrow> string list \<Rightarrow> pydict list result" where
  "path_result sp =
     result_list (\<lambda>i. case node_by_id sp i of None \<Rightarrow> Inl (Key_error i) | Some n \<Rightarrow> Inr (node_result sp n))"

definition find_paths :: "snapshot \<Rightarrow> string \<Rightarrow> string \<Rightarrow> int \<Rightarrow> int \<Rightarrow> pydict list list result" where
  "find_paths sp a b max_depth limit =
     (if node_by_id sp a = None \<or> node_by_id sp b = None
      then serving_error ''Both path endpoints must be symbols in the selected source''
      else if \<not> (1 \<le> max_depth \<and> max_depth \<le> 12) then Inl (Value_error ''Path depth must be between 1 and 12'')
      else result_bind (bounded_limit limit 20) (\<lambda>n.
        result_list (path_result sp) (path_loop (gr_links (sp_graph sp)) b (nat max_depth) n [[a]] [])))"

section \<open>What the check of a graph establishes\<close>

definition graph_ok :: "string list \<Rightarrow> graph \<Rightarrow> bool" where
  "graph_ok files g \<longleftrightarrow>
     distinct (map gn_id (gr_nodes g))
     \<and> (\<forall>l \<in> set (gr_links g). gl_source l \<in> gn_id ` set (gr_nodes g) \<and> gl_target l \<in> gn_id ` set (gr_nodes g))
     \<and> (\<forall>n \<in> set (gr_nodes g). \<forall>f. dict_get (gn_fields n) ''source_file'' = PStr f \<longrightarrow> f \<noteq> [] \<longrightarrow> safe_path f \<and> path_norm f \<in> set files)"

lemma read_node_ok:
  assumes "read_node files ids v = Inr n"
  shows "gn_id n \<notin> set ids"
    and "dict_get (gn_fields n) ''source_file'' = PStr f \<Longrightarrow> f \<noteq> [] \<Longrightarrow> safe_path f \<and> path_norm f \<in> set files"
  using assms by (auto simp: read_node_def serving_error_def Let_def split: pyval.splits if_splits)

lemma read_nodes_ok:
  assumes "read_nodes files ids vs = Inr ns"
  shows "distinct (map gn_id ns) \<and> set ids \<inter> gn_id ` set ns = {}
    \<and> (\<forall>n \<in> set ns. \<forall>f. dict_get (gn_fields n) ''source_file'' = PStr f \<longrightarrow> f \<noteq> [] \<longrightarrow> safe_path f \<and> path_norm f \<in> set files)"
  using assms
proof (induction vs arbitrary: ids ns)
  case (Cons v vs)
  then obtain n ms where n: "read_node files ids v = Inr n" and ms: "read_nodes files (gn_id n # ids) vs = Inr ms"
    and ns: "ns = n # ms"
    by (auto simp: result_bind_Inr_iff result_map_Inr_iff)
  from Cons.IH [OF ms] read_node_ok [OF n] show ?case unfolding ns by auto
qed simp

lemma known_id_ok: "known_id ids v = Inr i \<Longrightarrow> i \<in> set ids"
  by (auto simp: known_id_def serving_error_def split: pyval.splits if_splits)

lemma read_link_ok: "read_link ids v = Inr l \<Longrightarrow> gl_source l \<in> set ids \<and> gl_target l \<in> set ids"
  by (cases v) (auto simp: read_link_def serving_error_def result_bind_Inr_iff result_map_Inr_iff dest: known_id_ok)

lemma read_links_ok:
  "read_links ids vs = Inr ls \<Longrightarrow> l \<in> set ls \<Longrightarrow> gl_source l \<in> set ids \<and> gl_target l \<in> set ids"
  by (induction vs arbitrary: ls) (auto simp: result_bind_Inr_iff result_map_Inr_iff dest: read_link_ok)

lemma validated_graph_ok:
  assumes "validate_serving_graph files d = Inr g"
  shows "graph_ok files g"
proof -
  obtain ns ls where ns: "read_nodes files [] ns = Inr (gr_nodes g)"
    and ls: "read_links (map gn_id (gr_nodes g)) ls = Inr (gr_links g)"
    using assms by (auto simp: validate_serving_graph_def serving_error_def result_bind_Inr_iff result_map_Inr_iff
        split: pyval.splits)
  show ?thesis
    unfolding graph_ok_def using read_nodes_ok [OF ns] read_links_ok [OF ls] by auto
qed

lemma node_by_id_known: "i \<in> gn_id ` set (gr_nodes (sp_graph sp)) \<Longrightarrow> \<exists>n. node_by_id sp i = Some n \<and> gn_id n = i"
proof -
  assume "i \<in> gn_id ` set (gr_nodes (sp_graph sp))"
  then have "find (\<lambda>n. gn_id n = i) (rev (gr_nodes (sp_graph sp))) \<noteq> None" by (auto simp: find_None_iff)
  then obtain n where n: "node_by_id sp i = Some n" by (auto simp: node_by_id_def)
  then have "gn_id n = i" unfolding node_by_id_def by (auto simp: find_Some_iff)
  with n show ?thesis by blast
qed

section \<open>The paths found\<close>

fun linked :: "glink list \<Rightarrow> string list \<Rightarrow> bool" where
  "linked links (i # j # p) \<longleftrightarrow> (\<exists>l \<in> set links. gl_source l = i \<and> gl_target l = j) \<and> linked links (j # p)"
| "linked links _ \<longleftrightarrow> True"

text \<open>A simple path of at most \<open>n\<close> links from \<open>a\<close> to another node \<open>b\<close>.\<close>

definition simple_path :: "glink list \<Rightarrow> string \<Rightarrow> string \<Rightarrow> nat \<Rightarrow> string list \<Rightarrow> bool" where
  "simple_path links a b n p \<longleftrightarrow>
     2 \<le> length p \<and> length p \<le> n + 1 \<and> hd p = a \<and> last p = b \<and> distinct p \<and> linked links p"

definition open_path :: "glink list \<Rightarrow> string \<Rightarrow> string list \<Rightarrow> bool" where
  "open_path links a p \<longleftrightarrow> p \<noteq> [] \<and> hd p = a \<and> distinct p \<and> linked links p"

lemma adjacent_iff: "j \<in> set (adjacent links i) \<longleftrightarrow> (\<exists>l \<in> set links. gl_source l = i \<and> gl_target l = j)"
  by (auto simp: adjacent_def)

lemma linked_snoc: "p \<noteq> [] \<Longrightarrow> linked links (p @ [j]) \<longleftrightarrow> linked links p \<and> j \<in> set (adjacent links (last p))"
  by (induction links p rule: linked.induct) (auto simp: adjacent_iff)

lemma linked_append: "linked links (p @ q) \<Longrightarrow> linked links p"
  by (induction links p rule: linked.induct) auto

lemma open_path_extensions:
  assumes "open_path links a path" and "p \<in> set (extensions links path)"
  shows "open_path links a p" and "length p = Suc (length path)"
  using assms by (auto simp: open_path_def extensions_def linked_snoc)

lemma extension_iff: "path @ [j] \<in> set (extensions links path) \<longleftrightarrow> j \<in> set (adjacent links (last path)) \<and> j \<notin> set path"
  by (auto simp: extensions_def)

lemma path_loop_sound:
  assumes "\<And>q. q \<in> set queue \<Longrightarrow> open_path links a q"
    and "\<And>p. p \<in> set paths \<Longrightarrow> simple_path links a target max_depth p"
    and "p \<in> set (path_loop links target max_depth limit queue paths)"
  shows "simple_path links a target max_depth p"
  using assms
proof (induction links target max_depth limit queue paths rule: path_loop.induct)
  case (2 links target max_depth limit path queue paths)
  show ?case
  proof (cases "limit \<le> length paths \<or> max_depth \<le> length path - 1")
    case True
    then show ?thesis using 2 by (auto split: if_splits)
  next
    case False
    have opened: "open_path links a path" using "2.prems"(1) by simp
    have new: "simple_path links a target max_depth q" if "q \<in> set (extensions links path)" "last q = target" for q
      using open_path_extensions [OF opened that(1)] that(2) opened False
      by (auto simp: simple_path_def open_path_def Suc_le_eq)
    show ?thesis
    proof (rule "2.IH"(2))
      show "open_path links a q" if "q \<in> set (queue @ filter (\<lambda>p. last p \<noteq> target) (extensions links path))" for q
        using that "2.prems"(1) open_path_extensions(1) [OF opened] by auto
      show "simple_path links a target max_depth q"
        if "q \<in> set (paths @ filter (\<lambda>p. last p = target) (extensions links path))" for q
        using that "2.prems"(2) new by auto
      show "p \<in> set (path_loop links target max_depth limit
          (queue @ filter (\<lambda>p. last p \<noteq> target) (extensions links path))
          (paths @ filter (\<lambda>p. last p = target) (extensions links path)))"
        using "2.prems"(3) False by simp
    qed (use False in auto)
  qed
qed simp

text \<open>A path still to be found has a proper beginning in the queue.\<close>

definition begun :: "string list list \<Rightarrow> string list \<Rightarrow> bool" where
  "begun queue p \<longleftrightarrow> (\<exists>q \<in> set queue. q \<noteq> [] \<and> (\<exists>x r. p = q @ x # r))"

lemma begun_step:
  assumes p: "simple_path links a target max_depth p" and b: "begun (path # queue) p"
  shows "begun (queue @ filter (\<lambda>p. last p \<noteq> target) (extensions links path)) p
    \<or> p \<in> set (filter (\<lambda>p. last p = target) (extensions links path))"
proof (cases "begun queue p")
  case True
  then show ?thesis by (auto simp: begun_def)
next
  case False
  with b obtain x r where path: "path \<noteq> []" and p_eq: "p = path @ x # r" by (auto simp: begun_def)
  have "linked links (path @ [x])" using p linked_append [of links "path @ [x]" r] by (simp add: simple_path_def p_eq)
  then have ext: "path @ [x] \<in> set (extensions links path)"
    using p path by (simp add: extension_iff linked_snoc simple_path_def p_eq)
  show ?thesis
  proof (cases r)
    case Nil
    then show ?thesis using ext p by (simp add: p_eq simple_path_def)
  next
    case (Cons y s)
    then have "x \<noteq> target" using p by (auto simp: simple_path_def p_eq split: if_splits)
    with ext have "path @ [x] \<in> set (queue @ filter (\<lambda>p. last p \<noteq> target) (extensions links path))" by simp
    moreover have "p = (path @ [x]) @ y # s" by (simp add: p_eq Cons)
    ultimately show ?thesis unfolding begun_def by (metis append_is_Nil_conv not_Cons_self2)
  qed
qed

lemma path_loop_keeps: "set paths \<subseteq> set (path_loop links target max_depth limit queue paths)"
  by (induction links target max_depth limit queue paths rule: path_loop.induct) auto

lemma path_loop_complete:
  assumes p: "simple_path links a target max_depth p"
    and "begun queue p \<or> p \<in> set paths"
    and "length (path_loop links target max_depth limit queue paths) < limit"
  shows "p \<in> set (path_loop links target max_depth limit queue paths)"
  using assms
proof (induction links target max_depth limit queue paths rule: path_loop.induct)
  case (1 links target max_depth limit paths)
  then show ?case by (simp add: begun_def)
next
  case (2 links target max_depth limit path queue paths)
  show ?case
  proof (cases "limit \<le> length paths \<or> p \<in> set paths")
    case True
    then show ?thesis using "2.prems"(3) path_loop_keeps by fastforce
  next
    case False
    then have b: "begun (path # queue) p" using "2.prems"(2) by blast
    show ?thesis
    proof (cases "max_depth \<le> length path - 1")
      case True
      have "begun queue p" using b True "2.prems"(1) by (auto simp: begun_def simple_path_def)
      with 2 True False show ?thesis by simp
    next
      case deep: False
      from begun_step [OF "2.prems"(1) b] 2 deep False show ?thesis by simp
    qed
  qed
qed

lemma length_new_paths: "length (filter P (extensions links path)) \<le> length links"
  by (meson length_extensions length_filter_le order_trans)

lemma path_loop_bounded:
  "0 < limit \<Longrightarrow> length paths < limit + length links \<Longrightarrow>
     length (path_loop links target max_depth limit queue paths) < limit + length links"
proof (induction links target max_depth limit queue paths rule: path_loop.induct)
  case (2 links target max_depth limit path queue paths)
  show ?case
  proof (cases "limit \<le> length paths \<or> max_depth \<le> length path - 1")
    case True
    with 2 show ?thesis by auto
  next
    case False
    then have "length (paths @ filter (\<lambda>p. last p = target) (extensions links path)) < limit + length links"
      using length_new_paths [of "\<lambda>p. last p = target" links path] by simp
    with 2 False show ?thesis by simp
  qed
qed simp

text \<open>The queue grows one node at a time, so paths are found shortest first.\<close>

definition breadth_first :: "string list list \<Rightarrow> string list list \<Rightarrow> bool" where
  "breadth_first queue paths \<longleftrightarrow>
     sorted (map length queue) \<and> sorted (map length paths)
     \<and> (\<forall>p \<in> set queue \<union> set paths. queue \<noteq> [] \<longrightarrow> length p \<le> Suc (length (hd queue)))"

lemma sorted_const: "\<forall>x \<in> set xs. x = (c :: nat) \<Longrightarrow> sorted xs"
  by (induction xs) auto

lemma breadth_first_step:
  assumes "breadth_first (path # queue) paths" and new: "\<And>p. p \<in> set a \<union> set b \<Longrightarrow> length p = Suc (length path)"
  shows "breadth_first (queue @ a) (paths @ b)"
proof -
  have le: "length p \<le> Suc (length path)" if "p \<in> set queue \<union> set paths" for p
    using assms(1) that by (auto simp: breadth_first_def)
  have ge: "length path \<le> length p" if "p \<in> set queue" for p
    using assms(1) that by (auto simp: breadth_first_def)
  have "sorted (map length a)" "sorted (map length b)"
    using new by (auto intro: sorted_const [of _ "Suc (length path)"])
  moreover have "sorted (map length queue)" "sorted (map length paths)"
    using assms(1) by (simp_all add: breadth_first_def)
  ultimately have "sorted (map length (queue @ a))" "sorted (map length (paths @ b))"
    using le new by (fastforce simp: sorted_append)+
  moreover have "length p \<le> Suc (length (hd (queue @ a)))" if "p \<in> set (queue @ a) \<union> set (paths @ b)" "queue @ a \<noteq> []" for p
  proof -
    have "length p \<le> Suc (length path)" using that(1) le new by fastforce
    moreover have "hd (queue @ a) \<in> set queue \<union> set a" using that(2) by (cases queue) (auto simp: hd_in_set)
    then have "length path \<le> length (hd (queue @ a))" using ge new by (metis UnE UnI1 le_SucI order_refl)
    ultimately show ?thesis by simp
  qed
  ultimately show ?thesis unfolding breadth_first_def by blast
qed

lemma path_loop_sorted:
  "breadth_first queue paths \<Longrightarrow> sorted (map length (path_loop links target max_depth limit queue paths))"
proof (induction links target max_depth limit queue paths rule: path_loop.induct)
  case (1 links target max_depth limit paths)
  then show ?case by (simp add: breadth_first_def)
next
  case (2 links target max_depth limit path queue paths)
  have step: "breadth_first (queue @ filter (\<lambda>p. last p \<noteq> target) (extensions links path))
      (paths @ filter (\<lambda>p. last p = target) (extensions links path))"
    by (rule breadth_first_step [OF "2.prems"]) (auto simp: extensions_def)
  have skip: "breadth_first queue paths"
    using breadth_first_step [OF "2.prems", of "[]" "[]"] by simp
  show ?case using 2 step skip by (auto simp: breadth_first_def)
qed

lemma linked_ends:
  "linked links p \<Longrightarrow> i \<in> set p \<Longrightarrow> i = hd p \<or> (\<exists>l \<in> set links. gl_target l = i)"
  by (induction links p rule: linked.induct) auto

text \<open>
  C12. On a snapshot whose graph passed the check, \<open>find_paths\<close> answers with simple paths of at most
  \<open>max_depth\<close> links between the two symbols, the shortest first.  It lists all of them when it lists
  fewer than \<open>limit\<close>; it may list more than \<open>limit\<close>, by less than the number of links.
\<close>

theorem find_paths_exact:
  assumes graph: "graph_ok files (sp_graph sp)" and run: "find_paths sp a b max_depth limit = Inr answer"
  shows "\<exists>paths. answer = map (map (\<lambda>i. node_result sp (the (node_by_id sp i)))) paths
    \<and> (\<forall>p \<in> set paths. simple_path (gr_links (sp_graph sp)) a b (nat max_depth) p \<and> (\<forall>i \<in> set p. node_by_id sp i \<noteq> None))
    \<and> sorted (map length paths)
    \<and> int (length paths) < limit + int (length (gr_links (sp_graph sp)))
    \<and> (int (length paths) < limit \<longrightarrow>
         (\<forall>p. simple_path (gr_links (sp_graph sp)) a b (nat max_depth) p \<longrightarrow> p \<in> set paths))"
proof -
  let ?links = "gr_links (sp_graph sp)"
  define paths where "paths = path_loop ?links b (nat max_depth) (nat limit) [[a]] []"
  have start: "node_by_id sp a \<noteq> None" and limit: "1 \<le> limit"
    and answer: "result_list (path_result sp) paths = Inr answer"
    unfolding paths_def using run by (auto simp: find_paths_def serving_error_def bounded_limit_def result_bind_Inr_iff split: if_splits simp del: path_loop.simps)
  have sound: "simple_path ?links a b (nat max_depth) p" if "p \<in> set paths" for p
    by (rule path_loop_sound [OF _ _ that [unfolded paths_def]]) (auto simp: open_path_def)
  have known: "node_by_id sp i \<noteq> None" if "p \<in> set paths" "i \<in> set p" for p i
  proof -
    have "i = a \<or> (\<exists>l \<in> set ?links. gl_target l = i)"
      using sound [OF that(1)] linked_ends [of ?links p i] that(2) by (auto simp: simple_path_def)
    with start graph node_by_id_known [of i sp] show ?thesis by (auto simp: graph_ok_def)
  qed
  have one: "path_result sp p = Inr (map (\<lambda>i. node_result sp (the (node_by_id sp i))) p)" if "p \<in> set paths" for p
    unfolding path_result_def using known [OF that] by (intro result_list_Inr) (auto split: option.splits)
  have "answer = map (map (\<lambda>i. node_result sp (the (node_by_id sp i)))) paths"
    using result_list_Inr [of paths, OF one] answer by simp
  moreover have "p \<in> set paths" if few: "int (length paths) < limit" and p: "simple_path ?links a b (nat max_depth) p" for p
    unfolding paths_def
  proof (rule path_loop_complete [OF p])
    obtain y r where "p = a # y # r"
      using p by (cases p; cases "tl p") (auto simp: simple_path_def)
    then show "begun [[a]] p \<or> p \<in> set []" by (simp add: begun_def)
    show "length (path_loop ?links b (nat max_depth) (nat limit) [[a]] []) < nat limit"
      using few by (simp add: paths_def del: path_loop.simps)
  qed
  moreover have "length paths < nat limit + length ?links"
    unfolding paths_def using limit by (intro path_loop_bounded) simp_all
  moreover have "sorted (map length paths)" unfolding paths_def by (rule path_loop_sorted) (simp add: breadth_first_def)
  ultimately show ?thesis using sound known limit by (intro exI [of _ paths]) auto
qed

section \<open>Source search is a prefix of all matches\<close>

fun matches_from :: "(nat \<Rightarrow> string \<Rightarrow> source_match option) \<Rightarrow> nat \<Rightarrow> string list \<Rightarrow> source_match list" where
  "matches_from m n [] = []"
| "matches_from m n (line # rest) =
     (case m n line of None \<Rightarrow> matches_from m (Suc n) rest | Some h \<Rightarrow> h # matches_from m (Suc n) rest)"

definition all_matches :: "string \<Rightarrow> string \<Rightarrow> source_file list \<Rightarrow> source_match list" where
  "all_matches query normalized fs =
     concat (map (\<lambda>f. matches_from (line_match query normalized f) 1 (splitlines (sf_text f))) (filter searched fs))"

lemma line_loop_take:
  "length acc \<le> limit \<Longrightarrow> line_loop m limit n acc ls = take (Suc limit) (acc @ matches_from m n ls)"
  by (induction m limit n acc ls rule: line_loop.induct) (auto simp: Suc_diff_le split: option.splits)

lemma file_loop_take:
  "length acc \<le> limit \<Longrightarrow> file_loop query normalized limit acc fs = take (Suc limit) (acc @ all_matches query normalized fs)"
proof (induction query normalized limit acc fs rule: file_loop.induct)
  case (2 query normalized limit acc f fs)
  show ?case
  proof (cases "searched f")
    case True
    let ?new = "matches_from (line_match query normalized f) 1 (splitlines (sf_text f))"
    have loop: "line_loop (line_match query normalized f) limit 1 acc (splitlines (sf_text f)) = take (Suc limit) (acc @ ?new)"
      by (rule line_loop_take [OF "2.prems"])
    show ?thesis
    proof (cases "limit < length (acc @ ?new)")
      case full: True
      then show ?thesis using True loop "2.prems" by (simp add: all_matches_def Let_def Suc_diff_le)
    next
      case False
      then have "take (Suc limit) (acc @ ?new) = acc @ ?new" by simp
      with False "2.IH"(2) [OF _ refl] True loop show ?thesis by (simp add: all_matches_def Let_def)
    qed
  next
    case False
    with 2 show ?thesis by (simp add: all_matches_def)
  qed
qed (simp add: all_matches_def)

definition search_source_spec :: "snapshot \<Rightarrow> string \<Rightarrow> nat \<Rightarrow> search_answer" where
  "search_source_spec sp query n =
     (let found = all_matches query (lower (strip query)) (sorted_files sp) in
      \<lparr>sa_source = sp_alias sp, sa_commit = sp_commit sp, sa_query = query, sa_matches = take n found,
       sa_count = min (length found) n, sa_truncated = (n < length found)\<rparr>)"

text \<open>
  C18. A source search answers with the first \<open>limit\<close> of all matches in path and line order, and says it
  was truncated exactly when there are more, although both of its loops stop early.
\<close>

theorem search_source_exact:
  assumes "strip query \<noteq> []" and "length query \<le> 256" and "\<forall>c \<in> set query. 32 \<le> char_code c"
    and "1 \<le> limit" and "limit \<le> 50"
  shows "search_source sp query limit = Inr (search_source_spec sp query (nat limit))"
proof -
  let ?n = "nat limit"
  let ?all = "all_matches query (lower (strip query)) (sorted_files sp)"
  have "file_loop query (lower (strip query)) ?n [] (sorted_files sp) = take (Suc ?n) ?all"
    by (simp add: file_loop_take)
  moreover have "take ?n (take (Suc ?n) ?all) = take ?n ?all" by (simp add: min_def)
  moreover have "lower (strip query) \<noteq> []" using assms(1) by (simp add: lower_def)
  moreover have "\<not> (\<exists>c \<in> set query. char_code c < 32)" using assms(3) by auto
  ultimately show ?thesis
    using assms by (simp add: search_source_def search_source_spec_def bounded_limit_def Let_def min_def)
qed

section \<open>Neighbours\<close>

fun neighbor_links :: "string \<Rightarrow> string \<Rightarrow> glink list \<Rightarrow> (glink \<times> string) list" where
  "neighbor_links direction i [] = []"
| "neighbor_links direction i (l # ls) =
     (case link_neighbor direction i l of
        None \<Rightarrow> neighbor_links direction i ls
      | Some j \<Rightarrow> (l, j) # neighbor_links direction i ls)"

definition neighbor_entry :: "snapshot \<Rightarrow> glink \<times> string \<Rightarrow> neighbor" where
  "neighbor_entry sp p = \<lparr>nb_relation = public_link (fst p), nb_symbol = node_result sp (the (node_by_id sp (snd p)))\<rparr>"

lemma neighbor_loop_take:
  assumes "\<And>l j. l \<in> set ls \<Longrightarrow> link_neighbor direction i l = Some j \<Longrightarrow> node_by_id sp j \<noteq> None"
    and "length acc < limit"
  shows "neighbor_loop sp direction i limit acc ls
    = Inr (take limit (acc @ map (neighbor_entry sp) (neighbor_links direction i ls)))"
  using assms
proof (induction sp direction i limit acc ls rule: neighbor_loop.induct)
  case (2 sp direction i limit acc l ls)
  show ?case
  proof (cases "link_neighbor direction i l")
    case None
    have "neighbor_loop sp direction i limit acc ls
        = Inr (take limit (acc @ map (neighbor_entry sp) (neighbor_links direction i ls)))"
      by (rule "2.IH"(1) [OF None]) (use "2.prems" in auto)
    with None show ?thesis by simp
  next
    case (Some j)
    with "2.prems"(1) [of l j] obtain n where n: "node_by_id sp j = Some n" by auto
    let ?e = "neighbor_entry sp (l, j)"
    have e: "?e = \<lparr>nb_relation = public_link l, nb_symbol = node_result sp n\<rparr>" by (simp add: neighbor_entry_def n)
    show ?thesis
    proof (cases "Suc (length acc) = limit")
      case True
      then show ?thesis using Some n e by auto
    next
      case False
      with "2.prems"(2) have "length (acc @ [?e]) < limit" by simp
      have "neighbor_loop sp direction i limit (acc @ [?e]) ls
          = Inr (take limit ((acc @ [?e]) @ map (neighbor_entry sp) (neighbor_links direction i ls)))"
        by (rule "2.IH"(2) [OF Some n refl, folded e]) (use "2.prems" False in auto)
      then show ?thesis using False Some n e by simp
    qed
  qed
qed simp

text \<open>
  C1. On a checked graph \<open>get_neighbors\<close> never fails on a symbol it knows: it answers with the first
  \<open>limit\<close> links of the symbol in the asked direction, each with the node at its other end.
\<close>

theorem get_neighbors_exact:
  assumes "graph_ok files (sp_graph sp)" and "node_by_id sp i = Some n"
    and "direction \<in> {''incoming'', ''outgoing'', ''both''}" and "1 \<le> limit" and "limit \<le> 100"
  shows "get_neighbors sp i direction limit
    = Inr (node_result sp n, take (nat limit) (map (neighbor_entry sp) (neighbor_links direction i (gr_links (sp_graph sp)))))"
proof -
  have "node_by_id sp j \<noteq> None" if "l \<in> set (gr_links (sp_graph sp))" "link_neighbor direction i l = Some j" for l j
  proof -
    have "j = gl_source l \<or> j = gl_target l" using that(2) by (auto simp: link_neighbor_def split: if_splits)
    with assms(1) that(1) node_by_id_known [of j sp] show ?thesis by (auto simp: graph_ok_def)
  qed
  then have "neighbor_loop sp direction i (nat limit) [] (gr_links (sp_graph sp))
      = Inr (take (nat limit) (map (neighbor_entry sp) (neighbor_links direction i (gr_links (sp_graph sp)))))"
    using assms(4) by (subst neighbor_loop_take) auto
  with assms(2-5) show ?thesis by (simp add: get_neighbors_def bounded_limit_def)
qed

section \<open>A small snapshot\<close>

definition demo_json :: pydict where
  "demo_json =
     (let node = (\<lambda>i f. PDict [(''id'', PStr i), (''label'', PStr (''fn '' @ i)), (''source_file'', PStr f)]);
          link = (\<lambda>a b. PDict [(''source'', PStr a), (''target'', PStr b), (''relation'', PStr ''calls'')])
      in [(''nodes'', PList [node ''a'' ''x.py'', node ''b'' ''./y.py'', node ''c'' []]),
          (''links'', PList [link ''a'' ''b'', link ''a'' ''b'', link ''b'' ''c'', link ''c'' ''a'']),
          (''hyperedges'', PList [])])"

definition demo_files :: "source_file list" where
  "demo_files =
     [\<lparr>sf_path = ''y.py'', sf_size = 20, sf_text = ''run a'' @ newline @ ''stop'' @ newline @ ''Run b''\<rparr>,
      \<lparr>sf_path = ''x.py'', sf_size = 10, sf_text = ''run c''\<rparr>,
      \<lparr>sf_path = ''dist/z.py'', sf_size = 10, sf_text = ''run d''\<rparr>]"

definition demo_graph :: graph where
  "demo_graph =
     (case validate_serving_graph (map sf_path demo_files) demo_json of
        Inr g \<Rightarrow> g | Inl _ \<Rightarrow> \<lparr>gr_nodes = [], gr_links = [], gr_hyperedges = []\<rparr>)"

definition demo_snapshot :: snapshot where
  "demo_snapshot =
     \<lparr>sp_source_id = 1, sp_version_id = 2, sp_alias = ''repo'', sp_commit = Some ''abc'', sp_graph = demo_graph,
      sp_files = demo_files\<rparr>"

lemma demo_graph_valid: "validate_serving_graph (map sf_path demo_files) demo_json = Inr demo_graph"
  by code_simp

lemma demo_graph_ok: "graph_ok (map sf_path demo_files) (sp_graph demo_snapshot)"
  using validated_graph_ok [OF demo_graph_valid] by (simp add: demo_snapshot_def)

text \<open>The limit is tested once per path taken from the queue: two parallel links give two paths for a limit of one.\<close>

lemma find_paths_over_limit: "result_map length (find_paths demo_snapshot ''a'' ''b'' 6 1) = Inr 2"
  by code_simp

lemma demo_paths: "result_map length (find_paths demo_snapshot ''a'' ''c'' 6 10) = Inr 2"
  by code_simp

lemma demo_source_search:
  "result_map (\<lambda>x. (map (\<lambda>m. (sm_path m, sm_line m)) (sa_matches x), sa_truncated x)) (search_source demo_snapshot '' RUN '' 2)
    = Inr ([(''x.py'', 1), (''y.py'', 1)], True)"
  by code_simp

theorem find_paths_exact_witness:
  "\<exists>answer paths. find_paths demo_snapshot ''a'' ''c'' 6 10 = Inr answer
    \<and> answer = map (map (\<lambda>i. node_result demo_snapshot (the (node_by_id demo_snapshot i)))) paths
    \<and> length paths = 2 \<and> sorted (map length paths)
    \<and> [''a'', ''b'', ''c''] \<in> set paths"
proof -
  obtain answer where run: "find_paths demo_snapshot ''a'' ''c'' 6 10 = Inr answer" and n: "length answer = 2"
    using demo_paths by (auto simp: result_map_Inr_iff)
  obtain paths where paths: "answer = map (map (\<lambda>i. node_result demo_snapshot (the (node_by_id demo_snapshot i)))) paths"
      "sorted (map length paths)"
    and all: "int (length paths) < 10 \<Longrightarrow> simple_path (gr_links (sp_graph demo_snapshot)) ''a'' ''c'' (nat 6) p \<Longrightarrow> p \<in> set paths" for p
    using find_paths_exact [OF demo_graph_ok run] by blast
  have "simple_path (gr_links (sp_graph demo_snapshot)) ''a'' ''c'' (nat 6) [''a'', ''b'', ''c'']" by code_simp
  with all paths(1) n have "[''a'', ''b'', ''c''] \<in> set paths" by simp
  with run n paths show ?thesis by auto
qed

theorem search_source_exact_witness:
  "search_source demo_snapshot '' RUN '' 2 = Inr (search_source_spec demo_snapshot '' RUN '' 2)"
proof -
  have "strip '' RUN '' \<noteq> []" "\<forall>c \<in> set '' RUN ''. 32 \<le> char_code c" by code_simp+
  then show ?thesis using search_source_exact [of "'' RUN ''" 2 demo_snapshot] by simp
qed

theorem get_neighbors_exact_witness:
  "\<exists>n. get_neighbors demo_snapshot ''a'' ''both'' 2
    = Inr (node_result demo_snapshot n, take 2 (map (neighbor_entry demo_snapshot)
        (neighbor_links ''both'' ''a'' (gr_links (sp_graph demo_snapshot)))))"
proof -
  have "node_by_id demo_snapshot ''a'' \<noteq> None" by code_simp
  then obtain n where "node_by_id demo_snapshot ''a'' = Some n" by blast
  from get_neighbors_exact [OF demo_graph_ok this, of "''both''" 2] show ?thesis by auto
qed

end
