(* ===== verification/Knowledge_Cache.thy ===== *)
theory Knowledge_Cache
  imports Graph_Queries Object_Store Db_Models
begin

text \<open>
  \<open>shared/lib/knowledge_source_cache.py\<close>: the local cache a query server reads.  A version is downloaded
  into a temporary directory, checked against the digests the registry promoted, extracted, and moved
  into place.  SHA-256, JSON and the archive reader are parameters; the temporary directory is the value
  that is built before the move.
\<close>

section \<open>Directories\<close>

text \<open>The files at the top of a version directory, and the tree under \<open>source\<close> when it exists.\<close>

record version_dir =
  vd_files :: files
  vd_tree :: "files option"
  vd_mtime :: nat

record source_cache =
  sc_versions :: "(uuid \<times> version_dir) list"
  sc_current :: "uuid option"

text \<open>
  Reading an archive gives the members up to an error of the stream, if there is one; a member that is
  not a file has no content.
\<close>

record cache_tools =
  ct_sha :: "string \<Rightarrow> string"
  ct_json :: "string \<Rightarrow> pyval option"
  ct_archive :: "string \<Rightarrow> (member \<times> string option) list \<times> py_error option"

definition hydration_error :: "string \<Rightarrow> 'a result" where
  "hydration_error msg = Inl (Runtime_error msg)"

section \<open>Reading artifacts\<close>

definition expected_checksum :: "source_version \<Rightarrow> string \<Rightarrow> string result" where
  "expected_checksum v name =
     (case dict_get (kv_artifact_checksums v) name of
        PStr s \<Rightarrow>
          (if starts_with ''sha256:'' s \<and> length s = 71 \<and> int16_ok (remove_prefix ''sha256:'' s)
           then Inr (remove_prefix ''sha256:'' s)
           else hydration_error (''Knowledge Source version has no valid '' @ name @ '' checksum''))
      | _ \<Rightarrow> hydration_error (''Knowledge Source version has no valid '' @ name @ '' checksum''))"

definition read_file :: "files \<Rightarrow> string \<Rightarrow> string result" where
  "read_file fs name = (case map_of fs name of None \<Rightarrow> Inl (Os_error name) | Some c \<Rightarrow> Inr c)"

definition load_json :: "(string \<Rightarrow> pyval option) \<Rightarrow> files \<Rightarrow> string \<Rightarrow> pydict result" where
  "load_json json fs name =
     (case Option.bind (map_of fs name) json of
        None \<Rightarrow> hydration_error (''Could not read Knowledge Source JSON artifact '' @ name)
      | Some (PDict d) \<Rightarrow> Inr d
      | Some _ \<Rightarrow> hydration_error (''Knowledge Source JSON artifact '' @ name @ '' must be an object''))"

text \<open>\<open>Path(key).name\<close>.\<close>

definition path_name :: "string \<Rightarrow> string" where
  "path_name p = (if path_parts p = [] then [] else last (path_parts p))"

definition serving_artifacts :: "(string \<times> string) list" where
  "serving_artifacts = [(''manifest'', ''manifest.json''), (''graph'', ''graph.json''), (''source'', ''source.tar.zst'')]"

definition download_artifact ::
    "'s store_api \<Rightarrow> cache_tools \<Rightarrow> string \<Rightarrow> source_version \<Rightarrow> 's \<Rightarrow> files \<Rightarrow> string \<times> string \<Rightarrow> files result" where
  "download_artifact store tools bucket v s fs a =
     (let (name, file_name) = a;
          no_key = hydration_error (''Knowledge Source version has no valid '' @ name @ '' artifact key'')
      in case dict_get (kv_artifact_keys v) name of
           PStr key \<Rightarrow>
             (if key = [] \<or> path_name key \<noteq> file_name then no_key
              else result_bind (st_download store bucket key s) (\<lambda>got.
                case got of
                  None \<Rightarrow> hydration_error (''Knowledge Source serving artifact is missing: '' @ key)
                | Some c \<Rightarrow>
                    result_bind (expected_checksum v name) (\<lambda>x.
                      if ct_sha tools c \<noteq> x
                      then hydration_error (''Knowledge Source '' @ name @ '' artifact checksum does not match version'')
                      else Inr (fs @ [(file_name, c)]))))
         | _ \<Rightarrow> no_key)"

definition download_serving_artifacts ::
    "'s store_api \<Rightarrow> cache_tools \<Rightarrow> string \<Rightarrow> source_version \<Rightarrow> 's \<Rightarrow> files result" where
  "download_serving_artifacts store tools bucket v s =
     result_fold (download_artifact store tools bucket v s) [] serving_artifacts"

section \<open>The manifest\<close>

definition expected_identity :: "knowledge_source \<Rightarrow> source_version \<Rightarrow> pyval" where
  "expected_identity s v =
     PDict [(''id'', PStr (uuid_str (ks_id s))), (''canonical_alias'', PStr (ks_canonical_alias s)),
       (''repository_url'', opt_str (ks_repository_url s)), (''commit_sha'', opt_str (kv_commit_sha v)),
       (''include_paths'', PList (ks_include_paths s)), (''exclude_paths'', PList (ks_exclude_paths s))]"

definition check_artifact :: "cache_tools \<Rightarrow> files \<Rightarrow> pydict \<Rightarrow> string \<times> string \<Rightarrow> unit result" where
  "check_artifact tools fs artifacts a =
     (let (name, file_name) = a in
      case dict_get artifacts name of
        PDict entry \<Rightarrow>
          (if dict_get entry ''file'' \<noteq> PStr file_name
           then hydration_error (''Knowledge Source manifest has invalid '' @ name @ '' metadata'')
           else result_bind (read_file fs file_name) (\<lambda>c.
             if \<not> eq_int (dict_get entry ''size_bytes'') (int (length c)) \<or> dict_get entry ''sha256'' \<noteq> PStr (ct_sha tools c)
             then hydration_error (''Knowledge Source manifest does not match '' @ name @ '' artifact'')
             else Inr ()))
      | _ \<Rightarrow> hydration_error (''Knowledge Source manifest has invalid '' @ name @ '' metadata''))"

definition validate_downloaded_artifacts ::
    "cache_tools \<Rightarrow> knowledge_source \<Rightarrow> source_version \<Rightarrow> files \<Rightarrow> pydict result" where
  "validate_downloaded_artifacts tools s v fs =
     result_bind (load_json (ct_json tools) fs ''manifest.json'') (\<lambda>manifest.
       if \<not> py_eq (dict_get manifest ''source'') (expected_identity s v)
       then hydration_error ''Knowledge Source manifest identity or scope does not match registry''
       else case dict_get manifest ''artifacts'' of
         PDict artifacts \<Rightarrow>
           result_map (\<lambda>_. manifest)
             (result_fold (\<lambda>_. check_artifact tools fs artifacts) ()
               [(''graph'', ''graph.json''), (''source'', ''source.tar.zst'')])
       | _ \<Rightarrow> hydration_error ''Knowledge Source manifest has no artifact metadata'')"

section \<open>The source archive\<close>

text \<open>
  Writing a file makes its parent directories: it fails where a file stands in the way of a directory, or
  a directory in the way of the file.
\<close>

definition strict_prefix_of :: "string list \<Rightarrow> string list \<Rightarrow> bool" where
  "strict_prefix_of xs ys \<longleftrightarrow> length xs < length ys \<and> take (length xs) ys = xs"

definition write_tree :: "files \<Rightarrow> string \<Rightarrow> string \<Rightarrow> files result" where
  "write_tree tree name c =
     (let parts = path_parts name in
      if parts = [] \<or> (\<exists>(f, _) \<in> set tree. strict_prefix_of (path_parts f) parts \<or> strict_prefix_of parts (path_parts f))
      then Inl (Os_error name)
      else Inr (AList.update (path_norm name) c tree))"

definition check_path :: "string \<Rightarrow> unit result" where
  "check_path name =
     (if safe_path name then Inr () else hydration_error ''Knowledge Source archive contains an unsafe path'')"

record extraction =
  xt_size :: nat
  xt_count :: nat
  xt_tree :: files

definition extract_member :: "nat \<Rightarrow> extraction \<Rightarrow> member \<times> string option \<Rightarrow> extraction result" where
  "extract_member max_bytes x p =
     (let m = fst p; x' = x\<lparr>xt_size := xt_size x + tm_size m, xt_count := Suc (xt_count x)\<rparr> in
      result_bind (check_path (tm_name m)) (\<lambda>_.
        if \<not> tm_isfile m then hydration_error ''Knowledge Source archive may contain only regular files''
        else if max_bytes < xt_size x' then hydration_error ''Knowledge Source archive exceeds expanded-size limit''
        else case snd p of
          None \<Rightarrow> hydration_error (''Could not read Knowledge Source archive member '' @ tm_name m)
        | Some c \<Rightarrow> result_map (\<lambda>t. x'\<lparr>xt_tree := t\<rparr>) (write_tree (xt_tree x) (tm_name m) c)))"

text \<open>A loop over a stream: the error of the stream comes after its members.\<close>

definition stream_fold :: "('x \<Rightarrow> 'm \<Rightarrow> 'x result) \<Rightarrow> 'x \<Rightarrow> 'm list \<times> py_error option \<Rightarrow> 'x result" where
  "stream_fold f x st =
     result_bind (result_fold f x (fst st)) (\<lambda>y. case snd st of None \<Rightarrow> Inr y | Some e \<Rightarrow> Inl e)"

definition extract_source_archive :: "cache_tools \<Rightarrow> string \<Rightarrow> pydict \<Rightarrow> nat \<Rightarrow> files result" where
  "extract_source_archive tools content manifest max_bytes =
     (if max_bytes = 0 then Inl (Value_error ''Expanded source archive limit must be positive'')
      else
        result_bind (py_item (dict_get manifest ''artifacts'') ''source'') (\<lambda>metadata.
        result_bind (stream_fold (extract_member max_bytes) \<lparr>xt_size = 0, xt_count = 0, xt_tree = []\<rparr> (ct_archive tools content)) (\<lambda>x.
        result_bind (as_dict metadata) (\<lambda>d.
          if \<not> eq_int (dict_get d ''expanded_size_bytes'') (int (xt_size x)) \<or> \<not> eq_int (dict_get d ''file_count'') (int (xt_count x))
          then hydration_error ''Knowledge Source archive counts do not match manifest''
          else Inr (xt_tree x)))))"

definition validate_member :: "cache_tools \<Rightarrow> files \<Rightarrow> string list \<Rightarrow> member \<times> string option \<Rightarrow> string list result" where
  "validate_member tools tree seen p =
     (let m = fst p in
      result_bind (check_path (tm_name m)) (\<lambda>_.
        case (if tm_isfile m then snd p else None, map_of tree (path_norm (tm_name m))) of
          (Some c, Some e) \<Rightarrow>
            (if ct_sha tools c \<noteq> ct_sha tools e
             then hydration_error ''Knowledge Source extracted snapshot differs from its archive''
             else Inr (path_norm (tm_name m) # seen))
        | _ \<Rightarrow> hydration_error ''Knowledge Source extracted snapshot is incomplete''))"

definition validate_extracted_source_archive :: "cache_tools \<Rightarrow> string \<Rightarrow> files \<Rightarrow> unit result" where
  "validate_extracted_source_archive tools content tree =
     result_bind (stream_fold (validate_member tools tree) [] (ct_archive tools content)) (\<lambda>seen.
       if set (map fst tree) \<noteq> set seen
       then hydration_error ''Knowledge Source extracted snapshot has unexpected files''
       else Inr ())"

section \<open>Hydration\<close>

definition validate_graph_file :: "cache_tools \<Rightarrow> files \<Rightarrow> files \<Rightarrow> graph result" where
  "validate_graph_file tools fs tree =
     result_bind (load_json (ct_json tools) fs ''graph.json'') (validate_serving_graph (map fst tree))"

definition check_cached :: "cache_tools \<Rightarrow> knowledge_source \<Rightarrow> source_version \<Rightarrow> files \<Rightarrow> files \<Rightarrow> string \<Rightarrow> bool result" where
  "check_cached tools s v fs tree ready =
     result_bind (expected_checksum v ''manifest'') (\<lambda>x.
       if strip ready \<noteq> x then Inr False
       else result_bind (result_fold (\<lambda>same (name, file_name).
           if \<not> same then Inr False
           else result_bind (read_file fs file_name) (\<lambda>c.
             result_map (\<lambda>d. ct_sha tools c = d) (expected_checksum v name))) True serving_artifacts) (\<lambda>same.
         if \<not> same then Inr False
         else result_bind (validate_downloaded_artifacts tools s v fs) (\<lambda>_.
           result_bind (read_file fs ''source.tar.zst'') (\<lambda>content.
           result_bind (validate_extracted_source_archive tools content tree) (\<lambda>_.
           result_map (\<lambda>_. True) (validate_graph_file tools fs tree))))))"

text \<open>OS errors and the module's own error mean that the directory does not match; others propagate.\<close>

definition cached_version_matches ::
    "cache_tools \<Rightarrow> knowledge_source \<Rightarrow> source_version \<Rightarrow> version_dir option \<Rightarrow> bool result" where
  "cached_version_matches tools s v vd =
     (case vd of
        None \<Rightarrow> Inr False
      | Some d \<Rightarrow>
          (case (map_of (vd_files d) ''.ready'', vd_tree d) of
             (Some ready, Some tree) \<Rightarrow>
               (if \<exists>(_, f) \<in> set serving_artifacts. map_of (vd_files d) f = None then Inr False
                else case check_cached tools s v (vd_files d) tree ready of
                  Inl (Os_error _) \<Rightarrow> Inr False
                | Inl (Runtime_error _) \<Rightarrow> Inr False
                | r \<Rightarrow> r)
           | _ \<Rightarrow> Inr False))"

definition build_version_dir ::
    "'s store_api \<Rightarrow> cache_tools \<Rightarrow> string \<Rightarrow> nat \<Rightarrow> nat \<Rightarrow> knowledge_source \<Rightarrow> source_version \<Rightarrow> 's \<Rightarrow> version_dir result" where
  "build_version_dir store tools bucket max_bytes now s v st =
     result_bind (download_serving_artifacts store tools bucket v st) (\<lambda>fs.
     result_bind (validate_downloaded_artifacts tools s v fs) (\<lambda>manifest.
     result_bind (read_file fs ''source.tar.zst'') (\<lambda>content.
     result_bind (extract_source_archive tools content manifest max_bytes) (\<lambda>tree.
     result_bind (validate_graph_file tools fs tree) (\<lambda>_.
     result_map (\<lambda>x. \<lparr>vd_files = fs @ [(''.ready'', x @ newline)], vd_tree = Some tree, vd_mtime = now\<rparr>)
       (expected_checksum v ''manifest''))))))"

record hydrated =
  hy_source_id :: uuid
  hy_version_id :: uuid
  hy_alias :: string
  hy_dir :: version_dir

definition publish_current_pointer :: "uuid \<Rightarrow> source_cache \<Rightarrow> source_cache" where
  "publish_current_pointer version_id c = c\<lparr>sc_current := Some version_id\<rparr>"

definition hydrate_knowledge_source ::
    "'s store_api \<Rightarrow> cache_tools \<Rightarrow> string \<Rightarrow> nat \<Rightarrow> nat \<Rightarrow> knowledge_source \<Rightarrow> source_version \<Rightarrow> 's \<Rightarrow> source_cache
      \<Rightarrow> hydrated result \<times> source_cache" where
  "hydrate_knowledge_source store tools bucket max_bytes now s v st c =
     (let answer = (\<lambda>d c'. (Inr \<lparr>hy_source_id = ks_id s, hy_version_id = kv_id v, hy_alias = ks_canonical_alias s, hy_dir = d\<rparr>,
                    publish_current_pointer (kv_id v) c')) in
      if strip bucket = [] then (hydration_error ''Knowledge Source object-store bucket is required'', c)
      else if Some (kv_id v) \<noteq> ks_current_version s \<or> kv_source_id v \<noteq> ks_id s
      then (hydration_error ''Knowledge Source version is not the promoted source version'', c)
      else if kv_status v \<noteq> ''succeeded''
      then (hydration_error ''Only a successful Knowledge Source version can be hydrated'', c)
      else case (cached_version_matches tools s v (map_of (sc_versions c) (kv_id v)), map_of (sc_versions c) (kv_id v)) of
        (Inl e, _) \<Rightarrow> (Inl e, c)
      | (Inr True, Some d) \<Rightarrow> answer d c
      | _ \<Rightarrow>
          (case build_version_dir store tools (strip bucket) max_bytes now s v st of
             Inl e \<Rightarrow> (Inl e, c)
           | Inr d \<Rightarrow> answer d (c\<lparr>sc_versions := AList.update (kv_id v) d (sc_versions c)\<rparr>)))"

section \<open>What a version directory was checked for\<close>

definition digests_match :: "cache_tools \<Rightarrow> source_version \<Rightarrow> files \<Rightarrow> bool" where
  "digests_match tools v fs \<longleftrightarrow>
     (\<forall>(name, f) \<in> set serving_artifacts. \<exists>c. map_of fs f = Some c \<and> expected_checksum v name = Inr (ct_sha tools c))"

definition sound_dir :: "cache_tools \<Rightarrow> knowledge_source \<Rightarrow> source_version \<Rightarrow> version_dir \<Rightarrow> bool" where
  "sound_dir tools s v d \<longleftrightarrow>
     digests_match tools v (vd_files d)
     \<and> (\<exists>m. validate_downloaded_artifacts tools s v (vd_files d) = Inr m)
     \<and> (\<exists>tree g. vd_tree d = Some tree \<and> validate_graph_file tools (vd_files d) tree = Inr g \<and> graph_ok (map fst tree) g)"

lemma set_serving_artifacts:
  "set serving_artifacts = {(''manifest'', ''manifest.json''), (''graph'', ''graph.json''), (''source'', ''source.tar.zst'')}"
  by (simp add: serving_artifacts_def)

lemma download_artifact_Inr:
  assumes "download_artifact store tools bucket v s fs (name, f) = Inr fs'"
  obtains c where "fs' = fs @ [(f, c)]" "expected_checksum v name = Inr (ct_sha tools c)"
    and "\<exists>key. dict_get (kv_artifact_keys v) name = PStr key \<and> stored store bucket key s = Some c"
  using assms
  by (auto simp: download_artifact_def hydration_error_def Let_def stored_def result_bind_Inr_iff
      split: pyval.splits if_splits option.splits)

lemma download_serving_artifacts_Inr:
  assumes "download_serving_artifacts store tools bucket v s = Inr fs"
  obtains m g a where "fs = [(''manifest.json'', m), (''graph.json'', g), (''source.tar.zst'', a)]"
    "digests_match tools v fs"
proof -
  obtain f1 f2 where 1: "download_artifact store tools bucket v s [] (''manifest'', ''manifest.json'') = Inr f1"
    and 2: "download_artifact store tools bucket v s f1 (''graph'', ''graph.json'') = Inr f2"
    and 3: "download_artifact store tools bucket v s f2 (''source'', ''source.tar.zst'') = Inr fs"
    using assms by (auto simp: download_serving_artifacts_def serving_artifacts_def result_bind_Inr_iff)
  obtain m where m: "f1 = [(''manifest.json'', m)]" "expected_checksum v ''manifest'' = Inr (ct_sha tools m)"
    using download_artifact_Inr [OF 1] by auto
  obtain g where g: "f2 = f1 @ [(''graph.json'', g)]" "expected_checksum v ''graph'' = Inr (ct_sha tools g)"
    using download_artifact_Inr [OF 2] by auto
  obtain a where a: "fs = f2 @ [(''source.tar.zst'', a)]" "expected_checksum v ''source'' = Inr (ct_sha tools a)"
    using download_artifact_Inr [OF 3] by auto
  show thesis
    by (rule that [of m g a]) (use m g a in \<open>auto simp: digests_match_def set_serving_artifacts\<close>)
qed

text \<open>The marker beside the artifacts changes no check of them.\<close>

lemma read_file_marker [simp]: "f \<noteq> ''.ready'' \<Longrightarrow> read_file (fs @ [(''.ready'', r)]) f = read_file fs f"
  by (simp add: read_file_def map_add_def split: option.splits)

lemma load_json_marker [simp]: "f \<noteq> ''.ready'' \<Longrightarrow> load_json json (fs @ [(''.ready'', r)]) f = load_json json fs f"
  by (simp add: load_json_def map_add_def split: option.splits)

lemma check_artifact_marker [simp]:
  "snd a \<noteq> ''.ready'' \<Longrightarrow> check_artifact tools (fs @ [(''.ready'', r)]) artifacts a = check_artifact tools fs artifacts a"
  by (cases a) (simp add: check_artifact_def split: pyval.split)

lemma validate_marker [simp]:
  "validate_downloaded_artifacts tools s v (fs @ [(''.ready'', r)]) = validate_downloaded_artifacts tools s v fs"
proof (cases "load_json (ct_json tools) fs ''manifest.json''")
  case (Inr m)
  then show ?thesis by (simp add: validate_downloaded_artifacts_def split: pyval.split)
qed (simp add: validate_downloaded_artifacts_def)

lemma graph_file_marker [simp]: "validate_graph_file tools (fs @ [(''.ready'', r)]) tree = validate_graph_file tools fs tree"
  by (simp add: validate_graph_file_def)

lemma digests_marker [simp]: "digests_match tools v fs \<Longrightarrow> digests_match tools v (fs @ [(''.ready'', r)])"
  by (fastforce simp: digests_match_def map_add_def)

lemma validate_graph_file_ok: "validate_graph_file tools fs tree = Inr g \<Longrightarrow> graph_ok (map fst tree) g"
  by (auto simp: validate_graph_file_def result_bind_Inr_iff intro: validated_graph_ok)

lemma build_parts:
  assumes "build_version_dir store tools bucket max_bytes now s v st = Inr d"
  obtains fs m content tree g x where
    "download_serving_artifacts store tools bucket v st = Inr fs"
    "validate_downloaded_artifacts tools s v fs = Inr m" "read_file fs ''source.tar.zst'' = Inr content"
    "extract_source_archive tools content m max_bytes = Inr tree" "validate_graph_file tools fs tree = Inr g"
    "expected_checksum v ''manifest'' = Inr x"
    "d = \<lparr>vd_files = fs @ [(''.ready'', x @ newline)], vd_tree = Some tree, vd_mtime = now\<rparr>"
  using assms by (auto simp: build_version_dir_def result_bind_Inr_iff result_map_Inr_iff)

lemma build_sound:
  assumes "build_version_dir store tools bucket max_bytes now s v st = Inr d"
  shows "sound_dir tools s v d"
  using assms
proof (rule build_parts)
  fix fs m content tree g x
  assume p: "download_serving_artifacts store tools bucket v st = Inr fs" "validate_downloaded_artifacts tools s v fs = Inr m"
    "validate_graph_file tools fs tree = Inr g"
    "d = \<lparr>vd_files = fs @ [(''.ready'', x @ newline)], vd_tree = Some tree, vd_mtime = now\<rparr>"
  have "digests_match tools v fs" using p(1) by (rule download_serving_artifacts_Inr)
  with p show "sound_dir tools s v d" by (simp add: sound_dir_def validate_graph_file_ok)
qed

lemma check_cached_True:
  assumes "check_cached tools s v fs tree ready = Inr True"
  shows "digests_match tools v fs" "\<exists>m. validate_downloaded_artifacts tools s v fs = Inr m"
    "\<exists>g. validate_graph_file tools fs tree = Inr g"
  using assms
  by (auto simp: check_cached_def serving_artifacts_def set_serving_artifacts digests_match_def read_file_def
      result_bind_Inr_iff result_map_Inr_iff split: if_splits option.splits)

lemma cached_sound:
  assumes "cached_version_matches tools s v (Some d) = Inr True"
  shows "sound_dir tools s v d"
proof -
  obtain ready tree where t: "vd_tree d = Some tree" and c: "check_cached tools s v (vd_files d) tree ready = Inr True"
    using assms by (auto simp: cached_version_matches_def split: option.splits if_splits sum.splits py_error.splits)
  from check_cached_True [OF c] t show ?thesis
    using validate_graph_file_ok by (fastforce simp: sound_dir_def)
qed

section \<open>Hydration twice\<close>

definition member_path :: "member \<times> string option \<Rightarrow> string" where
  "member_path p = path_norm (tm_name (fst p))"

definition held :: "files \<Rightarrow> member \<times> string option \<Rightarrow> bool" where
  "held tree p \<longleftrightarrow>
     safe_path (tm_name (fst p)) \<and> tm_isfile (fst p) \<and> (\<exists>c. snd p = Some c \<and> map_of tree (member_path p) = Some c)"

lemma extract_member_Inr:
  assumes "extract_member max_bytes x p = Inr y"
  shows "xt_tree y = AList.update (member_path p) (the (snd p)) (xt_tree x)" "held (xt_tree y) p"
  using assms
  by (auto simp: extract_member_def check_path_def hydration_error_def write_tree_def member_path_def held_def Let_def
      result_bind_Inr_iff result_map_Inr_iff split: if_splits option.splits)

lemma extract_fold:
  assumes "result_fold (extract_member max_bytes) x ps = Inr y" and "distinct (map member_path ps)"
  shows "(\<forall>p \<in> set ps. held (xt_tree y) p) \<and> fst ` set (xt_tree y) = fst ` set (xt_tree x) \<union> member_path ` set ps
    \<and> (\<forall>k. k \<notin> member_path ` set ps \<longrightarrow> map_of (xt_tree y) k = map_of (xt_tree x) k)"
  using assms
proof (induction ps arbitrary: x)
  case (Cons p ps)
  then obtain z where z: "extract_member max_bytes x p = Inr z" and rest: "result_fold (extract_member max_bytes) z ps = Inr y"
    by (auto simp: result_bind_Inr_iff)
  note step = extract_member_Inr [OF z]
  from Cons.IH [OF rest] Cons.prems(2)
  have ih: "\<forall>q \<in> set ps. held (xt_tree y) q" "fst ` set (xt_tree y) = fst ` set (xt_tree z) \<union> member_path ` set ps"
    "\<forall>k. k \<notin> member_path ` set ps \<longrightarrow> map_of (xt_tree y) k = map_of (xt_tree z) k"
    by auto
  have "map_of (xt_tree y) (member_path p) = map_of (xt_tree z) (member_path p)" using ih(3) Cons.prems(2) by simp
  with step(2) have "held (xt_tree y) p" by (simp add: held_def)
  with ih step(1) show ?case by (auto simp: dom_update)
qed simp

lemma validate_fold:
  "\<forall>p \<in> set ps. held tree p \<Longrightarrow>
     result_fold (validate_member tools tree) seen ps = Inr (rev (map member_path ps) @ seen)"
  by (induction ps arbitrary: seen) (auto simp: validate_member_def check_path_def held_def member_path_def Let_def)

lemma extracted_validates:
  assumes "extract_source_archive tools content m max_bytes = Inr tree"
    and "distinct (map member_path (fst (ct_archive tools content)))"
  shows "validate_extracted_source_archive tools content tree = Inr ()"
proof -
  let ?ms = "fst (ct_archive tools content)"
  obtain x where x: "result_fold (extract_member max_bytes) \<lparr>xt_size = 0, xt_count = 0, xt_tree = []\<rparr> ?ms = Inr x"
    and quiet: "snd (ct_archive tools content) = None" and tree: "tree = xt_tree x"
    using assms(1) by (auto simp: extract_source_archive_def stream_fold_def hydration_error_def result_bind_Inr_iff
        split: if_splits option.splits)
  from extract_fold [OF x assms(2)]
  have h: "\<forall>p \<in> set ?ms. held tree p" and k: "fst ` set tree = member_path ` set ?ms"
    by (simp_all add: tree)
  show ?thesis
    using validate_fold [OF h, of tools "[]"] k quiet
    by (simp add: validate_extracted_source_archive_def stream_fold_def)
qed

lemma strip_newline: "strip x = x \<Longrightarrow> strip (x @ newline) = x"
proof -
  assume x: "strip x = x"
  show ?thesis
  proof (cases "\<forall>c \<in> set x. is_space c")
    case True
    then have "x = []" using x by (simp add: strip_def lstrip_def rstrip_def dropWhile_eq_Nil_conv [THEN iffD2])
    then show ?thesis by (simp add: strip_def lstrip_def rstrip_def newline_def is_space_def)
  next
    case False
    then have "lstrip (x @ newline) = lstrip x @ newline" by (auto simp: lstrip_def dropWhile_append)
    then show ?thesis using x by (auto simp: strip_def rstrip_def newline_def is_space_def)
  qed
qed

lemma built_is_cached:
  assumes "build_version_dir store tools bucket max_bytes now s v st = Inr d"
    and hex: "\<And>c. strip (ct_sha tools c) = ct_sha tools c"
    and members: "\<And>c. distinct (map member_path (fst (ct_archive tools c)))"
  shows "cached_version_matches tools s v (Some d) = Inr True"
  using assms(1)
proof (rule build_parts)
  fix fs m content tree g x
  assume p: "download_serving_artifacts store tools bucket v st = Inr fs"
    "validate_downloaded_artifacts tools s v fs = Inr m" "read_file fs ''source.tar.zst'' = Inr content"
    "extract_source_archive tools content m max_bytes = Inr tree" "validate_graph_file tools fs tree = Inr g"
    "expected_checksum v ''manifest'' = Inr x"
    and d: "d = \<lparr>vd_files = fs @ [(''.ready'', x @ newline)], vd_tree = Some tree, vd_mtime = now\<rparr>"
  obtain a b e where fs: "fs = [(''manifest.json'', a), (''graph.json'', b), (''source.tar.zst'', e)]"
    and dig: "digests_match tools v fs"
    using p(1) by (rule download_serving_artifacts_Inr)
  have sums: "expected_checksum v ''manifest'' = Inr (ct_sha tools a)" "expected_checksum v ''graph'' = Inr (ct_sha tools b)"
    "expected_checksum v ''source'' = Inr (ct_sha tools e)"
    using dig by (simp_all add: digests_match_def set_serving_artifacts fs)
  have x: "x = ct_sha tools a" using p(6) sums(1) by simp
  have tree: "validate_extracted_source_archive tools content tree = Inr ()"
    by (rule extracted_validates [OF p(4) members])
  have marked: "validate_downloaded_artifacts tools s v (fs @ [(''.ready'', x @ newline)]) = Inr m"
    "validate_graph_file tools (fs @ [(''.ready'', x @ newline)]) tree = Inr g"
    using p(2,5) by simp_all
  have "check_cached tools s v (vd_files d) tree (x @ newline) = Inr True"
    unfolding check_cached_def serving_artifacts_def
    using p(3) tree sums hex marked [unfolded fs append.simps x]
    by (simp add: d fs x strip_newline read_file_def)
  then show "cached_version_matches tools s v (Some d) = Inr True"
    by (simp add: cached_version_matches_def d fs set_serving_artifacts)
qed

lemma hydrate_cases:
  assumes "hydrate_knowledge_source store tools bucket max_bytes now s v st c = (Inr h, c')"
  obtains d where "strip bucket \<noteq> []" "ks_current_version s = Some (kv_id v)" "kv_source_id v = ks_id s"
      "kv_status v = ''succeeded''" "hy_dir h = d" "map_of (sc_versions c) (kv_id v) = Some d"
      "cached_version_matches tools s v (Some d) = Inr True"
      "h = \<lparr>hy_source_id = ks_id s, hy_version_id = kv_id v, hy_alias = ks_canonical_alias s, hy_dir = d\<rparr>"
      "c' = c\<lparr>sc_current := Some (kv_id v)\<rparr>"
    | d where "strip bucket \<noteq> []" "ks_current_version s = Some (kv_id v)" "kv_source_id v = ks_id s"
      "kv_status v = ''succeeded''" "hy_dir h = d"
      "build_version_dir store tools (strip bucket) max_bytes now s v st = Inr d"
      "h = \<lparr>hy_source_id = ks_id s, hy_version_id = kv_id v, hy_alias = ks_canonical_alias s, hy_dir = d\<rparr>"
      "c' = c\<lparr>sc_versions := AList.update (kv_id v) d (sc_versions c), sc_current := Some (kv_id v)\<rparr>"
  using assms
  by (auto simp: hydrate_knowledge_source_def hydration_error_def publish_current_pointer_def Let_def
      split: if_splits sum.splits option.splits bool.splits)

lemma hydration_effect:
  "case hydrate_knowledge_source store tools bucket max_bytes now s v st c of
     (Inl e, c') \<Rightarrow> c' = c
   | (Inr h, c') \<Rightarrow>
       ks_current_version s = Some (kv_id v) \<and> kv_source_id v = ks_id s \<and> kv_status v = ''succeeded''
       \<and> h = \<lparr>hy_source_id = ks_id s, hy_version_id = kv_id v, hy_alias = ks_canonical_alias s, hy_dir = hy_dir h\<rparr>
       \<and> map_of (sc_versions c') = (map_of (sc_versions c))(kv_id v \<mapsto> hy_dir h)
       \<and> sc_current c' = Some (kv_id v) \<and> sound_dir tools s v (hy_dir h)"
proof (cases "hydrate_knowledge_source store tools bucket max_bytes now s v st c")
  case (Pair r c')
  show ?thesis
  proof (cases r)
    case (Inl e)
    with Pair show ?thesis
      by (auto simp: hydrate_knowledge_source_def hydration_error_def Let_def split: if_splits sum.splits option.splits bool.splits)
  next
    case (Inr h)
    from Pair [unfolded Inr] show ?thesis
    proof (cases rule: hydrate_cases)
      case (1 d)
      then show ?thesis using Pair Inr cached_sound by (simp add: map_upd_triv)
    next
      case (2 d)
      then show ?thesis using Pair Inr build_sound by (simp add: update_conv')
    qed
  qed
qed

lemma hydration_verified_cases:
  assumes "hydrate_knowledge_source store tools bucket max_bytes now s v st c = (r, c')"
  shows "case r of Inl e \<Rightarrow> c' = c | Inr h \<Rightarrow> map_of (sc_versions c') = (map_of (sc_versions c))(kv_id v \<mapsto> hy_dir h)"
  using hydration_effect [where store = store and tools = tools and bucket = bucket and max_bytes = max_bytes and now = now
      and s = s and v = v and st = st and c = c] assms by (simp split: sum.splits)


text \<open>
  Hydrating twice downloads once: when the members of an archive have distinct paths, a second
  hydration of the version succeeds with the same directory whatever the object store then answers.
\<close>

theorem hydration_idempotent:
  assumes first: "hydrate_knowledge_source store tools bucket max_bytes now s v st c = (Inr h, c')"
    and hex: "\<And>x. strip (ct_sha tools x) = ct_sha tools x"
    and members: "\<And>x. distinct (map member_path (fst (ct_archive tools x)))"
  shows "hydrate_knowledge_source store' tools bucket max_bytes' now' s v st' c' = (Inr h, c')"
  using first
proof (cases rule: hydrate_cases)
  case (1 d)
  then show ?thesis by (simp add: hydrate_knowledge_source_def publish_current_pointer_def Let_def)
next
  case (2 d)
  have "cached_version_matches tools s v (Some d) = Inr True" by (rule built_is_cached [OF 2(6) hex members])
  with 2 show ?thesis by (simp add: hydrate_knowledge_source_def publish_current_pointer_def Let_def update_conv')
qed

section \<open>A small cache\<close>

definition demo_sha :: "string \<Rightarrow> string" where
  "demo_sha c =
     replicate 63 (CHR ''0'') @ (if c = ''M'' then ''1'' else if c = ''G'' then ''2'' else if c = ''A'' then ''3'' else ''0'')"

lemma strip_demo_sha: "strip (demo_sha c) = demo_sha c"
  by (simp add: demo_sha_def strip_def lstrip_def rstrip_def is_space_def numeral_eq_Suc)

definition cached_source :: knowledge_source where
  "cached_source = \<lparr>ks_id = 1, ks_canonical_alias = ''repo'', ks_display_name = None, ks_source_kind = ''github'',
     ks_index_kind = ''code_graph'', ks_source_config = [], ks_repository_url = Some ''https://h/r'', ks_default_ref = Some ''main'',
     ks_include_paths = [], ks_exclude_paths = [PStr ''dist''], ks_credential_ref = None, ks_sync_policy = [], ks_enabled = True,
     ks_serving_suspended_at = None, ks_serving_suspension_reason = None, ks_current_version = Some 2,
     ks_created_at = 0, ks_updated_at = 0\<rparr>"

definition cached_version :: source_version where
  "cached_version = \<lparr>kv_id = 2, kv_source_id = 1, kv_source_revision = Some ''abc'', kv_index_kind = ''code_graph'',
     kv_indexer_version = Some ''1'', kv_index_config_hash = Some ''h'', kv_stats = [], kv_commit_sha = Some ''abc'',
     kv_status = ''succeeded'', kv_graphify_version = None, kv_extraction_config_hash = None,
     kv_artifact_keys = [(''manifest'', PStr ''k/manifest.json''), (''graph'', PStr ''k/graph.json''), (''source'', PStr ''k/source.tar.zst'')],
     kv_artifact_checksums = [(''manifest'', PStr (''sha256:'' @ demo_sha ''M'')), (''graph'', PStr (''sha256:'' @ demo_sha ''G'')),
       (''source'', PStr (''sha256:'' @ demo_sha ''A''))],
     kv_file_count = 0, kv_node_count = 0, kv_edge_count = 0, kv_warnings = [],
     kv_error = None, kv_started_at = None, kv_finished_at = Some 0, kv_created_at = 0\<rparr>"

definition cached_manifest :: pydict where
  "cached_manifest =
     [(''source'', PDict [(''canonical_alias'', PStr ''repo''), (''id'', PStr (uuid_str 1)), (''repository_url'', PStr ''https://h/r''),
        (''commit_sha'', PStr ''abc''), (''include_paths'', PList []), (''exclude_paths'', PList [PStr ''dist''])]),
      (''artifacts'', PDict
        [(''graph'', PDict [(''file'', PStr ''graph.json''), (''size_bytes'', PInt 1), (''sha256'', PStr (demo_sha ''G''))]),
         (''source'', PDict [(''file'', PStr ''source.tar.zst''), (''size_bytes'', PInt 1), (''sha256'', PStr (demo_sha ''A'')),
           (''expanded_size_bytes'', PInt 10), (''file_count'', PInt 2)])])]"

definition demo_cache_tools :: cache_tools where
  "demo_cache_tools =
     \<lparr>ct_sha = demo_sha,
      ct_json = (\<lambda>c. if c = ''M'' then Some (PDict cached_manifest) else if c = ''G'' then Some (PDict demo_json) else None),
      ct_archive = (\<lambda>c. if c = ''A''
        then ([(\<lparr>tm_name = ''x.py'', tm_isfile = True, tm_size = 5\<rparr>, Some ''run c''),
               (\<lparr>tm_name = ''./y.py'', tm_isfile = True, tm_size = 5\<rparr>, Some ''run a'')], None)
        else ([], Some (Value_error ''not an archive'')))\<rparr>"

definition demo_store :: "(string \<Rightarrow> string option) store_api" where
  "demo_store = \<lparr>st_download = (\<lambda>bucket key m. Inr (m key)), st_upload = (\<lambda>bucket key c m. (Inr (), m(key \<mapsto> c)))\<rparr>"

definition demo_objects :: "string \<Rightarrow> string option" where
  "demo_objects k =
     (if k = ''k/manifest.json'' then Some ''M'' else if k = ''k/graph.json'' then Some ''G''
      else if k = ''k/source.tar.zst'' then Some ''A'' else None)"

definition empty_cache :: source_cache where
  "empty_cache = \<lparr>sc_versions = [], sc_current = None\<rparr>"

lemma demo_download:
  "download_serving_artifacts demo_store demo_cache_tools ''b'' cached_version demo_objects
    = Inr [(''manifest.json'', ''M''), (''graph.json'', ''G''), (''source.tar.zst'', ''A'')]"
  by code_simp

lemma demo_manifest_valid:
  "validate_downloaded_artifacts demo_cache_tools cached_source cached_version
     [(''manifest.json'', ''M''), (''graph.json'', ''G''), (''source.tar.zst'', ''A'')] = Inr cached_manifest"
  by code_simp

lemma demo_extracted:
  "extract_source_archive demo_cache_tools ''A'' cached_manifest 100 = Inr [(''x.py'', ''run c''), (''y.py'', ''run a'')]"
  by code_simp

lemma demo_graph_file:
  "\<exists>g. validate_graph_file demo_cache_tools [(''manifest.json'', ''M''), (''graph.json'', ''G''), (''source.tar.zst'', ''A'')]
      [(''x.py'', ''run c''), (''y.py'', ''run a'')] = Inr g"
proof -
  have "case validate_serving_graph [''x.py'', ''y.py''] demo_json of Inr _ \<Rightarrow> True | Inl _ \<Rightarrow> False" by code_simp
  then show ?thesis
    by (simp add: validate_graph_file_def load_json_def demo_cache_tools_def split: sum.splits)
qed

lemma demo_checksum: "\<exists>x. expected_checksum cached_version ''manifest'' = Inr x"
  using demo_download download_serving_artifacts_Inr [OF demo_download]
  by (auto simp: digests_match_def set_serving_artifacts)

lemma demo_hydrated:
  "\<exists>h c. hydrate_knowledge_source demo_store demo_cache_tools '' b '' 100 7 cached_source cached_version demo_objects empty_cache = (Inr h, c)
     \<and> vd_tree (hy_dir h) = Some [(''x.py'', ''run c''), (''y.py'', ''run a'')]"
proof -
  have b: "strip '' b '' = ''b''" by code_simp
  have u: "Some (kv_id cached_version) = ks_current_version cached_source" "kv_source_id cached_version = ks_id cached_source"
    "kv_status cached_version = ''succeeded''" "map_of (sc_versions empty_cache) (kv_id cached_version) = None"
    by (simp_all add: cached_version_def cached_source_def empty_cache_def)
  obtain g where g: "validate_graph_file demo_cache_tools [(''manifest.json'', ''M''), (''graph.json'', ''G''), (''source.tar.zst'', ''A'')]
      [(''x.py'', ''run c''), (''y.py'', ''run a'')] = Inr g"
    using demo_graph_file by blast
  obtain x where x: "expected_checksum cached_version ''manifest'' = Inr x" using demo_checksum by blast
  have "\<exists>d. build_version_dir demo_store demo_cache_tools ''b'' 100 7 cached_source cached_version demo_objects = Inr d
      \<and> vd_tree d = Some [(''x.py'', ''run c''), (''y.py'', ''run a'')]"
    by (simp add: build_version_dir_def demo_download demo_manifest_valid demo_extracted read_file_def g x)
  then show ?thesis
    by (auto simp: hydrate_knowledge_source_def b u cached_version_matches_def Let_def)
qed

lemma demo_members: "distinct (map member_path (fst (ct_archive demo_cache_tools x)))"
  by (cases "x = ''A''") (simp_all add: demo_cache_tools_def member_path_def path_norm_def path_parts_def)

theorem hydration_idempotent_witness:
  "\<exists>h c'. hydrate_knowledge_source demo_store demo_cache_tools '' b '' 50 9 cached_source cached_version Map.empty c' = (Inr h, c')
     \<and> vd_tree (hy_dir h) = Some [(''x.py'', ''run c''), (''y.py'', ''run a'')]"
proof -
  obtain h c' where first:
      "hydrate_knowledge_source demo_store demo_cache_tools '' b '' 100 7 cached_source cached_version demo_objects empty_cache = (Inr h, c')"
    and tree: "vd_tree (hy_dir h) = Some [(''x.py'', ''run c''), (''y.py'', ''run a'')]"
    using demo_hydrated by blast
  have "strip (ct_sha demo_cache_tools x) = ct_sha demo_cache_tools x" for x
    by (simp add: demo_cache_tools_def strip_demo_sha)
  from hydration_idempotent [OF first this demo_members, of demo_store 50 9 Map.empty] tree show ?thesis by blast
qed

end
