(* ===== verification/Knowledge_Registry.thy ===== *)
theory Knowledge_Registry
  imports Knowledge_Cache Knowledge_Grants
begin

text \<open>
  The serving registry of \<open>shared/lib/knowledge_source_serving.py\<close>: which snapshot of each source is
  served, who reads it, and which directories of the cache may go.  The registry is refreshed by one
  task while request handlers pin and release snapshots; the transition system below interleaves them
  at the granularity of the lock.
\<close>

section \<open>State\<close>

type_synonym version_key = "uuid \<times> uuid"

text \<open>The directories of the cache, one per source.\<close>

type_synonym cache_root = "(uuid \<times> source_cache) list"

record registry =
  rg_by_alias :: "(string \<times> snapshot) list"
  rg_errors :: "(string \<times> string) list"
  rg_pins :: "(version_key \<times> nat) list"

record serving_env =
  se_tools :: cache_tools
  se_bucket :: string
  se_max_bytes :: nat
  se_keep :: nat
  se_build :: "graph \<Rightarrow> unit result"

definition snapshot_key :: "snapshot \<Rightarrow> version_key" where
  "snapshot_key sp = (sp_source_id sp, sp_version_id sp)"

definition new_registry :: "string \<Rightarrow> int \<Rightarrow> registry result" where
  "new_registry bucket versions_to_keep =
     (if strip bucket = [] then Inl (Value_error ''Knowledge Source object-store bucket is required'')
      else if versions_to_keep < 2
      then Inl (Value_error ''Knowledge Source serving cache must retain at least two versions'')
      else Inr \<lparr>rg_by_alias = [], rg_errors = [], rg_pins = []\<rparr>)"

section \<open>Refresh\<close>

definition servable_graph :: "knowledge_source \<Rightarrow> source_version \<Rightarrow> bool" where
  "servable_graph s v \<longleftrightarrow>
     ks_current_version s = Some (kv_id v) \<and> ks_enabled s \<and> ks_serving_suspended_at s = None
     \<and> ks_source_kind s = ''github'' \<and> ks_index_kind s = ''code_graph'' \<and> kv_source_id v = ks_id s
     \<and> kv_index_kind v = ''code_graph'' \<and> kv_status v = ''succeeded''"

definition served_rows :: "db \<Rightarrow> (knowledge_source \<times> source_version) list" where
  "served_rows d =
     order_rows True (ks_id \<circ> fst) (filter (\<lambda>(s, v). servable_graph s v) (List.product (sources d) (versions d)))"

definition enabled_aliases :: "(knowledge_source \<times> source_version) list \<Rightarrow> string list" where
  "enabled_aliases rows = map (ks_canonical_alias \<circ> fst) rows"

text \<open>The first block under the lock, which the second one repeats.\<close>

definition drop_disabled :: "string list \<Rightarrow> registry \<Rightarrow> registry" where
  "drop_disabled aliases reg = reg\<lparr>rg_by_alias := filter (\<lambda>(a, _). a \<in> set aliases) (rg_by_alias reg)\<rparr>"

text \<open>
  The typed graph of the file that hydration has checked; building the traversal graph of the third-party
  library may raise.  \<open>str(exc)\<close> of an error whose text is not kept is empty.
\<close>

definition load_snapshot :: "serving_env \<Rightarrow> knowledge_source \<Rightarrow> source_version \<Rightarrow> hydrated \<Rightarrow> snapshot result" where
  "load_snapshot env s v h =
     (let tree = (case vd_tree (hy_dir h) of None \<Rightarrow> [] | Some t \<Rightarrow> t) in
      result_bind (validate_graph_file (se_tools env) (vd_files (hy_dir h)) tree) (\<lambda>g.
      result_map (\<lambda>_. \<lparr>sp_source_id = ks_id s, sp_version_id = kv_id v, sp_alias = ks_canonical_alias s,
          sp_commit = kv_commit_sha v, sp_graph = g,
          sp_files = map (\<lambda>(f, c). \<lparr>sf_path = f, sf_size = int (length c), sf_text = c\<rparr>) tree\<rparr>)
        (se_build env g)))"

fun exc_str :: "py_error \<Rightarrow> string" where
  "exc_str (Value_error m) = m"
| "exc_str (Key_error k) = str_repr k"
| "exc_str (Os_error m) = m"
| "exc_str (Permission_error m) = m"
| "exc_str (Runtime_error m) = m"
| "exc_str (Sql_error m) = m"
| "exc_str (Http_error n m) = m"
| "exc_str _ = []"

definition cache_of :: "cache_root \<Rightarrow> uuid \<Rightarrow> source_cache" where
  "cache_of disk i = (case map_of disk i of None \<Rightarrow> \<lparr>sc_versions = [], sc_current = None\<rparr> | Some c \<Rightarrow> c)"

record loading =
  ld_disk :: cache_root
  ld_replacements :: "(string \<times> snapshot) list"
  ld_failures :: "(string \<times> string) list"

text \<open>One turn of the loop over the rows; every exception becomes a failure of this source.\<close>

definition refresh_row :: "serving_env \<Rightarrow> 's store_api \<Rightarrow> nat \<Rightarrow> 's \<Rightarrow> knowledge_source \<times> source_version \<Rightarrow> loading \<Rightarrow> loading" where
  "refresh_row env store now st row ld =
     (let (s, v) = row;
          (r, c) = hydrate_knowledge_source store (se_tools env) (se_bucket env) (se_max_bytes env) now s v st (cache_of (ld_disk ld) (ks_id s));
          ld' = ld\<lparr>ld_disk := AList.update (ks_id s) c (ld_disk ld)\<rparr>
      in case result_bind r (load_snapshot env s v) of
           Inl e \<Rightarrow> ld'\<lparr>ld_failures := AList.update (ks_canonical_alias s) (exc_str e) (ld_failures ld)\<rparr>
         | Inr sp \<Rightarrow> ld'\<lparr>ld_replacements := AList.update (ks_canonical_alias s) sp (ld_replacements ld)\<rparr>)"

definition publish_snapshots :: "string list \<Rightarrow> loading \<Rightarrow> registry \<Rightarrow> registry" where
  "publish_snapshots aliases ld reg =
     (let kept = drop_disabled aliases reg
      in kept\<lparr>rg_by_alias := foldl (\<lambda>d (a, sp). AList.update a sp d) (rg_by_alias kept) (ld_replacements ld),
              rg_errors := ld_failures ld\<rparr>)"

section \<open>Reading\<close>

definition list_sources :: "grants \<Rightarrow> registry \<Rightarrow> pyval list" where
  "list_sources g reg =
     map (\<lambda>sp. PDict [(''alias'', PStr (sp_alias sp)), (''commit_sha'', opt_str (sp_commit sp)),
           (''version_id'', PStr (uuid_str (sp_version_id sp))), (''status'', PStr ''ready'')])
       (filter (\<lambda>sp. allows g (sp_alias sp)) (sort_key sp_alias (map snd (rg_by_alias reg))))"

definition has_version :: "registry \<Rightarrow> string \<Rightarrow> uuid \<Rightarrow> bool" where
  "has_version reg name version_id =
     (case map_of (rg_by_alias reg) name of None \<Rightarrow> False | Some sp \<Rightarrow> sp_version_id sp = version_id)"

definition health :: "registry \<Rightarrow> nat \<times> (string \<times> string) list" where
  "health reg = (length (rg_by_alias reg), rg_errors reg)"

definition pin_count :: "registry \<Rightarrow> version_key \<Rightarrow> nat" where
  "pin_count reg k = (case map_of (rg_pins reg) k of None \<Rightarrow> 0 | Some n \<Rightarrow> n)"

text \<open>Entering the context manager \<open>pin\<close> and leaving it.\<close>

definition enter_pin :: "unit result \<Rightarrow> string \<Rightarrow> registry \<Rightarrow> (snapshot \<times> registry) result" where
  "enter_pin authorized name reg =
     result_bind authorized (\<lambda>_.
       case map_of (rg_by_alias reg) name of
         None \<Rightarrow> serving_error (''Knowledge Source is not available or does not support graph capability: '' @ name)
       | Some sp \<Rightarrow>
           Inr (sp, reg\<lparr>rg_pins := AList.update (snapshot_key sp) (Suc (pin_count reg (snapshot_key sp))) (rg_pins reg)\<rparr>))"

definition leave_pin :: "version_key \<Rightarrow> registry \<Rightarrow> registry result" where
  "leave_pin k reg =
     (case map_of (rg_pins reg) k of
        None \<Rightarrow> Inl (Key_error [])
      | Some n \<Rightarrow>
          Inr (if n \<noteq> 1 then reg\<lparr>rg_pins := AList.update k (n - 1) (rg_pins reg)\<rparr>
               else reg\<lparr>rg_pins := AList.delete k (rg_pins reg)\<rparr>))"

section \<open>Cleanup\<close>

text \<open>What the cleanup reads under the lock: the active and the pinned versions.\<close>

definition kept_keys :: "registry \<Rightarrow> version_key list" where
  "kept_keys reg = map (snapshot_key \<circ> snd) (rg_by_alias reg) @ map fst (rg_pins reg)"

text \<open>The loop over the versions of a source, newest first; the result are the directories it removes.\<close>

fun removed_versions :: "(uuid \<Rightarrow> bool) \<Rightarrow> nat \<Rightarrow> nat \<Rightarrow> (uuid \<times> version_dir) list \<Rightarrow> uuid list" where
  "removed_versions kept keep retained [] = []"
| "removed_versions kept keep retained (v # vs) =
     (if kept (fst v) \<or> retained < keep then removed_versions kept keep (Suc retained) vs
      else fst v # removed_versions kept keep retained vs)"

definition cleanup_source :: "version_key list \<Rightarrow> nat \<Rightarrow> uuid \<times> source_cache \<Rightarrow> uuid \<times> source_cache" where
  "cleanup_source keys keep p =
     (let (source_id, c) = p;
          gone = removed_versions (\<lambda>i. (source_id, i) \<in> set keys) keep 0 (sort_key (\<lambda>v. - int (vd_mtime (snd v))) (sc_versions c))
      in (source_id, c\<lparr>sc_versions := filter (\<lambda>v. fst v \<notin> set gone) (sc_versions c)\<rparr>))"

definition cleanup_unpinned_versions :: "version_key list \<Rightarrow> nat \<Rightarrow> cache_root \<Rightarrow> cache_root" where
  "cleanup_unpinned_versions keys keep disk = map (cleanup_source keys keep) disk"

section \<open>The whole refresh\<close>

definition refresh :: "serving_env \<Rightarrow> 's store_api \<Rightarrow> nat \<Rightarrow> 's \<Rightarrow> db \<Rightarrow> registry \<times> cache_root \<Rightarrow> registry \<times> cache_root" where
  "refresh env store now st d p =
     (let (reg, disk) = p;
          rows = served_rows d;
          aliases = enabled_aliases rows;
          ld = foldl (\<lambda>ld row. refresh_row env store now st row ld) \<lparr>ld_disk = disk, ld_replacements = [], ld_failures = []\<rparr> rows;
          reg' = publish_snapshots aliases ld (drop_disabled aliases reg)
      in (reg', cleanup_unpinned_versions (kept_keys reg') (se_keep env) (ld_disk ld)))"

section \<open>The catalog\<close>

record catalog_entry =
  ce_alias :: string
  ce_display_name :: string
  ce_source_kind :: string
  ce_index_kind :: string
  ce_capabilities :: "string list"
  ce_version_id :: "uuid option"
  ce_source_revision :: "string option"
  ce_commit_sha :: "string option"
  ce_promoted_at :: "datetime option"
  ce_status :: string
  ce_description :: string

definition capabilities :: "knowledge_source \<Rightarrow> string list" where
  "capabilities s =
     (if (ks_source_kind s, ks_index_kind s) = (''github'', ''code_graph'') then [''graph'', ''literal_source'']
      else if (ks_source_kind s, ks_index_kind s) = (''confluence'', ''hybrid_vector'') then [''hybrid_search'']
      else [])"

definition promoted_of :: "db \<Rightarrow> knowledge_source \<Rightarrow> source_version option" where
  "promoted_of d s = find_row (\<lambda>v. ks_current_version s = Some (kv_id v) \<and> kv_source_id v = ks_id s) (versions d)"

definition catalog_status :: "registry \<Rightarrow> knowledge_source \<Rightarrow> source_version option \<Rightarrow> string" where
  "catalog_status reg s version =
     (if ks_serving_suspended_at s \<noteq> None then ''suspended''
      else if \<not> ks_enabled s then ''disabled''
      else case version of
        None \<Rightarrow> ''unavailable''
      | Some v \<Rightarrow>
          (if kv_status v = ''succeeded'' \<and> kv_index_kind v = ks_index_kind s
              \<and> (capabilities s = [''hybrid_search'']
                 \<or> (''graph'' \<in> set (capabilities s) \<and> has_version reg (ks_canonical_alias s) (kv_id v)))
           then ''ready'' else ''unavailable''))"

text \<open>\<open>a or b\<close> on optional texts.\<close>

definition text_or :: "string option \<Rightarrow> string option \<Rightarrow> string option" where
  "text_or a b = (case a of Some (c # s) \<Rightarrow> a | _ \<Rightarrow> b)"

definition catalog_entry_of :: "registry \<Rightarrow> knowledge_source \<Rightarrow> source_version option \<Rightarrow> catalog_entry" where
  "catalog_entry_of reg s version =
     \<lparr>ce_alias = ks_canonical_alias s,
      ce_display_name = (case text_or (ks_display_name s) (Some (ks_canonical_alias s)) of Some n \<Rightarrow> n | None \<Rightarrow> []),
      ce_source_kind = ks_source_kind s, ce_index_kind = ks_index_kind s, ce_capabilities = capabilities s,
      ce_version_id = map_option kv_id version,
      ce_source_revision = Option.bind version (\<lambda>v. text_or (kv_source_revision v) (kv_commit_sha v)),
      ce_commit_sha = Option.bind version kv_commit_sha,
      ce_promoted_at = Option.bind version kv_finished_at,
      ce_status = catalog_status reg s version,
      ce_description =
        (case dict_get_default (ks_source_config s) ''description'' (PStr []) of PStr t \<Rightarrow> take 500 t | _ \<Rightarrow> [])\<rparr>"

definition catalog_sources :: "grants \<Rightarrow> registry \<Rightarrow> db \<Rightarrow> catalog_entry list" where
  "catalog_sources g reg d =
     (if \<not> g_compatibility_all g \<and> g_aliases g = [] then []
      else
        map (\<lambda>s. catalog_entry_of reg s (promoted_of d s))
          (filter (\<lambda>s. (g_compatibility_all g \<or> ks_canonical_alias s \<in> set (g_aliases g)) \<and> allows g (ks_canonical_alias s))
            (order_rows True ks_canonical_alias (sources d))))"

section \<open>What a refresh publishes\<close>

definition no_loading :: "cache_root \<Rightarrow> loading" where
  "no_loading disk = \<lparr>ld_disk = disk, ld_replacements = [], ld_failures = []\<rparr>"

definition loaded :: "serving_env \<Rightarrow> 's store_api \<Rightarrow> nat \<Rightarrow> 's \<Rightarrow> (knowledge_source \<times> source_version) list \<Rightarrow> loading \<Rightarrow> loading" where
  "loaded env store now st rows ld = foldl (\<lambda>ld row. refresh_row env store now st row ld) ld rows"

text \<open>A replacement belongs to a row that was read, and every row read has a replacement or a failure.\<close>

definition loading_ok :: "(knowledge_source \<times> source_version) list \<Rightarrow> loading \<Rightarrow> bool" where
  "loading_ok rows ld \<longleftrightarrow>
     (\<forall>a sp. map_of (ld_replacements ld) a = Some sp \<longrightarrow>
        (\<exists>(s, v) \<in> set rows. ks_canonical_alias s = a \<and> snapshot_key sp = (ks_id s, kv_id v)))
     \<and> (\<forall>(s, v) \<in> set rows. map_of (ld_replacements ld) (ks_canonical_alias s) \<noteq> None
          \<or> map_of (ld_failures ld) (ks_canonical_alias s) \<noteq> None)"

lemma load_snapshot_key:
  "load_snapshot env s v h = Inr sp \<Longrightarrow> snapshot_key sp = (ks_id s, kv_id v)"
  by (auto simp: load_snapshot_def snapshot_key_def Let_def result_bind_Inr_iff result_map_Inr_iff)

abbreviation row_hydration where
  "row_hydration env store now st s v ld \<equiv>
     hydrate_knowledge_source store (se_tools env) (se_bucket env) (se_max_bytes env) now s v st (cache_of (ld_disk ld) (ks_id s))"

lemma refresh_row_cases:
  obtains (failed) r e c where "row_hydration env store now st s v ld = (r, c)"
      "refresh_row env store now st (s, v) ld = ld\<lparr>ld_disk := AList.update (ks_id s) c (ld_disk ld),
         ld_failures := AList.update (ks_canonical_alias s) (exc_str e) (ld_failures ld)\<rparr>"
    | (ok) h sp c where "row_hydration env store now st s v ld = (Inr h, c)" "load_snapshot env s v h = Inr sp"
      "refresh_row env store now st (s, v) ld = ld\<lparr>ld_disk := AList.update (ks_id s) c (ld_disk ld),
         ld_replacements := AList.update (ks_canonical_alias s) sp (ld_replacements ld)\<rparr>"
proof -
  obtain r c where h: "row_hydration env store now st s v ld = (r, c)" by fastforce
  show thesis
  proof (cases "result_bind r (load_snapshot env s v)")
    case (Inl e)
    then show thesis using failed [OF h] h by (simp add: refresh_row_def)
  next
    case (Inr sp)
    then obtain x where "r = Inr x" "load_snapshot env s v x = Inr sp" by (auto simp: result_bind_Inr_iff)
    then show thesis using ok [of x c sp] h Inr by (simp add: refresh_row_def)
  qed
qed

lemma loading_ok_row:
  assumes "loading_ok rows ld"
  shows "loading_ok (row # rows) (refresh_row env store now st row ld)"
proof -
  obtain s v where row: "row = (s, v)" by fastforce
  show ?thesis
    unfolding row
    by (rule refresh_row_cases [where env = env and store = store and now = now and st = st and s = s and v = v and ld = ld])
      (use assms in \<open>fastforce simp: loading_ok_def dest: load_snapshot_key split: if_splits\<close>)+
qed

lemma loading_ok_mono: "loading_ok rows ld \<Longrightarrow> set rows = set rows' \<Longrightarrow> loading_ok rows' ld"
  by (simp add: loading_ok_def)

lemma loaded_ok: "loading_ok before ld \<Longrightarrow> loading_ok (before @ rows) (loaded env store now st rows ld)"
proof (induction rows arbitrary: before ld)
  case (Cons row rows)
  have "loading_ok (before @ [row]) (refresh_row env store now st row ld)"
    by (rule loading_ok_mono [OF loading_ok_row [OF Cons.prems]]) auto
  from Cons.IH [OF this] show ?case by (simp add: loaded_def)
qed (simp add: loaded_def)

lemma map_of_replace:
  "map_of (foldl (\<lambda>d (a, sp). AList.update a sp d) d rs) a
    = (case map_of (rev rs) a of Some sp \<Rightarrow> Some sp | None \<Rightarrow> map_of d a)"
  by (induction rs arbitrary: d) (auto simp: map_add_def split: option.splits)

lemma distinct_replacements:
  "distinct (map fst (ld_replacements ld)) \<Longrightarrow> distinct (map fst (ld_replacements (loaded env store now st rows ld)))"
proof (induction rows arbitrary: ld)
  case (Cons row rows)
  obtain s v where row: "row = (s, v)" by fastforce
  have "distinct (map fst (ld_replacements (refresh_row env store now st row ld)))"
    unfolding row
    by (rule refresh_row_cases [where env = env and store = store and now = now and st = st and s = s and v = v and ld = ld])
      (use Cons.prems in \<open>simp_all add: distinct_keys_update\<close>)
  from Cons.IH [OF this] show ?case by (simp add: loaded_def)
qed (simp add: loaded_def)

lemma map_of_filter_keys: "map_of (filter (\<lambda>(k, _). P k) xs) a = (if P a then map_of xs a else None)"
  by (induction xs) auto

lemma distinct_map_of_rev: "distinct (map fst xs) \<Longrightarrow> map_of (rev xs) a = map_of xs a"
  by (induction xs) (force simp: map_add_def dest: map_of_SomeD split: option.splits)+

lemma published_snapshot:
  assumes "distinct (map fst (ld_replacements ld))"
  shows "map_of (rg_by_alias (publish_snapshots aliases ld reg)) a
    = (case map_of (ld_replacements ld) a of
         Some sp \<Rightarrow> Some sp
       | None \<Rightarrow> if a \<in> set aliases then map_of (rg_by_alias reg) a else None)"
  using assms
  by (simp add: publish_snapshots_def drop_disabled_def map_of_replace map_of_filter_keys Let_def
      distinct_map_of_rev split: option.split)

text \<open>
  After a refresh every served alias is that of an enabled, unsuspended code-graph source with a
  promoted version.  Its snapshot is of that version, unless loading it failed: then the refresh
  reports the failure and the snapshot that was served before stays.
\<close>

theorem refresh_serves_promoted:
  assumes served: "map_of (rg_by_alias (fst (refresh env store now st d (reg, disk)))) a = Some sp"
  shows "\<exists>s v. s \<in> set (sources d) \<and> v \<in> set (versions d) \<and> ks_canonical_alias s = a
    \<and> ks_enabled s \<and> ks_serving_suspended_at s = None \<and> ks_index_kind s = ''code_graph''
    \<and> ks_current_version s = Some (kv_id v) \<and> kv_source_id v = ks_id s \<and> kv_status v = ''succeeded''
    \<and> (snapshot_key sp = (ks_id s, kv_id v)
       \<or> (map_of (rg_by_alias reg) a = Some sp
          \<and> map_of (rg_errors (fst (refresh env store now st d (reg, disk)))) a \<noteq> None))"
proof -
  let ?rows = "served_rows d"
  define ld where "ld = loaded env store now st ?rows (no_loading disk)"
  have reg': "fst (refresh env store now st d (reg, disk))
      = publish_snapshots (enabled_aliases ?rows) ld (drop_disabled (enabled_aliases ?rows) reg)"
    by (simp add: refresh_def ld_def loaded_def no_loading_def Let_def)
  have ok: "loading_ok ?rows ld"
    unfolding ld_def by (rule loaded_ok [of "[]", simplified]) (simp add: loading_ok_def no_loading_def)
  have dist: "distinct (map fst (ld_replacements ld))"
    unfolding ld_def by (rule distinct_replacements) (simp add: no_loading_def)
  have row: "s \<in> set (sources d) \<and> v \<in> set (versions d) \<and> ks_enabled s \<and> ks_serving_suspended_at s = None
      \<and> ks_index_kind s = ''code_graph'' \<and> ks_current_version s = Some (kv_id v) \<and> kv_source_id v = ks_id s
      \<and> kv_status v = ''succeeded''" if "(s, v) \<in> set ?rows" for s v
    using that by (auto simp: served_rows_def order_rows_def servable_graph_def)
  show ?thesis
  proof (cases "map_of (ld_replacements ld) a")
    case (Some sp')
    then have "sp' = sp" using served by (simp add: reg' published_snapshot [OF dist])
    with ok Some obtain s v where "(s, v) \<in> set ?rows" "ks_canonical_alias s = a" "snapshot_key sp = (ks_id s, kv_id v)"
      unfolding loading_ok_def by blast
    with row show ?thesis by blast
  next
    case None
    with served have a: "a \<in> set (enabled_aliases ?rows)" and old: "map_of (rg_by_alias reg) a = Some sp"
      by (auto simp: reg' published_snapshot [OF dist] drop_disabled_def map_of_filter_keys split: if_splits)
    from a obtain s v where sv: "(s, v) \<in> set ?rows" "ks_canonical_alias s = a"
      by (auto simp: enabled_aliases_def)
    with ok None have "map_of (ld_failures ld) a \<noteq> None" unfolding loading_ok_def by fastforce
    then have "map_of (rg_errors (fst (refresh env store now st d (reg, disk)))) a \<noteq> None"
      by (simp add: reg' publish_snapshots_def Let_def)
    with sv row old show ?thesis by blast
  qed
qed

section \<open>Refresh against readers\<close>

text \<open>
  The refreshing task holds the lock only to drop, publish and collect; hydration and the removal of
  directories run between, while readers pin and release.  \<open>sv_open\<close> are the \<open>with\<close> blocks that readers
  have entered and not left.
\<close>

datatype phase =
    Idle
  | Hydrating "(knowledge_source \<times> source_version) list" "string list" loading
  | Published
  | Cleaning "version_key list"

record serving_sys =
  sv_registry :: registry
  sv_disk :: cache_root
  sv_phase :: phase
  sv_open :: "version_key list"

inductive serving_step :: "serving_env \<Rightarrow> 's store_api \<Rightarrow> serving_sys \<Rightarrow> serving_sys \<Rightarrow> bool" for env store where
  begin_refresh:
    "sv_phase sys = Idle \<Longrightarrow>
     serving_step env store sys
       (sys\<lparr>sv_registry := drop_disabled (enabled_aliases (served_rows d)) (sv_registry sys),
            sv_phase := Hydrating (served_rows d) (enabled_aliases (served_rows d)) (no_loading (sv_disk sys))\<rparr>)"
| hydrate_row:
    "sv_phase sys = Hydrating (row # rows) aliases ld \<Longrightarrow> ld' = refresh_row env store now st row ld \<Longrightarrow>
     serving_step env store sys (sys\<lparr>sv_disk := ld_disk ld', sv_phase := Hydrating rows aliases ld'\<rparr>)"
| publish:
    "sv_phase sys = Hydrating [] aliases ld \<Longrightarrow>
     serving_step env store sys
       (sys\<lparr>sv_registry := publish_snapshots aliases ld (sv_registry sys), sv_phase := Published\<rparr>)"
| collect:
    "sv_phase sys = Published \<Longrightarrow>
     serving_step env store sys (sys\<lparr>sv_phase := Cleaning (kept_keys (sv_registry sys))\<rparr>)"
| clean:
    "sv_phase sys = Cleaning keys \<Longrightarrow>
     serving_step env store sys
       (sys\<lparr>sv_disk := cleanup_unpinned_versions keys (se_keep env) (sv_disk sys), sv_phase := Idle\<rparr>)"
| enter:
    "enter_pin authorized name (sv_registry sys) = Inr (sp, reg) \<Longrightarrow>
     serving_step env store sys (sys\<lparr>sv_registry := reg, sv_open := snapshot_key sp # sv_open sys\<rparr>)"
| leave:
    "k \<in> set (sv_open sys) \<Longrightarrow> leave_pin k (sv_registry sys) = Inr reg \<Longrightarrow>
     serving_step env store sys (sys\<lparr>sv_registry := reg, sv_open := remove1 k (sv_open sys)\<rparr>)"

definition serving_start :: "cache_root \<Rightarrow> serving_sys" where
  "serving_start disk =
     \<lparr>sv_registry = \<lparr>rg_by_alias = [], rg_errors = [], rg_pins = []\<rparr>, sv_disk = disk, sv_phase = Idle, sv_open = []\<rparr>"

subsection \<open>The invariant\<close>




























section \<open>What the cleanup removes\<close>

lemma removed_subset: "set (removed_versions P keep n vs) \<subseteq> fst ` set vs"
  by (induction P keep n vs rule: removed_versions.induct) auto

lemma removed_full: "keep \<le> n \<Longrightarrow> w \<in> set vs \<Longrightarrow> \<not> P (fst w) \<Longrightarrow> fst w \<in> set (removed_versions P keep n vs)"
  by (induction P keep n vs rule: removed_versions.induct) auto

lemma removed_older:
  assumes "sorted_wrt (\<lambda>v w. f w \<le> (f v :: nat)) vs" and "distinct (map fst vs)"
    and "v \<in> set vs" and "fst v \<in> set (removed_versions P keep n vs)"
    and "w \<in> set vs" and "fst w \<notin> set (removed_versions P keep n vs)" and "\<not> P (fst w)"
  shows "f v \<le> f w"
  using assms
proof (induction P keep n vs rule: removed_versions.induct)
  case (2 P keep n x vs)
  show ?case
  proof (cases "P (fst x) \<or> n < keep")
    case True
    then have gone: "fst v \<in> set (removed_versions P keep (Suc n) vs)" and w: "fst w \<notin> set (removed_versions P keep (Suc n) vs)"
      using 2 by auto
    then have "fst v \<noteq> fst x" using "2.prems"(2) removed_subset [of P keep "Suc n" vs] by auto
    then have v: "v \<in> set vs" using "2.prems"(3) by auto
    show ?thesis
    proof (cases "w = x")
      case True
      then show ?thesis using v "2.prems"(1) by simp
    next
      case False
      then show ?thesis using "2.IH"(1) [OF True _ _ v gone _ w] "2.prems" by simp
    qed
  next
    case False
    with "2.prems" removed_full [of keep n w vs P] show ?thesis by auto
  qed
qed simp

lemma length_removed: "length (removed_versions P keep n vs) + min (length vs) (keep - n) \<le> length vs"
  by (induction P keep n vs rule: removed_versions.induct) (auto simp: min_def split: if_splits)

lemma length_survivors:
  assumes "distinct (map fst vs)"
  shows "length vs \<le> length gone + length (filter (\<lambda>v. fst v \<notin> set gone) vs)"
proof -
  let ?in = "filter (\<lambda>v. fst v \<in> set gone) vs"
  have "length ?in = card (set (map fst ?in))"
    using assms distinct_card [of "map fst ?in"] by (simp add: distinct_map_filter)
  also have "\<dots> \<le> card (set gone)" by (intro card_mono) auto
  also have "\<dots> \<le> length gone" by (rule card_length)
  finally show ?thesis using sum_list_filter_split [of "\<lambda>v. fst v \<in> set gone" vs] by simp
qed

text \<open>
  C25. The cleanup of a source spares every active or pinned version, leaves at least
  \<open>versions_to_keep\<close> versions when there were that many, and among the other versions it removes the oldest:
  none that it removes is newer than one that it leaves.
\<close>

theorem cleanup_exact:
  assumes "distinct (map fst (sc_versions c))"
    and result: "c' = snd (cleanup_source keys keep (source_id, c))"
  shows "set (sc_versions c') \<subseteq> set (sc_versions c)
    \<and> (\<forall>v \<in> set (sc_versions c). (source_id, fst v) \<in> set keys \<longrightarrow> v \<in> set (sc_versions c'))
    \<and> min keep (length (sc_versions c)) \<le> length (sc_versions c')
    \<and> (\<forall>v \<in> set (sc_versions c) - set (sc_versions c'). \<forall>w \<in> set (sc_versions c').
         (source_id, fst w) \<notin> set keys \<longrightarrow> vd_mtime (snd v) \<le> vd_mtime (snd w))"
proof (intro conjI ballI impI)
  let ?P = "\<lambda>i. (source_id, i) \<in> set keys"
  define vs where "vs = sort_key (\<lambda>v. - int (vd_mtime (snd v))) (sc_versions c)"
  define gone where "gone = removed_versions ?P keep 0 vs"
  have vs: "set vs = set (sc_versions c)" "distinct (map fst vs)" "length vs = length (sc_versions c)"
    using assms(1) by (simp_all add: vs_def distinct_map)
  have sorted: "sorted_wrt (\<lambda>v w. vd_mtime (snd w) \<le> vd_mtime (snd v)) vs"
    using sorted_sort_key [of "\<lambda>v. - int (vd_mtime (snd v))" "sc_versions c"] by (simp add: vs_def sorted_map)
  have c': "sc_versions c' = filter (\<lambda>v. fst v \<notin> set gone) (sc_versions c)"
    by (simp add: result cleanup_source_def gone_def vs_def Let_def)
  show "set (sc_versions c') \<subseteq> set (sc_versions c)" by (auto simp: c')
  have kept: "i \<notin> set (removed_versions P keep n vs)" if "P i" for P i n and vs :: "(uuid \<times> version_dir) list"
    using that by (induction P keep n vs rule: removed_versions.induct) auto
  show "v \<in> set (sc_versions c')" if "v \<in> set (sc_versions c)" "(source_id, fst v) \<in> set keys" for v
    using that kept [of ?P "fst v" 0 vs] by (simp add: c' gone_def)
  show "min keep (length (sc_versions c)) \<le> length (sc_versions c')"
    using length_removed [of ?P keep 0 vs] length_survivors [OF assms(1), of gone] vs(3)
    by (simp add: c' gone_def)
  show "vd_mtime (snd v) \<le> vd_mtime (snd w)" if "v \<in> set (sc_versions c) - set (sc_versions c')"
      "w \<in> set (sc_versions c')" "(source_id, fst w) \<notin> set keys" for v w
    using that removed_older [OF sorted vs(2), of v ?P keep 0 w] by (simp add: c' gone_def vs(1))
qed

section \<open>A run\<close>

definition registry_db :: db where
  "registry_db = empty_db\<lparr>sources := [cached_source], versions := [cached_version]\<rparr>"

definition demo_env :: serving_env where
  "demo_env = \<lparr>se_tools = demo_cache_tools, se_bucket = '' b '', se_max_bytes = 100, se_keep = 2, se_build = (\<lambda>_. Inr ())\<rparr>"

lemma registry_rows: "served_rows registry_db = [(cached_source, cached_version)]"
  by (simp add: served_rows_def order_rows_def registry_db_def servable_graph_def cached_source_def cached_version_def)

text \<open>The first refresh serves the promoted version; a reader pins it.\<close>

lemma demo_refreshed:
  obtains ld sp where
    "(serving_step demo_env demo_store)\<^sup>*\<^sup>* (serving_start []) 
       \<lparr>sv_registry = publish_snapshots [''repo''] ld \<lparr>rg_by_alias = [], rg_errors = [], rg_pins = []\<rparr>,
        sv_disk = ld_disk ld, sv_phase = Published, sv_open = []\<rparr>"
    "ld = refresh_row demo_env demo_store 7 demo_objects (cached_source, cached_version) (no_loading [])"
    "map_of (rg_by_alias (publish_snapshots [''repo''] ld \<lparr>rg_by_alias = [], rg_errors = [], rg_pins = []\<rparr>)) ''repo'' = Some sp"
    "snapshot_key sp = (1, 2)"
proof -
  let ?reg = "\<lparr>rg_by_alias = [], rg_errors = [], rg_pins = []\<rparr> :: registry"
  define ld where "ld = refresh_row demo_env demo_store 7 demo_objects (cached_source, cached_version) (no_loading [])"
  have names: "enabled_aliases [(cached_source, cached_version)] = [''repo'']"
    by (simp add: enabled_aliases_def cached_source_def)
  have s1: "serving_step demo_env demo_store (serving_start [])
      \<lparr>sv_registry = ?reg, sv_disk = [], sv_phase = Hydrating [(cached_source, cached_version)] [''repo''] (no_loading []), sv_open = []\<rparr>"
    using serving_step.begin_refresh [of "serving_start []" demo_env demo_store registry_db]
    by (simp add: serving_start_def drop_disabled_def registry_rows names)
  have s2: "serving_step demo_env demo_store
      \<lparr>sv_registry = ?reg, sv_disk = [], sv_phase = Hydrating [(cached_source, cached_version)] [''repo''] (no_loading []), sv_open = []\<rparr>
      \<lparr>sv_registry = ?reg, sv_disk = ld_disk ld, sv_phase = Hydrating [] [''repo''] ld, sv_open = []\<rparr>"
    using serving_step.hydrate_row [of "\<lparr>sv_registry = ?reg, sv_disk = [],
        sv_phase = Hydrating [(cached_source, cached_version)] [''repo''] (no_loading []), sv_open = []\<rparr>", OF _ ld_def]
    by simp
  have s3: "serving_step demo_env demo_store
      \<lparr>sv_registry = ?reg, sv_disk = ld_disk ld, sv_phase = Hydrating [] [''repo''] ld, sv_open = []\<rparr>
      \<lparr>sv_registry = publish_snapshots [''repo''] ld ?reg, sv_disk = ld_disk ld, sv_phase = Published, sv_open = []\<rparr>"
    using serving_step.publish [where env = demo_env and store = demo_store and aliases = "[''repo'']" and ld = ld
      and sys = "\<lparr>sv_registry = ?reg, sv_disk = ld_disk ld, sv_phase = Hydrating [] [''repo''] ld, sv_open = []\<rparr>"]
    by simp
  have run: "(serving_step demo_env demo_store)\<^sup>*\<^sup>* (serving_start [])
      \<lparr>sv_registry = publish_snapshots [''repo''] ld ?reg, sv_disk = ld_disk ld, sv_phase = Published, sv_open = []\<rparr>"
    using s1 s2 s3 by (meson converse_rtranclp_into_rtranclp rtranclp.rtrancl_refl)
  have "\<exists>sp. ld_replacements ld = [(''repo'', sp)]"
  proof -
    obtain h c where h: "row_hydration demo_env demo_store 7 demo_objects cached_source cached_version (no_loading []) = (Inr h, c)"
        and tree: "vd_tree (hy_dir h) = Some [(''x.py'', ''run c''), (''y.py'', ''run a'')]"
      using demo_hydrated by (auto simp: demo_env_def no_loading_def cache_of_def empty_cache_def)
    have "sound_dir demo_cache_tools cached_source cached_version (hy_dir h)"
      using hydration_effect [where c = "cache_of [] 1" and st = demo_objects and store = demo_store and tools = demo_cache_tools
          and bucket = "'' b ''" and max_bytes = 100 and now = 7 and s = cached_source and v = cached_version] h
      by (simp add: demo_env_def no_loading_def cached_source_def)
    then obtain g where "validate_graph_file demo_cache_tools (vd_files (hy_dir h)) [(''x.py'', ''run c''), (''y.py'', ''run a'')] = Inr g"
      using tree by (auto simp: sound_dir_def)
    then obtain sp where "load_snapshot demo_env cached_source cached_version h = Inr sp"
      using tree by (auto simp: load_snapshot_def demo_env_def)
    then show ?thesis
      using h by (simp add: ld_def refresh_row_def no_loading_def cached_source_def)
  qed
  then obtain sp where sp: "ld_replacements ld = [(''repo'', sp)]" by blast
  then have served: "map_of (rg_by_alias (publish_snapshots [''repo''] ld ?reg)) ''repo'' = Some sp"
    by (simp add: publish_snapshots_def drop_disabled_def)
  have "loading_ok [(cached_source, cached_version)] ld"
    unfolding ld_def by (rule loading_ok_row) (simp add: loading_ok_def no_loading_def)
  then have "snapshot_key sp = (1, 2)"
    by (simp add: loading_ok_def sp cached_source_def cached_version_def split: if_splits)
  with that [OF run ld_def served] show thesis .
qed

theorem refresh_serves_promoted_witness:
  "\<exists>sp. map_of (rg_by_alias (fst (refresh demo_env demo_store 7 demo_objects registry_db
      (\<lparr>rg_by_alias = [], rg_errors = [], rg_pins = []\<rparr>, [])))) ''repo'' = Some sp
    \<and> (\<exists>s v. s \<in> set (sources registry_db) \<and> v \<in> set (versions registry_db) \<and> ks_current_version s = Some (kv_id v)
         \<and> snapshot_key sp = (ks_id s, kv_id v))"
proof (rule demo_refreshed)
  let ?reg = "\<lparr>rg_by_alias = [], rg_errors = [], rg_pins = []\<rparr> :: registry"
  fix ld sp
  assume ld: "ld = refresh_row demo_env demo_store 7 demo_objects (cached_source, cached_version) (no_loading [])"
    and sp: "map_of (rg_by_alias (publish_snapshots [''repo''] ld ?reg)) ''repo'' = Some sp"
  have "enabled_aliases [(cached_source, cached_version)] = [''repo'']" by (simp add: enabled_aliases_def cached_source_def)
  with sp have r: "map_of (rg_by_alias (fst (refresh demo_env demo_store 7 demo_objects registry_db (?reg, [])))) ''repo'' = Some sp"
    by (simp add: refresh_def registry_rows ld no_loading_def drop_disabled_def Let_def)
  from refresh_serves_promoted [OF this] show ?thesis using r by auto
qed


theorem cleanup_exact_witness:
  "\<exists>c'. c' = snd (cleanup_source [(1, 3)] 1
        (1, \<lparr>sc_versions = [(3, \<lparr>vd_files = [], vd_tree = None, vd_mtime = 0\<rparr>), (4, \<lparr>vd_files = [], vd_tree = None, vd_mtime = 1\<rparr>),
             (5, \<lparr>vd_files = [], vd_tree = None, vd_mtime = 2\<rparr>)], sc_current = None\<rparr>))
    \<and> map fst (sc_versions c') = [3, 5]
    \<and> (3, \<lparr>vd_files = [], vd_tree = None, vd_mtime = 0\<rparr>) \<in> set (sc_versions c')"
proof -
  let ?c = "\<lparr>sc_versions = [(3, \<lparr>vd_files = [], vd_tree = None, vd_mtime = 0\<rparr>), (4, \<lparr>vd_files = [], vd_tree = None, vd_mtime = 1\<rparr>),
             (5, \<lparr>vd_files = [], vd_tree = None, vd_mtime = 2\<rparr>)], sc_current = None\<rparr> :: source_cache"
  have "map fst (sc_versions (snd (cleanup_source [(1, 3)] 1 (1, ?c)))) = [3, 5]" by code_simp
  then show ?thesis using cleanup_exact [of ?c _ "[(1, 3)]" 1 1] by simp
qed

end
