(* ===== verification/Secrets.thy ===== *)
theory Secrets
  imports Task_Queue "HOL-Library.List_Lexorder" "HOL-Library.Char_ord"
begin

text \<open>
  \<open>shared/lib/crypto.py\<close> and \<open>shared/lib/connections.py\<close>: encrypted values in configuration files, and
  the named connections that give a workflow its variables and secrets.  The age library is a parameter;
  \<open>CryptoError\<close> is a \<open>Runtime_error\<close>.
\<close>

section \<open>Encrypted values\<close>

definition word_char :: "char \<Rightarrow> bool" where
  "word_char c \<longleftrightarrow> is_alpha c \<or> is_digit c \<or> c = CHR ''_''"

text \<open>\<open>^ENC\[(\w[\w-]*),\s*(.+)\]$\<close> on a stripped text: the backend and the data.\<close>

definition enc_parts :: "string \<Rightarrow> (string \<times> string) option" where
  "enc_parts s =
     (if starts_with ''ENC['' s \<and> 5 \<le> length s \<and> last s = CHR '']''
      then
        let inner = butlast (drop 4 s);
            backend = takeWhile (\<lambda>c. c \<noteq> CHR '','') inner;
            rest = drop (Suc (length backend)) inner
        in if backend \<noteq> [] \<and> word_char (hd backend) \<and> (\<forall>c \<in> set backend. word_char c \<or> c = CHR ''-'')
              \<and> length backend < length inner \<and> rest \<noteq> []
           then Some (backend, strip rest) else None
      else None)"

definition is_encrypted :: "pyval \<Rightarrow> bool" where
  "is_encrypted v = (case v of PStr s \<Rightarrow> enc_parts (strip s) \<noteq> None | _ \<Rightarrow> False)"

definition crypto_error :: "string \<Rightarrow> 'a result" where
  "crypto_error msg = Inl (Runtime_error msg)"

text \<open>An identity is inline, or the content of a file that \<open>read_identity\<close> finds for it.\<close>

definition identity_line :: "string \<Rightarrow> bool" where
  "identity_line s \<longleftrightarrow>
     starts_with ''AGE-SECRET-KEY-'' s
     \<and> (let key = drop 15 s in key \<noteq> [] \<and> (\<forall>c \<in> set key. is_digit c \<or> (is_alpha c \<and> c = upper_char c)))"

definition normalize_age_identity_text :: "string \<Rightarrow> string result" where
  "normalize_age_identity_text identity_text =
     (let candidate = strip identity_text in
      if candidate = [] then crypto_error ''AGE identity is empty''
      else case find identity_line (map strip (splitlines candidate)) of
        Some line \<Rightarrow> Inr line
      | None \<Rightarrow>
          (if CHR 0x0A \<in> set candidate \<or> starts_with ''#'' candidate
           then crypto_error ''AGE identity file does not contain a valid secret key''
           else Inr candidate))"

text \<open>The age library and the files it may name.  \<open>CryptoError\<close> inside \<open>try\<close> is an exception like others.\<close>

record age_tools =
  at_is_file :: "string \<Rightarrow> bool"
  at_read_text :: "string \<Rightarrow> string result"
  at_b64decode :: "string \<Rightarrow> string option"
  at_decrypt :: "string \<Rightarrow> string \<Rightarrow> string option"
  at_encrypt :: "string \<Rightarrow> string \<Rightarrow> string result"
  at_public_key :: "string \<Rightarrow> string option"

definition resolve_identity :: "age_tools \<Rightarrow> string \<Rightarrow> string result" where
  "resolve_identity age identity =
     (let candidate = strip identity;
          path = (if starts_with ''file:'' candidate then Some (drop 5 candidate)
                  else if at_is_file age candidate then Some candidate else None)
      in if candidate = [] then crypto_error ''AGE identity is empty''
         else case path of
           None \<Rightarrow> normalize_age_identity_text candidate
         | Some p \<Rightarrow>
             (case at_read_text age p of
                Inr content \<Rightarrow> normalize_age_identity_text content
              | Inl _ \<Rightarrow> crypto_error (''Unable to read age identity file: '' @ p)))"

definition encrypt_secret :: "age_tools \<Rightarrow> string \<Rightarrow> string \<Rightarrow> string result" where
  "encrypt_secret age public_key plaintext =
     result_map (\<lambda>encoded. ''ENC[age,'' @ encoded @ '']'') (at_encrypt age public_key plaintext)"

definition derive_age_public_key :: "age_tools \<Rightarrow> string \<Rightarrow> string result" where
  "derive_age_public_key age identity =
     (case result_map (at_public_key age) (resolve_identity age identity) of
        Inr (Some k) \<Rightarrow> Inr k
      | _ \<Rightarrow> crypto_error ''Failed to derive age public key'')"

definition decrypt_age :: "age_tools \<Rightarrow> string \<Rightarrow> string \<Rightarrow> string result" where
  "decrypt_age age data identity =
     (case at_b64decode age data of
        None \<Rightarrow> crypto_error ''Invalid base64 payload for age secret''
      | Some ciphertext \<Rightarrow>
          (case result_map (\<lambda>ident. at_decrypt age ident ciphertext) (resolve_identity age identity) of
             Inr (Some plaintext) \<Rightarrow> Inr plaintext
           | _ \<Rightarrow> crypto_error ''Failed to decrypt age secret''))"

definition decrypt_secret :: "age_tools \<Rightarrow> string \<Rightarrow> string \<Rightarrow> string result" where
  "decrypt_secret age identity encrypted =
     (case enc_parts (strip encrypted) of
        None \<Rightarrow> crypto_error (''Invalid encrypted format: '' @ take 40 encrypted @ ''...'')
      | Some (backend, data) \<Rightarrow>
          (if backend = ''age'' then decrypt_age age data identity
           else if backend = ''plain'' then Inr data
           else crypto_error (''Unsupported encryption backend: '' @ backend)))"

section \<open>Named secrets\<close>

text \<open>One entry of the mapping: \<open>None\<close> leaves the variable unset.\<close>

definition decrypt_entry :: "age_tools \<Rightarrow> string \<Rightarrow> pyval \<Rightarrow> string option" where
  "decrypt_entry age identity spec =
     (case spec of
        PDict d \<Rightarrow>
          (let v = dict_get_default d ''encrypted'' (PStr []) in
           if \<not> truthy v \<or> \<not> is_encrypted v then None
           else case v of
             PStr s \<Rightarrow> (case decrypt_secret age identity s of Inr plaintext \<Rightarrow> Some plaintext | Inl _ \<Rightarrow> None)
           | _ \<Rightarrow> None)
      | _ \<Rightarrow> None)"

definition decrypt_items :: "age_tools \<Rightarrow> string \<Rightarrow> pydict \<Rightarrow> (string \<times> string) list" where
  "decrypt_items age identity d =
     foldl (\<lambda>acc (name, spec).
         case decrypt_entry age identity spec of None \<Rightarrow> acc | Some x \<Rightarrow> AList.update name x acc) [] d"

definition decrypt_named_secrets :: "age_tools \<Rightarrow> string \<Rightarrow> pyval \<Rightarrow> (string \<times> string) list result" where
  "decrypt_named_secrets age identity secrets =
     (if \<not> truthy secrets then Inr [] else result_map (decrypt_items age identity) (as_dict secrets))"

definition decrypt_agent_secrets :: "age_tools \<Rightarrow> string \<Rightarrow> pydict \<Rightarrow> (string \<times> string) list result" where
  "decrypt_agent_secrets age identity agent_config =
     decrypt_named_secrets age identity (dict_get_default agent_config ''secrets'' (PDict []))"

definition list_agent_secrets :: "pydict \<Rightarrow> pyval list result" where
  "list_agent_secrets agent_config =
     result_map
       (\<lambda>secrets. map (\<lambda>(name, spec).
            PDict [(''name'', PStr name),
              (''description'', dict_get_default (dict_or_empty spec) ''description'' (PStr [])),
              (''has_value'', PBool (truthy (dict_get (dict_or_empty spec) ''encrypted'')))])
          (filter (\<lambda>(_, spec). is_dict spec) secrets))
       (as_dict (dict_get_default agent_config ''secrets'' (PDict [])))"

section \<open>Connections\<close>

record connection =
  cn_name :: string
  cn_env :: "(string \<times> string) list"
  cn_secrets :: pydict
  cn_workflows :: "string list option"

definition allows_workflow :: "connection \<Rightarrow> string \<Rightarrow> bool" where
  "allows_workflow c workflow \<longleftrightarrow> (case cn_workflows c of None \<Rightarrow> True | Some ws \<Rightarrow> workflow \<in> set ws)"

text \<open>\<open>(spec or {}).get("encrypted")\<close> is truthy.\<close>

definition populated :: "pyval \<Rightarrow> bool" where
  "populated spec \<longleftrightarrow> truthy (dict_get (dict_or_empty spec) ''encrypted'')"

definition unset_secrets :: "connection \<Rightarrow> string list" where
  "unset_secrets c = sort (map fst (filter (\<lambda>(_, spec). \<not> populated spec) (cn_secrets c)))"

definition config_error :: "string \<Rightarrow> 'a result" where
  "config_error msg = Inl (Value_error msg)"

text \<open>A regular expression that ends in \<open>$\<close> also matches before a final newline.\<close>

definition before_newline :: "string \<Rightarrow> string" where
  "before_newline s = (if s \<noteq> [] \<and> last s = CHR 0x0A then butlast s else s)"

definition lower_or_digit :: "char \<Rightarrow> bool" where
  "lower_or_digit c \<longleftrightarrow> is_digit c \<or> (is_alpha c \<and> c = lower_char c)"

definition connection_name_ok :: "string \<Rightarrow> bool" where
  "connection_name_ok s =
     (let t = before_newline s in
      t \<noteq> [] \<and> lower_or_digit (hd t) \<and> lower_or_digit (last t) \<and> (\<forall>c \<in> set t. lower_or_digit c \<or> c = CHR ''-''))"

definition env_name_ok :: "string \<Rightarrow> bool" where
  "env_name_ok s =
     (let t = before_newline s in
      t \<noteq> [] \<and> is_alpha (hd t) \<and> hd t = upper_char (hd t)
      \<and> (\<forall>c \<in> set t. (is_alpha c \<and> c = upper_char c) \<or> is_digit c \<or> c = CHR ''_''))"

fun is_scalar :: "pyval \<Rightarrow> bool" where
  "is_scalar (PList _) = False"
| "is_scalar (PDict _) = False"
| "is_scalar PNone = False"
| "is_scalar _ = True"

definition secret_spec_ok :: "pyval \<Rightarrow> bool" where
  "secret_spec_ok v \<longleftrightarrow> v = PNone \<or> (\<exists>d. v = PDict d \<and> fst ` set d \<subseteq> {''encrypted'', ''description''})"

lemma secret_spec_ok_code [code]:
  "secret_spec_ok v = (case v of PNone \<Rightarrow> True | PDict d \<Rightarrow> fst ` set d \<subseteq> {''encrypted'', ''description''} | _ \<Rightarrow> False)"
  by (cases v) (simp_all add: secret_spec_ok_def)

definition workflow_list :: "pyval \<Rightarrow> string list option option" where
  "workflow_list v =
     (case v of
        PNone \<Rightarrow> Some None
      | PList vs \<Rightarrow> if \<forall>x \<in> set vs. is_str x then Some (Some (map py_str vs)) else None
      | _ \<Rightarrow> None)"

definition parse_connection :: "string \<Rightarrow> pyval \<Rightarrow> connection result" where
  "parse_connection name v =
     (if \<not> connection_name_ok name then config_error (''Invalid connection name '' @ str_repr name)
      else case v of
        PDict spec \<Rightarrow>
          (let unknown = filter (\<lambda>k. k \<notin> {''description'', ''workflows'', ''env'', ''secrets''}) (map fst spec);
               env = py_or (dict_get spec ''env'') (PDict []);
               secrets = py_or (dict_get spec ''secrets'') (PDict [])
           in if unknown \<noteq> [] then config_error (''Connection '' @ name @ '' has unknown keys'')
              else if \<not> is_dict env \<or> \<not> is_dict secrets
              then config_error (''Connection '' @ name @ '': env and secrets must be mappings'')
              else
                let e = dict_or_empty env; s = dict_or_empty secrets in
                if \<exists>k \<in> set (map fst e @ map fst s). \<not> env_name_ok k
                then config_error (''Connection '' @ name @ '': invalid variable name'')
                else if set (map fst e) \<inter> set (map fst s) \<noteq> {}
                then config_error (''Connection '' @ name @ '': a variable is both env and secret'')
                else if \<exists>x \<in> set (map snd e). x \<noteq> PNone \<and> \<not> is_scalar x
                then config_error (''Connection '' @ name @ '': env must be a scalar'')
                else if \<exists>x \<in> set (map snd s). \<not> secret_spec_ok x
                then config_error (''Connection '' @ name @ '': secret must be {encrypted: ...} or null'')
                else case workflow_list (dict_get spec ''workflows'') of
                  None \<Rightarrow> config_error (''Connection '' @ name @ '': workflows must be a list of names'')
                | Some ws \<Rightarrow>
                    Inr \<lparr>cn_name = name, cn_env = map (\<lambda>(k, x). (k, if x = PNone then [] else py_str x)) e,
                         cn_secrets = s, cn_workflows = ws\<rparr>)
      | _ \<Rightarrow> config_error (''Connection '' @ name @ '' must be a mapping''))"

definition parse_connections :: "pydict \<Rightarrow> (string \<times> connection) list result" where
  "parse_connections platform_config =
     (case py_or (dict_get platform_config ''connections'') (PDict []) of
        PDict section \<Rightarrow> result_list (\<lambda>(name, v). result_map (\<lambda>c. (name, c)) (parse_connection name v)) section
      | _ \<Rightarrow> config_error ''connections must be a mapping'')"

definition workflow_connection_names :: "pydict \<Rightarrow> string list result" where
  "workflow_connection_names agent_config =
     (case py_or (dict_get agent_config ''connections'') (PList []) of
        PList vs \<Rightarrow>
          (if \<forall>v \<in> set vs. is_str v then Inr (map py_str vs)
           else config_error ''agent.yaml connections must be a list of connection names'')
      | _ \<Rightarrow> config_error ''agent.yaml connections must be a list of connection names'')"

definition variables :: "connection \<Rightarrow> string list" where
  "variables c = map fst (cn_env c) @ map fst (cn_secrets c)"

text \<open>The owners of the variables so far, by name; an owned variable is an error.\<close>

fun claim_variables ::
    "string \<Rightarrow> string \<Rightarrow> (string \<times> string) list \<Rightarrow> string list \<Rightarrow> (string \<times> string) list result" where
  "claim_variables workflow name owners [] = Inr owners"
| "claim_variables workflow name owners (x # xs) =
     (case map_of owners x of
        Some owner \<Rightarrow>
          config_error (''Workflow '' @ workflow @ '': '' @ x @ '' is provided by both '' @ owner @ '' and connection '' @ name)
      | None \<Rightarrow> claim_variables workflow name ((x, ''connection '' @ name) # owners) xs)"

fun resolve_names ::
    "(string \<times> connection) list \<Rightarrow> string \<Rightarrow> (string \<times> string) list \<Rightarrow> string list \<Rightarrow> connection list result" where
  "resolve_names available workflow owners [] = Inr []"
| "resolve_names available workflow owners (name # names) =
     (case map_of available name of
        None \<Rightarrow> config_error (''Workflow '' @ workflow @ '' uses unknown connection '' @ str_repr name)
      | Some c \<Rightarrow>
          (if \<not> allows_workflow c workflow
           then config_error (''Connection '' @ name @ '' is not allowed for workflow '' @ workflow)
           else
             result_bind (claim_variables workflow name owners (variables c)) (\<lambda>owners'.
             result_map (\<lambda>cs. c # cs) (resolve_names available workflow owners' names))))"

text \<open>\<open>(*(config.get(k) or {}),)\<close>.\<close>

definition declared :: "pydict \<Rightarrow> string \<Rightarrow> string list result" where
  "declared agent_config k =
     (let v = py_or (dict_get agent_config k) (PDict []) in result_map (map py_str) (py_iter v))"

definition resolve_workflow_connections :: "pydict \<Rightarrow> string \<Rightarrow> pydict \<Rightarrow> connection list result" where
  "resolve_workflow_connections platform_config workflow agent_config =
     result_bind (parse_connections platform_config) (\<lambda>available.
     result_bind (declared agent_config ''env'') (\<lambda>env.
     result_bind (declared agent_config ''secrets'') (\<lambda>secrets.
     result_bind (workflow_connection_names agent_config) (\<lambda>names.
       resolve_names available workflow (map (\<lambda>x. (x, ''agent.yaml'')) (env @ secrets)) names))))"

text \<open>\<open>a.update(b)\<close> for text dicts.\<close>

definition text_update :: "(string \<times> string) list \<Rightarrow> (string \<times> string) list \<Rightarrow> (string \<times> string) list" where
  "text_update a b = foldl (\<lambda>d (k, v). AList.update k v d) a b"

definition connection_environment ::
    "age_tools \<Rightarrow> string \<Rightarrow> connection list \<Rightarrow> (string \<times> string) list \<times> (string \<times> string) list" where
  "connection_environment age identity cs =
     (foldl (\<lambda>env c. text_update env (cn_env c)) [] cs,
      foldl (\<lambda>secrets c. text_update secrets (decrypt_items age identity (filter (\<lambda>(_, spec). populated spec) (cn_secrets c)))) [] cs)"

definition connection_secret_names :: "connection list \<Rightarrow> string list" where
  "connection_secret_names cs = concat (map (\<lambda>c. map fst (cn_secrets c)) cs)"

section \<open>Lemmas\<close>

lemma map_of_text_update: "map_of (text_update a b) = map_of a ++ map_of (rev b)"
proof (induction b arbitrary: a)
  case (Cons p b)
  obtain k v where "p = (k, v)" by fastforce
  with Cons show ?case by (auto simp: text_update_def update_conv' map_add_def fun_eq_iff split: option.split)
qed (simp add: text_update_def)

lemma keys_text_update: "fst ` set (text_update a b) = fst ` set a \<union> fst ` set b"
proof (induction b arbitrary: a)
  case (Cons p b)
  obtain k v where p: "p = (k, v)" by fastforce
  with Cons [of "AList.update k v a"] show ?case by (auto simp: text_update_def dom_update)
qed (simp add: text_update_def)

lemma decrypt_items_keys: "fst ` set (decrypt_items age identity d) \<subseteq> fst ` set d"
proof -
  have "fst ` set (foldl (\<lambda>acc (name, spec).
         case decrypt_entry age identity spec of None \<Rightarrow> acc | Some x \<Rightarrow> AList.update name x acc) acc d)
      \<subseteq> fst ` set acc \<union> fst ` set d" for acc
  proof (induction d arbitrary: acc)
    case (Cons p d)
    obtain k spec where p: "p = (k, spec)" by fastforce
    show ?case
      using Cons [of "case decrypt_entry age identity spec of None \<Rightarrow> acc | Some x \<Rightarrow> AList.update k x acc"]
      by (auto simp: p dom_update split: option.splits)
  qed simp
  from this [of "[]"] show ?thesis by (simp add: decrypt_items_def)
qed

lemma map_of_decrypt_items:
  assumes "distinct (map fst d)"
  shows "map_of (decrypt_items age identity d) n = Option.bind (map_of d n) (decrypt_entry age identity)"
proof -
  let ?step = "\<lambda>acc (name, spec). case decrypt_entry age identity spec of None \<Rightarrow> acc | Some x \<Rightarrow> AList.update name x acc"
  have "map_of (foldl ?step acc d) n =
          (case Option.bind (map_of d n) (decrypt_entry age identity) of None \<Rightarrow> map_of acc n | Some x \<Rightarrow> Some x)" for acc
    using assms
  proof (induction d arbitrary: acc)
    case (Cons p d)
    obtain k spec where p: "p = (k, spec)" by fastforce
    with Cons.prems have "map_of d k = None" "distinct (map fst d)" by (auto simp: map_of_eq_None_iff)
    with Cons.IH show ?case by (auto simp: p split: option.split)
  qed simp
  from this [of "[]"] show ?thesis by (simp add: decrypt_items_def split: option.split)
qed

lemma connection_secrets_named:
  "fst ` set (snd (connection_environment age identity cs)) \<subseteq> set (connection_secret_names cs)"
proof -
  let ?f = "\<lambda>c. decrypt_items age identity (filter (\<lambda>(_, spec). populated spec) (cn_secrets c))"
  have "fst ` set (foldl (\<lambda>secrets c. text_update secrets (?f c)) acc cs) \<subseteq> fst ` set acc \<union> set (connection_secret_names cs)" for acc
  proof (induction cs arbitrary: acc)
    case (Cons c cs)
    have "fst ` set (?f c) \<subseteq> fst ` set (cn_secrets c)"
      using decrypt_items_keys [of age identity "filter (\<lambda>(_, spec). populated spec) (cn_secrets c)"] by auto
    with Cons [of "text_update acc (?f c)"] show ?case
      by (auto simp: keys_text_update connection_secret_names_def)
  qed simp
  from this [of "[]"] show ?thesis by (simp add: connection_environment_def)
qed

lemma claim_variables_ok:
  "claim_variables workflow name owners xs = Inr owners' \<Longrightarrow>
     fst ` set owners' = fst ` set owners \<union> set xs \<and> distinct xs \<and> set xs \<inter> fst ` set owners = {}"
proof (induction xs arbitrary: owners)
  case (Cons x xs)
  then have "map_of owners x = None"
      and "claim_variables workflow name ((x, ''connection '' @ name) # owners) xs = Inr owners'"
    by (simp_all add: config_error_def split: option.splits)
  with Cons.IH [OF this(2)] show ?case by (auto simp: map_of_eq_None_iff)
qed simp

lemma resolve_names_ok:
  "resolve_names available workflow owners names = Inr cs \<Longrightarrow>
     length cs = length names \<and> (\<forall>c \<in> set cs. allows_workflow c workflow \<and> c \<in> snd ` set available)
     \<and> distinct (concat (map variables cs)) \<and> set (concat (map variables cs)) \<inter> fst ` set owners = {}"
proof (induction names arbitrary: owners cs)
  case (Cons name names)
  then obtain c owners' cs' where c: "map_of available name = Some c" "allows_workflow c workflow"
      and own: "claim_variables workflow name owners (variables c) = Inr owners'"
      and rest: "resolve_names available workflow owners' names = Inr cs'" and cs: "cs = c # cs'"
    by (auto simp: config_error_def result_bind_Inr_iff result_map_Inr_iff split: option.splits if_splits)
  note claim_variables_ok [OF own] and Cons.IH [OF rest]
  moreover have "c \<in> snd ` set available" using map_of_SomeD [OF c(1)] by force
  ultimately show ?case using c cs by auto
qed simp

end
