(* ===== verification/Platform_Config.thy ===== *)
theory Platform_Config
  imports Secrets
begin

text \<open>
  \<open>shared/lib/platform_config.py\<close>: the base configuration file and the overlay of one environment.
  The parsed content of a file is a parameter; a YAML error is a \<open>Value_error\<close>.
\<close>

record config_files =
  cf_exists :: "string \<Rightarrow> bool"
  cf_parsed :: "string \<Rightarrow> pyval result"

section \<open>The merge\<close>

text \<open>\<open>environment\<close> is \<open>os.environ.get("SAGE_RUN_ENV", "")\<close> when no argument is given.\<close>

definition selected_environment :: "string \<Rightarrow> string" where
  "selected_environment environment = lower (strip environment)"

text \<open>\<open>stem\<close> and \<open>suffix\<close> of a file name: the suffix begins at the last dot, unless it is the first or last character.\<close>

definition split_suffix :: "string \<Rightarrow> string \<times> string" where
  "split_suffix name =
     (let ext = rev (takeWhile (\<lambda>c. c \<noteq> CHR ''.'') (rev name));
          n = length name - length ext
      in if ext = [] \<or> n < 2 then (name, []) else (take (n - 1) name, drop (n - 1) name))"

definition overlay_path :: "string \<Rightarrow> string \<Rightarrow> string result" where
  "overlay_path base_path environment =
     (let name = last (split_char (CHR ''/'') base_path);
          parent = take (length base_path - length name) base_path;
          new_name = fst (split_suffix name) @ ''-'' @ environment @ snd (split_suffix name)
      in if CHR ''/'' \<in> set environment then Inl (Value_error (''Invalid name '' @ str_repr new_name))
         else Inr (parent @ new_name))"

definition read_yaml_mapping :: "config_files \<Rightarrow> string \<Rightarrow> pydict result" where
  "read_yaml_mapping fs path =
     result_bind (cf_parsed fs path) (\<lambda>v.
       case py_or v (PDict []) of
         PDict d \<Rightarrow> Inr d
       | _ \<Rightarrow> Inl (Value_error (path @ '' must contain a YAML mapping'')))"

fun deep_merge :: "pydict \<Rightarrow> pydict \<Rightarrow> pydict" where
  "deep_merge merged [] = merged"
| "deep_merge merged ((key, v) # overlay) =
     deep_merge
       (dict_set key
          (case v of
             PDict o' \<Rightarrow> (case dict_get merged key of PDict m \<Rightarrow> PDict (deep_merge m o') | _ \<Rightarrow> v)
           | _ \<Rightarrow> v) merged)
       overlay"

definition load_platform_config :: "config_files \<Rightarrow> string \<Rightarrow> string \<Rightarrow> pydict result" where
  "load_platform_config fs environment path =
     (if \<not> cf_exists fs path then Inr []
      else result_bind (read_yaml_mapping fs path) (\<lambda>config.
        let env = selected_environment environment in
        if env = [] then Inr config
        else result_bind (overlay_path path env) (\<lambda>overlay.
          if cf_exists fs overlay then result_map (deep_merge config) (read_yaml_mapping fs overlay)
          else Inr config)))"

section \<open>Encrypted values\<close>

definition encrypted_text :: "string \<Rightarrow> bool" where
  "encrypted_text s \<longleftrightarrow> starts_with ''ENC['' s \<and> \<not> starts_with ''ENC[plain,'' s"

fun encrypted_value_paths :: "string list \<Rightarrow> pyval \<Rightarrow> string list list"
  and item_paths :: "string list \<Rightarrow> pydict \<Rightarrow> string list list"
  and index_paths :: "string list \<Rightarrow> nat \<Rightarrow> pyval list \<Rightarrow> string list list" where
  "encrypted_value_paths prefix (PDict d) = item_paths prefix d"
| "encrypted_value_paths prefix (PList vs) = index_paths prefix 0 vs"
| "encrypted_value_paths prefix (PStr s) = (if encrypted_text s then [prefix] else [])"
| "encrypted_value_paths prefix PNone = []"
| "encrypted_value_paths prefix (PBool b) = []"
| "encrypted_value_paths prefix (PInt i) = []"
| "encrypted_value_paths prefix (PFloat q) = []"
| "item_paths prefix [] = []"
| "item_paths prefix ((k, v) # d) = encrypted_value_paths (prefix @ [k]) v @ item_paths prefix d"
| "index_paths prefix n [] = []"
| "index_paths prefix n (v # vs) = encrypted_value_paths (prefix @ [nat_str n]) v @ index_paths prefix (Suc n) vs"

definition secrets_not_overridden :: "pydict \<Rightarrow> pydict \<Rightarrow> string list" where
  "secrets_not_overridden base overlay =
     (let overlay_secret_paths = set (encrypted_value_paths [] (PDict overlay))
      in map (join ''.'')
           (filter (\<lambda>p. p \<notin> overlay_secret_paths) (encrypted_value_paths [] (PDict (deep_merge base overlay)))))"

section \<open>Lookups in a merged mapping\<close>

text \<open>The keys of every mapping in a value are distinct.\<close>

fun dicts_ok :: "pyval \<Rightarrow> bool" and items_ok :: "pydict \<Rightarrow> bool" and values_ok :: "pyval list \<Rightarrow> bool" where
  "dicts_ok (PDict d) = (distinct (map fst d) \<and> items_ok d)"
| "dicts_ok (PList vs) = values_ok vs"
| "dicts_ok _ = True"
| "items_ok [] = True"
| "items_ok ((k, v) # d) = (dicts_ok v \<and> items_ok d)"
| "values_ok [] = True"
| "values_ok (v # vs) = (dicts_ok v \<and> values_ok vs)"

lemma items_ok_iff: "items_ok d \<longleftrightarrow> (\<forall>(k, v) \<in> set d. dicts_ok v)"
  by (induction d) auto

text \<open>What one overlay value does to the value it meets.\<close>

definition merged_value :: "pyval option \<Rightarrow> pyval \<Rightarrow> pyval" where
  "merged_value old v =
     (case (old, v) of (Some (PDict m), PDict o') \<Rightarrow> PDict (deep_merge m o') | _ \<Rightarrow> v)"

lemma dict_get_map_of: "dict_get d k = (case map_of d k of None \<Rightarrow> PNone | Some v \<Rightarrow> v)"
  by (simp add: dict_get_def dict_get_default_def)

lemma deep_merge_Cons:
  "deep_merge merged ((k, v) # overlay) = deep_merge (dict_set k (merged_value (map_of merged k) v) merged) overlay"
  by (simp add: merged_value_def dict_get_map_of split: pyval.split option.split)

declare deep_merge.simps(2) [simp del]

lemma map_of_deep_merge:
  "distinct (map fst overlay) \<Longrightarrow>
     map_of (deep_merge base overlay) k =
       (case map_of overlay k of None \<Rightarrow> map_of base k | Some v \<Rightarrow> Some (merged_value (map_of base k) v))"
proof (induction overlay arbitrary: base)
  case (Cons p overlay)
  obtain k' v where p: "p = (k', v)" by fastforce
  with Cons.prems have "k' \<notin> fst ` set overlay" and d: "distinct (map fst overlay)" by auto
  then have "map_of overlay k' = None" by (simp add: map_of_eq_None_iff)
  with Cons.IH [OF d] show ?case
    by (auto simp: p deep_merge_Cons dict_set_def split: option.split)
qed simp

lemma distinct_deep_merge: "distinct (map fst base) \<Longrightarrow> distinct (map fst (deep_merge base overlay))"
proof (induction overlay arbitrary: base)
  case (Cons p overlay)
  obtain k v where "p = (k, v)" by fastforce
  with Cons show ?case by (simp add: deep_merge_Cons)
qed simp

section \<open>Encrypted leaves\<close>

text \<open>The encrypted texts of a value, each with its path.\<close>

fun leaves :: "string list \<Rightarrow> pyval \<Rightarrow> (string list \<times> string) list"
  and item_leaves :: "string list \<Rightarrow> pydict \<Rightarrow> (string list \<times> string) list"
  and index_leaves :: "string list \<Rightarrow> nat \<Rightarrow> pyval list \<Rightarrow> (string list \<times> string) list" where
  "leaves prefix (PDict d) = item_leaves prefix d"
| "leaves prefix (PList vs) = index_leaves prefix 0 vs"
| "leaves prefix (PStr s) = (if encrypted_text s then [(prefix, s)] else [])"
| "leaves prefix _ = []"
| "item_leaves prefix [] = []"
| "item_leaves prefix ((k, v) # d) = leaves (prefix @ [k]) v @ item_leaves prefix d"
| "index_leaves prefix n [] = []"
| "index_leaves prefix n (v # vs) = leaves (prefix @ [nat_str n]) v @ index_leaves prefix (Suc n) vs"

lemma paths_of_leaves:
  "encrypted_value_paths prefix v = map fst (leaves prefix v)"
  "item_paths prefix d = map fst (item_leaves prefix d)"
  "index_paths prefix n vs = map fst (index_leaves prefix n vs)"
  by (induction prefix v and prefix d and prefix n vs rule: leaves_item_leaves_index_leaves.induct) auto

lemma leaf_paths_extend:
  "(p, s) \<in> set (leaves prefix v) \<Longrightarrow> \<exists>q. p = prefix @ q"
  "(p, s) \<in> set (item_leaves prefix d) \<Longrightarrow> \<exists>q. p = prefix @ q"
  "(p, s) \<in> set (index_leaves prefix n vs) \<Longrightarrow> \<exists>q. p = prefix @ q"
  by (induction prefix v and prefix d and prefix n vs rule: leaves_item_leaves_index_leaves.induct)
    (auto split: if_splits)

lemma in_item_leaves:
  "(p, s) \<in> set (item_leaves prefix d) \<longleftrightarrow> (\<exists>(k, v) \<in> set d. (p, s) \<in> set (leaves (prefix @ [k]) v))"
  by (induction d) auto

lemma in_item_leaves_lookup:
  assumes "distinct (map fst d)"
  shows "(p, s) \<in> set (item_leaves prefix d) \<longleftrightarrow> (\<exists>k v. map_of d k = Some v \<and> (p, s) \<in> set (leaves (prefix @ [k]) v))"
  using assms by (auto simp: in_item_leaves)

text \<open>An encrypted leaf of the merge whose path the overlay encrypts is the overlay's leaf.\<close>

lemma merged_leaf_from_overlay:
  assumes "distinct (map fst base)" "items_ok base" "distinct (map fst overlay)" "items_ok overlay"
    and "(p, s) \<in> set (item_leaves prefix (deep_merge base overlay))" "(p, s') \<in> set (item_leaves prefix overlay)"
  shows "(p, s) \<in> set (item_leaves prefix overlay)"
  using assms
proof (induction "size_list (size_prod (\<lambda>_. 0) size) overlay" arbitrary: base overlay prefix rule: less_induct)
  case less
  obtain k v where k: "map_of (deep_merge base overlay) k = Some v" and v: "(p, s) \<in> set (leaves (prefix @ [k]) v)"
    using less.prems by (auto simp: in_item_leaves_lookup distinct_deep_merge)
  obtain k' v' where k': "map_of overlay k' = Some v'" and v': "(p, s') \<in> set (leaves (prefix @ [k']) v')"
    using less.prems by (auto simp: in_item_leaves_lookup)
  have "k' = k" using leaf_paths_extend(1) [OF v] leaf_paths_extend(1) [OF v'] by auto
  with k k' less.prems(3) have v_eq: "v = merged_value (map_of base k) v'" by (simp add: map_of_deep_merge)
  have "(p, s) \<in> set (leaves (prefix @ [k]) v')"
  proof (cases "\<exists>m o'. map_of base k = Some (PDict m) \<and> v' = PDict o'")
    case True
    then obtain m o' where m: "map_of base k = Some (PDict m)" and v'_eq: "v' = PDict o'" by blast
    have in_overlay: "(k, PDict o') \<in> set overlay" using map_of_SomeD [OF k'] by (simp add: \<open>k' = k\<close> v'_eq)
    have "(p, s) \<in> set (item_leaves (prefix @ [k]) o')"
    proof (rule less.hyps [of o' m "prefix @ [k]"])
      have "size_prod (\<lambda>_. 0) size (k, PDict o') \<le> size_list (size_prod (\<lambda>_. 0) size) overlay"
        using in_overlay by (induction overlay) auto
      then show "size_list (size_prod (\<lambda>_. 0) size) o' < size_list (size_prod (\<lambda>_. 0) size) overlay" by simp
    next
      show "distinct (map fst m)" "items_ok m"
        using map_of_SomeD [OF m] less.prems(2) by (fastforce simp: items_ok_iff)+
      show "distinct (map fst o')" "items_ok o'" using in_overlay less.prems(4) by (fastforce simp: items_ok_iff)+
      show "(p, s) \<in> set (item_leaves (prefix @ [k]) (deep_merge m o'))"
        using v by (simp add: v_eq m v'_eq merged_value_def)
      show "(p, s') \<in> set (item_leaves (prefix @ [k]) o')" using v' by (simp add: \<open>k' = k\<close> v'_eq)
    qed
    then show ?thesis by (simp add: v'_eq)
  next
    case False
    then have "v = v'" by (auto simp: v_eq merged_value_def split: option.split pyval.split)
    with v show ?thesis by simp
  qed
  with k' less.prems(3) show ?case by (auto simp: in_item_leaves_lookup \<open>k' = k\<close>)
qed

section \<open>The check of a release\<close>

text \<open>
  C31. No secret is reported as not overridden exactly when every encrypted text of the merged configuration,
  wherever it stands, is an encrypted text of the overlay at the same place: the host needs only the key
  of its environment.  Mappings have distinct keys, as Python dicts do.
\<close>

theorem overlay_overrides_every_secret:
  assumes "dicts_ok (PDict base)" "dicts_ok (PDict overlay)"
  shows "secrets_not_overridden base overlay = []
         \<longleftrightarrow> set (leaves [] (PDict (deep_merge base overlay))) \<subseteq> set (leaves [] (PDict overlay))"
proof
  assume "secrets_not_overridden base overlay = []"
  then have "fst ` set (item_leaves [] (deep_merge base overlay)) \<subseteq> fst ` set (item_leaves [] overlay)"
    by (auto simp: secrets_not_overridden_def paths_of_leaves filter_empty_conv)
  then show "set (leaves [] (PDict (deep_merge base overlay))) \<subseteq> set (leaves [] (PDict overlay))"
    using assms by (fastforce intro: merged_leaf_from_overlay)
next
  assume "set (leaves [] (PDict (deep_merge base overlay))) \<subseteq> set (leaves [] (PDict overlay))"
  then show "secrets_not_overridden base overlay = []"
    by (fastforce simp: secrets_not_overridden_def paths_of_leaves filter_empty_conv)
qed

definition demo_base :: pydict where
  "demo_base = [(''secrets'', PDict [(''KEY'', PDict [(''encrypted'', PStr ''ENC[age,dev]'')])])]"

definition demo_overlay :: pydict where
  "demo_overlay = [(''secrets'', PDict [(''KEY'', PDict [(''encrypted'', PStr ''ENC[age,prod]'')])])]"

theorem overlay_overrides_every_secret_witness:
  "set (leaves [] (PDict (deep_merge demo_base demo_overlay))) \<subseteq> set (leaves [] (PDict demo_overlay))"
proof (rule iffD1 [OF overlay_overrides_every_secret])
  show "dicts_ok (PDict demo_base)" "dicts_ok (PDict demo_overlay)" by (simp_all add: demo_base_def demo_overlay_def)
  show "secrets_not_overridden demo_base demo_overlay = []"
    by code_simp
qed

end
