(* ===== verification/Platform_Secrets.thy ===== *)
theory Platform_Secrets
  imports Platform_Config Settings
begin

text \<open>
  \<open>shared/lib/platform_secrets.py\<close>: the variables of the services and of the runtime containers, the
  message provider, the GitHub connections and the groups of users, read from the platform configuration.
  Environments are association lists.  The \<open>pydantic\<close> validation of the \<open>knowledge\<close> section is a parameter.
\<close>

type_synonym environ = "(string \<times> string) list"

section \<open>Placeholders\<close>

definition env_char :: "char \<Rightarrow> bool" where
  "env_char c \<longleftrightarrow> (is_alpha c \<and> c = upper_char c) \<or> is_digit c \<or> c = CHR ''_''"

text \<open>\<open>\$\{([A-Z0-9_]+)\}\<close> at the start of a text: the name and the rest.\<close>

definition placeholder_at :: "string \<Rightarrow> (string \<times> string) option" where
  "placeholder_at s =
     (if starts_with ''${'' s
      then
        let name = takeWhile env_char (drop 2 s); rest = drop (2 + length name) s
        in if name \<noteq> [] \<and> starts_with ''}'' rest then Some (name, drop 1 rest) else None
      else None)"

text \<open>\<open>ENV_PLACEHOLDER_PATTERN.match(value.strip())\<close>.\<close>

definition env_placeholder :: "string \<Rightarrow> string option" where
  "env_placeholder value =
     (case placeholder_at (strip value) of Some (name, []) \<Rightarrow> Some name | _ \<Rightarrow> None)"

lemma placeholder_at_shorter: "placeholder_at s = Some (name, rest) \<Longrightarrow> length rest < length s"
  by (cases s) (auto simp: placeholder_at_def starts_with_def Let_def split: if_splits)

function expand_text :: "environ \<Rightarrow> string \<Rightarrow> string" where
  "expand_text env [] = []"
| "expand_text env (c # s) =
     (case placeholder_at (c # s) of
        Some (name, rest) \<Rightarrow> (case map_of env name of None \<Rightarrow> [] | Some v \<Rightarrow> v) @ expand_text env rest
      | None \<Rightarrow> c # expand_text env s)"
  by pat_completeness auto
termination
  by (relation "measure (\<lambda>(_, s). length s)") (auto dest: placeholder_at_shorter)

fun expand_env_placeholders :: "environ \<Rightarrow> pyval \<Rightarrow> pyval"
  and expand_items :: "environ \<Rightarrow> pydict \<Rightarrow> pydict"
  and expand_values :: "environ \<Rightarrow> pyval list \<Rightarrow> pyval list" where
  "expand_env_placeholders env (PDict d) = PDict (expand_items env d)"
| "expand_env_placeholders env (PList vs) = PList (expand_values env vs)"
| "expand_env_placeholders env (PStr s) = PStr (expand_text env s)"
| "expand_env_placeholders env PNone = PNone"
| "expand_env_placeholders env (PBool b) = PBool b"
| "expand_env_placeholders env (PInt i) = PInt i"
| "expand_env_placeholders env (PFloat q) = PFloat q"
| "expand_items env [] = []"
| "expand_items env ((k, v) # d) = (k, expand_env_placeholders env v) # expand_items env d"
| "expand_values env [] = []"
| "expand_values env (v # vs) = expand_env_placeholders env v # expand_values env vs"

definition stringify_env_value :: "environ \<Rightarrow> pyval \<Rightarrow> string" where
  "stringify_env_value env v =
     (case v of
        PStr s \<Rightarrow>
          (case env_placeholder s of
             None \<Rightarrow> s
           | Some name \<Rightarrow> (case map_of env name of None \<Rightarrow> [] | Some x \<Rightarrow> x))
      | _ \<Rightarrow> py_str v)"

section \<open>Plain and runtime values\<close>

definition normalize_config_values :: "environ \<Rightarrow> pydict \<Rightarrow> environ" where
  "normalize_config_values env values =
     foldl (\<lambda>acc (k, v). if is_scalar v then AList.update k (stringify_env_value env v) acc else acc) [] values"

definition MODEL_PROFILE_ENV_ALIASES :: "(string \<times> string) list" where
  "MODEL_PROFILE_ENV_ALIASES = []"

definition env_alias :: "string \<Rightarrow> string" where
  "env_alias k = (case map_of MODEL_PROFILE_ENV_ALIASES k of None \<Rightarrow> k | Some a \<Rightarrow> a)"

text \<open>\<open>None\<close> removes the variable.\<close>

definition normalize_runtime_env_values :: "environ \<Rightarrow> pydict \<Rightarrow> (string \<times> string option) list" where
  "normalize_runtime_env_values env values =
     foldl (\<lambda>acc (k, v).
         if v = PNone then AList.update (env_alias k) None acc
         else if is_scalar v then AList.update (env_alias k) (Some (stringify_env_value env v)) acc
         else acc) [] values"

definition is_price :: "pyval \<Rightarrow> bool" where
  "is_price v = (case v of PInt i \<Rightarrow> 0 \<le> i | PFloat q \<Rightarrow> 0 \<le> q | _ \<Rightarrow> False)"

definition price_value :: "pyval \<Rightarrow> pyval" where
  "price_value v = (case v of PInt i \<Rightarrow> PFloat (of_int i) | _ \<Rightarrow> v)"

definition model_prices :: "pyval \<Rightarrow> pydict option" where
  "model_prices v =
     (case v of
        PDict d \<Rightarrow>
          (if is_price (dict_get d ''input'') \<and> is_price (dict_get d ''output'')
              \<and> (dict_get d ''cache_read'' = PNone \<or> is_price (dict_get d ''cache_read''))
              \<and> (dict_get d ''cache_write'' = PNone \<or> is_price (dict_get d ''cache_write''))
           then Some (map (\<lambda>f. (f, price_value (dict_get d f)))
                  (filter (\<lambda>f. dict_get d f \<noteq> PNone) [''input'', ''output'', ''cache_read'', ''cache_write'']))
           else None)
      | _ \<Rightarrow> None)"

definition normalize_model_costs :: "pyval \<Rightarrow> pydict" where
  "normalize_model_costs v =
     (case v of
        PDict d \<Rightarrow>
          foldl (\<lambda>acc (model, prices). case model_prices prices of None \<Rightarrow> acc | Some p \<Rightarrow> dict_set model (PDict p) acc) [] d
      | _ \<Rightarrow> [])"

text \<open>\<open>json.dumps(costs, sort_keys=True)\<close>: the prices of each model are sorted too.\<close>

definition sorted_costs :: "pydict \<Rightarrow> pydict" where
  "sorted_costs costs =
     sort_key fst (map (\<lambda>(model, p). (model, PDict (sort_key fst (dict_or_empty p)))) costs)"

definition direct_model_override :: "string \<Rightarrow> (string \<times> string option) list" where
  "direct_model_override model =
     map (\<lambda>k. (k, Some model))
       [''ANTHROPIC_MODEL'', ''ANTHROPIC_DEFAULT_OPUS_MODEL'', ''ANTHROPIC_DEFAULT_SONNET_MODEL'',
        ''ANTHROPIC_DEFAULT_HAIKU_MODEL'', ''CLAUDE_CODE_SUBAGENT_MODEL'']"

definition resolve_model_runtime_env :: "environ \<Rightarrow> pydict \<Rightarrow> string \<Rightarrow> (string \<times> string option) list" where
  "resolve_model_runtime_env env data selector =
     (let model_profiles = dict_get_default data ''model_profiles'' (PDict [])
      in case dict_get (dict_or_empty model_profiles) selector of
           PNone \<Rightarrow> direct_model_override selector
         | PDict profile \<Rightarrow>
             (let values =
                (case dict_get profile ''runtime_env'' of
                   PDict d \<Rightarrow> d
                 | _ \<Rightarrow> filter (\<lambda>(k, _). k \<noteq> ''model_costs'') profile);
                  normalized = normalize_runtime_env_values env values;
                  costs = normalize_model_costs (dict_get profile ''model_costs'')
              in if costs = [] then normalized
                 else AList.update ''MODEL_COSTS_JSON'' (Some (json_dumps (PDict (sorted_costs costs)))) normalized)
         | _ \<Rightarrow> [])"

section \<open>Reading the file\<close>

text \<open>The validated \<open>knowledge\<close> section, as \<open>model_dump(exclude_none=True)\<close> gives its parts.\<close>

record knowledge_config =
  kg_embeddings :: "pydict option"
  kg_rerank :: "pydict option"
  kg_require_grants :: "bool option"

record platform_tools =
  pt_files :: config_files
  pt_validate_knowledge :: "pyval \<Rightarrow> knowledge_config option"

text \<open>\<open>_read_platform_file\<close>: a file that cannot be read or parsed counts as empty.\<close>

definition read_platform_file :: "config_files \<Rightarrow> environ \<Rightarrow> string \<Rightarrow> pydict result" where
  "read_platform_file fs environ path =
     (case load_platform_config fs (case map_of environ ''SAGE_RUN_ENV'' of None \<Rightarrow> [] | Some e \<Rightarrow> e) path of
        Inr data \<Rightarrow> Inr data
      | Inl (Os_error _) \<Rightarrow> Inr []
      | Inl (Value_error _) \<Rightarrow> Inr []
      | Inl e \<Rightarrow> Inl e)"

section \<open>Names of structured secrets\<close>

definition message_bus_scalar :: "pydict \<Rightarrow> string \<Rightarrow> string" where
  "message_bus_scalar message_bus key =
     (let v = dict_get_default message_bus key (PStr []) in if is_scalar v then strip (py_str v) else [])"

definition message_bus_secret :: "age_tools \<Rightarrow> string \<Rightarrow> pydict \<Rightarrow> pydict \<Rightarrow> string \<Rightarrow> string" where
  "message_bus_secret age identity message_bus secrets reference_key =
     (let secret_name = message_bus_scalar message_bus reference_key in
      if secret_name = [] \<or> identity = [] then []
      else case dict_get secrets secret_name of
        PDict spec \<Rightarrow>
          (case map_of (decrypt_items age identity [(secret_name, PDict spec)]) secret_name of None \<Rightarrow> [] | Some x \<Rightarrow> x)
      | _ \<Rightarrow> [])"

definition section_of :: "pydict \<Rightarrow> string \<Rightarrow> pydict" where
  "section_of data key = dict_or_empty (dict_get data key)"

definition message_bus_secret_names :: "pydict \<Rightarrow> string list" where
  "message_bus_secret_names data =
     filter (\<lambda>n. n \<noteq> [])
       (map (message_bus_scalar (section_of data ''message_bus''))
         [''bot_token_secret'', ''app_token_secret'', ''action_callback_secret''])"

text \<open>The names that the connections of a provider give under one key.\<close>

definition connection_field :: "pyval \<Rightarrow> string \<Rightarrow> string" where
  "connection_field connection key = strip (str_or_empty (dict_get (dict_or_empty connection) key))"

definition provider_secret_names :: "pydict \<Rightarrow> string \<Rightarrow> string \<Rightarrow> string list" where
  "provider_secret_names data provider key =
     filter (\<lambda>n. n \<noteq> [])
       (map (\<lambda>(_, c). connection_field c key)
         (filter (\<lambda>(_, c). is_dict c) (section_of (section_of data provider) ''connections'')))"

definition github_app_secret_names :: "pydict \<Rightarrow> string list" where
  "github_app_secret_names data = provider_secret_names data ''github'' ''private_key_secret''"

definition placeholder_names :: "pydict \<Rightarrow> string list" where
  "placeholder_names values =
     concat (map (\<lambda>(_, v). case v of
          PStr s \<Rightarrow> (case env_placeholder s of None \<Rightarrow> [] | Some name \<Rightarrow> [name])
        | _ \<Rightarrow> []) values)"

definition referenced_runtime_secret_names :: "pydict \<Rightarrow> string list" where
  "referenced_runtime_secret_names data =
     placeholder_names (section_of data ''runtime_env'')
     @ concat (map (\<lambda>(_, profile). case profile of
          PDict p \<Rightarrow>
            placeholder_names (filter (\<lambda>(k, _). k \<noteq> ''model_costs'')
              (case dict_get p ''runtime_env'' of PDict d \<Rightarrow> d | _ \<Rightarrow> p))
        | _ \<Rightarrow> []) (section_of data ''model_profiles''))"

definition structured_secret_names :: "pydict \<Rightarrow> string list" where
  "structured_secret_names data =
     message_bus_secret_names data @ github_app_secret_names data
     @ provider_secret_names data ''confluence'' ''token_secret''
     @ (case dict_get (section_of (section_of data ''knowledge'') ''embeddings'') ''api_key_secret'' of
          PStr k \<Rightarrow> filter (\<lambda>n. n \<noteq> [] \<and> n \<notin> set (referenced_runtime_secret_names data)) [strip k]
        | _ \<Rightarrow> [])"

section \<open>The environment of the services\<close>

definition knowledge_variables :: "pydict option \<Rightarrow> (string \<times> string) list \<Rightarrow> pydict" where
  "knowledge_variables values mapping =
     (case values of
        None \<Rightarrow> []
      | Some d \<Rightarrow> concat (map (\<lambda>(k, v). case map_of mapping k of None \<Rightarrow> [] | Some name \<Rightarrow> [(name, v)]) d))"

definition normalize_knowledge_values :: "platform_tools \<Rightarrow> environ \<Rightarrow> pydict \<Rightarrow> (environ \<times> string) result" where
  "normalize_knowledge_values pt environ data =
     (let knowledge = dict_get data ''knowledge'' in
      if knowledge = PNone then Inr ([], [])
      else case pt_validate_knowledge pt knowledge of
        None \<Rightarrow> Inl (Value_error ''Invalid knowledge configuration: use supported snake_case fields and values'')
      | Some config \<Rightarrow>
          (let values =
             dict_merge
               (dict_merge
                 (knowledge_variables (kg_embeddings config)
                    [(''base_url'', ''KNOWLEDGE_EMBEDDINGS_OPENAI_BASE_URL''), (''model'', ''KNOWLEDGE_EMBEDDINGS_OPENAI_MODEL''),
                     (''dimensions'', ''KNOWLEDGE_EMBEDDINGS_DIMENSIONS''), (''batch_size'', ''KNOWLEDGE_EMBEDDINGS_BATCH_SIZE''),
                     (''timeout_sec'', ''KNOWLEDGE_EMBEDDINGS_TIMEOUT_SEC'')])
                 (knowledge_variables (kg_rerank config)
                    [(''enabled'', ''KNOWLEDGE_RERANK_ENABLED''), (''base_url'', ''KNOWLEDGE_RERANK_BASE_URL''),
                     (''model'', ''KNOWLEDGE_RERANK_MODEL''), (''timeout_sec'', ''KNOWLEDGE_RERANK_TIMEOUT_SEC''),
                     (''candidates'', ''KNOWLEDGE_RERANK_CANDIDATES'')]))
               (case kg_require_grants config of
                  None \<Rightarrow> [] | Some b \<Rightarrow> [(''KNOWLEDGE_REQUIRE_EXPLICIT_SOURCE_GRANTS'', PBool b)]);
               secret_name =
                 (case kg_embeddings config of None \<Rightarrow> [] | Some e \<Rightarrow> str_or_empty (dict_get e ''api_key_secret''))
           in Inr (normalize_config_values environ values, secret_name)))"

text \<open>The generic secrets: those that no structured section names.\<close>

definition generic_secrets :: "pydict \<Rightarrow> pydict \<Rightarrow> pydict" where
  "generic_secrets data secrets = filter (\<lambda>(name, _). name \<notin> set (structured_secret_names data)) secrets"

definition api_key_env :: string where
  "api_key_env = ''KNOWLEDGE_EMBEDDINGS_OPENAI_API_KEY''"

definition add_embedding_key ::
    "age_tools \<Rightarrow> environ \<Rightarrow> string \<Rightarrow> string \<Rightarrow> pyval \<Rightarrow> environ \<Rightarrow> environ result" where
  "add_embedding_key age environ identity secret_name secrets env =
     (if secret_name = [] \<or> identity = [] \<or> map_of env api_key_env \<noteq> None
         \<or> (case map_of environ api_key_env of None \<Rightarrow> False | Some v \<Rightarrow> v \<noteq> [])
      then Inr env
      else case dict_get (dict_or_empty secrets) secret_name of
        PDict spec \<Rightarrow>
          (case dict_get spec ''encrypted'' of
             PStr e \<Rightarrow>
               (if strip e = []
                then Inl (Value_error ''knowledge.embeddings.api_key_secret requires an encrypted platform secret'')
                else case map_of (decrypt_items age identity [(secret_name, PDict spec)]) secret_name of
                  None \<Rightarrow> Inr env
                | Some key \<Rightarrow> Inr (AList.update api_key_env key env))
           | _ \<Rightarrow> Inl (Value_error ''knowledge.embeddings.api_key_secret requires an encrypted platform secret''))
      | _ \<Rightarrow> Inl (Value_error ''knowledge.embeddings.api_key_secret references a missing platform secret''))"

definition declared_secrets :: "pydict \<Rightarrow> pydict" where
  "declared_secrets data = dict_or_empty (dict_get_default data ''secrets'' (PDict []))"

definition service_env :: "age_tools \<Rightarrow> environ \<Rightarrow> string \<Rightarrow> pydict \<Rightarrow> environ \<Rightarrow> environ" where
  "service_env age environ identity data env_values =
     (let config = dict_get_default data ''config'' (PDict []);
          env = text_update env_values (normalize_config_values environ (dict_or_empty config))
      in if identity = [] then env
         else text_update env (decrypt_items age identity (generic_secrets data (declared_secrets data))))"

definition platform_env ::
    "platform_tools \<Rightarrow> age_tools \<Rightarrow> environ \<Rightarrow> string \<Rightarrow> pydict \<Rightarrow> environ result" where
  "platform_env pt age environ identity data =
     (if data = [] then Inr []
      else result_bind (normalize_knowledge_values pt environ data) (\<lambda>(env_values, secret_name).
        add_embedding_key age environ identity secret_name (dict_get_default data ''secrets'' (PDict []))
          (service_env age environ identity data env_values)))"

definition load_platform_env ::
    "platform_tools \<Rightarrow> age_tools \<Rightarrow> environ \<Rightarrow> string \<Rightarrow> string \<Rightarrow> environ result" where
  "load_platform_env pt age environ identity path =
     result_bind (read_platform_file (pt_files pt) environ path) (platform_env pt age environ identity)"

text \<open>The environment of the runtime containers; \<open>environment\<close> overrides the variables of the process.\<close>

definition runtime_env_of :: "environ \<Rightarrow> string \<Rightarrow> pydict \<Rightarrow> (string \<times> string option) list" where
  "runtime_env_of source selector data =
     (let runtime_values = dict_get_default data ''runtime_env'' (PDict []);
          chosen = strip (if selector \<noteq> [] then selector else str_or_empty (dict_get data ''default_model_profile''))
      in if truthy runtime_values \<and> \<not> is_dict runtime_values then []
         else
           let normalized = normalize_runtime_env_values source (dict_or_empty runtime_values)
           in if chosen = [] then normalized
              else foldl (\<lambda>d (k, v). AList.update k v d) normalized (resolve_model_runtime_env source data chosen))"

definition load_platform_runtime_env ::
    "config_files \<Rightarrow> environ \<Rightarrow> string \<Rightarrow> environ \<Rightarrow> string \<Rightarrow> (string \<times> string option) list result" where
  "load_platform_runtime_env fs environ selector environment path =
     result_map (\<lambda>data. if data = [] then [] else runtime_env_of (text_update environ environment) selector data)
       (read_platform_file fs environ path)"

section \<open>Other readers of the file\<close>

definition message_bus_of :: "age_tools \<Rightarrow> string \<Rightarrow> pydict \<Rightarrow> message_bus_config" where
  "message_bus_of age identity data =
     (case dict_get data ''message_bus'' of
        PDict message_bus \<Rightarrow>
          (let secrets = section_of data ''secrets'';
               secret = message_bus_secret age identity message_bus secrets
           in \<lparr>mb_provider = lower (message_bus_scalar message_bus ''provider''),
               mb_api_url = message_bus_scalar message_bus ''api_url'',
               mb_team_name = message_bus_scalar message_bus ''team_name'',
               mb_bot_token = secret ''bot_token_secret'',
               mb_app_token = secret ''app_token_secret'',
               mb_action_callback_secret = secret ''action_callback_secret''\<rparr>)
      | _ \<Rightarrow> default_message_bus)"

definition load_message_bus_config :: "config_files \<Rightarrow> age_tools \<Rightarrow> environ \<Rightarrow> string \<Rightarrow> string \<Rightarrow> message_bus_config result" where
  "load_message_bus_config fs age environ identity path =
     result_map (message_bus_of age identity) (read_platform_file fs environ path)"

record github_app_connection =
  gh_name :: string
  gh_web_base_url :: string
  gh_api_base_url :: string
  gh_app_id :: string
  gh_installation_id :: string
  gh_private_key :: string

definition github_connection :: "age_tools \<Rightarrow> string \<Rightarrow> pydict \<Rightarrow> string \<Rightarrow> pyval \<Rightarrow> github_app_connection" where
  "github_connection age identity secrets name raw =
     (let key_name = connection_field raw ''private_key_secret'';
          private_key =
            (if key_name = [] \<or> identity = [] then []
             else case dict_get secrets key_name of
               PDict spec \<Rightarrow>
                 (case map_of (decrypt_items age identity [(key_name, PDict spec)]) key_name of None \<Rightarrow> [] | Some x \<Rightarrow> x)
             | _ \<Rightarrow> [])
      in \<lparr>gh_name = name,
          gh_web_base_url = rstrip_char (CHR ''/'') (connection_field raw ''web_base_url''),
          gh_api_base_url = rstrip_char (CHR ''/'') (connection_field raw ''api_base_url''),
          gh_app_id = connection_field raw ''app_id'',
          gh_installation_id = connection_field raw ''installation_id'',
          gh_private_key = private_key\<rparr>)"

definition load_github_app_connections ::
    "config_files \<Rightarrow> age_tools \<Rightarrow> environ \<Rightarrow> string \<Rightarrow> string \<Rightarrow> (string \<times> github_app_connection) list result" where
  "load_github_app_connections fs age environ identity path =
     result_map
       (\<lambda>data. foldl (\<lambda>acc (raw_name, raw).
            let name = strip raw_name in
            if name = [] \<or> \<not> is_dict raw then acc
            else AList.update name (github_connection age identity (section_of data ''secrets'') name raw) acc) []
          (section_of (section_of data ''github'') ''connections''))
       (read_platform_file fs environ path)"

definition load_workflow_repo_github_connection :: "config_files \<Rightarrow> environ \<Rightarrow> string \<Rightarrow> string result" where
  "load_workflow_repo_github_connection fs environ path =
     result_map (\<lambda>data. connection_field (dict_get data ''github'') ''workflow_repo_connection'')
       (read_platform_file fs environ path)"

definition PLATFORM_GROUPS :: "string list" where
  "PLATFORM_GROUPS = [''platform-admin'', ''workflow-operator'', ''task-viewer'']"

definition group_names :: "pyval list \<Rightarrow> string set" where
  "group_names vs = set (filter (\<lambda>g. g \<noteq> []) (map (\<lambda>v. strip (py_str v)) (filter is_str vs)))"

definition mapped_groups :: "pydict \<Rightarrow> string list \<Rightarrow> string list" where
  "mapped_groups data external_groups =
     (let raw_mapping = section_of (section_of data ''identity'') ''group_mapping'';
          memberships = group_names (map PStr external_groups)
      in filter (\<lambda>g. case dict_get raw_mapping g of
                  PList configured \<Rightarrow> group_names configured \<inter> memberships \<noteq> {}
                | _ \<Rightarrow> False) PLATFORM_GROUPS)"

definition map_external_identity_groups :: "config_files \<Rightarrow> environ \<Rightarrow> string \<Rightarrow> string list \<Rightarrow> string list result" where
  "map_external_identity_groups fs environ path external_groups =
     result_map (\<lambda>data. mapped_groups data external_groups) (read_platform_file fs environ path)"

text \<open>The target environment and the loaded values.\<close>

definition apply_platform_env_defaults ::
    "platform_tools \<Rightarrow> age_tools \<Rightarrow> environ \<Rightarrow> string \<Rightarrow> string \<Rightarrow> environ \<Rightarrow> (environ \<times> environ) result" where
  "apply_platform_env_defaults pt age environ identity path target_env =
     result_map
       (\<lambda>loaded.
          (foldl (\<lambda>env (k, v). if map_of env k \<notin> {None, Some []} then env else AList.update k v env) target_env loaded,
           loaded))
       (load_platform_env pt age environ identity path)"

definition load_mcp_server_config :: "config_files \<Rightarrow> environ \<Rightarrow> bool \<Rightarrow> string \<Rightarrow> string \<Rightarrow> pyval result" where
  "load_mcp_server_config fs environ strict path server_id =
     result_map
       (\<lambda>data. case dict_get (section_of (section_of data ''mcps'') ''config'') server_id of
            PDict server \<Rightarrow> expand_env_placeholders environ (PDict server)
          | _ \<Rightarrow> PDict [])
       (if strict then load_platform_config fs (case map_of environ ''SAGE_RUN_ENV'' of None \<Rightarrow> [] | Some e \<Rightarrow> e) path
        else read_platform_file fs environ path)"

definition connector_instances :: "environ \<Rightarrow> pydict \<Rightarrow> pydict" where
  "connector_instances environ data =
     map (\<lambda>(k, v). (k, expand_env_placeholders environ v))
       (filter (\<lambda>(_, v). is_dict v) (section_of (section_of data ''connectors'') ''instances''))"

definition load_connector_instance :: "config_files \<Rightarrow> environ \<Rightarrow> string \<Rightarrow> string \<Rightarrow> pyval result" where
  "load_connector_instance fs environ path instance_id =
     result_map (\<lambda>data. dict_get_default (connector_instances environ data) instance_id (PDict []))
       (read_platform_file fs environ path)"

definition enabled_connector :: "environ \<Rightarrow> pydict \<Rightarrow> string \<Rightarrow> string \<times> pyval" where
  "enabled_connector environ data connector_type =
     (case dict_get (section_of data ''connectors'') ''enabled'' of
        PList enabled \<Rightarrow>
          (let instances = connector_instances environ data;
               matches = filter (\<lambda>(_, config). py_eq (dict_get (dict_or_empty config) ''type'') (PStr connector_type))
                 (concat (map (\<lambda>i. case map_of instances (py_str i) of None \<Rightarrow> [] | Some c \<Rightarrow> [(py_str i, c)]) enabled))
           in case matches of [m] \<Rightarrow> m | _ \<Rightarrow> ([], PDict []))
      | _ \<Rightarrow> ([], PDict []))"

definition load_enabled_connector_instance ::
    "config_files \<Rightarrow> environ \<Rightarrow> string \<Rightarrow> string \<Rightarrow> (string \<times> pyval) result" where
  "load_enabled_connector_instance fs environ path connector_type =
     result_map (\<lambda>data. enabled_connector environ data connector_type) (read_platform_file fs environ path)"

section \<open>What a decryption key adds\<close>

lemma add_embedding_key_other:
  "add_embedding_key age environ identity secret_name secrets env = Inr env' \<Longrightarrow> n \<noteq> api_key_env \<Longrightarrow>
     map_of env' n = map_of env n"
  by (auto simp: add_embedding_key_def split: if_splits pyval.splits option.splits)

lemma platform_env_other:
  assumes "platform_env pt age environ identity data = Inr env" "n \<noteq> api_key_env"
  shows "map_of env n =
     (if data = [] then None
      else case normalize_knowledge_values pt environ data of
        Inl _ \<Rightarrow> None
      | Inr (base, _) \<Rightarrow> map_of (service_env age environ identity data base) n)"
proof (cases "data = []")
  case False
  with assms(1) obtain base secret_name where "normalize_knowledge_values pt environ data = Inr (base, secret_name)"
      and "add_embedding_key age environ identity secret_name (dict_get_default data ''secrets'' (PDict []))
             (service_env age environ identity data base) = Inr env"
    by (auto simp: platform_env_def result_bind_Inr_iff)
  with False add_embedding_key_other [OF this(2) assms(2)] show ?thesis by simp
qed (use assms(1) in \<open>simp add: platform_env_def\<close>)

lemma service_env_other:
  assumes "n \<notin> fst ` set (generic_secrets data (declared_secrets data))"
  shows "map_of (service_env age environ identity data base) n = map_of (service_env age environ [] data base) n"
proof -
  let ?d = "decrypt_items age identity (generic_secrets data (declared_secrets data))"
  have "n \<notin> fst ` set ?d" using assms decrypt_items_keys by blast
  then have "map_of (rev ?d) n = None" by (simp add: map_of_eq_None_iff)
  then show ?thesis by (simp add: service_env_def map_of_text_update map_add_def Let_def)
qed

text \<open>
  The variables that the platform file gives a service with a key and without one differ only in the
  generic secrets and in the key of the embedding service: a secret that a structured section names (the
  message provider, GitHub, Confluence) never becomes a variable.
\<close>

theorem key_adds_generic_secrets:
  assumes "platform_env pt age environ identity data = Inr env" "platform_env pt age environ [] data = Inr plain"
    and "n \<noteq> api_key_env" "map_of env n \<noteq> map_of plain n"
  shows "n \<in> fst ` set (declared_secrets data) \<and> n \<notin> set (structured_secret_names data)"
proof -
  have "n \<in> fst ` set (generic_secrets data (declared_secrets data))"
    using assms(4) service_env_other [of n data age environ identity]
    by (auto simp: platform_env_other [OF assms(1,3)] platform_env_other [OF assms(2,3)]
          split: if_splits sum.splits)
  then show ?thesis by (auto simp: generic_secrets_def)
qed

end
