(* ===== verification/Session_Env.thy ===== *)
theory Session_Env
  imports Platform_Secrets
begin

text \<open>
  The environment of an agent session: its assembly by \<open>spawn_agent_session\<close> in
  \<open>session-manager/container_lifecycle.py\<close>, and the list of credentials that
  \<open>runtime/session_entrypoint.py\<close> hides from sandboxed commands inside the container.
\<close>

section \<open>Parts of the environment\<close>

definition agent_env_vars :: "pydict \<Rightarrow> environ" where
  "agent_env_vars agent_config =
     foldl (\<lambda>acc (k, v). if is_scalar v then AList.update k (py_str v) acc else acc) []
       (dict_or_empty (dict_get_default agent_config ''env'' (PDict [])))"

definition apply_runtime_env_overrides :: "environ \<Rightarrow> (string \<times> string option) list \<Rightarrow> environ" where
  "apply_runtime_env_overrides environment overrides =
     foldl (\<lambda>env (k, v). case v of None \<Rightarrow> AList.delete k env | Some x \<Rightarrow> AList.update k x env) environment overrides"

definition session_model_selector :: "pydict \<Rightarrow> string option" where
  "session_model_selector agent_config =
     (case dict_get_default agent_config ''session'' (PDict []) of
        PDict session_config \<Rightarrow>
          (case dict_get session_config ''model'' of
             PNone \<Rightarrow> None
           | model \<Rightarrow> (let selector = strip (py_str model) in if selector = [] then None else Some selector))
      | _ \<Rightarrow> None)"

definition opt_text :: "string option \<Rightarrow> string" where
  "opt_text s = (case s of None \<Rightarrow> [] | Some x \<Rightarrow> x)"

definition base_environment :: "settings \<Rightarrow> environ \<Rightarrow> task \<Rightarrow> pydict \<Rightarrow> pydict \<Rightarrow> environ" where
  "base_environment cfg platform_config_env task runtime session_config =
     (let metadata = t_metadata task;
          reminder = dict_or_empty (dict_get_default runtime ''ask_user_question_reminder'' (PDict []));
          team = py_or (dict_get metadata ''team_domain'')
                   (py_or (dict_get metadata ''team_name'') (PStr (mb_team_name (s_message_bus cfg))))
      in [(''TASK_ID'', uuid_str (t_id task)),
          (''TASK_PROMPT'', t_prompt task),
          (''TASK_WORKFLOW'', t_workflow task),
          (''MAX_TURNS'', py_str (dict_get_default session_config ''max_turns'' (PInt 50))),
          (''RUNTIME_TIMEOUT_SEC'', py_str (dict_get_default runtime ''runtime_timeout_sec'' (PInt 300))),
          (''OPERATOR_APPROVAL_TIMEOUT_SEC'', py_str (dict_get_default runtime ''approval_timeout_sec'' (PInt 3600))),
          (''CLARIFICATION_TIMEOUT_SEC'', py_str (dict_get_default runtime ''clarification_timeout_sec'' (PInt 3600))),
          (''ASK_USER_QUESTION_REMINDER_ENABLED'', lower (py_str (dict_get_default reminder ''enabled'' (PBool (reminder \<noteq> []))))),
          (''ASK_USER_QUESTION_REMINDER_MIN_TURNS'', py_str (dict_get_default reminder ''min_turns'' (PInt 10))),
          (''ASK_USER_QUESTION_REMINDER_TURN_RATIO'', py_str (dict_get_default reminder ''turn_budget_ratio'' (PFloat (7 / 10)))),
          (''ASK_USER_QUESTION_REMINDER_TIME_RATIO'', py_str (dict_get_default reminder ''time_budget_ratio'' (PFloat (3 / 4)))),
          (''ASK_USER_QUESTION_REMINDER_RECENT_QUESTION_TURN_WINDOW'',
             py_str (dict_get_default reminder ''recent_question_turn_window'' (PInt 8))),
          (''MESSAGE_CHANNEL'', opt_text (t_message_channel task)),
          (''MESSAGE_CHANNEL_ID'', str_or_empty (dict_get metadata ''channel_id'')),
          (''MESSAGE_THREAD_ID'', opt_text (t_message_thread task)),
          (''MESSAGE_TEAM_ID'', str_or_empty (dict_get metadata ''team_id'')),
          (''MESSAGE_TEAM_NAME'', str_or_empty team),
          (''CONTROL_PLANE_UI_URL'',
             (case map_of platform_config_env ''CONTROL_PLANE_UI_URL'' of None \<Rightarrow> s_control_plane_ui_url cfg | Some u \<Rightarrow> u)),
          (''EVENT_COLLECTOR_URL'', s_gateway_event_url cfg),
          (''GATEWAY_EVENT_URL'', s_gateway_event_url cfg),
          (''HINDSIGHT_URL'', s_hindsight_url (s_hindsight cfg))])"

definition has_plain_secret :: "pyval \<Rightarrow> bool" where
  "has_plain_secret secrets \<longleftrightarrow>
     (\<exists>spec \<in> set (map snd (dict_or_empty secrets)).
        is_dict spec \<and> starts_with ''ENC[plain,'' (str_or_empty (dict_get (dict_or_empty spec) ''encrypted'')))"

section \<open>The assembly\<close>

definition secret_names_var :: string where
  "secret_names_var = ''SAGE_RUN_SECRET_ENV_NAMES''"

definition agent_secrets :: "pydict \<Rightarrow> pyval" where
  "agent_secrets agent_config = dict_get_default agent_config ''secrets'' (PDict [])"

definition injected_agent_secrets :: "age_tools \<Rightarrow> string \<Rightarrow> pydict \<Rightarrow> environ result" where
  "injected_agent_secrets age identity agent_config =
     (if identity \<noteq> [] \<or> has_plain_secret (agent_secrets agent_config)
      then decrypt_agent_secrets age identity agent_config else Inr [])"

definition secret_env_names :: "pydict \<Rightarrow> connection list \<Rightarrow> string list" where
  "secret_env_names agent_config connections =
     sort (remdups (map fst (dict_or_empty (agent_secrets agent_config)) @ connection_secret_names connections))"

definition with_secrets :: "environ \<Rightarrow> environ \<Rightarrow> environ \<times> environ \<Rightarrow> string list \<Rightarrow> environ" where
  "with_secrets env decrypted connection_env names =
     AList.update secret_names_var (join '','' names)
       (text_update (text_update (text_update env decrypted) (fst connection_env)) (snd connection_env))"

text \<open>
  The variables of the container, from the platform variables, the runtime overrides and the merged
  platform configuration.
\<close>

definition session_environment ::
    "settings \<Rightarrow> age_tools \<Rightarrow> task \<Rightarrow> pydict \<Rightarrow> environ \<Rightarrow> (string \<times> string option) list \<Rightarrow> pydict \<Rightarrow> environ result" where
  "session_environment cfg age task agent_config platform_config_env overrides platform_config =
     result_bind (as_dict (dict_get_default agent_config ''runtime'' (PDict []))) (\<lambda>runtime.
     result_bind (as_dict (dict_get_default agent_config ''session'' (PDict []))) (\<lambda>session_config.
     (let env1 = apply_runtime_env_overrides (base_environment cfg platform_config_env task runtime session_config) overrides;
          env2 = text_update env1 (agent_env_vars agent_config)
      in result_bind (injected_agent_secrets age (s_age_identity cfg) agent_config) (\<lambda>decrypted.
         result_bind (resolve_workflow_connections platform_config (t_workflow task) agent_config) (\<lambda>connections.
         Inr (with_secrets env2 decrypted (connection_environment age (s_age_identity cfg) connections)
                (secret_env_names agent_config connections)))))))"

text \<open>The platform file of one session: its merged content, its variables and its runtime overrides.\<close>

definition spawn_environment ::
    "settings \<Rightarrow> platform_tools \<Rightarrow> age_tools \<Rightarrow> environ \<Rightarrow> task \<Rightarrow> pydict \<Rightarrow> string \<Rightarrow> environ result" where
  "spawn_environment cfg pt age environ task agent_config platform_file =
     result_bind (if platform_file = [] then Inr []
                  else load_platform_env pt age environ (s_age_identity cfg) platform_file) (\<lambda>platform_config_env.
     result_bind (if platform_file = [] then Inr []
                  else load_platform_runtime_env (pt_files pt) environ (opt_text (session_model_selector agent_config))
                         platform_config_env platform_file) (\<lambda>overrides.
     result_bind (load_platform_config (pt_files pt)
                    (case map_of environ ''SAGE_RUN_ENV'' of None \<Rightarrow> [] | Some e \<Rightarrow> e) platform_file) (\<lambda>platform_config.
     session_environment cfg age task agent_config platform_config_env overrides platform_config)))"

section \<open>Inside the container\<close>

definition CREDENTIAL_PLACEHOLDER_PREFIX :: string where
  "CREDENTIAL_PLACEHOLDER_PREFIX = ''EXAMPLE_''"

definition real_name :: "string \<Rightarrow> bool" where
  "real_name n \<longleftrightarrow> n \<noteq> [] \<and> \<not> starts_with CREDENTIAL_PLACEHOLDER_PREFIX n"

definition injected_secret_names :: "environ \<Rightarrow> string list" where
  "injected_secret_names environ =
     filter (\<lambda>n. n \<noteq> []) (map strip (split_char (CHR '','') (opt_text (map_of environ secret_names_var))))"

text \<open>The declared names; \<open>documents\<close> are the parsed \<open>agent.yaml\<close> and platform file, those that exist and can be read.\<close>

fun declared_names :: "pyval list \<Rightarrow> string list result" where
  "declared_names [] = Inr []"
| "declared_names (v # vs) =
     result_bind (as_dict (py_or v (PDict []))) (\<lambda>data.
     result_map (\<lambda>ns. filter real_name (map fst (dict_or_empty (dict_get_default data ''secrets'' (PDict [])))) @ ns)
       (declared_names vs))"

definition collect_secret_env_keys :: "string list \<Rightarrow> environ \<Rightarrow> pyval list \<Rightarrow> string list result" where
  "collect_secret_env_keys secret_env_keys environ documents =
     result_map (\<lambda>ns. filter real_name (secret_env_keys @ injected_secret_names environ) @ ns) (declared_names documents)"

text \<open>The authored entries with their mode, and \<open>deny\<close> for every other name.\<close>

definition authored_entries :: "pyval list \<Rightarrow> (string \<times> string) list" where
  "authored_entries entries =
     foldl (\<lambda>acc e. case dict_get (dict_or_empty e) ''name'' of
         PStr name \<Rightarrow>
           (if real_name name
            then AList.update name (case dict_get (dict_or_empty e) ''mode'' of PStr (c # m) \<Rightarrow> c # m | _ \<Rightarrow> ''deny'') acc
            else acc)
       | _ \<Rightarrow> acc) [] entries"

definition build_credential_envvars :: "string list \<Rightarrow> pyval list \<Rightarrow> (string \<times> string) list" where
  "build_credential_envvars discovered_names existing_entries =
     sort_key fst
       (foldl (\<lambda>acc n. if real_name n \<and> map_of acc n = None then AList.update n ''deny'' acc else acc)
          (authored_entries existing_entries) discovered_names)"

text \<open>
  The list that the settings file holds afterwards; a settings file without a \<open>sandbox\<close> mapping stays as
  it is.
\<close>

definition existing_envvars :: "pyval \<Rightarrow> pyval list" where
  "existing_envvars sandbox =
     (case dict_get (dict_or_empty (dict_get (dict_or_empty sandbox) ''credentials'')) ''envVars'' of
        PList vs \<Rightarrow> vs | _ \<Rightarrow> [])"

definition apply_secret_credential_denies ::
    "string list \<Rightarrow> environ \<Rightarrow> pyval list \<Rightarrow> pydict \<Rightarrow> (string \<times> string) list option result" where
  "apply_secret_credential_denies secret_env_keys environ documents claude_settings =
     (case dict_get claude_settings ''sandbox'' of
        PDict sandbox \<Rightarrow>
          result_map
            (\<lambda>discovered.
               let envvars = build_credential_envvars discovered (existing_envvars (PDict sandbox))
               in if envvars = [] then None else Some envvars)
            (collect_secret_env_keys secret_env_keys environ documents)
      | _ \<Rightarrow> Inr None)"

section \<open>The list of names survives its transport\<close>





lemma map_of_setdefaults:
  "map_of (foldl (\<lambda>acc n. if real_name n \<and> map_of acc n = None then AList.update n ''deny'' acc else acc) acc names) n =
     (case map_of acc n of
        Some m \<Rightarrow> Some m
      | None \<Rightarrow> if n \<in> set names \<and> real_name n then Some ''deny'' else None)"
  by (induction names arbitrary: acc) (auto split: option.splits)

lemma keys_of_build:
  "n \<in> fst ` set (build_credential_envvars discovered entries) \<longleftrightarrow>
     map_of (authored_entries entries) n \<noteq> None \<or> (n \<in> set discovered \<and> real_name n)"
proof -
  let ?e = "foldl (\<lambda>acc n. if real_name n \<and> map_of acc n = None then AList.update n ''deny'' acc else acc)
              (authored_entries entries) discovered"
  have "n \<in> fst ` set (build_credential_envvars discovered entries) \<longleftrightarrow> map_of ?e n \<noteq> None"
    by (simp add: build_credential_envvars_def map_of_eq_None_iff)
  then show ?thesis by (auto simp: map_of_setdefaults split: option.splits)
qed

section \<open>What depends on the decryption key\<close>

lemma apply_overrides_other:
  "k \<notin> fst ` set overrides \<Longrightarrow> map_of (apply_runtime_env_overrides env overrides) k = map_of env k"
proof (induction overrides arbitrary: env)
  case (Cons p overrides)
  obtain n v where p: "p = (n, v)" by fastforce
  let ?env = "case v of None \<Rightarrow> AList.delete n env | Some x \<Rightarrow> AList.update n x env"
  have "map_of ?env k = map_of env k" using Cons.prems by (auto simp: p delete_conv split: option.split)
  with Cons.IH [of ?env] Cons.prems show ?case by (simp add: apply_runtime_env_overrides_def p)
qed (simp add: apply_runtime_env_overrides_def)

lemma text_update_other: "n \<notin> fst ` set b \<Longrightarrow> map_of (text_update a b) n = map_of a n"
  by (simp add: map_of_text_update map_add_def map_of_eq_None_iff [THEN iffD2])

lemma text_update_cong:
  "map_of a n = map_of a' n \<Longrightarrow> map_of (text_update a b) n = map_of (text_update a' b) n"
  by (simp add: map_of_text_update map_add_def split: option.split)

lemma injected_agent_secrets_named:
  assumes "injected_agent_secrets age identity agent_config = Inr d"
  shows "fst ` set d \<subseteq> fst ` set (dict_or_empty (agent_secrets agent_config))"
proof -
  have "fst ` set d \<subseteq> fst ` set (dict_or_empty v)" if "decrypt_named_secrets age identity v = Inr d" for v
    using that decrypt_items_keys [of age identity]
    by (cases v) (auto simp: decrypt_named_secrets_def split: if_splits)
  with assms show ?thesis
    by (auto simp: injected_agent_secrets_def decrypt_agent_secrets_def agent_secrets_def split: if_splits)
qed

text \<open>The successful assembly, in one equation.\<close>

definition clear_environment ::
    "settings \<Rightarrow> task \<Rightarrow> pydict \<Rightarrow> environ \<Rightarrow> (string \<times> string option) list \<Rightarrow> pydict \<Rightarrow> pydict \<Rightarrow> environ" where
  "clear_environment cfg task agent_config penv overrides runtime session_config =
     text_update (apply_runtime_env_overrides (base_environment cfg penv task runtime session_config) overrides)
       (agent_env_vars agent_config)"

lemma session_environment_Inr:
  assumes "session_environment cfg age task agent_config penv overrides platform_config = Inr env"
    and "resolve_workflow_connections platform_config (t_workflow task) agent_config = Inr connections"
  obtains runtime session_config decrypted where
    "as_dict (dict_get_default agent_config ''runtime'' (PDict [])) = Inr runtime"
    "as_dict (dict_get_default agent_config ''session'' (PDict [])) = Inr session_config"
    "injected_agent_secrets age (s_age_identity cfg) agent_config = Inr decrypted"
    "env = with_secrets (clear_environment cfg task agent_config penv overrides runtime session_config) decrypted
       (connection_environment age (s_age_identity cfg) connections) (secret_env_names agent_config connections)"
  using assms by (auto simp: session_environment_def clear_environment_def result_bind_Inr_iff Let_def)

lemma map_of_with_secrets:
  assumes "n \<noteq> secret_names_var" "n \<notin> fst ` set decrypted" "n \<notin> fst ` set (snd conns)"
  shows "map_of (with_secrets env decrypted conns names) n = map_of (text_update env (fst conns)) n"
  using assms by (simp add: with_secrets_def text_update_other text_update_cong [of "text_update env decrypted" n env])

lemma secret_env_names_set:
  "set (secret_env_names agent_config connections) =
     fst ` set (dict_or_empty (agent_secrets agent_config)) \<union> set (connection_secret_names connections)"
  by (simp add: secret_env_names_def)





lemma session_environment_names:
  assumes "session_environment cfg age task agent_config penv overrides platform_config = Inr env"
    and "resolve_workflow_connections platform_config (t_workflow task) agent_config = Inr connections"
  shows "map_of env secret_names_var = Some (join '','' (secret_env_names agent_config connections))"
  by (rule session_environment_Inr [OF assms]) (simp add: with_secrets_def)


section \<open>Secrets are hidden from sandboxed commands\<close>


definition demo_age :: age_tools where
  "demo_age = \<lparr>at_is_file = (\<lambda>_. False), at_read_text = (\<lambda>p. Inl (Os_error p)), at_b64decode = Some,
     at_decrypt = (\<lambda>ident c. Some (ident @ c)), at_encrypt = (\<lambda>key text. Inr text), at_public_key = Some\<rparr>"













definition demo_claude_settings :: pydict where
  "demo_claude_settings = [(''sandbox'', PDict [(''enabled'', PBool True)])]"




section \<open>Placeholders of model profiles\<close>

lemma env_alias_id [simp]: "env_alias k = k"
  by (simp add: env_alias_def MODEL_PROFILE_ENV_ALIASES_def)

lemma distinct_runtime_fold:
  "distinct (map fst acc) \<Longrightarrow>
     distinct (map fst (foldl (\<lambda>acc (k, v).
         if v = PNone then AList.update (env_alias k) None acc
         else if is_scalar v then AList.update (env_alias k) (Some (stringify_env_value env v)) acc
         else acc) acc values))"
  by (induction "values" arbitrary: acc) (auto simp: distinct_keys_update split: prod.splits)

lemma distinct_normalize_runtime: "distinct (map fst (normalize_runtime_env_values env values))"
  unfolding normalize_runtime_env_values_def by (rule distinct_runtime_fold) simp

lemma map_of_normalize_runtime:
  assumes "distinct (map fst values)" "map_of values k = Some v" "is_scalar v"
  shows "map_of (normalize_runtime_env_values env values) k = Some (Some (stringify_env_value env v))"
proof -
  let ?step = "\<lambda>acc (k, v).
     if v = PNone then AList.update (env_alias k) None acc
     else if is_scalar v then AList.update (env_alias k) (Some (stringify_env_value env v)) acc else acc"
  have other: "map_of (foldl ?step acc xs) k = map_of acc k" if "k \<notin> fst ` set xs" for acc xs
    using that by (induction xs arbitrary: acc) (auto split: prod.splits)
  have "map_of (foldl ?step acc values) k = Some (Some (stringify_env_value env v))" for acc
    using assms
  proof (induction "values" arbitrary: acc)
    case (Cons p xs)
    obtain k' v' where p: "p = (k', v')" by fastforce
    show ?case
    proof (cases "k' = k")
      case True
      with Cons.prems have "v' = v" "k \<notin> fst ` set xs" by (auto simp: p)
      moreover have "v \<noteq> PNone" using Cons.prems(3) by auto
      ultimately show ?thesis using Cons.prems(3) True other [of xs] by (simp add: p)
    next
      case False
      with Cons show ?thesis by (simp add: p)
    qed
  qed simp
  then show ?thesis by (simp add: normalize_runtime_env_values_def)
qed

lemma apply_overrides_lookup:
  assumes "distinct (map fst overrides)" "map_of overrides k = Some (Some x)"
  shows "map_of (apply_runtime_env_overrides env overrides) k = Some x"
  using assms
proof (induction overrides arbitrary: env)
  case (Cons p overrides)
  obtain n v where p: "p = (n, v)" by fastforce
  show ?case
  proof (cases "n = k")
    case True
    with Cons.prems have "v = Some x" "k \<notin> fst ` set overrides" by (auto simp: p)
    with True apply_overrides_other [of k overrides] show ?thesis by (simp add: apply_runtime_env_overrides_def p)
  next
    case False
    with Cons show ?thesis by (simp add: apply_runtime_env_overrides_def p)
  qed
qed simp

lemma update_fold_lookup:
  "distinct (map fst b) \<Longrightarrow>
     map_of (foldl (\<lambda>d (k, v). AList.update k v d) a b) k = (case map_of b k of None \<Rightarrow> map_of a k | Some v \<Rightarrow> Some v)"
proof (induction b arbitrary: a)
  case (Cons p b)
  obtain k' v where p: "p = (k', v)" by fastforce
  with Cons.prems have "map_of b k' = None" "distinct (map fst b)" by (auto simp: map_of_eq_None_iff)
  with Cons.IH show ?case by (auto simp: p split: option.split)
qed simp

lemma distinct_update_fold:
  "distinct (map fst a) \<Longrightarrow> distinct (map fst (foldl (\<lambda>d (k, v). AList.update k v d) a b))"
  by (induction b arbitrary: a) (auto simp: distinct_keys_update split: prod.splits)

lemma distinct_resolve_model: "distinct (map fst (resolve_model_runtime_env env data selector))"
  by (auto simp: resolve_model_runtime_env_def direct_model_override_def Let_def distinct_keys_update
        distinct_normalize_runtime split: pyval.split)

lemma distinct_runtime_env_of: "distinct (map fst (runtime_env_of source selector data))"
  by (auto simp: runtime_env_of_def Let_def distinct_normalize_runtime intro!: distinct_update_fold)

lemma profile_variable:
  assumes "dict_get (section_of data ''model_profiles'') selector = PDict profile" "distinct (map fst profile)"
    and "\<not> is_dict (dict_get profile ''runtime_env'')" "map_of profile k = Some v" "is_scalar v"
    and "k \<noteq> ''model_costs''" "k \<noteq> ''MODEL_COSTS_JSON''"
  shows "map_of (resolve_model_runtime_env source data selector) k = Some (Some (stringify_env_value source v))"
proof -
  let ?vals = "filter (\<lambda>(k, _). k \<noteq> ''model_costs'') profile"
  have "map_of ?vals k = Some v" "distinct (map fst ?vals)"
    using assms(2,4,6) by (auto simp: map_of_eq_Some_iff distinct_map_filter)
  then have "map_of (normalize_runtime_env_values source ?vals) k = Some (Some (stringify_env_value source v))"
    using assms(5) by (intro map_of_normalize_runtime)
  moreover have "dict_get (dict_or_empty (dict_get_default data ''model_profiles'' (PDict []))) selector = PDict profile"
    using assms(1) by (simp add: section_of_def dict_get_def [of data] dict_get_default_def split: option.splits)
  ultimately show ?thesis using assms(3,7)
    by (auto simp: resolve_model_runtime_env_def Let_def split: pyval.splits)
qed

lemma map_of_rev_distinct: "distinct (map fst xs) \<Longrightarrow> map_of (rev xs) k = map_of xs k"
  using map_of_inject_set [of "rev xs" xs] by (simp add: rev_map [symmetric])

lemma distinct_text_update: "distinct (map fst a) \<Longrightarrow> distinct (map fst (text_update a b))"
  unfolding text_update_def by (rule distinct_update_fold)

lemma distinct_decrypt_items: "distinct (map fst (decrypt_items age identity d))"
proof -
  have "distinct (map fst acc) \<Longrightarrow> distinct (map fst (foldl (\<lambda>acc (name, spec).
         case decrypt_entry age identity spec of None \<Rightarrow> acc | Some x \<Rightarrow> AList.update name x acc) acc d))" for acc
    by (induction d arbitrary: acc) (auto simp: distinct_keys_update split: prod.splits option.split)
  then show ?thesis by (simp add: decrypt_items_def)
qed

lemma distinct_normalize_config: "distinct (map fst (normalize_config_values env values))"
proof -
  have "distinct (map fst acc) \<Longrightarrow> distinct (map fst (foldl (\<lambda>acc (k, v).
         if is_scalar v then AList.update k (stringify_env_value env v) acc else acc) acc values))" for acc
    by (induction "values" arbitrary: acc) (auto simp: distinct_keys_update split: prod.splits)
  then show ?thesis by (simp add: normalize_config_values_def)
qed

lemma distinct_add_embedding_key:
  "add_embedding_key age environ identity secret_name secrets env = Inr env' \<Longrightarrow> distinct (map fst env) \<Longrightarrow> distinct (map fst env')"
  by (auto simp: add_embedding_key_def distinct_keys_update split: if_splits pyval.splits option.splits)

lemma distinct_platform_env:
  assumes "platform_env pt age environ identity data = Inr env"
  shows "distinct (map fst env)"
proof (cases "data = []")
  case False
  with assms obtain base secret_name where n: "normalize_knowledge_values pt environ data = Inr (base, secret_name)"
      and e: "add_embedding_key age environ identity secret_name (dict_get_default data ''secrets'' (PDict []))
             (service_env age environ identity data base) = Inr env"
    by (auto simp: platform_env_def result_bind_Inr_iff)
  have "distinct (map fst base)"
    using n by (auto simp: normalize_knowledge_values_def distinct_normalize_config Let_def split: if_splits option.splits)
  then have "distinct (map fst (service_env age environ identity data base))"
    by (auto simp: service_env_def Let_def intro!: distinct_text_update)
  with distinct_add_embedding_key [OF e] show ?thesis by blast
qed (use assms in \<open>simp add: platform_env_def\<close>)

text \<open>A generic secret is a variable of the platform with its plaintext.\<close>

lemma platform_env_generic:
  assumes "platform_env pt age environ identity data = Inr env" "identity \<noteq> []" "distinct (map fst (declared_secrets data))"
    and "map_of (declared_secrets data) n = Some spec" "decrypt_entry age identity spec = Some x"
    and "n \<notin> set (structured_secret_names data)" "n \<noteq> api_key_env"
  shows "map_of env n = Some x"
proof -
  have ne: "data \<noteq> []" using assms(4) by (auto simp: declared_secrets_def)
  then obtain base secret_name where n: "normalize_knowledge_values pt environ data = Inr (base, secret_name)"
    using assms(1) by (auto simp: platform_env_def result_bind_Inr_iff)
  let ?g = "generic_secrets data (declared_secrets data)"
  have "distinct (map fst ?g)" "map_of ?g n = Some spec"
    using assms(3,4,6) by (auto simp: generic_secrets_def map_of_eq_Some_iff distinct_map_filter)
  then have "map_of (decrypt_items age identity ?g) n = Some x"
    by (simp add: map_of_decrypt_items assms(5))
  then have "map_of (service_env age environ identity data base) n = Some x"
    by (simp add: service_env_def Let_def assms(2) map_of_text_update map_add_def
          map_of_rev_distinct [OF distinct_decrypt_items])
  then show ?thesis by (simp add: platform_env_other [OF assms(1,7)] ne n)
qed

lemma session_environment_override:
  assumes "session_environment cfg age task agent_config penv overrides platform_config = Inr env"
    and "resolve_workflow_connections platform_config (t_workflow task) agent_config = Inr connections"
    and "distinct (map fst overrides)" "map_of overrides k = Some (Some x)"
    and "k \<noteq> secret_names_var" "k \<notin> fst ` set (agent_env_vars agent_config)"
    and "k \<notin> set (secret_env_names agent_config connections)"
    and "k \<notin> fst ` set (fst (connection_environment age (s_age_identity cfg) connections))"
  shows "map_of env k = Some x"
proof (rule session_environment_Inr [OF assms(1,2)])
  fix runtime session_config decrypted
  assume d: "injected_agent_secrets age (s_age_identity cfg) agent_config = Inr decrypted"
    and env: "env = with_secrets (clear_environment cfg task agent_config penv overrides runtime session_config) decrypted
       (connection_environment age (s_age_identity cfg) connections) (secret_env_names agent_config connections)"
  have "k \<notin> fst ` set decrypted" using injected_agent_secrets_named [OF d] assms(7) by (auto simp: secret_env_names_set)
  moreover have "k \<notin> fst ` set (snd (connection_environment age (s_age_identity cfg) connections))"
    using connection_secrets_named assms(7) by (fastforce simp: secret_env_names_set)
  ultimately show ?thesis
    by (simp add: env map_of_with_secrets assms(5) text_update_other assms(6,8) clear_environment_def
          apply_overrides_lookup [OF assms(3,4)])
qed

lemma runtime_env_of_profile:
  assumes "is_dict (dict_get_default data ''runtime_env'' (PDict []))" "strip selector = selector" "selector \<noteq> []"
    and "map_of (resolve_model_runtime_env source data selector) k = Some v"
  shows "map_of (runtime_env_of source selector data) k = Some v"
  using assms by (simp add: runtime_env_of_def Let_def update_fold_lookup distinct_resolve_model)

lemma session_model_selector_strip:
  "session_model_selector agent_config = Some p \<Longrightarrow> strip p = p \<and> p \<noteq> []"
  by (auto simp: session_model_selector_def Let_def split: pyval.splits if_splits)

text \<open>
  What the list of hidden credentials misses: a placeholder in the model profile of the workflow puts the
  plaintext of a platform secret under the variable of the profile, and that variable is not named, unless
  an agent or connection secret has the same name.
\<close>

theorem profile_placeholder_not_listed:
  assumes spawn: "spawn_environment cfg pt age environ task agent_config platform_file = Inr env" "platform_file \<noteq> []"
    and read: "read_platform_file (pt_files pt) environ platform_file = Inr data"
    and conns: "resolve_workflow_connections data (t_workflow task) agent_config = Inr connections"
    and secret: "distinct (map fst (declared_secrets data))" "map_of (declared_secrets data) n = Some spec"
      "decrypt_entry age (s_age_identity cfg) spec = Some x" "s_age_identity cfg \<noteq> []"
      "n \<notin> set (structured_secret_names data)" "n \<noteq> api_key_env"
    and profile: "session_model_selector agent_config = Some p"
      "dict_get (section_of data ''model_profiles'') p = PDict profile" "distinct (map fst profile)"
      "\<not> is_dict (dict_get profile ''runtime_env'')" "is_dict (dict_get_default data ''runtime_env'' (PDict []))"
    and placeholder: "map_of profile k = Some (PStr v)" "env_placeholder v = Some n"
      "k \<notin> {''model_costs'', ''MODEL_COSTS_JSON'', secret_names_var}"
    and unset: "k \<notin> fst ` set (agent_env_vars agent_config)" "k \<notin> set (secret_env_names agent_config connections)"
      "k \<notin> fst ` set (fst (connection_environment age (s_age_identity cfg) connections))"
  shows "map_of env k = Some x
         \<and> map_of env secret_names_var = Some (join '','' (secret_env_names agent_config connections))"
proof -
  obtain penv overrides pc where penv: "load_platform_env pt age environ (s_age_identity cfg) platform_file = Inr penv"
      and over: "load_platform_runtime_env (pt_files pt) environ (opt_text (session_model_selector agent_config)) penv platform_file = Inr overrides"
      and pc: "load_platform_config (pt_files pt) (case map_of environ ''SAGE_RUN_ENV'' of None \<Rightarrow> [] | Some e \<Rightarrow> e) platform_file = Inr pc"
      and env: "session_environment cfg age task agent_config penv overrides pc = Inr env"
    using spawn by (auto simp: spawn_environment_def result_bind_Inr_iff)
  have "pc = data" using read pc by (simp add: read_platform_file_def)
  have "data \<noteq> []" using secret(2) by (auto simp: declared_secrets_def)
  have penv': "platform_env pt age environ (s_age_identity cfg) data = Inr penv"
    using penv by (simp add: load_platform_env_def read)
  have "map_of penv n = Some x"
    by (rule platform_env_generic [OF penv' secret(4,1,2,3,5,6)])
  then have source: "map_of (text_update environ penv) n = Some x"
    by (simp add: map_of_text_update map_add_def map_of_rev_distinct distinct_platform_env [OF penv'])
  have sel: "strip p = p" "p \<noteq> []" using session_model_selector_strip [OF profile(1)] by auto
  have overrides: "overrides = runtime_env_of (text_update environ penv) p data"
    using over \<open>data \<noteq> []\<close> by (simp add: load_platform_runtime_env_def read profile(1) opt_text_def)
  have "map_of (resolve_model_runtime_env (text_update environ penv) data p) k
          = Some (Some (stringify_env_value (text_update environ penv) (PStr v)))"
    by (rule profile_variable [OF profile(2,3,4) placeholder(1)]) (use placeholder(3) in auto)
  then have k: "map_of overrides k = Some (Some x)"
    unfolding overrides by (intro runtime_env_of_profile [OF profile(5) sel])
      (simp add: stringify_env_value_def placeholder(2) source)
  have "distinct (map fst overrides)" by (simp add: overrides distinct_runtime_env_of)
  moreover note env [unfolded \<open>pc = data\<close>]
  ultimately show ?thesis
    using session_environment_override [OF _ conns _ k _ unset(1,2,3)] session_environment_names [OF _ conns] placeholder(3)
    by simp
qed

definition demo_platform :: pydict where
  "demo_platform =
     [(''runtime_env'', PDict [(''DISABLE_TELEMETRY'', PBool True)]),
      (''model_profiles'', PDict [(''local'', PDict [(''ANTHROPIC_AUTH_TOKEN'', PStr ''${LLM_API_KEY}'')])]),
      (''secrets'', PDict [(''LLM_API_KEY'', PDict [(''encrypted'', PStr ''ENC[age,key]'')])])]"

definition demo_platform_tools :: platform_tools where
  "demo_platform_tools =
     \<lparr>pt_files = \<lparr>cf_exists = (\<lambda>p. p = ''platform.yaml''), cf_parsed = (\<lambda>_. Inr (PDict demo_platform))\<rparr>,
      pt_validate_knowledge = (\<lambda>_. None)\<rparr>"

definition profile_agent :: pydict where
  "profile_agent = [(''session'', PDict [(''model'', PStr ''local'')])]"

definition profile_spawn :: "environ result" where
  "profile_spawn = spawn_environment (default_settings\<lparr>s_age_identity := ''K1''\<rparr>) demo_platform_tools demo_age []
     (new_task 0 ''triage'' ''look'' 100) profile_agent ''platform.yaml''"

definition profile_env :: environ where
  "profile_env = (case profile_spawn of Inr env \<Rightarrow> env | Inl _ \<Rightarrow> [])"

lemma demo_platform_loaded:
  "load_platform_config (pt_files demo_platform_tools) [] ''platform.yaml'' = Inr demo_platform"
  "read_platform_file (pt_files demo_platform_tools) [] ''platform.yaml'' = Inr demo_platform"
  by code_simp+

lemma demo_platform_env:
  "load_platform_env demo_platform_tools demo_age [] ''K1'' ''platform.yaml'' = Inr [(''LLM_API_KEY'', ''K1key'')]"
  by code_simp

lemma demo_runtime_env:
  "load_platform_runtime_env (pt_files demo_platform_tools) [] ''local'' [(''LLM_API_KEY'', ''K1key'')] ''platform.yaml''
     = Inr [(''DISABLE_TELEMETRY'', Some ''True''), (''ANTHROPIC_AUTH_TOKEN'', Some ''K1key'')]"
  by code_simp

lemma profile_resolved: "resolve_workflow_connections demo_platform ''triage'' profile_agent = Inr []"
  by code_simp

lemma profile_selector: "session_model_selector profile_agent = Some ''local''"
  by code_simp

lemma profile_spawn_env:
  "profile_spawn = Inr (with_secrets
     (clear_environment (default_settings\<lparr>s_age_identity := ''K1''\<rparr>) (new_task 0 ''triage'' ''look'' 100) profile_agent
        [(''LLM_API_KEY'', ''K1key'')] [(''DISABLE_TELEMETRY'', Some ''True''), (''ANTHROPIC_AUTH_TOKEN'', Some ''K1key'')]
        [] [(''model'', PStr ''local'')])
     [] (connection_environment demo_age ''K1'' []) [])"
proof -
  have "as_dict (dict_get_default profile_agent ''runtime'' (PDict [])) = Inr []"
       "as_dict (dict_get_default profile_agent ''session'' (PDict [])) = Inr [(''model'', PStr ''local'')]"
       "secret_env_names profile_agent [] = []"
       "injected_agent_secrets demo_age ''K1'' profile_agent = Inr []"
    by (simp_all add: profile_agent_def secret_env_names_def agent_secrets_def connection_secret_names_def
          injected_agent_secrets_def decrypt_agent_secrets_def decrypt_named_secrets_def)
  moreover have "t_workflow (new_task 0 ''triage'' ''look'' 100) = ''triage''" by (simp add: new_task_def)
  ultimately show ?thesis
    by (simp add: profile_spawn_def spawn_environment_def demo_platform_env profile_selector opt_text_def demo_runtime_env
          demo_platform_loaded session_environment_def profile_resolved clear_environment_def del: dict_get_default_Cons)
qed

lemma profile_spawn_ok: "profile_spawn = Inr profile_env"
  by (simp add: profile_env_def profile_spawn_env)

lemma profile_denies:
  "apply_secret_credential_denies [] profile_env [PDict profile_agent, PDict demo_platform] demo_claude_settings
     = Inr (Some [(''LLM_API_KEY'', ''deny'')])"
proof -
  have "real_name ''LLM_API_KEY''" by code_simp
  moreover have "injected_secret_names profile_env = []"
    by (simp add: injected_secret_names_def profile_env_def profile_spawn_env with_secrets_def opt_text_def)
  ultimately show ?thesis
    by (simp add: apply_secret_credential_denies_def demo_claude_settings_def collect_secret_env_keys_def demo_platform_def
          profile_agent_def build_credential_envvars_def existing_envvars_def authored_entries_def py_or_def)
qed

theorem profile_placeholder_not_listed_witness:
  "(map_of profile_env ''ANTHROPIC_AUTH_TOKEN'' = Some ''K1key''
    \<and> map_of profile_env secret_names_var = Some (join '','' (secret_env_names profile_agent [])))
   \<and> apply_secret_credential_denies [] profile_env [PDict profile_agent, PDict demo_platform] demo_claude_settings
       = Inr (Some [(''LLM_API_KEY'', ''deny'')])"
proof (rule conjI, rule profile_placeholder_not_listed
    [where cfg = "default_settings\<lparr>s_age_identity := ''K1''\<rparr>" and pt = demo_platform_tools and age = demo_age and environ = "[]"
       and task = "new_task 0 ''triage'' ''look'' 100" and platform_file = "''platform.yaml''" and data = demo_platform
       and n = "''LLM_API_KEY''" and spec = "PDict [(''encrypted'', PStr ''ENC[age,key]'')]" and p = "''local''"
       and profile = "[(''ANTHROPIC_AUTH_TOKEN'', PStr ''${LLM_API_KEY}'')]" and v = "''${LLM_API_KEY}''"])
  show "spawn_environment (default_settings\<lparr>s_age_identity := ''K1''\<rparr>) demo_platform_tools demo_age []
      (new_task 0 ''triage'' ''look'' 100) profile_agent ''platform.yaml'' = Inr profile_env"
    using profile_spawn_ok by (simp add: profile_spawn_def)
  show "resolve_workflow_connections demo_platform (t_workflow (new_task 0 ''triage'' ''look'' 100)) profile_agent = Inr []"
    by (simp add: new_task_def profile_resolved)
  show "decrypt_entry demo_age (s_age_identity (default_settings\<lparr>s_age_identity := ''K1''\<rparr>))
      (PDict [(''encrypted'', PStr ''ENC[age,key]'')]) = Some ''K1key''"
    by simp code_simp
  show "''LLM_API_KEY'' \<notin> set (structured_secret_names demo_platform)" "env_placeholder ''${LLM_API_KEY}'' = Some ''LLM_API_KEY''"
       "''LLM_API_KEY'' \<noteq> api_key_env" "''ANTHROPIC_AUTH_TOKEN'' \<notin> {''model_costs'', ''MODEL_COSTS_JSON'', secret_names_var}"
    by code_simp+
  show "''ANTHROPIC_AUTH_TOKEN'' \<notin> fst ` set (agent_env_vars profile_agent)"
       "''ANTHROPIC_AUTH_TOKEN'' \<notin> set (secret_env_names profile_agent [])"
       "''ANTHROPIC_AUTH_TOKEN'' \<notin> fst ` set (fst (connection_environment demo_age
          (s_age_identity (default_settings\<lparr>s_age_identity := ''K1''\<rparr>)) []))"
    by (simp_all add: agent_env_vars_def profile_agent_def secret_env_names_def agent_secrets_def
          connection_secret_names_def connection_environment_def)
  show "apply_secret_credential_denies [] profile_env [PDict profile_agent, PDict demo_platform] demo_claude_settings
      = Inr (Some [(''LLM_API_KEY'', ''deny'')])"
    by (rule profile_denies)
qed (simp_all add: demo_platform_loaded profile_selector demo_platform_def declared_secrets_def section_of_def)

end
