(* ===== verification/Container_Exit.thy ===== *)
theory Container_Exit
  imports Heartbeat_Monitor
begin

text \<open>
  The exit of a runtime: \<open>monitor_containers\<close> of \<open>session-manager/container_lifecycle.py\<close> closes the task
  and its session from the exit code and the lifecycle events, and posts the final message.  The launcher's
  list of runtimes is an argument; removing the finished Job is not modelled.
\<close>

section \<open>Runtimes and their events\<close>

record runtime_status =
  rs_id :: string
  rs_short_id :: string
  rs_task_id :: string
  rs_workflow :: string
  rs_status :: string
  rs_exit_code :: "int option"
  rs_logs :: string

definition has_live_runtime :: "runtime_status list \<Rightarrow> string \<Rightarrow> string option \<Rightarrow> bool" where
  "has_live_runtime statuses task_id container_id \<longleftrightarrow>
     (\<exists>r \<in> set statuses. rs_task_id r = task_id
        \<and> (case container_id of None \<Rightarrow> True | Some c \<Rightarrow> c = [] \<or> rs_id r = c) \<and> rs_status r = ''running'')"

text \<open>\<open>max(matches, key=timestamp)\<close>: the first of the latest.\<close>

fun latest_of :: "session_event \<Rightarrow> session_event list \<Rightarrow> session_event" where
  "latest_of best [] = best"
| "latest_of best (e # es) = latest_of (if se_timestamp best < se_timestamp e then e else best) es"

definition latest_event :: "session_event list \<Rightarrow> string list \<Rightarrow> session_event option" where
  "latest_event events event_types =
     (case filter (\<lambda>e. se_event_type e \<in> set event_types) events of
        [] \<Rightarrow> None | e # es \<Rightarrow> Some (latest_of e es))"

definition lifecycle_events :: "db \<Rightarrow> uuid \<Rightarrow> session_event list" where
  "lifecycle_events d i =
     order_rows False se_timestamp
       (select_where (\<lambda>e. se_task_id e = Some i
          \<and> se_event_type e \<in> {''session_complete'', ''session_error'', ''session_timeout''}) (session_events d))"

text \<open>\<open>event and event.data\<close>: the data of the event, when there is any.\<close>

definition event_data :: "session_event option \<Rightarrow> pydict option" where
  "event_data e = (case e of None \<Rightarrow> None | Some x \<Rightarrow> (case se_data x of None \<Rightarrow> None | Some d \<Rightarrow> if d = [] then None else Some d))"

definition lifecycle_cost_usd :: "pydict \<Rightarrow> rat option" where
  "lifecycle_cost_usd lifecycle_data =
     (case dict_get lifecycle_data ''total_cost_usd'' of
        PInt i \<Rightarrow> if i < 0 then None else Some (of_int i)
      | PFloat q \<Rightarrow> if q < 0 then None else Some q
      | _ \<Rightarrow> None)"

definition count_field :: "pydict \<Rightarrow> string \<Rightarrow> int result" where
  "count_field data key = py_int (py_or (dict_get_default data key (PInt 0)) (PInt 0))"

record exit_report =
  xr_status :: task_status
  xr_error :: "string option"
  xr_data :: "pydict option"
  xr_input :: int
  xr_output :: int
  xr_turns :: int
  xr_cost :: "rat option"

definition exit_code_of :: "runtime_status \<Rightarrow> int" where
  "exit_code_of r = (case rs_exit_code r of None \<Rightarrow> -1 | Some c \<Rightarrow> c)"

definition exit_error :: "runtime_status \<Rightarrow> string option" where
  "exit_error r =
     (if exit_code_of r = 0 then None
      else Some (''Container exited with code '' @ int_str (exit_code_of r) @ newline @ take_last 500 (rs_logs r)))"

definition exit_status :: "runtime_status \<Rightarrow> task_status" where
  "exit_status r = (if exit_code_of r = 0 then Succeeded else Failed)"

text \<open>What the exit code and the lifecycle events say of the session.\<close>

definition exit_report_of :: "db \<Rightarrow> uuid \<Rightarrow> runtime_status \<Rightarrow> exit_report result" where
  "exit_report_of d i r =
     (let events = lifecycle_events d i;
          completion_event = latest_event events [''session_complete''];
          error_event = latest_event events [''session_error'', ''session_timeout''];
          data = (case event_data completion_event of Some x \<Rightarrow> Some x | None \<Rightarrow> event_data error_event);
          fields = (case data of None \<Rightarrow> [] | Some x \<Rightarrow> x);
          (status, error) =
            (case (error_event, event_data error_event) of
               (Some e, Some x) \<Rightarrow>
                 (if se_event_type e = ''session_timeout'' then Timed_out else Failed,
                  Some (py_str (py_or (dict_get x ''error'') (PStr (se_event_type e)))))
             | _ \<Rightarrow> (exit_status r, exit_error r))
      in result_bind (count_field fields ''input_tokens'') (\<lambda>input_tok.
         result_bind (count_field fields ''output_tokens'') (\<lambda>output_tok.
         result_map (\<lambda>turns.
            \<lparr>xr_status = status, xr_error = error, xr_data = data, xr_input = input_tok, xr_output = output_tok,
             xr_turns = turns, xr_cost = (case data of None \<Rightarrow> None | Some x \<Rightarrow> lifecycle_cost_usd x)\<rparr>)
           (count_field fields ''turns''))))"

section \<open>Closing the task\<close>

definition first_session :: "db \<Rightarrow> uuid \<Rightarrow> sess option" where
  "first_session d i = find_row (\<lambda>s. ss_task_id s = Some i) (sessions d)"

definition session_duration :: "datetime \<Rightarrow> sess option \<Rightarrow> seconds option" where
  "session_duration ended db_session =
     (case db_session of None \<Rightarrow> None | Some s \<Rightarrow> map_option (\<lambda>started. ended - started) (ss_started s))"

definition update_task_sessions :: "uuid \<Rightarrow> (sess \<Rightarrow> sess) \<Rightarrow> db \<Rightarrow> db" where
  "update_task_sessions i f d = d\<lparr>sessions := update_where (\<lambda>s. ss_task_id s = Some i) f (sessions d)\<rparr>"

definition duration_value :: "seconds option \<Rightarrow> pyval" where
  "duration_value x = opt_val PFloat x"

definition record_lifecycle :: "datetime \<Rightarrow> uuid \<Rightarrow> exit_report \<Rightarrow> seconds option \<Rightarrow> db \<Rightarrow> db" where
  "record_lifecycle tx_now i x duration d =
     (if xr_data x = None then d
      else
        update_task_sessions i
          (\<lambda>s. s\<lparr>ss_tokens_input := xr_input x, ss_tokens_output := xr_output x, ss_cost_usd := xr_cost x, ss_turns := xr_turns x\<rparr>)
          (update_tasks tx_now (\<lambda>t. t_id t = i)
             (\<lambda>t. t\<lparr>t_tokens_used := Some (xr_input x + xr_output x), t_duration_sec := duration_value duration,
                    t_result := xr_data x\<rparr>) d))"

text \<open>The two transactions of one exit; \<open>complete_task\<close> commits on its own and fails only for an unknown task.\<close>

definition close_exited :: "datetime \<Rightarrow> datetime \<Rightarrow> uuid \<Rightarrow> exit_report \<Rightarrow> db \<Rightarrow> db result" where
  "close_exited now tx_now i x d =
     (let duration = session_duration now (first_session d i) in
      result_map
        (\<lambda>d1. record_lifecycle tx_now i x duration
            (update_task_sessions i
               (\<lambda>s. s\<lparr>ss_status := status_str (xr_status x), ss_ended := Some now, ss_duration_sec := duration,
                      ss_error := xr_error x\<rparr>) d1))
        (complete_task tx_now i (xr_status x) (xr_data x) (xr_input x + xr_output x) (duration_value duration)
           (xr_error x) d))"

text \<open>
  One exited runtime.  The status and the error that the message reports: an exception while the counts
  are read leaves the status of the exit code and no error.
\<close>

definition handle_exit :: "datetime \<Rightarrow> datetime \<Rightarrow> runtime_status \<Rightarrow> db \<Rightarrow> (task_status \<times> string option) \<times> db" where
  "handle_exit now tx_now r d =
     (case parse_uuid (rs_task_id r) of
        None \<Rightarrow> ((exit_status r, exit_error r), d)
      | Some i \<Rightarrow>
          (case exit_report_of d i r of
             Inl _ \<Rightarrow> ((exit_status r, None), d)
           | Inr x \<Rightarrow>
               ((xr_status x, xr_error x), (case close_exited now tx_now i x d of Inl _ \<Rightarrow> d | Inr d' \<Rightarrow> d'))))"

section \<open>The final message\<close>

definition round_half_even :: "rat \<Rightarrow> int" where
  "round_half_even q =
     (let n = \<lfloor>q\<rfloor>; f = q - of_int n
      in if f < 1 / 2 then n else if f > 1 / 2 then n + 1 else if even n then n else n + 1)"

text \<open>\<open>{q:.0f}\<close> and \<open>{q:.1f}\<close> of a non-negative number, and \<open>{n:,}\<close>.\<close>

definition fixed1 :: "rat \<Rightarrow> string" where
  "fixed1 q = (let n = round_half_even (q * 10) in int_str (n div 10) @ ''.'' @ int_str (n mod 10))"

fun thousands :: "nat \<Rightarrow> string" where
  "thousands n = (if n < 1000 then nat_str n else thousands (n div 1000) @ '','' @ pad_num 3 (n mod 1000))"

declare thousands.simps [simp del]

definition footer :: "seconds option \<Rightarrow> int \<Rightarrow> int \<Rightarrow> string" where
  "footer duration tokens_input tokens_output =
     (let total = tokens_input + tokens_output;
          group_int = (\<lambda>n :: int. (if n < 0 then ''-'' else []) @ thousands (nat \<bar>n\<bar>));
          parts =
            (case duration of
               None \<Rightarrow> []
             | Some s \<Rightarrow>
                 [''**Duration**: '' @ (if s < 60 then int_str (round_half_even s) @ ''s'' else fixed1 (s / 60) @ ''m'')])
            @ (if 0 < total
               then [''**Tokens**: '' @ group_int total @ '' ('' @ group_int tokens_input @ '' in / '' @ group_int tokens_output @ '' out)'']
               else [])
      in if parts = [] then [] else newline @ newline @ ''_'' @ join '' | '' parts @ ''_'')"

definition completion_text :: "task \<Rightarrow> string \<Rightarrow> task_status \<Rightarrow> string option \<Rightarrow> string" where
  "completion_text t task_id status error =
     (let short = [CHR 0x60] @ take 8 task_id @ [CHR 0x60] in
      if status = Succeeded
      then
        let result_text =
              (case t_result t of
                 None \<Rightarrow> []
               | Some d \<Rightarrow> if d = [] then [] else strip (str_or_empty (dict_get_default d ''result'' (PStr []))))
        in if result_text \<noteq> [] then take 6000 result_text else '':white_check_mark: Task '' @ short @ '' completed''
      else
        '':x: Task '' @ short @ '' failed'' @
        (case error of
           None \<Rightarrow> []
         | Some e \<Rightarrow> if e = [] then [] else newline @ ''```'' @ newline @ take 300 e @ newline @ ''```''))"

definition session_usage :: "db \<Rightarrow> uuid \<Rightarrow> seconds option \<times> int \<times> int" where
  "session_usage d i =
     (case first_session d i of
        None \<Rightarrow> (None, 0, 0)
      | Some s \<Rightarrow>
          ((case (ss_started s, ss_ended s) of (Some a, Some b) \<Rightarrow> Some (b - a) | _ \<Rightarrow> None),
           ss_tokens_input s, ss_tokens_output s))"

definition post_completion ::
    "settings \<Rightarrow> transport \<Rightarrow> db \<Rightarrow> string \<Rightarrow> task_status \<Rightarrow> string option \<Rightarrow> message_ref option result" where
  "post_completion cfg tr d task_id status error =
     (case parse_uuid task_id of
        None \<Rightarrow> Inr None
      | Some i \<Rightarrow>
          notify_task cfg tr
            (\<lambda>t. let (duration, tokens_input, tokens_output) = session_usage d (t_id t)
                 in Inr (completion_text t task_id status error @ footer duration tokens_input tokens_output)) d i)"

text \<open>
  One round over the launcher's list: every exited runtime in turn.  A post that raises ends the round;
  the list holds the messages' status and error.
\<close>

fun monitor_round ::
    "settings \<Rightarrow> transport \<Rightarrow> datetime \<Rightarrow> datetime \<Rightarrow> runtime_status list \<Rightarrow> db \<Rightarrow> string list result \<times> db" where
  "monitor_round cfg tr now tx_now [] d = (Inr [], d)"
| "monitor_round cfg tr now tx_now (r # rs) d =
     (if rs_status r \<noteq> ''exited'' then monitor_round cfg tr now tx_now rs d
      else
        let ((status, error), d1) = handle_exit now tx_now r d
        in case post_completion cfg tr d1 (rs_task_id r) status error of
             Inl e \<Rightarrow> (Inl e, d1)
           | Inr _ \<Rightarrow>
               (let (ids, d2) = monitor_round cfg tr now tx_now rs d1 in (result_map (\<lambda>xs. rs_id r # xs) ids, d2)))"

section \<open>Lemmas\<close>

lemma tasks_update_task_sessions [simp]: "tasks (update_task_sessions i f d) = tasks d"
  by (simp add: update_task_sessions_def)

lemma find_task_update_task_sessions [simp]: "find_task (update_task_sessions i f d) j = find_task d j"
  by (simp add: find_task_def)

lemma find_task_record_lifecycle:
  "find_task (record_lifecycle tx_now i x duration d) j =
     (if xr_data x = None \<or> j \<noteq> i then find_task d j
      else map_option (\<lambda>t. t\<lparr>t_tokens_used := Some (xr_input x + xr_output x), t_duration_sec := duration_value duration,
                    t_result := xr_data x, t_updated := tx_now\<rparr>) (find_task d j))"
  by (cases "find_task d j") (auto simp: record_lifecycle_def find_task_update dest: find_task_Some)

lemma find_task_complete:
  assumes "complete_task tx_now i status result tokens duration error d = Inr d'"
  shows "find_task d' j =
     (if j = i
      then map_option (\<lambda>t. t\<lparr>t_status := status, t_result := result, t_tokens_used := Some tokens,
                            t_duration_sec := duration, t_error := error, t_updated := tx_now\<rparr>) (find_task d j)
      else find_task d j)"
  using assms
  by (cases "find_task d j")
    (auto simp: complete_task_def commit_task_event_def find_task_update Let_def split: if_splits dest: find_task_Some)

lemma complete_task_known:
  "find_task d i \<noteq> None \<Longrightarrow> \<exists>d'. complete_task tx_now i status result tokens duration error d = Inr d'"
  by (auto simp: complete_task_def commit_task_event_def find_task_update Let_def)

lemma close_exited_task:
  assumes "find_task d i = Some t"
  obtains d' where "close_exited now tx_now i x d = Inr d'"
    "find_task d' i = Some (t\<lparr>t_status := xr_status x, t_result := xr_data x, t_tokens_used := Some (xr_input x + xr_output x),
       t_duration_sec := duration_value (session_duration now (first_session d i)), t_error := xr_error x, t_updated := tx_now\<rparr>)"
    "\<And>j. j \<noteq> i \<Longrightarrow> find_task d' j = find_task d j"
proof -
  obtain d1 where d1: "complete_task tx_now i (xr_status x) (xr_data x) (xr_input x + xr_output x)
      (duration_value (session_duration now (first_session d i))) (xr_error x) d = Inr d1"
    using complete_task_known assms by blast
  let ?d' = "record_lifecycle tx_now i x (session_duration now (first_session d i))
      (update_task_sessions i (\<lambda>s. s\<lparr>ss_status := status_str (xr_status x), ss_ended := Some now,
          ss_duration_sec := session_duration now (first_session d i), ss_error := xr_error x\<rparr>) d1)"
  have "close_exited now tx_now i x d = Inr ?d'" by (simp add: close_exited_def d1 Let_def)
  moreover have "find_task ?d' j = (if j = i then Some (t\<lparr>t_status := xr_status x, t_result := xr_data x,
       t_tokens_used := Some (xr_input x + xr_output x),
       t_duration_sec := duration_value (session_duration now (first_session d i)), t_error := xr_error x, t_updated := tx_now\<rparr>)
       else find_task d j)" for j
    using find_task_complete [OF d1, of j] assms by (cases "j = i") (auto simp: find_task_record_lifecycle)
  ultimately show ?thesis by (intro that [of ?d']) simp_all
qed

text \<open>Without an event that carries data, the exit code alone decides and every count is zero.\<close>

lemma silent_exit_report:
  assumes "\<And>e. e \<in> set (session_events d) \<Longrightarrow> se_task_id e = Some i \<Longrightarrow>
      se_event_type e \<in> {''session_complete'', ''session_error'', ''session_timeout''} \<Longrightarrow> se_data e \<in> {None, Some []}"
  shows "exit_report_of d i r = Inr \<lparr>xr_status = exit_status r, xr_error = exit_error r, xr_data = None, xr_input = 0,
           xr_output = 0, xr_turns = 0, xr_cost = None\<rparr>"
proof -
  have latest: "latest_of b es \<in> insert b (set es)" for b es
    by (induction es arbitrary: b) auto
  have none: "event_data (latest_event (lifecycle_events d i) ts) = None" for ts
  proof (cases "latest_event (lifecycle_events d i) ts")
    case (Some e)
    then have "e \<in> set (lifecycle_events d i)"
      using latest by (fastforce simp: latest_event_def split: list.splits dest: filter_eq_ConsD)
    then have "se_data e \<in> {None, Some []}"
      using assms by (auto simp: lifecycle_events_def order_rows_def select_where_def split: if_splits)
    with Some show ?thesis by (auto simp: event_data_def)
  qed (simp add: event_data_def)
  show ?thesis
    unfolding exit_report_of_def Let_def none
    by (simp add: count_field_def py_or_def split: option.split)
qed

section \<open>Properties\<close>


text \<open>
  A runtime that exits without a lifecycle event loses the record of the task: the token total, whatever the
  events collected before, becomes zero and the result is removed, also for a task that had ended.
\<close>

theorem silent_exit_resets_usage:
  assumes "parse_uuid (rs_task_id r) = Some i" "find_task d i = Some t"
    and "\<And>e. e \<in> set (session_events d) \<Longrightarrow> se_task_id e = Some i \<Longrightarrow>
      se_event_type e \<in> {''session_complete'', ''session_error'', ''session_timeout''} \<Longrightarrow> se_data e \<in> {None, Some []}"
  shows "\<exists>t'. find_task (snd (handle_exit now tx_now r d)) i = Some t'
           \<and> t_tokens_used t' = Some 0 \<and> t_result t' = None \<and> t_status t' = exit_status r"
proof -
  let ?x = "\<lparr>xr_status = exit_status r, xr_error = exit_error r, xr_data = None, xr_input = 0,
           xr_output = 0, xr_turns = 0, xr_cost = None\<rparr>"
  have x: "exit_report_of d i r = Inr ?x" using assms(3) by (rule silent_exit_report)
  obtain d' where "close_exited now tx_now i ?x d = Inr d'"
      and t': "find_task d' i = Some (t\<lparr>t_status := exit_status r, t_result := None, t_tokens_used := Some 0,
       t_duration_sec := duration_value (session_duration now (first_session d i)), t_error := exit_error r, t_updated := tx_now\<rparr>)"
    using close_exited_task [OF assms(2), of now tx_now ?x] by auto
  then have "snd (handle_exit now tx_now r d) = d'" by (simp add: handle_exit_def assms(1) x)
  with t' show ?thesis by simp
qed

definition crashed :: runtime_status where
  "crashed = \<lparr>rs_id = ''session-1'', rs_short_id = ''session-1'', rs_task_id = uuid_str 1, rs_workflow = ''triage'',
     rs_status = ''exited'', rs_exit_code = Some 1, rs_logs = ''killed''\<rparr>"

definition busy_db :: db where
  "busy_db = empty_db\<lparr>tasks := [(new_task 1 ''triage'' ''look'' 100)\<lparr>t_status := Running, t_tokens_used := Some 5000\<rparr>],
     next_uuid := 2\<rparr>"

lemma crashed_uuid: "parse_uuid (rs_task_id crashed) = Some 1"
  by (simp add: crashed_def parse_uuid_str)

lemma busy_task: "find_task busy_db 1 = Some ((new_task 1 ''triage'' ''look'' 100)\<lparr>t_status := Running, t_tokens_used := Some 5000\<rparr>)"
  by (simp add: find_task_def find_row_Cons busy_db_def empty_db_def new_task_def)

theorem silent_exit_resets_usage_witness:
  "\<exists>t'. find_task (snd (handle_exit 200 200 crashed busy_db)) 1 = Some t'
           \<and> t_tokens_used t' = Some 0 \<and> t_result t' = None \<and> t_status t' = exit_status crashed"
  by (rule silent_exit_resets_usage [OF crashed_uuid busy_task]) (simp add: busy_db_def empty_db_def)


end
