(* ===== verification/Queue_Consumer.thy ===== *)
theory Queue_Consumer
  imports Session_Env Container_Exit Task_Dequeue
begin

text \<open>
  The queue consumer of \<open>session-manager/main.py\<close> with \<open>spawn_agent_session\<close> of
  \<open>session-manager/container_lifecycle.py\<close>.  Files, bundles and the launcher are parameters.
\<close>

section \<open>Worker limits\<close>

definition workflow_priority :: "pydict \<Rightarrow> int result" where
  "workflow_priority config =
     result_map
       (\<lambda>runtime.
          let value = dict_get_default runtime ''priority'' (PStr ''medium'') in
          case value of
            PBool True \<Rightarrow> 0
          | PInt i \<Rightarrow> if i \<in> {1, 2, 3} then i - 1 else 1
          | _ \<Rightarrow>
              (case map_of [(''high'', 0), (''medium'', 1), (''low'', 2)] (lower (strip (py_str value))) of
                 None \<Rightarrow> 1 | Some p \<Rightarrow> p))
       (as_dict (dict_get_default config ''runtime'' (PDict [])))"

type_synonym worker_limits = "(string \<times> int \<times> int) list"

definition plugin_limits :: "(string \<times> pydict) list \<Rightarrow> worker_limits result" where
  "plugin_limits configs =
     result_fold
       (\<lambda>plugins (workflow, config).
          result_bind (as_dict (dict_get_default config ''runtime'' (PDict []))) (\<lambda>runtime.
          result_bind (py_int (dict_get_default runtime ''parallel_workers'' (PInt 1))) (\<lambda>max_workers.
          result_map (\<lambda>p. AList.update workflow (max 1 max_workers, p) plugins) (workflow_priority config))))
       [] configs"

record worker_cache =
  wc_plugins :: worker_limits
  wc_loaded_at :: rat

definition PLUGIN_SCAN_INTERVAL_SEC :: rat where
  "PLUGIN_SCAN_INTERVAL_SEC = 30"

definition refresh_plugin_worker_cache ::
    "bool \<Rightarrow> rat \<Rightarrow> (string \<times> pydict) list result \<Rightarrow> worker_cache \<Rightarrow> worker_cache result" where
  "refresh_plugin_worker_cache force now configs cache =
     (if \<not> force \<and> wc_plugins cache \<noteq> [] \<and> now - wc_loaded_at cache < PLUGIN_SCAN_INTERVAL_SEC then Inr cache
      else result_map (\<lambda>plugins. \<lparr>wc_plugins = plugins, wc_loaded_at = now\<rparr>) (result_bind configs plugin_limits))"

text \<open>The plugins whose agent is provisioned and not paused; of rows with one name the last counts.\<close>

definition agent_state :: "db \<Rightarrow> (string \<times> bool \<times> bool) list" where
  "agent_state d = foldl (\<lambda>acc a. AList.update (ag_name a) (ag_provisioned a, ag_paused a) acc) [] (agents d)"

definition enabled_plugins :: "db \<Rightarrow> worker_limits \<Rightarrow> worker_limits" where
  "enabled_plugins d plugins =
     filter (\<lambda>(workflow, _). case map_of (agent_state d) workflow of
         Some (provisioned, paused) \<Rightarrow> provisioned \<and> \<not> paused
       | None \<Rightarrow> False) plugins"

definition consumer_opts :: "settings \<Rightarrow> worker_limits \<Rightarrow> dequeue_opts" where
  "consumer_opts cfg enabled =
     \<lparr>dq_workflow = None, dq_max_running = None, dq_platform_max_running = Some (s_platform_max_running_tasks cfg),
      dq_workflow_limits = Some (map (\<lambda>(w, v). (w, fst v)) enabled),
      dq_workflow_priorities = Some (map (\<lambda>(w, v). (w, snd v)) enabled)\<rparr>"

section \<open>Spawning\<close>

record launch_spec =
  ls_task_id :: string
  ls_workflow :: string
  ls_image :: string
  ls_environment :: environ
  ls_bundle_path :: "string option"
  ls_bundle_uri :: "string option"
  ls_bundle_checksum :: "string option"
  ls_memory_volume_name :: string
  ls_container_name :: string
  ls_timeout_sec :: int
  ls_extra_hosts :: pyval

record runtime_handle =
  rh_id :: string
  rh_short_id :: string

record spawn_tools =
  sw_platform :: platform_tools
  sw_age :: age_tools
  sw_environ :: environ
  sw_load_agent_yaml :: "string \<Rightarrow> pydict result"
  sw_config_map_image :: "string result"
  sw_platform_file :: "string result"
  sw_bundle :: "string \<Rightarrow> (string option \<times> string option \<times> string option) result"
  sw_launch :: "launch_spec \<Rightarrow> runtime_handle result"

text \<open>The image: the workflow's own, that of the ConfigMap, or the configured one.\<close>

definition container_image :: "settings \<Rightarrow> spawn_tools \<Rightarrow> pydict \<Rightarrow> string result" where
  "container_image cfg tools runtime =
     (let own = dict_get runtime ''container_image'' in
      if truthy own then Inr (py_str own)
      else if s_kubernetes_runtime_config_map cfg \<noteq> [] then sw_config_map_image tools
      else Inr (s_runtime_image cfg))"

definition build_launch_spec :: "settings \<Rightarrow> spawn_tools \<Rightarrow> task \<Rightarrow> launch_spec result" where
  "build_launch_spec cfg tools t =
     result_bind (sw_load_agent_yaml tools (t_workflow t)) (\<lambda>agent_config.
     result_bind (as_dict (dict_get_default agent_config ''runtime'' (PDict []))) (\<lambda>runtime.
     result_bind (container_image cfg tools runtime) (\<lambda>image.
     result_bind (sw_platform_file tools) (\<lambda>platform_file.
     result_bind (spawn_environment cfg (sw_platform tools) (sw_age tools) (sw_environ tools) t agent_config platform_file) (\<lambda>environment.
     result_bind (sw_bundle tools (t_workflow t)) (\<lambda>(path, uri, checksum).
     result_bind (py_int (py_or (dict_get_default runtime ''runtime_timeout_sec'' (PInt 300)) (PInt 300))) (\<lambda>timeout_sec.
     result_bind (load_platform_config (pt_files (sw_platform tools))
                    (case map_of (sw_environ tools) ''SAGE_RUN_ENV'' of None \<Rightarrow> [] | Some e \<Rightarrow> e) platform_file) (\<lambda>platform_config.
     result_map
       (\<lambda>deployment.
          \<lparr>ls_task_id = uuid_str (t_id t), ls_workflow = t_workflow t, ls_image = image, ls_environment = environment,
           ls_bundle_path = path, ls_bundle_uri = uri, ls_bundle_checksum = checksum,
           ls_memory_volume_name = ''agent-memory-'' @ t_workflow t,
           ls_container_name = ''session-'' @ take 8 (uuid_str (t_id t)) @ ''-'' @ t_workflow t,
           ls_timeout_sec = timeout_sec, ls_extra_hosts = dict_get deployment ''extra_hosts''\<rparr>)
       (as_dict (dict_get_default platform_config ''deployment'' (PDict [])))))))))))"

definition new_session :: "uuid \<Rightarrow> uuid \<Rightarrow> string \<Rightarrow> datetime \<Rightarrow> sess" where
  "new_session sid i container_id now =
     \<lparr>ss_id = sid, ss_task_id = Some i, ss_agent_id = None, ss_container_id = Some container_id, ss_status = ''running'',
      ss_started = Some now, ss_ended = None, ss_duration_sec = None, ss_tokens_input = 0, ss_tokens_output = 0,
      ss_cost_usd = None, ss_turns = 0, ss_tools_used = [], ss_subagents_used = [], ss_error = None, ss_archived_at = None\<rparr>"

definition record_session :: "datetime \<Rightarrow> datetime \<Rightarrow> uuid \<Rightarrow> runtime_handle \<Rightarrow> db \<Rightarrow> db" where
  "record_session now tx_now i handle d =
     (let d1 = update_tasks tx_now (\<lambda>t. t_id t = i)
                 (\<lambda>t. t\<lparr>t_container_id := Some (rh_id handle), t_session_id := Some (rh_short_id handle)\<rparr>) d
      in d1\<lparr>sessions := insert_row (new_session (next_uuid d1) i (rh_id handle) now) (sessions d1),
            next_uuid := Suc (next_uuid d1)\<rparr>)"

text \<open>Every error on the way to the launch fails the task.\<close>

definition spawn_agent_session ::
    "settings \<Rightarrow> spawn_tools \<Rightarrow> datetime \<Rightarrow> datetime \<Rightarrow> task \<Rightarrow> db \<Rightarrow> (runtime_handle option \<times> db) result" where
  "spawn_agent_session cfg tools now tx_now t d =
     (case result_bind (build_launch_spec cfg tools t) (sw_launch tools) of
        Inr handle \<Rightarrow> Inr (Some handle, record_session now tx_now (t_id t) handle d)
      | Inl _ \<Rightarrow>
          result_map (\<lambda>d'. (None, d'))
            (complete_task tx_now (t_id t) Failed None 0 PNone (Some ''Failed to spawn runtime'') d))"

section \<open>One round of the consumer\<close>

datatype round_result =
    Idle
  | Admitted task
  | Lost_runtime task
  | Spawned task runtime_handle
  | Spawn_failed task
  | Round_error py_error

text \<open>The task a round was about.\<close>

fun claimed :: "round_result \<Rightarrow> task option" where
  "claimed (Admitted t) = Some t"
| "claimed (Lost_runtime t) = Some t"
| "claimed (Spawned t h) = Some t"
| "claimed (Spawn_failed t) = Some t"
| "claimed Idle = None"
| "claimed (Round_error e) = None"

definition lost_runtime_error :: string where
  "lost_runtime_error =
     ''Waiting task lost its live runtime before scheduler admission; resume restart is not implemented''"

text \<open>What the consumer does with a claimed task; \<open>statuses\<close> is the launcher's answer if it is asked.\<close>

definition dispatch_task ::
    "settings \<Rightarrow> spawn_tools \<Rightarrow> runtime_status list result \<Rightarrow> datetime \<Rightarrow> datetime \<Rightarrow> task \<Rightarrow> db \<Rightarrow> round_result \<times> db" where
  "dispatch_task cfg tools statuses now tx_now t d =
     (case t_container_id t of
        Some (c # cs) \<Rightarrow>
          (case statuses of
             Inl e \<Rightarrow> (Round_error e, d)
           | Inr rs \<Rightarrow>
               (if has_live_runtime rs (uuid_str (t_id t)) (Some (c # cs)) then (Admitted t, d)
                else case complete_task tx_now (t_id t) Failed None 0 PNone (Some lost_runtime_error) d of
                  Inl e \<Rightarrow> (Round_error e, d)
                | Inr d' \<Rightarrow> (Lost_runtime t, d')))
      | _ \<Rightarrow>
          (case spawn_agent_session cfg tools now tx_now t d of
             Inl e \<Rightarrow> (Round_error e, d)
           | Inr (Some handle, d') \<Rightarrow> (Spawned t handle, d')
           | Inr (None, d') \<Rightarrow> (Spawn_failed t, d')))"

definition consumer_round ::
    "settings \<Rightarrow> spawn_tools \<Rightarrow> runtime_status list result \<Rightarrow> (uuid \<Rightarrow> bool) \<Rightarrow> rat \<Rightarrow> datetime \<Rightarrow> datetime
     \<Rightarrow> (string \<times> pydict) list result \<Rightarrow> worker_cache \<Rightarrow> db \<Rightarrow> round_result \<times> worker_cache \<times> db" where
  "consumer_round cfg tools statuses locked monotonic now tx_now configs cache d =
     (case refresh_plugin_worker_cache False monotonic configs cache of
        Inl e \<Rightarrow> (Round_error e, cache, d)
      | Inr cache' \<Rightarrow>
          (case dequeue_task (consumer_opts cfg (enabled_plugins d (wc_plugins cache'))) locked now tx_now d of
             Inl e \<Rightarrow> (Round_error e, cache', d)
           | Inr (None, d1) \<Rightarrow> (Idle, cache', d1)
           | Inr (Some t, d1) \<Rightarrow>
               (let (res, d2) = dispatch_task cfg tools statuses now tx_now t d1 in (res, cache', d2))))"

section \<open>Lemmas\<close>

lemma consumer_round_task:
  assumes "consumer_round cfg tools statuses locked monotonic now tx_now configs cache d = (res, cache', d')"
    and "res \<noteq> Idle" "\<And>e. res \<noteq> Round_error e"
  obtains t d1 where
    "dequeue_task (consumer_opts cfg (enabled_plugins d (wc_plugins cache'))) locked now tx_now d = Inr (Some t, d1)"
    "dispatch_task cfg tools statuses now tx_now t d1 = (res, d')"
  using assms
  by (auto simp: consumer_round_def Let_def split: sum.splits option.splits prod.splits)

lemma dequeued_row:
  assumes "wf_tasks d" "dequeue_task opts locked now tx_now d = Inr (Some t, d1)"
  shows "find_task d1 (t_id t) = Some t" "t_status t = Running"
    "\<And>j. j \<noteq> t_id t \<Longrightarrow> find_task d1 j = find_task d j" "sessions d1 = sessions d"
proof -
  obtain u where u: "dequeue_choice opts locked d = Some u" and t: "t = (claim now u)\<lparr>t_updated := tx_now\<rparr>"
      and d1: "d1 = snd (claim_task now tx_now u d)"
    using dequeue_task_cases [OF assms(2)] .
  have id: "t_id t = t_id u" and "t_status t = Running" by (simp_all add: t)
  then show "t_status t = Running" by simp
  have "u \<in> set (tasks d)" by (rule dequeue_choice_Some(1) [OF u])
  then have known: "find_task d (t_id u) = Some u" by (rule find_task_unique [OF wf_tasks_distinct [OF assms(1)]])
  have rows: "find_row P (update_where (\<lambda>r. t_id r = t_id u) (\<lambda>_. t) rows) =
      map_option (\<lambda>r. if t_id r = t_id u then t else r) (find_row P rows)" if "\<And>r. P r \<longleftrightarrow> t_id r = j" for P j rows
    using that id by (induction rows) (auto simp: find_row_Cons)
  have all: "find_task d1 j = map_option (\<lambda>r. if t_id r = t_id u then t else r) (find_task d j)" for j
    by (simp add: find_task_def d1 claim_task_tasks t [symmetric] rows)
  then show "find_task d1 (t_id t) = Some t" using known id by simp
  show "find_task d1 j = find_task d j" if "j \<noteq> t_id t" for j
    using all [of j] that id by (cases "find_task d j") (auto dest: find_task_Some)
  show "sessions d1 = sessions d" by (simp add: d1 claim_task_def Let_def)
qed

lemma find_task_record_session:
  "find_task (record_session now tx_now i handle d) j =
     (if j = i then map_option (\<lambda>t. t\<lparr>t_container_id := Some (rh_id handle), t_session_id := Some (rh_short_id handle), t_updated := tx_now\<rparr>)
        (find_task d j) else find_task d j)"
proof -
  have "find_task (record_session now tx_now i handle d) j =
     find_task (update_tasks tx_now (\<lambda>t. t_id t = i)
                 (\<lambda>t. t\<lparr>t_container_id := Some (rh_id handle), t_session_id := Some (rh_short_id handle)\<rparr>) d) j"
    by (simp add: record_session_def Let_def find_task_def)
  then show ?thesis
    by (cases "find_task d j") (auto simp: find_task_update dest: find_task_Some)
qed

lemma session_recorded: "\<exists>s \<in> set (sessions (record_session now tx_now i handle d)).
   ss_task_id s = Some i \<and> ss_container_id s = Some (rh_id handle) \<and> ss_status s = ''running''"
  by (simp add: record_session_def Let_def insert_row_def new_session_def)

lemma dispatch_settles:
  assumes "dispatch_task cfg tools statuses now tx_now t d = (res, d')" "\<And>e. res \<noteq> Round_error e"
    and "find_task d (t_id t) = Some t" "t_status t = Running"
  shows "claimed res = Some t
    \<and> (\<exists>t'. find_task d' (t_id t) = Some t'
          \<and> (case res of
               Spawned _ h \<Rightarrow> t_status t' = Running \<and> t_container_id t' = Some (rh_id h)
                 \<and> (\<exists>s \<in> set (sessions d'). ss_task_id s = Some (t_id t) \<and> ss_container_id s = Some (rh_id h) \<and> ss_status s = ''running'')
             | Admitted _ \<Rightarrow> t_status t' = Running
                 \<and> (\<exists>rs. statuses = Inr rs \<and> has_live_runtime rs (uuid_str (t_id t)) (t_container_id t'))
             | _ \<Rightarrow> t_status t' = Failed \<and> t_error t' \<noteq> None))
    \<and> (\<forall>j. j \<noteq> t_id t \<longrightarrow> find_task d' j = find_task d j)"
proof (cases "\<exists>c cs. t_container_id t = Some (c # cs)")
  case True
  then obtain c cs where c: "t_container_id t = Some (c # cs)" by blast
  with assms(1,2) obtain rs where rs: "statuses = Inr rs"
    by (cases statuses) (auto simp: dispatch_task_def)
  show ?thesis
  proof (cases "has_live_runtime rs (uuid_str (t_id t)) (Some (c # cs))")
    case True
    with assms c rs show ?thesis by (auto simp: dispatch_task_def)
  next
    case False
    with assms(1,2) c rs have "complete_task tx_now (t_id t) Failed None 0 PNone (Some lost_runtime_error) d = Inr d'"
        and "res = Lost_runtime t"
      by (auto simp: dispatch_task_def split: sum.splits)
    with assms(3) show ?thesis by (simp add: find_task_complete)
  qed
next
  case False
  then have spawn: "dispatch_task cfg tools statuses now tx_now t d =
      (case spawn_agent_session cfg tools now tx_now t d of
         Inl e \<Rightarrow> (Round_error e, d)
       | Inr (Some handle, d') \<Rightarrow> (Spawned t handle, d')
       | Inr (None, d') \<Rightarrow> (Spawn_failed t, d'))"
    by (auto simp: dispatch_task_def split: option.split list.split)
  show ?thesis
  proof (cases "result_bind (build_launch_spec cfg tools t) (sw_launch tools)")
    case (Inr h)
    with assms(1) spawn have "res = Spawned t h" "d' = record_session now tx_now (t_id t) h d"
      by (simp_all add: spawn_agent_session_def)
    with assms(3,4) session_recorded show ?thesis by (simp add: find_task_record_session)
  next
    case (Inl e)
    with assms(1,2) spawn have "complete_task tx_now (t_id t) Failed None 0 PNone (Some ''Failed to spawn runtime'') d = Inr d'"
        and "res = Spawn_failed t"
      by (auto simp: spawn_agent_session_def result_map_Inr_iff split: sum.splits)
    with assms(3) show ?thesis by (simp add: find_task_complete)
  qed
qed

section \<open>Properties\<close>


text \<open>
  A round starts or resumes work only for a workflow whose agent is provisioned and not paused, that was
  discovered with its limits, and whose task was queued or waiting for its turn.
\<close>

theorem only_enabled_workflows_run:
  assumes "wf_tasks d"
    and "consumer_round cfg tools statuses locked monotonic now tx_now configs cache d = (res, cache', d')"
    and "claimed res = Some t"
  shows "\<exists>u. find_task d (t_id t) = Some u \<and> t_status u \<in> {Queued, Resume_pending} \<and> t_archived_at u = None
    \<and> \<not> locked (t_id t) \<and> map_of (agent_state d) (t_workflow u) = Some (True, False)
    \<and> t_workflow u \<in> fst ` set (wc_plugins cache')"
proof -
  let ?opts = "consumer_opts cfg (enabled_plugins d (wc_plugins cache'))"
  have ne: "res \<noteq> Idle" "\<And>e. res \<noteq> Round_error e" using assms(3) by auto
  obtain v d1 where deq: "dequeue_task ?opts locked now tx_now d = Inr (Some v, d1)"
      and dispatch: "dispatch_task cfg tools statuses now tx_now v d1 = (res, d')"
    using consumer_round_task [OF assms(2) ne] .
  note row = dequeued_row [OF assms(1) deq]
  from dispatch_settles [OF dispatch ne(2) row(1,2)] assms(3) have "v = t" by simp
  obtain u where u: "dequeue_choice ?opts locked d = Some u" and "v = (claim now u)\<lparr>t_updated := tx_now\<rparr>"
    using dequeue_task_cases [OF deq] .
  then have "t_id t = t_id u" using \<open>v = t\<close> by simp
  have "dq_workflow_limits ?opts \<noteq> Some []"
    using deq by (auto simp: dequeue_task_def dequeue_within_def Let_def split: option.splits if_splits)
  with dequeue_choice_Some(2) [OF u] have "candidate ?opts locked u" "t_workflow u \<in> fst ` set (enabled_plugins d (wc_plugins cache'))"
    by (auto simp: eligible_def candidate_def consumer_opts_def image_image case_prod_unfold)
  then have "t_status u \<in> {Queued, Resume_pending}" "t_archived_at u = None" "\<not> locked (t_id u)"
      "map_of (agent_state d) (t_workflow u) = Some (True, False)" "t_workflow u \<in> fst ` set (wc_plugins cache')"
    by (auto simp: candidate_def status_lists enabled_plugins_def split: option.splits intro: rev_image_eqI)
  moreover have "find_task d (t_id u) = Some u"
    by (rule find_task_unique [OF wf_tasks_distinct [OF assms(1)] dequeue_choice_Some(1) [OF u]])
  ultimately show ?thesis by (simp add: \<open>t_id t = t_id u\<close>)
qed

section \<open>A round that launches a runtime\<close>

definition ready_db :: db where
  "ready_db = demo_db\<lparr>agents := [\<lparr>ag_id = 7, ag_name = ''triage'', ag_description = None, ag_version = None, ag_config = PNone,
     ag_config_hash = None, ag_repo_path = None, ag_provisioned = True, ag_paused = False, ag_provisioned_at = None,
     ag_created = 0, ag_updated = 0\<rparr>]\<rparr>"

definition demo_spawn :: spawn_tools where
  "demo_spawn =
     \<lparr>sw_platform = \<lparr>pt_files = \<lparr>cf_exists = (\<lambda>_. False), cf_parsed = (\<lambda>p. Inl (Os_error p))\<rparr>, pt_validate_knowledge = (\<lambda>_. None)\<rparr>,
      sw_age = demo_age, sw_environ = [], sw_load_agent_yaml = (\<lambda>_. Inr []), sw_config_map_image = Inr ''image'',
      sw_platform_file = Inr [], sw_bundle = (\<lambda>_. Inr (None, None, None)),
      sw_launch = (\<lambda>spec. Inr \<lparr>rh_id = ls_container_name spec, rh_short_id = ''session''\<rparr>)\<rparr>"

abbreviation demo_claimed :: task where
  "demo_claimed \<equiv> (claim 200 demo_task)\<lparr>t_updated := 200\<rparr>"

lemma demo_spawn_environment: "\<exists>env. spawn_environment default_settings (sw_platform demo_spawn) demo_age [] t [] [] = Inr env"
proof -
  have "resolve_workflow_connections [] w [] = Inr []" for w
    by (simp add: resolve_workflow_connections_def parse_connections_def declared_def workflow_connection_names_def py_or_def)
  then show ?thesis
    by (simp add: spawn_environment_def demo_spawn_def load_platform_config_def session_environment_def
          injected_agent_secrets_def decrypt_agent_secrets_def decrypt_named_secrets_def agent_secrets_def)
qed

lemma demo_launch:
  "\<exists>h. result_bind (build_launch_spec default_settings demo_spawn t) (sw_launch demo_spawn) = Inr h"
proof -
  obtain env where "spawn_environment default_settings (sw_platform demo_spawn) demo_age [] t [] [] = Inr env"
    using demo_spawn_environment by blast
  then show ?thesis
    by (simp add: build_launch_spec_def demo_spawn_def container_image_def default_settings_def py_or_def load_platform_config_def)
qed

definition demo_handle :: runtime_handle where
  "demo_handle = (case result_bind (build_launch_spec default_settings demo_spawn demo_claimed) (sw_launch demo_spawn) of
     Inr h \<Rightarrow> h | Inl _ \<Rightarrow> \<lparr>rh_id = [], rh_short_id = []\<rparr>)"

definition spawned_db :: db where
  "spawned_db = record_session 200 200 0 demo_handle (snd (claim_task 200 200 demo_task ready_db))"

definition demo_cache :: worker_cache where
  "demo_cache = \<lparr>wc_plugins = [(''triage'', 1, 1)], wc_loaded_at = 0\<rparr>"

lemma demo_refresh:
  "refresh_plugin_worker_cache False 0 (Inr [(''triage'', [])]) \<lparr>wc_plugins = [], wc_loaded_at = 0\<rparr> = Inr demo_cache"
  by code_simp

lemma ready_wf: "wf_tasks ready_db"
  by (simp add: wf_tasks_def ready_db_def demo_simps)

lemma ready_dequeue:
  "dequeue_task (consumer_opts default_settings (enabled_plugins ready_db (wc_plugins demo_cache))) (\<lambda>_. False) 200 200 ready_db
     = Inr (Some demo_claimed, snd (claim_task 200 200 demo_task ready_db))"
proof -
  have "enabled_plugins ready_db (wc_plugins demo_cache) = [(''triage'', 1, 1)]"
    by (simp add: enabled_plugins_def agent_state_def ready_db_def demo_cache_def)
  then show ?thesis
    by (simp add: consumer_opts_def dequeue_task_def dequeue_within_def dequeue_loop_choice dequeue_choice_def select_where_def
      eligible_def candidate_def over_limit_def running_count_def count_status_def status_lists demo_simps ready_db_def
      claim_task_def Let_def default_settings_def)
qed

lemma demo_round:
  "consumer_round default_settings demo_spawn (Inr []) (\<lambda>_. False) 0 200 200 (Inr [(''triage'', [])])
     \<lparr>wc_plugins = [], wc_loaded_at = 0\<rparr> ready_db = (Spawned demo_claimed demo_handle, demo_cache, spawned_db)"
proof -
  have "result_bind (build_launch_spec default_settings demo_spawn demo_claimed) (sw_launch demo_spawn) = Inr demo_handle"
    using demo_launch [of demo_claimed] by (auto simp: demo_handle_def)
  moreover have "t_container_id demo_claimed = None" "t_id demo_claimed = 0"
    by (simp_all add: claim_def wait_finished_updates_def demo_simps)
  ultimately show ?thesis
    by (simp add: consumer_round_def demo_refresh ready_dequeue dispatch_task_def spawn_agent_session_def spawned_db_def)
qed


theorem only_enabled_workflows_run_witness:
  "\<exists>u. find_task ready_db (t_id demo_claimed) = Some u \<and> map_of (agent_state ready_db) (t_workflow u) = Some (True, False)"
  using only_enabled_workflows_run [OF ready_wf demo_round, of demo_claimed] by auto

end
