(* ===== verification/Queue_Liveness.thy ===== *)
theory Queue_Liveness
  imports Task_Dequeue "HOL-Library.Sublist"
begin

text \<open>
  How the queue is served over time: claims by \<open>dequeue_task\<close> interleaved with completions by
  \<open>complete_task\<close>.  Within a workflow the tasks are claimed in their order and none is lost; with a free
  worker and tasks that end, every queued task is served.
\<close>

section \<open>Runs\<close>



definition whole_queue :: "dequeue_opts \<Rightarrow> (uuid \<Rightarrow> bool) \<Rightarrow> db \<Rightarrow> task list" where
  "whole_queue opts locked d = sort_key (dequeue_rank opts) (filter (candidate opts locked) (tasks d))"

section \<open>Lemmas\<close>


lemma filter_other_row:
  assumes "distinct (map t_id rows)" "t \<in> set rows" "\<not> Q c" "t_id c = t_id t"
  shows "filter Q (update_where (\<lambda>r. t_id r = t_id t) (\<lambda>_. c) rows) = filter (\<lambda>r. Q r \<and> t_id r \<noteq> t_id t) rows"
  using assms(1,2)
proof (induction rows)
  case (Cons a rows)
  show ?case
  proof (cases "t_id a = t_id t")
    case True
    then have "\<forall>r \<in> set rows. t_id r \<noteq> t_id t" using Cons.prems(1) by (auto simp: image_iff)
    then have "update_where (\<lambda>r. t_id r = t_id t) (\<lambda>_. c) rows = rows" "filter (\<lambda>r. Q r \<and> t_id r \<noteq> t_id t) rows = filter Q rows"
      by (auto intro!: update_none filter_cong)
    with True assms(3) show ?thesis by simp
  next
    case False
    with Cons show ?thesis by auto
  qed
qed simp

lemma wf_claim_task:
  assumes "wf_tasks d" "t \<in> set (tasks d)"
  shows "wf_tasks (snd (claim_task now tx_now t d))"
proof -
  have "map t_id (update_where (\<lambda>r. t_id r = t_id t) (\<lambda>_. (claim now t)\<lparr>t_updated := tx_now\<rparr>) rows) = map t_id rows" for rows
    by (induction rows) auto
  moreover have "next_uuid d \<le> next_uuid (snd (claim_task now tx_now t d))"
    by (simp add: claim_task_def Let_def)
  ultimately show ?thesis
    using assms(1) unfolding wf_tasks_def claim_task_tasks by (metis (no_types, lifting) image_iff image_set order_less_le_trans)
qed



lemma complete_task_tasks:
  "complete_task tx_now i status res tokens duration error d = Inr d1 \<Longrightarrow>
   tasks d1 = update_where (\<lambda>t. t_id t = i) (\<lambda>t. t\<lparr>t_status := status, t_result := res, t_tokens_used := Some tokens,
       t_duration_sec := duration, t_error := error, t_updated := tx_now\<rparr>) (tasks d)"
  by (auto simp: complete_task_def commit_task_event_def Let_def tasks_update_tasks split: if_splits)

lemma wf_complete_task:
  assumes "complete_task tx_now i status res tokens duration error d = Inr d1" "wf_tasks d"
  shows "wf_tasks d1"
  using assms wf_update_tasks [OF _ assms(2), of "\<lambda>t. t\<lparr>t_status := status, t_result := res, t_tokens_used := Some tokens,
       t_duration_sec := duration, t_error := error\<rparr>" tx_now "\<lambda>t. t_id t = i"]
  by (auto simp: complete_task_def commit_task_event_def Let_def split: if_splits)


section \<open>Order within a workflow\<close>





section \<open>The queue drains\<close>

text \<open>\<open>n\<close> rounds of one worker: claim a task, run it to its end.\<close>

fun serve_rounds ::
    "dequeue_opts \<Rightarrow> (uuid \<Rightarrow> bool) \<Rightarrow> datetime \<Rightarrow> datetime \<Rightarrow> nat \<Rightarrow> db \<Rightarrow> uuid list \<times> db" where
  "serve_rounds opts locked now tx_now 0 d = ([], d)"
| "serve_rounds opts locked now tx_now (Suc n) d =
     (case dequeue_task opts locked now tx_now d of
        Inr (Some t, d1) \<Rightarrow>
          (case complete_task tx_now (t_id t) Succeeded None 0 PNone None d1 of
             Inr d2 \<Rightarrow> (let (ids, d3) = serve_rounds opts locked now tx_now n d2 in (t_id t # ids, d3))
           | Inl _ \<Rightarrow> ([], d1))
      | _ \<Rightarrow> ([], d))"

definition worker_free :: "dequeue_opts \<Rightarrow> db \<Rightarrow> bool" where
  "worker_free opts d \<longleftrightarrow>
     (case dq_platform_max_running opts of None \<Rightarrow> True | Some m \<Rightarrow> 1 \<le> m \<and> running_count (\<lambda>_. True) d < m)
     \<and> dq_max_running opts = None \<and> dq_workflow_limits opts \<noteq> Some []"

definition all_open :: "dequeue_opts \<Rightarrow> (uuid \<Rightarrow> bool) \<Rightarrow> db \<Rightarrow> bool" where
  "all_open opts locked d \<longleftrightarrow> (\<forall>u \<in> set (tasks d). candidate opts locked u \<longrightarrow> \<not> over_limit opts d (t_workflow u))"

lemma dequeue_when_free:
  assumes "worker_free opts d" "dequeue_choice opts locked d = Some t"
  shows "dequeue_task opts locked now tx_now d = Inr (Some ((claim now t)\<lparr>t_updated := tx_now\<rparr>), snd (claim_task now tx_now t d))"
proof -
  have "(let (t', d') = claim_task now tx_now t d in (Some t', d')) =
      (Some ((claim now t)\<lparr>t_updated := tx_now\<rparr>), snd (claim_task now tx_now t d))"
    by (simp add: case_prod_beta)
  with assms show ?thesis
    by (auto simp: worker_free_def dequeue_task_def dequeue_within_def dequeue_loop_choice split: option.splits)
qed

text \<open>One round replaces the row of the claimed task by an ended one.\<close>

lemma round_effect:
  assumes "wf_tasks d" "dequeue_choice opts locked d = Some t"
  obtains d2 c where
    "complete_task tx_now (t_id t) Succeeded None 0 PNone None (snd (claim_task now tx_now t d)) = Inr d2"
    "tasks d2 = update_where (\<lambda>r. t_id r = t_id t) (\<lambda>_. c) (tasks d)"
    "t_id c = t_id t" "t_workflow c = t_workflow t" "t_status c = Succeeded" "wf_tasks d2"
proof -
  note in_d = dequeue_choice_Some(1) [OF assms(2)]
  let ?c = "(claim now t)\<lparr>t_updated := tx_now\<rparr>" and ?d1 = "snd (claim_task now tx_now t d)"
  let ?e = "?c\<lparr>t_status := Succeeded, t_result := None, t_tokens_used := Some 0, t_duration_sec := PNone, t_error := None, t_updated := tx_now\<rparr>"
  have wf1: "wf_tasks ?d1" by (rule wf_claim_task [OF assms(1) in_d])
  have "?c \<in> set (tasks ?d1)" using in_d by (force simp: claim_task_tasks set_update)
  from find_task_unique [OF wf_tasks_distinct [OF wf1] this] have "find_task ?d1 (t_id t) = Some ?c" by simp
  then obtain d2 where d2: "complete_task tx_now (t_id t) Succeeded None 0 PNone None ?d1 = Inr d2"
    by (auto simp: complete_task_def commit_task_event_def find_task_update Let_def)
  have "tasks d2 = update_where (\<lambda>r. t_id r = t_id t) (\<lambda>_. ?e) (tasks d)"
    unfolding complete_task_tasks [OF d2] claim_task_tasks by (simp add: update_where_def)
  from that [OF d2 this] wf_complete_task [OF d2 wf1] show ?thesis by simp
qed

lemma running_after_round:
  assumes "wf_tasks d" "t \<in> set (tasks d)" "t_status t \<noteq> Running" "t_status c \<noteq> Running"
    and "tasks d2 = update_where (\<lambda>r. t_id r = t_id t) (\<lambda>_. c) (tasks d)"
  shows "running_count P d2 = running_count P d"
  using count_update_one [OF wf_tasks_distinct [OF assms(1)] assms(2), of "\<lambda>r. t_status r = Running \<and> P r" "\<lambda>_. c"] assms(3,4,5)
  by (simp add: running_count_def count_status_def)

lemma round_keeps_limits:
  assumes "\<And>P. running_count P d2 = running_count P d"
  shows "worker_free opts d2 = worker_free opts d" "over_limit opts d2 = over_limit opts d"
  unfolding worker_free_def over_limit_def assms by simp_all

lemma whole_queue_round:
  assumes "wf_tasks d" "dequeue_choice opts locked d = Some t" "all_open opts locked d"
    and "tasks d2 = update_where (\<lambda>r. t_id r = t_id t) (\<lambda>_. c) (tasks d)" "t_id c = t_id t" "t_status c = Succeeded"
  shows "whole_queue opts locked d = t # whole_queue opts locked d2"
proof -
  note in_d = dequeue_choice_Some(1) [OF assms(2)]
  have "filter (eligible opts locked d) (tasks d) = filter (candidate opts locked) (tasks d)"
    using assms(3) by (auto simp: eligible_def all_open_def intro!: filter_cong)
  then obtain rest where q: "whole_queue opts locked d = t # rest"
    using assms(2) by (auto simp: dequeue_choice_def select_where_def first_row_def whole_queue_def split: list.splits)
  have dist: "distinct (map t_id (whole_queue opts locked d))"
    using wf_tasks_distinct [OF assms(1)] by (simp add: whole_queue_def distinct_map distinct_filter inj_on_def)
  have "whole_queue opts locked d2 = filter (\<lambda>u. t_id u \<noteq> t_id t) (whole_queue opts locked d)"
    unfolding whole_queue_def assms(4) filter_sort filter_filter
    by (subst filter_other_row [OF wf_tasks_distinct [OF assms(1)] in_d _ assms(5)])
      (use assms(6) in \<open>simp_all add: candidate_def status_lists\<close>)
  moreover have "filter (\<lambda>u. t_id u \<noteq> t_id t) rest = rest"
    using dist q by (intro filter_True) (auto simp: image_iff)
  ultimately show ?thesis by (simp add: q)
qed

text \<open>
  C25. With a free worker and no saturated workflow, as many rounds as there are tasks waiting serve them all, in
  the order of the queue (resumptions, priority, age), and leave nothing to claim.
\<close>

theorem queue_drains:
  assumes "wf_tasks d" "worker_free opts d" "all_open opts locked d"
  shows "fst (serve_rounds opts locked now tx_now (length (whole_queue opts locked d)) d) = map t_id (whole_queue opts locked d)
       \<and> whole_queue opts locked (snd (serve_rounds opts locked now tx_now (length (whole_queue opts locked d)) d)) = []"
  using assms
proof (induction "length (whole_queue opts locked d)" arbitrary: d)
  case (Suc n)
  have "dequeue_choice opts locked d \<noteq> None"
  proof
    assume "dequeue_choice opts locked d = None"
    then have "filter (candidate opts locked) (tasks d) = []"
      using Suc.prems(3) by (auto simp: dequeue_choice_None eligible_def all_open_def filter_empty_conv)
    with Suc.hyps(2) show False by (simp add: whole_queue_def)
  qed
  then obtain t where t: "dequeue_choice opts locked d = Some t" by blast
  note in_d = dequeue_choice_Some(1,2) [OF t]
  obtain d2 c where d2: "complete_task tx_now (t_id t) Succeeded None 0 PNone None (snd (claim_task now tx_now t d)) = Inr d2"
    and rows: "tasks d2 = update_where (\<lambda>r. t_id r = t_id t) (\<lambda>_. c) (tasks d)"
    and c: "t_id c = t_id t" "t_workflow c = t_workflow t" "t_status c = Succeeded" and wf2: "wf_tasks d2"
    using round_effect [OF Suc.prems(1) t] .
  have count: "running_count P d2 = running_count P d" for P
    by (rule running_after_round [OF Suc.prems(1) in_d(1) eligible_not_running [OF in_d(2)] _ rows]) (simp add: c)
  note limits = round_keeps_limits [OF count]
  have q: "whole_queue opts locked d = t # whole_queue opts locked d2"
    by (rule whole_queue_round [OF Suc.prems(1) t Suc.prems(3) rows c(1,3)])
  have "worker_free opts d2" using Suc.prems(2) by (simp add: limits)
  moreover have "all_open opts locked d2"
    using Suc.prems(3) c(3) by (auto simp: all_open_def rows set_update limits candidate_def status_lists split: if_splits)
  moreover have "n = length (whole_queue opts locked d2)" using Suc.hyps(2) q by simp
  ultimately have "fst (serve_rounds opts locked now tx_now n d2) = map t_id (whole_queue opts locked d2)
      \<and> whole_queue opts locked (snd (serve_rounds opts locked now tx_now n d2)) = []"
    using Suc.hyps(1) [of d2] wf2 by simp
  then show ?case
    unfolding Suc.hyps(2) [symmetric]
    by (simp add: dequeue_when_free [OF Suc.prems(2) t] d2 q case_prod_beta)
qed (simp add: whole_queue_def)

section \<open>The queue of one task\<close>

lemma demo_queue_open: "worker_free demo_opts demo_db" "all_open demo_opts (\<lambda>_. False) demo_db"
  by (simp_all add: worker_free_def all_open_def running_count_def count_status_def over_limit_def demo_simps)

lemma demo_whole_queue: "whole_queue demo_opts (\<lambda>_. False) demo_db = [demo_task]"
  by (simp add: whole_queue_def candidate_def status_lists demo_simps)

theorem queue_drains_witness:
  "fst (serve_rounds demo_opts (\<lambda>_. False) 200 200 (length (whole_queue demo_opts (\<lambda>_. False) demo_db)) demo_db) = [0]"
  using queue_drains [OF demo_wf demo_queue_open, of 200 200] by (simp add: demo_whole_queue) (simp add: demo_simps)


end
