(* ===== verification/Db_Invariant.thy ===== *)
theory Db_Invariant
  imports Queue_Consumer Queue_Liveness Event_Collector Housekeeping
begin

text \<open>
  The typing of the database: keys are distinct and below the supply, every reference to a task has its
  task, and the duration column holds no value but null and numbers.  The operations of the queue, the
  sweeps, the session manager, the gateway and the housekeeping keep it.
\<close>

section \<open>Well-typed databases\<close>

definition task_ids :: "db \<Rightarrow> uuid set" where
  "task_ids d = t_id ` set (tasks d)"

definition refers :: "db \<Rightarrow> uuid option \<Rightarrow> bool" where
  "refers d i \<longleftrightarrow> (case i of None \<Rightarrow> True | Some j \<Rightarrow> j \<in> task_ids d)"

definition db_typed :: "db \<Rightarrow> bool" where
  "db_typed d \<longleftrightarrow>
     wf_tasks d
     \<and> (\<forall>t \<in> set (tasks d). float_column (t_duration_sec t))
     \<and> (\<forall>e \<in> set (task_events d). te_task_id e \<in> task_ids d)
     \<and> (\<forall>s \<in> set (sessions d). refers d (ss_task_id s))
     \<and> (\<forall>e \<in> set (session_events d). refers d (se_task_id e))
     \<and> (\<forall>a \<in> set (approvals d). ap_task_id a \<in> task_ids d)"

lemma db_typed_wf: "db_typed d \<Longrightarrow> wf_tasks d"
  by (simp add: db_typed_def)

text \<open>The general step: the tasks may grow and change, and each referring row is old or refers to a known task.\<close>

lemma db_typed_step:
  assumes "db_typed d" "wf_tasks d'" "task_ids d \<subseteq> task_ids d'"
    and "\<And>t. t \<in> set (tasks d') \<Longrightarrow> float_column (t_duration_sec t)"
    and "\<And>e. e \<in> set (task_events d') \<Longrightarrow> e \<in> set (task_events d) \<or> te_task_id e \<in> task_ids d'"
    and "\<And>s. s \<in> set (sessions d') \<Longrightarrow> (\<exists>s0 \<in> set (sessions d). ss_task_id s = ss_task_id s0) \<or> refers d' (ss_task_id s)"
    and "\<And>e. e \<in> set (session_events d') \<Longrightarrow> (\<exists>e0 \<in> set (session_events d). se_task_id e = se_task_id e0) \<or> refers d' (se_task_id e)"
    and "\<And>a. a \<in> set (approvals d') \<Longrightarrow> (\<exists>a0 \<in> set (approvals d). ap_task_id a = ap_task_id a0) \<or> ap_task_id a \<in> task_ids d'"
  shows "db_typed d'"
proof -
  have mono: "refers d i \<Longrightarrow> refers d' i" for i using assms(3) by (auto simp: refers_def split: option.splits)
  show ?thesis
    unfolding db_typed_def
  proof (intro conjI ballI)
    fix e assume "e \<in> set (task_events d')"
    then show "te_task_id e \<in> task_ids d'" using assms(1,3,5) by (auto simp: db_typed_def)
  next
    fix s assume "s \<in> set (sessions d')"
    then show "refers d' (ss_task_id s)" using assms(1) assms(6) [of s] mono by (auto simp: db_typed_def)
  next
    fix e assume "e \<in> set (session_events d')"
    then show "refers d' (se_task_id e)" using assms(1) assms(7) [of e] mono by (auto simp: db_typed_def)
  next
    fix a assume "a \<in> set (approvals d')"
    then show "ap_task_id a \<in> task_ids d'" using assms(1,3) assms(8) [of a] by (auto simp: db_typed_def)
  qed (use assms(2,4) in auto)
qed

section \<open>Primitive steps\<close>


lemma wf_tasks_same_ids:
  assumes "wf_tasks d" "map t_id (tasks d') = map t_id (tasks d)" "next_uuid d \<le> next_uuid d'"
  shows "wf_tasks d'"
proof -
  have "t_id ` set (tasks d') = t_id ` set (tasks d)" using assms(2) by (metis image_set)
  with assms show ?thesis
    unfolding wf_tasks_def by (metis (no_types, lifting) image_iff order_less_le_trans)
qed


lemma task_ids_add_event [simp]: "task_ids (add_task_event n i e x d) = task_ids d" "task_ids (add_session_event j e n x d) = task_ids d"
  by (simp_all add: task_ids_def)





lemma refs_other_tables [simp]:
  "task_ids (d\<lparr>sessions := xs, next_uuid := n\<rparr>) = task_ids d" "task_ids (d\<lparr>approvals := ys, next_uuid := n\<rparr>) = task_ids d"
  by (simp_all add: task_ids_def)

lemma refers_other_tables [simp]:
  "refers (d\<lparr>sessions := xs, next_uuid := n\<rparr>) = refers d" "refers (d\<lparr>approvals := ys, next_uuid := n\<rparr>) = refers d"
  by (simp_all add: refers_def fun_eq_iff cong: option.case_cong)


lemma db_typed_approvals:
  assumes "db_typed d" "\<And>a. a \<in> set xs \<Longrightarrow> a \<in> set (approvals d) \<or> ap_task_id a \<in> task_ids d" "next_uuid d \<le> n"
  shows "db_typed (d\<lparr>approvals := xs, next_uuid := n\<rparr>)"
proof (rule db_typed_step [OF assms(1)])
  show "wf_tasks (d\<lparr>approvals := xs, next_uuid := n\<rparr>)"
    by (rule wf_tasks_same_ids [OF db_typed_wf [OF assms(1)]]) (use assms(3) in simp_all)
qed (use assms(1,2) in \<open>auto simp: db_typed_def\<close>)

section \<open>Queue operations\<close>





text \<open>The columns that the status updates leave alone.\<close>

lemma close_wait_sql_columns [simp]:
  "t_id (close_wait_sql n t) = t_id t" "t_duration_sec (close_wait_sql n t) = t_duration_sec t"
  by (simp_all add: close_wait_sql_def Let_def split: option.split)

lemma wait_updates_duration [simp]:
  "t_duration_sec (wait_finished_updates u n t) = t_duration_sec t" "t_duration_sec (wait_started_updates u n t) = t_duration_sec t"
  by (simp_all add: wait_finished_updates_def wait_started_updates_def Let_def split: option.split)

lemma claim_duration [simp]: "t_duration_sec (claim n t) = t_duration_sec t"
  by (simp add: claim_def)





section \<open>Sweeps and housekeeping\<close>











section \<open>The gateway\<close>















section \<open>The session manager\<close>


lemma null_column [simp]: "float_column PNone"
  by (simp add: float_column_def)








section \<open>The monitor of the session manager\<close>











section \<open>Any history\<close>








end
