(* ===== verification/Trace_Tree.thy ===== *)
theory Trace_Tree
  imports Secrets Event_Collector
begin

text \<open>
  \<open>shared/lib/trace_tree.py\<close>: the trace of a session, a tree built from its recorded events.  The nodes are
  objects that several maps of the builder share, so they live in a store: a list of nodes, each named by
  its position, with position 0 the root.  Events have the shape \<open>get_session_detail\<close> gives them.
  \<open>json.loads\<close> is a parameter.
\<close>

section \<open>Texts\<close>

text \<open>\<open>s.replace(old, new)\<close> for a non-empty \<open>old\<close>.\<close>

function replace_all :: "string \<Rightarrow> string \<Rightarrow> string \<Rightarrow> string" where
  "replace_all old new [] = []"
| "replace_all old new (c # s) =
     (if starts_with old (c # s) \<and> old \<noteq> [] then new @ replace_all old new (drop (length old) (c # s))
      else c # replace_all old new s)"
  by pat_completeness auto
termination
  by (relation "measure (\<lambda>(_, _, s). length s)") (auto simp: neq_Nil_conv)

text \<open>\<open>re.search\<close>: the first position at which \<open>match\<close> succeeds.\<close>

fun search_first :: "(string \<Rightarrow> 'a option) \<Rightarrow> string \<Rightarrow> 'a option" where
  "search_first match [] = match []"
| "search_first match (c # s) = (case match (c # s) of Some x \<Rightarrow> Some x | None \<Rightarrow> search_first match s)"

definition nonempty_run :: "(char \<Rightarrow> bool) \<Rightarrow> string \<Rightarrow> string option" where
  "nonempty_run P s = (let run = takeWhile P s in if run = [] then None else Some run)"

text \<open>\<open>([^q]+)q\<close>.\<close>

definition until_quote :: "char \<Rightarrow> string \<Rightarrow> string option" where
  "until_quote q s =
     (let run = takeWhile (\<lambda>c. c \<noteq> q) s in if run = [] \<or> length run = length s then None else Some run)"

text \<open>\<open>"key"\s*:\s*"([^"]+)"\<close> for the first of the keys that matches here.\<close>

definition quoted_field_at :: "string \<Rightarrow> string \<Rightarrow> string option" where
  "quoted_field_at key s =
     (let name = [CHR 0x22] @ key @ [CHR 0x22] in
      if \<not> starts_with name s then None
      else let t = lstrip (drop (length name) s) in
        if \<not> starts_with '':'' t then None
        else let u = lstrip (drop 1 t) in
          if \<not> starts_with [CHR 0x22] u then None else until_quote (CHR 0x22) (drop 1 u))"

definition search_field :: "string list \<Rightarrow> string \<Rightarrow> string option" where
  "search_field keys s = search_first (\<lambda>t. first_row (List.map_filter (\<lambda>k. quoted_field_at k t) keys)) s"

definition str_field :: "pydict \<Rightarrow> string \<Rightarrow> string option" where
  "str_field d key = (case dict_get d key of PStr s \<Rightarrow> Some s | _ \<Rightarrow> None)"

definition or_else :: "'a option \<Rightarrow> 'a option \<Rightarrow> 'a option" where
  "or_else a b = (case a of None \<Rightarrow> b | Some x \<Rightarrow> Some x)"

definition list_or_empty :: "pyval \<Rightarrow> pyval list" where
  "list_or_empty v = (case v of PList vs \<Rightarrow> vs | _ \<Rightarrow> [])"

section \<open>Reading previews\<close>

text \<open>\<open>json.dumps(v, indent=2)\<close>; \<open>pad\<close> is the current indentation.\<close>

fun json_pretty :: "string \<Rightarrow> pyval \<Rightarrow> string"
  and pretty_items :: "string \<Rightarrow> pydict \<Rightarrow> string list"
  and pretty_list :: "string \<Rightarrow> pyval list \<Rightarrow> string list" where
  "json_pretty pad (PList vs) =
     (if vs = [] then ''[]''
      else ''['' @ newline @ join ('','' @ newline) (pretty_list (pad @ ''  '') vs) @ newline @ pad @ '']'')"
| "json_pretty pad (PDict d) =
     (if d = [] then ''{}''
      else ''{'' @ newline @ join ('','' @ newline) (pretty_items (pad @ ''  '') d) @ newline @ pad @ ''}'')"
| "json_pretty pad PNone = json_dumps PNone"
| "json_pretty pad (PBool b) = json_dumps (PBool b)"
| "json_pretty pad (PInt i) = json_dumps (PInt i)"
| "json_pretty pad (PFloat q) = json_dumps (PFloat q)"
| "json_pretty pad (PStr s) = json_dumps (PStr s)"
| "pretty_items pad [] = []"
| "pretty_items pad ((k, v) # d) = (pad @ json_string k @ '': '' @ json_pretty pad v) # pretty_items pad d"
| "pretty_list pad [] = []"
| "pretty_list pad (v # vs) = (pad @ json_pretty pad v) # pretty_list pad vs"

definition format_trace_body :: "parser \<Rightarrow> string \<Rightarrow> string" where
  "format_trace_body json s = (case json s of None \<Rightarrow> s | Some v \<Rightarrow> json_pretty [] v)"

text \<open>
  An instant in milliseconds; \<open>fromtimestamp\<close> rounds to microseconds and rejects years outside 1 to 9999.
\<close>

definition epoch_to_iso :: "pyval \<Rightarrow> string \<Rightarrow> string" where
  "epoch_to_iso v fallback =
     (case number_value v of
        None \<Rightarrow> fallback
      | Some q \<Rightarrow>
          (let us = (let n = \<lfloor>q * 1000000\<rfloor>; f = q * 1000000 - of_int n
                     in if f < 1 / 2 then n else if f > 1 / 2 then n + 1 else if even n then n else n + 1);
               secs = us div 1000000; ms = nat (us mod 1000000) div 1000;
               sod = nat (secs mod 86400); (y, m, d) = civil_from_days (secs div 86400)
           in if y < 1 \<or> 9999 < y then fallback
              else pad_num 4 (nat y) @ ''-'' @ pad_num 2 (nat m) @ ''-'' @ pad_num 2 (nat d) @ ''T''
                @ pad_num 2 (sod div 3600) @ '':'' @ pad_num 2 (sod div 60 mod 60) @ '':'' @ pad_num 2 (sod mod 60)
                @ ''.'' @ pad_num 3 ms @ ''Z''))"

definition flat_text :: "pyval list \<Rightarrow> string" where
  "flat_text content =
     strip (join (newline @ newline)
       (List.map_filter (\<lambda>b. if dict_get (dict_or_empty b) ''type'' = PStr ''text''
          then str_field (dict_or_empty b) ''text'' else None) content))"

definition parse_agent_preview :: "parser \<Rightarrow> string \<Rightarrow> string \<times> string option" where
  "parse_agent_preview json input =
     (case json input of
        Some (PDict parsed) \<Rightarrow>
          ((case or_else (str_field parsed ''subagent_type'') (str_field parsed ''description'') of
              None \<Rightarrow> ''subagent'' | Some n \<Rightarrow> n), str_field parsed ''description'')
      | _ \<Rightarrow>
          ((case or_else (search_field [''subagent_type''] input) (search_field [''description''] input) of
              None \<Rightarrow> ''subagent'' | Some n \<Rightarrow> n), search_field [''description''] input))"

definition parse_skill_preview :: "parser \<Rightarrow> string \<Rightarrow> string option" where
  "parse_skill_preview json input =
     (case json input of
        Some (PDict parsed) \<Rightarrow> or_else (str_field parsed ''skill'') (search_field [''skill''] input)
      | _ \<Rightarrow> search_field [''skill''] input)"

text \<open>Recipient, message and summary.\<close>

definition parse_send_message_preview :: "parser \<Rightarrow> string \<Rightarrow> string option \<times> string option \<times> string option" where
  "parse_send_message_preview json input =
     (case json input of
        Some (PDict parsed) \<Rightarrow>
          (or_else (str_field parsed ''to'') (str_field parsed ''recipient''),
           or_else (str_field parsed ''message'') (str_field parsed ''content''), str_field parsed ''summary'')
      | _ \<Rightarrow> (search_field [''to'', ''recipient''] input, search_field [''message'', ''content''] input,
            search_field [''summary''] input))"

definition summarize_task_type :: "pyval \<Rightarrow> string option" where
  "summarize_task_type v =
     (case v of PStr s \<Rightarrow> if strip s = [] then None else Some (replace_char (CHR ''_'') (CHR '' '') s) | _ \<Rightarrow> None)"

definition is_duplicate_narrative :: "string option \<Rightarrow> string option \<Rightarrow> bool" where
  "is_duplicate_narrative left right \<longleftrightarrow>
     (let l = (case left of None \<Rightarrow> [] | Some s \<Rightarrow> strip s); r = (case right of None \<Rightarrow> [] | Some s \<Rightarrow> strip s);
          prefix_length = min (min (length l) (length r)) 280
      in l \<noteq> [] \<and> r \<noteq> [] \<and> (l = r \<or> take prefix_length l = take prefix_length r))"

text \<open>\<open>^mcp__([^_]+)__(.+)$\<close>: the server and the tool.\<close>

definition mcp_parts :: "string \<Rightarrow> (string \<times> string) option" where
  "mcp_parts name =
     (if \<not> starts_with ''mcp__'' name then None
      else
        let server = takeWhile (\<lambda>c. c \<noteq> CHR ''_'') (drop 5 name);
            rest = drop (5 + length server) name; tool = before_newline (drop 2 rest)
        in if server \<noteq> [] \<and> starts_with ''__'' rest \<and> tool \<noteq> [] \<and> CHR 0x0A \<notin> set tool then Some (server, tool) else None)"

text \<open>\<open>tool_name.split("__")[1]\<close> of a name that starts with \<open>mcp__\<close>.\<close>

definition mcp_server :: "string \<Rightarrow> string" where
  "mcp_server name = (let t = drop 5 name in case find_from 0 ''__'' t of None \<Rightarrow> t | Some k \<Rightarrow> take k t)"

text \<open>\<open>agentId:\s*['"]?([\w-]+)\<close>.\<close>

definition agent_id_at :: "string \<Rightarrow> string option" where
  "agent_id_at s =
     (if \<not> starts_with ''agentId:'' s then None
      else let t = lstrip (drop 8 s) in
        nonempty_run (\<lambda>c. word_char c \<or> c = CHR ''-'')
          (if starts_with [CHR 0x27] t \<or> starts_with [CHR 0x22] t then drop 1 t else t))"

section \<open>Results that were recorded as text\<close>

text \<open>\<open>tool_use_id='([^']+)'\<close>.\<close>

definition repr_tool_id :: "string \<Rightarrow> string option" where
  "repr_tool_id s =
     search_first (\<lambda>t. if starts_with ''tool_use_id='' t \<and> starts_with [CHR 0x27] (drop 12 t)
       then until_quote (CHR 0x27) (drop 13 t) else None) s"

text \<open>\<open>s.rfind(p)\<close>.\<close>

fun rfind_from :: "nat \<Rightarrow> string \<Rightarrow> string \<Rightarrow> nat option" where
  "rfind_from k p [] = (if p = [] then Some k else None)"
| "rfind_from k p (c # s) =
     (case rfind_from (Suc k) p s of Some i \<Rightarrow> Some i | None \<Rightarrow> if starts_with p (c # s) then Some k else None)"

text \<open>Removal of an ending; the pattern's \<open>$\<close> also matches before a final newline.\<close>

definition drop_ending :: "string list \<Rightarrow> string \<Rightarrow> string" where
  "drop_ending endings s =
     (let t = before_newline s; rest = drop (length t) s
      in case filter (\<lambda>e. length e \<le> length t \<and> drop (length t - length e) t = e) endings of
           [] \<Rightarrow> s | e # _ \<Rightarrow> take (length t - length e) t @ rest)"

definition repr_body :: "string \<Rightarrow> string" where
  "repr_body s =
     (case find_from 0 ''content='' s of
        None \<Rightarrow> []
      | Some start \<Rightarrow>
          (let raw = (case rfind_from 0 '', is_error='' s of
                 Some stop \<Rightarrow> if start + 8 < stop then drop (start + 8) (take stop s) else drop (start + 8) s
               | None \<Rightarrow> drop (start + 8) s);
               b1 = (if starts_with [CHR 0x27] raw then drop 1 raw else raw);
               b2 = drop_ending [[CHR 0x27, CHR '']'', CHR '')''], [CHR 0x27, CHR '']'']] b1;
               b3 = drop_ending [[CHR 0x27]] b2
           in replace_all [CHR 0x5C, CHR 0x27] [CHR 0x27] (replace_all [CHR 0x5C, CHR ''n''] newline b3)))"

section \<open>The nodes and the state of the builder\<close>

record tnode =
  tn_id :: string
  tn_kind :: string
  tn_timestamp :: string
  tn_label :: string
  tn_detail :: "string option"
  tn_body :: "string option"
  tn_is_error :: bool
  tn_badge :: "string option"
  tn_children :: "nat list"
  tn_raw :: pyval
  tn_meta :: "(string \<times> string) list"

definition tnode_of :: "string \<Rightarrow> string \<Rightarrow> string \<Rightarrow> string \<Rightarrow> pyval \<Rightarrow> tnode" where
  "tnode_of i kind ts label raw =
     \<lparr>tn_id = i, tn_kind = kind, tn_timestamp = ts, tn_label = label, tn_detail = None, tn_body = None,
      tn_is_error = False, tn_badge = None, tn_children = [], tn_raw = raw, tn_meta = []\<rparr>"

record trace_stats =
  tr_tool_calls :: int
  tr_tool_errors :: int
  tr_assistant_messages :: int
  tr_subagent_spawns :: int
  tr_total_turns :: pyval
  tr_tokens_in :: pyval
  tr_tokens_out :: pyval

record trace_event =
  tv_id :: string
  tv_event_type :: string
  tv_timestamp :: string
  tv_data :: pyval

record trace_state =
  tb_nodes :: "tnode list"
  tb_heartbeats :: "trace_event list"
  tb_tool_names :: "(string \<times> string) list"
  tb_pending :: "(string \<times> nat) list"
  tb_message_tools :: "string list"
  tb_by_task :: "(string \<times> nat) list"
  tb_by_tool :: "(string \<times> nat) list"
  tb_agent_names :: "(string \<times> string) list"
  tb_results :: "nat list"
  tb_skills :: "string list"
  tb_mcps :: "string list"
  tb_default_agent :: "string option"
  tb_active :: "nat option"
  tb_stats :: trace_stats

definition initial_trace :: "string \<Rightarrow> trace_state" where
  "initial_trace first_ts =
     \<lparr>tb_nodes = [tnode_of ''root'' ''session'' first_ts ''Trace'' PNone], tb_heartbeats = [], tb_tool_names = [],
      tb_pending = [], tb_message_tools = [], tb_by_task = [], tb_by_tool = [], tb_agent_names = [], tb_results = [],
      tb_skills = [], tb_mcps = [], tb_default_agent = None, tb_active = None,
      tb_stats = \<lparr>tr_tool_calls = 0, tr_tool_errors = 0, tr_assistant_messages = 0, tr_subagent_spawns = 0,
        tr_total_turns = PInt 0, tr_tokens_in = PInt 0, tr_tokens_out = PInt 0\<rparr>\<rparr>"

definition node_at :: "trace_state \<Rightarrow> nat \<Rightarrow> tnode" where
  "node_at st a = tb_nodes st ! a"

definition set_node :: "nat \<Rightarrow> (tnode \<Rightarrow> tnode) \<Rightarrow> trace_state \<Rightarrow> trace_state" where
  "set_node a f st = st\<lparr>tb_nodes := (tb_nodes st)[a := f (node_at st a)]\<rparr>"

text \<open>\<open>parent.children.append(TraceNodeResponse(...))\<close>; the new node gets the next position.\<close>

definition append_child :: "nat \<Rightarrow> tnode \<Rightarrow> trace_state \<Rightarrow> trace_state" where
  "append_child p n st =
     (let st1 = set_node p (\<lambda>x. x\<lparr>tn_children := tn_children x @ [length (tb_nodes st)]\<rparr>) st
      in st1\<lparr>tb_nodes := tb_nodes st1 @ [n]\<rparr>)"

definition next_node :: "trace_state \<Rightarrow> nat" where
  "next_node st = length (tb_nodes st)"

definition current_parent :: "trace_state \<Rightarrow> nat" where
  "current_parent st = (case tb_active st of None \<Rightarrow> 0 | Some a \<Rightarrow> a)"

definition resolve_msg_parent :: "trace_state \<Rightarrow> pydict \<Rightarrow> nat" where
  "resolve_msg_parent st msg =
     (case str_field msg ''parent_tool_use_id'' of
        None \<Rightarrow> 0
      | Some pid \<Rightarrow> if pid = [] then 0 else case map_of (tb_by_tool st) pid of None \<Rightarrow> 0 | Some a \<Rightarrow> a)"

definition count_stat :: "(trace_stats \<Rightarrow> trace_stats) \<Rightarrow> trace_state \<Rightarrow> trace_state" where
  "count_stat f st = st\<lparr>tb_stats := f (tb_stats st)\<rparr>"

section \<open>Messages of a conversation batch\<close>

text \<open>\<open>f"{event_id}-{tag}-{i}"\<close>.\<close>

definition message_id :: "string \<Rightarrow> string \<Rightarrow> nat \<Rightarrow> string" where
  "message_id event_id tag i = event_id @ ''-'' @ tag @ ''-'' @ nat_str i"

definition on_user :: "string \<Rightarrow> nat \<Rightarrow> string \<Rightarrow> pydict \<Rightarrow> trace_state \<Rightarrow> trace_state" where
  "on_user event_id i ts msg st =
     (let body = flat_text (list_or_empty (dict_get msg ''content''))
      in if body = [] then st
         else append_child (resolve_msg_parent st msg)
                ((tnode_of (message_id event_id ''u'' i) ''user'' ts ''User'' (PDict msg))\<lparr>tn_body := Some body\<rparr>) st)"

definition thinking_text :: "pyval list \<Rightarrow> string" where
  "thinking_text content =
     strip (join (newline @ newline)
       (List.map_filter (\<lambda>b. if dict_get (dict_or_empty b) ''type'' = PStr ''thinking''
          then str_field (dict_or_empty b) ''preview'' else None) content))"

definition tool_blocks :: "pyval list \<Rightarrow> pydict list" where
  "tool_blocks content =
     filter (\<lambda>d. dict_get d ''type'' = PStr ''tool_use'') (map dict_or_empty (filter is_dict content))"

text \<open>What the builder reads from a tool block.\<close>

record tool_call =
  tc_id :: string
  tc_name :: string
  tc_preview :: "string option"
  tc_skill :: "string option"

definition read_tool_call :: "parser \<Rightarrow> string \<Rightarrow> nat \<Rightarrow> pydict \<Rightarrow> tool_call" where
  "read_tool_call json event_id i block =
     (let name = (case str_field block ''name'' of None \<Rightarrow> ''unknown_tool'' | Some n \<Rightarrow> n);
          preview = str_field block ''input_preview''
      in \<lparr>tc_id = (case str_field block ''id'' of None \<Rightarrow> event_id @ ''-'' @ nat_str i @ ''-tc'' | Some t \<Rightarrow> t),
          tc_name = name, tc_preview = preview,
          tc_skill = (if name = ''Skill'' then case preview of None \<Rightarrow> None | Some p \<Rightarrow> parse_skill_preview json p
                      else None)\<rparr>)"

text \<open>A skill name that is not empty; the empty text counts as none.\<close>

definition skill_of :: "tool_call \<Rightarrow> string option" where
  "skill_of c = (case tc_skill c of None \<Rightarrow> None | Some n \<Rightarrow> if n = [] then None else Some n)"

definition register_tool :: "tool_call \<Rightarrow> trace_state \<Rightarrow> trace_state" where
  "register_tool c st =
     (let name = (case skill_of c of None \<Rightarrow> tc_name c | Some s \<Rightarrow> s);
          server = mcp_server (tc_name c)
      in count_stat (\<lambda>s. s\<lparr>tr_tool_calls := tr_tool_calls s + 1\<rparr>)
           (st\<lparr>tb_tool_names := AList.update (tc_id c) name (tb_tool_names st),
               tb_skills := tb_skills st @ (case skill_of c of None \<Rightarrow> [] | Some s \<Rightarrow> [s]),
               tb_mcps := tb_mcps st @ (if starts_with ''mcp__'' (tc_name c) \<and> server \<noteq> [] then [server] else []),
               tb_message_tools := tb_message_tools st @ (if tc_name c = ''SendMessage'' then [tc_id c] else [])\<rparr>))"

text \<open>Stripped recipient and text of an internal message, when both are there.\<close>

definition internal_message :: "parser \<Rightarrow> tool_call \<Rightarrow> (string \<times> string) option" where
  "internal_message json c =
     (case tc_preview c of
        None \<Rightarrow> None
      | Some p \<Rightarrow>
          (case parse_send_message_preview json p of
             (Some recipient, Some message, _) \<Rightarrow>
               if strip recipient = [] \<or> strip message = [] then None else Some (strip recipient, strip message)
           | _ \<Rightarrow> None))"

definition middle_dot :: string where
  "middle_dot = [CHR '' '', CHR 0xC2, CHR 0xB7, CHR '' '']"

definition tool_label :: "tool_call \<Rightarrow> string" where
  "tool_label c =
     (case mcp_parts (tc_name c) of
        Some (server, tool) \<Rightarrow> server @ middle_dot @ tool
      | None \<Rightarrow> (case skill_of c of None \<Rightarrow> tc_name c | Some s \<Rightarrow> s))"

definition tool_meta :: "tool_call \<Rightarrow> string option \<Rightarrow> (string \<times> string) list" where
  "tool_meta c recipient =
     [(''tool_use_id'', tc_id c)] @ (case recipient of None \<Rightarrow> [] | Some r \<Rightarrow> [(''recipient_id'', r)])
     @ (case skill_of c of None \<Rightarrow> [] | Some s \<Rightarrow> [(''skill'', s)])"

definition tool_node :: "parser \<Rightarrow> string \<Rightarrow> string \<Rightarrow> pydict \<Rightarrow> tool_call \<Rightarrow> string \<Rightarrow> (string \<times> string) option \<Rightarrow> tnode" where
  "tool_node json event_id ts block c sender message =
     (let i = event_id @ ''-tc-'' @ tc_id c; skill = skill_of c;
          badge = (if skill \<noteq> None then Some ''SKILL'' else if mcp_parts (tc_name c) \<noteq> None then Some ''MCP'' else None)
      in case message of
           Some (recipient, message_text) \<Rightarrow>
             (tnode_of i ''messaging'' ts (sender @ '' -> '' @ recipient) (PDict block))
               \<lparr>tn_body := Some message_text, tn_badge := badge, tn_meta := tool_meta c (Some recipient)\<rparr>
         | None \<Rightarrow>
             (tnode_of i ''tool_call'' ts (tool_label c) (PDict block))
               \<lparr>tn_body := (if skill \<noteq> None then None else map_option (format_trace_body json) (tc_preview c)),
                tn_badge := badge, tn_meta := tool_meta c None\<rparr>)"

definition on_agent_call :: "parser \<Rightarrow> string \<Rightarrow> string \<Rightarrow> pydict \<Rightarrow> tool_call \<Rightarrow> nat \<Rightarrow> trace_state \<Rightarrow> trace_state" where
  "on_agent_call json event_id ts block c parent st =
     (let (agent_name, agent_detail) =
            (case tc_preview c of None \<Rightarrow> (''subagent'', None) | Some p \<Rightarrow> parse_agent_preview json p);
          a = next_node st;
          node = (tnode_of (event_id @ ''-sub-'' @ tc_id c) ''subagent'' ts agent_name (PDict block))
                   \<lparr>tn_detail := agent_detail, tn_meta := [(''tool_use_id'', tc_id c)]\<rparr>;
          st1 = append_child parent node (count_stat (\<lambda>s. s\<lparr>tr_subagent_spawns := tr_subagent_spawns s + 1\<rparr>) st)
      in st1\<lparr>tb_active := Some a, tb_by_tool := AList.update (tc_id c) a (tb_by_tool st1),
             tb_pending := AList.update (tc_id c) a (tb_pending st1)\<rparr>)"

definition on_tool_block :: "parser \<Rightarrow> string \<Rightarrow> nat \<Rightarrow> string \<Rightarrow> pydict \<Rightarrow> trace_state \<Rightarrow> pydict \<Rightarrow> trace_state" where
  "on_tool_block json event_id i ts msg st0 block =
     (let c = read_tool_call json event_id i block;
          st = register_tool c st0;
          parent = resolve_msg_parent st msg;
          sender = (if parent = 0 then (case tb_default_agent st of None \<Rightarrow> ''Coordinator'' | Some d \<Rightarrow> d)
                    else tn_label (node_at st parent));
          message = (if tc_name c = ''SendMessage'' then internal_message json c else None)
      in if tc_name c = ''SendMessage'' \<and> message = None then st
         else if tc_name c = ''Agent'' then on_agent_call json event_id ts block c parent st
         else
           let a = next_node st; st1 = append_child parent (tool_node json event_id ts block c sender message) st
           in st1\<lparr>tb_pending := AList.update (tc_id c) a (tb_pending st1)\<rparr>)"

definition on_assistant :: "parser \<Rightarrow> string \<Rightarrow> nat \<Rightarrow> string \<Rightarrow> pydict \<Rightarrow> trace_state \<Rightarrow> trace_state" where
  "on_assistant json event_id i ts msg st =
     (let content = list_or_empty (dict_get msg ''content'');
          body = flat_text content; thinking = thinking_text content;
          st1 = (if body = [] then st
                 else append_child (resolve_msg_parent st msg)
                        ((tnode_of (message_id event_id ''a'' i) ''assistant'' ts [] (PDict msg))\<lparr>tn_body := Some body\<rparr>)
                        (count_stat (\<lambda>s. s\<lparr>tr_assistant_messages := tr_assistant_messages s + 1\<rparr>) st));
          st2 = (if thinking = [] then st1
                 else append_child (resolve_msg_parent st1 msg)
                        ((tnode_of (message_id event_id ''think'' i) ''thinking'' ts ''Reasoning'' (PDict msg))
                           \<lparr>tn_body := Some thinking\<rparr>) st1)
      in foldl (on_tool_block json event_id i ts msg) st2 (tool_blocks content))"

text \<open>
  A tool result goes under the call that waits for it.  Good results of messages and of subagents are
  dropped; \<open>preview\<close> is the text that may name the subagent, which only the structured form has.
\<close>

definition resolve_call :: "string \<Rightarrow> trace_state \<Rightarrow> trace_state" where
  "resolve_call tool_use_id st = st\<lparr>tb_pending := AList.delete tool_use_id (tb_pending st)\<rparr>"

definition name_agent :: "nat \<Rightarrow> string option \<Rightarrow> trace_state \<Rightarrow> trace_state" where
  "name_agent call preview st =
     (case (case preview of None \<Rightarrow> None | Some p \<Rightarrow> search_first agent_id_at p) of
        None \<Rightarrow> st
      | Some agent_id \<Rightarrow>
          set_node call (\<lambda>n. n\<lparr>tn_meta := AList.update ''agent_id'' agent_id (tn_meta n)\<rparr>)
            (st\<lparr>tb_agent_names := AList.update agent_id (tn_label (node_at st call)) (tb_agent_names st)\<rparr>))"

definition attach_result :: "string \<Rightarrow> bool \<Rightarrow> string option \<Rightarrow> pydict \<Rightarrow> tnode \<Rightarrow> trace_state \<Rightarrow> trace_state" where
  "attach_result tool_use_id is_err preview msg result_node st =
     (if \<not> is_err \<and> tool_use_id \<in> set (tb_message_tools st) then resolve_call tool_use_id st
      else case map_of (tb_pending st) tool_use_id of
        None \<Rightarrow> append_child (resolve_msg_parent st msg) result_node st
      | Some call \<Rightarrow>
          (let kind = tn_kind (node_at st call);
               st1 = (if kind = ''subagent'' then name_agent call preview st else st)
           in resolve_call tool_use_id
                (if kind \<in> {''messaging'', ''subagent''} \<and> \<not> is_err then st1 else append_child call result_node st1)))"

definition count_error :: "bool \<Rightarrow> trace_state \<Rightarrow> trace_state" where
  "count_error is_err st =
     (if is_err then count_stat (\<lambda>s. s\<lparr>tr_tool_errors := tr_tool_errors s + 1\<rparr>) st else st)"

definition result_node :: "parser \<Rightarrow> string \<Rightarrow> string \<Rightarrow> pydict \<Rightarrow> string \<Rightarrow> string \<Rightarrow> bool \<Rightarrow> tnode" where
  "result_node json i ts msg tool_use_id body is_err =
     (tnode_of i ''tool_result'' ts [] (PDict msg))
       \<lparr>tn_body := Some (format_trace_body json body), tn_is_error := is_err, tn_meta := [(''tool_use_id'', tool_use_id)]\<rparr>"

definition text_or_empty :: "string option \<Rightarrow> string" where
  "text_or_empty x = (case x of None \<Rightarrow> [] | Some t \<Rightarrow> t)"

definition on_tool_result :: "parser \<Rightarrow> string \<Rightarrow> nat \<Rightarrow> string \<Rightarrow> pydict \<Rightarrow> trace_state \<Rightarrow> trace_state" where
  "on_tool_result json event_id i ts msg st =
     (let tool_use_id = text_or_empty (str_field msg ''tool_use_id'');
          preview = text_or_empty (str_field msg ''content_preview'');
          is_err = truthy (dict_get msg ''is_error'')
      in attach_result tool_use_id is_err (Some preview) msg
           (result_node json (message_id event_id ''tr'' i) ts msg tool_use_id preview is_err) (count_error is_err st))"

definition on_unknown :: "parser \<Rightarrow> string \<Rightarrow> nat \<Rightarrow> string \<Rightarrow> pydict \<Rightarrow> string \<Rightarrow> trace_state \<Rightarrow> trace_state" where
  "on_unknown json event_id i ts msg repr st =
     (case repr_tool_id repr of
        None \<Rightarrow> st
      | Some tool_use_id \<Rightarrow>
          (let is_err = occurs_in ''is_error=True'' repr
           in attach_result tool_use_id is_err None msg
                (result_node json (message_id event_id ''utr'' i) ts msg tool_use_id (repr_body repr) is_err)
                (count_error is_err st)))"

section \<open>System messages\<close>

definition is_subagent_return :: "tnode \<Rightarrow> bool" where
  "is_subagent_return n \<longleftrightarrow> map_of (tn_meta n) ''result_role'' = Some ''subagent_return''"

text \<open>The first child that holds the findings of a subagent.\<close>

definition branch_result :: "trace_state \<Rightarrow> nat \<Rightarrow> nat option" where
  "branch_result st a = first_row (filter (\<lambda>c. is_subagent_return (node_at st c)) (tn_children (node_at st a)))"

text \<open>\<open>m.get(key) if key else None\<close>.\<close>

definition lookup_given :: "(string \<times> nat) list \<Rightarrow> string option \<Rightarrow> nat option" where
  "lookup_given m key = (case key of None \<Rightarrow> None | Some k \<Rightarrow> if k = [] then None else map_of m k)"

definition register_task :: "string option \<Rightarrow> nat \<Rightarrow> trace_state \<Rightarrow> trace_state" where
  "register_task task_id a st =
     (case task_id of None \<Rightarrow> st | Some t \<Rightarrow> if t = [] then st else st\<lparr>tb_by_task := AList.update t a (tb_by_task st)\<rparr>)"

definition on_task_notification :: "string \<Rightarrow> nat \<Rightarrow> string \<Rightarrow> pydict \<Rightarrow> pydict \<Rightarrow> trace_state \<Rightarrow> trace_state" where
  "on_task_notification event_id i ts msg sys_data st =
     (let task_id = str_field sys_data ''task_id'';
          subagent = or_else (lookup_given (tb_by_task st) task_id)
                       (lookup_given (tb_by_tool st) (str_field sys_data ''tool_use_id''))
      in case (subagent, str_field sys_data ''summary'') of
           (Some a, Some summary) \<Rightarrow>
             (if str_field sys_data ''status'' \<noteq> Some ''completed'' \<or> strip summary = [] then st
              else
                let st1 = register_task task_id a st
                in case branch_result st1 a of
                     Some c \<Rightarrow> set_node c (\<lambda>n. n\<lparr>tn_timestamp := ts, tn_body := Some summary, tn_raw := PDict msg\<rparr>) st1
                   | None \<Rightarrow>
                       append_child a
                         ((tnode_of (message_id event_id ''sub-result'' i) ''result'' ts ''Branch findings'' (PDict msg))
                            \<lparr>tn_body := Some summary, tn_meta := [(''result_role'', ''subagent_return'')]\<rparr>) st1)
         | _ \<Rightarrow> st)"

definition on_task_started :: "pydict \<Rightarrow> trace_state \<Rightarrow> trace_state" where
  "on_task_started sys_data st =
     (let description = (case str_field sys_data ''description'' of None \<Rightarrow> ''Subagent task started'' | Some d \<Rightarrow> d);
          task_id = str_field sys_data ''task_id''; tool_use_id = str_field sys_data ''tool_use_id'';
          task_type = summarize_task_type (dict_get sys_data ''task_type'')
      in case or_else (lookup_given (tb_by_tool st) tool_use_id) (lookup_given (tb_pending st) tool_use_id) of
           None \<Rightarrow> st
         | Some a \<Rightarrow>
             (if tn_kind (node_at st a) \<noteq> ''subagent'' then st
              else
                let st1 = set_node a (\<lambda>n.
                      n\<lparr>tn_label := (if tn_label n = ''subagent'' then description else tn_label n),
                        tn_detail := (case task_type of
                            Some t \<Rightarrow> Some t
                          | None \<Rightarrow> (case tn_detail n of Some (c # d) \<Rightarrow> Some (c # d) | _ \<Rightarrow> Some description)),
                        tn_meta := (case task_id of
                            None \<Rightarrow> tn_meta n
                          | Some t \<Rightarrow> if t = [] then tn_meta n else AList.update ''task_id'' t (tn_meta n))\<rparr>) st
                in (register_task task_id a st1)\<lparr>tb_active := Some a\<rparr>))"

definition silent_subtypes :: "string list" where
  "silent_subtypes = [''thinking_tokens'', ''init'', ''status'', ''hook_started'', ''hook_response'', ''compact_boundary'', ''task_updated'']"

definition on_system :: "string \<Rightarrow> nat \<Rightarrow> string \<Rightarrow> pydict \<Rightarrow> trace_state \<Rightarrow> trace_state" where
  "on_system event_id i ts msg st =
     (let subtype = (case str_field msg ''subtype'' of None \<Rightarrow> ''system'' | Some s \<Rightarrow> s);
          sys_data = dict_or_empty (dict_get msg ''data'')
      in if subtype = ''task_notification'' then on_task_notification event_id i ts msg sys_data st
         else if subtype \<in> set silent_subtypes then st
         else if subtype = ''task_started'' then on_task_started sys_data st
         else if subtype = ''task_progress'' then st
         else append_child (current_parent st)
                ((tnode_of (message_id event_id ''sys'' i) ''lifecycle'' ts subtype (PDict msg))
                   \<lparr>tn_detail := or_else (str_field sys_data ''description'') (str_field sys_data ''usage'')\<rparr>) st)"

section \<open>The coordinator's result\<close>

definition repeats_result :: "trace_state \<Rightarrow> string \<Rightarrow> bool" where
  "repeats_result st preview =
     (let kids = tn_children (node_at st 0) in
      kids \<noteq> [] \<and>
      (let previous = node_at st (last kids) in
       tn_kind previous = ''assistant'' \<and> \<not> truthy (dict_get (dict_or_empty (tn_raw previous)) ''parent_tool_use_id'')
       \<and> is_duplicate_narrative (tn_body previous) (Some preview)))"

definition on_result :: "string \<Rightarrow> nat \<Rightarrow> string \<Rightarrow> pydict \<Rightarrow> trace_state \<Rightarrow> trace_state" where
  "on_result event_id i ts msg st =
     (let preview = text_or_empty (str_field msg ''result_preview'');
          turns = (let v = dict_get msg ''num_turns'' in if is_int v then v else PInt 0);
          st1 = count_stat (\<lambda>s. s\<lparr>tr_total_turns := turns\<rparr>) st;
          st2 = (if repeats_result st1 preview
                 then set_node 0 (\<lambda>n. n\<lparr>tn_children := butlast (tn_children n)\<rparr>) st1 else st1);
          a = next_node st2;
          st3 = append_child 0
                  ((tnode_of (message_id event_id ''res'' i) ''assistant'' ts [] (PDict msg))
                     \<lparr>tn_body := Some preview,
                      tn_meta := [(''result_role'', ''session_result'')] @ (if truthy turns then [(''turns'', py_str turns)] else [])\<rparr>)
                  st2
      in st3\<lparr>tb_results := tb_results st3 @ [a]\<rparr>)"

text \<open>One message; values that are not mappings are skipped.\<close>

definition on_message :: "parser \<Rightarrow> string \<Rightarrow> string \<Rightarrow> trace_state \<Rightarrow> nat \<times> pyval \<Rightarrow> trace_state" where
  "on_message json event_id event_ts st m =
     (case m of
        (i, PDict msg) \<Rightarrow>
          (let ts = epoch_to_iso (dict_get msg ''timestamp'') event_ts; msg_type = dict_get msg ''type''
           in if msg_type = PStr ''user'' then on_user event_id i ts msg st
              else if msg_type = PStr ''assistant'' then on_assistant json event_id i ts msg st
              else if msg_type = PStr ''tool_result'' then on_tool_result json event_id i ts msg st
              else if msg_type = PStr ''unknown'' \<and> is_str (dict_get msg ''repr'')
              then on_unknown json event_id i ts msg (text_or_empty (str_field msg ''repr'')) st
              else if msg_type = PStr ''system'' then on_system event_id i ts msg st
              else if msg_type = PStr ''result'' then on_result event_id i ts msg st
              else st)
      | _ \<Rightarrow> st)"

definition on_batch :: "parser \<Rightarrow> string \<Rightarrow> string \<Rightarrow> pydict \<Rightarrow> trace_state \<Rightarrow> trace_state" where
  "on_batch json event_id event_ts data st =
     foldl (on_message json event_id event_ts) st (enumerate 0 (list_or_empty (dict_get data ''messages'')))"

section \<open>Events\<close>

definition on_session_start :: "string option \<Rightarrow> trace_event \<Rightarrow> pydict \<Rightarrow> trace_state \<Rightarrow> trace_state" where
  "on_session_start full_prompt ev data st =
     (let agent = (case str_field data ''agent'' of None \<Rightarrow> None | Some s \<Rightarrow> if strip s = [] then None else Some (strip s));
          st1 = (case agent of
              None \<Rightarrow> st
            | Some d \<Rightarrow> set_node 0 (\<lambda>n. n\<lparr>tn_label := d\<rparr>) (st\<lparr>tb_default_agent := Some d\<rparr>));
          prompt = (case full_prompt of
              Some p \<Rightarrow> if strip p = [] then str_field data ''prompt_preview'' else Some (strip p)
            | None \<Rightarrow> str_field data ''prompt_preview'')
      in append_child 0
           ((tnode_of (tv_id ev) ''lifecycle'' (tv_timestamp ev) [] (PDict data))
              \<lparr>tn_detail := Some [], tn_body := prompt, tn_badge := Some ''REQUEST''\<rparr>)
           (set_node 0 (\<lambda>n. n\<lparr>tn_timestamp := tv_timestamp ev, tn_detail := prompt\<rparr>) st1))"

definition on_phase :: "trace_event \<Rightarrow> pydict \<Rightarrow> trace_state \<Rightarrow> trace_state" where
  "on_phase ev data st =
     (let phase = (case str_field data ''phase'' of None \<Rightarrow> ''unknown'' | Some p \<Rightarrow> p)
      in if phase \<in> {''first_sdk_message'', ''claude_query_complete'', ''claude_query_start''} then st
         else append_child (current_parent st) (tnode_of (tv_id ev) ''lifecycle'' (tv_timestamp ev) phase (PDict data)) st)"

text \<open>The node that shows the final result: the last coordinator result, or the last result below the root.\<close>

definition final_target :: "trace_state \<Rightarrow> nat option" where
  "final_target st =
     (if tb_results st \<noteq> [] then Some (last (tb_results st))
      else first_row (filter (\<lambda>c. tn_kind (node_at st c) = ''result'') (rev (tn_children (node_at st 0)))))"

definition show_final :: "trace_event \<Rightarrow> pydict \<Rightarrow> string \<Rightarrow> trace_state \<Rightarrow> trace_state" where
  "show_final ev data full_result st =
     (case final_target st of
        Some a \<Rightarrow>
          set_node a (\<lambda>n. n\<lparr>tn_kind := ''result'', tn_label := ''Final'',
            tn_body := (if length (text_or_empty (tn_body n)) < length full_result then Some full_result else tn_body n)\<rparr>) st
      | None \<Rightarrow>
          append_child 0
            ((tnode_of (tv_id ev @ ''-res'') ''result'' (tv_timestamp ev) ''Final'' (PDict data))
               \<lparr>tn_body := Some full_result, tn_meta := [(''result_role'', ''session_result'')]\<rparr>) st)"

definition on_complete :: "trace_event \<Rightarrow> pydict \<Rightarrow> trace_state \<Rightarrow> trace_state" where
  "on_complete ev data st =
     (let full_result = text_or_empty (or_else (str_field data ''result'') (str_field data ''result_preview''));
          st1 = (if full_result = [] then st else show_final ev data full_result st);
          tin = dict_get data ''input_tokens''; tout = dict_get data ''output_tokens''
      in count_stat (\<lambda>s. s\<lparr>tr_tokens_in := (if is_int tin then tin else tr_tokens_in s),
           tr_tokens_out := (if is_int tout then tout else tr_tokens_out s)\<rparr>) st1)"

definition on_ended :: "trace_event \<Rightarrow> pydict \<Rightarrow> trace_state \<Rightarrow> trace_state" where
  "on_ended ev data st =
     append_child 0
       ((tnode_of (tv_id ev) ''error'' (tv_timestamp ev)
           (if tv_event_type ev = ''session_error'' then ''Session Error'' else ''Session Timeout'') (PDict data))
          \<lparr>tn_body := str_field data ''error'', tn_is_error := True\<rparr>) st"

definition on_approval_request :: "trace_event \<Rightarrow> pydict \<Rightarrow> trace_state \<Rightarrow> trace_state" where
  "on_approval_request ev data st =
     append_child (current_parent st)
       ((tnode_of (tv_id ev) ''hook'' (tv_timestamp ev) (replace_char (CHR ''_'') (CHR '' '') (tv_event_type ev)) (PDict data))
          \<lparr>tn_detail := or_else (str_field data ''tool_name'') (str_field data ''prompt_preview'')\<rparr>) st"

definition on_hook :: "trace_event \<Rightarrow> pydict \<Rightarrow> trace_state \<Rightarrow> trace_state" where
  "on_hook ev data st =
     (let name = (case str_field data ''hook_name'' of None \<Rightarrow> ''hook'' | Some s \<Rightarrow> s);
          status = (case str_field data ''status'' of None \<Rightarrow> ''unknown'' | Some s \<Rightarrow> s)
      in append_child (current_parent st)
           ((tnode_of (tv_id ev) ''hook'' (tv_timestamp ev) (name @ middle_dot @ status) (PDict data))
              \<lparr>tn_detail := str_field data ''hook_event'', tn_body := str_field data ''detail''\<rparr>) st)"

definition on_event :: "parser \<Rightarrow> string option \<Rightarrow> trace_state \<Rightarrow> trace_event \<Rightarrow> trace_state" where
  "on_event json full_prompt st ev =
     (let data = dict_or_empty (tv_data ev); kind = tv_event_type ev
      in if kind = ''heartbeat'' then st\<lparr>tb_heartbeats := tb_heartbeats st @ [ev]\<rparr>
         else if kind = ''session_start'' then on_session_start full_prompt ev data st
         else if kind = ''session_phase'' then on_phase ev data st
         else if kind = ''conversation_batch'' then on_batch json (tv_id ev) (tv_timestamp ev) data st
         else if kind = ''session_complete'' then on_complete ev data st
         else if kind = ''session_error'' \<or> kind = ''session_timeout'' then on_ended ev data st
         else if kind = ''approval_requested'' then on_approval_request ev data st
         else if kind = ''hook_event'' then on_hook ev data st
         else st)"

section \<open>The finished tree\<close>

text \<open>The findings of a subagent move to its end, and narrations that repeat them are dropped.\<close>

definition reorder_branch :: "trace_state \<Rightarrow> nat \<Rightarrow> trace_state" where
  "reorder_branch st a =
     (case branch_result st a of
        None \<Rightarrow> st
      | Some b \<Rightarrow>
          set_node a (\<lambda>n. n\<lparr>tn_children :=
              filter (\<lambda>c. c \<noteq> b)
                (filter (\<lambda>c. c = b \<or> tn_kind (node_at st c) \<noteq> ''assistant''
                    \<or> \<not> is_duplicate_narrative (tn_body (node_at st c)) (tn_body (node_at st b))) (tn_children n))
              @ [b]\<rparr>) st)"

definition rename_recipient :: "(string \<times> string) list \<Rightarrow> tnode \<Rightarrow> tnode" where
  "rename_recipient names n =
     (case map_of (tn_meta n) ''recipient_id'' of
        None \<Rightarrow> n
      | Some r \<Rightarrow>
          (if tn_kind n \<noteq> ''messaging'' \<or> r = [] then n
           else case map_of names r of
             None \<Rightarrow> n
           | Some recipient \<Rightarrow>
               (if recipient = [] then n
                else n\<lparr>tn_label := replace_all r recipient (tn_label n),
                       tn_meta := AList.update ''recipient'' recipient (tn_meta n)\<rparr>)))"

text \<open>The recursion over the children; \<open>None\<close> would be a recursion that does not end.\<close>

partial_function (option) replace_recipients :: "(string \<times> string) list \<Rightarrow> nat list \<Rightarrow> trace_state \<Rightarrow> trace_state option" where
  "replace_recipients names ws st =
     (case ws of
        [] \<Rightarrow> Some st
      | a # rest \<Rightarrow>
          Option.bind (replace_recipients names (tn_children (node_at st a)) (set_node a (rename_recipient names) st))
            (replace_recipients names rest))"

record trace_response =
  rt_nodes :: "tnode list"
  rt_stats :: trace_stats
  rt_heartbeats :: "trace_event list"
  rt_skills_used :: "string list"
  rt_mcps_used :: "string list"
  rt_event_count :: nat

definition run_events :: "parser \<Rightarrow> string option \<Rightarrow> string \<Rightarrow> trace_event list \<Rightarrow> trace_state" where
  "run_events json full_prompt now events =
     foldl (on_event json full_prompt)
       (initial_trace (case events of [] \<Rightarrow> now | ev # _ \<Rightarrow> tv_timestamp ev)) events"

definition finish_branches :: "trace_state \<Rightarrow> trace_state" where
  "finish_branches st = foldl reorder_branch st (map snd (tb_by_tool st))"

definition build_trace_tree :: "parser \<Rightarrow> string option \<Rightarrow> string \<Rightarrow> trace_event list \<Rightarrow> trace_response option" where
  "build_trace_tree json full_prompt now events =
     (let st = finish_branches (run_events json full_prompt now events)
      in map_option
           (\<lambda>st'. \<lparr>rt_nodes = tb_nodes st', rt_stats = tb_stats st', rt_heartbeats = tb_heartbeats st',
              rt_skills_used = sort (remdups (tb_skills st')), rt_mcps_used = sort (remdups (tb_mcps st')),
              rt_event_count = length events\<rparr>)
           (replace_recipients (tb_agent_names st) (tn_children (node_at st 0)) st))"

end
