(* ===== verification/Trace_Forest.thy ===== *)
theory Trace_Forest
  imports Trace_Tree
begin

text \<open>
  The nodes that the trace builder leaves form a tree, whatever events it reads: the invariant of the
  store, its preservation by every handler, the end of the last recursion, and the counts.
\<close>

section \<open>Forests\<close>

text \<open>Children come after their parent, and no node has two parents or stands twice under one.\<close>

definition kids :: "tnode list \<Rightarrow> nat \<Rightarrow> nat set" where
  "kids ns a = set (tn_children (ns ! a))"

definition forest :: "tnode list \<Rightarrow> bool" where
  "forest ns \<longleftrightarrow>
     ns \<noteq> [] \<and> (\<forall>a < length ns. distinct (tn_children (ns ! a))) \<and> (\<forall>a < length ns. kids ns a \<subseteq> {a <..< length ns})
     \<and> (\<forall>a < length ns. \<forall>b < length ns. a \<noteq> b \<longrightarrow> kids ns a \<inter> kids ns b = {})"

definition known_refs :: "trace_state \<Rightarrow> nat set" where
  "known_refs st =
     snd ` set (tb_pending st) \<union> snd ` set (tb_by_task st) \<union> snd ` set (tb_by_tool st) \<union> set (tb_results st)
     \<union> set_option (tb_active st)"

definition trace_ok :: "trace_state \<Rightarrow> bool" where
  "trace_ok st \<longleftrightarrow> forest (tb_nodes st) \<and> known_refs st \<subseteq> {..<length (tb_nodes st)}"

lemma known_refs_nodes [simp]: "known_refs (st\<lparr>tb_nodes := ns\<rparr>) = known_refs st"
  by (simp add: known_refs_def)

lemma forest_distinct: "forest ns \<Longrightarrow> a < length ns \<Longrightarrow> distinct (tn_children (ns ! a))"
  by (simp add: forest_def)

lemma forest_kids:
  assumes "forest ns" "a < length ns" "c \<in> kids ns a"
  shows "a < c \<and> c < length ns"
proof -
  have "kids ns a \<subseteq> {a <..< length ns}" using assms(1,2) by (simp add: forest_def)
  with assms(3) show ?thesis by auto
qed

lemma forest_disjoint: "forest ns \<Longrightarrow> a < length ns \<Longrightarrow> b < length ns \<Longrightarrow> a \<noteq> b \<Longrightarrow> kids ns a \<inter> kids ns b = {}"
  by (simp add: forest_def)

lemma forestI:
  assumes "ns \<noteq> []" "\<And>a. a < length ns \<Longrightarrow> distinct (tn_children (ns ! a))"
    and "\<And>a c. a < length ns \<Longrightarrow> c \<in> kids ns a \<Longrightarrow> a < c \<and> c < length ns"
    and "\<And>a b. a < length ns \<Longrightarrow> b < length ns \<Longrightarrow> a \<noteq> b \<Longrightarrow> kids ns a \<inter> kids ns b = {}"
  shows "forest ns"
  unfolding forest_def
proof (intro conjI allI impI)
  show "kids ns a \<subseteq> {a <..< length ns}" if "a < length ns" for a using assms(3) [OF that] by auto
qed (rule assms; assumption)+

text \<open>A store of the same size with fewer children is a forest too.\<close>

lemma forest_fewer:
  assumes "forest ns" "length ms = length ns"
    and "\<And>a. a < length ns \<Longrightarrow> distinct (tn_children (ms ! a)) \<and> kids ms a \<subseteq> kids ns a"
  shows "forest ms"
proof (rule forestI)
  show "ms \<noteq> []" using assms(1,2) by (auto simp: forest_def)
  show "distinct (tn_children (ms ! a))" if "a < length ms" for a using assms(2,3) that by simp
  show "a < c \<and> c < length ms" if "a < length ms" "c \<in> kids ms a" for a c
    using forest_kids [OF assms(1), of a c] assms(2) assms(3) [of a] that by auto
  show "kids ms a \<inter> kids ms b = {}" if "a < length ms" "b < length ms" "a \<noteq> b" for a b
    using forest_disjoint [OF assms(1), of a b] assms(2) assms(3) [of a] assms(3) [of b] that by auto
qed

lemma forest_update:
  assumes "forest ns" "distinct (tn_children n)" "set (tn_children n) \<subseteq> set (tn_children (ns ! a))"
  shows "forest (ns[a := n])"
proof (rule forest_fewer [OF assms(1)])
  show "distinct (tn_children (ns[a := n] ! b)) \<and> kids (ns[a := n]) b \<subseteq> kids ns b" if "b < length ns" for b
    using that assms(2,3) forest_distinct [OF assms(1) that] by (cases "a = b") (auto simp: kids_def)
qed simp

lemma forest_append:
  assumes "forest ns" "p < length ns" "tn_children n = []"
    and "tn_children m = tn_children (ns ! p) @ [length ns]"
  shows "forest (ns[p := m] @ [n])"
proof -
  let ?ms = "ns[p := m] @ [n]"
  have new: "tn_children (?ms ! length ns) = []" using assms(3) by (simp add: nth_append)
  have upd: "tn_children (?ms ! p) = tn_children (ns ! p) @ [length ns]" using assms(2,4) by (simp add: nth_append)
  have old: "?ms ! a = ns ! a" if "a < length ns" "a \<noteq> p" for a using that by (simp add: nth_append)
  have kids: "kids ?ms a = (if a < length ns then kids ns a else {}) \<union> (if a = p then {length ns} else {})"
    if "a < Suc (length ns)" for a
  proof (cases "a = length ns")
    case True
    with new assms(2) show ?thesis by (simp add: kids_def)
  next
    case False
    with that have "a < length ns" by simp
    with upd old [of a] show ?thesis by (cases "a = p") (auto simp: kids_def)
  qed
  have below: "c < length ns" if "a < length ns" "c \<in> kids ns a" for a c using forest_kids [OF assms(1) that] by simp
  show ?thesis
  proof (rule forestI)
    show "distinct (tn_children (?ms ! a))" if "a < length ?ms" for a
    proof (cases "a = length ns")
      case True
      then show ?thesis using new by simp
    next
      case False
      with that have a: "a < length ns" by simp
      have "length ns \<notin> kids ns p" using below [OF assms(2)] by blast
      with a upd old [of a] forest_distinct [OF assms(1) a] show ?thesis by (cases "a = p") (auto simp: kids_def)
    qed
  next
    fix a c assume a: "a < length ?ms" and c: "c \<in> kids ?ms a"
    have "a < c \<and> c < Suc (length ns)"
    proof (cases "c = length ns")
      case True
      have "kids ?ms (length ns) = {}" by (simp add: kids_def new)
      with a c have "a \<noteq> length ns" by auto
      with a True show ?thesis by simp
    next
      case False
      have "kids ?ms a = (if a < length ns then kids ns a else {}) \<union> (if a = p then {length ns} else {})"
        by (rule kids) (use a in simp)
      with c False have "a < length ns \<and> c \<in> kids ns a" by (simp split: if_splits)
      with forest_kids [OF assms(1), of a c] show ?thesis by simp
    qed
    then show "a < c \<and> c < length ?ms" by simp
  next
    fix a b assume ab: "a < length ?ms" "b < length ?ms" "a \<noteq> b"
    define X Y where "X = (if a < length ns then kids ns a else {})" and "Y = (if b < length ns then kids ns b else {})"
    have "X \<inter> Y = {}" using forest_disjoint [OF assms(1) _ _ ab(3)] by (simp add: X_def Y_def)
    moreover have "length ns \<notin> X" "length ns \<notin> Y" using below [of _ "length ns"] by (auto simp: X_def Y_def)
    moreover have "kids ?ms a = X \<union> (if a = p then {length ns} else {})" "kids ?ms b = Y \<union> (if b = p then {length ns} else {})"
      unfolding X_def Y_def using ab by (intro kids; simp)+
    ultimately show "kids ?ms a \<inter> kids ?ms b = {}"
      using ab(3) by (cases "a = p"; cases "b = p") auto
  qed simp
qed

section \<open>Primitive steps\<close>

lemma trace_ok_set_node:
  assumes "trace_ok st" "distinct (tn_children (f (node_at st a)))"
    "set (tn_children (f (node_at st a))) \<subseteq> set (tn_children (node_at st a))"
  shows "trace_ok (set_node a f st)"
  using assms by (simp add: trace_ok_def set_node_def forest_update node_at_def)

lemma length_set_node [simp]: "length (tb_nodes (set_node a f st)) = length (tb_nodes st)"
  by (simp add: set_node_def)

lemma set_node_empty [simp]: "tb_nodes (set_node a f st) = [] \<longleftrightarrow> tb_nodes st = []"
  by (simp add: set_node_def)

lemma length_append_child [simp]: "length (tb_nodes (append_child p n st)) = Suc (length (tb_nodes st))"
  by (simp add: append_child_def Let_def)

lemma kids_distinct: "trace_ok st \<Longrightarrow> a < length (tb_nodes st) \<Longrightarrow> distinct (tn_children (node_at st a))"
  by (simp add: trace_ok_def forest_def node_at_def)

text \<open>Changes of a node that leave its children.\<close>

lemma trace_ok_relabel:
  assumes "trace_ok st" "a < length (tb_nodes st)" "\<And>n. tn_children (f n) = tn_children n"
  shows "trace_ok (set_node a f st)"
  using assms by (intro trace_ok_set_node) (simp_all add: kids_distinct)

lemma trace_ok_append:
  assumes "trace_ok st" "p < length (tb_nodes st)" "tn_children n = []"
  shows "trace_ok (append_child p n st)"
proof -
  have "forest (tb_nodes (append_child p n st))"
    using assms by (simp add: trace_ok_def append_child_def set_node_def Let_def node_at_def forest_append)
  moreover have "known_refs (append_child p n st) = known_refs st"
    by (simp add: append_child_def set_node_def Let_def)
  ultimately show ?thesis using assms(1) by (auto simp: trace_ok_def)
qed

lemma children_tnode_of [simp]: "tn_children (tnode_of i kind ts label raw) = []"
  by (simp add: tnode_of_def)

lemma trace_ok_nonempty: "trace_ok st \<Longrightarrow> 0 < length (tb_nodes st)"
  by (auto simp: trace_ok_def forest_def)

lemma map_of_value: "map_of m k = Some a \<Longrightarrow> a \<in> snd ` set m"
  using map_of_SomeD by force

lemma known_less: "trace_ok st \<Longrightarrow> a \<in> known_refs st \<Longrightarrow> a < length (tb_nodes st)"
  by (auto simp: trace_ok_def)

lemma known_lookup:
  "map_of (tb_pending st) k = Some a \<Longrightarrow> a \<in> known_refs st" "map_of (tb_by_tool st) k = Some a \<Longrightarrow> a \<in> known_refs st"
  "map_of (tb_by_task st) k = Some a \<Longrightarrow> a \<in> known_refs st" "tb_active st = Some a \<Longrightarrow> a \<in> known_refs st"
  "tb_results st \<noteq> [] \<Longrightarrow> last (tb_results st) \<in> known_refs st"
  by (auto simp: known_refs_def dest: map_of_value)

lemma resolve_known: "trace_ok st \<Longrightarrow> resolve_msg_parent st msg < length (tb_nodes st)"
  using trace_ok_nonempty [of st] known_less known_lookup(2)
  by (auto simp: resolve_msg_parent_def split: option.split)

lemma current_known: "trace_ok st \<Longrightarrow> current_parent st < length (tb_nodes st)"
  using trace_ok_nonempty [of st] known_less known_lookup(4) by (auto simp: current_parent_def split: option.split)

lemma pending_known: "trace_ok st \<Longrightarrow> map_of (tb_pending st) k = Some a \<Longrightarrow> a < length (tb_nodes st)"
  using known_less known_lookup(1) by blast

lemma given_known:
  "trace_ok st \<Longrightarrow> lookup_given (tb_by_tool st) k = Some a \<Longrightarrow> a < length (tb_nodes st)"
  "trace_ok st \<Longrightarrow> lookup_given (tb_by_task st) k = Some a \<Longrightarrow> a < length (tb_nodes st)"
  "trace_ok st \<Longrightarrow> lookup_given (tb_pending st) k = Some a \<Longrightarrow> a < length (tb_nodes st)"
  using known_less known_lookup by (auto simp: lookup_given_def split: option.splits if_splits)

text \<open>Fields outside the tree.\<close>

lemma trace_ok_fields [simp]:
  "trace_ok (st\<lparr>tb_heartbeats := h\<rparr>) = trace_ok st" "trace_ok (st\<lparr>tb_default_agent := d\<rparr>) = trace_ok st"
  "trace_ok (st\<lparr>tb_agent_names := g\<rparr>) = trace_ok st" "trace_ok (count_stat f st) = trace_ok st"
  "trace_ok (register_tool c st) = trace_ok st"
  by (simp_all add: trace_ok_def known_refs_def count_stat_def register_tool_def Let_def)

lemma nodes_fields [simp]:
  "tb_nodes (count_stat f st) = tb_nodes st" "tb_nodes (register_tool c st) = tb_nodes st"
  "tb_nodes (resolve_call k st) = tb_nodes st" "tb_nodes (register_task t a st) = tb_nodes st"
  by (simp_all add: count_stat_def register_tool_def resolve_call_def register_task_def Let_def split: option.split)

text \<open>A new reference to a node of the store.\<close>

lemma trace_ok_refs:
  assumes "trace_ok st" "tb_nodes st' = tb_nodes st" "known_refs st' \<subseteq> known_refs st \<union> {..<length (tb_nodes st)}"
  shows "trace_ok st'"
  using assms by (auto simp: trace_ok_def)

lemma update_values: "snd ` set (AList.update k v m) \<subseteq> insert v (snd ` set m)"
  by (induction m) auto

lemma delete_values: "snd ` set (AList.delete k m) \<subseteq> snd ` set m"
  by (induction m) auto

lemma trace_ok_pending: "trace_ok st \<Longrightarrow> a < length (tb_nodes st) \<Longrightarrow> trace_ok (st\<lparr>tb_pending := AList.update k a (tb_pending st)\<rparr>)"
  using update_values [of k a "tb_pending st"] by (elim trace_ok_refs) (auto simp: known_refs_def)

lemma trace_ok_by_tool: "trace_ok st \<Longrightarrow> a < length (tb_nodes st) \<Longrightarrow> trace_ok (st\<lparr>tb_by_tool := AList.update k a (tb_by_tool st)\<rparr>)"
  using update_values [of k a "tb_by_tool st"] by (elim trace_ok_refs) (auto simp: known_refs_def)

lemma trace_ok_by_task: "trace_ok st \<Longrightarrow> a < length (tb_nodes st) \<Longrightarrow> trace_ok (st\<lparr>tb_by_task := AList.update k a (tb_by_task st)\<rparr>)"
  using update_values [of k a "tb_by_task st"] by (elim trace_ok_refs) (auto simp: known_refs_def)

lemma trace_ok_register_task: "trace_ok st \<Longrightarrow> a < length (tb_nodes st) \<Longrightarrow> trace_ok (register_task t a st)"
  by (simp add: register_task_def trace_ok_by_task split: option.split)

lemma trace_ok_active: "trace_ok st \<Longrightarrow> a < length (tb_nodes st) \<Longrightarrow> trace_ok (st\<lparr>tb_active := Some a\<rparr>)"
  by (erule trace_ok_refs) (auto simp: known_refs_def)

lemma trace_ok_results: "trace_ok st \<Longrightarrow> a < length (tb_nodes st) \<Longrightarrow> trace_ok (st\<lparr>tb_results := tb_results st @ [a]\<rparr>)"
  by (erule trace_ok_refs) (auto simp: known_refs_def)

lemma trace_ok_resolve_call: "trace_ok st \<Longrightarrow> trace_ok (resolve_call k st)"
  using delete_values [of k "tb_pending st"] by (elim trace_ok_refs) (auto simp: known_refs_def resolve_call_def)

section \<open>The handlers\<close>

lemmas trace_ok_intros =
  trace_ok_append trace_ok_relabel trace_ok_pending trace_ok_by_tool trace_ok_active trace_ok_results
  trace_ok_register_task trace_ok_resolve_call

lemma on_user_ok: "trace_ok st \<Longrightarrow> trace_ok (on_user e i ts msg st)"
  by (simp add: on_user_def Let_def trace_ok_append resolve_known)

lemma tool_node_children [simp]: "tn_children (tool_node json e ts block c sender message) = []"
  by (simp add: tool_node_def Let_def split: option.split)

lemma on_agent_call_ok:
  assumes "trace_ok st" "p < length (tb_nodes st)"
  shows "trace_ok (on_agent_call json e ts block c p st)"
proof -
  have "trace_ok (append_child p n (count_stat f st))" if "tn_children n = []" for n f
    using assms that by (intro trace_ok_append) simp_all
  then show ?thesis
    unfolding on_agent_call_def Let_def next_node_def case_prod_unfold
    by (intro trace_ok_pending [where st = "_\<lparr>tb_active := _, tb_by_tool := _\<rparr>", simplified]
        trace_ok_by_tool [where st = "_\<lparr>tb_active := _\<rparr>", simplified] trace_ok_active) simp_all
qed

lemma on_tool_block_ok:
  assumes "trace_ok st"
  shows "trace_ok (on_tool_block json e i ts msg st block)"
  using assms resolve_known [of "register_tool c st" msg for c]
  by (simp add: on_tool_block_def Let_def on_agent_call_ok trace_ok_append trace_ok_pending next_node_def)

lemma trace_ok_fold: "(\<And>st x. trace_ok st \<Longrightarrow> trace_ok (f st x)) \<Longrightarrow> trace_ok st \<Longrightarrow> trace_ok (foldl f st xs)"
  by (induction xs arbitrary: st) simp_all

lemma on_assistant_ok: "trace_ok st \<Longrightarrow> trace_ok (on_assistant json e i ts msg st)"
proof -
  assume "trace_ok st"
  moreover have "trace_ok (append_child (resolve_msg_parent st msg) n (count_stat f st))"
    if "trace_ok st" "tn_children n = []" for n f
    using that by (intro trace_ok_append) (simp_all add: resolve_known)
  moreover have "trace_ok (append_child (resolve_msg_parent st msg) n st)" if "trace_ok st" "tn_children n = []" for n st
    using that by (intro trace_ok_append) (simp_all add: resolve_known)
  ultimately show ?thesis
    unfolding on_assistant_def Let_def by (intro trace_ok_fold [OF on_tool_block_ok]) simp_all
qed

lemma name_agent_ok:
  assumes "trace_ok st" "a < length (tb_nodes st)"
  shows "trace_ok (name_agent a preview st)" "length (tb_nodes (name_agent a preview st)) = length (tb_nodes st)"
  using assms by (auto simp: name_agent_def split: option.split intro!: trace_ok_relabel)

lemma attach_result_ok:
  assumes "trace_ok st" "tn_children n = []"
  shows "trace_ok (attach_result k err preview msg n st)"
proof (cases "map_of (tb_pending st) k")
  case None
  with assms show ?thesis
    by (simp add: attach_result_def trace_ok_resolve_call trace_ok_append resolve_known)
next
  case (Some a)
  note a = pending_known [OF assms(1) Some]
  with Some assms name_agent_ok [OF assms(1) a] show ?thesis
    by (simp add: attach_result_def Let_def trace_ok_resolve_call trace_ok_append)
qed

lemma count_error_ok [simp]: "trace_ok (count_error err st) = trace_ok st"
  by (simp add: count_error_def)

lemma result_node_children [simp]: "tn_children (result_node json i ts msg k body err) = []"
  by (simp add: result_node_def)

lemma on_tool_result_ok: "trace_ok st \<Longrightarrow> trace_ok (on_tool_result json e i ts msg st)"
  by (simp add: on_tool_result_def Let_def attach_result_ok)

lemma on_unknown_ok: "trace_ok st \<Longrightarrow> trace_ok (on_unknown json e i ts msg r st)"
  by (simp add: on_unknown_def Let_def attach_result_ok split: option.split)

lemma branch_result_kid: "branch_result st a = Some b \<Longrightarrow> b \<in> kids (tb_nodes st) a"
  by (auto simp: branch_result_def kids_def node_at_def dest!: first_row_in)

lemma kid_known: "trace_ok st \<Longrightarrow> a < length (tb_nodes st) \<Longrightarrow> b \<in> kids (tb_nodes st) a \<Longrightarrow> b < length (tb_nodes st)"
  using forest_kids by (auto simp: trace_ok_def)

lemma on_task_notification_ok:
  assumes "trace_ok st"
  shows "trace_ok (on_task_notification e i ts msg sd st)"
proof -
  let ?a = "or_else (lookup_given (tb_by_task st) (str_field sd ''task_id'')) (lookup_given (tb_by_tool st) (str_field sd ''tool_use_id''))"
  show ?thesis
  proof (cases ?a)
    case None
    with assms show ?thesis by (simp add: on_task_notification_def Let_def)
  next
    case (Some a)
    then have a: "a < length (tb_nodes st)"
      using given_known [OF assms] by (auto simp: or_else_def split: option.splits)
    let ?st1 = "register_task (str_field sd ''task_id'') a st"
    have ok: "trace_ok ?st1" using assms a by (rule trace_ok_register_task)
    have kid: "b < length (tb_nodes st)" if "branch_result ?st1 a = Some b" for b
      using kid_known [OF ok _ branch_result_kid [OF that]] a by simp
    show ?thesis
      using Some assms a ok kid
      by (auto simp: on_task_notification_def Let_def split: option.split intro!: trace_ok_append trace_ok_relabel)
  qed
qed

lemma on_task_started_ok:
  assumes "trace_ok st"
  shows "trace_ok (on_task_started sd st)"
proof -
  let ?k = "str_field sd ''tool_use_id''"
  show ?thesis
  proof (cases "or_else (lookup_given (tb_by_tool st) ?k) (lookup_given (tb_pending st) ?k)")
    case None
    with assms show ?thesis by (simp add: on_task_started_def Let_def)
  next
    case (Some a)
    then have a: "a < length (tb_nodes st)"
      using given_known [OF assms] by (auto simp: or_else_def split: option.splits)
    with Some assms show ?thesis
      by (auto simp: on_task_started_def Let_def intro!: trace_ok_active trace_ok_register_task trace_ok_relabel)
  qed
qed

lemma on_system_ok: "trace_ok st \<Longrightarrow> trace_ok (on_system e i ts msg st)"
  by (simp add: on_system_def Let_def on_task_notification_ok on_task_started_ok trace_ok_append current_known)

lemma set_butlast_subset: "set (butlast xs) \<subseteq> set xs"
  by (auto dest: in_set_butlastD)

lemma on_result_ok:
  assumes "trace_ok st"
  shows "trace_ok (on_result e i ts msg st)"
proof -
  have ne: "0 < length (tb_nodes st)" using assms by (rule trace_ok_nonempty)
  have drop: "trace_ok (set_node 0 (\<lambda>n. n\<lparr>tn_children := butlast (tn_children n)\<rparr>) (count_stat f st))" for f
    using assms kids_distinct [of "count_stat f st" 0] ne
    by (intro trace_ok_set_node) (simp_all add: distinct_butlast set_butlast_subset)
  show ?thesis
    unfolding on_result_def Let_def next_node_def
    using assms drop ne by (intro trace_ok_results trace_ok_append) auto
qed

lemma on_message_ok: "trace_ok st \<Longrightarrow> trace_ok (on_message json e ts st m)"
  by (simp add: on_message_def Let_def on_user_ok on_assistant_ok on_tool_result_ok on_unknown_ok on_system_ok on_result_ok
      split: prod.split pyval.split)

lemma on_batch_ok: "trace_ok st \<Longrightarrow> trace_ok (on_batch json e ts data st)"
  unfolding on_batch_def by (rule trace_ok_fold [OF on_message_ok])

lemma on_session_start_ok:
  assumes "trace_ok st"
  shows "trace_ok (on_session_start fp ev data st)"
  using assms trace_ok_nonempty [OF assms]
  by (auto simp: on_session_start_def Let_def split: option.split intro!: trace_ok_append trace_ok_relabel)

lemma final_target_known:
  assumes "trace_ok st" "final_target st = Some a"
  shows "a < length (tb_nodes st)"
proof (cases "tb_results st = []")
  case True
  with assms(2) have "a \<in> kids (tb_nodes st) 0"
    by (auto simp: final_target_def kids_def node_at_def dest!: first_row_in)
  then show ?thesis using kid_known [OF assms(1)] trace_ok_nonempty [OF assms(1)] by blast
next
  case False
  then show ?thesis using assms known_less known_lookup(5) by (auto simp: final_target_def)
qed

lemma on_complete_ok: "trace_ok st \<Longrightarrow> trace_ok (on_complete ev data st)"
  using final_target_known trace_ok_nonempty
  by (auto simp: on_complete_def show_final_def Let_def split: option.split intro!: trace_ok_append trace_ok_relabel)

lemma on_event_ok: "trace_ok st \<Longrightarrow> trace_ok (on_event json fp st ev)"
  using trace_ok_nonempty [of st]
  by (auto simp: on_event_def Let_def on_session_start_ok on_batch_ok on_complete_ok on_phase_def on_ended_def
      on_approval_request_def on_hook_def current_known intro!: trace_ok_append)

lemma initial_ok: "trace_ok (initial_trace ts)"
  by (auto simp: trace_ok_def initial_trace_def known_refs_def kids_def intro!: forestI)

lemma run_events_ok: "trace_ok (run_events json fp now events)"
  unfolding run_events_def by (rule trace_ok_fold [OF on_event_ok initial_ok])

section \<open>The last passes\<close>

lemma reorder_ok:
  assumes "trace_ok st" "a < length (tb_nodes st)"
  shows "trace_ok (reorder_branch st a)"
proof (cases "branch_result st a")
  case None
  with assms show ?thesis by (simp add: reorder_branch_def)
next
  case (Some b)
  have "distinct (tn_children (node_at st a))" using assms by (rule kids_distinct)
  moreover have "b \<in> set (tn_children (node_at st a))"
    using branch_result_kid [OF Some] by (simp add: kids_def node_at_def)
  ultimately show ?thesis
    using assms Some by (auto simp: reorder_branch_def intro!: trace_ok_set_node)
qed

lemma reorder_length [simp]: "length (tb_nodes (reorder_branch st a)) = length (tb_nodes st)"
  by (simp add: reorder_branch_def split: option.split)

lemma finish_fold_length [simp]: "length (tb_nodes (foldl reorder_branch st as)) = length (tb_nodes st)"
  by (induction as arbitrary: st) simp_all

lemma finish_fold_ok:
  assumes "trace_ok st" "\<And>a. a \<in> set as \<Longrightarrow> a < length (tb_nodes st)"
  shows "trace_ok (foldl reorder_branch st as)"
  using assms by (induction as arbitrary: st) (simp_all add: reorder_ok)

lemma finish_ok: "trace_ok st \<Longrightarrow> trace_ok (finish_branches st)"
  unfolding finish_branches_def
  by (rule finish_fold_ok) (auto simp: trace_ok_def known_refs_def)

text \<open>What the renaming of recipients leaves alone.\<close>

definition same_shape :: "trace_state \<Rightarrow> trace_state \<Rightarrow> bool" where
  "same_shape st st' \<longleftrightarrow>
     st'\<lparr>tb_nodes := []\<rparr> = st\<lparr>tb_nodes := []\<rparr> \<and> length (tb_nodes st') = length (tb_nodes st)
     \<and> (\<forall>a < length (tb_nodes st). tn_children (node_at st' a) = tn_children (node_at st a) \<and> tn_kind (node_at st' a) = tn_kind (node_at st a)
          \<and> tn_body (node_at st' a) = tn_body (node_at st a)
          \<and> is_subagent_return (node_at st' a) = is_subagent_return (node_at st a))"

lemma same_shape_refl: "same_shape st st"
  by (simp add: same_shape_def)

lemma same_shape_trans: "same_shape st st1 \<Longrightarrow> same_shape st1 st2 \<Longrightarrow> same_shape st st2"
  unfolding same_shape_def by simp

lemma same_shape_fields:
  assumes "same_shape st st'"
  shows "tb_stats st' = tb_stats st" "tb_by_tool st' = tb_by_tool st" "tb_heartbeats st' = tb_heartbeats st"
proof -
  have e: "st'\<lparr>tb_nodes := []\<rparr> = st\<lparr>tb_nodes := []\<rparr>" using assms by (simp add: same_shape_def)
  show "tb_stats st' = tb_stats st" "tb_by_tool st' = tb_by_tool st" "tb_heartbeats st' = tb_heartbeats st"
    using arg_cong [OF e, of tb_stats] arg_cong [OF e, of tb_by_tool] arg_cong [OF e, of tb_heartbeats] by simp_all
qed

lemma node_set_node:
  "b < length (tb_nodes st) \<Longrightarrow> node_at (set_node a f st) b = (if a = b then f (node_at st a) else node_at st b)"
  by (simp add: node_at_def set_node_def nth_list_update)

lemma rename_keeps:
  "tn_children (rename_recipient names n) = tn_children n" "tn_kind (rename_recipient names n) = tn_kind n"
  "tn_body (rename_recipient names n) = tn_body n"
  "is_subagent_return (rename_recipient names n) = is_subagent_return n"
  by (simp_all add: rename_recipient_def is_subagent_return_def update_conv' split: option.split)

lemma rename_same_shape: "same_shape st (set_node a (rename_recipient names) st)"
  unfolding same_shape_def by (intro conjI allI impI) (simp_all add: node_set_node rename_keeps, simp add: set_node_def)

lemma same_shape_forest:
  assumes "same_shape st st'" "forest (tb_nodes st)"
  shows "forest (tb_nodes st')"
  by (rule forest_fewer [OF assms(2)])
    (use assms in \<open>auto simp: same_shape_def node_at_def kids_def dest: forest_distinct\<close>)

lemma replace_Nil [simp]: "replace_recipients names [] st = Some st"
  by (subst replace_recipients.simps) simp

lemma replace_Cons:
  "replace_recipients names (a # ws) st =
     Option.bind (replace_recipients names (tn_children (node_at st a)) (set_node a (rename_recipient names) st))
       (replace_recipients names ws)"
  by (subst replace_recipients.simps) simp

text \<open>The recursion ends: children are farther from the start of the store than their parent.\<close>

lemma replace_ends:
  assumes "forest (tb_nodes st)" "\<And>a. a \<in> set ws \<Longrightarrow> a < length (tb_nodes st) \<and> length (tb_nodes st) \<le> a + m"
  shows "\<exists>st'. replace_recipients names ws st = Some st' \<and> same_shape st st'"
  using assms
proof (induction m arbitrary: ws st)
  case 0
  then have "ws = []" by (cases ws) fastforce+
  then show ?case by (simp add: same_shape_refl)
next
  case (Suc m)
  note outer = Suc.IH
  show ?case
    using Suc.prems
  proof (induction ws arbitrary: st)
    case Nil
    then show ?case by (simp add: same_shape_refl)
  next
    case (Cons a ws)
    let ?n = "length (tb_nodes st)"
    let ?st1 = "set_node a (rename_recipient names) st"
    note s1 = rename_same_shape [of st a names]
    have a: "a < ?n" "?n \<le> a + Suc m" using Cons.prems(2) by simp_all
    have "c < ?n \<and> ?n \<le> c + m" if "c \<in> set (tn_children (node_at st a))" for c
      using forest_kids [OF Cons.prems(1) a(1), of c] that a(2) by (simp add: kids_def node_at_def)
    then obtain st2 where st2: "replace_recipients names (tn_children (node_at st a)) ?st1 = Some st2" "same_shape ?st1 st2"
      using outer [of ?st1 "tn_children (node_at st a)"] same_shape_forest [OF s1 Cons.prems(1)] by auto
    have s2: "same_shape st st2" using s1 st2(2) by (rule same_shape_trans)
    then have "length (tb_nodes st2) = ?n" by (simp add: same_shape_def)
    then obtain st3 where "replace_recipients names ws st2 = Some st3" "same_shape st2 st3"
      using Cons.IH [of st2] same_shape_forest [OF s2 Cons.prems(1)] Cons.prems(2) by auto
    with st2(1) s2 show ?case by (auto simp: replace_Cons intro: same_shape_trans)
  qed
qed

lemma build_finishes:
  obtains st' where "same_shape (finish_branches (run_events json fp now events)) st'"
    "build_trace_tree json fp now events =
       Some \<lparr>rt_nodes = tb_nodes st', rt_stats = tb_stats st', rt_heartbeats = tb_heartbeats st',
          rt_skills_used = sort (remdups (tb_skills st')), rt_mcps_used = sort (remdups (tb_mcps st')),
          rt_event_count = length events\<rparr>"
    "trace_ok (finish_branches (run_events json fp now events))"
proof -
  let ?st = "finish_branches (run_events json fp now events)"
  have ok: "trace_ok ?st" by (rule finish_ok [OF run_events_ok])
  then have f: "forest (tb_nodes ?st)" by (simp add: trace_ok_def)
  obtain st' where "replace_recipients (tb_agent_names ?st) (tn_children (node_at ?st 0)) ?st = Some st'" "same_shape ?st st'"
    using replace_ends [OF f, of "tn_children (node_at ?st 0)" "length (tb_nodes ?st)"]
      forest_kids [OF f, of 0] trace_ok_nonempty [OF ok] by (auto simp: kids_def node_at_def)
  then show thesis using that ok by (simp add: build_trace_tree_def Let_def)
qed

text \<open>
  C32. For every list of events the builder returns, and what it returns is a forest: the children of a node
  are nodes of the store that come after it, so walking down from the root ends, and no node is a child of
  two nodes or twice of one, so the walk meets each node once.
\<close>

theorem trace_is_a_tree:
  "\<exists>r. build_trace_tree json full_prompt now events = Some r \<and> rt_event_count r = length events \<and> rt_nodes r \<noteq> []
     \<and> (\<forall>a < length (rt_nodes r). distinct (tn_children (rt_nodes r ! a)) \<and> set (tn_children (rt_nodes r ! a)) \<subseteq> {a <..< length (rt_nodes r)}
          \<and> (\<forall>b < a. set (tn_children (rt_nodes r ! a)) \<inter> set (tn_children (rt_nodes r ! b)) = {}))"
proof (rule build_finishes [of json full_prompt now events])
  fix st'
  let ?st = "finish_branches (run_events json full_prompt now events)"
  assume s: "same_shape ?st st'" "trace_ok ?st"
    and r: "build_trace_tree json full_prompt now events =
       Some \<lparr>rt_nodes = tb_nodes st', rt_stats = tb_stats st', rt_heartbeats = tb_heartbeats st',
          rt_skills_used = sort (remdups (tb_skills st')), rt_mcps_used = sort (remdups (tb_mcps st')),
          rt_event_count = length events\<rparr>"
  have f: "forest (tb_nodes st')" using same_shape_forest [OF s(1)] s(2) by (simp add: trace_ok_def)
  have "distinct (tn_children (tb_nodes st' ! a)) \<and> set (tn_children (tb_nodes st' ! a)) \<subseteq> {a <..< length (tb_nodes st')}
      \<and> (\<forall>b < a. set (tn_children (tb_nodes st' ! a)) \<inter> set (tn_children (tb_nodes st' ! b)) = {})"
    if "a < length (tb_nodes st')" for a
    using f that forest_disjoint [OF f that] by (auto simp: forest_def kids_def)
  with r f show ?thesis by (auto simp: forest_def)
qed

section \<open>The findings of a subagent\<close>

text \<open>If a child of \<open>a\<close> holds findings, then the last child does, and no narration before it repeats them.\<close>

definition findings_last :: "trace_state \<Rightarrow> nat \<Rightarrow> bool" where
  "findings_last st a \<longleftrightarrow>
     (\<forall>c \<in> set (tn_children (node_at st a)). \<not> is_subagent_return (node_at st c))
     \<or> (\<exists>ks b. tn_children (node_at st a) = ks @ [b] \<and> is_subagent_return (node_at st b)
          \<and> (\<forall>c \<in> set ks. tn_kind (node_at st c) = ''assistant'' \<longrightarrow>
               \<not> is_duplicate_narrative (tn_body (node_at st c)) (tn_body (node_at st b))))"

text \<open>A change of the children of one node leaves everything else that the predicate reads.\<close>

lemma reorder_data:
  assumes "c < length (tb_nodes st)"
  shows "tn_kind (node_at (reorder_branch st a) c) = tn_kind (node_at st c)"
    "tn_body (node_at (reorder_branch st a) c) = tn_body (node_at st c)"
    "is_subagent_return (node_at (reorder_branch st a) c) = is_subagent_return (node_at st c)"
    "c \<noteq> a \<Longrightarrow> tn_children (node_at (reorder_branch st a) c) = tn_children (node_at st c)"
  using assms by (simp_all add: reorder_branch_def node_set_node is_subagent_return_def split: option.split)

lemma findings_same:
  assumes "trace_ok st" "a < length (tb_nodes st)" "tn_children (node_at st' a) = tn_children (node_at st a)"
    and "\<And>c. c < length (tb_nodes st) \<Longrightarrow> tn_kind (node_at st' c) = tn_kind (node_at st c)
      \<and> tn_body (node_at st' c) = tn_body (node_at st c) \<and> is_subagent_return (node_at st' c) = is_subagent_return (node_at st c)"
    and "findings_last st a"
  shows "findings_last st' a"
proof -
  have "c < length (tb_nodes st)" if "c \<in> set (tn_children (node_at st a))" for c
    using kid_known [OF assms(1,2)] that by (simp add: kids_def node_at_def)
  note data = assms(4) [OF this]
  from assms(5) show ?thesis
    unfolding findings_last_def assms(3)
  proof (elim disjE exE conjE)
    fix ks b
    assume k: "tn_children (node_at st a) = ks @ [b]" "is_subagent_return (node_at st b)"
      "\<forall>c \<in> set ks. tn_kind (node_at st c) = ''assistant'' \<longrightarrow> \<not> is_duplicate_narrative (tn_body (node_at st c)) (tn_body (node_at st b))"
    then have "\<forall>c \<in> set ks. tn_kind (node_at st' c) = ''assistant'' \<longrightarrow> \<not> is_duplicate_narrative (tn_body (node_at st' c)) (tn_body (node_at st' b))"
      using data by simp
    with k data [of b] show "(\<forall>c \<in> set (tn_children (node_at st a)). \<not> is_subagent_return (node_at st' c)) \<or>
      (\<exists>ks b. tn_children (node_at st a) = ks @ [b] \<and> is_subagent_return (node_at st' b) \<and>
        (\<forall>c \<in> set ks. tn_kind (node_at st' c) = ''assistant'' \<longrightarrow> \<not> is_duplicate_narrative (tn_body (node_at st' c)) (tn_body (node_at st' b))))"
      by auto
  qed (use data in simp)
qed

lemma reorder_findings:
  assumes "trace_ok st" "a < length (tb_nodes st)" "findings_last st a" "a \<noteq> x"
  shows "findings_last (reorder_branch st x) a"
  by (rule findings_same [OF assms(1,2) _ _ assms(3)])
    (simp_all only: reorder_data assms(2) assms(4) simp_thms)

lemma same_shape_findings:
  assumes "same_shape st st'" "trace_ok st" "a < length (tb_nodes st)" "findings_last st a"
  shows "findings_last st' a"
proof (rule findings_same [OF assms(2,3) _ _ assms(4)])
  have data: "tn_children (node_at st' c) = tn_children (node_at st c) \<and> tn_kind (node_at st' c) = tn_kind (node_at st c)
      \<and> tn_body (node_at st' c) = tn_body (node_at st c) \<and> is_subagent_return (node_at st' c) = is_subagent_return (node_at st c)"
    if "c < length (tb_nodes st)" for c
    using assms(1) that unfolding same_shape_def by blast
  show "tn_children (node_at st' a) = tn_children (node_at st a)" using data [OF assms(3)] by (rule conjunct1)
  show "tn_kind (node_at st' c) = tn_kind (node_at st c) \<and> tn_body (node_at st' c) = tn_body (node_at st c)
      \<and> is_subagent_return (node_at st' c) = is_subagent_return (node_at st c)" if "c < length (tb_nodes st)" for c
    using data [OF that] by (rule conjunct2)
qed

lemma reorder_establishes:
  assumes "trace_ok st" "a < length (tb_nodes st)"
  shows "findings_last (reorder_branch st a) a"
proof (cases "branch_result st a")
  case None
  then have "\<forall>c \<in> set (tn_children (node_at st a)). \<not> is_subagent_return (node_at st c)"
    by (simp add: branch_result_def filter_empty_conv)
  then show ?thesis using None by (simp add: findings_last_def reorder_branch_def)
next
  case (Some b)
  let ?st' = "reorder_branch st a"
  let ?ks = "filter (\<lambda>c. c \<noteq> b) (filter (\<lambda>c. c = b \<or> tn_kind (node_at st c) \<noteq> ''assistant''
      \<or> \<not> is_duplicate_narrative (tn_body (node_at st c)) (tn_body (node_at st b))) (tn_children (node_at st a)))"
  have known: "c < length (tb_nodes st)" if "c \<in> set (tn_children (node_at st a))" for c
    using kid_known [OF assms] that by (simp add: kids_def node_at_def)
  have b: "b \<in> set (tn_children (node_at st a))" "is_subagent_return (node_at st b)"
    using Some by (auto simp: branch_result_def dest!: first_row_in)
  have "tn_children (node_at ?st' a) = ?ks @ [b]"
    using Some assms(2) by (simp add: reorder_branch_def node_set_node)
  moreover have "is_subagent_return (node_at ?st' b)" using b known by (simp add: reorder_data)
  moreover have "\<forall>c \<in> set ?ks. tn_kind (node_at ?st' c) = ''assistant'' \<longrightarrow> \<not> is_duplicate_narrative (tn_body (node_at ?st' c)) (tn_body (node_at ?st' b))"
    using b known by (auto simp: reorder_data)
  ultimately show ?thesis unfolding findings_last_def by blast
qed

lemma finish_fold_findings:
  assumes "trace_ok st" "\<And>a. a \<in> set as \<Longrightarrow> a < length (tb_nodes st)" "a \<in> set as"
  shows "findings_last (foldl reorder_branch st as) a"
  using assms
proof (induction as arbitrary: a rule: rev_induct)
  case (snoc x as)
  let ?mid = "foldl reorder_branch st as"
  have mid: "trace_ok ?mid" by (rule finish_fold_ok [OF snoc.prems(1)]) (simp add: snoc.prems(2))
  show ?case
  proof (cases "a = x")
    case True
    with reorder_establishes [OF mid] snoc.prems(2) [of x] show ?thesis by simp
  next
    case False
    then have "findings_last ?mid a" using snoc by simp
    moreover have "a < length (tb_nodes ?mid)" using snoc.prems(2,3) by simp
    ultimately have "findings_last (reorder_branch ?mid x) a"
      using reorder_findings [OF mid _ _ False] by simp
    then show ?thesis by simp
  qed
qed simp

text \<open>
  C33. In the finished trace the findings of every registered subagent stand last: if any child of it holds
  findings, its last child does, and no earlier narration of the subagent repeats them.
\<close>

theorem findings_stand_last:
  assumes "build_trace_tree json full_prompt now events = Some r"
    and "(tool_id, a) \<in> set (tb_by_tool (run_events json full_prompt now events))"
    and "c \<in> set (tn_children (rt_nodes r ! a))" "is_subagent_return (rt_nodes r ! c)"
  shows "\<exists>ks b. tn_children (rt_nodes r ! a) = ks @ [b] \<and> is_subagent_return (rt_nodes r ! b)
    \<and> (\<forall>k \<in> set ks. tn_kind (rt_nodes r ! k) = ''assistant'' \<longrightarrow>
         \<not> is_duplicate_narrative (tn_body (rt_nodes r ! k)) (tn_body (rt_nodes r ! b)))"
proof (rule build_finishes [of json full_prompt now events])
  fix st'
  let ?run = "run_events json full_prompt now events"
  let ?st = "finish_branches ?run"
  assume s: "same_shape ?st st'" "trace_ok ?st"
    and "build_trace_tree json full_prompt now events =
       Some \<lparr>rt_nodes = tb_nodes st', rt_stats = tb_stats st', rt_heartbeats = tb_heartbeats st',
          rt_skills_used = sort (remdups (tb_skills st')), rt_mcps_used = sort (remdups (tb_mcps st')),
          rt_event_count = length events\<rparr>"
  with assms(1) have r: "rt_nodes r ! i = node_at st' i" for i by (auto simp: node_at_def)
  have run: "trace_ok ?run" by (rule run_events_ok)
  have known: "x < length (tb_nodes ?run)" if "x \<in> set (map snd (tb_by_tool ?run))" for x
    using that known_less [OF run] by (simp add: known_refs_def)
  have in_map: "a \<in> set (map snd (tb_by_tool ?run))" using assms(2) by force
  have "findings_last ?st a" unfolding finish_branches_def by (rule finish_fold_findings [OF run known in_map])
  moreover have "a < length (tb_nodes ?st)" using known [OF in_map] by (simp add: finish_branches_def)
  ultimately have "findings_last st' a"
    by (intro same_shape_findings [OF s])
  with assms(3,4) show ?thesis unfolding findings_last_def r by blast
qed

section \<open>A small session\<close>

text \<open>A subagent is started, narrates its findings, and reports them.\<close>

definition demo_messages :: "pyval list" where
  "demo_messages =
     [PDict [(''type'', PStr ''assistant''), (''content'', PList [PDict [(''type'', PStr ''tool_use''),
        (''id'', PStr ''t1''), (''name'', PStr ''Agent'')]])],
      PDict [(''type'', PStr ''assistant''), (''parent_tool_use_id'', PStr ''t1''),
        (''content'', PList [PDict [(''type'', PStr ''text''), (''text'', PStr ''all good'')]])],
      PDict [(''type'', PStr ''system''), (''subtype'', PStr ''task_notification''),
        (''data'', PDict [(''tool_use_id'', PStr ''t1''), (''status'', PStr ''completed''), (''summary'', PStr ''disk full'')])]]"

definition demo_events :: "trace_event list" where
  "demo_events = [\<lparr>tv_id = ''e'', tv_event_type = ''conversation_batch'', tv_timestamp = ''noon'',
     tv_data = PDict [(''messages'', PList demo_messages)]\<rparr>]"

theorem trace_is_a_tree_witness:
  "\<exists>r. build_trace_tree (\<lambda>_. None) None ''now'' demo_events = Some r \<and> rt_event_count r = 1
     \<and> set (tn_children (rt_nodes r ! 0)) \<subseteq> {0 <..< length (rt_nodes r)}"
proof -
  obtain r where r: "build_trace_tree (\<lambda>_. None) None ''now'' demo_events = Some r" "rt_event_count r = length demo_events"
      "rt_nodes r \<noteq> []"
    and kids: "\<forall>a < length (rt_nodes r). distinct (tn_children (rt_nodes r ! a)) \<and> set (tn_children (rt_nodes r ! a)) \<subseteq> {a <..< length (rt_nodes r)}
          \<and> (\<forall>b < a. set (tn_children (rt_nodes r ! a)) \<inter> set (tn_children (rt_nodes r ! b)) = {})"
    using trace_is_a_tree [of "\<lambda>_. None" None "''now''" demo_events] by blast
  have "set (tn_children (rt_nodes r ! 0)) \<subseteq> {0 <..< length (rt_nodes r)}"
    using kids [rule_format, of 0] r(3) by simp
  with r show ?thesis by (intro exI [of _ r]) (simp add: demo_events_def)
qed

lemma demo_findings:
  "map_option (\<lambda>r. tn_children (rt_nodes r ! 1) = [2, 3] \<and> is_subagent_return (rt_nodes r ! 3))
     (build_trace_tree (\<lambda>_. None) None ''now'' demo_events) = Some True"
  by (code_simp, simp add: replace_recipients.simps node_at_def set_node_def rename_recipient_def is_subagent_return_def)

lemma demo_registered: "(''t1'', 1) \<in> set (tb_by_tool (run_events (\<lambda>_. None) None ''now'' demo_events))"
  by code_simp

theorem findings_stand_last_witness:
  "\<exists>r ks b. build_trace_tree (\<lambda>_. None) None ''now'' demo_events = Some r
     \<and> tn_children (rt_nodes r ! 1) = ks @ [b] \<and> is_subagent_return (rt_nodes r ! b)"
proof -
  obtain r where r: "build_trace_tree (\<lambda>_. None) None ''now'' demo_events = Some r"
    "tn_children (rt_nodes r ! 1) = [2, 3]" "is_subagent_return (rt_nodes r ! 3)"
    using demo_findings by auto
  then show ?thesis
    using findings_stand_last [OF r(1) demo_registered, of 3] by auto
qed

end
