(* ===== verification/Trace_Counts.thy ===== *)
theory Trace_Counts
  imports Trace_Forest
begin

text \<open>
  The counts shown with a trace (\<open>src/shared/lib/trace_tree.py\<close>, the \<open>stats\<close> dictionary) against the
  messages of the events: every handler keeps the two counts but the one of the tool blocks, which adds
  one call for each block and one subagent for each block that starts one.
\<close>

section \<open>Counts\<close>

text \<open>The tool calls of the events, read off their messages alone.\<close>

definition message_tools :: "pyval \<Rightarrow> pydict list" where
  "message_tools m =
     (case m of
        PDict msg \<Rightarrow>
          if dict_get msg ''type'' = PStr ''assistant'' then tool_blocks (list_or_empty (dict_get msg ''content'')) else []
      | _ \<Rightarrow> [])"

definition event_tools :: "trace_event \<Rightarrow> pydict list" where
  "event_tools ev =
     (if tv_event_type ev = ''conversation_batch''
      then concat (map message_tools (list_or_empty (dict_get (dict_or_empty (tv_data ev)) ''messages'')))
      else [])"

definition tool_counts :: "trace_state \<Rightarrow> int \<times> int" where
  "tool_counts st = (tr_tool_calls (tb_stats st), tr_subagent_spawns (tb_stats st))"

definition add_tools :: "pydict list \<Rightarrow> int \<times> int \<Rightarrow> int \<times> int" where
  "add_tools bs n = (fst n + int (length bs), snd n + int (length (filter (\<lambda>b. str_field b ''name'' = Some ''Agent'') bs)))"

lemma add_tools_simps [simp]: "add_tools [] n = n" "add_tools bs (add_tools as n) = add_tools (as @ bs) n"
  by (simp_all add: add_tools_def)

lemma tool_counts_stats: "tb_stats st' = tb_stats st \<Longrightarrow> tool_counts st' = tool_counts st"
  by (simp only: tool_counts_def)

lemma stats_frame [simp]:
  "tb_stats (append_child p n st) = tb_stats st" "tb_stats (set_node a f st) = tb_stats st"
  "tb_stats (resolve_call k st) = tb_stats st"
  by (simp_all add: append_child_def set_node_def resolve_call_def Let_def)

lemma tool_counts_nodes [simp]:
  "tool_counts (append_child p n st) = tool_counts st" "tool_counts (set_node a f st) = tool_counts st"
  "tool_counts (resolve_call k st) = tool_counts st"
  by (simp_all only: tool_counts_def stats_frame)

lemma tool_counts_updates [simp]:
  "tool_counts (st\<lparr>tb_pending := p'\<rparr>) = tool_counts st" "tool_counts (st\<lparr>tb_active := x\<rparr>) = tool_counts st"
  "tool_counts (st\<lparr>tb_results := rs\<rparr>) = tool_counts st" "tool_counts (st\<lparr>tb_default_agent := d\<rparr>) = tool_counts st"
  "tool_counts (st\<lparr>tb_heartbeats := h\<rparr>) = tool_counts st"
  by (simp_all add: tool_counts_def)

lemma tool_counts_count_error [simp]: "tool_counts (count_error err st) = tool_counts st"
  by (simp add: tool_counts_def count_error_def count_stat_def)

lemma tool_counts_register_task [simp]: "tool_counts (register_task t a st) = tool_counts st"
  by (cases t) (simp_all add: tool_counts_def register_task_def)

lemma tool_counts_name_agent [simp]: "tool_counts (name_agent a preview st) = tool_counts st"
  by (rule tool_counts_stats) (simp add: name_agent_def split: option.split)

lemma attach_result_counts [simp]: "tool_counts (attach_result k err preview msg n st) = tool_counts st"
  by (simp add: attach_result_def Let_def split: option.split)

lemma tool_block_counts: "tool_counts (on_tool_block json e i ts msg st block) = add_tools [block] (tool_counts st)"
proof -
  have r: "tool_counts (register_tool c s) = (fst (tool_counts s) + 1, snd (tool_counts s))" for c s
    by (simp add: tool_counts_def register_tool_def count_stat_def Let_def)
  have a: "tool_counts (on_agent_call json e ts block c p s) = (fst (tool_counts s), snd (tool_counts s) + 1)" for c p s
    by (simp add: on_agent_call_def Let_def case_prod_unfold tool_counts_def append_child_def set_node_def count_stat_def)
  show ?thesis
    by (auto simp: on_tool_block_def Let_def r a add_tools_def read_tool_call_def split: option.split)
qed

lemma tool_blocks_counts:
  "tool_counts (foldl (on_tool_block json e i ts msg) st blocks) = add_tools blocks (tool_counts st)"
  by (induction blocks arbitrary: st) (simp_all add: tool_block_counts)

lemma assistant_counts:
  "tool_counts (on_assistant json e i ts msg st) = add_tools (tool_blocks (list_or_empty (dict_get msg ''content''))) (tool_counts st)"
proof -
  have "tool_counts (count_stat (\<lambda>s. s\<lparr>tr_assistant_messages := tr_assistant_messages s + 1\<rparr>) st) = tool_counts st"
    by (simp add: tool_counts_def count_stat_def)
  then show ?thesis by (simp add: on_assistant_def Let_def tool_blocks_counts)
qed

lemma on_user_counts [simp]: "tool_counts (on_user e i ts msg st) = tool_counts st"
  by (simp add: on_user_def Let_def)

lemma on_tool_result_counts [simp]: "tool_counts (on_tool_result json e i ts msg st) = tool_counts st"
  by (simp add: on_tool_result_def Let_def)

lemma on_unknown_counts [simp]: "tool_counts (on_unknown json e i ts msg r st) = tool_counts st"
  by (simp add: on_unknown_def Let_def split: option.split)

lemma on_task_notification_counts [simp]: "tool_counts (on_task_notification e i ts msg sd st) = tool_counts st"
  by (simp add: on_task_notification_def Let_def split: option.split)

lemma on_task_started_counts [simp]: "tool_counts (on_task_started sd st) = tool_counts st"
proof -
  have "tool_counts (register_task t a s\<lparr>tb_active := x\<rparr>) = tool_counts s" for t a s x by simp
  then show ?thesis unfolding on_task_started_def Let_def by (simp split: option.split)
qed

lemma on_system_counts [simp]: "tool_counts (on_system e i ts msg st) = tool_counts st"
  by (simp add: on_system_def Let_def)

lemma on_result_counts [simp]: "tool_counts (on_result e i ts msg st) = tool_counts st"
proof -
  have "tool_counts (count_stat (\<lambda>s. s\<lparr>tr_total_turns := n\<rparr>) s) = tool_counts s" for n s
    by (simp add: tool_counts_def count_stat_def)
  then show ?thesis unfolding on_result_def Let_def by simp
qed

lemma message_counts: "tool_counts (on_message json e ts st (i, m)) = add_tools (message_tools m) (tool_counts st)"
  by (cases m) (simp_all add: on_message_def message_tools_def Let_def assistant_counts)

lemma messages_counts:
  "tool_counts (foldl (on_message json e ts) st (enumerate n ms)) = add_tools (concat (map message_tools ms)) (tool_counts st)"
  by (induction ms arbitrary: n st) (simp_all add: message_counts)

lemma event_counts: "tool_counts (on_event json fp st ev) = add_tools (event_tools ev) (tool_counts st)"
proof -
  have c: "tool_counts (on_complete ev data st) = tool_counts st" for data
  proof -
    have "tool_counts (count_stat (\<lambda>s. s\<lparr>tr_tokens_in := f s, tr_tokens_out := g s\<rparr>) s) = tool_counts s" for f g s
      by (simp add: tool_counts_def count_stat_def)
    then show ?thesis unfolding on_complete_def show_final_def Let_def by (simp split: option.split)
  qed
  have s: "tool_counts (on_session_start fp ev data st) = tool_counts st" for data
    unfolding on_session_start_def Let_def by (simp split: option.split)
  show ?thesis
    by (simp add: on_event_def event_tools_def Let_def c s on_batch_def messages_counts on_phase_def on_ended_def
        on_approval_request_def on_hook_def)
qed

lemma run_counts:
  "tool_counts (foldl (on_event json fp) st events) = add_tools (concat (map event_tools events)) (tool_counts st)"
  by (induction events arbitrary: st) (simp_all add: event_counts)

lemma finish_counts: "tool_counts (foldl reorder_branch st as) = tool_counts st"
proof -
  have "tool_counts (reorder_branch s a) = tool_counts s" for s a by (simp add: reorder_branch_def split: option.split)
  then show ?thesis by (induction as arbitrary: st) simp_all
qed

text \<open>
  C34. The counts shown with a trace are those of its messages: as many tool calls as the assistant messages
  have tool blocks, and as many subagents as blocks that name the tool \<open>Agent\<close>, also for messages that the
  tree leaves out.
\<close>

theorem trace_counts_exact:
  "\<exists>r. build_trace_tree json full_prompt now events = Some r
     \<and> tr_tool_calls (rt_stats r) = int (length (concat (map event_tools events)))
     \<and> tr_subagent_spawns (rt_stats r) =
         int (length (filter (\<lambda>b. str_field b ''name'' = Some ''Agent'') (concat (map event_tools events))))"
proof (rule build_finishes [of json full_prompt now events])
  fix st'
  assume s: "same_shape (finish_branches (run_events json full_prompt now events)) st'"
    and r: "build_trace_tree json full_prompt now events =
       Some \<lparr>rt_nodes = tb_nodes st', rt_stats = tb_stats st', rt_heartbeats = tb_heartbeats st',
          rt_skills_used = sort (remdups (tb_skills st')), rt_mcps_used = sort (remdups (tb_mcps st')),
          rt_event_count = length events\<rparr>"
  have "tool_counts st' = tool_counts (finish_branches (run_events json full_prompt now events))"
    by (rule tool_counts_stats [OF same_shape_fields(1) [OF s]])
  also have "\<dots> = tool_counts (run_events json full_prompt now events)"
    unfolding finish_branches_def by (rule finish_counts)
  also have "\<dots> = add_tools (concat (map event_tools events)) (0, 0)"
    by (simp add: run_events_def run_counts) (simp add: tool_counts_def initial_trace_def)
  finally show ?thesis using r by (simp add: tool_counts_def add_tools_def)
qed

end
