(* ===== verification/Provider_Api.thy ===== *)
theory Provider_Api
  imports Trace_Tree Message_Bus
begin

text \<open>
  The clients of the message providers, \<open>shared/lib/mattermost_api.py\<close> and \<open>shared/lib/slack_api.py\<close>: the
  requests they make, the order they make them in, and what they make of the answers.  The HTTP client is a
  parameter: it takes a request and the state of the outside world and gives an answer or a transport error.
\<close>

section \<open>Requests, answers, errors\<close>

record http_request =
  hq_method :: string
  hq_url :: string
  hq_params :: pydict
  hq_body :: "pydict option"
  hq_authorization :: string

text \<open>The body is \<open>None\<close> when it is not JSON.\<close>

record http_response =
  hs_status :: nat
  hs_json :: "pyval option"

text \<open>\<open>MattermostAPIError\<close> or \<open>SlackAPIError\<close>, \<open>httpx.HTTPError\<close>, and every other exception.\<close>

datatype provider_error = Api_error string | Http_failure string | Python_error py_error

type_synonym ('w, 'a) io = "'w \<Rightarrow> (provider_error + 'a) \<times> 'w"
type_synonym 'w http_client = "http_request \<Rightarrow> ('w, http_response) io"

definition io_return :: "'a \<Rightarrow> ('w, 'a) io" where
  "io_return x w = (Inr x, w)"

definition io_raise :: "provider_error \<Rightarrow> ('w, 'a) io" where
  "io_raise e w = (Inl e, w)"

definition io_bind :: "('w, 'a) io \<Rightarrow> ('a \<Rightarrow> ('w, 'b) io) \<Rightarrow> ('w, 'b) io" where
  "io_bind m f w = (case m w of (Inl e, w') \<Rightarrow> (Inl e, w') | (Inr x, w') \<Rightarrow> f x w')"

definition io_lift :: "'a result \<Rightarrow> ('w, 'a) io" where
  "io_lift r = (case r of Inl e \<Rightarrow> io_raise (Python_error e) | Inr x \<Rightarrow> io_return x)"

lemma io_simps [simp]:
  "io_bind (io_return x) f = f x" "io_bind (io_raise e) f = io_raise e"
  "io_lift (Inr x) = io_return x" "io_lift (Inl err) = io_raise (Python_error err)"
  by (simp_all add: fun_eq_iff io_bind_def io_return_def io_raise_def io_lift_def)

lemma io_bind_cases:
  "io_bind m f w = (case m w of (Inl e, w') \<Rightarrow> (Inl e, w') | (Inr x, w') \<Rightarrow> f x w')"
  by (rule io_bind_def)

text \<open>\<open>response.raise_for_status()\<close> and \<open>response.json()\<close>.\<close>

definition raise_for_status :: "http_response \<Rightarrow> ('w, unit) io" where
  "raise_for_status r =
     (if 200 \<le> hs_status r \<and> hs_status r < 300 then io_return ()
      else io_raise (Http_failure (''HTTP status '' @ nat_str (hs_status r))))"

definition response_json :: "http_response \<Rightarrow> ('w, pyval) io" where
  "response_json r =
     (case hs_json r of None \<Rightarrow> io_raise (Python_error (Value_error ''Expecting value'')) | Some v \<Rightarrow> io_return v)"

definition checked_json :: "http_response \<Rightarrow> ('w, pyval) io" where
  "checked_json r = io_bind (raise_for_status r) (\<lambda>_. response_json r)"

section \<open>The text of a Mattermost post\<close>

definition MAX_NORMALIZED_MESSAGE_CHARS :: nat where
  "MAX_NORMALIZED_MESSAGE_CHARS = 32000"

definition attachment_text_fields :: "string list" where
  "attachment_text_fields = [''fallback'', ''pretext'', ''author_name'', ''title'', ''text'', ''footer'', ''author_link'', ''title_link'']"

definition append_post_text :: "string \<Rightarrow> pyval \<Rightarrow> string list \<Rightarrow> string list" where
  "append_post_text label v texts =
     (case v of
        PStr s \<Rightarrow>
          (let body = strip s; rendered = (if label \<noteq> [] then label @ '': '' @ body else body)
           in if body = [] \<or> rendered \<in> set texts then texts else texts @ [rendered])
      | _ \<Rightarrow> texts)"

definition append_field :: "string list \<Rightarrow> pyval \<Rightarrow> string list" where
  "append_field texts field =
     (case field of
        PDict f \<Rightarrow> append_post_text (strip (str_or_empty (dict_get f ''title''))) (dict_get f ''value'') texts
      | _ \<Rightarrow> texts)"

definition append_attachment :: "string list \<Rightarrow> pyval \<Rightarrow> string list" where
  "append_attachment texts attachment =
     (case attachment of
        PDict a \<Rightarrow>
          foldl append_field
            (foldl (\<lambda>ts name. append_post_text [] (dict_get a name) ts) texts attachment_text_fields)
            (list_or_empty (dict_get a ''fields''))
      | _ \<Rightarrow> texts)"

definition post_texts :: "pydict \<Rightarrow> string list" where
  "post_texts post =
     foldl append_attachment (append_post_text [] (dict_get post ''message'') [])
       (list_or_empty (dict_get (dict_or_empty (dict_get post ''props'')) ''attachments''))"

definition normalize_post_text :: "pydict \<Rightarrow> string \<times> bool" where
  "normalize_post_text post =
     (let body = join newline (post_texts post)
      in if length body \<le> MAX_NORMALIZED_MESSAGE_CHARS then (body, False)
         else (rstrip (take MAX_NORMALIZED_MESSAGE_CHARS body), True))"

section \<open>Mattermost\<close>

definition mm_auth :: "string \<Rightarrow> ('w, string) io" where
  "mm_auth bot_token =
     (if bot_token = [] then io_raise (Api_error ''Mattermost bot token is required'')
      else io_return (''Bearer '' @ bot_token))"

definition normalize_channel_name :: "string \<Rightarrow> string" where
  "normalize_channel_name name = dropWhile (\<lambda>c. c = CHR ''#'') (strip name)"

definition api_path :: "string \<Rightarrow> string \<Rightarrow> string" where
  "api_path api_url path = rstrip_char (CHR ''/'') api_url @ ''/api/v4'' @ path"

definition mm_get :: "'w http_client \<Rightarrow> string \<Rightarrow> pydict \<Rightarrow> string \<Rightarrow> ('w, http_response) io" where
  "mm_get client url params auth =
     client \<lparr>hq_method = ''GET'', hq_url = url, hq_params = params, hq_body = None, hq_authorization = auth\<rparr>"

text \<open>One post of a thread; posts without text are left out.\<close>

definition thread_message :: "pydict \<Rightarrow> pydict option" where
  "thread_message post =
     (let body = fst (normalize_post_text post); props = dict_or_empty (dict_get post ''props'')
      in if body = [] then None
         else Some [(''message_id'', PStr (str_or_empty (dict_get post ''id''))),
           (''author'', PStr (py_str (py_or (dict_get props ''override_username'') (py_or (dict_get props ''webhook_display_name'')
              (py_or (dict_get post ''user_id'') (PStr ''unknown'')))))),
           (''text'', PStr body)])"

definition post_key :: "pydict \<Rightarrow> (int \<times> string) result" where
  "post_key post =
     result_map (\<lambda>n. (n, str_or_empty (dict_get post ''id''))) (py_int (py_or (dict_get post ''create_at'') (PInt 0)))"

definition order_posts :: "pydict list \<Rightarrow> pydict list result" where
  "order_posts posts =
     result_map (\<lambda>ks. map snd (sort_key fst (zip ks posts))) (result_list post_key posts)"

definition mattermost_thread :: "'w http_client \<Rightarrow> string \<Rightarrow> string \<Rightarrow> string \<Rightarrow> string \<Rightarrow> int \<Rightarrow> nat \<Rightarrow> ('w, pydict list) io" where
  "mattermost_thread client api_url bot_token root_id current_id created_at_ms limit =
     io_bind (mm_auth bot_token) (\<lambda>auth.
     io_bind (mm_get client (api_path api_url (''/posts/'' @ root_id @ ''/thread''))
       [(''perPage'', PInt (int limit)), (''fromPost'', PStr current_id), (''fromCreateAt'', PInt created_at_ms),
        (''direction'', PStr ''up'')] auth) (\<lambda>response.
     io_bind (checked_json response) (\<lambda>payload.
       case dict_get (dict_or_empty payload) ''posts'' of
         PDict posts \<Rightarrow>
           io_lift (result_map (\<lambda>ordered. List.map_filter thread_message (take_last limit ordered))
             (order_posts (map dict_or_empty (filter is_dict (map snd posts)))))
       | _ \<Rightarrow> io_raise (Api_error ''Mattermost thread response did not contain posts''))))"

definition mattermost_user_id :: "'w http_client \<Rightarrow> string \<Rightarrow> string \<Rightarrow> ('w, string) io" where
  "mattermost_user_id client api_url bot_token =
     io_bind (mm_auth bot_token) (\<lambda>auth.
     io_bind (mm_get client (api_path api_url ''/users/me'') [] auth) (\<lambda>response.
     io_bind (checked_json response) (\<lambda>payload.
     io_bind (io_lift (as_dict payload)) (\<lambda>d. io_return (str_or_empty (dict_get d ''id''))))))"

definition get_user_username :: "'w http_client \<Rightarrow> string \<Rightarrow> string \<Rightarrow> string \<Rightarrow> ('w, string) io" where
  "get_user_username client api_url bot_token user_id =
     (if user_id = [] then io_return []
      else
        io_bind (mm_auth bot_token) (\<lambda>auth.
        io_bind (mm_get client (api_path api_url (''/users/'' @ user_id)) [] auth) (\<lambda>response.
        io_bind (checked_json response) (\<lambda>payload.
          case payload of
            PDict d \<Rightarrow> io_return (strip (str_or_empty (dict_get d ''username'')))
          | _ \<Rightarrow> io_raise (Api_error ''Mattermost user response was not an object'')))))"

text \<open>The channel of that name in one team; \<open>PNone\<close> when the provider does not show it.\<close>

definition get_channel :: "'w http_client \<Rightarrow> string \<Rightarrow> string \<Rightarrow> ('w, pyval) io" where
  "get_channel client url auth =
     io_bind (mm_get client url [] auth) (\<lambda>response.
       if hs_status response = 403 \<or> hs_status response = 404 then io_return PNone else checked_json response)"

definition channel_by_team_id :: "'w http_client \<Rightarrow> string \<Rightarrow> string \<Rightarrow> string \<Rightarrow> string \<Rightarrow> ('w, pyval) io" where
  "channel_by_team_id client api_url auth team_id channel_name =
     get_channel client (api_path api_url (''/teams/'' @ team_id @ ''/channels/name/'' @ channel_name)) auth"

definition channel_by_team_name :: "'w http_client \<Rightarrow> string \<Rightarrow> string \<Rightarrow> string \<Rightarrow> string \<Rightarrow> ('w, pyval) io" where
  "channel_by_team_name client api_url auth team_name channel_name =
     get_channel client (api_path api_url (''/teams/name/'' @ team_name @ ''/channels/name/'' @ channel_name)) auth"

definition channel_id_of :: "pyval \<Rightarrow> ('w, string) io" where
  "channel_id_of channel = io_lift (result_map py_str (py_item channel ''id''))"

definition quote_name :: "string \<Rightarrow> string" where
  "quote_name s = [CHR 0x27] @ s @ [CHR 0x27]"

text \<open>The channels of that name in the teams of the bot.\<close>

fun team_matches :: "'w http_client \<Rightarrow> string \<Rightarrow> string \<Rightarrow> string \<Rightarrow> pyval list \<Rightarrow> ('w, pyval list) io" where
  "team_matches client api_url auth name [] = io_return []"
| "team_matches client api_url auth name (team # teams) =
     io_bind (io_lift (as_dict team)) (\<lambda>t.
     io_bind (channel_by_team_id client api_url auth (py_str (dict_get_default t ''id'' (PStr []))) name) (\<lambda>channel.
     io_bind (team_matches client api_url auth name teams) (\<lambda>rest.
       io_return (if truthy channel then channel # rest else rest))))"

definition search_teams :: "'w http_client \<Rightarrow> string \<Rightarrow> string \<Rightarrow> string \<Rightarrow> ('w, string) io" where
  "search_teams client api_url auth name =
     io_bind (mm_get client (api_path api_url ''/users/me/teams'') [] auth) (\<lambda>response.
     io_bind (checked_json response) (\<lambda>teams.
     io_bind (io_lift (py_iter teams)) (\<lambda>teams.
     io_bind (team_matches client api_url auth name teams) (\<lambda>matches.
       case matches of
         [] \<Rightarrow> io_raise (Api_error (''Mattermost channel '' @ quote_name name @ '' was not found for the configured bot token''))
       | [m] \<Rightarrow> channel_id_of m
       | _ \<Rightarrow> io_raise (Api_error (''Mattermost channel '' @ quote_name name @ '' is ambiguous across multiple teams; ''
           @ ''set message_bus.team_name or store the channel id on the task''))))))"

definition resolve_mattermost_channel :: "'w http_client \<Rightarrow> string \<Rightarrow> string \<Rightarrow> string \<Rightarrow> string \<Rightarrow> string \<Rightarrow> string \<Rightarrow> ('w, string) io" where
  "resolve_mattermost_channel client api_url bot_token channel_id channel_name team_id team_name =
     (let name = normalize_channel_name channel_name
      in if channel_id \<noteq> [] then io_return channel_id
         else if name = [] then io_raise (Api_error ''Mattermost channel_id or channel name is required'')
         else io_bind (mm_auth bot_token) (\<lambda>auth.
           if team_id \<noteq> [] then
             io_bind (channel_by_team_id client api_url auth team_id name) (\<lambda>channel.
               if truthy channel then channel_id_of channel
               else io_raise (Api_error (''Mattermost channel '' @ quote_name name @ '' not found in team id '' @ quote_name team_id)))
           else if team_name \<noteq> [] then
             io_bind (channel_by_team_name client api_url auth team_name name) (\<lambda>channel.
               if truthy channel then channel_id_of channel
               else io_raise (Api_error (''Mattermost channel '' @ quote_name name @ '' not found in team '' @ quote_name team_name)))
           else search_teams client api_url auth name))"

definition create_mattermost_post :: "'w http_client \<Rightarrow> mm_post \<Rightarrow> ('w, pyval) io" where
  "create_mattermost_post client p =
     io_bind (resolve_mattermost_channel client (mp_api_url p) (mp_bot_token p) (mp_channel_id p) (mp_channel_name p)
       (mp_team_id p) (mp_team_name p)) (\<lambda>channel_id.
     io_bind (mm_auth (mp_bot_token p)) (\<lambda>auth.
     io_bind (client \<lparr>hq_method = ''POST'', hq_url = api_path (mp_api_url p) ''/posts'', hq_params = [],
       hq_body = Some ([(''channel_id'', PStr channel_id), (''message'', PStr (mp_text p))]
         @ (if mp_root_id p \<noteq> [] then [(''root_id'', PStr (mp_root_id p))] else [])
         @ (case mp_props p of None \<Rightarrow> [] | Some props \<Rightarrow> [(''props'', PDict props)])),
       hq_authorization = auth\<rparr>)
     checked_json))"

section \<open>Slack\<close>

definition slack_auth :: "string \<Rightarrow> ('w, string) io" where
  "slack_auth bot_token =
     (if bot_token = [] then io_raise (Api_error ''Slack bot token is required'')
      else io_return (''Bearer '' @ bot_token))"

definition slack_base_url :: "string \<Rightarrow> ('w, string) io" where
  "slack_base_url api_url =
     (let normalized = rstrip_char (CHR ''/'') (strip api_url)
      in if normalized = [] then io_raise (Api_error ''Slack API URL is required'') else io_return normalized)"

text \<open>The payload of an answer that says \<open>ok\<close>.\<close>

definition slack_payload :: "string \<Rightarrow> http_response \<Rightarrow> ('w, pydict) io" where
  "slack_payload failure response =
     io_bind (checked_json response) (\<lambda>payload.
     io_bind (io_lift (as_dict payload)) (\<lambda>d.
       if truthy (dict_get d ''ok'') then io_return d
       else io_raise (Api_error (py_str (py_or (dict_get d ''error'') (PStr failure))))))"

definition slack_call :: "'w http_client \<Rightarrow> string \<Rightarrow> string \<Rightarrow> string \<Rightarrow> pydict \<Rightarrow> ('w, pydict) io" where
  "slack_call client api_url bot_token method body =
     io_bind (slack_base_url api_url) (\<lambda>base.
     io_bind (slack_auth bot_token) (\<lambda>auth.
     io_bind (client \<lparr>hq_method = ''POST'', hq_url = base @ ''/'' @ method, hq_params = [], hq_body = Some body,
       hq_authorization = auth\<rparr>)
     (slack_payload (''Slack '' @ method @ '' failed''))))"

definition create_slack_post :: "'w http_client \<Rightarrow> slack_post \<Rightarrow> ('w, pydict) io" where
  "create_slack_post client p =
     slack_call client (sp_api_url p) (sp_bot_token p) ''chat.postMessage''
       ([(''channel'', PStr (sp_channel_id p)), (''text'', PStr (sp_text p))]
        @ (if sp_thread_id p \<noteq> [] then [(''thread_ts'', PStr (sp_thread_id p))] else [])
        @ (case sp_blocks p of None \<Rightarrow> [] | Some blocks \<Rightarrow> [(''blocks'', PList blocks)]))"

definition update_slack_post :: "'w http_client \<Rightarrow> string \<Rightarrow> string \<Rightarrow> string \<Rightarrow> string \<Rightarrow> string \<Rightarrow> ('w, pydict) io" where
  "update_slack_post client api_url bot_token channel_id post_id txt =
     slack_call client api_url bot_token ''chat.update''
       [(''channel'', PStr channel_id), (''ts'', PStr post_id), (''text'', PStr txt), (''blocks'', PList [])]"

definition slack_user_id :: "'w http_client \<Rightarrow> string \<Rightarrow> string \<Rightarrow> ('w, string) io" where
  "slack_user_id client api_url bot_token =
     io_bind (slack_call client api_url bot_token ''auth.test'' []) (\<lambda>payload.
       io_return (str_or_empty (dict_get payload ''user_id'')))"

definition MAX_THREAD_FETCH_PAGES :: nat where
  "MAX_THREAD_FETCH_PAGES = 50"

definition next_cursor :: "pydict \<Rightarrow> string" where
  "next_cursor payload =
     (case dict_get payload ''response_metadata'' of PDict m \<Rightarrow> str_or_empty (dict_get m ''next_cursor'') | _ \<Rightarrow> [])"

text \<open>
  The pages of a thread, at most \<open>pages\<close> more of them; \<open>seen\<close> are the cursors followed so far.
\<close>

fun thread_pages :: "(string \<Rightarrow> ('w, pydict) io) \<Rightarrow> nat \<Rightarrow> string \<Rightarrow> string list \<Rightarrow> pydict list \<Rightarrow> ('w, pydict list) io" where
  "thread_pages fetch 0 cursor seen messages =
     io_raise (Api_error ''Slack thread exceeded the pagination safety limit'')"
| "thread_pages fetch (Suc pages) cursor seen messages =
     io_bind (fetch cursor) (\<lambda>payload.
       let found = messages @ map dict_or_empty (filter is_dict (list_or_empty (dict_get payload ''messages'')));
           cursor' = next_cursor payload
       in if cursor' = [] then io_return found
          else if cursor' \<in> set seen then io_raise (Api_error ''Slack thread returned a repeated pagination cursor'')
          else thread_pages fetch pages cursor' (cursor' # seen) found)"

definition slack_message :: "pydict \<Rightarrow> pydict option" where
  "slack_message m =
     (let body = strip (str_or_empty (dict_get m ''text''))
      in if body = [] then None
         else Some [(''message_id'', PStr (str_or_empty (dict_get m ''ts''))),
           (''author'', PStr (py_str (py_or (dict_get m ''user'') (py_or (dict_get m ''username'')
              (py_or (dict_get m ''bot_id'') (PStr ''unknown'')))))),
           (''text'', PStr body)])"

definition thread_page :: "'w http_client \<Rightarrow> string \<Rightarrow> string \<Rightarrow> string \<Rightarrow> string \<Rightarrow> string \<Rightarrow> string \<Rightarrow> ('w, pydict) io" where
  "thread_page client api_url bot_token channel_id thread_id current_id cursor =
     slack_call client api_url bot_token ''conversations.replies''
       ([(''channel'', PStr channel_id), (''ts'', PStr thread_id), (''latest'', PStr current_id),
         (''inclusive'', PBool True), (''limit'', PInt 100)]
        @ (if cursor \<noteq> [] then [(''cursor'', PStr cursor)] else []))"

definition slack_thread :: "'w http_client \<Rightarrow> string \<Rightarrow> string \<Rightarrow> string \<Rightarrow> string \<Rightarrow> string \<Rightarrow> nat \<Rightarrow> ('w, pydict list) io" where
  "slack_thread client api_url bot_token channel_id thread_id current_id limit =
     io_bind (thread_pages (thread_page client api_url bot_token channel_id thread_id current_id)
       MAX_THREAD_FETCH_PAGES [] [] []) (\<lambda>messages.
       io_return (List.map_filter slack_message
         (take_last limit (sort_key (\<lambda>m. str_or_empty (dict_get m ''ts'')) messages))))"

text \<open>\<open>^[CDG][A-Z0-9]{5,}$\<close>, ignoring case, of the whole text.\<close>

definition channel_id_text :: "string \<Rightarrow> bool" where
  "channel_id_text s \<longleftrightarrow>
     (case s of [] \<Rightarrow> False
      | c # t \<Rightarrow> lower_char c \<in> {CHR ''c'', CHR ''d'', CHR ''g''} \<and> 5 \<le> length t \<and> list_all (\<lambda>x. is_alpha x \<or> is_digit x) t)"

text \<open>The id of the first channel with the name, if a page has one.\<close>

definition channel_on_page :: "string \<Rightarrow> pyval list \<Rightarrow> string option" where
  "channel_on_page name channels =
     first_row (map (\<lambda>c. str_or_empty (dict_get c ''id''))
       (filter (\<lambda>c. lower (strip (str_or_empty (dict_get c ''name''))) = lower name)
         (map dict_or_empty (filter is_dict channels))))"

definition channels_page :: "'w http_client \<Rightarrow> string \<Rightarrow> string \<Rightarrow> string \<Rightarrow> ('w, pydict) io" where
  "channels_page client api_url bot_token cursor =
     io_bind (slack_base_url api_url) (\<lambda>base.
     io_bind (slack_auth bot_token) (\<lambda>auth.
     io_bind (client \<lparr>hq_method = ''GET'', hq_url = base @ ''/conversations.list'',
       hq_params = [(''exclude_archived'', PStr ''true''), (''limit'', PInt 200),
          (''types'', PStr ''public_channel,private_channel'')] @ (if cursor \<noteq> [] then [(''cursor'', PStr cursor)] else []),
       hq_body = None, hq_authorization = auth\<rparr>)
     (slack_payload ''Slack conversations.list failed'')))"

text \<open>The loop over the pages of channels; \<open>None\<close> is a loop that does not end.\<close>

partial_function (option) search_channels ::
    "(string \<Rightarrow> ('w, pydict) io) \<Rightarrow> string \<Rightarrow> string \<Rightarrow> 'w \<Rightarrow> ((provider_error + string) \<times> 'w) option" where
  "search_channels fetch name cursor w =
     (case fetch cursor w of
        (Inl e, w') \<Rightarrow> Some (Inl e, w')
      | (Inr payload, w') \<Rightarrow>
          (case py_iter (dict_get_default payload ''channels'' (PList [])) of
             Inl e \<Rightarrow> Some (Inl (Python_error e), w')
           | Inr channels \<Rightarrow>
               (case channel_on_page name channels of
                  Some i \<Rightarrow> Some (Inr i, w')
                | None \<Rightarrow>
                    (if next_cursor payload = []
                     then Some (Inl (Api_error (''Slack channel '' @ quote_name name @ '' was not found for the configured bot token'')), w')
                     else search_channels fetch name (next_cursor payload) w'))))"

definition resolve_slack_channel ::
    "'w http_client \<Rightarrow> string \<Rightarrow> string \<Rightarrow> string \<Rightarrow> string \<Rightarrow> 'w \<Rightarrow> ((provider_error + string) \<times> 'w) option" where
  "resolve_slack_channel client api_url bot_token channel_id channel_name w =
     (let name = normalize_channel_name channel_name
      in if channel_id \<noteq> [] then Some (Inr channel_id, w)
         else if name = [] then Some (Inl (Api_error ''Slack channel_id or channel name is required''), w)
         else if channel_id_text name then Some (Inr name, w)
         else search_channels (channels_page client api_url bot_token) name [] w)"

end
