(* ===== verification/Message_Events.thy ===== *)
theory Message_Events
  imports Provider_Api Message_Actions
begin

text \<open>
  \<open>shared/lib/message_ingress.py\<close>: the payloads of the providers' sockets, normalized to message events, and the
  listeners that read the sockets, reconnect after an error, and hand the events to the gateway.
\<close>

section \<open>Events\<close>

record inbound_message =
  im_provider :: string
  im_message_id :: string
  im_thread_id :: string
  im_channel_id :: string
  im_channel_name :: string
  im_team_id :: string
  im_team_name :: string
  im_user_id :: string
  im_username :: string
  im_text :: string
  im_created_at_ms :: int
  im_is_bot :: bool
  im_is_webhook :: bool
  im_webhook_id :: string
  im_webhook_name :: string
  im_text_truncated :: bool

record provider_action =
  pa_provider :: string
  pa_action_id :: string
  pa_context :: pydict
  pa_post_id :: string
  pa_channel_id :: string
  pa_team_id :: string
  pa_user_id :: string
  pa_username :: string

datatype message_event = Inbound inbound_message | Action provider_action

section \<open>Normalizing payloads\<close>

fun flag_set :: "pyval \<Rightarrow> bool" where
  "flag_set (PBool b) = b"
| "flag_set v = (lower (strip (str_or_empty v)) \<in> {''1'', ''true'', ''yes''})"

text \<open>\<open>str(a or b or "")\<close>.\<close>

definition first_text :: "pyval \<Rightarrow> pyval \<Rightarrow> string" where
  "first_text a b = str_or_empty (py_or a b)"

definition mattermost_message :: "pydict \<Rightarrow> pydict \<Rightarrow> pydict \<Rightarrow> inbound_message option result" where
  "mattermost_message data broadcast post =
     (let message_id = str_or_empty (dict_get post ''id'');
          props = dict_or_empty (dict_get post ''props'');
          (body, truncated) = normalize_post_text post
      in if message_id = [] then Inr None
         else result_map (\<lambda>created. Some
           \<lparr>im_provider = ''mattermost'', im_message_id = message_id,
            im_thread_id = first_text (dict_get post ''root_id'') (PStr message_id),
            im_channel_id = first_text (dict_get post ''channel_id'') (dict_get broadcast ''channel_id''),
            im_channel_name = str_or_empty (dict_get data ''channel_name''),
            im_team_id = first_text (dict_get data ''team_id'') (dict_get broadcast ''team_id''),
            im_team_name = str_or_empty (dict_get data ''team_name''),
            im_user_id = first_text (dict_get post ''user_id'') (dict_get broadcast ''user_id''),
            im_username = str_or_empty (dict_get data ''sender_name''), im_text = body, im_created_at_ms = created,
            im_is_bot = flag_set (dict_get props ''from_bot''), im_is_webhook = flag_set (dict_get props ''from_webhook''),
            im_webhook_id = strip (str_or_empty (dict_get props ''webhook_id'')),
            im_webhook_name = strip (first_text (dict_get props ''webhook_display_name'') (dict_get props ''override_username'')),
            im_text_truncated = truncated\<rparr>)
           (py_int (py_or (dict_get post ''create_at'') (PInt 0))))"

definition parse_mattermost_event :: "parser \<Rightarrow> pydict \<Rightarrow> inbound_message option result" where
  "parse_mattermost_event json payload =
     (if dict_get payload ''event'' \<noteq> PStr ''posted'' then Inr None
      else case (dict_get payload ''data'', dict_get payload ''broadcast'') of
        (PDict data, PDict broadcast) \<Rightarrow>
          (case (case dict_get data ''post'' of PStr raw \<Rightarrow> json raw | PDict post \<Rightarrow> Some (PDict post) | _ \<Rightarrow> None) of
             Some (PDict post) \<Rightarrow> mattermost_message data broadcast post
           | _ \<Rightarrow> Inr None)
      | _ \<Rightarrow> Inr None)"

definition slack_inbound :: "pydict \<Rightarrow> pydict \<Rightarrow> inbound_message option" where
  "slack_inbound body event =
     (let message_id = str_or_empty (dict_get event ''ts'')
      in if dict_get event ''type'' \<noteq> PStr ''message'' \<or> message_id = [] then None
         else Some
           \<lparr>im_provider = ''slack'', im_message_id = message_id,
            im_thread_id = first_text (dict_get event ''thread_ts'') (PStr message_id),
            im_channel_id = str_or_empty (dict_get event ''channel''), im_channel_name = str_or_empty (dict_get event ''channel''),
            im_team_id = str_or_empty (dict_get body ''team_id''), im_team_name = [],
            im_user_id = str_or_empty (dict_get event ''user''), im_username = str_or_empty (dict_get event ''user''),
            im_text = strip (str_or_empty (dict_get event ''text'')), im_created_at_ms = 0,
            im_is_bot = truthy (py_or (dict_get event ''bot_id'') (dict_get event ''subtype'')), im_is_webhook = False,
            im_webhook_id = [], im_webhook_name = [], im_text_truncated = False\<rparr>)"

definition slack_action :: "parser \<Rightarrow> pydict \<Rightarrow> pydict \<Rightarrow> provider_action" where
  "slack_action json body action =
     (let context = (case dict_get action ''value'' of
            PStr raw \<Rightarrow> (case json raw of None \<Rightarrow> [] | Some v \<Rightarrow> dict_or_empty v) | v \<Rightarrow> dict_or_empty v);
          part = (\<lambda>name. dict_or_empty (dict_get body name))
      in \<lparr>pa_provider = ''slack'', pa_action_id = str_or_empty (dict_get action ''action_id''), pa_context = context,
          pa_post_id = str_or_empty (dict_get (part ''container'') ''message_ts''),
          pa_channel_id = str_or_empty (dict_get (part ''channel'') ''id''), pa_team_id = str_or_empty (dict_get (part ''team'') ''id''),
          pa_user_id = str_or_empty (dict_get (part ''user'') ''id''),
          pa_username = first_text (dict_get (part ''user'') ''username'')
            (py_or (dict_get (part ''user'') ''name'') (dict_get (part ''user'') ''id''))\<rparr>)"

definition parse_slack_envelope :: "parser \<Rightarrow> pydict \<Rightarrow> message_event option" where
  "parse_slack_envelope json payload =
     (let envelope_type = str_or_empty (dict_get payload ''type'')
      in case dict_get payload ''payload'' of
           PDict body \<Rightarrow>
             (if envelope_type = ''events_api'' then
                (case dict_get body ''event'' of PDict event \<Rightarrow> map_option Inbound (slack_inbound body event) | _ \<Rightarrow> None)
              else if envelope_type \<noteq> ''interactive'' \<or> dict_get body ''type'' \<noteq> PStr ''block_actions'' then None
              else (case dict_get body ''actions'' of
                  PList (PDict action # _) \<Rightarrow> Some (Action (slack_action json body action)) | _ \<Rightarrow> None))
         | _ \<Rightarrow> None)"

section \<open>The listeners\<close>

text \<open>
  \<open>urlparse\<close> as far as the listener uses it: the scheme and the network location.  Brackets around a host
  are not checked.
\<close>

definition url_scheme :: "string \<Rightarrow> string \<times> string" where
  "url_scheme url =
     (let s = takeWhile (\<lambda>c. c \<noteq> CHR '':'') url
      in if s \<noteq> [] \<and> length s < length url \<and> is_alpha (hd s)
            \<and> list_all (\<lambda>c. is_alpha c \<or> is_digit c \<or> c \<in> {CHR ''+'', CHR ''-'', CHR ''.''}) s
         then (lower s, drop (Suc (length s)) url) else ([], url))"

definition url_netloc :: "string \<Rightarrow> string" where
  "url_netloc rest = (if starts_with ''//'' rest then takeWhile (\<lambda>c. c \<notin> {CHR ''/'', CHR ''?'', CHR ''#''}) (drop 2 rest) else [])"

definition mattermost_websocket_url :: "string \<Rightarrow> string" where
  "mattermost_websocket_url api_url =
     (let raw = dropWhile (\<lambda>c. char_code c \<le> 32) (rstrip_char (CHR ''/'') api_url);
          (scheme, rest) = url_scheme (filter (\<lambda>c. c \<notin> {CHR 0x09, CHR 0x0A, CHR 0x0D}) raw)
      in (if scheme = ''https'' then ''wss'' else ''ws'') @ ''://'' @ url_netloc rest @ ''/api/v4/websocket'')"

text \<open>
  One frame.  A frame that is not JSON, and a \<open>TypeError\<close> of the parser, are logged; every other error ends the
  connection.
\<close>

definition mattermost_frame :: "parser \<Rightarrow> (message_event \<Rightarrow> ('w, unit) io) \<Rightarrow> string \<Rightarrow> ('w, unit) io" where
  "mattermost_frame json handle raw =
     (case json raw of
        None \<Rightarrow> io_return ()
      | Some v \<Rightarrow>
          (case result_bind (as_dict v) (parse_mattermost_event json) of
             Inl e \<Rightarrow> (if e = Type_error then io_return () else io_raise (Python_error e))
           | Inr None \<Rightarrow> io_return ()
           | Inr (Some m) \<Rightarrow> handle (Inbound m)))"

definition slack_frame ::
    "parser \<Rightarrow> (string \<Rightarrow> ('w, unit) io) \<Rightarrow> (message_event \<Rightarrow> ('w, unit) io) \<Rightarrow> string \<Rightarrow> ('w, unit) io" where
  "slack_frame json send handle raw =
     (case json raw of
        None \<Rightarrow> io_return ()
      | Some v \<Rightarrow>
          io_bind (io_lift (as_dict v)) (\<lambda>envelope.
            let envelope_id = str_or_empty (dict_get envelope ''envelope_id'')
            in io_bind (if envelope_id = [] then io_return ()
                        else send (json_dumps (PDict [(''envelope_id'', PStr envelope_id)]))) (\<lambda>_.
                 case parse_slack_envelope json envelope of None \<Rightarrow> io_return () | Some event \<Rightarrow> handle event)))"

text \<open>The frames of one connection, until one raises.\<close>

fun read_frames :: "(string \<Rightarrow> ('w, unit) io) \<Rightarrow> string list \<Rightarrow> ('w, unit) io" where
  "read_frames frame [] = io_return ()"
| "read_frames frame (raw # raws) = io_bind (frame raw) (\<lambda>_. read_frames frame raws)"

text \<open>The connections one after the other: whatever ends one of them, the listener connects again.\<close>

definition run_connections :: "('w, unit) io list \<Rightarrow> 'w \<Rightarrow> 'w" where
  "run_connections connections w = foldl (\<lambda>w c. snd (c w)) w connections"

definition run_mattermost ::
    "parser \<Rightarrow> string \<Rightarrow> string \<Rightarrow> (message_event \<Rightarrow> ('w, unit) io) \<Rightarrow> string list list \<Rightarrow> 'w \<Rightarrow> 'w" where
  "run_mattermost json api_url bot_token handle connections w =
     (if api_url = [] \<or> bot_token = [] then w
      else run_connections (map (read_frames (mattermost_frame json handle)) connections) w)"

definition open_slack_connection :: "'w http_client \<Rightarrow> string \<Rightarrow> string \<Rightarrow> ('w, string) io" where
  "open_slack_connection client api_url app_token =
     (if api_url = [] then io_raise (Python_error (Runtime_error ''Slack API URL is required''))
      else
        io_bind (client \<lparr>hq_method = ''POST'', hq_url = api_url @ ''/apps.connections.open'', hq_params = [], hq_body = None,
          hq_authorization = ''Bearer '' @ app_token\<rparr>) (\<lambda>response.
        io_bind (checked_json response) (\<lambda>payload.
        io_bind (io_lift (as_dict payload)) (\<lambda>d.
          if \<not> truthy (dict_get d ''ok'') \<or> \<not> truthy (dict_get d ''url'')
          then io_raise (Python_error (Runtime_error (''Slack apps.connections.open failed: ''
            @ py_str (dict_get_default d ''error'' (PStr ''unknown error'')))))
          else io_return (py_str (dict_get d ''url''))))))"

definition run_slack ::
    "parser \<Rightarrow> 'w http_client \<Rightarrow> string \<Rightarrow> string \<Rightarrow> (string \<Rightarrow> ('w, unit) io) \<Rightarrow> (message_event \<Rightarrow> ('w, unit) io)
     \<Rightarrow> string list list \<Rightarrow> 'w \<Rightarrow> 'w" where
  "run_slack json client api_url app_token send handle connections w =
     (if app_token = [] then w
      else run_connections
        (map (\<lambda>frames. io_bind (open_slack_connection client (rstrip_char (CHR ''/'') api_url) app_token)
          (\<lambda>_. read_frames (slack_frame json send handle) frames)) connections) w)"

datatype listener = Mattermost_listener string string | Slack_listener string string

definition build_message_ingress :: "string \<Rightarrow> string \<Rightarrow> string \<Rightarrow> string \<Rightarrow> listener result" where
  "build_message_ingress provider api_url bot_token app_token =
     (let normalized = lower (strip provider)
      in if normalized = ''mattermost'' then Inr (Mattermost_listener api_url bot_token)
         else if normalized = ''slack'' then Inr (Slack_listener (rstrip_char (CHR ''/'') api_url) app_token)
         else Inl (Value_error (''Unsupported message bus provider: '' @ provider)))"

end
