(* ===== verification/Message_Routes.thy ===== *)
theory Message_Routes
  imports Message_Events
begin

text \<open>
  \<open>gateway/plugin_dir.py\<close>: the message routes that the workflow packages declare in their \<open>agent.yaml\<close>.  The
  discovered packages are an argument, as pairs of name and configuration; keys of a configuration are text.
  \<open>compile_error\<close> is the complaint of \<open>re.compile\<close> about a pattern, if it has one.
\<close>

section \<open>Routes\<close>

record dedupe_policy =
  dp_key :: "string list"
  dp_window_sec :: int
  dp_statuses :: string
  dp_action :: string

record message_route =
  rt_workflow :: string
  rt_channel :: string
  rt_trigger_words :: "string list"
  rt_rule_id :: string
  rt_provider :: string
  rt_priority :: int
  rt_match_type :: string
  rt_pattern :: string
  rt_trusted_user_ids :: "string list"
  rt_trusted_webhook_ids :: "string list"
  rt_trusted_webhook_names :: "string list"
  rt_allow_bot :: bool
  rt_root_posts_only :: bool
  rt_preserve_full_body :: bool
  rt_allowed_accounts :: "string list"
  rt_allowed_environments :: "string list"
  rt_required_labels :: "(string \<times> string list) list"
  rt_dedupe :: "dedupe_policy list"
  rt_allowed_usernames :: "string list option"

definition new_route :: "string \<Rightarrow> string \<Rightarrow> message_route" where
  "new_route workflow channel =
     \<lparr>rt_workflow = workflow, rt_channel = channel, rt_trigger_words = [], rt_rule_id = [], rt_provider = [], rt_priority = 0,
      rt_match_type = ''prefix'', rt_pattern = [], rt_trusted_user_ids = [], rt_trusted_webhook_ids = [],
      rt_trusted_webhook_names = [], rt_allow_bot = False, rt_root_posts_only = False, rt_preserve_full_body = False,
      rt_allowed_accounts = [], rt_allowed_environments = [], rt_required_labels = [], rt_dedupe = [],
      rt_allowed_usernames = None\<rparr>"

section \<open>Channel policies\<close>

definition messaging_config :: "pydict \<Rightarrow> pydict" where
  "messaging_config config = dict_or_empty (dict_get config ''messaging'')"

definition normalize_invocation_username :: "string \<Rightarrow> string" where
  "normalize_invocation_username v = lower (remove_prefix ''@'' (strip v))"

text \<open>\<open>[a-z0-9._-]{1,64}\<close> of the whole name.\<close>

definition username_ok :: "string \<Rightarrow> bool" where
  "username_ok name \<longleftrightarrow> 1 \<le> length name \<and> length name \<le> 64
     \<and> list_all (\<lambda>c. lower_or_digit c \<or> c \<in> {CHR ''.'', CHR ''_'', CHR ''-''}) name"

definition add_username :: "string list \<Rightarrow> pyval \<Rightarrow> string list result" where
  "add_username names v =
     (case v of
        PStr s \<Rightarrow>
          (let name = normalize_invocation_username s
           in if \<not> username_ok name \<or> name \<in> set names
              then Inl (Value_error ''Allowed usernames must be valid, unique normalized Mattermost usernames'')
              else Inr (names @ [name]))
      | _ \<Rightarrow> Inl (Value_error ''Allowed usernames must be strings''))"

definition add_policy :: "(string \<times> string list) list \<Rightarrow> string \<times> pyval \<Rightarrow> (string \<times> string list) list result" where
  "add_policy policies entry =
     (let (raw_channel, policy) = entry; channel = lower (strip raw_channel)
      in if strip raw_channel = [] \<or> \<not> is_dict policy then Inl (Value_error ''Invalid messaging channel policy'')
         else
           let d = dict_or_empty policy; allowed = dict_get d ''allowed_usernames''
           in if set (map fst d) \<noteq> {''allowed_usernames''} \<or> \<not> is_list allowed \<or> length (list_or_empty allowed) > 500
              then Inl (Value_error ''Channel policy must contain allowed_usernames (at most 500 names)'')
              else result_bind (result_fold add_username [] (list_or_empty allowed)) (\<lambda>names.
                if channel \<in> set (map fst policies)
                then Inl (Value_error ''Channel policies must have unique normalized channel names'')
                else Inr (policies @ [(channel, names)])))"

definition channel_policies :: "pydict \<Rightarrow> (string \<times> string list) list result" where
  "channel_policies messaging =
     (case dict_get_default messaging ''channel_policies'' (PDict []) of
        PDict raw \<Rightarrow>
          (if length raw > 100 then Inl (Value_error ''messaging.channel_policies must be a map of at most 100 channels'')
           else result_fold add_policy [] raw)
      | _ \<Rightarrow> Inl (Value_error ''messaging.channel_policies must be a map of at most 100 channels''))"

section \<open>Duplicate policies\<close>

definition DEDUPE_KEY_PARTS :: "string list" where
  "DEDUPE_KEY_PARTS = [''sender'', ''alert.source'', ''alert.identity'', ''alert.account'']"

text \<open>\<open>^label:[A-Za-z][A-Za-z0-9_.-]{0,63}$\<close> of the whole part.\<close>

definition label_part :: "string \<Rightarrow> bool" where
  "label_part part \<longleftrightarrow> starts_with ''label:'' part \<and>
     (case drop 6 part of [] \<Rightarrow> False
      | c # t \<Rightarrow> is_alpha c \<and> length t \<le> 63 \<and> list_all (\<lambda>x. word_char x \<or> x \<in> {CHR ''.'', CHR ''-''}) t)"

definition dedupe_key_ok :: "string \<Rightarrow> bool" where
  "dedupe_key_ok part \<longleftrightarrow> part \<in> set DEDUPE_KEY_PARTS \<or> label_part part"

fun int_value :: "pyval \<Rightarrow> int" where
  "int_value (PInt i) = i"
| "int_value (PBool b) = (if b then 1 else 0)"
| "int_value _ = 0"

definition or_text :: "pyval \<Rightarrow> string \<Rightarrow> string" where
  "or_text v d = py_str (py_or v (PStr d))"

definition read_dedupe_policy :: "string \<Rightarrow> pyval \<Rightarrow> dedupe_policy result" where
  "read_dedupe_policy err item =
     (case item of
        PDict d \<Rightarrow>
          result_bind (py_iter (py_or (dict_get d ''key'') (PList []))) (\<lambda>parts.
            let key = map (\<lambda>p. strip (py_str p)) parts; window_sec = dict_get d ''window_sec'';
                statuses = or_text (dict_get d ''statuses'') ''active''; action = or_text (dict_get d ''action'') ''merge''
            in if key = [] \<or> \<not> list_all dedupe_key_ok key \<or> \<not> is_int window_sec
                  \<or> \<not> (1 \<le> int_value window_sec \<and> int_value window_sec \<le> 86400)
                  \<or> statuses \<notin> {''active'', ''any''} \<or> action \<notin> {''merge'', ''reply''}
               then Inl (Value_error err)
               else Inr \<lparr>dp_key = key, dp_window_sec = int_value window_sec, dp_statuses = statuses, dp_action = action\<rparr>)
      | _ \<Rightarrow> Inl (Value_error err))"

definition dedupe_policies :: "string \<Rightarrow> string \<Rightarrow> pyval \<Rightarrow> dedupe_policy list result" where
  "dedupe_policies workflow rule_id raw =
     (let err = ''Workflow '' @ str_repr workflow @ '' messaging rule '' @ str_repr rule_id @ '' has an invalid dedupe policy''
      in case raw of
           PNone \<Rightarrow> Inr []
         | PList items \<Rightarrow> (if length items > 3 then Inl (Value_error err) else result_list (read_dedupe_policy err) items)
         | _ \<Rightarrow> Inl (Value_error err))"

section \<open>Rules\<close>

text \<open>The texts of an iterable, stripped, without the empty ones; \<open>or []\<close> when it is falsy.\<close>

definition nonblank_texts :: "pyval \<Rightarrow> string list result" where
  "nonblank_texts v =
     result_map (\<lambda>vs. filter (\<lambda>s. s \<noteq> []) (map (\<lambda>x. strip (py_str x)) vs)) (py_iter (py_or v (PList [])))"

record rule_head =
  rh_id :: string
  rh_match_type :: string
  rh_pattern :: string

definition read_rule_head :: "(string \<Rightarrow> string option) \<Rightarrow> string \<Rightarrow> pydict \<Rightarrow> rule_head result" where
  "read_rule_head compile_error workflow rule =
     (let rule_id = strip (str_or_empty (dict_get rule ''id'')); match = dict_or_empty (dict_get rule ''match'');
          match_type = lower (strip (str_or_empty (dict_get match ''type'')));
          pattern = strip (str_or_empty (dict_get match ''pattern''));
          rule_error = (\<lambda>what. Inl (Value_error (''Workflow '' @ str_repr workflow @ '' messaging rule '' @ str_repr rule_id @ what)))
      in if rule_id = [] \<or> match_type \<notin> {''prefix'', ''regex''} \<or> pattern = []
         then Inl (Value_error (''Workflow '' @ str_repr workflow @ '' has an invalid messaging rule''))
         else if length pattern > 256 then rule_error '' pattern is too long''
         else if match_type = ''regex'' \<and> (list_ex (\<lambda>c. c \<in> set pattern) ''(){}|+'' \<or> count_list pattern (CHR ''*'') > 8)
         then rule_error '' uses unsupported regex syntax''
         else if match_type = ''regex'' \<and> compile_error pattern \<noteq> None
         then rule_error ('' has invalid regex: '' @ the (compile_error pattern))
         else Inr \<lparr>rh_id = rule_id, rh_match_type = match_type, rh_pattern = pattern\<rparr>)"

definition required_labels :: "pyval \<Rightarrow> (string \<times> string list) list" where
  "required_labels raw =
     List.map_filter (\<lambda>(key, v).
       if strip key \<noteq> [] \<and> is_list v
       then Some (lower (strip key), filter (\<lambda>s. s \<noteq> []) (map (\<lambda>x. lower (strip (py_str x))) (list_or_empty v))) else None)
       (dict_or_empty raw)"

text \<open>One route of a rule; the values are read again for each channel, as the code does.\<close>

definition rule_route ::
    "string \<Rightarrow> (string \<times> string list) list \<Rightarrow> pydict \<Rightarrow> rule_head \<Rightarrow> dedupe_policy list \<Rightarrow> string \<Rightarrow> message_route result" where
  "rule_route workflow policies rule head dedupe channel =
     (let trusted = dict_or_empty (dict_get rule ''trusted_senders''); constraints = dict_or_empty (dict_get rule ''constraints'')
      in result_bind (py_int (py_or (dict_get rule ''priority'') (PInt 0))) (\<lambda>priority.
         result_bind (nonblank_texts (dict_get trusted ''user_ids'')) (\<lambda>user_ids.
         result_bind (nonblank_texts (dict_get trusted ''webhook_ids'')) (\<lambda>webhook_ids.
         result_bind (nonblank_texts (dict_get trusted ''webhook_names'')) (\<lambda>webhook_names.
         result_bind (nonblank_texts (dict_get constraints ''accounts'')) (\<lambda>accounts.
         result_bind (nonblank_texts (dict_get constraints ''environments'')) (\<lambda>environments.
           Inr ((new_route workflow channel)
             \<lparr>rt_rule_id := rh_id head, rt_allowed_usernames := map_of policies channel,
              rt_provider := lower (strip (str_or_empty (dict_get rule ''provider''))), rt_priority := priority,
              rt_match_type := rh_match_type head, rt_pattern := rh_pattern head, rt_trusted_user_ids := user_ids,
              rt_trusted_webhook_ids := webhook_ids, rt_trusted_webhook_names := webhook_names,
              rt_allow_bot := truthy (dict_get rule ''allow_bot''),
              rt_root_posts_only := truthy (dict_get rule ''root_posts_only''),
              rt_preserve_full_body := truthy (dict_get rule ''preserve_full_body''), rt_allowed_accounts := accounts,
              rt_allowed_environments := map lower environments,
              rt_required_labels := required_labels (dict_get constraints ''labels''), rt_dedupe := dedupe\<rparr>))))))))"

definition channel_texts :: "pyval \<Rightarrow> string list result" where
  "channel_texts v =
     result_map (\<lambda>vs. filter (\<lambda>s. s \<noteq> []) (map (\<lambda>x. lower (strip (py_str x))) vs)) (py_iter v)"

definition rule_routes ::
    "(string \<Rightarrow> string option) \<Rightarrow> string \<Rightarrow> pydict \<Rightarrow> (string \<times> string list) list \<Rightarrow> pyval \<Rightarrow> message_route list result" where
  "rule_routes compile_error workflow messaging policies raw_rule =
     (case raw_rule of
        PDict rule \<Rightarrow>
          (if dict_get_default rule ''enabled'' (PBool True) = PBool False then Inr []
           else
             result_bind (read_rule_head compile_error workflow rule) (\<lambda>head.
             result_bind (dedupe_policies workflow (rh_id head) (dict_get rule ''dedupe'')) (\<lambda>dedupe.
             result_bind (channel_texts (py_or (dict_get rule ''channels'') (py_or (dict_get messaging ''channels'') (PList [])))) (\<lambda>channels.
               result_list (rule_route workflow policies rule head dedupe) channels))))
      | _ \<Rightarrow> Inr [])"

definition trigger_routes :: "string \<Rightarrow> pydict \<Rightarrow> (string \<times> string list) list \<Rightarrow> message_route list result" where
  "trigger_routes workflow messaging policies =
     result_bind (channel_texts (dict_get_default messaging ''trigger_words'' (PList [PStr ''@agent'']))) (\<lambda>triggers.
     result_map (\<lambda>channels. if triggers = [] then [] else map (\<lambda>channel. (new_route workflow channel)
          \<lparr>rt_trigger_words := triggers, rt_allowed_usernames := map_of policies channel\<rparr>) channels)
       (channel_texts (py_or (dict_get messaging ''channels'') (PList []))))"

definition workflow_routes :: "(string \<Rightarrow> string option) \<Rightarrow> string \<times> pydict \<Rightarrow> message_route list result" where
  "workflow_routes compile_error w =
     (let (workflow, config) = w; messaging = messaging_config config
      in result_bind (channel_policies messaging) (\<lambda>policies.
         result_bind (trigger_routes workflow messaging policies) (\<lambda>triggered.
         result_bind (py_iter (py_or (dict_get messaging ''rules'') (PList []))) (\<lambda>rules.
         result_map (\<lambda>rs. triggered @ concat rs) (result_list (rule_routes compile_error workflow messaging policies) rules)))))"

definition message_routes :: "(string \<Rightarrow> string option) \<Rightarrow> (string \<times> pydict) list \<Rightarrow> message_route list result" where
  "message_routes compile_error workflows = result_map concat (result_list (workflow_routes compile_error) workflows)"

end
