(* ===== verification/Alert_Envelope.thy ===== *)
theory Alert_Envelope
  imports Trace_Tree
begin

text \<open>
  \<open>shared/lib/alert_envelope.py\<close>: the identity of an alert, read from the text of a message by fixed patterns.
  Each pattern is a function on the text from one position; \<open>search\<close> tries the positions in order.
\<close>

section \<open>Patterns\<close>

text \<open>\<open>search\<close> with \<open>^\<close> and the multiline flag: the matches at the starts of lines.\<close>

fun search_lines_from :: "bool \<Rightarrow> (string \<Rightarrow> 'a option) \<Rightarrow> string \<Rightarrow> 'a option" where
  "search_lines_from bol f [] = (if bol then f [] else None)"
| "search_lines_from bol f (c # s) =
     (case (if bol then f (c # s) else None) of
        Some x \<Rightarrow> Some x | None \<Rightarrow> search_lines_from (c = CHR 0x0A) f s)"

definition search_lines :: "(string \<Rightarrow> 'a option) \<Rightarrow> string \<Rightarrow> 'a option" where
  "search_lines f s = search_lines_from True f s"

definition starts_with_nocase :: "string \<Rightarrow> string \<Rightarrow> bool" where
  "starts_with_nocase p s \<longleftrightarrow> starts_with (lower p) (lower s)"

text \<open>
  \<open>\s*([...]+)\<close>: the space gives characters back until one of the class follows, the longest space first.
\<close>

definition capture_run :: "(char \<Rightarrow> bool) \<Rightarrow> string \<Rightarrow> string option" where
  "capture_run ok s =
     (let w = length (takeWhile is_space s)
      in map_option (\<lambda>k. takeWhile ok (drop k s))
           (first_row (filter (\<lambda>k. k < length s \<and> ok (s ! k)) (rev [0 ..< Suc w]))))"

definition labelled :: "string \<Rightarrow> (char \<Rightarrow> bool) \<Rightarrow> string \<Rightarrow> string option" where
  "labelled name ok s = (if starts_with_nocase name s then capture_run ok (drop (length name) s) else None)"

definition line_char :: "char \<Rightarrow> bool" where
  "line_char c \<longleftrightarrow> c \<notin> {CHR 0x0D, CHR 0x0A}"

definition value_char :: "char \<Rightarrow> bool" where
  "value_char c \<longleftrightarrow> c \<noteq> CHR '','' \<and> \<not> is_space c"

definition slug_char :: "char \<Rightarrow> bool" where
  "slug_char c \<longleftrightarrow> is_alpha c \<or> is_digit c \<or> c = CHR ''-''"

definition alert_name :: "string \<Rightarrow> string option" where
  "alert_name = search_lines (labelled ''Alertname:'' line_char)"

definition alert_status :: "string \<Rightarrow> string option" where
  "alert_status = search_lines (labelled ''Status:'' line_char)"

definition splunk_alert :: "string \<Rightarrow> string option" where
  "splunk_alert = search_lines (labelled ''Splunk alert:'' (\<lambda>c. line_char c \<and> c \<noteq> CHR ''(''))"

definition gcp_policy :: "string \<Rightarrow> string option" where
  "gcp_policy = search_lines (labelled ''Policy:'' line_char)"

definition gcp_state :: "string \<Rightarrow> string option" where
  "gcp_state = search_lines (labelled ''State:'' line_char)"

definition gcp_environment :: "string \<Rightarrow> string option" where
  "gcp_environment = search_lines (labelled ''environment:'' value_char)"

text \<open>\<open>\[ALERT - [^\]\r\n]+\]\<close>.\<close>

definition gcp_title_at :: "string \<Rightarrow> unit option" where
  "gcp_title_at s =
     (if \<not> starts_with ''[ALERT - '' s then None
      else
        let t = drop 9 s; run = takeWhile (\<lambda>c. line_char c \<and> c \<noteq> CHR '']'') t
        in if run \<noteq> [] \<and> starts_with '']'' (drop (length run) t) then Some () else None)"

text \<open>
  \<open>^Project:\s*([a-z][a-z0-9-]{4,28}[a-z0-9])\s*$\<close>: the identifier ends where its characters end, and the line
  (or the text) ends within the space after it.
\<close>

definition line_ends :: "string \<Rightarrow> bool" where
  "line_ends s \<longleftrightarrow> CHR 0x0A \<in> set (takeWhile is_space s) \<or> dropWhile is_space s = []"

definition gcp_project_at :: "string \<Rightarrow> string option" where
  "gcp_project_at s =
     (if \<not> starts_with_nocase ''Project:'' s then None
      else
        let t = lstrip (drop 8 s); project = takeWhile slug_char t
        in if 6 \<le> length project \<and> length project \<le> 30 \<and> is_alpha (hd project) \<and> last project \<noteq> CHR ''-''
              \<and> line_ends (drop (length project) t)
           then Some project else None)"

text \<open>\<open>arn:aws:cloudwatch:([a-z0-9-]+):(\d{12}):alarm:([^,\s]+)\<close>: region, account and name.\<close>

definition alarm_arn_at :: "string \<Rightarrow> (string \<times> string \<times> string) option" where
  "alarm_arn_at s =
     (if \<not> starts_with_nocase ''arn:aws:cloudwatch:'' s then None
      else
        let t = drop 19 s; region = takeWhile slug_char t; u = drop (length region) t;
            account = take 12 (drop 1 u); v = drop 13 u; name = takeWhile value_char (drop 7 v)
        in if region \<noteq> [] \<and> starts_with '':'' u \<and> length account = 12 \<and> list_all is_digit account
              \<and> starts_with_nocase '':alarm:'' v \<and> name \<noteq> []
           then Some (region, account, name) else None)"

text \<open>\<open>^Labels:.*?\benvironment=([^,\s]+)\<close>: the first such label of a line that starts with \<open>Labels:\<close>.\<close>

fun environment_label :: "bool \<Rightarrow> string \<Rightarrow> string option" where
  "environment_label in_word [] = None"
| "environment_label in_word (c # s) =
     (let v = takeWhile value_char (drop 12 (c # s))
      in if \<not> in_word \<and> starts_with_nocase ''environment='' (c # s) \<and> v \<noteq> [] then Some v
         else if c = CHR 0x0A then None else environment_label (word_char c) s)"

definition labels_environment :: "string \<Rightarrow> string option" where
  "labels_environment =
     search_lines (\<lambda>s. if starts_with_nocase ''Labels:'' s then environment_label False (drop 7 s) else None)"

section \<open>The envelope\<close>

record alert_envelope =
  ae_version :: int
  ae_source :: string
  ae_identity :: string
  ae_state :: string
  ae_account :: string
  ae_region :: string
  ae_environment :: string

definition as_metadata :: "alert_envelope \<Rightarrow> pydict" where
  "as_metadata e =
     [(''version'', PInt (ae_version e)), (''source'', PStr (ae_source e)), (''identity'', PStr (ae_identity e)),
      (''state'', PStr (ae_state e)), (''account'', PStr (ae_account e)), (''region'', PStr (ae_region e)),
      (''environment'', PStr (ae_environment e))]"

definition canonical_state :: "string \<Rightarrow> string" where
  "canonical_state v =
     (let normalized = lower (strip v)
      in if normalized \<in> {''alarm'', ''alert'', ''firing'', ''triggered'', ''open''} then ''firing''
         else if normalized \<in> {''ok'', ''resolved'', ''recovered'', ''recovery'', ''closed''} then ''recovery''
         else ''unknown'')"

definition envelope_of :: "string \<Rightarrow> string \<Rightarrow> string \<Rightarrow> string \<Rightarrow> string \<Rightarrow> string \<Rightarrow> alert_envelope option" where
  "envelope_of source identity state account region environment =
     (if identity = [] then None
      else Some \<lparr>ae_version = 1, ae_source = source, ae_identity = identity, ae_state = state, ae_account = account,
        ae_region = region, ae_environment = environment\<rparr>)"

definition lowered :: "string option \<Rightarrow> string" where
  "lowered v = lower (strip (text_or_empty v))"

definition parse_aws_alert :: "string \<Rightarrow> alert_envelope option" where
  "parse_aws_alert body =
     (let arn = search_first alarm_arn_at body; environment = lowered (labels_environment body);
          state = canonical_state (text_or_empty (alert_status body))
      in case (alert_name body, arn) of
           (None, None) \<Rightarrow> None
         | (Some name, None) \<Rightarrow> envelope_of ''aws'' (strip name) state [] [] environment
         | (found, Some (region, account, name)) \<Rightarrow>
             envelope_of ''aws'' (strip (case found of Some n \<Rightarrow> n | None \<Rightarrow> name)) state account (lower region) environment)"

definition parse_alert_envelope :: "string \<Rightarrow> alert_envelope option" where
  "parse_alert_envelope message =
     (let body = strip message
      in if body = [] then None
         else case splunk_alert body of
           Some identity \<Rightarrow> envelope_of ''splunk'' (strip identity) ''firing'' [] [] []
         | None \<Rightarrow>
             (case (gcp_policy body, search_lines gcp_project_at body, search_first gcp_title_at body) of
                (Some policy, Some project, Some _) \<Rightarrow>
                  envelope_of ''gcp'' (strip policy) (canonical_state (text_or_empty (gcp_state body))) project []
                    (lowered (gcp_environment body))
              | _ \<Rightarrow> parse_aws_alert body))"

section \<open>Well-formed envelopes\<close>

lemma search_first_found: "search_first f s = Some x \<Longrightarrow> \<exists>t. f t = Some x"
  by (induction s) (auto split: option.splits)

lemma canonical_state_values: "canonical_state v \<in> {''firing'', ''recovery'', ''unknown''}"
  by (simp add: canonical_state_def Let_def)

lemma alarm_account: "alarm_arn_at s = Some (region, account, name) \<Longrightarrow> length account = 12 \<and> list_all is_digit account"
  by (auto simp: alarm_arn_at_def Let_def split: if_splits)

lemma envelope_of_Some:
  "envelope_of source identity state account region environment = Some e \<longleftrightarrow>
     identity \<noteq> [] \<and> e = \<lparr>ae_version = 1, ae_source = source, ae_identity = identity, ae_state = state, ae_account = account,
        ae_region = region, ae_environment = environment\<rparr>"
  by (auto simp: envelope_of_def)

definition envelope_ok :: "alert_envelope \<Rightarrow> bool" where
  "envelope_ok e \<longleftrightarrow> ae_identity e \<noteq> [] \<and> strip (ae_identity e) = ae_identity e
     \<and> ae_state e \<in> {''firing'', ''recovery'', ''unknown''} \<and> ae_source e \<in> {''splunk'', ''gcp'', ''aws''}
     \<and> (ae_source e = ''aws'' \<and> ae_account e \<noteq> [] \<longrightarrow> length (ae_account e) = 12 \<and> list_all is_digit (ae_account e))"

lemma parse_aws_ok:
  assumes "parse_aws_alert body = Some e"
  shows "envelope_ok e"
proof (cases "search_first alarm_arn_at body")
  case None
  with assms canonical_state_values show ?thesis
    by (auto simp: parse_aws_alert_def Let_def envelope_of_Some envelope_ok_def split: option.splits)
next
  case (Some arn)
  obtain region account name where arn: "arn = (region, account, name)" by (cases arn) auto
  have "length account = 12 \<and> list_all is_digit account" using search_first_found [OF Some] arn alarm_account by blast
  with assms Some arn canonical_state_values show ?thesis
    by (auto simp: parse_aws_alert_def Let_def envelope_of_Some envelope_ok_def split: option.splits)
qed

text \<open>
  An alert that is recognized has a stripped identity that is not empty, one of the known states and sources, and
  as an AWS account twelve digits.
\<close>

theorem parsed_envelope_ok:
  assumes "parse_alert_envelope message = Some e"
  shows "envelope_ok e"
proof -
  have ok: "envelope_ok e" if "envelope_of source (strip identity) state account region environment = Some e"
    "state \<in> {''firing'', ''recovery'', ''unknown''}" "source \<in> {''splunk'', ''gcp''}"
    for source identity state account region environment
    using that by (auto simp: envelope_of_Some envelope_ok_def)
  from assms show ?thesis
    using canonical_state_values
    by (auto simp: parse_alert_envelope_def Let_def split: if_splits option.splits intro: ok parse_aws_ok)
qed

text \<open>An alarm of AWS.\<close>

definition demo_alarm :: string where
  "demo_alarm = ''Alertname: disk'' @ [CHR 0x0A] @ ''arn:aws:cloudwatch:eu-west-1:123456789012:alarm:disk''"

theorem parsed_envelope_ok_witness:
  "\<exists>e. parse_alert_envelope demo_alarm = Some e \<and> ae_account e = ''123456789012'' \<and> envelope_ok e"
proof -
  have "map_option ae_account (parse_alert_envelope demo_alarm) = Some ''123456789012''" by code_simp
  then obtain e where e: "parse_alert_envelope demo_alarm = Some e" "ae_account e = ''123456789012''" by auto
  with parsed_envelope_ok [OF e(1)] show ?thesis by auto
qed

end
