(* ===== verification/Message_Ingress.thy ===== *)
theory Message_Ingress
  imports Message_Routes Alert_Envelope
begin

text \<open>
  \<open>gateway/message_ingress.py\<close>: from a message event to a task.  A route is matched, the thread is read, the
  task is submitted with its duplicate checks, and the thread is answered.  The search of a rule's regular
  expression and SHA-256 are parameters; the fixed patterns are spelled out.
\<close>

section \<open>Labels, accounts, environments\<close>

definition MAX_ROUTE_INPUT_CHARS :: nat where
  "MAX_ROUTE_INPUT_CHARS = 32000"

definition THREAD_CONTEXT_MESSAGE_LIMIT :: nat where
  "THREAD_CONTEXT_MESSAGE_LIMIT = 10"

definition THREAD_CONTEXT_PRIOR_MESSAGE_CHARS :: nat where
  "THREAD_CONTEXT_PRIOR_MESSAGE_CHARS = 4000"

text \<open>\<open>KEY\s*[=:][ \t]*([^,\s]+)\<close> at the start of the text: the value and the length of the match.\<close>

definition label_at :: "string \<Rightarrow> string \<Rightarrow> (string \<times> nat) option" where
  "label_at key s =
     (if \<not> starts_with_nocase key s then None
      else
        let t = lstrip (drop (length key) s); u = dropWhile (\<lambda>c. c \<in> {CHR '' '', CHR 0x09}) (drop 1 t); v = takeWhile value_char u
        in if t \<noteq> [] \<and> hd t \<in> {CHR ''='', CHR '':''} \<and> v \<noteq> [] then Some (v, length s - length u + length v) else None)"

text \<open>With the \<open>(?:^|[\s,])\<close> before it.\<close>

definition label_match :: "string \<Rightarrow> bool \<Rightarrow> string \<Rightarrow> (string \<times> nat) option" where
  "label_match key bol s =
     (case (if bol then label_at key s else None) of
        Some m \<Rightarrow> Some m
      | None \<Rightarrow>
          (if s \<noteq> [] \<and> \<not> value_char (hd s) then map_option (\<lambda>(v, n). (v, Suc n)) (label_at key (tl s)) else None))"

text \<open>\<open>findall\<close>: the first argument counts the characters still inside the previous match.\<close>

fun label_scan :: "nat \<Rightarrow> string \<Rightarrow> bool \<Rightarrow> string \<Rightarrow> string list" where
  "label_scan k key bol [] = []"
| "label_scan (Suc k) key bol (c # s) = label_scan k key (c = CHR 0x0A) s"
| "label_scan 0 key bol (c # s) =
     (case label_match key bol (c # s) of
        Some (v, n) \<Rightarrow> v # label_scan (n - 1) key (c = CHR 0x0A) s
      | None \<Rightarrow> label_scan 0 key (c = CHR 0x0A) s)"

text \<open>The set of values, as a list without repetitions.\<close>

definition label_values :: "string \<Rightarrow> string \<Rightarrow> string list" where
  "label_values message key = remdups (map lower (label_scan 0 key True message))"

text \<open>The maximal runs of characters of a class.\<close>

fun runs_from :: "(char \<Rightarrow> bool) \<Rightarrow> string \<Rightarrow> string \<Rightarrow> string list" where
  "runs_from ok run [] = (if run = [] then [] else [rev run])"
| "runs_from ok run (c # s) =
     (if ok c then runs_from ok (c # run) s else (if run = [] then [] else [rev run]) @ runs_from ok [] s)"

definition char_runs :: "(char \<Rightarrow> bool) \<Rightarrow> string \<Rightarrow> string list" where
  "char_runs ok s = runs_from ok [] s"

text \<open>\<open>(?<!\d)\d{12}(?!\d)\<close>: the runs of exactly twelve digits.\<close>

definition accounts_in :: "string \<Rightarrow> string list" where
  "accounts_in message = filter (\<lambda>r. length r = 12) (char_runs is_digit message)"

definition environment_words :: "string list" where
  "environment_words = [''production'', ''prod'', ''uat'', ''development'', ''dev'', ''staging'', ''test'']"

definition canonical_environment :: "string \<Rightarrow> string" where
  "canonical_environment v = (if v = ''prod'' then ''production'' else if v = ''dev'' then ''development'' else v)"

definition environments_in :: "string \<Rightarrow> string list" where
  "environments_in message =
     map canonical_environment
       (filter (\<lambda>w. w \<in> set environment_words) (map lower (char_runs (\<lambda>c. is_alpha c \<or> is_digit c) message)))"

section \<open>Duplicate checks\<close>

definition alert_part :: "alert_envelope \<Rightarrow> string \<Rightarrow> string" where
  "alert_part e name = str_or_empty (dict_get (as_metadata e) name)"

definition dedupe_part :: "string \<Rightarrow> inbound_message \<Rightarrow> alert_envelope option \<Rightarrow> string" where
  "dedupe_part part m envelope =
     (if part = ''sender'' then
        (if im_user_id m = [] then []
         else im_user_id m @ ''/'' @ (if im_webhook_id m \<noteq> [] then im_webhook_id m else im_webhook_name m))
      else if starts_with ''alert.'' part then
        (case envelope of None \<Rightarrow> [] | Some e \<Rightarrow> lower (alert_part e (remove_prefix ''alert.'' part)))
      else case label_values (take MAX_ROUTE_INPUT_CHARS (im_text m)) (lower (remove_prefix ''label:'' part)) of
        [v] \<Rightarrow> v | _ \<Rightarrow> [])"

definition policy_parts :: "dedupe_policy \<Rightarrow> inbound_message \<Rightarrow> alert_envelope option \<Rightarrow> (string \<times> string) list" where
  "policy_parts policy m envelope = map (\<lambda>part. (part, dedupe_part part m envelope)) (dp_key policy)"

definition canonical_key :: "message_route \<Rightarrow> (string \<times> string) list \<Rightarrow> string" where
  "canonical_key route parts =
     join [CHR 0x1F] ([rt_workflow route, rt_rule_id route] @ map (\<lambda>(part, v). part @ ''='' @ v) parts)"

definition dedupe_checks ::
    "(string \<Rightarrow> string) \<Rightarrow> message_route \<Rightarrow> inbound_message \<Rightarrow> alert_envelope option \<Rightarrow> dedupe_check list" where
  "dedupe_checks sha256 route m envelope =
     List.map_filter (\<lambda>policy.
       let parts = policy_parts policy m envelope
       in if \<not> list_all (\<lambda>(part, v). v \<noteq> []) parts then None
          else Some \<lparr>dc_key = ''dedupe:'' @ sha256 (canonical_key route parts), dc_window_sec = dp_window_sec policy,
            dc_include_completed = (dp_statuses policy = ''any''), dc_action = dp_action policy\<rparr>) (rt_dedupe route)"

definition duplicate_links :: "settings \<Rightarrow> task \<Rightarrow> inbound_message \<Rightarrow> string list" where
  "duplicate_links cfg t m =
     (let ui_url = rstrip_char (CHR ''/'') (strip (s_control_plane_ui_url cfg)); thread = text_or_empty (t_message_thread t)
      in (if im_provider m = ''mattermost'' \<and> thread \<noteq> [] \<and> im_team_name m \<noteq> []
          then [''[original thread]('' @ rstrip_char (CHR ''/'') (mb_api_url (s_message_bus cfg)) @ ''/'' @ im_team_name m
                @ ''/pl/'' @ thread @ '')''] else [])
         @ (if ui_url \<noteq> [] then [''[task]('' @ ui_url @ ''/tasks/'' @ uuid_str (t_id t) @ '')''] else []))"

definition duplicate_notice :: "settings \<Rightarrow> datetime \<Rightarrow> task \<Rightarrow> inbound_message \<Rightarrow> string" where
  "duplicate_notice cfg now t m =
     (let minutes = \<lfloor>(now - t_created t) / 60\<rfloor>;
          age = (if minutes < 1 then ''less than a minute ago'' else int_str minutes @ '' min ago'');
          links = duplicate_links cfg t m;
          reference = (if links \<noteq> [] then join middle_dot links else ''task '' @ uuid_str (t_id t))
      in '':link: Possible duplicate of an alert received '' @ age @ '' (investigation '' @ status_str (t_status t)
         @ ''); not investigating separately. See '' @ reference @ ''.'')"

section \<open>Matching a route\<close>

definition constraint_met :: "string list \<Rightarrow> string list \<Rightarrow> bool" where
  "constraint_met found allowed \<longleftrightarrow> found \<noteq> [] \<and> set found \<subseteq> set allowed"

definition matches_route_constraints :: "string \<Rightarrow> message_route \<Rightarrow> bool" where
  "matches_route_constraints message route \<longleftrightarrow>
     (rt_allowed_accounts route = [] \<or> constraint_met (accounts_in message) (rt_allowed_accounts route))
     \<and> (rt_allowed_environments route = [] \<or> constraint_met (environments_in message) (rt_allowed_environments route))
     \<and> list_all (\<lambda>(key, allowed). constraint_met (label_values message key) allowed) (rt_required_labels route)"

definition matches_sender_trust :: "inbound_message \<Rightarrow> message_route \<Rightarrow> bool" where
  "matches_sender_trust m route \<longleftrightarrow>
     (if rt_trusted_user_ids route \<noteq> [] \<and> im_user_id m \<notin> set (rt_trusted_user_ids route) then False
      else if \<not> (im_is_bot m \<or> im_is_webhook m) then True
      else if \<not> rt_allow_bot route \<or> rt_trusted_user_ids route = [] \<or> im_user_id m \<notin> set (rt_trusted_user_ids route) then False
      else if im_is_webhook m then
        (im_webhook_id m \<noteq> [] \<and> im_webhook_id m \<in> set (rt_trusted_webhook_ids route))
        \<or> (im_webhook_name m \<noteq> [] \<and> im_webhook_name m \<in> set (rt_trusted_webhook_names route))
      else True)"

definition nonempty :: "string \<Rightarrow> string option" where
  "nonempty s = (if s = [] then None else Some s)"

text \<open>\<open>regex_search p s\<close> is the end of the first match of \<open>p\<close> in \<open>s\<close>, ignoring case.\<close>

type_synonym regex_search = "string \<Rightarrow> string \<Rightarrow> nat option"

definition rule_prompt :: "regex_search \<Rightarrow> message_route \<Rightarrow> string \<Rightarrow> string option" where
  "rule_prompt regex_search route message =
     (let prompt = (\<lambda>stop. nonempty (if rt_preserve_full_body route then message else strip (drop stop message)))
      in if rt_match_type route = ''regex''
         then (case regex_search (rt_pattern route) message of None \<Rightarrow> None | Some stop \<Rightarrow> prompt stop)
         else if starts_with (lower (rt_pattern route)) (lower message) then prompt (length (rt_pattern route)) else None)"

definition trigger_prompt :: "message_route \<Rightarrow> string \<Rightarrow> string option" where
  "trigger_prompt route message =
     first_row (List.map_filter
       (\<lambda>trigger. if starts_with trigger (lower message) then nonempty (strip (drop (length trigger) message)) else None)
       (rt_trigger_words route))"

definition match_route_prompt :: "regex_search \<Rightarrow> inbound_message \<Rightarrow> message_route \<Rightarrow> string \<Rightarrow> string option" where
  "match_route_prompt regex_search m route message =
     (if rt_provider route \<noteq> [] \<and> rt_provider route \<noteq> im_provider m then None
      else if rt_root_posts_only route \<and> im_thread_id m \<noteq> im_message_id m then None
      else if \<not> matches_sender_trust m route \<or> \<not> matches_route_constraints message route then None
      else if rt_rule_id route \<noteq> [] then rule_prompt regex_search route message
      else trigger_prompt route message)"

text \<open>A human on Mattermost is held to the usernames the channel allows.\<close>

definition invocation_denied :: "inbound_message \<Rightarrow> message_route \<Rightarrow> bool" where
  "invocation_denied m route \<longleftrightarrow>
     im_provider m = ''mattermost'' \<and> \<not> (im_is_bot m \<or> im_is_webhook m)
     \<and> (case rt_allowed_usernames route of None \<Rightarrow> False
        | Some names \<Rightarrow> normalize_invocation_username (im_username m) \<notin> set names)"

definition channel_names :: "inbound_message \<Rightarrow> string list" where
  "channel_names m = filter (\<lambda>c. c \<noteq> []) [lower (strip (im_channel_id m)), lower (strip (im_channel_name m))]"

definition admitted :: "regex_search \<Rightarrow> inbound_message \<Rightarrow> string \<Rightarrow> message_route \<Rightarrow> string option" where
  "admitted regex_search m message route =
     (if rt_channel route \<notin> set (channel_names m) then None
      else case match_route_prompt regex_search m route message of
        None \<Rightarrow> None | Some prompt \<Rightarrow> if invocation_denied m route then None else Some prompt)"

type_synonym route_identity = "string \<times> string \<times> string \<times> string \<times> string list"

definition identity :: "message_route \<Rightarrow> route_identity" where
  "identity route = (rt_workflow route, rt_rule_id route, rt_match_type route, rt_pattern route, rt_trigger_words route)"

text \<open>\<open>matches.setdefault(identity, (route, prompt))\<close>.\<close>

definition add_match ::
    "regex_search \<Rightarrow> inbound_message \<Rightarrow> string \<Rightarrow> (route_identity \<times> message_route \<times> string) list \<Rightarrow> message_route
     \<Rightarrow> (route_identity \<times> message_route \<times> string) list" where
  "add_match regex_search m message found route =
     (case admitted regex_search m message route of
        None \<Rightarrow> found
      | Some prompt \<Rightarrow> if identity route \<in> set (map fst found) then found else found @ [(identity route, route, prompt)])"

definition match_message_route :: "regex_search \<Rightarrow> inbound_message \<Rightarrow> message_route list \<Rightarrow> (message_route \<times> string) option" where
  "match_message_route regex_search m routes =
     (let message = take MAX_ROUTE_INPUT_CHARS (strip (im_text m));
          found = map snd (foldl (add_match regex_search m message) [] routes)
      in if found = [] then None
         else
           let highest = Max (set (map (\<lambda>(route, prompt). rt_priority route) found))
           in case filter (\<lambda>(route, prompt). rt_priority route = highest) found of [w] \<Rightarrow> Some w | _ \<Rightarrow> None)"

section \<open>The thread as context\<close>

definition sender_name :: "inbound_message \<Rightarrow> string" where
  "sender_name m = (if im_username m \<noteq> [] then im_username m else im_user_id m)"

fun set_current :: "inbound_message \<Rightarrow> string \<Rightarrow> pydict list \<Rightarrow> pydict list" where
  "set_current m prompt [] =
     [[(''message_id'', PStr (im_message_id m)),
       (''author'', PStr (if sender_name m \<noteq> [] then sender_name m else ''unknown'')), (''text'', PStr prompt)]]"
| "set_current m prompt (item # items) =
     (if dict_get item ''message_id'' = PStr (im_message_id m)
      then dict_set ''text'' (PStr prompt) (dict_set ''author''
             (if sender_name m \<noteq> [] then PStr (sender_name m) else py_or (dict_get item ''author'') (PStr ''unknown'')) item) # items
      else item # set_current m prompt items)"

definition context_text :: "nat \<Rightarrow> string \<Rightarrow> string" where
  "context_text max_chars body =
     (if max_chars < length body then rstrip (take max_chars body) @ newline @ ''[message truncated]'' else body)"

definition render_item :: "nat \<Rightarrow> nat \<times> pydict \<Rightarrow> string list" where
  "render_item n entry =
     (let (index, item) = entry
      in [[], ''Message '' @ nat_str index @ '' from '' @ or_text (dict_get item ''author'') ''unknown'' @ '':'',
          context_text (if index = n then MAX_ROUTE_INPUT_CHARS else THREAD_CONTEXT_PRIOR_MESSAGE_CHARS)
            (py_str (dict_get item ''text''))])"

definition render_thread :: "pydict list \<Rightarrow> string" where
  "render_thread items =
     join newline (''Thread conversation (oldest to newest; the final message is the task request):''
       # concat (map (render_item (length items)) (enumerate 1 items)))"

definition thread_context :: "inbound_message \<Rightarrow> string \<Rightarrow> pydict list \<Rightarrow> pydict list" where
  "thread_context m prompt messages =
     take_last THREAD_CONTEXT_MESSAGE_LIMIT (set_current m prompt (filter (\<lambda>item. truthy (dict_get item ''text'')) messages))"

section \<open>Handling a message\<close>

record 'w ingress_env =
  ie_settings :: settings
  ie_client :: "'w http_client"
  ie_sha256 :: "string \<Rightarrow> string"
  ie_regex_search :: regex_search
  ie_package_config :: "string \<Rightarrow> pydict option"
  ie_now :: datetime
  ie_tx_now :: datetime

text \<open>The listener task, when it runs, with the identity of the bot and the routes.\<close>

record gateway_ingress =
  gi_listener :: "listener option"
  gi_bot_user_id :: string
  gi_routes :: "message_route list"

text \<open>The handlers work on the database beside the outside world.\<close>

definition on_net :: "('w, 'a) io \<Rightarrow> (db \<times> 'w, 'a) io" where
  "on_net m s = (case m (snd s) of (r, w) \<Rightarrow> (r, (fst s, w)))"

definition on_db :: "(db \<Rightarrow> ('a \<times> db) result) \<Rightarrow> (db \<times> 'w, 'a) io" where
  "on_db f s = (case f (fst s) of Inl e \<Rightarrow> (Inl (Python_error e), s) | Inr (x, d) \<Rightarrow> (Inr x, (d, snd s)))"

text \<open>\<open>try: ... except\<close>: \<open>handler\<close> gives a value for the errors it takes.\<close>

definition io_catch :: "(provider_error \<Rightarrow> 'a option) \<Rightarrow> ('w, 'a) io \<Rightarrow> ('w, 'a) io" where
  "io_catch handler m w =
     (case m w of
        (Inl e, w') \<Rightarrow> (case handler e of None \<Rightarrow> (Inl e, w') | Some x \<Rightarrow> (Inr x, w'))
      | (Inr x, w') \<Rightarrow> (Inr x, w'))"

fun provider_failure :: "provider_error \<Rightarrow> bool" where
  "provider_failure (Python_error e) = False"
| "provider_failure e = True"

fun hydration_failure :: "provider_error \<Rightarrow> bool" where
  "hydration_failure (Python_error (Value_error e)) = True"
| "hydration_failure (Python_error e) = False"
| "hydration_failure e = True"

fun update_failure :: "provider_error \<Rightarrow> bool" where
  "update_failure (Python_error (Runtime_error e)) = True"
| "update_failure (Python_error e) = False"
| "update_failure e = True"

definition or_none :: "('w, 'a) io \<Rightarrow> ('w, 'a option) io" where
  "or_none m = io_catch (\<lambda>e. if provider_failure e then Some None else None) (io_bind m (\<lambda>x. io_return (Some x)))"

text \<open>\<open>bus.post_to_thread\<close> over the provider client: the reference of the post, if there is one.\<close>

definition post_ref :: "string \<Rightarrow> string \<Rightarrow> pydict \<Rightarrow> message_ref" where
  "post_ref key thread post =
     (let i = str_or_empty (dict_get post key) in \<lparr>mr_id = i, mr_thread_id = (if thread \<noteq> [] then thread else i), mr_raw = post\<rparr>)"

definition bus_post :: "'w http_client \<Rightarrow> message_bus \<Rightarrow> string \<Rightarrow> string \<Rightarrow> ('w, message_ref option) io" where
  "bus_post client bus thread body =
     (case bus of
        Mattermost b \<Rightarrow>
          (if (mm_channel_name b = [] \<and> mm_channel_id b = []) \<or> mm_bot_token b = [] then io_return None
           else io_bind (or_none (create_mattermost_post client
              \<lparr>mp_api_url = mm_api_url b, mp_bot_token = mm_bot_token b, mp_text = body, mp_channel_id = mm_channel_id b,
               mp_channel_name = mm_channel_name b, mp_team_id = mm_team_id b, mp_team_name = mm_team_name b,
               mp_root_id = thread, mp_props = None\<rparr>)) (\<lambda>posted.
             case posted of None \<Rightarrow> io_return None
             | Some v \<Rightarrow> io_bind (io_lift (as_dict v)) (\<lambda>post. io_return (Some (post_ref ''id'' thread post)))))
      | Slack b \<Rightarrow>
          (if sb_channel b = [] \<or> sb_bot_token b = [] then io_return None
           else io_bind (or_none (create_slack_post client
              \<lparr>sp_api_url = sb_api_url b, sp_bot_token = sb_bot_token b, sp_channel_id = sb_channel b, sp_text = body,
               sp_thread_id = thread, sp_blocks = None\<rparr>)) (\<lambda>posted. io_return (map_option (post_ref ''ts'' thread) posted))))"

definition thread_target :: "settings \<Rightarrow> inbound_message \<Rightarrow> bus_target" where
  "thread_target cfg m =
     \<lparr>bt_provider = im_provider m, bt_api_url = mb_api_url (s_message_bus cfg), bt_bot_token = mb_bot_token (s_message_bus cfg),
      bt_channel_id = im_channel_id m, bt_channel_name = im_channel_name m, bt_team_id = im_team_id m,
      bt_team_name = im_team_name m\<rparr>"

definition post_to_thread :: "'w ingress_env \<Rightarrow> inbound_message \<Rightarrow> string \<Rightarrow> (db \<times> 'w, unit) io" where
  "post_to_thread env m body =
     io_bind (io_lift (build_message_bus (thread_target (ie_settings env) m))) (\<lambda>bus.
     io_bind (on_net (bus_post (ie_client env) bus (im_thread_id m) body)) (\<lambda>_. io_return ()))"

text \<open>The reply to a task that waits for one: an event of its session, beside the message.\<close>

definition waits_for_reply :: "inbound_message \<Rightarrow> task \<Rightarrow> bool" where
  "waits_for_reply m t \<longleftrightarrow> t_status t = Waiting_user_input \<and> t_channel t = Some (im_provider m)
     \<and> t_message_thread t = Some (im_thread_id m)"

definition record_question_reply :: "datetime \<Rightarrow> inbound_message \<Rightarrow> db \<Rightarrow> bool \<times> db" where
  "record_question_reply tx_now m d =
     (case first_row (select_where (waits_for_reply m) (tasks d)) of
        None \<Rightarrow> (False, d)
      | Some t \<Rightarrow>
          (True, add_session_event (Some (t_id t)) ''user_question_reply'' tx_now
             [(''message'', PStr (im_text m)), (''message_id'', PStr (im_message_id m)), (''provider'', PStr (im_provider m)),
              (''user_id'', PStr (im_user_id m)), (''username'', PStr (im_username m)), (''thread_id'', PStr (im_thread_id m))] d))"

definition fetch_thread :: "'w ingress_env \<Rightarrow> inbound_message \<Rightarrow> ('w, pydict list) io" where
  "fetch_thread env m =
     (let mb = s_message_bus (ie_settings env)
      in if im_provider m = ''mattermost''
         then mattermost_thread (ie_client env) (mb_api_url mb) (mb_bot_token mb) (im_thread_id m) (im_message_id m)
                (im_created_at_ms m) THREAD_CONTEXT_MESSAGE_LIMIT
         else slack_thread (ie_client env) (mb_api_url mb) (mb_bot_token mb) (im_channel_id m) (im_thread_id m) (im_message_id m)
                THREAD_CONTEXT_MESSAGE_LIMIT)"

text \<open>The prompt with its thread, and the number of messages in it; \<open>None\<close> when the thread cannot be read.\<close>

definition hydrate_thread_prompt :: "'w ingress_env \<Rightarrow> inbound_message \<Rightarrow> string \<Rightarrow> ('w, (string \<times> nat) option) io" where
  "hydrate_thread_prompt env m prompt =
     (if im_message_id m = im_thread_id m \<or> im_provider m \<notin> {''mattermost'', ''slack''} then io_return (Some (prompt, 0))
      else io_bind (io_catch (\<lambda>e. if hydration_failure e then Some None else None)
             (io_bind (fetch_thread env m) (\<lambda>ms. io_return (Some ms)))) (\<lambda>fetched.
        case fetched of
          None \<Rightarrow> io_return None
        | Some ms \<Rightarrow> (let items = thread_context m prompt ms in io_return (Some (render_thread items, length items)))))"

definition message_metadata :: "inbound_message \<Rightarrow> message_route \<Rightarrow> nat \<Rightarrow> alert_envelope option \<Rightarrow> pydict" where
  "message_metadata m route thread_context_count envelope =
     [(''source'', PStr (im_provider m)), (''user'', PStr (im_username m)), (''user_id'', PStr (im_user_id m)),
      (''channel_id'', PStr (im_channel_id m)), (''channel'', PStr (im_channel_name m)), (''team_id'', PStr (im_team_id m)),
      (''team_domain'', PStr (im_team_name m)), (''is_bot'', PBool (im_is_bot m)), (''is_webhook'', PBool (im_is_webhook m)),
      (''webhook_id'', PStr (im_webhook_id m)), (''webhook_name'', PStr (im_webhook_name m)),
      (''text_truncated'', PBool (im_text_truncated m)), (''message_id'', PStr (im_message_id m)),
      (''route_rule_id'', PStr (rt_rule_id route)), (''thread_context_count'', PInt (int thread_context_count))]
     @ (case envelope of None \<Rightarrow> []
        | Some e \<Rightarrow> [(''alert_envelope'', PDict (as_metadata e)), (''alert_occurrence_count'', PInt 1),
            (''alert_state_transitions'', PList [PDict [(''state'', PStr (ae_state e)), (''message_id'', PStr (im_message_id m))]])])"

definition message_task_args :: "inbound_message \<Rightarrow> message_route \<Rightarrow> string \<Rightarrow> nat \<Rightarrow> alert_envelope option \<Rightarrow> task_args" where
  "message_task_args m route prompt context_count envelope =
     \<lparr>ta_workflow = rt_workflow route, ta_prompt = prompt, ta_channel = Some (im_provider m),
      ta_initiator = none_if_empty (im_username m), ta_metadata = Some (message_metadata m route context_count envelope),
      ta_message_channel = Some (if im_channel_name m \<noteq> [] then im_channel_name m else im_channel_id m),
      ta_message_thread = Some (im_thread_id m)\<rparr>"

text \<open>The task of a matched message, and the answer in its thread.\<close>

definition submit_message ::
    "'w ingress_env \<Rightarrow> inbound_message \<Rightarrow> message_route \<Rightarrow> alert_envelope option \<Rightarrow> string \<Rightarrow> nat \<Rightarrow> (db \<times> 'w, unit) io" where
  "submit_message env m route envelope prompt context_count =
     io_bind (on_db (submit_task (ie_package_config env) (ie_now env) (ie_tx_now env)
       (message_task_args m route prompt context_count envelope) (dedupe_checks (ie_sha256 env) route m envelope))) (\<lambda>submission.
       case ts_duplicate_of submission of
         None \<Rightarrow> post_to_thread env m '':brain: Working on it...''
       | Some check \<Rightarrow>
           (if dc_action check = ''reply''
            then post_to_thread env m (duplicate_notice (ie_settings env) (ie_now env) (ts_task submission) m)
            else io_return ()))"

definition route_message :: "'w ingress_env \<Rightarrow> message_route list \<Rightarrow> inbound_message \<Rightarrow> (db \<times> 'w, unit) io" where
  "route_message env routes m =
     (case match_message_route (ie_regex_search env) m routes of
        None \<Rightarrow> io_return ()
      | Some (route, prompt) \<Rightarrow>
          (let envelope = (if rt_rule_id route \<noteq> [] then parse_alert_envelope prompt else None)
           in io_bind (on_net (hydrate_thread_prompt env m prompt)) (\<lambda>hydrated.
                case hydrated of
                  None \<Rightarrow> io_return ()
                | Some (full_prompt, context_count) \<Rightarrow> submit_message env m route envelope full_prompt context_count)))"

definition handle_message :: "'w ingress_env \<Rightarrow> gateway_ingress \<Rightarrow> inbound_message \<Rightarrow> (db \<times> 'w, unit) io" where
  "handle_message env g m =
     (if gi_bot_user_id g \<noteq> [] \<and> im_user_id m = gi_bot_user_id g then io_return ()
      else if im_text m = [] then io_return ()
      else io_bind (if im_is_bot m \<or> im_is_webhook m then io_return False
                    else on_db (\<lambda>d. Inr (record_question_reply (ie_tx_now env) m d))) (\<lambda>recorded.
        if recorded then io_return () else route_message env (gi_routes g) m))"

definition handle_interactive_action :: "'w ingress_env \<Rightarrow> provider_action \<Rightarrow> (db \<times> 'w, unit) io" where
  "handle_interactive_action env a =
     (let mb = s_message_bus (ie_settings env)
      in if pa_provider a \<noteq> ''slack'' \<or> pa_action_id a \<notin> {''sage_run_approval'', ''agentic_ops_approval''} then io_return ()
         else io_bind (io_catch (\<lambda>e. case e of Python_error (Value_error _) \<Rightarrow> Some None | _ \<Rightarrow> None)
             (io_bind (on_db (resolve_approval_action (ie_now env) (ie_tx_now env) (pa_context a) (pa_user_id a) (pa_username a)
                (pa_post_id a) (pa_channel_id a) ''slack_interactive'')) (\<lambda>r. io_return (Some r)))) (\<lambda>resolution.
           case resolution of
             None \<Rightarrow> io_return ()
           | Some r \<Rightarrow>
               io_catch (\<lambda>e. if update_failure e then Some () else None)
                 (io_bind (on_net (update_slack_post (ie_client env) (mb_api_url mb) (mb_bot_token mb) (pa_channel_id a)
                    (pa_post_id a) (aa_status_message r))) (\<lambda>_. io_return ()))))"

definition handle_event :: "'w ingress_env \<Rightarrow> gateway_ingress \<Rightarrow> message_event \<Rightarrow> (db \<times> 'w, unit) io" where
  "handle_event env g event =
     (case event of Inbound m \<Rightarrow> handle_message env g m | Action a \<Rightarrow> handle_interactive_action env a)"

section \<open>Starting and stopping the listener\<close>

text \<open>\<open>__init__\<close>, \<open>running\<close>, \<open>pause\<close> and \<open>stop\<close>: the listener task is cancelled and awaited.\<close>

definition new_ingress :: gateway_ingress where
  "new_ingress = \<lparr>gi_listener = None, gi_bot_user_id = [], gi_routes = []\<rparr>"

definition running :: "gateway_ingress \<Rightarrow> bool" where
  "running g \<longleftrightarrow> gi_listener g \<noteq> None"

definition stop_listener :: "gateway_ingress \<Rightarrow> gateway_ingress" where
  "stop_listener g = g\<lparr>gi_listener := None\<rparr>"

definition ingress_configured :: "message_bus_config \<Rightarrow> bool" where
  "ingress_configured mb \<longleftrightarrow> mb_provider mb \<in> {''mattermost'', ''slack''} \<and> mb_bot_token mb \<noteq> [] \<and> mb_api_url mb \<noteq> []
     \<and> (mb_provider mb = ''slack'' \<longrightarrow> mb_app_token mb \<noteq> [])"

text \<open>The id of the channel of a route; \<open>None\<close> when the lookup does not end.\<close>

definition lookup_channel ::
    "'w http_client \<Rightarrow> message_bus_config \<Rightarrow> string \<Rightarrow> 'w \<Rightarrow> ((provider_error + string) \<times> 'w) option" where
  "lookup_channel client mb channel w =
     (if mb_provider mb = ''mattermost''
      then Some (resolve_mattermost_channel client (mb_api_url mb) (mb_bot_token mb) [] channel [] (mb_team_name mb) w)
      else resolve_slack_channel client (mb_api_url mb) (mb_bot_token mb) [] channel w)"

fun resolve_aliases ::
    "'w http_client \<Rightarrow> message_bus_config \<Rightarrow> message_route list \<Rightarrow> 'w \<Rightarrow> ((provider_error + message_route list) \<times> 'w) option" where
  "resolve_aliases client mb [] w = Some (Inr [], w)"
| "resolve_aliases client mb (route # routes) w =
     (case lookup_channel client mb (rt_channel route) w of
        None \<Rightarrow> None
      | Some (Inl e, w1) \<Rightarrow> (if provider_failure e then resolve_aliases client mb routes w1 else Some (Inl e, w1))
      | Some (Inr channel_id, w1) \<Rightarrow>
          (case resolve_aliases client mb routes w1 of
             Some (Inr aliases, w2) \<Rightarrow>
               Some (Inr ((if channel_id \<noteq> [] \<and> lower channel_id \<noteq> rt_channel route
                           then [route\<lparr>rt_channel := lower channel_id\<rparr>] else []) @ aliases), w2)
           | r \<Rightarrow> r))"

text \<open>The routes as discovered, with a copy for the id of each channel that has one.\<close>

definition resolve_route_channels ::
    "'w http_client \<Rightarrow> message_bus_config \<Rightarrow> message_route list \<Rightarrow> 'w \<Rightarrow> ((provider_error + message_route list) \<times> 'w) option" where
  "resolve_route_channels client mb routes w =
     (case resolve_aliases client mb routes w of
        Some (Inr aliases, w1) \<Rightarrow> Some (Inr (routes @ aliases), w1) | r \<Rightarrow> r)"

definition bot_user_id :: "'w http_client \<Rightarrow> message_bus_config \<Rightarrow> string \<Rightarrow> ('w, string) io" where
  "bot_user_id client mb previous =
     io_catch (\<lambda>e. if provider_failure e then Some previous else None)
       ((if mb_provider mb = ''mattermost'' then mattermost_user_id else slack_user_id) client (mb_api_url mb) (mb_bot_token mb))"

definition start ::
    "'w http_client \<Rightarrow> message_bus_config \<Rightarrow> message_route list result \<Rightarrow> gateway_ingress \<Rightarrow> 'w
     \<Rightarrow> ((provider_error + unit) \<times> gateway_ingress \<times> 'w) option" where
  "start client mb discovered g w =
     (if running g \<or> \<not> ingress_configured mb then Some (Inr (), g, w)
      else case bot_user_id client mb (gi_bot_user_id g) w of
        (Inl e, w1) \<Rightarrow> Some (Inl e, g, w1)
      | (Inr user_id, w1) \<Rightarrow>
          (let g1 = g\<lparr>gi_bot_user_id := user_id\<rparr>
           in case discovered of
                Inl e \<Rightarrow> Some (Inl (Python_error e), g1, w1)
              | Inr routes \<Rightarrow>
                  (case resolve_route_channels client mb routes w1 of
                     None \<Rightarrow> None
                   | Some (Inl e, w2) \<Rightarrow> Some (Inl e, g1, w2)
                   | Some (Inr resolved, w2) \<Rightarrow>
                       (let g2 = g1\<lparr>gi_routes := resolved\<rparr>
                        in case build_message_ingress (mb_provider mb) (mb_api_url mb) (mb_bot_token mb) (mb_app_token mb) of
                             Inl e \<Rightarrow> Some (Inl (Python_error e), g2, w2)
                           | Inr listener \<Rightarrow> Some (Inr (), g2\<lparr>gi_listener := Some listener\<rparr>, w2)))))"

end
