(* ===== verification/Ingress_Routes.thy ===== *)
theory Ingress_Routes
  imports Message_Ingress
begin

text \<open>
  What holds of every route that is read from a configuration, and which route a message gets: the routes that
  admit it, and the best of them when there is just one.
\<close>

section \<open>Configured routes\<close>

definition policy_ok :: "dedupe_policy \<Rightarrow> bool" where
  "policy_ok p \<longleftrightarrow> dp_key p \<noteq> [] \<and> list_all dedupe_key_ok (dp_key p) \<and> 1 \<le> dp_window_sec p \<and> dp_window_sec p \<le> 86400
     \<and> dp_statuses p \<in> {''active'', ''any''} \<and> dp_action p \<in> {''merge'', ''reply''}"

definition pattern_ok :: "(string \<Rightarrow> string option) \<Rightarrow> message_route \<Rightarrow> bool" where
  "pattern_ok compile_error r \<longleftrightarrow> rt_pattern r \<noteq> [] \<and> length (rt_pattern r) \<le> 256
     \<and> (rt_match_type r = ''prefix''
        \<or> rt_match_type r = ''regex'' \<and> set (rt_pattern r) \<inter> set ''(){}|+'' = {} \<and> compile_error (rt_pattern r) = None)"

definition usernames_ok :: "string list option \<Rightarrow> bool" where
  "usernames_ok names \<longleftrightarrow> (case names of None \<Rightarrow> True | Some us \<Rightarrow> distinct us \<and> list_all username_ok us)"

definition route_ok :: "(string \<Rightarrow> string option) \<Rightarrow> message_route \<Rightarrow> bool" where
  "route_ok compile_error r \<longleftrightarrow> rt_channel r \<noteq> [] \<and> usernames_ok (rt_allowed_usernames r)
     \<and> (if rt_rule_id r = [] then rt_trigger_words r \<noteq> [] \<and> [] \<notin> set (rt_trigger_words r)
        else pattern_ok compile_error r \<and> list_all policy_ok (rt_dedupe r))"

lemma result_list_set:
  "result_list f xs = Inr ys \<Longrightarrow> y \<in> set ys \<Longrightarrow> \<exists>x \<in> set xs. f x = Inr y"
  by (induction xs arbitrary: ys) (auto simp: result_bind_Inr_iff result_map_Inr_iff)

lemma result_fold_invariant:
  assumes "result_fold f s xs = Inr s'" "P s" "\<And>a x b. P a \<Longrightarrow> f a x = Inr b \<Longrightarrow> P b"
  shows "P s'"
  using assms(1,2) by (induction xs arbitrary: s) (auto simp: result_bind_Inr_iff intro: assms(3))

lemma add_username_ok:
  assumes "distinct names \<and> list_all username_ok names" "add_username names v = Inr names'"
  shows "distinct names' \<and> list_all username_ok names'"
  using assms by (auto simp: add_username_def Let_def split: pyval.splits if_splits)

lemma add_policy_result:
  assumes "add_policy ps (raw, policy) = Inr ps'"
  shows "\<exists>names. result_fold add_username [] (list_or_empty (dict_get (dict_or_empty policy) ''allowed_usernames'')) = Inr names
    \<and> ps' = ps @ [(lower (strip raw), names)]"
proof -
  let ?fold = "result_fold add_username [] (list_or_empty (dict_get (dict_or_empty policy) ''allowed_usernames''))"
  show ?thesis
  proof (cases ?fold)
    case (Inl e)
    with assms show ?thesis by (simp add: add_policy_def Let_def split: if_split_asm)
  next
    case (Inr names)
    with assms show ?thesis by (simp add: add_policy_def Let_def split: if_split_asm)
  qed
qed

definition policies_ok :: "(string \<times> string list) list \<Rightarrow> bool" where
  "policies_ok ps \<longleftrightarrow> list_all (\<lambda>p. usernames_ok (Some (snd p))) ps"

lemma add_policy_ok:
  assumes "policies_ok ps" "add_policy ps entry = Inr ps'"
  shows "policies_ok ps'"
proof -
  obtain raw policy where entry: "entry = (raw, policy)" by (cases entry)
  obtain names where names: "result_fold add_username [] (list_or_empty (dict_get (dict_or_empty policy) ''allowed_usernames'')) = Inr names"
    and ps': "ps' = ps @ [(lower (strip raw), names)]"
    using add_policy_result assms(2) entry by blast
  have "distinct names \<and> list_all username_ok names"
    by (rule result_fold_invariant [OF names, where P = "\<lambda>us. distinct us \<and> list_all username_ok us"])
      (simp, rule add_username_ok)
  with assms(1) ps' show ?thesis by (simp add: policies_ok_def usernames_ok_def)
qed

lemma policies_ok_lookup: "policies_ok ps \<Longrightarrow> usernames_ok (map_of ps channel)"
  by (induction ps) (auto simp: policies_ok_def usernames_ok_def)

lemma channel_policies_ok:
  assumes "channel_policies messaging = Inr ps"
  shows "usernames_ok (map_of ps channel)"
proof -
  obtain raw where "result_fold add_policy [] raw = Inr ps"
    using assms by (auto simp: channel_policies_def split: pyval.splits if_splits)
  then have "policies_ok ps"
    by (rule result_fold_invariant [where P = policies_ok]) (simp add: policies_ok_def, rule add_policy_ok)
  then show ?thesis by (rule policies_ok_lookup)
qed

lemma channel_texts_nonempty: "channel_texts v = Inr cs \<Longrightarrow> [] \<notin> set cs"
  by (auto simp: channel_texts_def result_map_Inr_iff)

lemma read_dedupe_ok: "read_dedupe_policy err item = Inr p \<Longrightarrow> policy_ok p"
  by (auto simp: read_dedupe_policy_def policy_ok_def Let_def result_bind_Inr_iff split: pyval.splits if_splits)

lemma dedupe_policies_ok: "dedupe_policies workflow rule_id raw = Inr ps \<Longrightarrow> list_all policy_ok ps"
  by (auto simp: dedupe_policies_def Let_def list_all_iff split: pyval.splits if_splits
      dest!: result_list_set intro: read_dedupe_ok)

lemma read_rule_head_ok:
  assumes "read_rule_head compile_error workflow rule = Inr h"
  shows "rh_id h \<noteq> []" "rh_pattern h \<noteq> []" "length (rh_pattern h) \<le> 256"
    "rh_match_type h = ''prefix''
        \<or> rh_match_type h = ''regex'' \<and> set (rh_pattern h) \<inter> set ''(){}|+'' = {} \<and> compile_error (rh_pattern h) = None"
  using assms by (auto simp: read_rule_head_def Let_def split: if_splits)

lemma rule_route_fields:
  assumes "rule_route workflow policies rule head dedupe channel = Inr r"
  shows "rt_channel r = channel" "rt_rule_id r = rh_id head" "rt_match_type r = rh_match_type head"
    "rt_pattern r = rh_pattern head" "rt_dedupe r = dedupe" "rt_allowed_usernames r = map_of policies channel"
  using assms by (auto simp: rule_route_def Let_def result_bind_Inr_iff new_route_def)

lemma rule_routes_ok:
  assumes "rule_routes compile_error workflow messaging policies raw = Inr rs" "r \<in> set rs"
    and "\<And>c. usernames_ok (map_of policies c)"
  shows "route_ok compile_error r"
proof -
  obtain rule where raw: "raw = PDict rule" using assms(1,2) by (cases raw) (auto simp: rule_routes_def)
  obtain head dedupe channels where h: "read_rule_head compile_error workflow rule = Inr head"
    and d: "dedupe_policies workflow (rh_id head) (dict_get rule ''dedupe'') = Inr dedupe"
    and c: "channel_texts (py_or (dict_get rule ''channels'') (py_or (dict_get messaging ''channels'') (PList []))) = Inr channels"
    and rs: "result_list (rule_route workflow policies rule head dedupe) channels = Inr rs"
    using assms(1,2) raw by (auto simp: rule_routes_def result_bind_Inr_iff split: if_splits)
  obtain channel where ch: "channel \<in> set channels" "rule_route workflow policies rule head dedupe channel = Inr r"
    using result_list_set [OF rs assms(2)] by auto
  note f = rule_route_fields [OF ch(2)]
  have "channel \<noteq> []" using channel_texts_nonempty [OF c] ch(1) by auto
  then show ?thesis
    using read_rule_head_ok [OF h] dedupe_policies_ok [OF d] assms(3) by (simp add: route_ok_def pattern_ok_def f)
qed

lemma trigger_routes_ok:
  assumes "trigger_routes workflow messaging policies = Inr rs" "r \<in> set rs" "\<And>c. usernames_ok (map_of policies c)"
  shows "route_ok compile_error r"
  using assms channel_texts_nonempty
  by (auto simp: trigger_routes_def result_bind_Inr_iff result_map_Inr_iff route_ok_def new_route_def split: if_splits)

text \<open>
  C40. Every route that is read from the workflow packages has a channel; a trigger route has trigger words, none
  of them empty; a rule has a pattern of at most 256 characters that, as a regular expression, has no group,
  repetition or alternative and compiles, and its duplicate policies have known keys and a window of at most a
  day; allowed usernames are valid and listed once.
\<close>

theorem message_routes_ok:
  assumes "message_routes compile_error workflows = Inr routes" "r \<in> set routes"
  shows "route_ok compile_error r"
proof -
  obtain rss rs where "result_list (workflow_routes compile_error) workflows = Inr rss" "rs \<in> set rss" "r \<in> set rs"
    using assms by (auto simp: message_routes_def result_map_Inr_iff)
  then obtain workflow config where w: "workflow_routes compile_error (workflow, config) = Inr rs"
    using result_list_set [of "workflow_routes compile_error" workflows rss rs] by auto
  let ?m = "messaging_config config"
  obtain policies triggered rules rules_rs where p: "channel_policies ?m = Inr policies"
    and t: "trigger_routes workflow ?m policies = Inr triggered"
    and rules: "result_list (rule_routes compile_error workflow ?m policies) rules = Inr rules_rs"
    and rs: "rs = triggered @ concat rules_rs"
    using w by (auto simp: workflow_routes_def Let_def result_bind_Inr_iff result_map_Inr_iff)
  note users = channel_policies_ok [OF p]
  show ?thesis
  proof (cases "r \<in> set triggered")
    case True
    then show ?thesis by (rule trigger_routes_ok [OF t _ users])
  next
    case False
    then obtain xs where "xs \<in> set rules_rs" "r \<in> set xs" using \<open>r \<in> set rs\<close> rs by auto
    then show ?thesis using result_list_set [OF rules] rule_routes_ok [OF _ _ users] by blast
  qed
qed

text \<open>A package with the default trigger word and a rule for a monitoring bot.\<close>

definition demo_rule :: pyval where
  "demo_rule = PDict [(''id'', PStr ''r1''), (''match'', PDict [(''type'', PStr ''prefix''), (''pattern'', PStr ''ALERT'')]),
     (''allow_bot'', PBool True), (''trusted_senders'', PDict [(''user_ids'', PList [PStr ''u1''])])]"

definition demo_workflows :: "(string \<times> pydict) list" where
  "demo_workflows = [(''ops'', [(''messaging'', PDict [(''channels'', PList [PStr '' Alerts '']), (''rules'', PList [demo_rule])])])]"

definition demo_routes :: "message_route list" where
  "demo_routes = [(new_route ''ops'' ''alerts'')\<lparr>rt_trigger_words := [''@agent'']\<rparr>,
     (new_route ''ops'' ''alerts'')\<lparr>rt_rule_id := ''r1'', rt_match_type := ''prefix'', rt_pattern := ''ALERT'',
       rt_trusted_user_ids := [''u1''], rt_allow_bot := True\<rparr>]"

lemma demo_workflow_routes: "message_routes (\<lambda>_. None) demo_workflows = Inr demo_routes"
  by code_simp

theorem message_routes_ok_witness:
  "message_routes (\<lambda>_. None) demo_workflows = Inr demo_routes \<and> route_ok (\<lambda>_. None) (demo_routes ! 1)"
  using message_routes_ok [OF demo_workflow_routes, of "demo_routes ! 1"] demo_workflow_routes by (simp add: demo_routes_def)

section \<open>The route of a message\<close>

abbreviation routed_text :: "inbound_message \<Rightarrow> string" where
  "routed_text m \<equiv> take MAX_ROUTE_INPUT_CHARS (strip (im_text m))"

abbreviation found_matches ::
    "regex_search \<Rightarrow> inbound_message \<Rightarrow> message_route list \<Rightarrow> (route_identity \<times> message_route \<times> string) list" where
  "found_matches rx m routes \<equiv> foldl (add_match rx m (routed_text m)) [] routes"

lemma add_match_entry:
  "e \<in> set (add_match rx m msg found route) \<Longrightarrow>
     e \<in> set found \<or> (\<exists>prompt. admitted rx m msg route = Some prompt \<and> e = (identity route, route, prompt))"
  by (auto simp: add_match_def split: option.splits if_splits)

lemma found_entry:
  assumes "e \<in> set (found_matches rx m routes)"
  shows "\<exists>route prompt. route \<in> set routes \<and> admitted rx m (routed_text m) route = Some prompt \<and> e = (identity route, route, prompt)"
  using assms
proof (induction routes rule: rev_induct)
  case (snoc route routes)
  then have "e \<in> set (add_match rx m (routed_text m) (found_matches rx m routes) route)" by simp
  from add_match_entry [OF this] snoc.IH show ?case by auto
qed simp

lemma found_distinct: "distinct (map fst (found_matches rx m routes))"
proof (induction routes rule: rev_induct)
  case (snoc route routes)
  then show ?case by (simp add: add_match_def split: option.split)
qed simp

lemma add_match_keeps: "i \<in> set (map fst found) \<Longrightarrow> i \<in> set (map fst (add_match rx m msg found route))"
  by (auto simp: add_match_def split: option.split)

lemma add_match_adds: "admitted rx m msg route = Some p \<Longrightarrow> identity route \<in> set (map fst (add_match rx m msg found route))"
  by (auto simp: add_match_def)

lemma found_complete:
  assumes "route \<in> set routes" "admitted rx m (routed_text m) route \<noteq> None"
  shows "identity route \<in> set (map fst (found_matches rx m routes))"
  using assms(1)
proof (induction routes rule: rev_induct)
  case (snoc r routes)
  let ?old = "found_matches rx m routes"
  have "identity route \<in> set (map fst (add_match rx m (routed_text m) ?old r))"
  proof (cases "route = r")
    case True
    then show ?thesis using assms(2) add_match_adds by blast
  next
    case False
    then show ?thesis using snoc by (intro add_match_keeps) simp
  qed
  then show ?case by simp
qed simp

lemma match_entry:
  assumes "match_message_route rx m routes = Some (route, prompt)"
  shows "route \<in> set routes \<and> admitted rx m (routed_text m) route = Some prompt"
proof -
  let ?found = "map snd (found_matches rx m routes)"
  let ?winners = "filter (\<lambda>(r, p). rt_priority r = Max (set (map (\<lambda>(r, p). rt_priority r) ?found))) ?found"
  have "?winners = [(route, prompt)]"
    using assms by (simp add: match_message_route_def Let_def split: if_splits list.splits)
  then have "(route, prompt) \<in> set ?winners" by simp
  then have "(route, prompt) \<in> set ?found" by simp
  then obtain e where "e \<in> set (found_matches rx m routes)" "snd e = (route, prompt)" by auto
  with found_entry [of e rx m routes] show ?thesis by auto
qed

lemma nonempty_Some [simp]: "nonempty s = Some t \<longleftrightarrow> t = s \<and> s \<noteq> []"
  by (auto simp: nonempty_def)

lemma trigger_prompt_nonempty: "trigger_prompt route msg = Some p \<Longrightarrow> p \<noteq> []"
  by (auto simp: trigger_prompt_def map_filter_def nonempty_def dest!: first_row_in split: if_splits)

lemma rule_prompt_nonempty: "rule_prompt rx route msg = Some p \<Longrightarrow> p \<noteq> []"
  by (auto simp: rule_prompt_def Let_def split: option.splits if_splits)

lemma admitted_facts:
  assumes "admitted rx m msg route = Some prompt"
  shows "rt_channel route \<in> set (channel_names m)" "prompt \<noteq> []" "matches_sender_trust m route"
    "matches_route_constraints msg route" "\<not> invocation_denied m route"
  using assms trigger_prompt_nonempty rule_prompt_nonempty
  by (auto simp: admitted_def match_route_prompt_def split: if_splits option.splits)

text \<open>
  C35. A message is routed only where it is admitted: the route is one of the configured ones and names its
  channel; a bot or a webhook needs a rule that allows bots and trusts its user, a webhook also a trusted hook;
  a human on Mattermost is on the list of the channel if there is one; all accounts in the text are allowed
  ones; and the prompt is not empty.
\<close>

theorem matched_route_admits:
  assumes "match_message_route regex_search m routes = Some (route, prompt)"
  shows "route \<in> set routes \<and> rt_channel route \<in> set (channel_names m) \<and> prompt \<noteq> []
    \<and> (im_is_bot m \<or> im_is_webhook m \<longrightarrow> rt_allow_bot route \<and> im_user_id m \<in> set (rt_trusted_user_ids route))
    \<and> (im_is_webhook m \<longrightarrow> im_webhook_id m \<in> set (rt_trusted_webhook_ids route) \<or> im_webhook_name m \<in> set (rt_trusted_webhook_names route))
    \<and> (im_provider m = ''mattermost'' \<and> \<not> im_is_bot m \<and> \<not> im_is_webhook m \<and> rt_allowed_usernames route = Some names
         \<longrightarrow> normalize_invocation_username (im_username m) \<in> set names)
    \<and> (rt_allowed_accounts route \<noteq> [] \<longrightarrow> set (accounts_in (routed_text m)) \<subseteq> set (rt_allowed_accounts route))"
proof -
  have e: "route \<in> set routes" "admitted regex_search m (routed_text m) route = Some prompt"
    using match_entry [OF assms] by simp_all
  note facts = admitted_facts [OF e(2)]
  have trust: "im_is_bot m \<or> im_is_webhook m \<Longrightarrow> rt_allow_bot route \<and> im_user_id m \<in> set (rt_trusted_user_ids route)"
    "im_is_webhook m \<Longrightarrow> im_webhook_id m \<in> set (rt_trusted_webhook_ids route) \<or> im_webhook_name m \<in> set (rt_trusted_webhook_names route)"
    using facts(3) by (auto simp: matches_sender_trust_def split: if_splits)
  have human: "im_provider m = ''mattermost'' \<Longrightarrow> \<not> im_is_bot m \<Longrightarrow> \<not> im_is_webhook m \<Longrightarrow> rt_allowed_usernames route = Some names
      \<Longrightarrow> normalize_invocation_username (im_username m) \<in> set names"
    using facts(5) by (simp add: invocation_denied_def)
  have accounts: "rt_allowed_accounts route \<noteq> [] \<Longrightarrow> set (accounts_in (routed_text m)) \<subseteq> set (rt_allowed_accounts route)"
    using facts(4) by (simp add: matches_route_constraints_def constraint_met_def)
  show ?thesis using e(1) facts(1,2) trust human accounts by blast
qed

text \<open>A message of the trusted bot.\<close>

definition demo_alert :: inbound_message where
  "demo_alert = \<lparr>im_provider = ''mattermost'', im_message_id = ''m1'', im_thread_id = ''m1'', im_channel_id = ''c1'',
     im_channel_name = ''alerts'', im_team_id = [], im_team_name = [], im_user_id = ''u1'', im_username = ''bot'',
     im_text = ''alert disk full'', im_created_at_ms = 0, im_is_bot = True, im_is_webhook = False, im_webhook_id = [],
     im_webhook_name = [], im_text_truncated = False\<rparr>"

lemma demo_text: "routed_text demo_alert = ''alert disk full''"
proof -
  have "strip (im_text demo_alert) = ''alert disk full''" by code_simp
  then show ?thesis by (simp add: MAX_ROUTE_INPUT_CHARS_def)
qed

lemma demo_admitted:
  "admitted (\<lambda>_ _. None) demo_alert ''alert disk full'' (demo_routes ! 0) = None"
  "admitted (\<lambda>_ _. None) demo_alert ''alert disk full'' (demo_routes ! 1) = Some ''disk full''"
  by code_simp+

lemma demo_match: "match_message_route (\<lambda>_ _. None) demo_alert demo_routes = Some (demo_routes ! 1, ''disk full'')"
proof -
  have routes: "demo_routes = [demo_routes ! 0, demo_routes ! 1]" by (simp add: demo_routes_def)
  have "found_matches (\<lambda>_ _. None) demo_alert [demo_routes ! 0, demo_routes ! 1]
      = [(identity (demo_routes ! 1), demo_routes ! 1, ''disk full'')]"
    unfolding demo_text by (simp add: add_match_def demo_admitted [unfolded One_nat_def])
  then show ?thesis by (subst routes) (simp add: match_message_route_def Let_def)
qed

theorem matched_route_admits_witness:
  "match_message_route (\<lambda>_ _. None) demo_alert demo_routes = Some (demo_routes ! 1, ''disk full'')
   \<and> im_user_id demo_alert \<in> set (rt_trusted_user_ids (demo_routes ! 1))"
  using matched_route_admits [OF demo_match] demo_match by (simp add: demo_alert_def)

section \<open>Ambiguity\<close>

text \<open>Routes of one rule or one set of triggers have one priority.\<close>

definition rules_agree :: "message_route list \<Rightarrow> bool" where
  "rules_agree routes \<longleftrightarrow> (\<forall>r \<in> set routes. \<forall>r' \<in> set routes. identity r = identity r' \<longrightarrow> rt_priority r = rt_priority r')"

lemma rules_agreeD: "rules_agree routes \<Longrightarrow> r \<in> set routes \<Longrightarrow> r' \<in> set routes \<Longrightarrow> identity r = identity r' \<Longrightarrow> rt_priority r = rt_priority r'"
  unfolding rules_agree_def by blast

definition entry_priority :: "message_route \<times> string \<Rightarrow> int" where
  "entry_priority e = rt_priority (fst e)"

lemma single_case: "(case xs of [] \<Rightarrow> None | [w] \<Rightarrow> Some w | w # v # vs \<Rightarrow> None) = Some w \<longleftrightarrow> xs = [w]"
  by (auto split: list.split)

definition best_entries :: "(message_route \<times> string) list \<Rightarrow> (message_route \<times> string) list" where
  "best_entries found = filter (\<lambda>e. entry_priority e = Max (entry_priority ` set found)) found"

lemma match_as_filter:
  "match_message_route rx m routes = Some w \<longleftrightarrow>
     map snd (found_matches rx m routes) \<noteq> [] \<and> best_entries (map snd (found_matches rx m routes)) = [w]"
proof -
  have c: "(\<lambda>(r, p :: string). rt_priority r) = entry_priority" by (auto simp: entry_priority_def fun_eq_iff)
  have d: "(\<lambda>(r, p :: string). rt_priority r = n) = (\<lambda>e. entry_priority e = n)" for n by (auto simp: entry_priority_def fun_eq_iff)
  show ?thesis
    unfolding match_message_route_def Let_def c d best_entries_def set_map [of entry_priority] by (simp add: single_case)
qed

text \<open>An entry for a route that is admitted, with the priority of the route.\<close>

lemma found_for:
  assumes "rules_agree routes" "r \<in> set routes" "admitted rx m (routed_text m) r \<noteq> None"
  obtains r0 p0 where "(identity r, r0, p0) \<in> set (found_matches rx m routes)" "rt_priority r0 = rt_priority r"
    "r0 \<in> set routes" "identity r0 = identity r"
proof -
  obtain r0 p0 where e: "(identity r, r0, p0) \<in> set (found_matches rx m routes)"
    using found_complete [OF assms(2,3)] by auto
  then have "r0 \<in> set routes" "identity r0 = identity r" using found_entry [OF e] by auto
  moreover from this have "rt_priority r0 = rt_priority r" by (rule rules_agreeD [OF assms(1) _ assms(2)])
  ultimately show thesis using that e by blast
qed

lemma distinct_singleton: "distinct xs \<Longrightarrow> x \<in> set xs \<Longrightarrow> (\<And>y. y \<in> set xs \<Longrightarrow> y = x) \<Longrightarrow> xs = [x]"
proof (cases xs)
  case (Cons y ys)
  assume d: "distinct xs" and all: "\<And>y. y \<in> set xs \<Longrightarrow> y = x"
  have "ys = []" using d Cons all [of y] all [of "hd ys"] by (cases ys) auto
  then show ?thesis using Cons all [of y] by simp
qed simp

lemma chosen_is_best:
  assumes "rules_agree routes" "match_message_route rx m routes = Some (r, p)"
    and "r' \<in> set routes" "admitted rx m (routed_text m) r' \<noteq> None"
  shows "rt_priority r' < rt_priority r \<or> identity r' = identity r"
proof -
  let ?found = "map snd (found_matches rx m routes)"
  have w: "filter (\<lambda>e. entry_priority e = Max (entry_priority ` set ?found)) ?found = [(r, p)]"
    using assms(2) unfolding match_as_filter best_entries_def by (rule conjunct2)
  obtain r0 p0 where e: "(identity r', r0, p0) \<in> set (found_matches rx m routes)" "rt_priority r0 = rt_priority r'" "identity r0 = identity r'"
    using found_for [OF assms(1,3,4)] by metis
  have in_found: "(r0, p0) \<in> set ?found" using e(1) by force
  have "(r, p) \<in> set (filter (\<lambda>e. entry_priority e = Max (entry_priority ` set ?found)) ?found)" by (simp only: w) simp
  then have top: "entry_priority (r, p) = Max (entry_priority ` set ?found)" by simp
  have "entry_priority (r0, p0) \<le> Max (entry_priority ` set ?found)" using in_found by (intro Max_ge) auto
  moreover have "(r0, p0) = (r, p)" if "entry_priority (r0, p0) = Max (entry_priority ` set ?found)"
  proof -
    have "(r0, p0) \<in> set (filter (\<lambda>e. entry_priority e = Max (entry_priority ` set ?found)) ?found)" using in_found that by simp
    then show ?thesis by (simp only: w) simp
  qed
  ultimately have "entry_priority (r0, p0) < entry_priority (r, p) \<or> (r0, p0) = (r, p)"
    unfolding top using order.not_eq_order_implies_strict by blast
  then show ?thesis using e(2,3) by (auto simp: entry_priority_def)
qed

lemma best_is_chosen:
  assumes "rules_agree routes" "r \<in> set routes" "admitted rx m (routed_text m) r \<noteq> None"
    and best: "\<And>r'. r' \<in> set routes \<Longrightarrow> admitted rx m (routed_text m) r' \<noteq> None \<Longrightarrow> rt_priority r' < rt_priority r \<or> identity r' = identity r"
  shows "match_message_route rx m routes \<noteq> None"
proof -
  let ?entries = "found_matches rx m routes"
  let ?found = "map snd ?entries"
  obtain r0 p0 where e: "(identity r, r0, p0) \<in> set ?entries" "rt_priority r0 = rt_priority r"
    using found_for [OF assms(1-3)] by metis
  have le: "entry_priority (snd x) \<le> rt_priority r \<and> (entry_priority (snd x) = rt_priority r \<longrightarrow> fst x = identity r)"
    if x: "x \<in> set ?entries" for x
  proof -
    obtain r1 p1 where r1: "r1 \<in> set routes" "admitted rx m (routed_text m) r1 = Some p1" "x = (identity r1, r1, p1)"
      using found_entry [OF x] by blast
    show ?thesis
      using best [of r1] r1 rules_agreeD [OF assms(1) r1(1) assms(2)] by (auto simp: entry_priority_def)
  qed
  have max: "Max (entry_priority ` set ?found) = rt_priority r"
    by (rule Max_eqI) (use le e in \<open>force simp: entry_priority_def\<close>)+
  have dist: "distinct ?entries" "\<And>x y. x \<in> set ?entries \<Longrightarrow> y \<in> set ?entries \<Longrightarrow> fst x = fst y \<Longrightarrow> x = y"
    using found_distinct [of rx m routes] distinct_map_inj [OF found_distinct] by (simp_all add: distinct_map)
  have "filter (\<lambda>x. entry_priority (snd x) = rt_priority r) ?entries = [(identity r, r0, p0)]"
  proof (rule distinct_singleton)
    show "distinct (filter (\<lambda>x. entry_priority (snd x) = rt_priority r) ?entries)" using dist(1) by simp
    show "(identity r, r0, p0) \<in> set (filter (\<lambda>x. entry_priority (snd x) = rt_priority r) ?entries)"
      using e by (simp add: entry_priority_def)
    show "y = (identity r, r0, p0)" if "y \<in> set (filter (\<lambda>x. entry_priority (snd x) = rt_priority r) ?entries)" for y
      using that le dist(2) [OF _ e(1)] by simp
  qed
  then have "filter (\<lambda>e. entry_priority e = Max (entry_priority ` set ?found)) ?found = [(r0, p0)]"
    unfolding max filter_map o_def by simp
  moreover have "?found \<noteq> []" using e(1) by auto
  ultimately have "match_message_route rx m routes = Some (r0, p0)" unfolding match_as_filter best_entries_def by (intro conjI)
  then show ?thesis by simp
qed

text \<open>
  C38. A message gets a route exactly when one of the routes that admit it is best: every other route that admits
  it has a lower priority or belongs to the same rule.  Two rules of the same highest priority cancel the task.
\<close>

theorem route_chosen_iff_unique_best:
  assumes "rules_agree routes"
  shows "match_message_route regex_search m routes \<noteq> None \<longleftrightarrow>
    (\<exists>r \<in> set routes. admitted regex_search m (routed_text m) r \<noteq> None
       \<and> (\<forall>r' \<in> set routes. admitted regex_search m (routed_text m) r' \<noteq> None \<longrightarrow>
            rt_priority r' < rt_priority r \<or> identity r' = identity r))"
proof
  assume "match_message_route regex_search m routes \<noteq> None"
  then obtain r p where w: "match_message_route regex_search m routes = Some (r, p)" by auto
  show "\<exists>r \<in> set routes. admitted regex_search m (routed_text m) r \<noteq> None
       \<and> (\<forall>r' \<in> set routes. admitted regex_search m (routed_text m) r' \<noteq> None \<longrightarrow>
            rt_priority r' < rt_priority r \<or> identity r' = identity r)"
    using match_entry [OF w] chosen_is_best [OF assms w] by (intro bexI [of _ r]) auto
next
  assume "\<exists>r \<in> set routes. admitted regex_search m (routed_text m) r \<noteq> None
       \<and> (\<forall>r' \<in> set routes. admitted regex_search m (routed_text m) r' \<noteq> None \<longrightarrow>
            rt_priority r' < rt_priority r \<or> identity r' = identity r)"
  then show "match_message_route regex_search m routes \<noteq> None" using best_is_chosen [OF assms] by blast
qed

lemma demo_agree: "rules_agree demo_routes"
  by (auto simp: rules_agree_def demo_routes_def identity_def new_route_def)

theorem route_chosen_iff_unique_best_witness:
  "\<exists>r \<in> set demo_routes. admitted (\<lambda>_ _. None) demo_alert (routed_text demo_alert) r \<noteq> None"
  using route_chosen_iff_unique_best [OF demo_agree, of "\<lambda>_ _. None" demo_alert] demo_match by auto

end
