(* ===== verification/Ingress_Safety.thy ===== *)
theory Ingress_Safety
  imports Ingress_Routes
begin

text \<open>
  What a message may do to the database: at most one new task, of the workflow of the route that admitted it; a
  reply to a waiting task is recorded instead; a message of an untrusted bot does nothing.  Then the bounds of the
  context that goes into a prompt.
\<close>

section \<open>Effects that leave the database alone\<close>

definition keeps_db :: "(db \<times> 'w, 'a) io \<Rightarrow> bool" where
  "keeps_db m \<longleftrightarrow> (\<forall>s. fst (snd (m s)) = fst s)"

lemma keeps_dbD: "keeps_db m \<Longrightarrow> fst (snd (m s)) = fst s"
  unfolding keeps_db_def by (rule spec)

lemma keeps_db_return [intro]: "keeps_db (io_return x)"
  by (simp add: keeps_db_def io_return_def)

lemma keeps_db_raise [intro]: "keeps_db (io_raise e)"
  by (simp add: keeps_db_def io_raise_def)

lemma keeps_db_net [intro]: "keeps_db (on_net m)"
  by (simp add: keeps_db_def on_net_def split: prod.split)

lemma keeps_db_lift [intro]: "keeps_db (io_lift r)"
  by (cases r) auto

lemma keeps_db_bind [intro]:
  assumes "keeps_db m" "\<And>x. keeps_db (f x)"
  shows "keeps_db (io_bind m f)"
  unfolding keeps_db_def
proof
  fix s
  obtain r s' where m: "m s = (r, s')" by (cases "m s")
  then have "fst s' = fst s" using keeps_dbD [OF assms(1), of s] by simp
  then show "fst (snd (io_bind m f s)) = fst s" using keeps_dbD [OF assms(2)] m by (cases r) (simp_all add: io_bind_def)
qed

lemma keeps_db_post: "keeps_db (post_to_thread env m body)"
  unfolding post_to_thread_def by (intro keeps_db_bind keeps_db_lift keeps_db_net keeps_db_return)

section \<open>Submitting\<close>

lemma merge_into_ids:
  "merge_into tx_now metadata check existing d = Inr (sub, d') \<Longrightarrow> map t_id (tasks d') = map t_id (tasks d)"
  by (auto simp: merge_into_def Let_def result_bind_Inr_iff update_tasks_def update_where_def)

lemma try_merges_ids:
  "try_merges now tx_now metadata checks d = Some (Inr (sub, d')) \<Longrightarrow> map t_id (tasks d') = map t_id (tasks d)"
  by (induction checks) (auto split: option.splits dest: merge_into_ids)

definition new_task_of :: "task_args \<Rightarrow> db \<Rightarrow> db \<Rightarrow> bool" where
  "new_task_of args d d' \<longleftrightarrow> (\<exists>t. tasks d' = tasks d @ [t] \<and> t_workflow t = ta_workflow args \<and> t_status t = Queued
     \<and> t_message_thread t = ta_message_thread args)"

lemma submit_task_effect:
  assumes "submit_task package_config now tx_now args dedupe d = Inr (sub, d')"
  shows "map t_id (tasks d') = map t_id (tasks d) \<or> new_task_of args d d'"
proof (cases "try_merges now tx_now (ta_metadata args) (filter (\<lambda>c. dc_key c \<noteq> [] \<and> dc_window_sec c > 0) dedupe) d")
  case None
  then have "new_task_of args d d'"
    using assms by (auto simp: submit_task_def Let_def create_task_def new_task_of_def insert_task_def insert_row_def new_task_def
        case_prod_unfold)
  then show ?thesis ..
next
  case (Some r)
  then have "r = Inr (sub, d')" using assms by (simp add: submit_task_def Let_def)
  then show ?thesis using try_merges_ids Some by blast
qed

text \<open>One of the two effects, or none.\<close>

definition at_most_new :: "string \<Rightarrow> string \<Rightarrow> db \<Rightarrow> db \<Rightarrow> bool" where
  "at_most_new workflow thread d d' \<longleftrightarrow> map t_id (tasks d') = map t_id (tasks d)
     \<or> (\<exists>t. tasks d' = tasks d @ [t] \<and> t_workflow t = workflow \<and> t_status t = Queued \<and> t_message_thread t = Some thread)"

lemma at_most_new_refl: "at_most_new workflow thread d d"
  by (simp add: at_most_new_def)

lemma submit_message_effect:
  "at_most_new (rt_workflow route) (im_thread_id m) (fst s) (fst (snd (submit_message env m route envelope prompt n s)))"
proof -
  let ?args = "message_task_args m route prompt n envelope"
  let ?dedupe = "dedupe_checks (ie_sha256 env) route m envelope"
  have frame: "fst (snd ((case ts_duplicate_of sub of
         None \<Rightarrow> post_to_thread env m '':brain: Working on it...''
       | Some check \<Rightarrow>
           (if dc_action check = ''reply''
            then post_to_thread env m (duplicate_notice (ie_settings env) (ie_now env) (ts_task sub) m)
            else io_return ())) t)) = fst t" for sub t
    by (cases "ts_duplicate_of sub") (simp_all add: keeps_dbD [OF keeps_db_post] io_return_def)
  show ?thesis
  proof (cases "submit_task (ie_package_config env) (ie_now env) (ie_tx_now env) ?args ?dedupe (fst s)")
    case (Inl e)
    then show ?thesis by (simp add: submit_message_def io_bind_def on_db_def at_most_new_refl)
  next
    case (Inr p)
    obtain sub d' where p: "p = (sub, d')" by (cases p)
    have "fst (snd (submit_message env m route envelope prompt n s)) = d'"
      using Inr p frame [of sub "(d', snd s)"] by (simp add: submit_message_def io_bind_def on_db_def)
    moreover have "at_most_new (rt_workflow route) (im_thread_id m) (fst s) d'"
      using submit_task_effect [of _ _ _ ?args ?dedupe "fst s" sub d'] Inr p
      by (auto simp: at_most_new_def new_task_of_def message_task_args_def)
    ultimately show ?thesis by simp
  qed
qed

lemma route_message_effect:
  assumes "match_message_route (ie_regex_search env) m routes = Some (route, prompt)"
  shows "at_most_new (rt_workflow route) (im_thread_id m) (fst s) (fst (snd (route_message env routes m s)))"
proof -
  obtain r s' where h: "on_net (hydrate_thread_prompt env m prompt) s = (r, s')" by (rule prod.exhaust)
  then have db: "fst s' = fst s" using keeps_dbD [OF keeps_db_net, of "hydrate_thread_prompt env m prompt" s] by simp
  show ?thesis
  proof (cases r)
    case (Inr x)
    show ?thesis
    proof (cases x)
      case None
      then show ?thesis using assms h Inr db
        by (simp add: route_message_def Let_def io_bind_def io_return_def at_most_new_refl)
    next
      case (Some y)
      obtain full n where y: "y = (full, n)" by (cases y)
      have "route_message env routes m s
          = submit_message env m route (if rt_rule_id route \<noteq> [] then parse_alert_envelope prompt else None) full n s'"
        using assms h Inr Some y by (simp add: route_message_def Let_def io_bind_def)
      then show ?thesis using submit_message_effect [of route m s'] db by simp
    qed
  qed (use assms h db in \<open>simp add: route_message_def Let_def io_bind_def at_most_new_refl\<close>)
qed

lemma record_reply_tasks: "tasks (snd (record_question_reply tx_now m d)) = tasks d"
  by (simp add: record_question_reply_def split: option.split)

text \<open>
  C37. A message adds at most one task: either the tasks stay the same ones, or one queued task was added at the
  end, for the workflow of the route that the message was matched to and for the thread of the message.
\<close>

theorem one_message_one_task:
  assumes "handle_message env g m s = (r, s')"
  shows "map t_id (tasks (fst s')) = map t_id (tasks (fst s))
    \<or> (\<exists>route prompt t. match_message_route (ie_regex_search env) m (gi_routes g) = Some (route, prompt)
         \<and> tasks (fst s') = tasks (fst s) @ [t] \<and> t_workflow t = rt_workflow route \<and> t_status t = Queued
         \<and> t_message_thread t = Some (im_thread_id m))"
proof -
  have routed: "map t_id (tasks (fst (snd (route_message env (gi_routes g) m t)))) = map t_id (tasks (fst t))
    \<or> (\<exists>route prompt u. match_message_route (ie_regex_search env) m (gi_routes g) = Some (route, prompt)
         \<and> tasks (fst (snd (route_message env (gi_routes g) m t))) = tasks (fst t) @ [u] \<and> t_workflow u = rt_workflow route
         \<and> t_status u = Queued \<and> t_message_thread u = Some (im_thread_id m))" for t :: "db \<times> 'a"
  proof (cases "match_message_route (ie_regex_search env) m (gi_routes g)")
    case (Some p)
    obtain route prompt where "p = (route, prompt)" by (cases p)
    with Some route_message_effect [of env m "gi_routes g" route prompt t] show ?thesis by (auto simp: at_most_new_def)
  qed (simp add: route_message_def io_return_def)
  show ?thesis
  proof (cases "(gi_bot_user_id g \<noteq> [] \<and> im_user_id m = gi_bot_user_id g) \<or> im_text m = []")
    case True
    with assms show ?thesis by (auto simp: handle_message_def io_return_def split: if_splits)
  next
    case False
    then have h: "handle_message env g m s = (if im_is_bot m \<or> im_is_webhook m then route_message env (gi_routes g) m s
        else let (recorded, d) = record_question_reply (ie_tx_now env) m (fst s)
             in if recorded then (Inr (), (d, snd s)) else route_message env (gi_routes g) m (d, snd s))"
      by (auto simp: handle_message_def io_bind_def io_return_def on_db_def Let_def split: prod.split)
    show ?thesis
    proof (cases "im_is_bot m \<or> im_is_webhook m")
      case True
      then have "route_message env (gi_routes g) m s = (r, s')" using h assms by simp
      from routed [of s, unfolded this] show ?thesis by simp
    next
      case human: False
      obtain recorded d where rec: "record_question_reply (ie_tx_now env) m (fst s) = (recorded, d)" by (rule prod.exhaust)
      then have d: "tasks d = tasks (fst s)" using record_reply_tasks [of "ie_tx_now env" m "fst s"] by simp
      show ?thesis
      proof (cases recorded)
        case True
        then have "handle_message env g m s = (Inr (), (d, snd s))" using h human rec by simp
        then show ?thesis using assms d by simp
      next
        case False
        then have "route_message env (gi_routes g) m (d, snd s) = (r, s')" using h human rec assms by simp
        from routed [of "(d, snd s)", unfolded this] d show ?thesis by simp
      qed
    qed
  qed
qed


text \<open>
  C39. A person's message in the thread of a task that waits for an answer is recorded as the answer of such a
  task; no task is created or changed, and nothing is sent.
\<close>

theorem reply_reaches_waiting_task:
  assumes "t \<in> set (tasks (fst s))" "waits_for_reply m t" "im_text m \<noteq> []" "\<not> im_is_bot m" "\<not> im_is_webhook m"
    and "im_user_id m \<noteq> gi_bot_user_id g"
  shows "\<exists>t' data. t' \<in> set (tasks (fst s)) \<and> waits_for_reply m t' \<and> dict_get data ''message'' = PStr (im_text m)
    \<and> handle_message env g m s =
        (Inr (), (add_session_event (Some (t_id t')) ''user_question_reply'' (ie_tx_now env) data (fst s), snd s))"
proof -
  obtain t' where t': "first_row (select_where (waits_for_reply m) (tasks (fst s))) = Some t'"
    using assms(1,2) by (cases "select_where (waits_for_reply m) (tasks (fst s))") (auto simp: select_where_def filter_empty_conv)
  then have "t' \<in> set (tasks (fst s))" "waits_for_reply m t'"
    by (auto dest!: first_row_in simp: select_where_def)
  with t' assms(3-6) show ?thesis
    by (intro exI conjI [rotated]) (auto simp: handle_message_def record_question_reply_def io_bind_def io_return_def on_db_def)
qed

section \<open>A small gateway\<close>

definition demo_client :: "unit http_client" where
  "demo_client request w = (Inl (Http_failure ''offline''), w)"

definition demo_env :: "settings \<Rightarrow> unit ingress_env" where
  "demo_env cfg = \<lparr>ie_settings = cfg, ie_client = demo_client, ie_sha256 = (\<lambda>s. s), ie_regex_search = (\<lambda>_ _. None),
     ie_package_config = (\<lambda>_. None), ie_now = 60, ie_tx_now = 60\<rparr>"

definition demo_ingress :: gateway_ingress where
  "demo_ingress = \<lparr>gi_listener = None, gi_bot_user_id = ''b0'', gi_routes = demo_routes\<rparr>"

definition reply_db :: db where
  "reply_db = empty_db\<lparr>tasks := [(new_task 7 ''ops'' ''deploy'' 0)
     \<lparr>t_status := Waiting_user_input, t_channel := Some ''mattermost'', t_message_thread := Some ''m1''\<rparr>]\<rparr>"

definition demo_reply :: inbound_message where
  "demo_reply = demo_alert\<lparr>im_is_bot := False, im_user_id := ''u5''\<rparr>"

theorem one_message_one_task_witness:
  "\<exists>r s'. handle_message (demo_env default_settings) demo_ingress demo_alert (empty_db, ()) = (r, s') \<and> length (tasks (fst s')) \<le> 1"
proof -
  obtain r s' where h: "handle_message (demo_env default_settings) demo_ingress demo_alert (empty_db, ()) = (r, s')"
    by (rule prod.exhaust)
  have none: "tasks (fst (empty_db, ())) = []" by (simp add: empty_db_def)
  from one_message_one_task [OF h] have "length (tasks (fst s')) \<le> 1" unfolding none by auto
  with h show ?thesis by blast
qed


theorem reply_reaches_waiting_task_witness:
  "\<exists>t' data. waits_for_reply demo_reply t' \<and> dict_get data ''message'' = PStr ''alert disk full''
    \<and> handle_message (demo_env default_settings) demo_ingress demo_reply (reply_db, ())
        = (Inr (), (add_session_event (Some (t_id t')) ''user_question_reply'' 60 data reply_db, ()))"
proof -
  have "hd (tasks reply_db) \<in> set (tasks (fst (reply_db, ())))" "waits_for_reply demo_reply (hd (tasks reply_db))"
    by (simp_all add: reply_db_def waits_for_reply_def demo_reply_def demo_alert_def)
  from reply_reaches_waiting_task [OF this, of demo_ingress "demo_env default_settings"] show ?thesis
    by (auto simp: demo_reply_def demo_alert_def demo_ingress_def demo_env_def)
qed

section \<open>The lookup of a Slack channel\<close>

text \<open>
  The lookup follows the cursors of the answers without a limit: a server that repeats a cursor, and never
  shows the channel, keeps it running.
\<close>

theorem slack_lookup_can_loop:
  assumes "\<And>cursor w. fetch cursor w = (Inr payload, w)" "next_cursor payload \<noteq> []"
    and "py_iter (dict_get_default payload ''channels'' (PList [])) = Inr channels" "channel_on_page name channels = None"
  shows "search_channels fetch name cursor w = None"
proof -
  have ends: "f = fetch \<and> n = name \<longrightarrow> False" if "search_channels f n cursor w = Some y" for f n cursor w y
    using that
  proof (rule search_channels.raw_induct [where P = "\<lambda>f n cursor w y. f = fetch \<and> n = name \<longrightarrow> False", rotated])
    fix loop f n cursor w y
    assume IH: "\<And>f n cursor w y. loop f n cursor w = Some y \<Longrightarrow> f = fetch \<and> n = name \<longrightarrow> False"
      and step: "(case f cursor w of
        (Inl e, w') \<Rightarrow> Some (Inl e, w')
      | (Inr payload, w') \<Rightarrow>
          (case py_iter (dict_get_default payload ''channels'' (PList [])) of
             Inl e \<Rightarrow> Some (Inl (Python_error e), w')
           | Inr channels \<Rightarrow>
               (case channel_on_page n channels of
                  Some i \<Rightarrow> Some (Inr i, w')
                | None \<Rightarrow>
                    (if next_cursor payload = []
                     then Some (Inl (Api_error (''Slack channel '' @ quote_name n @ '' was not found for the configured bot token'')), w')
                     else loop f n (next_cursor payload) w')))) = Some y"
    show "f = fetch \<and> n = name \<longrightarrow> False"
    proof
      assume "f = fetch \<and> n = name"
      with step assms have "loop fetch name (next_cursor payload) w = Some y" by simp
      then show False using IH [of fetch name "next_cursor payload" w y] by simp
    qed
  qed
  show ?thesis
  proof (cases "search_channels fetch name cursor w")
    case (Some y)
    then show ?thesis using ends [of fetch name cursor w y] by simp
  qed
qed

text \<open>An answer with one other channel and a cursor.\<close>

definition demo_page :: pydict where
  "demo_page = [(''channels'', PList [PDict [(''name'', PStr ''random''), (''id'', PStr ''C1'')]]),
     (''response_metadata'', PDict [(''next_cursor'', PStr ''x'')])]"

theorem slack_lookup_can_loop_witness: "search_channels (\<lambda>_ w. (Inr demo_page, w)) ''alerts'' [] () = None"
proof (rule slack_lookup_can_loop)
  show "next_cursor demo_page \<noteq> []" by (simp add: next_cursor_def demo_page_def)
  show "py_iter (dict_get_default demo_page ''channels'' (PList [])) = Inr [PDict [(''name'', PStr ''random''), (''id'', PStr ''C1'')]]"
    by (simp add: demo_page_def)
  show "channel_on_page ''alerts'' [PDict [(''name'', PStr ''random''), (''id'', PStr ''C1'')]] = None" by code_simp
qed simp

end
