(* ===== verification/Spec2Isabelle.thy ===== *)
theory Spec2Isabelle
  imports Task_Dequeue Task_Sweeps Task_Queries Wait_Clock Message_Bus Approvals Approval_Broker Message_Actions
    Event_Collector Background_Jobs Call_Budget Heartbeat_Monitor Scheduler Housekeeping
    Knowledge_Grants Hybrid_Search Knowledge_Publication Sync_Invariant Graph_Queries Knowledge_Registry
    Db_Invariant Trace_Counts Ingress_Safety
begin

text \<open>
  A verification library for SAGE Run, a platform that queues agent tasks, runs them in containers,
  and lets people approve, answer and follow them through a message provider.

  \<^bold>\<open>The program.\<close>  A gateway (\<open>src/gateway\<close>) accepts work: schedules, messages and API calls create rows in
  the task table.  A session manager (\<open>src/session-manager\<close>) takes tasks from the queue, starts their
  containers and watches them.  The runtime in a container posts events to the gateway, which folds them
  into the task row, its sessions and its approvals; decisions come back from the message provider.  Long
  maintenance runs as durable background jobs.  Knowledge sources are indexed into immutable versions,
  published to an object store, and served to agents from a local cache and from a vector index.

  \<^bold>\<open>Shared ground.\<close>  \<open>Prelude\<close> has the result type (a raised exception is \<open>Inl\<close>), time and list lemmas;
  \<open>Py_Values\<close> and \<open>Py_Text\<close> the JSON values and string operations of Python that the code uses;
  \<open>Db_Tables\<close> tables as lists of rows, with the locales \<open>row_update\<close> (one update by key) and \<open>sweep\<close>
  (select, change each, report), which every sweep below interprets; \<open>Db_Models\<close> the records of
  \<open>shared/lib/models.py\<close> and the database state \<open>db\<close>; \<open>Settings\<close> the defaults of \<open>shared/lib/config.py\<close>.

  \<^bold>\<open>Tasks.\<close>  \<open>Task_Queue\<close>, \<open>Task_Dequeue\<close>, \<open>Task_Sweeps\<close>, \<open>Task_Queries\<close> model \<open>shared/lib/task_queue.py\<close>:
  creation with routing and duplicate merge, admission and the retry loop of \<open>dequeue_task\<close> (equal to a
  one-line choice, within the limits), status changes, the lost and timeout sweeps (exact and idempotent),
  listing (pages cover the matches).  \<open>Wait_Clock\<close> joins them: the active runtime stands still during a
  human wait.  \<open>Event_Collector\<close> is \<open>gateway/event_collector.py\<close>: every branch of \<open>receive_event\<close> and the token
  totals, which never decrease.  \<open>Heartbeat_Monitor\<close> is \<open>session-manager/heartbeat.py\<close>, \<open>Scheduler\<close> is
  \<open>gateway/scheduler.py\<close> (a reload mirrors the enabled schedules), \<open>Housekeeping\<close> is
  \<open>shared/lib/housekeeping.py\<close> with the backup rotation of \<open>sage_run/backups.py\<close>, \<open>Background_Jobs\<close> is
  \<open>shared/lib/background_jobs.py\<close> (a finished run is final), \<open>Call_Budget\<close> is \<open>shared/lib/task_call_budget.py\<close>.

  \<^bold>\<open>People.\<close>  \<open>Approvals\<close> folds approval events into rows (\<open>shared/lib/approvals.py\<close>), \<open>Approval_Broker\<close> posts
  prompts and records decisions (\<open>gateway/approval_broker.py\<close>), \<open>Message_Actions\<close> checks the interactive actions
  of \<open>gateway/message.py\<close>, \<open>Message_Bus\<close> is \<open>shared/lib/message_bus.py\<close>.  One open approval per task and tool;
  a button selects the approval it was made for; a decided approval never changes.

  \<^bold>\<open>Messages.\<close>  \<open>Provider_Api\<close> is \<open>shared/lib/mattermost_api.py\<close> and \<open>slack_api.py\<close>: every request, over an HTTP client
  that takes and returns the state of the outside world.  \<open>Message_Events\<close> (\<open>shared/lib/message_ingress.py\<close>)
  normalizes socket payloads and reads the sockets; \<open>Message_Routes\<close> (\<open>gateway/plugin_dir.py\<close>) reads the routes
  of the workflow packages; \<open>Alert_Envelope\<close> (\<open>shared/lib/alert_envelope.py\<close>) reads the identity of an alert;
  \<open>Message_Ingress\<close> (\<open>gateway/message_ingress.py\<close>) matches a route, renders the thread, submits the task and
  answers.  \<open>Ingress_Routes\<close> shows that configured routes are well formed, what a matched route guarantees
  about the sender, and that a route is chosen exactly when it is best alone; \<open>Ingress_Safety\<close> that a message
  adds at most one task, that untrusted automation changes nothing, that a reply reaches a task that waits for
  it, and that the lookup of a Slack channel need not end.

  \<^bold>\<open>Knowledge.\<close>  All files are \<open>shared/lib/knowledge_source_*.py\<close>.  \<open>Object_Store\<close> is the store protocol with its
  S3 and GCS adapters; \<open>Knowledge_Bundle\<close> the bundle verifier of \<open>graphify\<close>; \<open>Knowledge_Publication\<close> the
  upload, promotion and failure of \<open>publication\<close> (nothing stored is ever overwritten); \<open>Knowledge_Sync\<close> the
  transactions of \<open>indexer\<close>, and \<open>Sync_Invariant\<close> their interleaving as a step relation: the serving pointer of
  a source always names a finished version of it, and a whole run is a sequence of those steps.
  \<open>Knowledge_Cache\<close> is \<open>cache\<close>: hydration with all its checks.  \<open>Knowledge_Registry\<close> and \<open>Graph_Queries\<close> are
  \<open>serving\<close>: refresh against readers, with the invariant that a pinned directory is never removed, and the
  queries (paths, search, neighbours).  \<open>Knowledge_Grants\<close> is \<open>authorization\<close>; \<open>Hybrid_Ranking\<close>,
  \<open>Hybrid_Search\<close> and \<open>Embeddings\<close> are \<open>hybrid_retrieval\<close> and \<open>embeddings\<close>: rank fusion equals its
  reference sum, and a response is confined to the promoted version and to its byte bound.

  \<^bold>\<open>Sessions and configuration.\<close>  \<open>Secrets\<close> is \<open>shared/lib/crypto.py\<close> and \<open>connections.py\<close>: encrypted values and
  named connections.  \<open>Platform_Config\<close> merges an overlay into the platform file and finds the encrypted values it
  leaves in place; \<open>Platform_Secrets\<close> derives the variables of services and runtimes from the platform
  secrets.  \<open>Session_Env\<close> is the environment of an agent container (\<open>session-manager/container_lifecycle.py\<close>)
  with the deny list of \<open>runtime/session_entrypoint.py\<close>: a variable that holds a decrypted secret is denied to
  sandboxed commands.  \<open>Queue_Consumer\<close> is one round of \<open>queue_consumer_loop\<close> in \<open>session-manager/main.py\<close>, and
  \<open>Container_Exit\<close> what \<open>monitor_containers\<close> does when a container ends.  \<open>Queue_Liveness\<close> composes claims and
  completions: the queue drains, in queue order.  \<open>Db_Invariant\<close> is the type invariant of the tables (keys
  are unique, references resolve) with all operations of the queue, the consumer, the collector, the sweeps and
  the exits as steps.

  \<^bold>\<open>Traces.\<close>  \<open>Trace_Tree\<close> is \<open>shared/lib/trace_tree.py\<close>, which turns the events of a session into a tree.  Nodes are
  shared and changed in place there, so they live in a store and are named by position.  \<open>Trace_Forest\<close> has the
  invariant of the store (children come after their parent, no node has two parents) for every handler, that
  the walk over the finished tree ends, and that the findings of a subagent stand last; \<open>Trace_Counts\<close> that
  the counts shown are those of the messages.

  \<^bold>\<open>Effects.\<close>  An operation takes the database and returns it changed; an operation that raises is rolled
  back unless the code commits earlier, and then the model returns the committed state beside the error.
  Row locks and \<open>SKIP LOCKED\<close> are a predicate of the rows that others hold.  Concurrent components are
  inductive step relations whose steps are the transactions or the blocks under one lock; their invariants
  are proved by rule induction over reachable states.

  \<^bold>\<open>Bounds and fuel.\<close>  Only the reader of token totals takes fuel, because it recurses through text that it
  parses again; any fuel from the length of the text on gives the same answer.  The retry loop of
  \<open>dequeue_task\<close> ends because each round blocks a workflow that still had a task; the breadth-first search for
  paths ends because a path weighs more than all its extensions.

  \<^bold>\<open>Parameters.\<close>  Code that is not in the repository is an argument with named laws: APScheduler, the clients of
  the message providers and of the object stores, git, Graphify, SHA-256, JSON and archive readers, the
  embedding and rerank services, the operators of the vector database, the HTTP client of the providers, and the
  search of the regular expressions that workflow packages configure.

  \<^bold>\<open>Not modelled.\<close>  Python floats and double precision columns are exact rationals; strings are one-byte
  characters with ASCII case mapping; the text of a \<open>TypeError\<close> is not kept.  The container launchers, the
  deployment commands, the rest of the runtime entrypoint around the agent SDK and the MCP adapters are I/O
  around third-party services.  The REST handlers of \<open>gateway/api.py\<close> that only read rows and format them, the
  fetching of Confluence pages, and the pydantic validation of configuration sections are left out.  \<open>explain_node\<close> walks a graph object of a third-party library.
\<close>

end
